(* ===== verification/Mmc_Prelude.thy ===== *)
theory Mmc_Prelude
  imports Main "HOL-Library.Word" "HOL-Library.State_Monad"
begin

text \<open>
  What the components share: names for the machine integers, the errno values of the
  return codes, the reader and writer of the state monad in which the stateful code is
  written, and the two ways of stating what such a program does.

  \<^item> \<open>state_io_rel R m\<close> (of the library's state monad) says that every run of \<open>m\<close>
    relates its first and last state by \<open>R\<close>.  The collection \<open>io_rel\<close> holds the rules
    that reduce it to the primitive updates of a program.
  \<^item> \<open>hoare P m Q\<close> is the usual triple; \<open>Q\<close> sees the result and the last state.
\<close>

unbundle bit_operations_syntax

type_synonym u8 = "8 word"
type_synonym u16 = "16 word"
type_synonym u32 = "32 word"
type_synonym u64 = "64 word"

named_theorems io_rel \<open>introduction rules for state_io_rel\<close>
named_theorems io_run \<open>the runs of the model's primitive operations\<close>

section \<open>Return codes\<close>

text \<open>The errno values a return code can be the negative of (Linux, asm-generic).\<close>

abbreviation (input) EPERM :: int where "EPERM \<equiv> 1"
abbreviation (input) ENOENT :: int where "ENOENT \<equiv> 2"
abbreviation (input) EIO :: int where "EIO \<equiv> 5"
abbreviation (input) EAGAIN :: int where "EAGAIN \<equiv> 11"
abbreviation (input) ENOMEM :: int where "ENOMEM \<equiv> 12"
abbreviation (input) EFAULT :: int where "EFAULT \<equiv> 14"
abbreviation (input) EBUSY :: int where "EBUSY \<equiv> 16"
abbreviation (input) EINVAL :: int where "EINVAL \<equiv> 22"
abbreviation (input) ERANGE :: int where "ERANGE \<equiv> 34"
abbreviation (input) ENOSYS :: int where "ENOSYS \<equiv> 38"
abbreviation (input) EBADMSG :: int where "EBADMSG \<equiv> 74"
abbreviation (input) EILSEQ :: int where "EILSEQ \<equiv> 84"
abbreviation (input) EOPNOTSUPP :: int where "EOPNOTSUPP \<equiv> 95"
abbreviation (input) ETIMEDOUT :: int where "ETIMEDOUT \<equiv> 110"
abbreviation (input) ENOMEDIUM :: int where "ENOMEDIUM \<equiv> 123"
abbreviation (input) ENOTSUPP :: int where "ENOTSUPP \<equiv> 524"

section \<open>The state monad\<close>

abbreviation (input) ret :: "'a \<Rightarrow> ('s, 'a) state" where
  "ret \<equiv> State_Monad.return"

definition gets :: "('s \<Rightarrow> 'a) \<Rightarrow> ('s, 'a) state" where
  "gets f = State (\<lambda>s. (f s, s))"

definition modify :: "('s \<Rightarrow> 's) \<Rightarrow> ('s, unit) state" where
  "modify f = State (\<lambda>s. ((), f s))"

definition io_when :: "bool \<Rightarrow> ('s, unit) state \<Rightarrow> ('s, unit) state" where
  "io_when b m = (if b then m else ret ())"

lemma run_gets [simp, io_run]: "run_state (gets f) s = (f s, s)"
  by (simp add: gets_def)

lemma run_modify [simp, io_run]: "run_state (modify f) s = ((), f s)"
  by (simp add: modify_def)

lemma run_io_when [simp, io_run]:
  "run_state (io_when b m) s = (if b then run_state m s else ((), s))"
  by (simp add: io_when_def)

subsection \<open>Relations between the first and the last state\<close>

text \<open>
  The rules need the relation to be reflexive and transitive, which the locale states
  once; a component interprets it for each relation it uses.
\<close>

locale io_preorder =
  fixes R :: "'s \<Rightarrow> 's \<Rightarrow> bool"
  assumes rfl: "R s s"
    and trn: "R s t \<Longrightarrow> R t u \<Longrightarrow> R s u"
begin

lemma rel_ret: "state_io_rel R (ret x)"
  by (auto simp: state_io_rel_def rfl)

lemma rel_gets: "state_io_rel R (gets f)"
  by (auto simp: state_io_rel_def rfl)

lemma rel_modify: "(\<And>s. R s (f s)) \<Longrightarrow> state_io_rel R (modify f)"
  by (auto simp: state_io_rel_def)

lemma rel_bind:
  assumes "state_io_rel R m" and "\<And>x. state_io_rel R (f x)"
  shows "state_io_rel R (m \<bind> f)"
  unfolding state_io_rel_def
proof
  fix s
  obtain x t where m: "run_state m s = (x, t)" by fastforce
  with assms(1) have "R s t" by (auto simp: state_io_rel_def dest: spec [of _ s])
  moreover from assms(2) have "R t (snd (run_state (f x) t))"
    by (simp add: state_io_rel_def)
  ultimately show "R s (snd (run_state (m \<bind> f) s))" by (simp add: m trn)
qed

lemma rel_io_when: "(b \<Longrightarrow> state_io_rel R m) \<Longrightarrow> state_io_rel R (io_when b m)"
  by (simp add: io_when_def rel_ret)

lemma rel_if:
  "(b \<Longrightarrow> state_io_rel R m) \<Longrightarrow> (\<not> b \<Longrightarrow> state_io_rel R n) \<Longrightarrow>
   state_io_rel R (if b then m else n)"
  by simp

lemma rel_option:
  "(x = None \<Longrightarrow> state_io_rel R m) \<Longrightarrow> (\<And>y. x = Some y \<Longrightarrow> state_io_rel R (f y)) \<Longrightarrow>
   state_io_rel R (case x of None \<Rightarrow> m | Some y \<Rightarrow> f y)"
  by (cases x) simp_all

lemma rel_prod:
  "(\<And>a b. x = (a, b) \<Longrightarrow> state_io_rel R (f a b)) \<Longrightarrow>
   state_io_rel R (case x of (a, b) \<Rightarrow> f a b)"
  by (cases x) simp_all

lemma rel_let: "(\<And>y. y = x \<Longrightarrow> state_io_rel R (f y)) \<Longrightarrow> state_io_rel R (let y = x in f y)"
  by simp

lemma rel_run: "state_io_rel R m \<Longrightarrow> run_state m s = (x, t) \<Longrightarrow> R s t"
  by (auto simp: state_io_rel_def dest: spec [of _ s])

lemmas rel_intros =
  rel_ret rel_gets rel_bind rel_io_when rel_if rel_option rel_prod rel_let

end

subsection \<open>Triples\<close>

definition hoare :: "('s \<Rightarrow> bool) \<Rightarrow> ('s, 'a) state \<Rightarrow> ('a \<Rightarrow> 's \<Rightarrow> bool) \<Rightarrow> bool" where
  "hoare P m Q \<longleftrightarrow> (\<forall>s. P s \<longrightarrow> (case run_state m s of (x, t) \<Rightarrow> Q x t))"

lemma hoareI: "(\<And>s x t. P s \<Longrightarrow> run_state m s = (x, t) \<Longrightarrow> Q x t) \<Longrightarrow> hoare P m Q"
  by (auto simp: hoare_def split: prod.split)

lemma hoareD: "hoare P m Q \<Longrightarrow> P s \<Longrightarrow> run_state m s = (x, t) \<Longrightarrow> Q x t"
  by (auto simp: hoare_def dest: spec [of _ s])

lemma hoare_bind:
  assumes "hoare P m Q" and "\<And>x. hoare (Q x) (f x) Q'"
  shows "hoare P (m \<bind> f) Q'"
proof (rule hoareI)
  fix s y u
  assume P: "P s" and run: "run_state (m \<bind> f) s = (y, u)"
  obtain x t where m: "run_state m s = (x, t)" by fastforce
  with assms(1) P have "Q x t" by (rule hoareD)
  moreover from run m have "run_state (f x) t = (y, u)" by simp
  ultimately show "Q' y u" using assms(2) [THEN hoareD] by blast
qed

lemma hoare_weaken:
  "hoare P' m Q' \<Longrightarrow> (\<And>s. P s \<Longrightarrow> P' s) \<Longrightarrow> (\<And>x t. Q' x t \<Longrightarrow> Q x t) \<Longrightarrow> hoare P m Q"
  by (rule hoareI) (auto dest: hoareD)

section \<open>Word arithmetic without wrap-around\<close>

lemma unat_mult_small:
  "unat a * unat b < 2 ^ LENGTH('a) \<Longrightarrow> unat (a * b :: 'a::len word) = unat a * unat b"
  by (simp add: unat_mult_lem)

lemma unat_add_small:
  "unat a + unat b < 2 ^ LENGTH('a) \<Longrightarrow> unat (a + b :: 'a::len word) = unat a + unat b"
  by (simp add: unat_add_lem)

lemma unat_push_small:
  "unat a * 2 ^ n < 2 ^ LENGTH('a) \<Longrightarrow> unat (push_bit n a :: 'a::len word) = unat a * 2 ^ n"
  by (simp add: unsigned_push_bit_eq push_bit_eq_mult [where 'a = nat] take_bit_nat_eq_self)

lemma unat_ucast_small:
  "unat a < 2 ^ LENGTH('b) \<Longrightarrow> unat (ucast (a :: 'a::len word) :: 'b::len word) = unat a"
  by (simp add: unsigned_ucast_eq take_bit_nat_eq_self)

lemmas unat_small = unat_mult_small unat_add_small unat_push_small unat_ucast_small

text \<open>A bound on every entry of a table bounds the entry at an index.\<close>

lemma nth_all: "list_all P xs \<Longrightarrow> i < length xs \<Longrightarrow> P (xs ! i)"
  by (simp add: list_all_length)

section \<open>Bit counting and alignment\<close>

text \<open>
  \<open>fls\<close>, \<open>ffs\<close>, \<open>is_power_of_2\<close>, \<open>round_up\<close> and \<open>round_down\<close> are the kernel's
  arithmetic helpers, with their documented values: \<open>ffs\<close> and \<open>fls\<close> give the 1-based
  position of the lowest and highest set bit and 0 for 0; \<open>round_up\<close> and \<open>round_down\<close>
  work with masks and are meant for powers of two.
\<close>

definition fls :: "u32 \<Rightarrow> nat" where
  "fls x = (case filter (\<lambda>n. bit x n) (rev [0..<32]) of [] \<Rightarrow> 0 | n # _ \<Rightarrow> Suc n)"

definition ffs :: "u32 \<Rightarrow> nat" where
  "ffs x = (case filter (\<lambda>n. bit x n) [0..<32] of [] \<Rightarrow> 0 | n # _ \<Rightarrow> Suc n)"

definition is_power_of_2 :: "u32 \<Rightarrow> bool" where
  "is_power_of_2 n \<longleftrightarrow> n \<noteq> 0 \<and> n AND (n - 1) = 0"

definition round_up :: "u32 \<Rightarrow> u32 \<Rightarrow> u32" where
  "round_up x y = ((x - 1) OR (y - 1)) + 1"

definition round_down :: "u32 \<Rightarrow> u32 \<Rightarrow> u32" where
  "round_down x y = x AND NOT (y - 1)"

definition b2w :: "bool \<Rightarrow> 'a::len word" where
  "b2w b = (if b then 1 else 0)"

lemma word32_bit_ex: "x \<noteq> 0 \<Longrightarrow> \<exists>n < 32. bit (x :: u32) n"
proof (rule ccontr)
  assume x: "x \<noteq> 0" and "\<not> (\<exists>n < 32. bit x n)"
  then have "x = 0" by (intro bit_word_eqI) auto
  with x show False by simp
qed

lemma fls_spec:
  assumes "x \<noteq> 0"
  shows "0 < fls x" "bit x (fls x - 1)" "\<And>n. bit x n \<Longrightarrow> n \<le> fls x - 1" "fls x \<le> 32"
proof -
  obtain m where m: "m < 32" "bit x m" using word32_bit_ex [OF assms] by blast
  then obtain n ns where f: "filter (bit x) (rev [0..<32]) = n # ns"
    by (cases "filter (bit x) (rev [0..<32])") (auto simp: filter_empty_conv)
  then have n: "n \<in> set (filter (bit x) (rev [0..<32]))" by simp
  have "sorted_wrt (>) (filter (bit x) (rev [0..<32]))"
    by (rule sorted_wrt_filter) (simp add: sorted_wrt_rev)
  with f have top: "\<forall>k \<in> set ns. k < n" by simp
  have fls: "fls x = Suc n" by (simp add: fls_def f)
  show "0 < fls x" "bit x (fls x - 1)" "fls x \<le> 32" using n fls by auto
  show "k \<le> fls x - 1" if "bit x k" for k
  proof -
    have "k < 32" using that bit_imp_le_length [of x k] by simp
    with that have "k \<in> set (filter (bit x) (rev [0..<32]))" by simp
    with f top fls show ?thesis by (auto intro: less_imp_le)
  qed
qed

lemma ffs_spec:
  assumes "x \<noteq> 0"
  shows "0 < ffs x" "bit x (ffs x - 1)" "\<And>n. bit x n \<Longrightarrow> ffs x - 1 \<le> n" "ffs x \<le> 32"
proof -
  obtain m where m: "m < 32" "bit x m" using word32_bit_ex [OF assms] by blast
  then obtain n ns where f: "filter (bit x) [0..<32] = n # ns"
    by (cases "filter (bit x) [0..<32]") (auto simp: filter_empty_conv)
  then have n: "n \<in> set (filter (bit x) [0..<32])" by simp
  have "sorted_wrt (<) (filter (bit x) [0..<32])"
    by (rule sorted_wrt_filter) simp
  with f have low: "\<forall>k \<in> set ns. n < k" by simp
  have ffs: "ffs x = Suc n" by (simp add: ffs_def f)
  show "0 < ffs x" "bit x (ffs x - 1)" "ffs x \<le> 32" using n ffs by auto
  show "ffs x - 1 \<le> k" if "bit x k" for k
  proof -
    have "k < 32" using that bit_imp_le_length [of x k] by simp
    with that have "k \<in> set (filter (bit x) [0..<32])" by simp
    with f low ffs show ?thesis by (auto intro: less_imp_le)
  qed
qed

lemma bit_three: "bit (push_bit b 3 :: u32) n \<longleftrightarrow> n < 32 \<and> (n = b \<or> n = Suc b)"
proof -
  have three: "(3 :: u32) = mask 2" by (simp add: mask_eq_exp_minus_1)
  show ?thesis unfolding three bit_push_bit_iff bit_mask_iff by auto
qed

end
