(* ===== verification/Mmc_Header.thy ===== *)
theory Mmc_Header
  imports Mmc_Prelude
begin

text \<open>
  The vocabulary of the kernel headers \<open>linux/mmc/{core,card,host,mmc,sd}.h\<close>, which the
  sources include and which are not part of the repository.  The numbers that the JEDEC
  eMMC and the SD physical layer standards fix (command indices, EXT_CSD byte offsets and
  bits, bits of the card status and of the OCR) are abbreviations with the standard's
  values.  Enumerations and flag words whose numeric encoding is internal to the kernel
  (capabilities, quirks, timings, modes, response kinds) are datatypes; a flag word is a
  set of flags, and \<open>host->caps & F\<close> is read as \<open>F \<in> h_caps host\<close>.
\<close>

section \<open>Enumerations and flag words of the kernel\<close>

datatype mmc_cap = MMC_CAP_4_BIT_DATA | MMC_CAP_MMC_HIGHSPEED | MMC_CAP_SD_HIGHSPEED
  | MMC_CAP_SPI | MMC_CAP_NEEDS_POLL | MMC_CAP_8_BIT_DATA | MMC_CAP_AGGRESSIVE_PM
  | MMC_CAP_NONREMOVABLE | MMC_CAP_WAIT_WHILE_BUSY | MMC_CAP_ERASE
  | MMC_CAP_3_3V_DDR | MMC_CAP_1_8V_DDR | MMC_CAP_1_2V_DDR | MMC_CAP_BUS_WIDTH_TEST
  | MMC_CAP_UHS_SDR12 | MMC_CAP_UHS_SDR25 | MMC_CAP_UHS_SDR50 | MMC_CAP_UHS_SDR104
  | MMC_CAP_UHS_DDR50 | MMC_CAP_DRIVER_TYPE_A | MMC_CAP_DRIVER_TYPE_C
  | MMC_CAP_DRIVER_TYPE_D | MMC_CAP_CMD23 | MMC_CAP_HW_RESET | MMC_CAP_SDIO_IRQ
  | MMC_CAP_POWER_OFF_CARD | MMC_CAP_DONE_COMPLETE

datatype mmc_cap2 = MMC_CAP2_BOOTPART_NOACC | MMC_CAP2_FULL_PWR_CYCLE
  | MMC_CAP2_HS200_1_8V_SDR | MMC_CAP2_HS200_1_2V_SDR
  | MMC_CAP2_HS400_1_8V | MMC_CAP2_HS400_1_2V | MMC_CAP2_HS400_ES
  | MMC_CAP2_NO_SDIO | MMC_CAP2_NO_SD | MMC_CAP2_NO_MMC | MMC_CAP2_CQE
  | MMC_CAP2_AVOID_3_3V | MMC_CAP2_NO_PRESCAN_POWERUP | MMC_CAP2_NO_WRITE_PROTECT
  | MMC_CAP2_SDIO_IRQ_NOTHREAD | MMC_CAP2_CQE_DCMD

datatype mmc_type = MMC_TYPE_MMC | MMC_TYPE_SD | MMC_TYPE_SDIO | MMC_TYPE_SD_COMBO

datatype mmc_quirk = MMC_QUIRK_LENIENT_FN0 | MMC_QUIRK_BLKSZ_FOR_BYTE_MODE
  | MMC_QUIRK_NONSTD_SDIO | MMC_QUIRK_NONSTD_FUNC_IF | MMC_QUIRK_DISABLE_CD
  | MMC_QUIRK_INAND_CMD38 | MMC_QUIRK_BLK_NO_CMD23 | MMC_QUIRK_BROKEN_BYTE_MODE_512
  | MMC_QUIRK_LONG_READ_TIME | MMC_QUIRK_SEC_ERASE_TRIM_BROKEN
  | MMC_QUIRK_BROKEN_IRQ_POLLING | MMC_QUIRK_TRIM_BROKEN | MMC_QUIRK_BROKEN_HPI

datatype mmc_bus_mode = MMC_BUSMODE_OPENDRAIN | MMC_BUSMODE_PUSHPULL

datatype mmc_chip_select = MMC_CS_DONTCARE | MMC_CS_HIGH | MMC_CS_LOW

datatype mmc_power_mode = MMC_POWER_OFF | MMC_POWER_UP | MMC_POWER_ON
  | MMC_POWER_UNDEFINED

datatype mmc_signal_voltage = MMC_SIGNAL_VOLTAGE_330 | MMC_SIGNAL_VOLTAGE_180
  | MMC_SIGNAL_VOLTAGE_120

text \<open>\<open>MMC_TIMING_LEGACY\<close> is the timing 0 that the code tests with \<open>if (timing)\<close>.\<close>

datatype mmc_timing = MMC_TIMING_LEGACY | MMC_TIMING_MMC_HS | MMC_TIMING_SD_HS
  | MMC_TIMING_UHS_SDR12 | MMC_TIMING_UHS_SDR25 | MMC_TIMING_UHS_SDR50
  | MMC_TIMING_UHS_SDR104 | MMC_TIMING_UHS_DDR50 | MMC_TIMING_MMC_DDR52
  | MMC_TIMING_MMC_HS200 | MMC_TIMING_MMC_HS400

text \<open>\<open>MMC_RSP_R1B_NO_CRC\<close> is \<open>MMC_RSP_R1B & ~MMC_RSP_CRC\<close>.\<close>

datatype cmd_flag = MMC_RSP_NONE | MMC_RSP_R1 | MMC_RSP_R1B | MMC_RSP_R2 | MMC_RSP_R3
  | MMC_RSP_R4 | MMC_RSP_R5 | MMC_RSP_R6 | MMC_RSP_R7
  | MMC_RSP_SPI_R1 | MMC_RSP_SPI_R1B | MMC_RSP_SPI_R2 | MMC_RSP_SPI_R3 | MMC_RSP_SPI_R4
  | MMC_RSP_SPI_R5 | MMC_RSP_SPI_R7
  | MMC_CMD_AC | MMC_CMD_ADTC | MMC_CMD_BC | MMC_CMD_BCR | MMC_RSP_R1B_NO_CRC

datatype data_flag = MMC_DATA_WRITE | MMC_DATA_READ | MMC_DATA_DAT_TAG | MMC_DATA_REL_WR

datatype mmc_area_type = MMC_BLK_DATA_AREA_MAIN | MMC_BLK_DATA_AREA_BOOT
  | MMC_BLK_DATA_AREA_GP | MMC_BLK_DATA_AREA_RPMB

text \<open>
  The bus width codes are binary logarithms of the width (\<open>1 << ios->bus_width\<close> in the
  debug output of \<open>mmc_set_ios\<close>); \<open>mmc_select_bus_width\<close> returns one as its result.
\<close>

abbreviation (input) MMC_BUS_WIDTH_1 :: int where "MMC_BUS_WIDTH_1 \<equiv> 0"
abbreviation (input) MMC_BUS_WIDTH_4 :: int where "MMC_BUS_WIDTH_4 \<equiv> 2"
abbreviation (input) MMC_BUS_WIDTH_8 :: int where "MMC_BUS_WIDTH_8 \<equiv> 3"

section \<open>Commands\<close>

abbreviation (input) MMC_GO_IDLE_STATE :: u32 where "MMC_GO_IDLE_STATE \<equiv> 0"
abbreviation (input) MMC_SEND_OP_COND :: u32 where "MMC_SEND_OP_COND \<equiv> 1"
abbreviation (input) MMC_ALL_SEND_CID :: u32 where "MMC_ALL_SEND_CID \<equiv> 2"
abbreviation (input) MMC_SET_RELATIVE_ADDR :: u32 where "MMC_SET_RELATIVE_ADDR \<equiv> 3"
abbreviation (input) MMC_SET_DSR :: u32 where "MMC_SET_DSR \<equiv> 4"
abbreviation (input) MMC_SLEEP_AWAKE :: u32 where "MMC_SLEEP_AWAKE \<equiv> 5"
abbreviation (input) MMC_SWITCH :: u32 where "MMC_SWITCH \<equiv> 6"
abbreviation (input) MMC_SELECT_CARD :: u32 where "MMC_SELECT_CARD \<equiv> 7"
abbreviation (input) MMC_SEND_EXT_CSD :: u32 where "MMC_SEND_EXT_CSD \<equiv> 8"
abbreviation (input) MMC_SEND_CSD :: u32 where "MMC_SEND_CSD \<equiv> 9"
abbreviation (input) MMC_SEND_CID :: u32 where "MMC_SEND_CID \<equiv> 10"
abbreviation (input) SD_SWITCH_VOLTAGE :: u32 where "SD_SWITCH_VOLTAGE \<equiv> 11"
abbreviation (input) MMC_STOP_TRANSMISSION :: u32 where "MMC_STOP_TRANSMISSION \<equiv> 12"
abbreviation (input) MMC_SEND_STATUS :: u32 where "MMC_SEND_STATUS \<equiv> 13"
abbreviation (input) MMC_BUS_TEST_R :: u32 where "MMC_BUS_TEST_R \<equiv> 14"
abbreviation (input) MMC_SET_BLOCKLEN :: u32 where "MMC_SET_BLOCKLEN \<equiv> 16"
abbreviation (input) MMC_BUS_TEST_W :: u32 where "MMC_BUS_TEST_W \<equiv> 19"
abbreviation (input) MMC_SEND_TUNING_BLOCK :: u32 where "MMC_SEND_TUNING_BLOCK \<equiv> 19"
abbreviation (input) MMC_SEND_TUNING_BLOCK_HS200 :: u32 where "MMC_SEND_TUNING_BLOCK_HS200 \<equiv> 21"
abbreviation (input) MMC_SET_BLOCK_COUNT :: u32 where "MMC_SET_BLOCK_COUNT \<equiv> 23"
abbreviation (input) SD_ERASE_WR_BLK_START :: u32 where "SD_ERASE_WR_BLK_START \<equiv> 32"
abbreviation (input) SD_ERASE_WR_BLK_END :: u32 where "SD_ERASE_WR_BLK_END \<equiv> 33"
abbreviation (input) MMC_ERASE_GROUP_START :: u32 where "MMC_ERASE_GROUP_START \<equiv> 35"
abbreviation (input) MMC_ERASE_GROUP_END :: u32 where "MMC_ERASE_GROUP_END \<equiv> 36"
abbreviation (input) MMC_ERASE :: u32 where "MMC_ERASE \<equiv> 38"
abbreviation (input) SD_IO_RW_DIRECT :: u32 where "SD_IO_RW_DIRECT \<equiv> 52"
abbreviation (input) SD_IO_RW_EXTENDED :: u32 where "SD_IO_RW_EXTENDED \<equiv> 53"
abbreviation (input) MMC_SPI_READ_OCR :: u32 where "MMC_SPI_READ_OCR \<equiv> 58"
abbreviation (input) MMC_SPI_CRC_ON_OFF :: u32 where "MMC_SPI_CRC_ON_OFF \<equiv> 59"

abbreviation (input) MMC_SWITCH_MODE_WRITE_BYTE :: u32 where "MMC_SWITCH_MODE_WRITE_BYTE \<equiv> 3"

text \<open>Arguments of the erase command.\<close>

abbreviation (input) MMC_ERASE_ARG :: u32 where "MMC_ERASE_ARG \<equiv> 0"
abbreviation (input) MMC_TRIM_ARG :: u32 where "MMC_TRIM_ARG \<equiv> 1"
abbreviation (input) MMC_DISCARD_ARG :: u32 where "MMC_DISCARD_ARG \<equiv> 3"
abbreviation (input) MMC_SECURE_ERASE_ARG :: u32 where "MMC_SECURE_ERASE_ARG \<equiv> 0x80000000"
abbreviation (input) MMC_SECURE_ARGS :: u32 where "MMC_SECURE_ARGS \<equiv> 0x80000000"
abbreviation (input) MMC_TRIM_ARGS :: u32 where "MMC_TRIM_ARGS \<equiv> 0x8001"

section \<open>Bits of responses and registers\<close>

abbreviation (input) MMC_CARD_BUSY :: u32 where "MMC_CARD_BUSY \<equiv> 0x80000000"
abbreviation (input) R1_ERROR :: u32 where "R1_ERROR \<equiv> 0x80000"
abbreviation (input) R1_READY_FOR_DATA :: u32 where "R1_READY_FOR_DATA \<equiv> 0x100"
abbreviation (input) R1_SWITCH_ERROR :: u32 where "R1_SWITCH_ERROR \<equiv> 0x80"
abbreviation (input) R1_SPI_IDLE :: u32 where "R1_SPI_IDLE \<equiv> 1"
abbreviation (input) R1_SPI_ILLEGAL_COMMAND :: u32 where "R1_SPI_ILLEGAL_COMMAND \<equiv> 4"

definition R1_STATUS :: "u32 \<Rightarrow> u32" where
  "R1_STATUS x = x AND 0xFFF9A000"

definition R1_CURRENT_STATE :: "u32 \<Rightarrow> u32" where
  "R1_CURRENT_STATE x = drop_bit 9 (x AND 0x1E00)"

abbreviation (input) R1_STATE_IDLE :: u32 where "R1_STATE_IDLE \<equiv> 0"
abbreviation (input) R1_STATE_READY :: u32 where "R1_STATE_READY \<equiv> 1"
abbreviation (input) R1_STATE_STBY :: u32 where "R1_STATE_STBY \<equiv> 3"
abbreviation (input) R1_STATE_TRAN :: u32 where "R1_STATE_TRAN \<equiv> 4"
abbreviation (input) R1_STATE_PRG :: u32 where "R1_STATE_PRG \<equiv> 7"

abbreviation (input) CSD_SPEC_VER_3 :: u8 where "CSD_SPEC_VER_3 \<equiv> 3"
abbreviation (input) CCC_ERASE :: u16 where "CCC_ERASE \<equiv> 0x20"
abbreviation (input) CCC_APP_SPEC :: u16 where "CCC_APP_SPEC \<equiv> 0x100"
abbreviation (input) CCC_SWITCH :: u16 where "CCC_SWITCH \<equiv> 0x400"

text \<open>Voltage windows of the OCR.\<close>

abbreviation (input) MMC_VDD_165_195 :: u32 where "MMC_VDD_165_195 \<equiv> 0x80"
abbreviation (input) MMC_VDD_20_21 :: u32 where "MMC_VDD_20_21 \<equiv> 0x100"
abbreviation (input) MMC_VDD_27_28 :: u32 where "MMC_VDD_27_28 \<equiv> 0x8000"
abbreviation (input) MMC_VDD_28_29 :: u32 where "MMC_VDD_28_29 \<equiv> 0x10000"
abbreviation (input) MMC_VDD_29_30 :: u32 where "MMC_VDD_29_30 \<equiv> 0x20000"
abbreviation (input) MMC_VDD_30_31 :: u32 where "MMC_VDD_30_31 \<equiv> 0x40000"
abbreviation (input) MMC_VDD_31_32 :: u32 where "MMC_VDD_31_32 \<equiv> 0x80000"
abbreviation (input) MMC_VDD_32_33 :: u32 where "MMC_VDD_32_33 \<equiv> 0x100000"
abbreviation (input) MMC_VDD_33_34 :: u32 where "MMC_VDD_33_34 \<equiv> 0x200000"
abbreviation (input) MMC_VDD_34_35 :: u32 where "MMC_VDD_34_35 \<equiv> 0x400000"
abbreviation (input) MMC_VDD_35_36 :: u32 where "MMC_VDD_35_36 \<equiv> 0x800000"

abbreviation (input) MMC_HIGH_26_MAX_DTR :: u32 where "MMC_HIGH_26_MAX_DTR \<equiv> 26000000"
abbreviation (input) MMC_HIGH_52_MAX_DTR :: u32 where "MMC_HIGH_52_MAX_DTR \<equiv> 52000000"
abbreviation (input) MMC_HIGH_DDR_MAX_DTR :: u32 where "MMC_HIGH_DDR_MAX_DTR \<equiv> 52000000"
abbreviation (input) MMC_HS200_MAX_DTR :: u32 where "MMC_HS200_MAX_DTR \<equiv> 200000000"

section \<open>The EXT_CSD register\<close>

abbreviation (input) EXT_CSD_CMDQ_MODE_EN :: nat where "EXT_CSD_CMDQ_MODE_EN \<equiv> 15"
abbreviation (input) EXT_CSD_FLUSH_CACHE :: nat where "EXT_CSD_FLUSH_CACHE \<equiv> 32"
abbreviation (input) EXT_CSD_CACHE_CTRL :: nat where "EXT_CSD_CACHE_CTRL \<equiv> 33"
abbreviation (input) EXT_CSD_POWER_OFF_NOTIFICATION :: nat where "EXT_CSD_POWER_OFF_NOTIFICATION \<equiv> 34"
abbreviation (input) EXT_CSD_EXP_EVENTS_STATUS :: nat where "EXT_CSD_EXP_EVENTS_STATUS \<equiv> 54"
abbreviation (input) EXT_CSD_DATA_SECTOR_SIZE :: nat where "EXT_CSD_DATA_SECTOR_SIZE \<equiv> 61"
abbreviation (input) EXT_CSD_GP_SIZE_MULT :: nat where "EXT_CSD_GP_SIZE_MULT \<equiv> 143"
abbreviation (input) EXT_CSD_PARTITION_SETTING_COMPLETED :: nat where
  "EXT_CSD_PARTITION_SETTING_COMPLETED \<equiv> 155"
abbreviation (input) EXT_CSD_PARTITION_ATTRIBUTE :: nat where "EXT_CSD_PARTITION_ATTRIBUTE \<equiv> 156"
abbreviation (input) EXT_CSD_PARTITION_SUPPORT :: nat where "EXT_CSD_PARTITION_SUPPORT \<equiv> 160"
abbreviation (input) EXT_CSD_HPI_MGMT :: nat where "EXT_CSD_HPI_MGMT \<equiv> 161"
abbreviation (input) EXT_CSD_RST_N_FUNCTION :: nat where "EXT_CSD_RST_N_FUNCTION \<equiv> 162"
abbreviation (input) EXT_CSD_BKOPS_EN :: nat where "EXT_CSD_BKOPS_EN \<equiv> 163"
abbreviation (input) EXT_CSD_BKOPS_START :: nat where "EXT_CSD_BKOPS_START \<equiv> 164"
abbreviation (input) EXT_CSD_SANITIZE_START :: nat where "EXT_CSD_SANITIZE_START \<equiv> 165"
abbreviation (input) EXT_CSD_WR_REL_PARAM :: nat where "EXT_CSD_WR_REL_PARAM \<equiv> 166"
abbreviation (input) EXT_CSD_RPMB_MULT :: nat where "EXT_CSD_RPMB_MULT \<equiv> 168"
abbreviation (input) EXT_CSD_FW_CONFIG :: nat where "EXT_CSD_FW_CONFIG \<equiv> 169"
abbreviation (input) EXT_CSD_BOOT_WP :: nat where "EXT_CSD_BOOT_WP \<equiv> 173"
abbreviation (input) EXT_CSD_ERASE_GROUP_DEF :: nat where "EXT_CSD_ERASE_GROUP_DEF \<equiv> 175"
abbreviation (input) EXT_CSD_PART_CONFIG :: nat where "EXT_CSD_PART_CONFIG \<equiv> 179"
abbreviation (input) EXT_CSD_ERASED_MEM_CONT :: nat where "EXT_CSD_ERASED_MEM_CONT \<equiv> 181"
abbreviation (input) EXT_CSD_BUS_WIDTH :: nat where "EXT_CSD_BUS_WIDTH \<equiv> 183"
abbreviation (input) EXT_CSD_STROBE_SUPPORT :: nat where "EXT_CSD_STROBE_SUPPORT \<equiv> 184"
abbreviation (input) EXT_CSD_HS_TIMING :: nat where "EXT_CSD_HS_TIMING \<equiv> 185"
abbreviation (input) EXT_CSD_POWER_CLASS :: nat where "EXT_CSD_POWER_CLASS \<equiv> 187"
abbreviation (input) EXT_CSD_REV :: nat where "EXT_CSD_REV \<equiv> 192"
abbreviation (input) EXT_CSD_STRUCTURE :: nat where "EXT_CSD_STRUCTURE \<equiv> 194"
abbreviation (input) EXT_CSD_CARD_TYPE :: nat where "EXT_CSD_CARD_TYPE \<equiv> 196"
abbreviation (input) EXT_CSD_DRIVER_STRENGTH :: nat where "EXT_CSD_DRIVER_STRENGTH \<equiv> 197"
abbreviation (input) EXT_CSD_OUT_OF_INTERRUPT_TIME :: nat where "EXT_CSD_OUT_OF_INTERRUPT_TIME \<equiv> 198"
abbreviation (input) EXT_CSD_PART_SWITCH_TIME :: nat where "EXT_CSD_PART_SWITCH_TIME \<equiv> 199"
abbreviation (input) EXT_CSD_PWR_CL_52_195 :: nat where "EXT_CSD_PWR_CL_52_195 \<equiv> 200"
abbreviation (input) EXT_CSD_PWR_CL_26_195 :: nat where "EXT_CSD_PWR_CL_26_195 \<equiv> 201"
abbreviation (input) EXT_CSD_PWR_CL_52_360 :: nat where "EXT_CSD_PWR_CL_52_360 \<equiv> 202"
abbreviation (input) EXT_CSD_PWR_CL_26_360 :: nat where "EXT_CSD_PWR_CL_26_360 \<equiv> 203"
abbreviation (input) EXT_CSD_SEC_CNT :: nat where "EXT_CSD_SEC_CNT \<equiv> 212"
abbreviation (input) EXT_CSD_S_A_TIMEOUT :: nat where "EXT_CSD_S_A_TIMEOUT \<equiv> 217"
abbreviation (input) EXT_CSD_HC_WP_GRP_SIZE :: nat where "EXT_CSD_HC_WP_GRP_SIZE \<equiv> 221"
abbreviation (input) EXT_CSD_REL_WR_SEC_C :: nat where "EXT_CSD_REL_WR_SEC_C \<equiv> 222"
abbreviation (input) EXT_CSD_ERASE_TIMEOUT_MULT :: nat where "EXT_CSD_ERASE_TIMEOUT_MULT \<equiv> 223"
abbreviation (input) EXT_CSD_HC_ERASE_GRP_SIZE :: nat where "EXT_CSD_HC_ERASE_GRP_SIZE \<equiv> 224"
abbreviation (input) EXT_CSD_BOOT_MULT :: nat where "EXT_CSD_BOOT_MULT \<equiv> 226"
abbreviation (input) EXT_CSD_SEC_TRIM_MULT :: nat where "EXT_CSD_SEC_TRIM_MULT \<equiv> 229"
abbreviation (input) EXT_CSD_SEC_ERASE_MULT :: nat where "EXT_CSD_SEC_ERASE_MULT \<equiv> 230"
abbreviation (input) EXT_CSD_SEC_FEATURE_SUPPORT :: nat where "EXT_CSD_SEC_FEATURE_SUPPORT \<equiv> 231"
abbreviation (input) EXT_CSD_TRIM_MULT :: nat where "EXT_CSD_TRIM_MULT \<equiv> 232"
abbreviation (input) EXT_CSD_PWR_CL_200_195 :: nat where "EXT_CSD_PWR_CL_200_195 \<equiv> 236"
abbreviation (input) EXT_CSD_PWR_CL_200_360 :: nat where "EXT_CSD_PWR_CL_200_360 \<equiv> 237"
abbreviation (input) EXT_CSD_PWR_CL_DDR_52_195 :: nat where "EXT_CSD_PWR_CL_DDR_52_195 \<equiv> 238"
abbreviation (input) EXT_CSD_PWR_CL_DDR_52_360 :: nat where "EXT_CSD_PWR_CL_DDR_52_360 \<equiv> 239"
abbreviation (input) EXT_CSD_BKOPS_STATUS :: nat where "EXT_CSD_BKOPS_STATUS \<equiv> 246"
abbreviation (input) EXT_CSD_POWER_OFF_LONG_TIME :: nat where "EXT_CSD_POWER_OFF_LONG_TIME \<equiv> 247"
abbreviation (input) EXT_CSD_GENERIC_CMD6_TIME :: nat where "EXT_CSD_GENERIC_CMD6_TIME \<equiv> 248"
abbreviation (input) EXT_CSD_CACHE_SIZE :: nat where "EXT_CSD_CACHE_SIZE \<equiv> 249"
abbreviation (input) EXT_CSD_PWR_CL_DDR_200_360 :: nat where "EXT_CSD_PWR_CL_DDR_200_360 \<equiv> 253"
abbreviation (input) EXT_CSD_FIRMWARE_VERSION :: nat where "EXT_CSD_FIRMWARE_VERSION \<equiv> 254"
abbreviation (input) MMC_FIRMWARE_LEN :: nat where "MMC_FIRMWARE_LEN \<equiv> 8"
abbreviation (input) EXT_CSD_PRE_EOL_INFO :: nat where "EXT_CSD_PRE_EOL_INFO \<equiv> 267"
abbreviation (input) EXT_CSD_DEVICE_LIFE_TIME_EST_TYP_A :: nat where
  "EXT_CSD_DEVICE_LIFE_TIME_EST_TYP_A \<equiv> 268"
abbreviation (input) EXT_CSD_DEVICE_LIFE_TIME_EST_TYP_B :: nat where
  "EXT_CSD_DEVICE_LIFE_TIME_EST_TYP_B \<equiv> 269"
abbreviation (input) EXT_CSD_CMDQ_DEPTH :: nat where "EXT_CSD_CMDQ_DEPTH \<equiv> 307"
abbreviation (input) EXT_CSD_CMDQ_SUPPORT :: nat where "EXT_CSD_CMDQ_SUPPORT \<equiv> 308"
abbreviation (input) EXT_CSD_SUPPORTED_MODE :: nat where "EXT_CSD_SUPPORTED_MODE \<equiv> 493"
abbreviation (input) EXT_CSD_TAG_UNIT_SIZE :: nat where "EXT_CSD_TAG_UNIT_SIZE \<equiv> 498"
abbreviation (input) EXT_CSD_DATA_TAG_SUPPORT :: nat where "EXT_CSD_DATA_TAG_SUPPORT \<equiv> 499"
abbreviation (input) EXT_CSD_MAX_PACKED_WRITES :: nat where "EXT_CSD_MAX_PACKED_WRITES \<equiv> 500"
abbreviation (input) EXT_CSD_MAX_PACKED_READS :: nat where "EXT_CSD_MAX_PACKED_READS \<equiv> 501"
abbreviation (input) EXT_CSD_BKOPS_SUPPORT :: nat where "EXT_CSD_BKOPS_SUPPORT \<equiv> 502"
abbreviation (input) EXT_CSD_HPI_FEATURES :: nat where "EXT_CSD_HPI_FEATURES \<equiv> 503"

text \<open>Values and bits of EXT_CSD bytes.\<close>

abbreviation (input) EXT_CSD_PART_SETTING_COMPLETED :: u8 where "EXT_CSD_PART_SETTING_COMPLETED \<equiv> 1"
abbreviation (input) EXT_CSD_PART_SUPPORT_PART_EN :: u8 where "EXT_CSD_PART_SUPPORT_PART_EN \<equiv> 1"
abbreviation (input) EXT_CSD_CMD_SET_NORMAL :: u8 where "EXT_CSD_CMD_SET_NORMAL \<equiv> 1"
abbreviation (input) EXT_CSD_PART_CONFIG_ACC_MASK :: u8 where "EXT_CSD_PART_CONFIG_ACC_MASK \<equiv> 7"
abbreviation (input) EXT_CSD_PART_CONFIG_ACC_BOOT0 :: u32 where "EXT_CSD_PART_CONFIG_ACC_BOOT0 \<equiv> 1"
abbreviation (input) EXT_CSD_PART_CONFIG_ACC_RPMB :: u32 where "EXT_CSD_PART_CONFIG_ACC_RPMB \<equiv> 3"
abbreviation (input) EXT_CSD_PART_CONFIG_ACC_GP0 :: u32 where "EXT_CSD_PART_CONFIG_ACC_GP0 \<equiv> 4"
abbreviation (input) MMC_NUM_BOOT_PARTITION :: nat where "MMC_NUM_BOOT_PARTITION \<equiv> 2"
abbreviation (input) MMC_NUM_GP_PARTITION :: nat where "MMC_NUM_GP_PARTITION \<equiv> 4"
abbreviation (input) MMC_NUM_PHY_PARTITION :: nat where "MMC_NUM_PHY_PARTITION \<equiv> 7"

abbreviation (input) EXT_CSD_CARD_TYPE_HS_26 :: u32 where "EXT_CSD_CARD_TYPE_HS_26 \<equiv> 0x1"
abbreviation (input) EXT_CSD_CARD_TYPE_HS_52 :: u32 where "EXT_CSD_CARD_TYPE_HS_52 \<equiv> 0x2"
abbreviation (input) EXT_CSD_CARD_TYPE_HS :: u32 where "EXT_CSD_CARD_TYPE_HS \<equiv> 0x3"
abbreviation (input) EXT_CSD_CARD_TYPE_DDR_1_8V :: u32 where "EXT_CSD_CARD_TYPE_DDR_1_8V \<equiv> 0x4"
abbreviation (input) EXT_CSD_CARD_TYPE_DDR_1_2V :: u32 where "EXT_CSD_CARD_TYPE_DDR_1_2V \<equiv> 0x8"
abbreviation (input) EXT_CSD_CARD_TYPE_DDR_52 :: u32 where "EXT_CSD_CARD_TYPE_DDR_52 \<equiv> 0xC"
abbreviation (input) EXT_CSD_CARD_TYPE_HS200_1_8V :: u32 where "EXT_CSD_CARD_TYPE_HS200_1_8V \<equiv> 0x10"
abbreviation (input) EXT_CSD_CARD_TYPE_HS200_1_2V :: u32 where "EXT_CSD_CARD_TYPE_HS200_1_2V \<equiv> 0x20"
abbreviation (input) EXT_CSD_CARD_TYPE_HS200 :: u32 where "EXT_CSD_CARD_TYPE_HS200 \<equiv> 0x30"
abbreviation (input) EXT_CSD_CARD_TYPE_HS400_1_8V :: u32 where "EXT_CSD_CARD_TYPE_HS400_1_8V \<equiv> 0x40"
abbreviation (input) EXT_CSD_CARD_TYPE_HS400_1_2V :: u32 where "EXT_CSD_CARD_TYPE_HS400_1_2V \<equiv> 0x80"
abbreviation (input) EXT_CSD_CARD_TYPE_HS400 :: u32 where "EXT_CSD_CARD_TYPE_HS400 \<equiv> 0xC0"
abbreviation (input) EXT_CSD_CARD_TYPE_HS400ES :: u32 where "EXT_CSD_CARD_TYPE_HS400ES \<equiv> 0x100"

abbreviation (input) EXT_CSD_BUS_WIDTH_4 :: u8 where "EXT_CSD_BUS_WIDTH_4 \<equiv> 1"
abbreviation (input) EXT_CSD_BUS_WIDTH_8 :: u8 where "EXT_CSD_BUS_WIDTH_8 \<equiv> 2"
abbreviation (input) EXT_CSD_DDR_BUS_WIDTH_4 :: u8 where "EXT_CSD_DDR_BUS_WIDTH_4 \<equiv> 5"
abbreviation (input) EXT_CSD_DDR_BUS_WIDTH_8 :: u8 where "EXT_CSD_DDR_BUS_WIDTH_8 \<equiv> 6"
abbreviation (input) EXT_CSD_BUS_WIDTH_STROBE :: u8 where "EXT_CSD_BUS_WIDTH_STROBE \<equiv> 0x80"
abbreviation (input) EXT_CSD_TIMING_HS :: u8 where "EXT_CSD_TIMING_HS \<equiv> 1"
abbreviation (input) EXT_CSD_TIMING_HS200 :: u8 where "EXT_CSD_TIMING_HS200 \<equiv> 2"
abbreviation (input) EXT_CSD_TIMING_HS400 :: u8 where "EXT_CSD_TIMING_HS400 \<equiv> 3"
abbreviation (input) EXT_CSD_DRV_STR_SHIFT :: nat where "EXT_CSD_DRV_STR_SHIFT \<equiv> 4"
abbreviation (input) EXT_CSD_SEC_ER_EN :: u8 where "EXT_CSD_SEC_ER_EN \<equiv> 0x1"
abbreviation (input) EXT_CSD_SEC_GB_CL_EN :: u8 where "EXT_CSD_SEC_GB_CL_EN \<equiv> 0x10"
abbreviation (input) EXT_CSD_SEC_SANITIZE :: u8 where "EXT_CSD_SEC_SANITIZE \<equiv> 0x40"
abbreviation (input) EXT_CSD_RST_N_EN_MASK :: u8 where "EXT_CSD_RST_N_EN_MASK \<equiv> 3"
abbreviation (input) EXT_CSD_RST_N_ENABLED :: u8 where "EXT_CSD_RST_N_ENABLED \<equiv> 1"
abbreviation (input) EXT_CSD_NO_POWER_NOTIFICATION :: u8 where "EXT_CSD_NO_POWER_NOTIFICATION \<equiv> 0"
abbreviation (input) EXT_CSD_POWER_ON :: u8 where "EXT_CSD_POWER_ON \<equiv> 1"
abbreviation (input) EXT_CSD_POWER_OFF_SHORT :: u8 where "EXT_CSD_POWER_OFF_SHORT \<equiv> 2"
abbreviation (input) EXT_CSD_POWER_OFF_LONG :: u8 where "EXT_CSD_POWER_OFF_LONG \<equiv> 3"
abbreviation (input) EXT_CSD_PWR_CL_8BIT_MASK :: u32 where "EXT_CSD_PWR_CL_8BIT_MASK \<equiv> 0xF0"
abbreviation (input) EXT_CSD_PWR_CL_8BIT_SHIFT :: nat where "EXT_CSD_PWR_CL_8BIT_SHIFT \<equiv> 4"
abbreviation (input) EXT_CSD_PWR_CL_4BIT_MASK :: u32 where "EXT_CSD_PWR_CL_4BIT_MASK \<equiv> 0x0F"
abbreviation (input) EXT_CSD_PWR_CL_4BIT_SHIFT :: nat where "EXT_CSD_PWR_CL_4BIT_SHIFT \<equiv> 0"
abbreviation (input) EXT_CSD_BKOPS_LEVEL_2 :: u8 where "EXT_CSD_BKOPS_LEVEL_2 \<equiv> 2"
abbreviation (input) EXT_CSD_MANUAL_BKOPS_MASK :: u8 where "EXT_CSD_MANUAL_BKOPS_MASK \<equiv> 1"
abbreviation (input) EXT_CSD_AUTO_BKOPS_MASK :: u8 where "EXT_CSD_AUTO_BKOPS_MASK \<equiv> 2"
abbreviation (input) EXT_CSD_CMDQ_MODE_ENABLED :: u8 where "EXT_CSD_CMDQ_MODE_ENABLED \<equiv> 1"
abbreviation (input) EXT_CSD_CMDQ_DEPTH_MASK :: u8 where "EXT_CSD_CMDQ_DEPTH_MASK \<equiv> 0x1F"
abbreviation (input) EXT_CSD_CMDQ_SUPPORTED :: u8 where "EXT_CSD_CMDQ_SUPPORTED \<equiv> 1"

abbreviation (input) SD_DRIVER_TYPE_B :: int where "SD_DRIVER_TYPE_B \<equiv> 1"
abbreviation (input) SD_DRIVER_TYPE_A :: int where "SD_DRIVER_TYPE_A \<equiv> 2"
abbreviation (input) SD_DRIVER_TYPE_C :: int where "SD_DRIVER_TYPE_C \<equiv> 4"
abbreviation (input) SD_DRIVER_TYPE_D :: int where "SD_DRIVER_TYPE_D \<equiv> 8"

section \<open>SD cards\<close>

abbreviation (input) SD_SEND_RELATIVE_ADDR :: u32 where "SD_SEND_RELATIVE_ADDR \<equiv> 3"
abbreviation (input) SD_SWITCH :: u32 where "SD_SWITCH \<equiv> 6"
abbreviation (input) SD_SEND_IF_COND :: u32 where "SD_SEND_IF_COND \<equiv> 8"
abbreviation (input) SD_APP_SET_BUS_WIDTH :: u32 where "SD_APP_SET_BUS_WIDTH \<equiv> 6"
abbreviation (input) SD_APP_SD_STATUS :: u32 where "SD_APP_SD_STATUS \<equiv> 13"
abbreviation (input) SD_APP_OP_COND :: u32 where "SD_APP_OP_COND \<equiv> 41"
abbreviation (input) SD_APP_SEND_SCR :: u32 where "SD_APP_SEND_SCR \<equiv> 51"
abbreviation (input) MMC_APP_CMD :: u32 where "MMC_APP_CMD \<equiv> 55"

abbreviation (input) R1_APP_CMD :: u32 where "R1_APP_CMD \<equiv> 0x20"
abbreviation (input) SD_OCR_S18R :: u32 where "SD_OCR_S18R \<equiv> 0x1000000"
abbreviation (input) SD_ROCR_S18A :: u32 where "SD_ROCR_S18A \<equiv> 0x1000000"
abbreviation (input) SD_OCR_XPC :: u32 where "SD_OCR_XPC \<equiv> 0x10000000"
abbreviation (input) SD_OCR_CCS :: u32 where "SD_OCR_CCS \<equiv> 0x40000000"
abbreviation (input) SD_BUS_WIDTH_1 :: u32 where "SD_BUS_WIDTH_1 \<equiv> 0"
abbreviation (input) SD_BUS_WIDTH_4 :: u32 where "SD_BUS_WIDTH_4 \<equiv> 2"
abbreviation (input) SD_SCR_BUS_WIDTH_4 :: u8 where "SD_SCR_BUS_WIDTH_4 \<equiv> 4"
abbreviation (input) SCR_SPEC_VER_1 :: u8 where "SCR_SPEC_VER_1 \<equiv> 1"

abbreviation (input) HIGH_SPEED_MAX_DTR :: u32 where "HIGH_SPEED_MAX_DTR \<equiv> 50000000"
abbreviation (input) UHS_SDR104_MAX_DTR :: u32 where "UHS_SDR104_MAX_DTR \<equiv> 208000000"
abbreviation (input) UHS_SDR50_MAX_DTR :: u32 where "UHS_SDR50_MAX_DTR \<equiv> 100000000"
abbreviation (input) UHS_DDR50_MAX_DTR :: u32 where "UHS_DDR50_MAX_DTR \<equiv> 50000000"
abbreviation (input) UHS_SDR25_MAX_DTR :: u32 where "UHS_SDR25_MAX_DTR \<equiv> 50000000"
abbreviation (input) UHS_SDR12_MAX_DTR :: u32 where "UHS_SDR12_MAX_DTR \<equiv> 25000000"
abbreviation (input) UHS_SDR12_BUS_SPEED :: u32 where "UHS_SDR12_BUS_SPEED \<equiv> 0"
abbreviation (input) UHS_SDR25_BUS_SPEED :: u32 where "UHS_SDR25_BUS_SPEED \<equiv> 1"
abbreviation (input) UHS_SDR50_BUS_SPEED :: u32 where "UHS_SDR50_BUS_SPEED \<equiv> 2"
abbreviation (input) UHS_SDR104_BUS_SPEED :: u32 where "UHS_SDR104_BUS_SPEED \<equiv> 3"
abbreviation (input) UHS_DDR50_BUS_SPEED :: u32 where "UHS_DDR50_BUS_SPEED \<equiv> 4"
abbreviation (input) SD_MODE_HIGH_SPEED :: u8 where "SD_MODE_HIGH_SPEED \<equiv> 2"
abbreviation (input) SD_MODE_UHS_SDR12 :: u32 where "SD_MODE_UHS_SDR12 \<equiv> 1"
abbreviation (input) SD_MODE_UHS_SDR25 :: u32 where "SD_MODE_UHS_SDR25 \<equiv> 2"
abbreviation (input) SD_MODE_UHS_SDR50 :: u32 where "SD_MODE_UHS_SDR50 \<equiv> 4"
abbreviation (input) SD_MODE_UHS_SDR104 :: u32 where "SD_MODE_UHS_SDR104 \<equiv> 8"
abbreviation (input) SD_MODE_UHS_DDR50 :: u32 where "SD_MODE_UHS_DDR50 \<equiv> 16"
abbreviation (input) SD_SET_CURRENT_LIMIT_200 :: int where "SD_SET_CURRENT_LIMIT_200 \<equiv> 0"
abbreviation (input) SD_SET_CURRENT_LIMIT_400 :: int where "SD_SET_CURRENT_LIMIT_400 \<equiv> 1"
abbreviation (input) SD_SET_CURRENT_LIMIT_600 :: int where "SD_SET_CURRENT_LIMIT_600 \<equiv> 2"
abbreviation (input) SD_SET_CURRENT_LIMIT_800 :: int where "SD_SET_CURRENT_LIMIT_800 \<equiv> 3"
abbreviation (input) SD_SET_CURRENT_NO_CHANGE :: int where "SD_SET_CURRENT_NO_CHANGE \<equiv> - 1"
abbreviation (input) SD_MAX_CURRENT_200 :: u32 where "SD_MAX_CURRENT_200 \<equiv> 1"
abbreviation (input) SD_MAX_CURRENT_400 :: u32 where "SD_MAX_CURRENT_400 \<equiv> 2"
abbreviation (input) SD_MAX_CURRENT_600 :: u32 where "SD_MAX_CURRENT_600 \<equiv> 4"
abbreviation (input) SD_MAX_CURRENT_800 :: u32 where "SD_MAX_CURRENT_800 \<equiv> 8"

end
