(* ===== verification/Mmc_Types.thy ===== *)
theory Mmc_Types
  imports Mmc_Header
begin

text \<open>
  The data of the subsystem: the decoded registers and the card object, the operating
  conditions of the bus, commands and requests, and the world a stateful function runs in.

  A function of the code that touches the hardware does so through the operations of the
  host controller driver (\<open>host->ops\<close>).  Those drivers are another layer: here they are
  the fields of the record \<open>host_ops\<close>, arbitrary functions of everything that happened
  before, which is recorded as the trace of events of the world.  An operation that a
  driver may leave out is an option (or a flag, when it answers nothing).  The kernel
  services used (time, memory, the device tree) are the fields of \<open>mmc_kernel\<close>.
\<close>

section \<open>Registers and the card\<close>

record mmc_cid =
  cid_manfid :: u32
  cid_prod_name :: "u8 list"
  cid_prv :: u8
  cid_serial :: u32
  cid_oemid :: u16
  cid_year :: u16
  cid_hwrev :: u8
  cid_fwrev :: u8
  cid_month :: u8

record mmc_csd =
  csd_structure :: u8
  csd_mmca_vsn :: u8
  csd_cmdclass :: u16
  csd_taac_clks :: u16
  csd_taac_ns :: u32
  csd_c_size :: u32
  csd_r2w_factor :: u32
  csd_max_dtr :: u32
  csd_erase_size :: u32
  csd_read_blkbits :: u32
  csd_write_blkbits :: u32
  csd_capacity :: u32
  csd_read_partial :: bool
  csd_read_misalign :: bool
  csd_write_partial :: bool
  csd_write_misalign :: bool
  csd_dsr_imp :: bool

text \<open>The fields of \<open>mmc_ext_csd\<close> that keep bytes of the register unchanged.\<close>

record mmc_ext_csd_raw =
  raw_partition_support :: u8
  raw_erased_mem_count :: u8
  raw_ext_csd_structure :: u8
  raw_card_type :: u8
  raw_driver_strength :: u8
  raw_s_a_timeout :: u8
  raw_hc_erase_gap_size :: u8
  raw_erase_timeout_mult :: u8
  raw_hc_erase_grp_size :: u8
  raw_sec_trim_mult :: u8
  raw_sec_erase_mult :: u8
  raw_sec_feature_support :: u8
  raw_trim_mult :: u8
  raw_sectors :: "u8 list"
  raw_pwr_cl_52_195 :: u8
  raw_pwr_cl_26_195 :: u8
  raw_pwr_cl_52_360 :: u8
  raw_pwr_cl_26_360 :: u8
  raw_pwr_cl_200_195 :: u8
  raw_pwr_cl_200_360 :: u8
  raw_pwr_cl_ddr_52_195 :: u8
  raw_pwr_cl_ddr_52_360 :: u8
  raw_pwr_cl_ddr_200_360 :: u8
  raw_bkops_status :: u8
  raw_exception_status :: u8
  raw_rpmb_size_mult :: u8

record mmc_ext_csd = mmc_ext_csd_raw +
  ec_rev :: u8
  ec_erase_group_def :: u8
  ec_sec_feature_support :: u8
  ec_rel_sectors :: u8
  ec_rel_param :: u8
  ec_part_config :: u8
  ec_cache_ctrl :: u8
  ec_rst_n_function :: u8
  ec_max_packed_writes :: u8
  ec_max_packed_reads :: u8
  ec_part_time :: u32
  ec_sa_timeout :: u32
  ec_generic_cmd6_time :: u32
  ec_power_off_longtime :: u32
  ec_power_off_notification :: u8
  ec_hs_max_dtr :: u32
  ec_hs200_max_dtr :: u32
  ec_sectors :: u32
  ec_hc_erase_size :: u32
  ec_hc_erase_timeout :: u32
  ec_sec_trim_mult :: u32
  ec_sec_erase_mult :: u32
  ec_trim_timeout :: u32
  ec_partition_setting_completed :: bool
  ec_enhanced_area_offset :: u64
  ec_enhanced_area_size :: u32
  ec_cache_size :: u32
  ec_hpi_en :: bool
  ec_hpi :: bool
  ec_hpi_cmd :: u32
  ec_out_of_int_time :: u32
  ec_bkops :: bool
  ec_man_bkops_en :: bool
  ec_auto_bkops_en :: bool
  ec_data_sector_size :: u32
  ec_data_tag_unit_size :: u32
  ec_boot_ro_lock :: u32
  ec_boot_ro_lockable :: bool
  ec_ffu_capable :: bool
  ec_cmdq_en :: bool
  ec_cmdq_support :: bool
  ec_cmdq_depth :: u32
  ec_fwrev :: "u8 list"
  ec_strobe_support :: bool
  ec_pre_eol_info :: u8
  ec_device_life_time_est_typ_a :: u8
  ec_device_life_time_est_typ_b :: u8
  ec_discard_feature :: bool

record sd_scr =
  scr_sda_vsn :: u8
  scr_sda_spec3 :: u8
  scr_bus_widths :: u8
  scr_cmds :: u8

record sd_ssr =
  ssr_au :: u32
  ssr_erase_timeout :: u32
  ssr_erase_offset :: u32

record sd_switch_caps =
  sw_hs_max_dtr :: u32
  sw_uhs_max_dtr :: u32
  sw_sd3_bus_mode :: u32
  sw_sd3_drv_type :: u32
  sw_sd3_curr_limit :: u32

record mmc_part =
  part_size :: u32
  part_cfg :: u32
  part_name :: string
  part_force_ro :: bool
  part_area_type :: mmc_area_type

text \<open>
  The array \<open>part[MMC_NUM_PHY_PARTITION]\<close> and its fill level \<open>nr_parts\<close> are one list:
  storing at \<open>part[nr_parts]\<close> appends.
\<close>

text \<open>
  The common registers and the information structure of an SDIO card, and its functions.  A
  tuple is its code with its data; the list of a function's own tuples goes on with the list
  of the card when \<open>fn_linked\<close> is set.
\<close>

record sdio_cccr =
  cc_sdio_vsn :: u32
  cc_multi_block :: bool
  cc_low_speed :: bool
  cc_wide_bus :: bool
  cc_high_power :: bool
  cc_high_speed :: bool

type_synonym cis_tuple = "u8 \<times> u8 list"

record sdio_func =
  fn_num :: nat
  fn_class :: u8
  fn_vendor :: u16
  fn_device :: u16
  fn_max_blksize :: u32
  fn_cur_blksize :: u32
  fn_enable_timeout :: u32
  fn_present :: bool
  fn_irq_handler :: bool
  fn_info :: "u8 list list"
  fn_tuples :: "cis_tuple list"
  fn_linked :: bool

record mmc_card =
  cd_ocr :: u32
  cd_rca :: u32
  cd_type :: mmc_type
  cd_state :: u32
  cd_quirks :: "mmc_quirk set"
  cd_quirk_max_rate :: u32
  cd_erase_size :: u32
  cd_erase_shift :: nat
  cd_pref_erase :: u32
  cd_eg_boundary :: bool
  cd_erased_byte :: u8
  cd_raw_cid :: "u32 list"
  cd_raw_csd :: "u32 list"
  cd_raw_scr :: "u32 list"
  cd_raw_ssr :: "u32 list"
  cd_cid :: mmc_cid
  cd_csd :: mmc_csd
  cd_ext_csd :: mmc_ext_csd
  cd_scr :: sd_scr
  cd_ssr :: sd_ssr
  cd_sw_caps :: sd_switch_caps
  cd_sd_bus_speed :: u32
  cd_cis_vendor :: u16
  cd_cis_device :: u16
  cd_cis_blksize :: u16
  cd_cis_max_dtr :: u32
  cd_cccr :: sdio_cccr
  cd_sdio_funcs :: nat
  cd_sdio_func :: "sdio_func option list"
  cd_sdio_single_irq :: "nat option"
  cd_info :: "u8 list list"
  cd_tuples :: "cis_tuple list"
  cd_drive_strength :: u32
  cd_mmc_avail_type :: u32
  cd_parts :: "mmc_part list"
  cd_reenable_cmdq :: bool

text \<open>The state bits of \<open>card.h\<close>.\<close>

abbreviation (input) MMC_STATE_PRESENT :: u32 where "MMC_STATE_PRESENT \<equiv> 1"
abbreviation (input) MMC_STATE_READONLY :: u32 where "MMC_STATE_READONLY \<equiv> 2"
abbreviation (input) MMC_STATE_BLOCKADDR :: u32 where "MMC_STATE_BLOCKADDR \<equiv> 4"
abbreviation (input) MMC_CARD_SDXC :: u32 where "MMC_CARD_SDXC \<equiv> 8"
abbreviation (input) MMC_CARD_REMOVED :: u32 where "MMC_CARD_REMOVED \<equiv> 0x10"
abbreviation (input) MMC_STATE_DOING_BKOPS :: u32 where "MMC_STATE_DOING_BKOPS \<equiv> 0x20"
abbreviation (input) MMC_STATE_SUSPENDED :: u32 where "MMC_STATE_SUSPENDED \<equiv> 0x40"

definition card_state :: "u32 \<Rightarrow> mmc_card \<Rightarrow> bool" where
  "card_state b c \<longleftrightarrow> cd_state c AND b \<noteq> 0"

definition card_set_state :: "u32 \<Rightarrow> mmc_card \<Rightarrow> mmc_card" where
  "card_set_state b c = c\<lparr>cd_state := cd_state c OR b\<rparr>"

definition card_clr_state :: "u32 \<Rightarrow> mmc_card \<Rightarrow> mmc_card" where
  "card_clr_state b c = c\<lparr>cd_state := cd_state c AND NOT b\<rparr>"

abbreviation mmc_card_blockaddr :: "mmc_card \<Rightarrow> bool" where
  "mmc_card_blockaddr \<equiv> card_state MMC_STATE_BLOCKADDR"

abbreviation mmc_card_mmc :: "mmc_card \<Rightarrow> bool" where
  "mmc_card_mmc c \<equiv> cd_type c = MMC_TYPE_MMC"

abbreviation mmc_card_sd :: "mmc_card \<Rightarrow> bool" where
  "mmc_card_sd c \<equiv> cd_type c = MMC_TYPE_SD"

abbreviation mmc_card_sdio :: "mmc_card \<Rightarrow> bool" where
  "mmc_card_sdio c \<equiv> cd_type c = MMC_TYPE_SDIO"

text \<open>Assignment to one member of a nested structure.\<close>

definition upd_csd :: "(mmc_csd \<Rightarrow> mmc_csd) \<Rightarrow> mmc_card \<Rightarrow> mmc_card" where
  "upd_csd f c = c\<lparr>cd_csd := f (cd_csd c)\<rparr>"

definition upd_cid :: "(mmc_cid \<Rightarrow> mmc_cid) \<Rightarrow> mmc_card \<Rightarrow> mmc_card" where
  "upd_cid f c = c\<lparr>cd_cid := f (cd_cid c)\<rparr>"

definition upd_sw :: "(sd_switch_caps \<Rightarrow> sd_switch_caps) \<Rightarrow> mmc_card \<Rightarrow> mmc_card" where
  "upd_sw f c = c\<lparr>cd_sw_caps := f (cd_sw_caps c)\<rparr>"

definition upd_ec :: "(mmc_ext_csd \<Rightarrow> mmc_ext_csd) \<Rightarrow> mmc_card \<Rightarrow> mmc_card" where
  "upd_ec f c = c\<lparr>cd_ext_csd := f (cd_ext_csd c)\<rparr>"

section \<open>Bus conditions, commands, requests\<close>

record mmc_ios =
  ios_clock :: u32
  ios_vdd :: u16
  ios_power_delay_ms :: u32
  ios_bus_mode :: mmc_bus_mode
  ios_chip_select :: mmc_chip_select
  ios_power_mode :: mmc_power_mode
  ios_bus_width :: int
  ios_timing :: mmc_timing
  ios_signal_voltage :: mmc_signal_voltage
  ios_drv_type :: u8
  ios_enhanced_strobe :: bool

record mmc_command =
  cmd_opcode :: u32
  cmd_arg :: u32
  cmd_resp :: "u32 list"
  cmd_flags :: "cmd_flag set"
  cmd_retries :: nat
  cmd_error :: int
  cmd_busy_timeout :: u32
  cmd_sanitize_busy :: bool

text \<open>The data of a request: \<open>dat_sg\<close> holds the segment lengths of the scatter list and
  \<open>dat_buf\<close> the bytes of its buffer.\<close>

record mmc_data =
  dat_timeout_ns :: u32
  dat_timeout_clks :: u32
  dat_blksz :: u32
  dat_blocks :: u32
  dat_error :: int
  dat_flags :: "data_flag set"
  dat_bytes_xfered :: u32
  dat_sg :: "u32 list"
  dat_blk_addr :: u32
  dat_buf :: "u8 list"

record mmc_request =
  mrq_sbc :: "mmc_command option"
  mrq_cmd :: mmc_command
  mrq_data :: "mmc_data option"
  mrq_stop :: "mmc_command option"

text \<open>\<open>struct mmc_command cmd = {}\<close> and \<open>struct mmc_data data = {}\<close>.\<close>

definition cmd0 :: mmc_command where
  "cmd0 = \<lparr>cmd_opcode = 0, cmd_arg = 0, cmd_resp = [0, 0, 0, 0], cmd_flags = {},
     cmd_retries = 0, cmd_error = 0, cmd_busy_timeout = 0, cmd_sanitize_busy = False\<rparr>"

definition dat0 :: mmc_data where
  "dat0 = \<lparr>dat_timeout_ns = 0, dat_timeout_clks = 0, dat_blksz = 0, dat_blocks = 0,
     dat_error = 0, dat_flags = {}, dat_bytes_xfered = 0, dat_sg = [], dat_blk_addr = 0,
     dat_buf = []\<rparr>"

definition mrq_of :: "mmc_command \<Rightarrow> mmc_data option \<Rightarrow> mmc_request" where
  "mrq_of c d = \<lparr>mrq_sbc = None, mrq_cmd = c, mrq_data = d, mrq_stop = None\<rparr>"

text \<open>What the controller reports when a request completes.\<close>

record mmc_completion =
  cpl_cmd_error :: int
  cpl_cmd_resp :: "u32 list"
  cpl_sbc_error :: int
  cpl_stop_error :: int
  cpl_stop_resp :: "u32 list"
  cpl_data_error :: int
  cpl_bytes_xfered :: u32
  cpl_data :: "u8 list"

section \<open>Events and the environment\<close>

datatype pwrseq_step = PRE_POWER_ON | POST_POWER_ON | PWRSEQ_POWER_OFF | PWRSEQ_RESET

datatype pm_call = PM_GET_SYNC | PM_MARK_LAST_BUSY | PM_PUT_AUTOSUSPEND | PM_DISABLE
  | PM_SET_SUSPENDED | PM_ENABLE | PM_WAKEUP | PM_PUT_NOIDLE | PM_PUT_SYNC | PM_GET_NORESUME
  | PM_SET_ACTIVE | PM_PUT

text \<open>
  What the core does to the outside: requests and the other operations of the controller, time
  that passes, power sequence, memory, and the calls that mark the life of a card (claim and
  release of the host, registration with the driver core, runtime PM, the detection work).
\<close>

datatype mmc_event =
    EvRequest mmc_request
  | EvSetIos mmc_ios
  | EvCardBusy
  | EvVoltageSwitch mmc_ios
  | EvTuning u32
  | EvDriveStrength u32 int int
  | EvDelay u32
  | EvUsleep nat
  | EvJiffies
  | EvCqeOff
  | EvCqeEnable
  | EvHs400Downgrade
  | EvHs400Complete
  | EvPrepareHs400Tuning mmc_ios
  | EvEnhancedStrobe mmc_ios
  | EvHwReset
  | EvInitCard
  | EvAlloc nat
  | EvPwrseq pwrseq_step
  | EvCqeDisable
  | EvGetRo
  | EvGetCd
  | EvCardEvent
  | EvClaim
  | EvRelease
  | EvDeviceAdd
  | EvDeviceDel
  | EvPutDevice
  | EvGetDevice
  | EvPm pm_call
  | EvScheduleDetect nat
  | EvCancelDetect
  | EvFuncAdd nat
  | EvFuncDel nat
  | EvFuncPm nat pm_call
  | EvSdioIrq bool
  | EvAckSdioIrq
  | EvIrqHandler nat
  | EvIrqThread bool
  | EvWakeThread
  | EvRequestCdIrq
  | EvDisableCdIrq
  | EvCdWake bool
  | EvSignalSdioIrq
  | EvPmDomain nat bool
  | EvDriverProbe nat
  | EvDriverRemove nat
  | EvPreReq mmc_request
  | EvPostReq mmc_request int
  | EvCqeRequest "mmc_command option" "mmc_data option"
  | EvCqePostReq
  | EvCqeRecovery bool
  | EvCqeIdle
  | EvCqeTimeout

type_synonym trace = "mmc_event list"

record host_ops =
  op_request :: "trace \<Rightarrow> mmc_request \<Rightarrow> mmc_completion"
  op_card_busy :: "(trace \<Rightarrow> bool) option"
  op_start_signal_voltage_switch :: "(trace \<Rightarrow> mmc_ios \<Rightarrow> int) option"
  op_execute_tuning :: "(trace \<Rightarrow> u32 \<Rightarrow> int) option"
  op_select_drive_strength :: "(trace \<Rightarrow> u32 \<Rightarrow> int \<Rightarrow> int \<Rightarrow> int \<times> int) option"
  op_init_card :: "(trace \<Rightarrow> mmc_card \<Rightarrow> mmc_card) option"
  op_hs400_downgrade :: bool
  op_hs400_complete :: bool
  op_prepare_hs400_tuning :: bool
  op_hs400_enhanced_strobe :: bool
  op_hw_reset :: bool
  op_cqe_enable :: "trace \<Rightarrow> int"
  op_get_ro :: "(trace \<Rightarrow> int) option"
  op_get_cd :: "(trace \<Rightarrow> int) option"
  op_card_event :: bool
  op_ack_sdio_irq :: bool
  op_multi_io_quirk :: "(mmc_card \<Rightarrow> data_flag \<Rightarrow> u32 \<Rightarrow> u32) option"
  op_pre_req :: bool
  op_post_req :: bool
  op_cqe_request :: "trace \<Rightarrow> mmc_command option \<Rightarrow> mmc_data option \<Rightarrow> int"
  op_cqe_post_req :: bool
  op_cqe_timeout :: "trace \<Rightarrow> bool \<times> bool"
  op_cqe_wait_for_idle :: "trace \<Rightarrow> int"

text \<open>The vendor and device numbers of \<open>linux/mmc/sdio_ids.h\<close> are parameters.\<close>

record sdio_ids =
  SDIO_VENDOR_ID_TI :: u16
  SDIO_DEVICE_ID_TI_WL1271 :: u16
  SDIO_VENDOR_ID_STE :: u16
  SDIO_DEVICE_ID_STE_CW1200 :: u16
  SDIO_VENDOR_ID_MARVELL :: u16
  SDIO_DEVICE_ID_MARVELL_8797_F0 :: u16
  SDIO_DEVICE_ID_MARVELL_8887WLAN :: u16

text \<open>
  Kernel services: the nanoseconds an event takes beyond the first, the length of a timer
  tick minus one, the conversion of milliseconds to ticks, whether an allocation of a
  given size succeeds, the sizes of the card object, of a function, of a tuple's header and
  of a pointer, the result of registering the card with the driver core, the effect of \<open>mmc_retune_needed\<close> (an inline function of
  \<open>linux/mmc/host.h\<close>) on the flag \<open>need_retune\<close> as a function of \<open>can_retune\<close> and the
  flag, the card's device-tree property \<open>broken-hpi\<close>, the module parameter
  \<open>use_spi_crc\<close>, whether the device can wake the system, the contents of a local variable
  that is read before it is written, the results of registering a function of a card, of a
  call of runtime PM and of starting a thread, whether the driver of a function (if it has one)
  can suspend and resume, the results of attaching a function to its power domain and of the
  probe of its driver, the effect of \<open>mmc_signal_sdio_irq\<close> (an inline function of the same
  header) on the flag \<open>sdio_irq_pending\<close>, the numbers of the SDIO quirks, the ticks of a second,
  and the steps the board's power sequence implements.
\<close>

record mmc_kernel =
  kn_elapsed :: "trace \<Rightarrow> mmc_event \<Rightarrow> nat"
  kn_tick :: nat
  kn_msecs_to_jiffies :: "u32 \<Rightarrow> nat"
  kn_alloc :: "trace \<Rightarrow> nat \<Rightarrow> bool"
  kn_sizeof_card :: nat
  kn_sizeof_func :: nat
  kn_sizeof_tuple :: nat
  kn_sizeof_ptr :: nat
  kn_device_add :: "trace \<Rightarrow> int"
  kn_use_spi_crc :: bool
  kn_can_wakeup :: bool
  kn_retune_needed :: "bool \<Rightarrow> bool \<Rightarrow> bool"
  kn_broken_hpi :: bool
  kn_uninit :: u32
  kn_func_add :: "trace \<Rightarrow> int"
  kn_pm_result :: "trace \<Rightarrow> pm_call \<Rightarrow> int"
  kn_thread_run :: "trace \<Rightarrow> int"
  kn_driver_pm :: "nat \<Rightarrow> bool"
  kn_pm_domain :: "trace \<Rightarrow> int"
  kn_driver_probe :: "trace \<Rightarrow> int"
  kn_signal_pending :: "bool \<Rightarrow> bool"
  kn_sdio_ids :: sdio_ids
  kn_hz :: nat
  kn_pwrseq :: "pwrseq_step set"

section \<open>The host and the world\<close>

text \<open>
  \<open>h_card\<close> tells whether \<open>host->card\<close> is set; it then points to the card object of the
  world.  While a new card is initialised the object exists and \<open>host->card\<close> is NULL.
  \<open>h_bus_ops\<close> names the table of bus operations that \<open>host->bus_ops\<close> points to.
\<close>

datatype mmc_bus_ops = MMC_OPS | MMC_SD_OPS | MMC_SDIO_OPS

record mmc_host =
  h_ops :: host_ops
  h_caps :: "mmc_cap set"
  h_caps2 :: "mmc_cap2 set"
  h_f_min :: u32
  h_f_max :: u32
  h_f_init :: u32
  h_ocr_avail :: u32
  h_max_blk_size :: u32
  h_max_blk_count :: u32
  h_max_req_size :: u32
  h_max_seg_size :: u32
  h_max_busy_timeout :: u32
  h_ios :: mmc_ios
  h_use_spi_crc :: bool
  h_can_retune :: bool
  h_doing_retune :: bool
  h_retune_now :: bool
  h_retune_paused :: bool
  h_need_retune :: bool
  h_hold_retune :: nat
  h_retune_period :: nat
  h_retune_timer :: "nat option"
  h_fixed_drv_type :: int
  h_dsr_req :: bool
  h_dsr :: u32
  h_cqe_on :: bool
  h_cqe_enabled :: bool
  h_card :: bool
  h_ocr_avail_sd :: u32
  h_ocr_avail_mmc :: u32
  h_ocr_avail_sdio :: u32
  h_max_current_330 :: u32
  h_max_current_300 :: u32
  h_max_current_180 :: u32
  h_bus_ops :: "mmc_bus_ops option"
  h_bus_refs :: u32
  h_bus_dead :: bool
  h_detect_change :: bool
  h_rescan_disable :: bool
  h_rescan_entered :: bool
  h_trigger_card_event :: bool
  h_pm_caps :: u32
  h_pm_flags :: u32
  h_sdio_irqs :: u32
  h_sdio_irq_pending :: bool
  h_cd_irq :: int
  h_actual_clock :: u32
  h_max_segs :: u32
  h_cqe_qdepth :: u32

record mmc_world =
  w_kernel :: mmc_kernel
  w_host :: mmc_host
  w_card :: mmc_card
  w_trace :: trace
  w_now :: nat

type_synonym 'a io = "(mmc_world, 'a) state"

definition upd_host :: "(mmc_host \<Rightarrow> mmc_host) \<Rightarrow> mmc_world \<Rightarrow> mmc_world" where
  "upd_host f w = w\<lparr>w_host := f (w_host w)\<rparr>"

definition upd_card :: "(mmc_card \<Rightarrow> mmc_card) \<Rightarrow> mmc_world \<Rightarrow> mmc_world" where
  "upd_card f w = w\<lparr>w_card := f (w_card w)\<rparr>"

definition upd_ios :: "(mmc_ios \<Rightarrow> mmc_ios) \<Rightarrow> mmc_world \<Rightarrow> mmc_world" where
  "upd_ios f w = upd_host (\<lambda>h. h\<lparr>h_ios := f (h_ios h)\<rparr>) w"

abbreviation w_ios :: "mmc_world \<Rightarrow> mmc_ios" where
  "w_ios w \<equiv> h_ios (w_host w)"

abbreviation w_ops :: "mmc_world \<Rightarrow> host_ops" where
  "w_ops w \<equiv> h_ops (w_host w)"

abbreviation mmc_host_is_spi :: "mmc_world \<Rightarrow> bool" where
  "mmc_host_is_spi w \<equiv> MMC_CAP_SPI \<in> h_caps (w_host w)"

definition mmc_card_removed :: "mmc_world \<Rightarrow> bool" where
  "mmc_card_removed w \<longleftrightarrow> h_card (w_host w) \<and> card_state MMC_CARD_REMOVED (w_card w)"

lemmas upd_defs = upd_host_def upd_card_def upd_ios_def upd_ec_def upd_csd_def upd_cid_def
  upd_sw_def

end
