(* ===== verification/Bitfields.thy ===== *)
theory Bitfields
  imports Mmc_Types
begin

text \<open>
  Reading a field of a 128-bit register out of four 32-bit words, most significant word
  first: the macro \<open>UNSTUFF_BITS\<close> of \<open>mmc/core/mmc.c\<close> and \<open>mmc/core/sd.c\<close>, the
  register as one number, and the packing of a register from its fields.
\<close>

definition UNSTUFF_BITS :: "u32 list \<Rightarrow> nat \<Rightarrow> nat \<Rightarrow> u32" where
  "UNSTUFF_BITS resp start sz =
    (let mask = (if sz < 32 then push_bit sz 1 else 0) - 1;
         off = 3 - start div 32;
         shft = start mod 32;
         res = drop_bit shft (resp ! off);
         res = (if sz + shft > 32
                then res OR push_bit ((32 - shft) mod 32) (resp ! (off - 1)) else res)
     in res AND mask)"

text \<open>The register that four words hold.\<close>

definition reg128 :: "u32 list \<Rightarrow> 128 word" where
  "reg128 resp = ucast (resp ! 3) OR push_bit 32 (ucast (resp ! 2))
     OR push_bit 64 (ucast (resp ! 1)) OR push_bit 96 (ucast (resp ! 0))"

section \<open>The macro reads the field\<close>

lemma bit_field_mask:
  "bit ((if sz < 32 then push_bit sz 1 else 0) - 1 :: u32) n \<longleftrightarrow> n < sz \<and> n < 32"
proof (cases "sz < 32")
  case True
  then have "push_bit sz 1 - 1 = (mask sz :: u32)"
    by (simp add: mask_eq_exp_minus_1 push_bit_eq_mult)
  with True show ?thesis by (auto simp: bit_simps)
next
  case False
  then show ?thesis by (auto simp: bit_simps)
qed

lemma bit_UNSTUFF_BITS:
  assumes "sz \<le> 32"
  shows "bit (UNSTUFF_BITS resp start sz) n \<longleftrightarrow>
    n < sz \<and>
    (if n + start mod 32 < 32 then bit (resp ! (3 - start div 32)) (n + start mod 32)
     else bit (resp ! (3 - start div 32 - 1)) (n + start mod 32 - 32))"
proof -
  define s where "s = start mod 32"
  have s: "s < 32" by (simp add: s_def)
  have hi: "\<not> bit (resp ! (3 - start div 32)) (n + s)" if "\<not> n + s < 32"
    using that bit_imp_le_length [of "resp ! (3 - start div 32)" "n + s"] by auto
  show ?thesis
    using assms s hi
    by (auto simp: UNSTUFF_BITS_def Let_def bit_field_mask bit_simps s_def [symmetric]
        add.commute [of s n])
qed

lemma bit_reg128:
  assumes "k < 128"
  shows "bit (reg128 resp) k \<longleftrightarrow> bit (resp ! (3 - k div 32)) (k mod 32)"
proof -
  have wd: "\<not> bit (resp ! i) j" if "32 \<le> j" for i j
    using that bit_imp_le_length [of "resp ! i" j] by auto
  have split: "k = 32 * (k div 32) + k mod 32" "k mod 32 < 32" by simp_all
  consider "k div 32 = 0" | "k div 32 = 1" | "k div 32 = 2" | "k div 32 = 3"
    using assms by linarith
  then show ?thesis
  proof cases
    case 1
    then have "k < 32" by simp
    with 1 show ?thesis by (auto simp: reg128_def bit_simps)
  next
    case 2
    with split have "32 \<le> k" "k < 64" "k mod 32 = k - 32" by linarith+
    with 2 show ?thesis by (auto simp: reg128_def bit_simps wd)
  next
    case 3
    with split have "64 \<le> k" "k < 96" "k mod 32 = k - 64" by linarith+
    with 3 show ?thesis by (auto simp: reg128_def bit_simps wd)
  next
    case 4
    with split have "96 \<le> k" "k mod 32 = k - 96" by linarith+
    with 4 assms show ?thesis by (auto simp: reg128_def bit_simps wd)
  qed
qed

lemma UNSTUFF_BITS_slice:
  assumes sz: "sz \<le> 32" and range: "start + sz \<le> 128"
  shows "UNSTUFF_BITS resp start sz = ucast (take_bit sz (drop_bit start (reg128 resp)))"
proof (rule bit_word_eqI)
  fix n assume "n < LENGTH(32)"
  show "bit (UNSTUFF_BITS resp start sz) n
      \<longleftrightarrow> bit (ucast (take_bit sz (drop_bit start (reg128 resp))) :: u32) n"
  proof (cases "n < sz")
    case False
    then show ?thesis by (simp add: bit_UNSTUFF_BITS [OF sz] bit_simps)
  next
    case True
    with range have lt: "start + n < 128" by simp
    have dec: "start + n = (n + start mod 32) + start div 32 * 32" by simp
    have q: "(start + n) div 32 = start div 32 + (n + start mod 32) div 32"
      by (subst dec) (rule div_mult_self1, simp)
    have r: "(start + n) mod 32 = (n + start mod 32) mod 32"
      by (subst dec) (rule mod_mult_self1)
    have "n + start mod 32 < 64" using True sz by (simp add: add_less_mono [of n 32 _ 32, simplified])
    then have pos: "(start + n) div 32 = start div 32 + (if n + start mod 32 < 32 then 0 else 1)"
      "(start + n) mod 32 = n + start mod 32 - (if n + start mod 32 < 32 then 0 else 32)"
      unfolding q r by (auto simp: mod_if [of "n + start mod 32"])
    have "bit (ucast (take_bit sz (drop_bit start (reg128 resp))) :: u32) n
        \<longleftrightarrow> bit (reg128 resp) (start + n)"
      using True sz lt by (simp add: bit_simps add.commute)
    then show ?thesis
      using True by (simp add: bit_UNSTUFF_BITS [OF sz] bit_reg128 [OF lt] pos)
  qed
qed

text \<open>As numbers: the field is the quotient of the register by \<open>2 ^ start\<close>, reduced to
  its width.\<close>

lemma unat_UNSTUFF_BITS:
  assumes "sz \<le> 32" and "start + sz \<le> 128"
  shows "unat (UNSTUFF_BITS resp start sz) = unat (reg128 resp) div 2 ^ start mod 2 ^ sz"
proof -
  have full: "unat (reg128 resp) mod 2 ^ 128 = unat (reg128 resp)"
    using unsigned_less [of "reg128 resp", where 'a = nat] by simp
  have "(2::nat) ^ sz dvd 2 ^ 32" using assms(1) by (rule le_imp_power_dvd)
  then have cancel: "x mod 2 ^ 32 mod 2 ^ sz = x mod 2 ^ sz" for x :: nat
    by (rule mod_mod_cancel)
  show ?thesis
    using full cancel
    by (simp add: UNSTUFF_BITS_slice [OF assms] unsigned_ucast_eq unsigned_take_bit_eq
        unsigned_drop_bit_eq take_bit_eq_mod [where 'a = nat]
        drop_bit_eq_div [where 'a = nat])
qed

lemma UNSTUFF_BITS_bound: "sz \<le> 32 \<Longrightarrow> start + sz \<le> 128 \<Longrightarrow>
    unat (UNSTUFF_BITS resp start sz) < 2 ^ sz"
  by (simp add: unat_UNSTUFF_BITS)

section \<open>Packing fields into a register\<close>

text \<open>
  A register is described by its fields from bit 0 upwards, each a width and a value.
\<close>

fun pack :: "(nat \<times> nat) list \<Rightarrow> nat" where
  "pack [] = 0"
| "pack ((sz, v) # fs) = v mod 2 ^ sz + 2 ^ sz * pack fs"

definition words_of :: "nat \<Rightarrow> u32 list" where
  "words_of n = [of_nat (n div 2 ^ 96), of_nat (n div 2 ^ 64), of_nat (n div 2 ^ 32), of_nat n]"

lemma pack_bound: "pack fs < 2 ^ sum_list (map fst fs)"
proof (induction fs rule: pack.induct)
  case 1
  then show ?case by simp
next
  case (2 sz v fs)
  have "v mod 2 ^ sz + 2 ^ sz * pack fs < 2 ^ sz + 2 ^ sz * pack fs"
    by (simp add: mod_less_divisor)
  also have "\<dots> = 2 ^ sz * Suc (pack fs)" by simp
  also have "\<dots> \<le> 2 ^ sz * 2 ^ sum_list (map fst fs)"
    using 2 by (intro mult_le_mono2) simp
  finally show ?case by (simp add: power_add)
qed

text \<open>The field that starts at a boundary is read back with its value.\<close>

fun field_at :: "nat \<Rightarrow> (nat \<times> nat) list \<Rightarrow> (nat \<times> nat) option" where
  "field_at start [] = None"
| "field_at start ((sz, v) # fs) =
    (if start = 0 then Some (sz, v) else if start < sz then None else field_at (start - sz) fs)"

lemma pack_field_at:
  "field_at start fs = Some (sz, v) \<Longrightarrow> pack fs div 2 ^ start mod 2 ^ sz = v mod 2 ^ sz"
proof (induction start fs rule: field_at.induct)
  case (1 start)
  then show ?case by simp
next
  case (2 start s u fs)
  show ?case
  proof (cases "start = 0")
    case True
    with 2 show ?thesis by simp
  next
    case False
    with 2 have ge: "s \<le> start" and rest: "field_at (start - s) fs = Some (sz, v)"
      by (auto split: if_splits)
    from ge have "(2::nat) ^ start = 2 ^ s * 2 ^ (start - s)"
      by (simp flip: power_add)
    then have "pack ((s, u) # fs) div 2 ^ start = pack fs div 2 ^ (start - s)"
      by (simp add: div_mult2_eq)
    with 2 False ge rest show ?thesis by simp
  qed
qed

lemma reg128_words_of:
  assumes "n < 2 ^ 128"
  shows "unat (reg128 (words_of n)) = n"
proof -
  have "reg128 (words_of n) = of_nat n"
  proof (rule bit_word_eqI)
    fix k assume "k < LENGTH(128)"
    then have k: "k < 128" by simp
    have w: "words_of n ! (3 - k div 32) = of_nat (n div 2 ^ (32 * (k div 32)))"
    proof -
      consider "k div 32 = 0" | "k div 32 = 1" | "k div 32 = 2" | "k div 32 = 3"
        using k by linarith
      then show ?thesis by cases (simp_all add: words_of_def)
    qed
    have "bit (reg128 (words_of n)) k \<longleftrightarrow> bit (n div 2 ^ (32 * (k div 32))) (k mod 32)"
      unfolding bit_reg128 [OF k] w by (simp add: bit_simps)
    also have "\<dots> \<longleftrightarrow> bit n k"
      by (simp flip: drop_bit_eq_div add: bit_simps)
    finally show "bit (reg128 (words_of n)) k \<longleftrightarrow> bit (of_nat n :: 128 word) k"
      using k by (simp add: bit_simps)
  qed
  with assms show ?thesis by (simp add: unat_of_nat)
qed

lemma UNSTUFF_BITS_pack:
  assumes "field_at start fs = Some (sz, v)" and "sum_list (map fst fs) = 128"
    and "sz \<le> 32" and "start + sz \<le> 128"
  shows "UNSTUFF_BITS (words_of (pack fs)) start sz = of_nat (v mod 2 ^ sz)"
proof -
  have "pack fs < 2 ^ 128" using pack_bound [of fs] assms(2) by simp
  then have "unat (UNSTUFF_BITS (words_of (pack fs)) start sz) = v mod 2 ^ sz"
    using assms pack_field_at [OF assms(1)] by (simp add: unat_UNSTUFF_BITS reg128_words_of)
  then show ?thesis by (metis of_nat_unat ucast_id)
qed

end
