(* ===== verification/Card_Registers.thy ===== *)
theory Card_Registers
  imports Bitfields
begin

text \<open>
  Decoding of the CID and CSD of MMC cards (\<open>mmc/core/mmc.c\<close>) and of the CID, CSD, SCR
  and SD status of SD cards (\<open>mmc/core/sd.c\<close>).  A decoder takes the card and returns its
  return code with the card as the code leaves it, also on the error path.
\<close>

section \<open>Tables\<close>

definition tran_exp :: "u32 list" where
  "tran_exp = [10000, 100000, 1000000, 10000000, 0, 0, 0, 0]"

definition tran_mant :: "u32 list" where
  "tran_mant = [0, 10, 12, 13, 15, 20, 25, 30, 35, 40, 45, 50, 55, 60, 70, 80]"

definition taac_exp :: "u32 list" where
  "taac_exp = [1, 10, 100, 1000, 10000, 100000, 1000000, 10000000]"

definition taac_mant :: "u32 list" where
  "taac_mant = [0, 10, 12, 13, 15, 20, 25, 30, 35, 40, 45, 50, 55, 60, 70, 80]"

text \<open>SD allocation unit sizes in sectors of 512 bytes.\<close>

definition sd_au_size :: "u32 list" where
  "sd_au_size =
    [0,               16 * 1024 div 512,   32 * 1024 div 512,   64 * 1024 div 512,
     128 * 1024 div 512, 256 * 1024 div 512,  512 * 1024 div 512,  1024 * 1024 div 512,
     2 * 1048576 div 512, 4 * 1048576 div 512, 8 * 1048576 div 512,
     (8 * 1048576 + 4 * 1048576) div 512,
     16 * 1048576 div 512, (16 * 1048576 + 8 * 1048576) div 512,
     32 * 1048576 div 512, 64 * 1048576 div 512]"

section \<open>MMC\<close>

definition mmc_decode_cid :: "mmc_card \<Rightarrow> int \<times> mmc_card" where
  "mmc_decode_cid mc =
    (let U = UNSTUFF_BITS (cd_raw_cid mc);
         vsn = csd_mmca_vsn (cd_csd mc);
         cid = cd_cid mc;
         name = cid_prod_name cid
     in if vsn = 0 \<or> vsn = 1 then
          (0, mc\<lparr>cd_cid := cid
             \<lparr>cid_manfid := U 104 24,
              cid_prod_name := name[0 := ucast (U 96 8), 1 := ucast (U 88 8),
                2 := ucast (U 80 8), 3 := ucast (U 72 8), 4 := ucast (U 64 8),
                5 := ucast (U 56 8), 6 := ucast (U 48 8)],
              cid_hwrev := ucast (U 44 4),
              cid_fwrev := ucast (U 40 4),
              cid_serial := U 16 24,
              cid_month := ucast (U 12 4),
              cid_year := ucast (U 8 4 + 1997)\<rparr>\<rparr>)
        else if vsn = 2 \<or> vsn = 3 \<or> vsn = 4 then
          (0, mc\<lparr>cd_cid := cid
             \<lparr>cid_manfid := U 120 8,
              cid_oemid := ucast (U 104 16),
              cid_prod_name := name[0 := ucast (U 96 8), 1 := ucast (U 88 8),
                2 := ucast (U 80 8), 3 := ucast (U 72 8), 4 := ucast (U 64 8),
                5 := ucast (U 56 8)],
              cid_prv := ucast (U 48 8),
              cid_serial := U 16 32,
              cid_month := ucast (U 12 4),
              cid_year := ucast (U 8 4 + 1997)\<rparr>\<rparr>)
        else (- EINVAL, mc))"

definition mmc_decode_csd :: "mmc_card \<Rightarrow> int \<times> mmc_card" where
  "mmc_decode_csd mc =
    (let U = UNSTUFF_BITS (cd_raw_csd mc);
         csd = (cd_csd mc)\<lparr>csd_structure := ucast (U 126 2)\<rparr>
     in if csd_structure csd = 0 then (- EINVAL, mc\<lparr>cd_csd := csd\<rparr>)
        else
          (let csd = csd\<lparr>csd_mmca_vsn := ucast (U 122 4)\<rparr>;
               m = U 115 4; e = U 112 3;
               csd = csd\<lparr>csd_taac_ns := (taac_exp ! unat e * taac_mant ! unat m + 9) div 10,
                         csd_taac_clks := ucast (U 104 8 * 100)\<rparr>;
               m = U 99 4; e = U 96 3;
               csd = csd\<lparr>csd_max_dtr := tran_exp ! unat e * tran_mant ! unat m,
                         csd_cmdclass := ucast (U 84 12)\<rparr>;
               e = U 47 3; m = U 62 12;
               csd = csd\<lparr>csd_capacity := push_bit (unat (e + 2)) (1 + m),
                         csd_read_blkbits := U 80 4,
                         csd_read_partial := (U 79 1 \<noteq> 0),
                         csd_write_misalign := (U 78 1 \<noteq> 0),
                         csd_read_misalign := (U 77 1 \<noteq> 0),
                         csd_dsr_imp := (U 76 1 \<noteq> 0),
                         csd_r2w_factor := U 26 3,
                         csd_write_blkbits := U 22 4,
                         csd_write_partial := (U 21 1 \<noteq> 0)\<rparr>;
               csd = (if csd_write_blkbits csd \<ge> 9 then
                        let a = U 42 5; b = U 37 5 in
                        csd\<lparr>csd_erase_size :=
                          push_bit (unat (csd_write_blkbits csd - 9)) ((a + 1) * (b + 1))\<rparr>
                      else csd)
           in (0, mc\<lparr>cd_csd := csd\<rparr>)))"

section \<open>SD\<close>

definition mmc_decode_cid_sd :: "mmc_card \<Rightarrow> mmc_card" where
  "mmc_decode_cid_sd mc =
    (let U = UNSTUFF_BITS (cd_raw_cid mc);
         cid = cd_cid mc;
         cid = cid
           \<lparr>cid_manfid := U 120 8,
            cid_oemid := ucast (U 104 16),
            cid_prod_name := (cid_prod_name cid)[0 := ucast (U 96 8), 1 := ucast (U 88 8),
              2 := ucast (U 80 8), 3 := ucast (U 72 8), 4 := ucast (U 64 8)],
            cid_hwrev := ucast (U 60 4),
            cid_fwrev := ucast (U 56 4),
            cid_serial := U 24 32,
            cid_year := ucast (U 12 8),
            cid_month := ucast (U 8 4)\<rparr>
     in mc\<lparr>cd_cid := cid\<lparr>cid_year := cid_year cid + 2000\<rparr>\<rparr>)"

definition sd_csd_v1 :: "(nat \<Rightarrow> nat \<Rightarrow> u32) \<Rightarrow> mmc_csd \<Rightarrow> mmc_csd" where
  "sd_csd_v1 U csd =
    (let m = U 115 4; e = U 112 3;
         csd = csd\<lparr>csd_taac_ns := (taac_exp ! unat e * taac_mant ! unat m + 9) div 10,
                   csd_taac_clks := ucast (U 104 8 * 100)\<rparr>;
         m = U 99 4; e = U 96 3;
         csd = csd\<lparr>csd_max_dtr := tran_exp ! unat e * tran_mant ! unat m,
                   csd_cmdclass := ucast (U 84 12)\<rparr>;
         e = U 47 3; m = U 62 12;
         csd = csd\<lparr>csd_capacity := push_bit (unat (e + 2)) (1 + m),
                   csd_read_blkbits := U 80 4,
                   csd_read_partial := (U 79 1 \<noteq> 0),
                   csd_write_misalign := (U 78 1 \<noteq> 0),
                   csd_read_misalign := (U 77 1 \<noteq> 0),
                   csd_dsr_imp := (U 76 1 \<noteq> 0),
                   csd_r2w_factor := U 26 3,
                   csd_write_blkbits := U 22 4,
                   csd_write_partial := (U 21 1 \<noteq> 0)\<rparr>
     in if U 46 1 \<noteq> 0 then csd\<lparr>csd_erase_size := 1\<rparr>
        else if csd_write_blkbits csd \<ge> 9 then
          csd\<lparr>csd_erase_size := push_bit (unat (csd_write_blkbits csd - 9)) (U 39 7 + 1)\<rparr>
        else csd)"

definition sd_csd_v2 :: "(nat \<Rightarrow> nat \<Rightarrow> u32) \<Rightarrow> mmc_csd \<Rightarrow> mmc_csd" where
  "sd_csd_v2 U csd =
    (let m = U 99 4; e = U 96 3;
         csd = csd\<lparr>csd_taac_ns := 0, csd_taac_clks := 0,
                   csd_max_dtr := tran_exp ! unat e * tran_mant ! unat m,
                   csd_cmdclass := ucast (U 84 12),
                   csd_c_size := U 48 22\<rparr>;
         m = U 48 22
     in csd\<lparr>csd_capacity := push_bit 10 (1 + m),
            csd_read_blkbits := 9,
            csd_read_partial := False,
            csd_write_misalign := False,
            csd_read_misalign := False,
            csd_r2w_factor := 4,
            csd_write_blkbits := 9,
            csd_write_partial := False,
            csd_erase_size := 1\<rparr>)"

definition mmc_decode_csd_sd :: "mmc_card \<Rightarrow> int \<times> mmc_card" where
  "mmc_decode_csd_sd mc =
    (let U = UNSTUFF_BITS (cd_raw_csd mc); csd_struct = U 126 2
     in if csd_struct = 0 then
          (let csd = sd_csd_v1 U (cd_csd mc)
           in (0, mc\<lparr>cd_csd := csd, cd_erase_size := csd_erase_size csd\<rparr>))
        else if csd_struct = 1 then
          (let mc = card_set_state MMC_STATE_BLOCKADDR mc;
               csd = sd_csd_v2 U (cd_csd mc);
               mc = (if csd_c_size csd \<ge> 0xFFFF
                       then card_set_state MMC_CARD_SDXC mc else mc)
           in (0, mc\<lparr>cd_csd := csd, cd_erase_size := csd_erase_size csd\<rparr>))
        else (- EINVAL, mc))"

abbreviation (input) SCR_SPEC_VER_1 :: u8 where "SCR_SPEC_VER_1 \<equiv> 1"
abbreviation (input) SCR_SPEC_VER_2 :: u8 where "SCR_SPEC_VER_2 \<equiv> 2"

text \<open>The two upper words of \<open>resp\<close> are never read: all fields lie below bit 64.\<close>

definition mmc_decode_scr :: "mmc_card \<Rightarrow> int \<times> mmc_card" where
  "mmc_decode_scr mc =
    (let U = UNSTUFF_BITS [0, 0, cd_raw_scr mc ! 0, cd_raw_scr mc ! 1]
     in if U 60 4 \<noteq> 0 then (- EINVAL, mc)
        else
          (let scr = (cd_scr mc)\<lparr>scr_sda_vsn := ucast (U 56 4),
                                   scr_bus_widths := ucast (U 48 4)\<rparr>;
               scr = (if scr_sda_vsn scr = SCR_SPEC_VER_2
                      then scr\<lparr>scr_sda_spec3 := ucast (U 47 1)\<rparr> else scr);
               byte = (if U 55 1 \<noteq> 0 then 0xFF else 0);
               scr = (if scr_sda_spec3 scr \<noteq> 0
                      then scr\<lparr>scr_cmds := ucast (U 32 2)\<rparr> else scr)
           in (0, mc\<lparr>cd_scr := scr, cd_erased_byte := byte\<rparr>)))"

text \<open>The part of \<open>mmc_read_ssr\<close> that follows the transfer.\<close>

definition mmc_decode_ssr :: "mmc_card \<Rightarrow> mmc_card" where
  "mmc_decode_ssr mc =
    (let U = UNSTUFF_BITS (cd_raw_ssr mc); au = U (428 - 384) 4; ssr = cd_ssr mc
     in if au \<noteq> 0 \<and> (au \<le> 9 \<or> scr_sda_spec3 (cd_scr mc) \<noteq> 0) then
          (let ssr = ssr\<lparr>ssr_au := sd_au_size ! unat au\<rparr>;
               es = U (408 - 384) 16; et = U (402 - 384) 6;
               ssr = (if es \<noteq> 0 \<and> et \<noteq> 0 then
                        let eo = U (400 - 384) 2 in
                        ssr\<lparr>ssr_erase_timeout := et * 1000 div es,
                            ssr_erase_offset := eo * 1000\<rparr>
                      else ssr)
           in mc\<lparr>cd_ssr := ssr\<rparr>)
        else mc)"

section \<open>The decoded CSD\<close>

text \<open>The field of the register \<open>r\<close> that starts at bit \<open>s\<close> and has \<open>z\<close> bits.\<close>

definition rfield :: "u32 list \<Rightarrow> nat \<Rightarrow> nat \<Rightarrow> nat" where
  "rfield r s z = unat (reg128 r) div 2 ^ s mod 2 ^ z"

lemma rfield_less: "rfield r s z < 2 ^ z"
  by (simp add: rfield_def)

lemma unat_U: "z \<le> 32 \<Longrightarrow> s + z \<le> 128 \<Longrightarrow> unat (UNSTUFF_BITS r s z) = rfield r s z"
  by (simp add: rfield_def unat_UNSTUFF_BITS)

lemma taac_exp_nth: "e < 8 \<Longrightarrow> unat (taac_exp ! e) = 10 ^ e"
proof -
  have "list_all (\<lambda>i. unat (taac_exp ! i) = 10 ^ i) [0..<8]"
    by (simp add: taac_exp_def upt_rec)
  then show "e < 8 \<Longrightarrow> ?thesis" by (simp add: list_all_iff)
qed

lemma tran_exp_nth: "e < 8 \<Longrightarrow> unat (tran_exp ! e) = (if e < 4 then 10 ^ (e + 4) else 0)"
proof -
  have "list_all (\<lambda>i. unat (tran_exp ! i) = (if i < 4 then 10 ^ (i + 4) else 0)) [0..<8]"
    by (simp add: tran_exp_def upt_rec)
  then show "e < 8 \<Longrightarrow> ?thesis" by (simp add: list_all_iff)
qed

lemma mant_nth: "m < 16 \<Longrightarrow> unat (taac_mant ! m) \<le> 80" "m < 16 \<Longrightarrow> unat (tran_mant ! m) \<le> 80"
proof -
  have "list_all (\<lambda>x. unat x \<le> 80) taac_mant" "list_all (\<lambda>x. unat x \<le> 80) tran_mant"
    by (simp_all add: taac_mant_def tran_mant_def)
  then show "m < 16 \<Longrightarrow> unat (taac_mant ! m) \<le> 80" "m < 16 \<Longrightarrow> unat (tran_mant ! m) \<le> 80"
    by (auto intro: nth_all simp: taac_mant_def tran_mant_def)
qed

lemma taac_value:
  assumes "e < 8" and "m < 16"
  shows "unat ((taac_exp ! e * taac_mant ! m + 9) div 10)
    = (10 ^ e * unat (taac_mant ! m) + 9) div 10"
proof -
  have "(10::nat) ^ e \<le> 10 ^ 7" using assms(1) by (intro power_increasing) auto
  then have le: "10 ^ e * unat (taac_mant ! m) \<le> 10 ^ 7 * 80"
    by (rule mult_le_mono) (rule mant_nth [OF assms(2)])
  then have "unat (taac_exp ! e * taac_mant ! m)
      = 10 ^ e * unat (taac_mant ! m)"
    by (subst unat_mult_small) (simp_all add: taac_exp_nth assms)
  with le show ?thesis by (simp add: unat_div unat_add_small)
qed

lemma tran_value:
  assumes "e < 8" and "m < 16"
  shows "unat (tran_exp ! e * tran_mant ! m)
    = (if e < 4 then 10 ^ (e + 4) else 0) * unat (tran_mant ! m)"
proof -
  let ?x = "if e < 4 then 10 ^ (e + 4) else (0::nat)"
  have "(10::nat) ^ (e + 4) \<le> 10 ^ 7" if "e < 4"
    using that by (intro power_increasing) auto
  then have "?x \<le> 10 ^ 7" by simp
  then have "?x * unat (tran_mant ! m) \<le> 10 ^ 7 * 80"
    by (rule mult_le_mono) (rule mant_nth [OF assms(2)])
  then show ?thesis
    by (subst unat_mult_small) (simp_all add: tran_exp_nth assms)
qed

lemma capacity_value:
  fixes e m :: u32
  assumes "unat e < 8" and "unat m < 4096"
  shows "unat (push_bit (unat (e + 2)) (1 + m)) = (unat m + 1) * 2 ^ (unat e + 2)"
proof -
  have e2: "unat (e + 2) = unat e + 2" using assms(1) by (simp add: unat_add_small)
  have m1: "unat (1 + m) = unat m + 1" using assms(2) by (simp add: unat_add_small)
  have "(2::nat) ^ (unat e + 2) \<le> 2 ^ 9" using assms(1) by (intro power_increasing) auto
  then have "(unat m + 1) * 2 ^ (unat e + 2) \<le> 4096 * 2 ^ 9"
    using assms(2) by (intro mult_le_mono) auto
  then show ?thesis by (subst unat_push_small) (simp_all add: e2 m1)
qed

lemma erase_size_value:
  fixes a b w :: u32
  assumes "unat a < 32" and "unat b < 32" and "unat w < 16" and "9 \<le> w"
  shows "unat (push_bit (unat (w - 9)) ((a + 1) * (b + 1)))
    = (unat a + 1) * (unat b + 1) * 2 ^ (unat w - 9)"
proof -
  have w9: "unat (w - 9) = unat w - 9" using assms(4) by (simp add: unat_sub)
  have le: "(unat a + 1) * (unat b + 1) \<le> 32 * 32"
    using assms(1,2) by (intro mult_le_mono) auto
  have prod: "unat ((a + 1) * (b + 1)) = (unat a + 1) * (unat b + 1)"
    using assms(1,2) le by (subst unat_mult_small) (simp_all add: unat_add_small)
  have "(2::nat) ^ (unat w - 9) \<le> 2 ^ 6" using assms(3) by (intro power_increasing) auto
  with le have "(unat a + 1) * (unat b + 1) * 2 ^ (unat w - 9) \<le> 32 * 32 * 2 ^ 6"
    by (rule mult_le_mono)
  then show ?thesis by (subst unat_push_small) (simp_all add: w9 prod)
qed

text \<open>
  The CSD of an MMC card as numbers: what the standard says the fields stand for, with
  the mantissas of the two tables.
\<close>

definition csd_taac_spec :: "u32 list \<Rightarrow> nat" where
  "csd_taac_spec r = (10 ^ rfield r 112 3 * unat (taac_mant ! rfield r 115 4) + 9) div 10"

definition csd_dtr_spec :: "u32 list \<Rightarrow> nat" where
  "csd_dtr_spec r = (if rfield r 96 3 < 4 then 10 ^ (rfield r 96 3 + 4) else 0)
     * unat (tran_mant ! rfield r 99 4)"

definition csd_capacity_spec :: "u32 list \<Rightarrow> nat" where
  "csd_capacity_spec r = (rfield r 62 12 + 1) * 2 ^ (rfield r 47 3 + 2)"

definition csd_erase_spec :: "u32 list \<Rightarrow> nat" where
  "csd_erase_spec r =
    (rfield r 42 5 + 1) * (rfield r 37 5 + 1) * 2 ^ (rfield r 22 4 - 9)"

lemma U_zero: "z \<le> 32 \<Longrightarrow> s + z \<le> 128 \<Longrightarrow> UNSTUFF_BITS r s z = 0 \<longleftrightarrow> rfield r s z = 0"
  by (metis unat_U unat_eq_0)

lemma unat_ucast_U:
  assumes "z \<le> LENGTH('a)" and "z \<le> 32" and "s + z \<le> 128"
  shows "unat (ucast (UNSTUFF_BITS r s z) :: 'a::len word) = rfield r s z"
proof -
  have "rfield r s z < 2 ^ LENGTH('a)"
    by (rule order_less_le_trans [OF rfield_less power_increasing]) (use assms in auto)
  then show ?thesis using assms by (simp add: unat_U unat_ucast_small)
qed

lemma ucast_U_zero:
  assumes "z \<le> LENGTH('a)" and "z \<le> 32" and "s + z \<le> 128"
  shows "(ucast (UNSTUFF_BITS r s z) :: 'a::len word) = 0 \<longleftrightarrow> rfield r s z = 0"
  by (metis unat_ucast_U [OF assms] unat_eq_0)

lemma mmc_decode_csd_fst:
  "fst (mmc_decode_csd mc) = (if rfield (cd_raw_csd mc) 126 2 = 0 then - EINVAL else 0)"
  by (simp add: mmc_decode_csd_def Let_def ucast_U_zero)

lemma rfield_small [simp]:
  "rfield r s 3 < 8" "rfield r s 4 < 16" "rfield r s 5 < 32" "rfield r s 12 < 4096"
  using rfield_less [of r s 3] rfield_less [of r s 4] rfield_less [of r s 5]
    rfield_less [of r s 12] by simp_all

text \<open>The fields after a successful decoding.\<close>

lemma mmc_decode_csd_fields:
  assumes "mmc_decode_csd mc = (0, mc')"
  shows "unat (csd_taac_ns (cd_csd mc')) = csd_taac_spec (cd_raw_csd mc)"
    and "unat (csd_taac_clks (cd_csd mc')) = rfield (cd_raw_csd mc) 104 8 * 100"
    and "unat (csd_max_dtr (cd_csd mc')) = csd_dtr_spec (cd_raw_csd mc)"
    and "unat (csd_cmdclass (cd_csd mc')) = rfield (cd_raw_csd mc) 84 12"
    and "unat (csd_capacity (cd_csd mc')) = csd_capacity_spec (cd_raw_csd mc)"
    and "unat (csd_write_blkbits (cd_csd mc')) = rfield (cd_raw_csd mc) 22 4"
    and "9 \<le> rfield (cd_raw_csd mc) 22 4 \<Longrightarrow>
      unat (csd_erase_size (cd_csd mc')) = csd_erase_spec (cd_raw_csd mc)"
proof -
  let ?r = "cd_raw_csd mc"
  have nz: "ucast (UNSTUFF_BITS ?r 126 2) \<noteq> (0 :: u8)"
    using assms mmc_decode_csd_fst [of mc] by (auto simp: ucast_U_zero split: if_splits)
  have mc': "mc' = snd (mmc_decode_csd mc)" using assms by simp
  note unfold = mmc_decode_csd_def Let_def nz
  show "unat (csd_taac_ns (cd_csd mc')) = csd_taac_spec ?r"
    unfolding mc' by (simp add: unfold taac_value unat_U csd_taac_spec_def)
  show "unat (csd_max_dtr (cd_csd mc')) = csd_dtr_spec ?r"
    unfolding mc' by (simp add: unfold tran_value unat_U csd_dtr_spec_def)
  show "unat (csd_cmdclass (cd_csd mc')) = rfield ?r 84 12"
    unfolding mc' by (simp add: unfold unat_ucast_U)
  show "unat (csd_capacity (cd_csd mc')) = csd_capacity_spec ?r"
    unfolding mc' by (simp add: unfold capacity_value unat_U csd_capacity_spec_def)
  show "unat (csd_write_blkbits (cd_csd mc')) = rfield ?r 22 4"
    unfolding mc' by (simp add: unfold unat_U)
  show "unat (csd_erase_size (cd_csd mc')) = csd_erase_spec ?r" if "9 \<le> rfield ?r 22 4"
  proof -
    have "9 \<le> UNSTUFF_BITS ?r 22 4" using that by (simp add: word_le_nat_alt unat_U)
    then show ?thesis
      unfolding mc' by (simp add: unfold erase_size_value unat_U csd_erase_spec_def)
  qed
  have "rfield ?r 104 8 * 100 < 2 ^ 16" using rfield_less [of ?r 104 8] by simp
  then show "unat (csd_taac_clks (cd_csd mc')) = rfield ?r 104 8 * 100"
    unfolding mc' by (simp add: unfold unat_ucast_small unat_mult_small unat_U)
qed

text \<open>
  The register image of a CID: its fields from bit 0 upwards.  Bits 0 to 7 hold the
  checksum and the end bit, which no decoder reads.
\<close>

definition mmc_cid_image ::
  "u8 \<Rightarrow> u16 \<Rightarrow> u8 \<Rightarrow> u8 \<Rightarrow> u8 \<Rightarrow> u8 \<Rightarrow> u8 \<Rightarrow> u8 \<Rightarrow> u8 \<Rightarrow> u32 \<Rightarrow> nat \<Rightarrow> nat \<Rightarrow> nat \<Rightarrow> (nat \<times> nat) list"
  where
  "mmc_cid_image mid oid p0 p1 p2 p3 p4 p5 prv serial month year crc =
    [(8, crc), (4, year), (4, month), (32, unat serial), (8, unat prv), (8, unat p5),
     (8, unat p4), (8, unat p3), (8, unat p2), (8, unat p1), (8, unat p0),
     (16, unat oid), (8, unat mid)]"

lemma of_nat_unat_mod:
  "LENGTH('a) = z \<Longrightarrow> of_nat (unat (w :: 'a::len word) mod 2 ^ z) = (ucast w :: 'b::len word)"
  using unsigned_less [of w, where 'a = nat] by (simp add: of_nat_unat)

lemma mmc_cid_image_read:
  fixes mid oid p0 p1 p2 p3 p4 p5 prv serial month year crc
  defines "U \<equiv> UNSTUFF_BITS (words_of (pack
      (mmc_cid_image mid oid p0 p1 p2 p3 p4 p5 prv serial month year crc)))"
  shows "U 120 8 = ucast mid" "U 104 16 = ucast oid" "U 96 8 = ucast p0" "U 88 8 = ucast p1"
    "U 80 8 = ucast p2" "U 72 8 = ucast p3" "U 64 8 = ucast p4" "U 56 8 = ucast p5"
    "U 48 8 = ucast prv" "U 16 32 = serial" "U 12 4 = of_nat (month mod 2 ^ 4)"
    "U 8 4 = of_nat (year mod 2 ^ 4)"
proof -
  have read: "U s z = of_nat (v mod 2 ^ z)"
    if "field_at s (mmc_cid_image mid oid p0 p1 p2 p3 p4 p5 prv serial month year crc)
          = Some (z, v)" "z \<le> 32" "s + z \<le> 128" for s z v
    unfolding U_def using that by (intro UNSTUFF_BITS_pack) (simp_all add: mmc_cid_image_def)
  show "U 120 8 = ucast mid" "U 104 16 = ucast oid" "U 96 8 = ucast p0" "U 88 8 = ucast p1"
    "U 80 8 = ucast p2" "U 72 8 = ucast p3" "U 64 8 = ucast p4" "U 56 8 = ucast p5"
    "U 48 8 = ucast prv" "U 16 32 = serial" "U 12 4 = of_nat (month mod 2 ^ 4)"
    "U 8 4 = of_nat (year mod 2 ^ 4)"
    by (subst read, simp add: mmc_cid_image_def, simp, simp,
        (rule of_nat_unat_mod, simp | subst of_nat_unat_mod, simp, simp | rule refl))+
qed

end
