(* ===== verification/Quirks.thy ===== *)
theory Quirks
  imports Card_Registers
begin

text \<open>
  The quirk tables of \<open>mmc/core/quirks.h\<close> and their interpreter \<open>mmc_fixup_device\<close>, with
  the fixup functions and revision key of \<open>mmc/core/card.h\<close>.  A table entry holds the name
  of its fixup function as a constructor of \<open>vendor_fixup\<close>; \<open>NULL\<close> for a name is None.
\<close>

section \<open>Fixup functions\<close>

datatype vendor_fixup = Add_quirk mmc_quirk | Add_quirk_mmc mmc_quirk | Add_quirk_sd mmc_quirk
  | Add_limit_rate_quirk u32

definition add_quirk :: "mmc_quirk \<Rightarrow> mmc_card \<Rightarrow> mmc_card" where
  "add_quirk q mc = mc\<lparr>cd_quirks := insert q (cd_quirks mc)\<rparr>"

definition add_quirk_mmc :: "mmc_quirk \<Rightarrow> mmc_card \<Rightarrow> mmc_card" where
  "add_quirk_mmc q mc = (if mmc_card_mmc mc then mc\<lparr>cd_quirks := insert q (cd_quirks mc)\<rparr> else mc)"

definition add_quirk_sd :: "mmc_quirk \<Rightarrow> mmc_card \<Rightarrow> mmc_card" where
  "add_quirk_sd q mc = (if mmc_card_sd mc then mc\<lparr>cd_quirks := insert q (cd_quirks mc)\<rparr> else mc)"

definition add_limit_rate_quirk :: "u32 \<Rightarrow> mmc_card \<Rightarrow> mmc_card" where
  "add_limit_rate_quirk d mc = mc\<lparr>cd_quirk_max_rate := d\<rparr>"

fun call_fixup :: "vendor_fixup \<Rightarrow> mmc_card \<Rightarrow> mmc_card" where
  "call_fixup (Add_quirk q) mc = add_quirk q mc"
| "call_fixup (Add_quirk_mmc q) mc = add_quirk_mmc q mc"
| "call_fixup (Add_quirk_sd q) mc = add_quirk_sd q mc"
| "call_fixup (Add_limit_rate_quirk d) mc = add_limit_rate_quirk d mc"

section \<open>Tables\<close>

record mmc_fixup =
  fx_name :: "string option"
  fx_rev_start :: u64
  fx_rev_end :: u64
  fx_manfid :: u32
  fx_oemid :: u16
  fx_cis_vendor :: u16
  fx_cis_device :: u16
  fx_ext_csd_rev :: u32
  fx_vendor_fixup :: vendor_fixup

text \<open>\<open>SDIO_ANY_ID\<close> is the all-ones wildcard of the SDIO id tables.\<close>

abbreviation (input) SDIO_ANY_ID :: u16 where "SDIO_ANY_ID \<equiv> - 1"
abbreviation (input) CID_MANFID_ANY :: u32 where "CID_MANFID_ANY \<equiv> - 1"
abbreviation (input) CID_OEMID_ANY :: u16 where "CID_OEMID_ANY \<equiv> - 1"
abbreviation (input) EXT_CSD_REV_ANY :: u32 where "EXT_CSD_REV_ANY \<equiv> - 1"
abbreviation (input) CID_MANFID_SANDISK :: u32 where "CID_MANFID_SANDISK \<equiv> 0x2"
abbreviation (input) CID_MANFID_ATP :: u32 where "CID_MANFID_ATP \<equiv> 0x9"
abbreviation (input) CID_MANFID_TOSHIBA :: u32 where "CID_MANFID_TOSHIBA \<equiv> 0x11"
abbreviation (input) CID_MANFID_MICRON :: u32 where "CID_MANFID_MICRON \<equiv> 0x13"
abbreviation (input) CID_MANFID_SAMSUNG :: u32 where "CID_MANFID_SAMSUNG \<equiv> 0x15"
abbreviation (input) CID_MANFID_APACER :: u32 where "CID_MANFID_APACER \<equiv> 0x27"
abbreviation (input) CID_MANFID_KINGSTON :: u32 where "CID_MANFID_KINGSTON \<equiv> 0x70"
abbreviation (input) CID_MANFID_HYNIX :: u32 where "CID_MANFID_HYNIX \<equiv> 0x90"
abbreviation (input) CID_MANFID_NUMONYX :: u32 where "CID_MANFID_NUMONYX \<equiv> 0xFE"

definition FIXUP_EXT ::
  "string option \<Rightarrow> u32 \<Rightarrow> u16 \<Rightarrow> u64 \<Rightarrow> u64 \<Rightarrow> u16 \<Rightarrow> u16 \<Rightarrow> vendor_fixup \<Rightarrow> u32 \<Rightarrow> mmc_fixup" where
  "FIXUP_EXT name manfid oemid rev_start rev_end cis_vendor cis_device fixup ext_csd_rev =
    \<lparr>fx_name = name, fx_rev_start = rev_start, fx_rev_end = rev_end, fx_manfid = manfid,
     fx_oemid = oemid, fx_cis_vendor = cis_vendor, fx_cis_device = cis_device,
     fx_ext_csd_rev = ext_csd_rev, fx_vendor_fixup = fixup\<rparr>"

definition MMC_FIXUP_EXT_CSD_REV ::
  "string option \<Rightarrow> u32 \<Rightarrow> u16 \<Rightarrow> vendor_fixup \<Rightarrow> u32 \<Rightarrow> mmc_fixup" where
  "MMC_FIXUP_EXT_CSD_REV name manfid oemid fixup ext_csd_rev =
    FIXUP_EXT name manfid oemid 0 (- 1) SDIO_ANY_ID SDIO_ANY_ID fixup ext_csd_rev"

definition MMC_FIXUP :: "string option \<Rightarrow> u32 \<Rightarrow> u16 \<Rightarrow> vendor_fixup \<Rightarrow> mmc_fixup" where
  "MMC_FIXUP name manfid oemid fixup =
    FIXUP_EXT name manfid oemid 0 (- 1) SDIO_ANY_ID SDIO_ANY_ID fixup EXT_CSD_REV_ANY"

definition SDIO_FIXUP :: "u16 \<Rightarrow> u16 \<Rightarrow> vendor_fixup \<Rightarrow> mmc_fixup" where
  "SDIO_FIXUP vendor device fixup =
    FIXUP_EXT None CID_MANFID_ANY CID_OEMID_ANY 0 (- 1) vendor device fixup EXT_CSD_REV_ANY"

definition mmc_blk_fixups :: "mmc_fixup list" where
  "mmc_blk_fixups =
    [MMC_FIXUP (Some ''SEM02G'') CID_MANFID_SANDISK 0x100 (Add_quirk MMC_QUIRK_INAND_CMD38),
     MMC_FIXUP (Some ''SEM04G'') CID_MANFID_SANDISK 0x100 (Add_quirk MMC_QUIRK_INAND_CMD38),
     MMC_FIXUP (Some ''SEM08G'') CID_MANFID_SANDISK 0x100 (Add_quirk MMC_QUIRK_INAND_CMD38),
     MMC_FIXUP (Some ''SEM16G'') CID_MANFID_SANDISK 0x100 (Add_quirk MMC_QUIRK_INAND_CMD38),
     MMC_FIXUP (Some ''SEM32G'') CID_MANFID_SANDISK 0x100 (Add_quirk MMC_QUIRK_INAND_CMD38),
     MMC_FIXUP (Some ''SDMB-32'') CID_MANFID_SANDISK CID_OEMID_ANY
       (Add_quirk_mmc MMC_QUIRK_BLK_NO_CMD23),
     MMC_FIXUP (Some ''SDM032'') CID_MANFID_SANDISK CID_OEMID_ANY
       (Add_quirk_mmc MMC_QUIRK_BLK_NO_CMD23),
     MMC_FIXUP (Some ''MMC08G'') CID_MANFID_TOSHIBA CID_OEMID_ANY
       (Add_quirk_mmc MMC_QUIRK_BLK_NO_CMD23),
     MMC_FIXUP (Some ''MMC16G'') CID_MANFID_TOSHIBA CID_OEMID_ANY
       (Add_quirk_mmc MMC_QUIRK_BLK_NO_CMD23),
     MMC_FIXUP (Some ''MMC32G'') CID_MANFID_TOSHIBA CID_OEMID_ANY
       (Add_quirk_mmc MMC_QUIRK_BLK_NO_CMD23),
     MMC_FIXUP (Some ''AF SD'') CID_MANFID_ATP CID_OEMID_ANY
       (Add_quirk_sd MMC_QUIRK_BLK_NO_CMD23),
     MMC_FIXUP (Some ''APUSD'') CID_MANFID_APACER 0x5048 (Add_quirk_sd MMC_QUIRK_BLK_NO_CMD23),
     MMC_FIXUP None CID_MANFID_MICRON 0x200 (Add_quirk_mmc MMC_QUIRK_LONG_READ_TIME),
     MMC_FIXUP (Some ''008GE0'') CID_MANFID_TOSHIBA CID_OEMID_ANY
       (Add_quirk_mmc MMC_QUIRK_LONG_READ_TIME),
     MMC_FIXUP (Some ''M8G2FA'') CID_MANFID_SAMSUNG CID_OEMID_ANY
       (Add_quirk_mmc MMC_QUIRK_SEC_ERASE_TRIM_BROKEN),
     MMC_FIXUP (Some ''MAG4FA'') CID_MANFID_SAMSUNG CID_OEMID_ANY
       (Add_quirk_mmc MMC_QUIRK_SEC_ERASE_TRIM_BROKEN),
     MMC_FIXUP (Some ''MBG8FA'') CID_MANFID_SAMSUNG CID_OEMID_ANY
       (Add_quirk_mmc MMC_QUIRK_SEC_ERASE_TRIM_BROKEN),
     MMC_FIXUP (Some ''MCGAFA'') CID_MANFID_SAMSUNG CID_OEMID_ANY
       (Add_quirk_mmc MMC_QUIRK_SEC_ERASE_TRIM_BROKEN),
     MMC_FIXUP (Some ''VAL00M'') CID_MANFID_SAMSUNG CID_OEMID_ANY
       (Add_quirk_mmc MMC_QUIRK_SEC_ERASE_TRIM_BROKEN),
     MMC_FIXUP (Some ''VYL00M'') CID_MANFID_SAMSUNG CID_OEMID_ANY
       (Add_quirk_mmc MMC_QUIRK_SEC_ERASE_TRIM_BROKEN),
     MMC_FIXUP (Some ''KYL00M'') CID_MANFID_SAMSUNG CID_OEMID_ANY
       (Add_quirk_mmc MMC_QUIRK_SEC_ERASE_TRIM_BROKEN),
     MMC_FIXUP (Some ''VZL00M'') CID_MANFID_SAMSUNG CID_OEMID_ANY
       (Add_quirk_mmc MMC_QUIRK_SEC_ERASE_TRIM_BROKEN),
     MMC_FIXUP (Some ''V10008'') CID_MANFID_KINGSTON CID_OEMID_ANY
       (Add_quirk_mmc MMC_QUIRK_TRIM_BROKEN),
     MMC_FIXUP (Some ''V10016'') CID_MANFID_KINGSTON CID_OEMID_ANY
       (Add_quirk_mmc MMC_QUIRK_TRIM_BROKEN)]"

definition mmc_ext_csd_fixups :: "mmc_fixup list" where
  "mmc_ext_csd_fixups =
    [MMC_FIXUP_EXT_CSD_REV None CID_MANFID_HYNIX 0x014a (Add_quirk MMC_QUIRK_BROKEN_HPI) 5,
     MMC_FIXUP_EXT_CSD_REV None CID_MANFID_NUMONYX 0x014e (Add_quirk MMC_QUIRK_BROKEN_HPI) 6]"

definition sdio_fixup_methods :: "sdio_ids \<Rightarrow> mmc_fixup list" where
  "sdio_fixup_methods ids =
    [SDIO_FIXUP (SDIO_VENDOR_ID_TI ids) (SDIO_DEVICE_ID_TI_WL1271 ids)
       (Add_quirk MMC_QUIRK_NONSTD_FUNC_IF),
     SDIO_FIXUP (SDIO_VENDOR_ID_TI ids) (SDIO_DEVICE_ID_TI_WL1271 ids)
       (Add_quirk MMC_QUIRK_DISABLE_CD),
     SDIO_FIXUP (SDIO_VENDOR_ID_STE ids) (SDIO_DEVICE_ID_STE_CW1200 ids)
       (Add_quirk MMC_QUIRK_BROKEN_BYTE_MODE_512),
     SDIO_FIXUP (SDIO_VENDOR_ID_MARVELL ids) (SDIO_DEVICE_ID_MARVELL_8797_F0 ids)
       (Add_quirk MMC_QUIRK_BROKEN_IRQ_POLLING),
     SDIO_FIXUP (SDIO_VENDOR_ID_MARVELL ids) (SDIO_DEVICE_ID_MARVELL_8887WLAN ids)
       (Add_limit_rate_quirk 150000000)]"

section \<open>The interpreter\<close>

definition cid_rev :: "u8 \<Rightarrow> u8 \<Rightarrow> u16 \<Rightarrow> u8 \<Rightarrow> u64" where
  "cid_rev hwrev fwrev year month =
    push_bit 40 (ucast hwrev) OR push_bit 32 (ucast fwrev) OR push_bit 16 (ucast year)
      OR ucast month"

definition cid_rev_card :: "mmc_card \<Rightarrow> u64" where
  "cid_rev_card mc = (let c = cd_cid mc
    in cid_rev (cid_hwrev c) (cid_fwrev c) (cid_year c) (cid_month c))"

text \<open>\<open>strncmp (a, b, n) == 0\<close>; a list that ends stands for a string with its final NUL.\<close>

fun strncmp_eq :: "nat \<Rightarrow> u8 list \<Rightarrow> u8 list \<Rightarrow> bool" where
  "strncmp_eq 0 a b = True"
| "strncmp_eq (Suc n) a b =
    (let x = (case a of [] \<Rightarrow> 0 | c # _ \<Rightarrow> c); y = (case b of [] \<Rightarrow> 0 | c # _ \<Rightarrow> c)
     in x = y \<and> (x = 0 \<or> strncmp_eq n (tl a) (tl b)))"

text \<open>\<open>prod_name\<close> is an array of 8 characters.\<close>

definition fixup_matches :: "mmc_card \<Rightarrow> mmc_fixup \<Rightarrow> bool" where
  "fixup_matches mc f \<longleftrightarrow>
    (let rev = cid_rev_card mc in
     (fx_manfid f = CID_MANFID_ANY \<or> fx_manfid f = cid_manfid (cd_cid mc)) \<and>
     (fx_oemid f = CID_OEMID_ANY \<or> fx_oemid f = cid_oemid (cd_cid mc)) \<and>
     (case fx_name f of None \<Rightarrow> True
      | Some name \<Rightarrow> strncmp_eq 8 (map of_char name) (cid_prod_name (cd_cid mc))) \<and>
     (fx_cis_vendor f = cd_cis_vendor mc \<or> fx_cis_vendor f = SDIO_ANY_ID) \<and>
     (fx_cis_device f = cd_cis_device mc \<or> fx_cis_device f = SDIO_ANY_ID) \<and>
     (fx_ext_csd_rev f = EXT_CSD_REV_ANY \<or> fx_ext_csd_rev f = ucast (ec_rev (cd_ext_csd mc))) \<and>
     fx_rev_start f \<le> rev \<and> rev \<le> fx_rev_end f)"

text \<open>The key \<open>rev\<close> is computed once, before the loop; no fixup changes what it reads.\<close>

definition mmc_fixup_device :: "mmc_fixup list \<Rightarrow> mmc_card \<Rightarrow> mmc_card" where
  "mmc_fixup_device table mc =
    foldl (\<lambda>mc f. if fixup_matches mc f then call_fixup (fx_vendor_fixup f) mc else mc) mc table"

section \<open>What a table can change\<close>

lemmas fixup_fns = add_quirk_def add_quirk_mmc_def add_quirk_sd_def add_limit_rate_quirk_def

text \<open>A fixup changes \<open>quirks\<close> and \<open>quirk_max_rate\<close> only.\<close>

lemma call_fixup_cases:
  "\<exists>Q r. call_fixup f mc = mc\<lparr>cd_quirks := cd_quirks mc \<union> Q, cd_quirk_max_rate := r\<rparr>"
proof (cases f)
  case (Add_limit_rate_quirk d)
  then show ?thesis
    by (intro exI [of _ "{}"] exI [of _ d]) (simp add: fixup_fns)
next
  case (Add_quirk q)
  then show ?thesis
    by (intro exI [of _ "{q}"] exI [of _ "cd_quirk_max_rate mc"]) (simp add: fixup_fns)
next
  case (Add_quirk_mmc q)
  then show ?thesis
    by (intro exI [of _ "if mmc_card_mmc mc then {q} else {}"]
        exI [of _ "cd_quirk_max_rate mc"]) (simp add: fixup_fns)
next
  case (Add_quirk_sd q)
  then show ?thesis
    by (intro exI [of _ "if mmc_card_sd mc then {q} else {}"]
        exI [of _ "cd_quirk_max_rate mc"]) (simp add: fixup_fns)
qed

lemma mmc_fixup_device_frame:
  "\<exists>Q r. mmc_fixup_device table mc = mc\<lparr>cd_quirks := cd_quirks mc \<union> Q, cd_quirk_max_rate := r\<rparr>"
proof (induction table arbitrary: mc)
  case Nil
  show ?case
    by (intro exI [of _ "{}"] exI [of _ "cd_quirk_max_rate mc"]) (simp add: mmc_fixup_device_def)
next
  case (Cons f table)
  obtain Q r where "(if fixup_matches mc f then call_fixup (fx_vendor_fixup f) mc else mc)
      = mc\<lparr>cd_quirks := cd_quirks mc \<union> Q, cd_quirk_max_rate := r\<rparr>" (is "?mc = _")
  proof (cases "fixup_matches mc f")
    case True
    then show ?thesis using call_fixup_cases [of "fx_vendor_fixup f" mc] that by auto
  next
    case False
    then show ?thesis using that [of "cd_quirk_max_rate mc" "{}"] by simp
  qed
  moreover obtain Q' r' where "mmc_fixup_device table ?mc
      = ?mc\<lparr>cd_quirks := cd_quirks ?mc \<union> Q', cd_quirk_max_rate := r'\<rparr>"
    using Cons by blast
  ultimately have "mmc_fixup_device (f # table) mc
      = mc\<lparr>cd_quirks := cd_quirks mc \<union> (Q \<union> Q'), cd_quirk_max_rate := r'\<rparr>"
    by (simp add: mmc_fixup_device_def Un_assoc)
  then show ?case by blast
qed

lemma mmc_fixup_device_simps [simp]:
  "cd_ext_csd (mmc_fixup_device table mc) = cd_ext_csd mc"
  "cd_csd (mmc_fixup_device table mc) = cd_csd mc"
  "cd_cid (mmc_fixup_device table mc) = cd_cid mc"
  "cd_parts (mmc_fixup_device table mc) = cd_parts mc"
  "cd_state (mmc_fixup_device table mc) = cd_state mc"
  "cd_type (mmc_fixup_device table mc) = cd_type mc"
  "cd_raw_cid (mmc_fixup_device table mc) = cd_raw_cid mc"
  "cd_raw_csd (mmc_fixup_device table mc) = cd_raw_csd mc"
  "cd_quirks mc \<subseteq> cd_quirks (mmc_fixup_device table mc)"
  using mmc_fixup_device_frame [of table mc] by auto

end
