(* ===== verification/Ext_Csd.thy ===== *)
theory Ext_Csd
  imports Quirks
begin

text \<open>
  The decoding of the 512-byte EXT_CSD register (\<open>mmc_decode_ext_csd\<close> of
  \<open>mmc/core/mmc.c\<close>), in the stages in which the code guards it by the revision, and the
  comparison of the read-only bytes that \<open>mmc_compare_ext_csds\<close> makes after a change of
  the bus width.
\<close>

section \<open>Card type\<close>

definition mmc_select_card_type :: "mmc_host \<Rightarrow> mmc_card \<Rightarrow> mmc_card" where
  "mmc_select_card_type h mc =
    (let card_type = (ucast (raw_card_type (cd_ext_csd mc)) :: u32);
         caps = h_caps h; caps2 = h_caps2 h;
         has = (\<lambda>b. card_type AND b \<noteq> 0);
         hs_max_dtr = 0; hs200_max_dtr = 0; avail_type = 0;
         c = (MMC_CAP_MMC_HIGHSPEED \<in> caps \<and> has EXT_CSD_CARD_TYPE_HS_26);
         hs_max_dtr = (if c then MMC_HIGH_26_MAX_DTR else hs_max_dtr);
         avail_type = (if c then avail_type OR EXT_CSD_CARD_TYPE_HS_26 else avail_type);
         c = (MMC_CAP_MMC_HIGHSPEED \<in> caps \<and> has EXT_CSD_CARD_TYPE_HS_52);
         hs_max_dtr = (if c then MMC_HIGH_52_MAX_DTR else hs_max_dtr);
         avail_type = (if c then avail_type OR EXT_CSD_CARD_TYPE_HS_52 else avail_type);
         c = ((MMC_CAP_1_8V_DDR \<in> caps \<or> MMC_CAP_3_3V_DDR \<in> caps) \<and> has EXT_CSD_CARD_TYPE_DDR_1_8V);
         hs_max_dtr = (if c then MMC_HIGH_DDR_MAX_DTR else hs_max_dtr);
         avail_type = (if c then avail_type OR EXT_CSD_CARD_TYPE_DDR_1_8V else avail_type);
         c = (MMC_CAP_1_2V_DDR \<in> caps \<and> has EXT_CSD_CARD_TYPE_DDR_1_2V);
         hs_max_dtr = (if c then MMC_HIGH_DDR_MAX_DTR else hs_max_dtr);
         avail_type = (if c then avail_type OR EXT_CSD_CARD_TYPE_DDR_1_2V else avail_type);
         c = (MMC_CAP2_HS200_1_8V_SDR \<in> caps2 \<and> has EXT_CSD_CARD_TYPE_HS200_1_8V);
         hs200_max_dtr = (if c then MMC_HS200_MAX_DTR else hs200_max_dtr);
         avail_type = (if c then avail_type OR EXT_CSD_CARD_TYPE_HS200_1_8V else avail_type);
         c = (MMC_CAP2_HS200_1_2V_SDR \<in> caps2 \<and> has EXT_CSD_CARD_TYPE_HS200_1_2V);
         hs200_max_dtr = (if c then MMC_HS200_MAX_DTR else hs200_max_dtr);
         avail_type = (if c then avail_type OR EXT_CSD_CARD_TYPE_HS200_1_2V else avail_type);
         c = (MMC_CAP2_HS400_1_8V \<in> caps2 \<and> has EXT_CSD_CARD_TYPE_HS400_1_8V);
         hs200_max_dtr = (if c then MMC_HS200_MAX_DTR else hs200_max_dtr);
         avail_type = (if c then avail_type OR EXT_CSD_CARD_TYPE_HS400_1_8V else avail_type);
         c = (MMC_CAP2_HS400_1_2V \<in> caps2 \<and> has EXT_CSD_CARD_TYPE_HS400_1_2V);
         hs200_max_dtr = (if c then MMC_HS200_MAX_DTR else hs200_max_dtr);
         avail_type = (if c then avail_type OR EXT_CSD_CARD_TYPE_HS400_1_2V else avail_type);
         avail_type =
           (if MMC_CAP2_HS400_ES \<in> caps2 \<and> ec_strobe_support (cd_ext_csd mc)
               \<and> avail_type AND EXT_CSD_CARD_TYPE_HS400 \<noteq> 0
            then avail_type OR EXT_CSD_CARD_TYPE_HS400ES else avail_type)
     in (upd_ec (\<lambda>e. e\<lparr>ec_hs_max_dtr := hs_max_dtr, ec_hs200_max_dtr := hs200_max_dtr\<rparr>) mc)
          \<lparr>cd_mmc_avail_type := avail_type\<rparr>)"

section \<open>Partitions\<close>

text \<open>\<open>ext_csd[i]\<close> in an \<open>unsigned int\<close> or \<open>unsigned long long\<close> expression.\<close>

definition eb :: "u8 list \<Rightarrow> nat \<Rightarrow> 'a::len word" where
  "eb e i = ucast (e ! i)"

definition mmc_manage_enhanced_area :: "u8 list \<Rightarrow> mmc_card \<Rightarrow> mmc_card" where
  "mmc_manage_enhanced_area e mc =
    (let mc = upd_ec (\<lambda>x. x\<lparr>ec_enhanced_area_offset := - 22, ec_enhanced_area_size := - 22\<rparr>) mc
     in if e ! EXT_CSD_PARTITION_SUPPORT AND 0x2 \<noteq> 0 \<and> e ! EXT_CSD_PARTITION_ATTRIBUTE AND 0x1 \<noteq> 0
           \<and> ec_partition_setting_completed (cd_ext_csd mc) then
          (let hc_erase_grp_sz = eb e EXT_CSD_HC_ERASE_GRP_SIZE;
               hc_wp_grp_sz = eb e EXT_CSD_HC_WP_GRP_SIZE;
               offset = push_bit 24 (eb e 139) + push_bit 16 (eb e 138) + push_bit 8 (eb e 137)
                 + eb e 136;
               offset = (if mmc_card_blockaddr mc then push_bit 9 offset else offset);
               sz = push_bit 16 (eb e 142) + push_bit 8 (eb e 141) + eb e 140;
               sz = sz * (hc_erase_grp_sz * hc_wp_grp_sz);
               sz = push_bit 9 sz
           in upd_ec (\<lambda>x. x\<lparr>ec_enhanced_area_offset := offset, ec_enhanced_area_size := sz\<rparr>) mc)
        else mc)"

text \<open>\<open>sprintf\<close> with a format that has at most the one conversion \<open>%d\<close>.\<close>

fun digits :: "nat \<Rightarrow> string" where
  "digits n = (if n < 10 then [char_of (48 + n)] else digits (n div 10) @ [char_of (48 + n mod 10)])"

declare digits.simps [simp del]

primrec sprintf_d :: "nat \<Rightarrow> string \<Rightarrow> string" where
  "sprintf_d n [] = []"
| "sprintf_d n (c # cs) =
    (if c = CHR ''%'' \<and> cs \<noteq> [] \<and> hd cs = CHR ''d'' then digits n @ tl cs
     else c # sprintf_d n cs)"

definition mmc_part_add ::
  "u32 \<Rightarrow> u32 \<Rightarrow> string \<Rightarrow> nat \<Rightarrow> bool \<Rightarrow> mmc_area_type \<Rightarrow> mmc_card \<Rightarrow> mmc_card" where
  "mmc_part_add sz cfg name idx ro area_type mc =
    mc\<lparr>cd_parts := cd_parts mc @
      [\<lparr>part_size = sz, part_cfg = cfg, part_name = sprintf_d idx name,
        part_force_ro = ro, part_area_type = area_type\<rparr>]\<rparr>"

text \<open>The loop over the four general purpose partitions, with its \<open>continue\<close> and \<open>break\<close>.\<close>

fun gp_partitions_loop :: "u8 list \<Rightarrow> u32 \<Rightarrow> nat list \<Rightarrow> mmc_card \<Rightarrow> mmc_card" where
  "gp_partitions_loop e grp_sz [] mc = mc"
| "gp_partitions_loop e grp_sz (idx # rest) mc =
    (let b = EXT_CSD_GP_SIZE_MULT + idx * 3
     in if e ! b = 0 \<and> e ! (b + 1) = 0 \<and> e ! (b + 2) = 0 then gp_partitions_loop e grp_sz rest mc
        else if \<not> ec_partition_setting_completed (cd_ext_csd mc) then mc
        else
          (let sz = push_bit 16 (eb e (b + 2)) + push_bit 8 (eb e (b + 1)) + eb e b;
               sz = sz * grp_sz
           in gp_partitions_loop e grp_sz rest
                (mmc_part_add (push_bit 19 sz) (EXT_CSD_PART_CONFIG_ACC_GP0 + of_nat idx)
                   ''gp%d'' idx False MMC_BLK_DATA_AREA_GP mc)))"

definition mmc_manage_gp_partitions :: "u8 list \<Rightarrow> mmc_card \<Rightarrow> mmc_card" where
  "mmc_manage_gp_partitions e mc =
    (if e ! EXT_CSD_PARTITION_SUPPORT AND EXT_CSD_PART_SUPPORT_PART_EN \<noteq> 0 then
       (let hc_erase_grp_sz = eb e EXT_CSD_HC_ERASE_GRP_SIZE;
            hc_wp_grp_sz = eb e EXT_CSD_HC_WP_GRP_SIZE
        in gp_partitions_loop e (hc_erase_grp_sz * hc_wp_grp_sz) [0..<MMC_NUM_GP_PARTITION] mc)
     else mc)"

section \<open>The stages of the decoding\<close>

text \<open>Revision, quirks, sector count, card type and the raw bytes up to the test of revision 3.\<close>

definition ext_csd_base :: "mmc_host \<Rightarrow> u8 list \<Rightarrow> mmc_card \<Rightarrow> mmc_card" where
  "ext_csd_base h e mc =
    (let mc = upd_ec (\<lambda>x. x\<lparr>ec_rev := e ! EXT_CSD_REV\<rparr>) mc;
         mc = mmc_fixup_device mmc_ext_csd_fixups mc;
         mc = upd_ec (\<lambda>x. x\<lparr>raw_sectors := [e ! EXT_CSD_SEC_CNT, e ! (EXT_CSD_SEC_CNT + 1),
                e ! (EXT_CSD_SEC_CNT + 2), e ! (EXT_CSD_SEC_CNT + 3)]\<rparr>) mc;
         mc = (if ec_rev (cd_ext_csd mc) \<ge> 2 then
                 (let sectors = eb e EXT_CSD_SEC_CNT OR push_bit 8 (eb e (EXT_CSD_SEC_CNT + 1))
                        OR push_bit 16 (eb e (EXT_CSD_SEC_CNT + 2))
                        OR push_bit 24 (eb e (EXT_CSD_SEC_CNT + 3));
                      mc = upd_ec (\<lambda>x. x\<lparr>ec_sectors := sectors\<rparr>) mc
                  in if sectors > 2 * 1024 * 1024 * 1024 div 512
                     then card_set_state MMC_STATE_BLOCKADDR mc else mc)
               else mc);
         mc = upd_ec (\<lambda>x. x\<lparr>ec_strobe_support := e ! EXT_CSD_STROBE_SUPPORT \<noteq> 0,
                raw_card_type := e ! EXT_CSD_CARD_TYPE\<rparr>) mc;
         mc = mmc_select_card_type h mc
     in upd_ec (\<lambda>x. x\<lparr>raw_s_a_timeout := e ! EXT_CSD_S_A_TIMEOUT,
          raw_erase_timeout_mult := e ! EXT_CSD_ERASE_TIMEOUT_MULT,
          raw_hc_erase_grp_size := e ! EXT_CSD_HC_ERASE_GRP_SIZE\<rparr>) mc)"

abbreviation (input) MMC_MIN_PART_SWITCH_TIME :: u32 where "MMC_MIN_PART_SWITCH_TIME \<equiv> 300"

definition ext_csd_rev3 :: "mmc_host \<Rightarrow> u8 list \<Rightarrow> mmc_card \<Rightarrow> mmc_card" where
  "ext_csd_rev3 h e mc =
    (if ec_rev (cd_ext_csd mc) \<ge> 3 then
       (let sa_shift = e ! EXT_CSD_S_A_TIMEOUT;
            part_time = 10 * eb e EXT_CSD_PART_SWITCH_TIME;
            part_time = (if part_time \<noteq> 0 \<and> part_time < MMC_MIN_PART_SWITCH_TIME
                         then MMC_MIN_PART_SWITCH_TIME else part_time);
            mc = upd_ec (\<lambda>x. x\<lparr>ec_part_config := e ! EXT_CSD_PART_CONFIG,
                   ec_part_time := part_time\<rparr>) mc;
            mc = (if sa_shift > 0 \<and> sa_shift \<le> 0x17
                  then upd_ec (\<lambda>x. x\<lparr>ec_sa_timeout := push_bit (unat sa_shift) 1\<rparr>) mc else mc);
            mc = upd_ec (\<lambda>x. x\<lparr>ec_erase_group_def := e ! EXT_CSD_ERASE_GROUP_DEF,
                   ec_hc_erase_timeout := 300 * eb e EXT_CSD_ERASE_TIMEOUT_MULT,
                   ec_hc_erase_size := push_bit 10 (eb e EXT_CSD_HC_ERASE_GRP_SIZE),
                   ec_rel_sectors := e ! EXT_CSD_REL_WR_SEC_C\<rparr>) mc
        in if e ! EXT_CSD_BOOT_MULT \<noteq> 0 \<and> MMC_CAP2_BOOTPART_NOACC \<notin> h_caps2 h then
             foldl (\<lambda>mc idx. mmc_part_add (push_bit 17 (eb e EXT_CSD_BOOT_MULT))
                 (EXT_CSD_PART_CONFIG_ACC_BOOT0 + of_nat idx) ''boot%d'' idx True
                 MMC_BLK_DATA_AREA_BOOT mc) mc [0..<MMC_NUM_BOOT_PARTITION]
           else mc)
     else mc)"

definition ext_csd_raw :: "u8 list \<Rightarrow> mmc_card \<Rightarrow> mmc_card" where
  "ext_csd_raw e =
    upd_ec (\<lambda>x. x\<lparr>raw_hc_erase_gap_size := e ! EXT_CSD_HC_WP_GRP_SIZE,
      raw_sec_trim_mult := e ! EXT_CSD_SEC_TRIM_MULT,
      raw_sec_erase_mult := e ! EXT_CSD_SEC_ERASE_MULT,
      raw_sec_feature_support := e ! EXT_CSD_SEC_FEATURE_SUPPORT,
      raw_trim_mult := e ! EXT_CSD_TRIM_MULT,
      raw_partition_support := e ! EXT_CSD_PARTITION_SUPPORT,
      raw_driver_strength := e ! EXT_CSD_DRIVER_STRENGTH\<rparr>)"

definition ext_csd_rev4 :: "u8 list \<Rightarrow> mmc_card \<Rightarrow> mmc_card" where
  "ext_csd_rev4 e mc =
    (if ec_rev (cd_ext_csd mc) \<ge> 4 then
       (let mc = upd_ec (\<lambda>x. x\<lparr>ec_partition_setting_completed :=
              e ! EXT_CSD_PARTITION_SETTING_COMPLETED AND EXT_CSD_PART_SETTING_COMPLETED \<noteq> 0\<rparr>) mc;
            mc = mmc_manage_enhanced_area e mc;
            mc = mmc_manage_gp_partitions e mc;
            mc = upd_ec (\<lambda>x. x\<lparr>ec_sec_trim_mult := eb e EXT_CSD_SEC_TRIM_MULT,
              ec_sec_erase_mult := eb e EXT_CSD_SEC_ERASE_MULT,
              ec_sec_feature_support := e ! EXT_CSD_SEC_FEATURE_SUPPORT,
              ec_trim_timeout := 300 * eb e EXT_CSD_TRIM_MULT,
              ec_boot_ro_lock := eb e EXT_CSD_BOOT_WP,
              ec_boot_ro_lockable := True\<rparr>) mc
        in upd_ec (\<lambda>x. x\<lparr>raw_pwr_cl_52_195 := e ! EXT_CSD_PWR_CL_52_195,
             raw_pwr_cl_26_195 := e ! EXT_CSD_PWR_CL_26_195,
             raw_pwr_cl_52_360 := e ! EXT_CSD_PWR_CL_52_360,
             raw_pwr_cl_26_360 := e ! EXT_CSD_PWR_CL_26_360,
             raw_pwr_cl_200_195 := e ! EXT_CSD_PWR_CL_200_195,
             raw_pwr_cl_200_360 := e ! EXT_CSD_PWR_CL_200_360,
             raw_pwr_cl_ddr_52_195 := e ! EXT_CSD_PWR_CL_DDR_52_195,
             raw_pwr_cl_ddr_52_360 := e ! EXT_CSD_PWR_CL_DDR_52_360,
             raw_pwr_cl_ddr_200_360 := e ! EXT_CSD_PWR_CL_DDR_200_360\<rparr>) mc)
     else mc)"

definition ext_csd_rev5 :: "mmc_kernel \<Rightarrow> mmc_host \<Rightarrow> u8 list \<Rightarrow> mmc_card \<Rightarrow> mmc_card" where
  "ext_csd_rev5 k h e mc =
    (if ec_rev (cd_ext_csd mc) \<ge> 5 then
       (let mc = (if cid_year (cd_cid mc) < 2010
                  then upd_cid (\<lambda>c. c\<lparr>cid_year := cid_year c + 16\<rparr>) mc else mc);
            mc = (if e ! EXT_CSD_BKOPS_SUPPORT AND 0x1 \<noteq> 0 then
                    upd_ec (\<lambda>x. x\<lparr>ec_bkops := True,
                      ec_man_bkops_en := e ! EXT_CSD_BKOPS_EN AND EXT_CSD_MANUAL_BKOPS_MASK \<noteq> 0,
                      raw_bkops_status := e ! EXT_CSD_BKOPS_STATUS,
                      ec_auto_bkops_en := e ! EXT_CSD_BKOPS_EN AND EXT_CSD_AUTO_BKOPS_MASK \<noteq> 0\<rparr>) mc
                  else mc);
            mc = (if MMC_QUIRK_BROKEN_HPI \<notin> cd_quirks mc \<and> \<not> kn_broken_hpi k
                     \<and> e ! EXT_CSD_HPI_FEATURES AND 0x1 \<noteq> 0 then
                    upd_ec (\<lambda>x. x\<lparr>ec_hpi := True,
                      ec_hpi_cmd := (if e ! EXT_CSD_HPI_FEATURES AND 0x2 \<noteq> 0
                        then MMC_STOP_TRANSMISSION else MMC_SEND_STATUS),
                      ec_out_of_int_time := eb e EXT_CSD_OUT_OF_INTERRUPT_TIME * 10\<rparr>) mc
                  else mc);
            mc = upd_ec (\<lambda>x. x\<lparr>ec_rel_param := e ! EXT_CSD_WR_REL_PARAM,
                   ec_rst_n_function := e ! EXT_CSD_RST_N_FUNCTION,
                   raw_rpmb_size_mult := e ! EXT_CSD_RPMB_MULT\<rparr>) mc
        in if e ! EXT_CSD_RPMB_MULT \<noteq> 0 \<and> MMC_CAP_CMD23 \<in> h_caps h then
             mmc_part_add (push_bit 17 (eb e EXT_CSD_RPMB_MULT)) EXT_CSD_PART_CONFIG_ACC_RPMB
               ''rpmb'' 0 False MMC_BLK_DATA_AREA_RPMB mc
           else mc)
     else mc)"

text \<open>\<open>DEFAULT_CMD6_TIMEOUT_MS\<close> of \<open>mmc.c\<close> is 500.\<close>

definition ext_csd_rev6 :: "u8 list \<Rightarrow> mmc_card \<Rightarrow> mmc_card" where
  "ext_csd_rev6 e mc =
    (let mc = upd_ec (\<lambda>x. x\<lparr>raw_erased_mem_count := e ! EXT_CSD_ERASED_MEM_CONT\<rparr>) mc;
         mc = mc\<lparr>cd_erased_byte := (if e ! EXT_CSD_ERASED_MEM_CONT \<noteq> 0 then 0xFF else 0)\<rparr>;
         mc = upd_ec (\<lambda>x. x\<lparr>ec_generic_cmd6_time := 500\<rparr>) mc
     in if ec_rev (cd_ext_csd mc) \<ge> 6 then
          (let sector_size = (if e ! EXT_CSD_DATA_SECTOR_SIZE = 1 then 4096 else 512)
           in upd_ec (\<lambda>x. x\<lparr>ec_discard_feature := True,
             ec_generic_cmd6_time := 10 * eb e EXT_CSD_GENERIC_CMD6_TIME,
             ec_power_off_longtime := 10 * eb e EXT_CSD_POWER_OFF_LONG_TIME,
             ec_cache_size := eb e EXT_CSD_CACHE_SIZE OR push_bit 8 (eb e (EXT_CSD_CACHE_SIZE + 1))
               OR push_bit 16 (eb e (EXT_CSD_CACHE_SIZE + 2))
               OR push_bit 24 (eb e (EXT_CSD_CACHE_SIZE + 3)),
             ec_data_sector_size := sector_size,
             ec_data_tag_unit_size :=
               (if e ! EXT_CSD_DATA_TAG_SUPPORT AND 1 \<noteq> 0 \<and> e ! EXT_CSD_TAG_UNIT_SIZE \<le> 8
                then push_bit (unat (e ! EXT_CSD_TAG_UNIT_SIZE)) 1 * sector_size else 0),
             ec_max_packed_writes := e ! EXT_CSD_MAX_PACKED_WRITES,
             ec_max_packed_reads := e ! EXT_CSD_MAX_PACKED_READS\<rparr>) mc)
        else upd_ec (\<lambda>x. x\<lparr>ec_data_sector_size := 512\<rparr>) mc)"

definition ext_csd_rev7 :: "u8 list \<Rightarrow> mmc_card \<Rightarrow> mmc_card" where
  "ext_csd_rev7 e mc =
    (if ec_rev (cd_ext_csd mc) \<ge> 7 then
       upd_ec (\<lambda>x. x\<lparr>ec_fwrev := take MMC_FIRMWARE_LEN (drop EXT_CSD_FIRMWARE_VERSION e),
         ec_ffu_capable :=
           e ! EXT_CSD_SUPPORTED_MODE AND 0x1 \<noteq> 0 \<and> \<not> e ! EXT_CSD_FW_CONFIG AND 0x1 \<noteq> 0,
         ec_pre_eol_info := e ! EXT_CSD_PRE_EOL_INFO,
         ec_device_life_time_est_typ_a := e ! EXT_CSD_DEVICE_LIFE_TIME_EST_TYP_A,
         ec_device_life_time_est_typ_b := e ! EXT_CSD_DEVICE_LIFE_TIME_EST_TYP_B\<rparr>) mc
     else mc)"

definition ext_csd_rev8 :: "u8 list \<Rightarrow> mmc_card \<Rightarrow> mmc_card" where
  "ext_csd_rev8 e mc =
    (if ec_rev (cd_ext_csd mc) \<ge> 8 then
       (let support = e ! EXT_CSD_CMDQ_SUPPORT AND EXT_CSD_CMDQ_SUPPORTED \<noteq> 0;
            depth = ucast (e ! EXT_CSD_CMDQ_DEPTH AND EXT_CSD_CMDQ_DEPTH_MASK) + 1;
            (support, depth) = (if depth \<le> 2 then (False, 0) else (support, depth))
        in upd_ec (\<lambda>x. x\<lparr>ec_cmdq_support := support, ec_cmdq_depth := depth\<rparr>) mc)
     else mc)"

definition mmc_decode_ext_csd ::
  "mmc_kernel \<Rightarrow> mmc_host \<Rightarrow> u8 list \<Rightarrow> mmc_card \<Rightarrow> int \<times> mmc_card" where
  "mmc_decode_ext_csd k h e mc =
    (let mc = upd_ec (\<lambda>x. x\<lparr>raw_ext_csd_structure := e ! EXT_CSD_STRUCTURE\<rparr>) mc
     in if csd_structure (cd_csd mc) = 3 \<and> raw_ext_csd_structure (cd_ext_csd mc) > 2
        then (- EINVAL, mc)
        else (0, ext_csd_rev8 e (ext_csd_rev7 e (ext_csd_rev6 e (ext_csd_rev5 k h e
               (ext_csd_rev4 e (ext_csd_raw e (ext_csd_rev3 h e (ext_csd_base h e mc)))))))))"

section \<open>The read-only bytes\<close>

text \<open>The condition under the negation in \<open>mmc_compare_ext_csds\<close>.\<close>

definition ext_csds_match :: "mmc_ext_csd \<Rightarrow> u8 list \<Rightarrow> bool" where
  "ext_csds_match x e \<longleftrightarrow>
    raw_partition_support x = e ! EXT_CSD_PARTITION_SUPPORT \<and>
    raw_erased_mem_count x = e ! EXT_CSD_ERASED_MEM_CONT \<and>
    ec_rev x = e ! EXT_CSD_REV \<and>
    raw_ext_csd_structure x = e ! EXT_CSD_STRUCTURE \<and>
    raw_card_type x = e ! EXT_CSD_CARD_TYPE \<and>
    raw_s_a_timeout x = e ! EXT_CSD_S_A_TIMEOUT \<and>
    raw_hc_erase_gap_size x = e ! EXT_CSD_HC_WP_GRP_SIZE \<and>
    raw_erase_timeout_mult x = e ! EXT_CSD_ERASE_TIMEOUT_MULT \<and>
    raw_hc_erase_grp_size x = e ! EXT_CSD_HC_ERASE_GRP_SIZE \<and>
    raw_sec_trim_mult x = e ! EXT_CSD_SEC_TRIM_MULT \<and>
    raw_sec_erase_mult x = e ! EXT_CSD_SEC_ERASE_MULT \<and>
    raw_sec_feature_support x = e ! EXT_CSD_SEC_FEATURE_SUPPORT \<and>
    raw_trim_mult x = e ! EXT_CSD_TRIM_MULT \<and>
    raw_sectors x ! 0 = e ! EXT_CSD_SEC_CNT \<and>
    raw_sectors x ! 1 = e ! (EXT_CSD_SEC_CNT + 1) \<and>
    raw_sectors x ! 2 = e ! (EXT_CSD_SEC_CNT + 2) \<and>
    raw_sectors x ! 3 = e ! (EXT_CSD_SEC_CNT + 3) \<and>
    raw_pwr_cl_52_195 x = e ! EXT_CSD_PWR_CL_52_195 \<and>
    raw_pwr_cl_26_195 x = e ! EXT_CSD_PWR_CL_26_195 \<and>
    raw_pwr_cl_52_360 x = e ! EXT_CSD_PWR_CL_52_360 \<and>
    raw_pwr_cl_26_360 x = e ! EXT_CSD_PWR_CL_26_360 \<and>
    raw_pwr_cl_200_195 x = e ! EXT_CSD_PWR_CL_200_195 \<and>
    raw_pwr_cl_200_360 x = e ! EXT_CSD_PWR_CL_200_360 \<and>
    raw_pwr_cl_ddr_52_195 x = e ! EXT_CSD_PWR_CL_DDR_52_195 \<and>
    raw_pwr_cl_ddr_52_360 x = e ! EXT_CSD_PWR_CL_DDR_52_360 \<and>
    raw_pwr_cl_ddr_200_360 x = e ! EXT_CSD_PWR_CL_DDR_200_360"

end
