(* ===== verification/Ext_Csd_Facts.thy ===== *)
theory Ext_Csd_Facts
  imports Ext_Csd "HOL-Library.Sublist"
begin

text \<open>
  What the decoding of the EXT_CSD register computes: the available card types bit by bit,
  the partitions it registers, the copies of the read-only bytes, the sector count and
  the addressing mode, and when high priority interrupts may be used.
\<close>

section \<open>The available card types\<close>

text \<open>Whether the host supports the card type that a bit of the register byte stands for.\<close>

definition host_card_type :: "mmc_host \<Rightarrow> nat \<Rightarrow> bool" where
  "host_card_type h n \<longleftrightarrow>
    (n = 0 \<or> n = 1) \<and> MMC_CAP_MMC_HIGHSPEED \<in> h_caps h \<or>
    n = 2 \<and> (MMC_CAP_1_8V_DDR \<in> h_caps h \<or> MMC_CAP_3_3V_DDR \<in> h_caps h) \<or>
    n = 3 \<and> MMC_CAP_1_2V_DDR \<in> h_caps h \<or>
    n = 4 \<and> MMC_CAP2_HS200_1_8V_SDR \<in> h_caps2 h \<or>
    n = 5 \<and> MMC_CAP2_HS200_1_2V_SDR \<in> h_caps2 h \<or>
    n = 6 \<and> MMC_CAP2_HS400_1_8V \<in> h_caps2 h \<or>
    n = 7 \<and> MMC_CAP2_HS400_1_2V \<in> h_caps2 h"

lemma avail_step:
  "(if c then v OR x else v) = v OR (if c then x else 0)"
  "bit (if c then x else 0) n \<longleftrightarrow> c \<and> bit x n"
  for v x :: u32
  by simp_all

lemma and_bit_nonzero:
  "w AND 1 \<noteq> 0 \<longleftrightarrow> bit w 0" "w AND 2 \<noteq> 0 \<longleftrightarrow> bit w 1" "w AND 4 \<noteq> 0 \<longleftrightarrow> bit w 2"
  "w AND 8 \<noteq> 0 \<longleftrightarrow> bit w 3" "w AND 16 \<noteq> 0 \<longleftrightarrow> bit w 4" "w AND 32 \<noteq> 0 \<longleftrightarrow> bit w 5"
  "w AND 64 \<noteq> 0 \<longleftrightarrow> bit w 6" "w AND 128 \<noteq> 0 \<longleftrightarrow> bit w 7" for w :: u32
proof -
  have gen: "w AND 2 ^ n \<noteq> 0 \<longleftrightarrow> bit w n" if "n < 32" for n
    using that by (auto simp: and_exp_eq_0_iff_not_bit)
  show "w AND 1 \<noteq> 0 \<longleftrightarrow> bit w 0" "w AND 2 \<noteq> 0 \<longleftrightarrow> bit w 1" "w AND 4 \<noteq> 0 \<longleftrightarrow> bit w 2"
    "w AND 8 \<noteq> 0 \<longleftrightarrow> bit w 3" "w AND 16 \<noteq> 0 \<longleftrightarrow> bit w 4" "w AND 32 \<noteq> 0 \<longleftrightarrow> bit w 5"
    "w AND 64 \<noteq> 0 \<longleftrightarrow> bit w 6" "w AND 128 \<noteq> 0 \<longleftrightarrow> bit w 7"
    using gen [of 0] gen [of 1] gen [of 2] gen [of 3] gen [of 4] gen [of 5] gen [of 6] gen [of 7]
    by simp_all
qed

lemma and_192_nonzero: "w AND 192 \<noteq> 0 \<longleftrightarrow> bit w 6 \<or> bit w 7" for w :: u32
proof -
  have "w AND 192 = (w AND 64) OR (w AND 128)"
    by (subst bit.conj_disj_distrib [symmetric]) simp
  then show ?thesis by (simp add: and_bit_nonzero or_eq_0_iff flip: de_Morgan_conj)
     (simp add: and_bit_nonzero)
qed

lemma not_bit_small: "0 \<le> x \<Longrightarrow> x < 2 ^ 9 \<Longrightarrow> 8 < n \<Longrightarrow> \<not> bit (x :: int) n"
proof -
  assume "0 \<le> x" "x < 2 ^ 9" "8 < n"
  moreover have "(2::int) ^ 9 \<le> 2 ^ n" if "8 < n" using that by (intro power_increasing) auto
  ultimately show ?thesis by (simp add: bit_iff_odd)
qed

lemma avail_bit:
  "bit (cd_mmc_avail_type (mmc_select_card_type h mc)) n \<longleftrightarrow>
    (if n = 8 then MMC_CAP2_HS400_ES \<in> h_caps2 h \<and> ec_strobe_support (cd_ext_csd mc)
        \<and> (\<exists>m \<in> {6, 7}. host_card_type h m \<and> bit (raw_card_type (cd_ext_csd mc)) m)
     else n < 8 \<and> host_card_type h n \<and> bit (raw_card_type (cd_ext_csd mc)) n)"
proof -
  consider "n = 0" | "n = 1" | "n = 2" | "n = 3" | "n = 4" | "n = 5" | "n = 6" | "n = 7" | "n = 8"
    | "8 < n" by linarith
  then show ?thesis
    by (cases; simp add: mmc_select_card_type_def Let_def avail_step host_card_type_def
      bit_simps and_bit_nonzero and_192_nonzero not_bit_small split del: if_split)
qed

lemma if_chain: "(if a then x else if b then x else y) = (if b \<or> a then x else y)"
  by simp

lemma select_card_type_dtr:
  fixes h mc
  defines "A \<equiv> \<lambda>n. host_card_type h n \<and> bit (raw_card_type (cd_ext_csd mc)) n"
    and "x \<equiv> cd_ext_csd (mmc_select_card_type h mc)"
  shows "ec_hs200_max_dtr x = (if A 4 \<or> A 5 \<or> A 6 \<or> A 7 then MMC_HS200_MAX_DTR else 0)"
    and "ec_hs_max_dtr x = (if A 1 \<or> A 2 \<or> A 3 then MMC_HIGH_52_MAX_DTR
      else if A 0 then MMC_HIGH_26_MAX_DTR else 0)"
  by (simp_all add: A_def x_def mmc_select_card_type_def Let_def avail_step host_card_type_def
      upd_ec_def bit_simps and_bit_nonzero if_chain disj_assoc split del: if_split cong: if_cong)

lemma select_card_type_form:
  "\<exists>a b c. mmc_select_card_type h mc =
    (upd_ec (\<lambda>e. e\<lparr>ec_hs_max_dtr := a, ec_hs200_max_dtr := b\<rparr>) mc)\<lparr>cd_mmc_avail_type := c\<rparr>"
  unfolding mmc_select_card_type_def Let_def case_prod_unfold by blast

lemma select_card_type_frame [simp]:
  "cd_parts (mmc_select_card_type h mc) = cd_parts mc"
  "cd_csd (mmc_select_card_type h mc) = cd_csd mc"
  "cd_cid (mmc_select_card_type h mc) = cd_cid mc"
  "cd_state (mmc_select_card_type h mc) = cd_state mc"
  "cd_quirks (mmc_select_card_type h mc) = cd_quirks mc"
  "ec_rev (cd_ext_csd (mmc_select_card_type h mc)) = ec_rev (cd_ext_csd mc)"
  "ec_sectors (cd_ext_csd (mmc_select_card_type h mc)) = ec_sectors (cd_ext_csd mc)"
  "ec_hpi (cd_ext_csd (mmc_select_card_type h mc)) = ec_hpi (cd_ext_csd mc)"
  using select_card_type_form [of h mc] by (auto simp: upd_ec_def)

section \<open>The partitions\<close>

abbreviation part_cfgs :: "mmc_card \<Rightarrow> u32 list" where
  "part_cfgs mc \<equiv> map part_cfg (cd_parts mc)"

lemma part_add_cfgs [simp]:
  "part_cfgs (mmc_part_add sz cfg name idx ro ty mc) = part_cfgs mc @ [cfg]"
  "cd_ext_csd (mmc_part_add sz cfg name idx ro ty mc) = cd_ext_csd mc"
  "cd_csd (mmc_part_add sz cfg name idx ro ty mc) = cd_csd mc"
  "cd_cid (mmc_part_add sz cfg name idx ro ty mc) = cd_cid mc"
  "cd_state (mmc_part_add sz cfg name idx ro ty mc) = cd_state mc"
  "cd_quirks (mmc_part_add sz cfg name idx ro ty mc) = cd_quirks mc"
  by (simp_all add: mmc_part_add_def)

lemma gp_loop_frame [simp]:
  "cd_ext_csd (gp_partitions_loop e g is mc) = cd_ext_csd mc"
  "cd_csd (gp_partitions_loop e g is mc) = cd_csd mc"
  "cd_cid (gp_partitions_loop e g is mc) = cd_cid mc"
  "cd_state (gp_partitions_loop e g is mc) = cd_state mc"
  "cd_quirks (gp_partitions_loop e g is mc) = cd_quirks mc"
  by (induction e g "is" mc rule: gp_partitions_loop.induct) (simp_all add: Let_def)

lemma gp_loop_cfgs:
  "\<exists>l. part_cfgs (gp_partitions_loop e g is mc) = part_cfgs mc @ l
     \<and> subseq l (map (\<lambda>i. 4 + of_nat i) is)"
proof (induction e g "is" mc rule: gp_partitions_loop.induct)
  case (1 e g mc)
  then show ?case by simp
next
  case (2 e g idx rest mc)
  let ?b = "143 + idx * 3"
  consider (skip) "e ! ?b = 0" "e ! (?b + 1) = 0" "e ! (?b + 2) = 0"
    | (stop) "\<not> (e ! ?b = 0 \<and> e ! (?b + 1) = 0 \<and> e ! (?b + 2) = 0)"
        "\<not> ec_partition_setting_completed (cd_ext_csd mc)"
    | (add) "\<not> (e ! ?b = 0 \<and> e ! (?b + 1) = 0 \<and> e ! (?b + 2) = 0)"
        "ec_partition_setting_completed (cd_ext_csd mc)" by blast
  then show ?case
  proof cases
    case skip
    with 2(1) [OF refl] show ?thesis by (auto simp: Let_def intro: subseq_Cons')
  next
    case stop
    then show ?thesis by (auto simp: Let_def)
  next
    case add
    with 2(2) [OF refl _ _ refl refl] show ?thesis
      by (fastforce simp: Let_def)
  qed
qed

lemma gp_partitions_cfgs:
  "\<exists>l. part_cfgs (mmc_manage_gp_partitions e mc) = part_cfgs mc @ l \<and> subseq l [4, 5, 6, 7]"
  using gp_loop_cfgs [of e "eb e 224 * eb e 221" "[0..<4]" mc]
  by (auto simp: mmc_manage_gp_partitions_def Let_def upt_rec)

lemma gp_partitions_frame [simp]:
  "cd_ext_csd (mmc_manage_gp_partitions e mc) = cd_ext_csd mc"
  "cd_csd (mmc_manage_gp_partitions e mc) = cd_csd mc"
  "cd_cid (mmc_manage_gp_partitions e mc) = cd_cid mc"
  "cd_state (mmc_manage_gp_partitions e mc) = cd_state mc"
  "cd_quirks (mmc_manage_gp_partitions e mc) = cd_quirks mc"
  by (simp_all add: mmc_manage_gp_partitions_def Let_def)

lemma enhanced_area_form:
  "\<exists>a b. mmc_manage_enhanced_area e mc =
    upd_ec (\<lambda>x. x\<lparr>ec_enhanced_area_offset := a, ec_enhanced_area_size := b\<rparr>) mc"
  by (simp add: mmc_manage_enhanced_area_def Let_def upd_ec_def) blast

lemma upd_ec_frame [simp]:
  "cd_parts (upd_ec f mc) = cd_parts mc" "cd_csd (upd_ec f mc) = cd_csd mc"
  "cd_cid (upd_ec f mc) = cd_cid mc" "cd_state (upd_ec f mc) = cd_state mc"
  "cd_quirks (upd_ec f mc) = cd_quirks mc" "cd_ext_csd (upd_ec f mc) = f (cd_ext_csd mc)"
  "cd_type (upd_ec f mc) = cd_type mc"
  by (simp_all add: upd_ec_def)

lemma enhanced_area_frame [simp]:
  "cd_parts (mmc_manage_enhanced_area e mc) = cd_parts mc"
  "cd_quirks (mmc_manage_enhanced_area e mc) = cd_quirks mc"
  "cd_state (mmc_manage_enhanced_area e mc) = cd_state mc"
  using enhanced_area_form [of e mc] by auto

lemma card_set_state_frame [simp]:
  "cd_parts (card_set_state b mc) = cd_parts mc" "cd_csd (card_set_state b mc) = cd_csd mc"
  "cd_cid (card_set_state b mc) = cd_cid mc" "cd_ext_csd (card_set_state b mc) = cd_ext_csd mc"
  "cd_quirks (card_set_state b mc) = cd_quirks mc"
  by (simp_all add: card_set_state_def)

text \<open>What each stage appends to the partitions.\<close>

lemma stage_cfgs:
  "part_cfgs (ext_csd_base h e mc) = part_cfgs mc"
  "\<exists>l. part_cfgs (ext_csd_rev3 h e mc) = part_cfgs mc @ l \<and> subseq l [1, 2]"
  "part_cfgs (ext_csd_raw e mc) = part_cfgs mc"
  "\<exists>l. part_cfgs (ext_csd_rev4 e mc) = part_cfgs mc @ l \<and> subseq l [4, 5, 6, 7]"
  "\<exists>l. part_cfgs (ext_csd_rev5 k h e mc) = part_cfgs mc @ l \<and> subseq l [3]"
  "part_cfgs (ext_csd_rev6 e mc) = part_cfgs mc"
  "part_cfgs (ext_csd_rev7 e mc) = part_cfgs mc"
  "part_cfgs (ext_csd_rev8 e mc) = part_cfgs mc"
proof -
  show "part_cfgs (ext_csd_base h e mc) = part_cfgs mc"
    by (simp add: ext_csd_base_def Let_def)
  show "\<exists>l. part_cfgs (ext_csd_rev3 h e mc) = part_cfgs mc @ l \<and> subseq l [1, 2]"
    by (simp add: ext_csd_rev3_def Let_def upt_rec)
  show "part_cfgs (ext_csd_raw e mc) = part_cfgs mc" by (simp add: ext_csd_raw_def)
  show "\<exists>l. part_cfgs (ext_csd_rev4 e mc) = part_cfgs mc @ l \<and> subseq l [4, 5, 6, 7]"
  proof (cases "4 \<le> ec_rev (cd_ext_csd mc)")
    case True
    then show ?thesis
      using gp_partitions_cfgs [of e "mmc_manage_enhanced_area e (upd_ec (\<lambda>x.
        x\<lparr>ec_partition_setting_completed := e ! 155 AND 1 \<noteq> 0\<rparr>) mc)"]
      by (auto simp: ext_csd_rev4_def Let_def)
  next
    case False
    then show ?thesis by (simp add: ext_csd_rev4_def)
  qed
  show "\<exists>l. part_cfgs (ext_csd_rev5 k h e mc) = part_cfgs mc @ l \<and> subseq l [3]"
    by (simp add: ext_csd_rev5_def Let_def upd_cid_def)
  show "part_cfgs (ext_csd_rev6 e mc) = part_cfgs mc" by (simp add: ext_csd_rev6_def Let_def)
  show "part_cfgs (ext_csd_rev7 e mc) = part_cfgs mc" by (simp add: ext_csd_rev7_def)
  show "part_cfgs (ext_csd_rev8 e mc) = part_cfgs mc"
    by (simp add: ext_csd_rev8_def Let_def split: prod.split)
qed

lemma decode_ext_csd_cfgs:
  "\<exists>l. part_cfgs (snd (mmc_decode_ext_csd k h e mc)) = part_cfgs mc @ l
     \<and> subseq l [1, 2, 4, 5, 6, 7, 3]"
proof -
  define mc0 where "mc0 = upd_ec (\<lambda>x. x\<lparr>raw_ext_csd_structure := e ! 194\<rparr>) mc"
  define mc1 where "mc1 = ext_csd_raw e (ext_csd_rev3 h e (ext_csd_base h e mc0))"
  define mc2 where "mc2 = ext_csd_rev4 e mc1"
  obtain l1 where 1: "part_cfgs mc1 = part_cfgs mc @ l1" "subseq l1 [1, 2]"
    using stage_cfgs(2) [of h e "ext_csd_base h e mc0"]
    by (auto simp: mc1_def mc0_def stage_cfgs)
  obtain l2 where 2: "part_cfgs mc2 = part_cfgs mc1 @ l2" "subseq l2 [4, 5, 6, 7]"
    using stage_cfgs(4) [of e mc1] by (auto simp: mc2_def)
  obtain l3 where 3: "part_cfgs (ext_csd_rev5 k h e mc2) = part_cfgs mc2 @ l3" "subseq l3 [3]"
    using stage_cfgs(5) [of k h e mc2] by auto
  have "subseq (l1 @ l2 @ l3) ([1, 2] @ [4, 5, 6, 7] @ [3])"
    using 1 2 3 by (intro list_emb_append_mono) auto
  moreover have "part_cfgs (snd (mmc_decode_ext_csd k h e mc)) =
      part_cfgs (if csd_structure (cd_csd mc) = 3 \<and> e ! 194 > 2 then mc
        else ext_csd_rev5 k h e mc2)"
    by (simp add: mmc_decode_ext_csd_def Let_def stage_cfgs mc0_def mc1_def mc2_def)
  ultimately show ?thesis
    using 1 2 3 by auto
qed

section \<open>The read-only bytes after a decoding\<close>

text \<open>The bytes that are compared, in the order of the code, and the decoded copies.\<close>

definition ro_offsets :: "nat list" where
  "ro_offsets = [160, 181, 192, 194, 196, 217, 221, 223, 224, 229, 230, 231, 232,
     212, 213, 214, 215, 200, 201, 202, 203, 236, 237, 238, 239, 253]"

definition ro_view :: "mmc_ext_csd \<Rightarrow> u8 list" where
  "ro_view x = [raw_partition_support x, raw_erased_mem_count x, ec_rev x,
     raw_ext_csd_structure x, raw_card_type x, raw_s_a_timeout x, raw_hc_erase_gap_size x,
     raw_erase_timeout_mult x, raw_hc_erase_grp_size x, raw_sec_trim_mult x,
     raw_sec_erase_mult x, raw_sec_feature_support x, raw_trim_mult x,
     raw_sectors x ! 0, raw_sectors x ! 1, raw_sectors x ! 2, raw_sectors x ! 3,
     raw_pwr_cl_52_195 x, raw_pwr_cl_26_195 x, raw_pwr_cl_52_360 x, raw_pwr_cl_26_360 x,
     raw_pwr_cl_200_195 x, raw_pwr_cl_200_360 x, raw_pwr_cl_ddr_52_195 x,
     raw_pwr_cl_ddr_52_360 x, raw_pwr_cl_ddr_200_360 x]"

lemma ext_csds_match_view: "ext_csds_match x e \<longleftrightarrow> ro_view x = map ((!) e) ro_offsets"
  by (simp add: ext_csds_match_def ro_view_def ro_offsets_def)

lemma enhanced_area_ec [simp]:
  "ec_rev (cd_ext_csd (mmc_manage_enhanced_area e mc)) = ec_rev (cd_ext_csd mc)"
  "ec_sectors (cd_ext_csd (mmc_manage_enhanced_area e mc)) = ec_sectors (cd_ext_csd mc)"
  "ec_hpi (cd_ext_csd (mmc_manage_enhanced_area e mc)) = ec_hpi (cd_ext_csd mc)"
  "ro_view (cd_ext_csd (mmc_manage_enhanced_area e mc)) = ro_view (cd_ext_csd mc)"
  using enhanced_area_form [of e mc] by (auto simp: ro_view_def)

lemmas ext_csd_stages = ext_csd_base_def ext_csd_rev3_def ext_csd_raw_def ext_csd_rev4_def
  ext_csd_rev5_def ext_csd_rev6_def ext_csd_rev7_def ext_csd_rev8_def

lemma stage_rev [simp]:
  "ec_rev (cd_ext_csd (ext_csd_base h e mc)) = e ! 192"
  "ec_rev (cd_ext_csd (ext_csd_rev3 h e mc)) = ec_rev (cd_ext_csd mc)"
  "ec_rev (cd_ext_csd (ext_csd_raw e mc)) = ec_rev (cd_ext_csd mc)"
  "ec_rev (cd_ext_csd (ext_csd_rev4 e mc)) = ec_rev (cd_ext_csd mc)"
  "ec_rev (cd_ext_csd (ext_csd_rev5 k h e mc)) = ec_rev (cd_ext_csd mc)"
  "ec_rev (cd_ext_csd (ext_csd_rev6 e mc)) = ec_rev (cd_ext_csd mc)"
  "ec_rev (cd_ext_csd (ext_csd_rev7 e mc)) = ec_rev (cd_ext_csd mc)"
  "ec_rev (cd_ext_csd (ext_csd_rev8 e mc)) = ec_rev (cd_ext_csd mc)"
  by (simp_all add: ext_csd_stages upd_cid_def Let_def upt_rec split: prod.split)

lemma base_view:
  "ro_view (cd_ext_csd (ext_csd_base h e mc)) =
    (ro_view (cd_ext_csd mc))[2 := e ! 192, 4 := e ! 196, 5 := e ! 217, 7 := e ! 223,
       8 := e ! 224, 13 := e ! 212, 14 := e ! 213, 15 := e ! 214, 16 := e ! 215]"
proof -
  have "ro_view (cd_ext_csd (mmc_select_card_type h m)) = ro_view (cd_ext_csd m)" for m
    using select_card_type_form [of h m] by (auto simp: ro_view_def)
  moreover have "ro_view (x\<lparr>raw_s_a_timeout := a, raw_erase_timeout_mult := b,
      raw_hc_erase_grp_size := c\<rparr>) = (ro_view x)[5 := a, 7 := b, 8 := c]" for x a b c
    by (simp add: ro_view_def)
  ultimately show ?thesis
    by (simp add: ext_csd_base_def Let_def) (simp add: ro_view_def)
qed

lemma raw_view:
  "ro_view (cd_ext_csd (ext_csd_raw e mc)) =
    (ro_view (cd_ext_csd mc))[0 := e ! 160, 6 := e ! 221, 9 := e ! 229, 10 := e ! 230,
       11 := e ! 231, 12 := e ! 232]"
  by (simp add: ext_csd_raw_def ro_view_def)

lemma rev4_view:
  "4 \<le> ec_rev (cd_ext_csd mc) \<Longrightarrow> ro_view (cd_ext_csd (ext_csd_rev4 e mc)) =
    take 17 (ro_view (cd_ext_csd mc))
      @ map ((!) e) [200, 201, 202, 203, 236, 237, 238, 239, 253]"
proof -
  assume rev: "4 \<le> ec_rev (cd_ext_csd mc)"
  have take: "take 17 (ro_view (x\<lparr>ec_sec_trim_mult := a, ec_sec_erase_mult := b,
      ec_sec_feature_support := c, ec_trim_timeout := d, ec_boot_ro_lock := l,
      ec_boot_ro_lockable := True\<rparr>)) = take 17 (ro_view x)" for x a b c d l
    by (simp add: ro_view_def)
  have tk: "take 17 (ro_view (cd_ext_csd (mmc_manage_gp_partitions e
      (mmc_manage_enhanced_area e m)))) = take 17 (ro_view (cd_ext_csd m))" for m
    by simp
  have "ro_view (x\<lparr>raw_pwr_cl_52_195 := e ! 200, raw_pwr_cl_26_195 := e ! 201,
      raw_pwr_cl_52_360 := e ! 202, raw_pwr_cl_26_360 := e ! 203, raw_pwr_cl_200_195 := e ! 236,
      raw_pwr_cl_200_360 := e ! 237, raw_pwr_cl_ddr_52_195 := e ! 238,
      raw_pwr_cl_ddr_52_360 := e ! 239, raw_pwr_cl_ddr_200_360 := e ! 253\<rparr>)
    = take 17 (ro_view x) @ map ((!) e) [200, 201, 202, 203, 236, 237, 238, 239, 253]" for x
    by (simp add: ro_view_def)
  with rev show ?thesis
    by (simp add: ext_csd_rev4_def Let_def take) (simp add: ro_view_def)
qed

lemma rest_view:
  "ro_view (cd_ext_csd (ext_csd_rev3 h e mc)) = ro_view (cd_ext_csd mc)"
  "ro_view (cd_ext_csd (ext_csd_rev5 k h e mc)) = ro_view (cd_ext_csd mc)"
  "ro_view (cd_ext_csd (ext_csd_rev6 e mc)) = (ro_view (cd_ext_csd mc))[1 := e ! 181]"
  "ro_view (cd_ext_csd (ext_csd_rev7 e mc)) = ro_view (cd_ext_csd mc)"
  "ro_view (cd_ext_csd (ext_csd_rev8 e mc)) = ro_view (cd_ext_csd mc)"
  by (simp_all add: ext_csd_stages upd_cid_def ro_view_def Let_def upt_rec split: prod.split)

text \<open>After a decoding at revision 4 or later every compared copy is the byte decoded.\<close>

lemma decode_ro_view:
  assumes "fst (mmc_decode_ext_csd k h e mc) = 0" and "4 \<le> e ! 192"
  shows "ro_view (cd_ext_csd (snd (mmc_decode_ext_csd k h e mc))) = map ((!) e) ro_offsets"
proof -
  obtain x0 x1 x2 x3 x4 x5 x6 x7 x8 x9 x10 x11 x12 x13 x14 x15 x16 rest where
    "ro_view (cd_ext_csd (upd_ec (\<lambda>x. x\<lparr>raw_ext_csd_structure := e ! 194\<rparr>) mc)) =
      [x0, x1, x2, e ! 194, x4, x5, x6, x7, x8, x9, x10, x11, x12, x13, x14, x15, x16] @ rest"
    by (simp add: ro_view_def)
  with assms show ?thesis
    by (auto simp: mmc_decode_ext_csd_def Let_def rest_view rev4_view raw_view base_view
        ro_offsets_def split: if_splits)
qed

section \<open>Sector count and addressing\<close>

lemma unat_eb: "LENGTH('a) \<ge> 8 \<Longrightarrow> unat (eb e i :: 'a::len word) = unat (e ! i)"
proof -
  assume "LENGTH('a) \<ge> 8"
  then have "(2::nat) ^ 8 \<le> 2 ^ LENGTH('a)" by (intro power_increasing) auto
  then show ?thesis
    unfolding eb_def using unsigned_less [of "e ! i", where 'a = nat]
    by (intro unat_ucast_small) simp
qed

text \<open>Four bytes put together with shifts and \<open>|\<close> are their little-endian number.\<close>

lemma le32_bytes:
  "unat (eb e i OR push_bit 8 (eb e j) OR push_bit 16 (eb e k) OR push_bit 24 (eb e l) :: u32)
    = unat (e ! i) + 256 * unat (e ! j) + 65536 * unat (e ! k) + 16777216 * unat (e ! l)"
proof -
  have disj: "eb e i OR push_bit 8 (eb e j) OR push_bit 16 (eb e k) OR push_bit 24 (eb e l)
    = (eb e i + (push_bit 8 (eb e j) + (push_bit 16 (eb e k) + push_bit 24 (eb e l))) :: u32)"
  proof -
    have hi: "\<not> bit (e ! m) n" if "8 \<le> n" for m n
      using that bit_imp_le_length [of "e ! m" n] by auto
    have a1: "push_bit 16 (eb e k) + push_bit 24 (eb e l)
        = (push_bit 16 (eb e k) OR push_bit 24 (eb e l) :: u32)"
      by (rule disjunctive_add) (auto simp: eb_def bit_simps hi)
    have a2: "push_bit 8 (eb e j) + (push_bit 16 (eb e k) OR push_bit 24 (eb e l))
        = (push_bit 8 (eb e j) OR push_bit 16 (eb e k) OR push_bit 24 (eb e l) :: u32)"
      by (rule disjunctive_add) (auto simp: eb_def bit_simps hi)
    have a3: "eb e i + (push_bit 8 (eb e j) OR push_bit 16 (eb e k) OR push_bit 24 (eb e l))
        = (eb e i OR push_bit 8 (eb e j) OR push_bit 16 (eb e k) OR push_bit 24 (eb e l) :: u32)"
      by (rule disjunctive_add) (auto simp: eb_def bit_simps hi)
    show ?thesis by (simp only: a1 a2 a3)
  qed
  have b: "unat (e ! m) < 256" for m using unsigned_less [of "e ! m", where 'a = nat] by simp
  show ?thesis
    unfolding disj using b [of i] b [of j] b [of k] b [of l]
    by (simp add: unat_add_small unat_push_small unat_eb)
qed

lemma stage_sectors [simp]:
  "ec_sectors (cd_ext_csd (ext_csd_rev3 h e mc)) = ec_sectors (cd_ext_csd mc)"
  "ec_sectors (cd_ext_csd (ext_csd_raw e mc)) = ec_sectors (cd_ext_csd mc)"
  "ec_sectors (cd_ext_csd (ext_csd_rev4 e mc)) = ec_sectors (cd_ext_csd mc)"
  "ec_sectors (cd_ext_csd (ext_csd_rev5 k h e mc)) = ec_sectors (cd_ext_csd mc)"
  "ec_sectors (cd_ext_csd (ext_csd_rev6 e mc)) = ec_sectors (cd_ext_csd mc)"
  "ec_sectors (cd_ext_csd (ext_csd_rev7 e mc)) = ec_sectors (cd_ext_csd mc)"
  "ec_sectors (cd_ext_csd (ext_csd_rev8 e mc)) = ec_sectors (cd_ext_csd mc)"
  by (simp_all add: ext_csd_stages upd_cid_def Let_def upt_rec split: prod.split)

lemma stage_state [simp]:
  "cd_state (ext_csd_rev3 h e mc) = cd_state mc"
  "cd_state (ext_csd_raw e mc) = cd_state mc"
  "cd_state (ext_csd_rev4 e mc) = cd_state mc"
  "cd_state (ext_csd_rev5 k h e mc) = cd_state mc"
  "cd_state (ext_csd_rev6 e mc) = cd_state mc"
  "cd_state (ext_csd_rev7 e mc) = cd_state mc"
  "cd_state (ext_csd_rev8 e mc) = cd_state mc"
  by (simp_all add: ext_csd_stages upd_cid_def Let_def upt_rec split: prod.split)

lemma decode_sectors:
  assumes ok: "fst (mmc_decode_ext_csd k h e mc) = 0" and rev: "2 \<le> e ! 192"
  defines "mc' \<equiv> snd (mmc_decode_ext_csd k h e mc)"
  shows "unat (ec_sectors (cd_ext_csd mc')) = unat (e ! 212) + 256 * unat (e ! 213)
      + 65536 * unat (e ! 214) + 16777216 * unat (e ! 215)"
    and "mmc_card_blockaddr mc' \<longleftrightarrow>
      mmc_card_blockaddr mc \<or> 4194304 < unat (ec_sectors (cd_ext_csd mc'))"
proof -
  have good: "\<not> (csd_structure (cd_csd mc) = 3 \<and> 2 < e ! 194)"
    using ok by (auto simp: mmc_decode_ext_csd_def Let_def)
  have sec: "ec_sectors (cd_ext_csd mc') = eb e 212 OR push_bit 8 (eb e 213)
      OR push_bit 16 (eb e 214) OR push_bit 24 (eb e 215)"
    unfolding mc'_def using good rev
    by (auto simp: mmc_decode_ext_csd_def Let_def ext_csd_base_def)
  show "unat (ec_sectors (cd_ext_csd mc')) = unat (e ! 212) + 256 * unat (e ! 213)
      + 65536 * unat (e ! 214) + 16777216 * unat (e ! 215)"
    unfolding sec by (rule le32_bytes)
  have st: "cd_state mc' = cd_state mc OR (if 4194304 < ec_sectors (cd_ext_csd mc') then 4 else 0)"
    unfolding sec unfolding mc'_def using good rev
    by (auto simp: mmc_decode_ext_csd_def Let_def ext_csd_base_def card_set_state_def)
  have "4194304 < ec_sectors (cd_ext_csd mc')
      \<longleftrightarrow> 4194304 < unat (ec_sectors (cd_ext_csd mc'))"
    by (simp add: word_less_nat_alt)
  then show "mmc_card_blockaddr mc' \<longleftrightarrow>
      mmc_card_blockaddr mc \<or> 4194304 < unat (ec_sectors (cd_ext_csd mc'))"
    by (auto simp: card_state_def st bit.conj_disj_distrib2 or_eq_0_iff)
qed

section \<open>High priority interrupts\<close>

lemma ext_csd_fixups_quirk:
  "MMC_QUIRK_BROKEN_HPI \<in> cd_quirks (mmc_fixup_device mmc_ext_csd_fixups mc) \<longleftrightarrow>
    MMC_QUIRK_BROKEN_HPI \<in> cd_quirks mc \<or>
    cid_manfid (cd_cid mc) = 0x90 \<and> cid_oemid (cd_cid mc) = 0x14A \<and> ec_rev (cd_ext_csd mc) = 5 \<or>
    cid_manfid (cd_cid mc) = 0xFE \<and> cid_oemid (cd_cid mc) = 0x14E \<and> ec_rev (cd_ext_csd mc) = 6"
proof -
  have rev: "(5 :: u32) = ucast (r :: u8) \<longleftrightarrow> r = 5" "(6 :: u32) = ucast r \<longleftrightarrow> r = 6" for r
    using unsigned_less [of r, where 'a = nat]
    by (auto simp: word_unat_eq_iff unat_ucast_small)
  show ?thesis
    by (auto simp: mmc_fixup_device_def mmc_ext_csd_fixups_def MMC_FIXUP_EXT_CSD_REV_def
        FIXUP_EXT_def fixup_matches_def add_quirk_def rev)
qed


lemma stage_quirks [simp]:
  "cd_quirks (ext_csd_rev3 h e mc) = cd_quirks mc"
  "cd_quirks (ext_csd_raw e mc) = cd_quirks mc"
  "cd_quirks (ext_csd_rev4 e mc) = cd_quirks mc"
  "cd_quirks (ext_csd_rev5 k h e mc) = cd_quirks mc"
  "cd_quirks (ext_csd_rev6 e mc) = cd_quirks mc"
  "cd_quirks (ext_csd_rev7 e mc) = cd_quirks mc"
  "cd_quirks (ext_csd_rev8 e mc) = cd_quirks mc"
  by (simp_all add: ext_csd_stages upd_cid_def Let_def upt_rec split: prod.split)

lemma stage_hpi [simp]:
  "ec_hpi (cd_ext_csd (ext_csd_base h e mc)) = ec_hpi (cd_ext_csd mc)"
  "ec_hpi (cd_ext_csd (ext_csd_rev3 h e mc)) = ec_hpi (cd_ext_csd mc)"
  "ec_hpi (cd_ext_csd (ext_csd_raw e mc)) = ec_hpi (cd_ext_csd mc)"
  "ec_hpi (cd_ext_csd (ext_csd_rev4 e mc)) = ec_hpi (cd_ext_csd mc)"
  "ec_hpi (cd_ext_csd (ext_csd_rev5 k h e mc)) \<longleftrightarrow> ec_hpi (cd_ext_csd mc) \<or>
     5 \<le> ec_rev (cd_ext_csd mc) \<and> MMC_QUIRK_BROKEN_HPI \<notin> cd_quirks mc \<and> \<not> kn_broken_hpi k
       \<and> e ! 503 AND 1 \<noteq> 0"
  "ec_hpi (cd_ext_csd (ext_csd_rev6 e mc)) = ec_hpi (cd_ext_csd mc)"
  "ec_hpi (cd_ext_csd (ext_csd_rev7 e mc)) = ec_hpi (cd_ext_csd mc)"
  "ec_hpi (cd_ext_csd (ext_csd_rev8 e mc)) = ec_hpi (cd_ext_csd mc)"
  by (simp_all add: ext_csd_stages upd_cid_def Let_def upt_rec split: prod.split)

text \<open>The cards whose HPI is known to be broken.\<close>

definition broken_hpi_card :: "mmc_card \<Rightarrow> u8 \<Rightarrow> bool" where
  "broken_hpi_card mc r \<longleftrightarrow>
    cid_manfid (cd_cid mc) = 0x90 \<and> cid_oemid (cd_cid mc) = 0x14A \<and> r = 5 \<or>
    cid_manfid (cd_cid mc) = 0xFE \<and> cid_oemid (cd_cid mc) = 0x14E \<and> r = 6"

lemma decode_hpi:
  assumes "fst (mmc_decode_ext_csd k h e mc) = 0"
  shows "ec_hpi (cd_ext_csd (snd (mmc_decode_ext_csd k h e mc))) \<longleftrightarrow>
    ec_hpi (cd_ext_csd mc) \<or>
    5 \<le> e ! 192 \<and> MMC_QUIRK_BROKEN_HPI \<notin> cd_quirks mc \<and> \<not> broken_hpi_card mc (e ! 192)
      \<and> \<not> kn_broken_hpi k \<and> e ! 503 AND 1 \<noteq> 0"
proof -
  have q: "MMC_QUIRK_BROKEN_HPI \<in> cd_quirks (ext_csd_base h e m) \<longleftrightarrow>
      MMC_QUIRK_BROKEN_HPI \<in> cd_quirks m \<or> broken_hpi_card m (e ! 192)" for m
    by (simp add: ext_csd_base_def Let_def ext_csd_fixups_quirk broken_hpi_card_def)
  show ?thesis
    using assms
    by (auto simp: mmc_decode_ext_csd_def Let_def q broken_hpi_card_def split: if_splits)
qed

end
