(* ===== verification/Ocr.thy ===== *)
theory Ocr
  imports Mmc_Types "HOL-Library.Signed_Division"
begin

text \<open>
  Voltages and the bits of the OCR register (\<open>mmc/core/core.c\<close>).  The C division of
  \<open>mmc_vdd_to_ocrbitnum\<close> truncates towards zero (\<open>sdiv\<close>), which is what makes the voltages
  from 1951 to 1999 mV fall into the window of 2.0 V.  Regulators and the device tree are
  parameters.
\<close>

definition mmc_vdd_to_ocrbitnum :: "int \<Rightarrow> bool \<Rightarrow> int" where
  "mmc_vdd_to_ocrbitnum vdd low_bits =
    (let max_bit = 23 in
     if vdd < 1650 \<or> vdd > 3600 then - EINVAL
     else if vdd \<ge> 1650 \<and> vdd \<le> 1950 then 7
     else
       (let vdd = (if low_bits then vdd - 1 else vdd);
            bit = (vdd - 2000) sdiv 100 + 8
        in if bit > max_bit then max_bit else bit))"

function ocr_fill :: "u32 \<Rightarrow> int \<Rightarrow> int \<Rightarrow> u32" where
  "ocr_fill msk vdd_max vdd_min =
    (if vdd_max \<ge> vdd_min then ocr_fill (msk OR push_bit (nat vdd_max) 1) (vdd_max - 1) vdd_min
     else msk)"
  by auto
termination by (relation "measure (\<lambda>(msk, vdd_max, vdd_min). nat (vdd_max - vdd_min + 1))") auto

declare ocr_fill.simps [simp del]

definition mmc_vddrange_to_ocrmask :: "int \<Rightarrow> int \<Rightarrow> u32" where
  "mmc_vddrange_to_ocrmask vdd_min vdd_max =
    (if vdd_max < vdd_min then 0
     else
       (let vdd_max = mmc_vdd_to_ocrbitnum vdd_max False in
        if vdd_max < 0 then 0
        else
          (let vdd_min = mmc_vdd_to_ocrbitnum vdd_min True in
           if vdd_min < 0 then 0 else ocr_fill 0 vdd_max vdd_min)))"

text \<open>
  \<open>np\<close> holds the words of the property \<open>voltage-ranges\<close> in host byte order, if the node
  has it.  The results are the return code and the mask, which keeps the ranges parsed
  before an invalid one.
\<close>

fun of_voltage_loop :: "u32 list \<Rightarrow> u32 \<Rightarrow> int \<times> u32" where
  "of_voltage_loop (a # b # rest) msk =
    (let ocr_mask = mmc_vddrange_to_ocrmask (sint a) (sint b)
     in if ocr_mask = 0 then (- EINVAL, msk) else of_voltage_loop rest (msk OR ocr_mask))"
| "of_voltage_loop _ msk = (1, msk)"

definition mmc_of_parse_voltage :: "u32 list option \<Rightarrow> u32 \<Rightarrow> int \<times> u32" where
  "mmc_of_parse_voltage np msk =
    (case np of
       None \<Rightarrow> (0, msk)
     | Some ranges \<Rightarrow>
         if length ranges div 2 = 0 then (- EINVAL, msk) else of_voltage_loop ranges msk)"

definition mmc_ocrbitnum_to_vdd :: "int \<Rightarrow> int + (int \<times> int)" where
  "mmc_ocrbitnum_to_vdd vdd_bit =
    (if vdd_bit = 0 then Inl (- EINVAL)
     else
       (let tmp = vdd_bit - 7 in
        if tmp = 0 then Inr (1650 * 1000, 1950 * 1000)
        else (let min_uV = 1900 * 1000 + tmp * 100 * 1000 in Inr (min_uV, min_uV + 100 * 1000))))"

text \<open>The regulator answers the number of its voltages, each of them, and the present one.\<close>

fun regulator_ocr_loop :: "(nat \<Rightarrow> int) \<Rightarrow> nat list \<Rightarrow> u32 \<Rightarrow> u32" where
  "regulator_ocr_loop list_voltage [] result = result"
| "regulator_ocr_loop list_voltage (i # is) result =
    (let vdd_uV = list_voltage i in
     if vdd_uV \<le> 0 then regulator_ocr_loop list_voltage is result
     else
       (let vdd_mV = vdd_uV sdiv 1000
        in regulator_ocr_loop list_voltage is (result OR mmc_vddrange_to_ocrmask vdd_mV vdd_mV)))"

definition mmc_regulator_get_ocrmask :: "int \<Rightarrow> (nat \<Rightarrow> int) \<Rightarrow> int \<Rightarrow> int" where
  "mmc_regulator_get_ocrmask count list_voltage present_voltage =
    (if count < 0 then count
     else
       (let result = regulator_ocr_loop list_voltage [0..<nat count] 0 in
        if result \<noteq> 0 then sint result
        else
          (let vdd_uV = present_voltage in
           if vdd_uV \<le> 0 then vdd_uV
           else (let vdd_mV = vdd_uV sdiv 1000 in sint (mmc_vddrange_to_ocrmask vdd_mV vdd_mV)))))"

section \<open>The window of a bit\<close>

text \<open>The lowest and the highest voltage in mV that the code maps to a bit of the OCR.\<close>

definition ocr_low :: "nat \<Rightarrow> int" where
  "ocr_low n = (if n = 7 then 1650 else if n = 8 then 1951 else 2000 + 100 * (int n - 8))"

definition ocr_high :: "nat \<Rightarrow> int" where
  "ocr_high n = (if n = 7 then 1950 else 2100 + 100 * (int n - 8))"

lemma sdiv_100: "(v :: int) sdiv 100 = (if 0 \<le> v then v div 100 else - ((- v) div 100))"
  by (auto simp: signed_divide_int_def sgn_if)

lemma bitnum_range:
  "1650 \<le> v \<Longrightarrow> v \<le> 3600 \<Longrightarrow> 7 \<le> mmc_vdd_to_ocrbitnum v b \<and> mmc_vdd_to_ocrbitnum v b \<le> 23"
  by (auto simp: mmc_vdd_to_ocrbitnum_def Let_def sdiv_100)

lemma bitnum_error: "mmc_vdd_to_ocrbitnum v b < 0 \<longleftrightarrow> v < 1650 \<or> 3600 < v"
  using bitnum_range [of v b] by (auto simp: mmc_vdd_to_ocrbitnum_def Let_def)

lemma bitnum_high:
  assumes "1650 \<le> v" "v \<le> 3600" "7 \<le> n" "n \<le> 23"
  shows "int n \<le> mmc_vdd_to_ocrbitnum v False \<longleftrightarrow> ocr_low n \<le> v"
  using assms by (auto simp: mmc_vdd_to_ocrbitnum_def Let_def sdiv_100 ocr_low_def)

lemma bitnum_low:
  assumes "1650 \<le> v" "v \<le> 3600" "7 \<le> n" "n \<le> 23"
  shows "mmc_vdd_to_ocrbitnum v True \<le> int n \<longleftrightarrow> v \<le> ocr_high n"
  using assms by (auto simp: mmc_vdd_to_ocrbitnum_def Let_def sdiv_100 ocr_high_def)

lemma bit_ocr_fill:
  "0 \<le> lo \<Longrightarrow> hi < 32 \<Longrightarrow>
    bit (ocr_fill msk hi lo) n \<longleftrightarrow> bit msk n \<or> lo \<le> int n \<and> int n \<le> hi"
proof (induction msk hi lo rule: ocr_fill.induct)
  case (1 msk hi lo)
  show ?case
  proof (cases "lo \<le> hi")
    case True
    with 1 have "bit (ocr_fill msk hi lo) n \<longleftrightarrow>
        bit (msk OR push_bit (nat hi) 1) n \<or> lo \<le> int n \<and> int n \<le> hi - 1"
      by (simp add: ocr_fill.simps [of msk hi lo])
    also have "\<dots> \<longleftrightarrow> bit msk n \<or> lo \<le> int n \<and> int n \<le> hi"
      using True 1 by (auto simp: bit_simps)
    finally show ?thesis .
  next
    case False
    then show ?thesis by (auto simp: ocr_fill.simps)
  qed
qed

lemma bit_vddrange_to_ocrmask:
  "bit (mmc_vddrange_to_ocrmask lo hi) n \<longleftrightarrow>
    lo \<le> hi \<and> 1650 \<le> lo \<and> hi \<le> 3600 \<and> 7 \<le> n \<and> n \<le> 23 \<and> lo \<le> ocr_high n \<and> ocr_low n \<le> hi"
proof (cases "lo \<le> hi \<and> 1650 \<le> lo \<and> hi \<le> 3600")
  case True
  then have lo: "1650 \<le> lo" "lo \<le> 3600" and hi: "1650 \<le> hi" "hi \<le> 3600" by auto
  have "bit (mmc_vddrange_to_ocrmask lo hi) n \<longleftrightarrow>
      mmc_vdd_to_ocrbitnum lo True \<le> int n \<and> int n \<le> mmc_vdd_to_ocrbitnum hi False"
    using True bitnum_range [OF lo, of True] bitnum_range [OF hi, of False]
    by (simp add: mmc_vddrange_to_ocrmask_def Let_def bit_ocr_fill)
  also have "\<dots> \<longleftrightarrow> 7 \<le> n \<and> n \<le> 23 \<and> lo \<le> ocr_high n \<and> ocr_low n \<le> hi"
    using bitnum_range [OF lo, of True] bitnum_range [OF hi, of False]
      bitnum_low [OF lo, of n] bitnum_high [OF hi, of n] by auto
  finally show ?thesis using True by simp
next
  case False
  then show ?thesis
    by (auto simp: mmc_vddrange_to_ocrmask_def Let_def bitnum_error)
qed

text \<open>A parsed property adds the masks of all its ranges.\<close>

fun ocr_ranges :: "u32 list \<Rightarrow> (int \<times> int) list" where
  "ocr_ranges (a # b # rest) = (sint a, sint b) # ocr_ranges rest"
| "ocr_ranges _ = []"

lemma of_voltage_loop_ok:
  "of_voltage_loop ranges msk = (1, msk') \<Longrightarrow> bit msk' n \<longleftrightarrow>
    bit msk n \<or> (\<exists>(lo, hi) \<in> set (ocr_ranges ranges). bit (mmc_vddrange_to_ocrmask lo hi) n)"
  by (induction ranges msk rule: of_voltage_loop.induct)
    (auto simp: Let_def bit_or_iff split: if_splits)

end
