(* ===== verification/Host_Ios.thy ===== *)
theory Host_Ios
  imports Mmc_Types
begin

text \<open>
  The operating conditions of the bus and the power and re-tuning state of the host:
  \<open>mmc_set_ios\<close> and its callers, signal voltage, power sequencing (\<open>mmc/core/core.c\<close>,
  \<open>mmc/core/pwrseq.c\<close>) and the counters of re-tuning (\<open>mmc/core/host.c\<close>,
  \<open>mmc/core/host.h\<close>).
\<close>

section \<open>Events\<close>

text \<open>
  \<open>emit ev ns\<close> records an event that takes at least \<open>ns\<close> nanoseconds and at least one.
\<close>

definition log_event :: "mmc_event \<Rightarrow> nat \<Rightarrow> mmc_world \<Rightarrow> mmc_world" where
  "log_event ev ns w = w\<lparr>w_now := w_now w + Suc (ns + kn_elapsed (w_kernel w) (w_trace w) ev),
     w_trace := w_trace w @ [ev]\<rparr>"

definition emit :: "mmc_event \<Rightarrow> nat \<Rightarrow> unit io" where
  "emit ev ns = modify (log_event ev ns)"

definition mmc_delay :: "u32 \<Rightarrow> unit io" where
  "mmc_delay ms = emit (EvDelay ms) (unat ms * 1000000)"

definition jiffies_of :: "mmc_world \<Rightarrow> nat" where
  "jiffies_of w = w_now w div Suc (kn_tick (w_kernel w))"

definition jiffies :: "nat io" where
  "jiffies = do { emit EvJiffies 0; gets jiffies_of }"

definition HZ :: "mmc_world \<Rightarrow> nat" where
  "HZ w = 1000000000 div Suc (kn_tick (w_kernel w))"

definition pwrseq_call :: "pwrseq_step \<Rightarrow> unit io" where
  "pwrseq_call p = do {
     k \<leftarrow> gets w_kernel;
     io_when (p \<in> kn_pwrseq k) (emit (EvPwrseq p) 0)
   }"

definition mmc_pwrseq_pre_power_on :: "unit io" where
  "mmc_pwrseq_pre_power_on = pwrseq_call PRE_POWER_ON"

definition mmc_pwrseq_post_power_on :: "unit io" where
  "mmc_pwrseq_post_power_on = pwrseq_call POST_POWER_ON"

definition mmc_pwrseq_power_off :: "unit io" where
  "mmc_pwrseq_power_off = pwrseq_call PWRSEQ_POWER_OFF"

definition mmc_pwrseq_reset :: "unit io" where
  "mmc_pwrseq_reset = pwrseq_call PWRSEQ_RESET"

text \<open>\<open>cqe_off\<close> of the command queue engine leaves \<open>cqe_on\<close> cleared.\<close>

definition cqe_off :: "unit io" where
  "cqe_off = do { emit EvCqeOff 0; modify (upd_host (\<lambda>h. h\<lparr>h_cqe_on := False\<rparr>)) }"

section \<open>Re-tuning counters\<close>

definition mmc_retune_needed :: "unit io" where
  "mmc_retune_needed = modify (\<lambda>w. upd_host (\<lambda>h. h\<lparr>h_need_retune :=
     kn_retune_needed (w_kernel w) (h_can_retune h) (h_need_retune h)\<rparr>) w)"

definition mmc_retune_enable :: "unit io" where
  "mmc_retune_enable = do {
     modify (upd_host (\<lambda>h. h\<lparr>h_can_retune := True\<rparr>));
     h \<leftarrow> gets w_host;
     io_when (h_retune_period h \<noteq> 0)
       (modify (\<lambda>w. upd_host (\<lambda>h. h\<lparr>h_retune_timer :=
          Some (jiffies_of w + h_retune_period h * HZ w)\<rparr>) w))
   }"

definition mmc_retune_hold :: "unit io" where
  "mmc_retune_hold = do {
     h \<leftarrow> gets w_host;
     io_when (h_hold_retune h = 0) (modify (upd_host (\<lambda>h. h\<lparr>h_retune_now := True\<rparr>)));
     modify (upd_host (\<lambda>h. h\<lparr>h_hold_retune := h_hold_retune h + 1\<rparr>))
   }"

definition mmc_retune_hold_now :: "unit io" where
  "mmc_retune_hold_now =
     modify (upd_host (\<lambda>h. h\<lparr>h_retune_now := False, h_hold_retune := h_hold_retune h + 1\<rparr>))"

definition mmc_retune_recheck :: "unit io" where
  "mmc_retune_recheck = do {
     h \<leftarrow> gets w_host;
     io_when (h_hold_retune h \<le> 1) (modify (upd_host (\<lambda>h. h\<lparr>h_retune_now := True\<rparr>)))
   }"

definition mmc_retune_release :: "unit io" where
  "mmc_retune_release = do {
     h \<leftarrow> gets w_host;
     io_when (h_hold_retune h \<noteq> 0)
       (modify (upd_host (\<lambda>h. h\<lparr>h_hold_retune := h_hold_retune h - 1\<rparr>)))
   }"

definition mmc_retune_pause :: "unit io" where
  "mmc_retune_pause = do {
     h \<leftarrow> gets w_host;
     io_when (\<not> h_retune_paused h) (do {
       modify (upd_host (\<lambda>h. h\<lparr>h_retune_paused := True\<rparr>));
       mmc_retune_needed;
       mmc_retune_hold
     })
   }"

definition mmc_retune_unpause :: "unit io" where
  "mmc_retune_unpause = do {
     h \<leftarrow> gets w_host;
     io_when (h_retune_paused h) (do {
       modify (upd_host (\<lambda>h. h\<lparr>h_retune_paused := False\<rparr>));
       mmc_retune_release
     })
   }"

definition mmc_retune_timer_stop :: "unit io" where
  "mmc_retune_timer_stop = modify (upd_host (\<lambda>h. h\<lparr>h_retune_timer := None\<rparr>))"

definition mmc_retune_disable :: "unit io" where
  "mmc_retune_disable = do {
     mmc_retune_unpause;
     modify (upd_host (\<lambda>h. h\<lparr>h_can_retune := False\<rparr>));
     modify (upd_host (\<lambda>h. h\<lparr>h_retune_timer := None\<rparr>));
     modify (upd_host (\<lambda>h. h\<lparr>h_retune_now := False, h_need_retune := False\<rparr>))
   }"

section \<open>Operating conditions\<close>

definition mmc_set_ios :: "unit io" where
  "mmc_set_ios = do { w \<leftarrow> gets id; emit (EvSetIos (w_ios w)) 0 }"

definition mmc_set_chip_select :: "mmc_chip_select \<Rightarrow> unit io" where
  "mmc_set_chip_select mode = do {
     modify (upd_ios (\<lambda>i. i\<lparr>ios_chip_select := mode\<rparr>)); mmc_set_ios }"

definition mmc_set_clock :: "u32 \<Rightarrow> unit io" where
  "mmc_set_clock hz = do {
     h \<leftarrow> gets w_host;
     let hz = (if hz > h_f_max h then h_f_max h else hz);
     modify (upd_ios (\<lambda>i. i\<lparr>ios_clock := hz\<rparr>));
     mmc_set_ios
   }"

definition mmc_set_bus_mode :: "mmc_bus_mode \<Rightarrow> unit io" where
  "mmc_set_bus_mode mode = do {
     modify (upd_ios (\<lambda>i. i\<lparr>ios_bus_mode := mode\<rparr>)); mmc_set_ios }"

definition mmc_set_bus_width :: "int \<Rightarrow> unit io" where
  "mmc_set_bus_width width = do {
     modify (upd_ios (\<lambda>i. i\<lparr>ios_bus_width := width\<rparr>)); mmc_set_ios }"

definition mmc_set_timing :: "mmc_timing \<Rightarrow> unit io" where
  "mmc_set_timing timing = do {
     modify (upd_ios (\<lambda>i. i\<lparr>ios_timing := timing\<rparr>)); mmc_set_ios }"

definition mmc_set_driver_type :: "u32 \<Rightarrow> unit io" where
  "mmc_set_driver_type drv_type = do {
     modify (upd_ios (\<lambda>i. i\<lparr>ios_drv_type := ucast drv_type\<rparr>)); mmc_set_ios }"

definition mmc_execute_tuning :: "int io" where
  "mmc_execute_tuning = do {
     w \<leftarrow> gets id;
     (case op_execute_tuning (w_ops w) of
        None \<Rightarrow> ret 0
      | Some tune \<Rightarrow> do {
          io_when (h_cqe_on (w_host w)) cqe_off;
          let opcode = (if mmc_card_mmc (w_card w) then MMC_SEND_TUNING_BLOCK_HS200
                        else MMC_SEND_TUNING_BLOCK);
          tr \<leftarrow> gets w_trace;
          emit (EvTuning opcode) 0;
          let err = tune tr opcode;
          io_when (err = 0) mmc_retune_enable;
          ret err
        })
   }"

definition mmc_set_initial_state :: "unit io" where
  "mmc_set_initial_state = do {
     w \<leftarrow> gets id;
     io_when (h_cqe_on (w_host w)) cqe_off;
     mmc_retune_disable;
     modify (upd_ios (\<lambda>i. i\<lparr>ios_chip_select :=
       (if mmc_host_is_spi w then MMC_CS_HIGH else MMC_CS_DONTCARE)\<rparr>));
     modify (upd_ios (\<lambda>i. i\<lparr>ios_bus_mode := MMC_BUSMODE_PUSHPULL,
       ios_bus_width := MMC_BUS_WIDTH_1, ios_timing := MMC_TIMING_LEGACY, ios_drv_type := 0,
       ios_enhanced_strobe := False\<rparr>));
     w \<leftarrow> gets id;
     io_when (MMC_CAP2_HS400_ES \<in> h_caps2 (w_host w) \<and> op_hs400_enhanced_strobe (w_ops w))
       (emit (EvEnhancedStrobe (w_ios w)) 0);
     mmc_set_ios
   }"

section \<open>Signal voltage\<close>

definition mmc_set_signal_voltage :: "mmc_signal_voltage \<Rightarrow> int io" where
  "mmc_set_signal_voltage signal_voltage = do {
     w \<leftarrow> gets id;
     let old_signal_voltage = ios_signal_voltage (w_ios w);
     modify (upd_ios (\<lambda>i. i\<lparr>ios_signal_voltage := signal_voltage\<rparr>));
     err \<leftarrow> (case op_start_signal_voltage_switch (w_ops w) of
        None \<Rightarrow> ret 0
      | Some switch \<Rightarrow> do {
          w \<leftarrow> gets id;
          emit (EvVoltageSwitch (w_ios w)) 0;
          ret (switch (w_trace w) (w_ios w))
        });
     io_when (err \<noteq> 0) (modify (upd_ios (\<lambda>i. i\<lparr>ios_signal_voltage := old_signal_voltage\<rparr>)));
     ret err
   }"

definition mmc_set_initial_signal_voltage :: "unit io" where
  "mmc_set_initial_signal_voltage = do {
     e1 \<leftarrow> mmc_set_signal_voltage MMC_SIGNAL_VOLTAGE_330;
     io_when (e1 \<noteq> 0) (do {
       e2 \<leftarrow> mmc_set_signal_voltage MMC_SIGNAL_VOLTAGE_180;
       io_when (e2 \<noteq> 0) (do {
         mmc_set_signal_voltage MMC_SIGNAL_VOLTAGE_120;
         ret ()
       })
     })
   }"

definition mmc_host_set_uhs_voltage :: "int io" where
  "mmc_host_set_uhs_voltage = do {
     w \<leftarrow> gets id;
     let clock = ios_clock (w_ios w);
     modify (upd_ios (\<lambda>i. i\<lparr>ios_clock := 0\<rparr>));
     mmc_set_ios;
     err \<leftarrow> mmc_set_signal_voltage MMC_SIGNAL_VOLTAGE_180;
     if err \<noteq> 0 then ret (- EAGAIN)
     else do {
       mmc_delay 10;
       modify (upd_ios (\<lambda>i. i\<lparr>ios_clock := clock\<rparr>));
       mmc_set_ios;
       ret 0
     }
   }"

text \<open>The result is the return code and \<open>*drv_type\<close>.\<close>

definition mmc_select_drive_strength :: "u32 \<Rightarrow> int \<Rightarrow> (int \<times> int) io" where
  "mmc_select_drive_strength max_dtr card_drv_type = do {
     w \<leftarrow> gets id;
     (case op_select_drive_strength (w_ops w) of
        None \<Rightarrow> ret (0, 0)
      | Some select \<Rightarrow> do {
          let caps = h_caps (w_host w);
          let host_drv_type = SD_DRIVER_TYPE_B;
          let host_drv_type = (if MMC_CAP_DRIVER_TYPE_A \<in> caps
            then host_drv_type OR SD_DRIVER_TYPE_A else host_drv_type);
          let host_drv_type = (if MMC_CAP_DRIVER_TYPE_C \<in> caps
            then host_drv_type OR SD_DRIVER_TYPE_C else host_drv_type);
          let host_drv_type = (if MMC_CAP_DRIVER_TYPE_D \<in> caps
            then host_drv_type OR SD_DRIVER_TYPE_D else host_drv_type);
          emit (EvDriveStrength max_dtr host_drv_type card_drv_type) 0;
          ret (select (w_trace w) max_dtr host_drv_type card_drv_type)
        })
   }"

section \<open>Power\<close>

definition mmc_power_up :: "u32 \<Rightarrow> unit io" where
  "mmc_power_up ocr = do {
     w \<leftarrow> gets id;
     io_when (ios_power_mode (w_ios w) \<noteq> MMC_POWER_ON) (do {
       mmc_pwrseq_pre_power_on;
       modify (upd_ios (\<lambda>i. i\<lparr>ios_vdd := of_nat (fls ocr) - 1, ios_power_mode := MMC_POWER_UP\<rparr>));
       mmc_set_initial_state;
       mmc_set_initial_signal_voltage;
       w \<leftarrow> gets id;
       mmc_delay (ios_power_delay_ms (w_ios w));
       mmc_pwrseq_post_power_on;
       modify (upd_ios (\<lambda>i. i\<lparr>ios_clock := h_f_init (w_host w), ios_power_mode := MMC_POWER_ON\<rparr>));
       mmc_set_ios;
       mmc_delay (ios_power_delay_ms (w_ios w))
     })
   }"

definition mmc_power_off :: "unit io" where
  "mmc_power_off = do {
     w \<leftarrow> gets id;
     io_when (ios_power_mode (w_ios w) \<noteq> MMC_POWER_OFF) (do {
       mmc_pwrseq_power_off;
       modify (upd_ios (\<lambda>i. i\<lparr>ios_clock := 0, ios_vdd := 0, ios_power_mode := MMC_POWER_OFF\<rparr>));
       mmc_set_initial_state;
       mmc_delay 1
     })
   }"

definition mmc_power_cycle :: "u32 \<Rightarrow> unit io" where
  "mmc_power_cycle ocr = do { mmc_power_off; mmc_delay 1; mmc_power_up ocr }"

definition mmc_select_voltage :: "u32 \<Rightarrow> u32 io" where
  "mmc_select_voltage ocr = do {
     w \<leftarrow> gets id;
     let ocr = (if ocr AND 0x7F \<noteq> 0 then ocr AND NOT 0x7F else ocr);
     let ocr = ocr AND h_ocr_avail (w_host w);
     if ocr = 0 then ret 0
     else if MMC_CAP2_FULL_PWR_CYCLE \<in> h_caps2 (w_host w) then do {
       let b = ffs ocr - 1;
       let ocr = ocr AND push_bit b 3;
       mmc_power_cycle ocr;
       ret ocr
     }
     else do {
       let b = fls ocr - 1;
       ret (ocr AND push_bit b 3)
     }
   }"

end
