(* ===== verification/Card_Bus.thy ===== *)
theory Card_Bus
  imports Host_Ios
begin

text \<open>
  The card object's life as seen by the driver core (\<open>mmc/core/bus.c\<close>): allocation,
  registration and removal.  \<open>mmc_alloc_card\<close> clears the object; the device structure inside
  it, its name, its node in the device tree and the debugfs entries are not modelled.
\<close>

definition cid0 :: mmc_cid where
  "cid0 = \<lparr>cid_manfid = 0, cid_prod_name = replicate 8 0, cid_prv = 0, cid_serial = 0,
     cid_oemid = 0, cid_year = 0, cid_hwrev = 0, cid_fwrev = 0, cid_month = 0\<rparr>"

definition csd0 :: mmc_csd where
  "csd0 = \<lparr>csd_structure = 0, csd_mmca_vsn = 0, csd_cmdclass = 0, csd_taac_clks = 0,
     csd_taac_ns = 0, csd_c_size = 0, csd_r2w_factor = 0, csd_max_dtr = 0, csd_erase_size = 0,
     csd_read_blkbits = 0, csd_write_blkbits = 0, csd_capacity = 0, csd_read_partial = False,
     csd_read_misalign = False, csd_write_partial = False, csd_write_misalign = False,
     csd_dsr_imp = False\<rparr>"

definition ext_csd0 :: mmc_ext_csd where
  "ext_csd0 = \<lparr>raw_partition_support = 0, raw_erased_mem_count = 0, raw_ext_csd_structure = 0,
     raw_card_type = 0, raw_driver_strength = 0, raw_s_a_timeout = 0, raw_hc_erase_gap_size = 0,
     raw_erase_timeout_mult = 0, raw_hc_erase_grp_size = 0, raw_sec_trim_mult = 0,
     raw_sec_erase_mult = 0, raw_sec_feature_support = 0, raw_trim_mult = 0,
     raw_sectors = [0, 0, 0, 0], raw_pwr_cl_52_195 = 0, raw_pwr_cl_26_195 = 0,
     raw_pwr_cl_52_360 = 0, raw_pwr_cl_26_360 = 0, raw_pwr_cl_200_195 = 0,
     raw_pwr_cl_200_360 = 0, raw_pwr_cl_ddr_52_195 = 0, raw_pwr_cl_ddr_52_360 = 0,
     raw_pwr_cl_ddr_200_360 = 0, raw_bkops_status = 0, raw_exception_status = 0,
     raw_rpmb_size_mult = 0,
     ec_rev = 0, ec_erase_group_def = 0, ec_sec_feature_support = 0, ec_rel_sectors = 0,
     ec_rel_param = 0, ec_part_config = 0, ec_cache_ctrl = 0, ec_rst_n_function = 0,
     ec_max_packed_writes = 0, ec_max_packed_reads = 0, ec_part_time = 0, ec_sa_timeout = 0,
     ec_generic_cmd6_time = 0, ec_power_off_longtime = 0, ec_power_off_notification = 0,
     ec_hs_max_dtr = 0, ec_hs200_max_dtr = 0, ec_sectors = 0, ec_hc_erase_size = 0,
     ec_hc_erase_timeout = 0, ec_sec_trim_mult = 0, ec_sec_erase_mult = 0, ec_trim_timeout = 0,
     ec_partition_setting_completed = False, ec_enhanced_area_offset = 0,
     ec_enhanced_area_size = 0, ec_cache_size = 0, ec_hpi_en = False, ec_hpi = False,
     ec_hpi_cmd = 0, ec_out_of_int_time = 0, ec_bkops = False, ec_man_bkops_en = False,
     ec_auto_bkops_en = False, ec_data_sector_size = 0, ec_data_tag_unit_size = 0,
     ec_boot_ro_lock = 0, ec_boot_ro_lockable = False, ec_ffu_capable = False,
     ec_cmdq_en = False, ec_cmdq_support = False, ec_cmdq_depth = 0, ec_fwrev = replicate 8 0,
     ec_strobe_support = False, ec_pre_eol_info = 0, ec_device_life_time_est_typ_a = 0,
     ec_device_life_time_est_typ_b = 0, ec_discard_feature = False\<rparr>"

definition card0 :: mmc_card where
  "card0 = \<lparr>cd_ocr = 0, cd_rca = 0, cd_type = MMC_TYPE_MMC, cd_state = 0, cd_quirks = {},
     cd_quirk_max_rate = 0, cd_erase_size = 0, cd_erase_shift = 0, cd_pref_erase = 0,
     cd_eg_boundary = False, cd_erased_byte = 0, cd_raw_cid = [0, 0, 0, 0],
     cd_raw_csd = [0, 0, 0, 0], cd_raw_scr = [0, 0], cd_raw_ssr = replicate 16 0,
     cd_cid = cid0, cd_csd = csd0, cd_ext_csd = ext_csd0,
     cd_scr = \<lparr>scr_sda_vsn = 0, scr_sda_spec3 = 0, scr_bus_widths = 0, scr_cmds = 0\<rparr>,
     cd_ssr = \<lparr>ssr_au = 0, ssr_erase_timeout = 0, ssr_erase_offset = 0\<rparr>,
     cd_sw_caps = \<lparr>sw_hs_max_dtr = 0, sw_uhs_max_dtr = 0, sw_sd3_bus_mode = 0,
       sw_sd3_drv_type = 0, sw_sd3_curr_limit = 0\<rparr>, cd_sd_bus_speed = 0,
     cd_cis_vendor = 0, cd_cis_device = 0, cd_cis_blksize = 0, cd_cis_max_dtr = 0,
     cd_cccr = \<lparr>cc_sdio_vsn = 0, cc_multi_block = False, cc_low_speed = False,
       cc_wide_bus = False, cc_high_power = False, cc_high_speed = False\<rparr>,
     cd_sdio_funcs = 0, cd_sdio_func = replicate 7 None, cd_sdio_single_irq = None,
     cd_info = [], cd_tuples = [], cd_drive_strength = 0, cd_mmc_avail_type = 0,
     cd_parts = [], cd_reenable_cmdq = False\<rparr>"

definition mmc_alloc_card :: "int io" where
  "mmc_alloc_card = do {
     w \<leftarrow> gets id;
     emit (EvAlloc (kn_sizeof_card (w_kernel w))) 0;
     if \<not> kn_alloc (w_kernel w) (w_trace w) (kn_sizeof_card (w_kernel w)) then ret (- ENOMEM)
     else do { modify (\<lambda>w. w\<lparr>w_card := card0\<rparr>); ret 0 }
   }"

definition mmc_add_card :: "int io" where
  "mmc_add_card = do {
     w \<leftarrow> gets id;
     emit EvDeviceAdd 0;
     let err = kn_device_add (w_kernel w) (w_trace w);
     io_when (err = 0) (modify (upd_card (card_set_state MMC_STATE_PRESENT)));
     ret err
   }"

definition mmc_remove_card :: "unit io" where
  "mmc_remove_card = do {
     w \<leftarrow> gets id;
     io_when (h_cqe_enabled (w_host w)) (do {
       emit EvCqeDisable 0;
       modify (upd_host (\<lambda>h. h\<lparr>h_cqe_enabled := False\<rparr>))
     });
     io_when (card_state MMC_STATE_PRESENT (w_card w)) (emit EvDeviceDel 0);
     emit EvPutDevice 0
   }"

end
