(* ===== verification/Example_World.thy ===== *)
theory Example_World
  imports Card_Bus
begin

text \<open>
  A concrete card, controller and board, on which the properties with hypotheses are
  applied: the card object as \<open>mmc_alloc_card\<close> leaves it, a controller that answers every
  request with success and the status of an idle card, and a board whose events take a
  nanosecond each beyond their delays.
\<close>

text \<open>Status 0x900: ready for data, in the transfer state.\<close>

definition completion_ok :: mmc_completion where
  "completion_ok = \<lparr>cpl_cmd_error = 0, cpl_cmd_resp = [0x900, 0, 0, 0], cpl_sbc_error = 0,
     cpl_stop_error = 0, cpl_stop_resp = [0x900, 0, 0, 0], cpl_data_error = 0, cpl_bytes_xfered = 0, cpl_data = []\<rparr>"

definition ops_ok :: host_ops where
  "ops_ok = \<lparr>op_request = (\<lambda>_ _. completion_ok), op_card_busy = Some (\<lambda>_. False),
     op_start_signal_voltage_switch = None, op_execute_tuning = Some (\<lambda>_ _. 0),
     op_select_drive_strength = None, op_init_card = None, op_hs400_downgrade = False,
     op_hs400_complete = False, op_prepare_hs400_tuning = False,
     op_hs400_enhanced_strobe = False, op_hw_reset = False, op_cqe_enable = (\<lambda>_. 0),
     op_get_ro = None, op_get_cd = None, op_card_event = False, op_ack_sdio_irq = False,
     op_multi_io_quirk = None, op_pre_req = False, op_post_req = False,
     op_cqe_request = (\<lambda>_ _ _. 0), op_cqe_post_req = False, op_cqe_timeout = (\<lambda>_. (False, False)),
     op_cqe_wait_for_idle = (\<lambda>_. 0)\<rparr>"

definition kernel_ok :: mmc_kernel where
  "kernel_ok = \<lparr>kn_elapsed = (\<lambda>_ _. 0), kn_tick = 999999, kn_msecs_to_jiffies = unat,
     kn_alloc = (\<lambda>_ _. True), kn_sizeof_card = 2048,
     kn_sizeof_func = 1024, kn_sizeof_tuple = 16, kn_sizeof_ptr = 8, kn_device_add = (\<lambda>_. 0),
     kn_use_spi_crc = True, kn_can_wakeup = False, kn_retune_needed = (\<lambda>can need. can \<or> need),
     kn_broken_hpi = False, kn_uninit = 0, kn_func_add = (\<lambda>_. 0),
     kn_pm_result = (\<lambda>_ _. 0), kn_thread_run = (\<lambda>_. 0), kn_driver_pm = (\<lambda>_. True),
     kn_pm_domain = (\<lambda>_. 0), kn_driver_probe = (\<lambda>_. 0), kn_signal_pending = (\<lambda>_. True),
     kn_sdio_ids = \<lparr>SDIO_VENDOR_ID_TI = 0x97, SDIO_DEVICE_ID_TI_WL1271 = 0x4076,
       SDIO_VENDOR_ID_STE = 0x20, SDIO_DEVICE_ID_STE_CW1200 = 0x2280,
       SDIO_VENDOR_ID_MARVELL = 0x2DF, SDIO_DEVICE_ID_MARVELL_8797_F0 = 0x9128,
       SDIO_DEVICE_ID_MARVELL_8887WLAN = 0x9134\<rparr>, kn_hz = 250, kn_pwrseq = {POST_POWER_ON}\<rparr>"

definition ios_off :: mmc_ios where
  "ios_off = \<lparr>ios_clock = 0, ios_vdd = 0, ios_power_delay_ms = 10,
     ios_bus_mode = MMC_BUSMODE_PUSHPULL, ios_chip_select = MMC_CS_DONTCARE,
     ios_power_mode = MMC_POWER_OFF, ios_bus_width = 0, ios_timing = MMC_TIMING_LEGACY,
     ios_signal_voltage = MMC_SIGNAL_VOLTAGE_330, ios_drv_type = 0,
     ios_enhanced_strobe = False\<rparr>"

definition host_ok :: mmc_host where
  "host_ok = \<lparr>h_ops = ops_ok,
     h_caps = {MMC_CAP_MMC_HIGHSPEED, MMC_CAP_4_BIT_DATA, MMC_CAP_8_BIT_DATA, MMC_CAP_1_8V_DDR},
     h_caps2 = {MMC_CAP2_HS200_1_8V_SDR, MMC_CAP2_FULL_PWR_CYCLE}, h_f_min = 400000,
     h_f_max = 200000000, h_f_init = 400000, h_ocr_avail = 0x00FF8000, h_max_blk_size = 512,
     h_max_blk_count = 65535, h_max_req_size = 524288, h_max_seg_size = 65536,
     h_max_busy_timeout = 1000, h_ios = ios_off, h_use_spi_crc = False, h_can_retune = False,
     h_doing_retune = False, h_retune_now = False, h_retune_paused = False,
     h_need_retune = False, h_hold_retune = 0, h_retune_period = 0, h_retune_timer = None,
     h_fixed_drv_type = - 1, h_dsr_req = False, h_dsr = 0, h_cqe_on = False,
     h_cqe_enabled = False, h_card = True, h_ocr_avail_sd = 0,
     h_ocr_avail_mmc = 0, h_ocr_avail_sdio = 0, h_max_current_330 = 0, h_max_current_300 = 0, h_max_current_180 = 0,
     h_bus_ops = Some MMC_OPS, h_bus_refs = 1, h_bus_dead = False, h_detect_change = False,
     h_rescan_disable = False, h_rescan_entered = False, h_trigger_card_event = False,
     h_pm_caps = 0, h_pm_flags = 0, h_sdio_irqs = 0, h_sdio_irq_pending = False, h_cd_irq = - 1, h_actual_clock = 0,
     h_max_segs = 1, h_cqe_qdepth = 0\<rparr>"

definition world_ok :: mmc_world where
  "world_ok = \<lparr>w_kernel = kernel_ok, w_host = host_ok, w_card = card0, w_trace = [],
     w_now = 0\<rparr>"

lemmas world_defs = world_ok_def host_ok_def kernel_ok_def ops_ok_def completion_ok_def
  ios_off_def card0_def csd0_def cid0_def ext_csd0_def

end
