(* ===== verification/Register_Properties.thy ===== *)
theory Register_Properties
  imports Ext_Csd_Facts Ocr Example_World
begin

text \<open>
  The properties of the pure decoders: fields of the 128-bit registers, CSD and CID,
  EXT_CSD, the voltage windows of the OCR, and the quirk tables.
\<close>

section \<open>Registers of 128 bits\<close>

text \<open>
  \<open>UNSTUFF_BITS\<close> reads the field of \<open>sz\<close> bits at bit \<open>start\<close> of the register that the
  four words hold, most significant word first, also where the field crosses words.
\<close>

theorem UNSTUFF_BITS_field:
  assumes "sz \<le> 32" and "start + sz \<le> 128"
  shows "unat (UNSTUFF_BITS resp start sz) = unat (reg128 resp) div 2 ^ start mod 2 ^ sz"
  using assms by (rule unat_UNSTUFF_BITS)

lemma UNSTUFF_BITS_field_witness:
  "unat (UNSTUFF_BITS [1, 2, 3, 0x80000000] 31 5) = unat (reg128 [1, 2, 3, 0x80000000]) div 2 ^ 31 mod 2 ^ 5"
  by (rule UNSTUFF_BITS_field) simp_all


lemma ucast_of_nat_small:
  assumes "n < 2 ^ LENGTH('b)" and "n < 2 ^ LENGTH('a)"
  shows "(ucast (of_nat n :: 'a::len word) :: 'b::len word) = of_nat n"
proof -
  have "unat (of_nat n :: 'a word) = n"
    using assms(2) by (simp add: unat_of_nat)
  with assms show ?thesis
    by (metis of_nat_unat unat_ucast_small word_of_nat_eq_iff unsigned_of_nat)
qed

lemma ucast_back:
  "LENGTH('a) \<le> LENGTH('b) \<Longrightarrow> (ucast (ucast (w :: 'a::len word) :: 'b::len word) :: 'a word) = w"
  by (rule bit_word_eqI) (simp add: bit_simps)

text \<open>
  Decoding the CID of a card of version 2 to 4 gives back every field that the register
  was packed from, with the year counted from 1997.
\<close>

lemma mmc_cid_roundtrip:
  fixes month year :: nat
  assumes "csd_mmca_vsn (cd_csd mc) \<in> {2, 3, 4}" and "month < 16" and "year < 16"
    and "length (cid_prod_name (cd_cid mc)) = 8"
    and "cd_raw_cid mc =
      words_of (pack (mmc_cid_image mid oid p0 p1 p2 p3 p4 p5 prv serial month year crc))"
  shows "\<exists>mc'. mmc_decode_cid mc = (0, mc') \<and> cd_cid mc' = (cd_cid mc)\<lparr>cid_manfid := ucast mid,
      cid_oemid := oid, cid_prod_name := [p0, p1, p2, p3, p4, p5] @ drop 6 (cid_prod_name (cd_cid mc)),
      cid_prv := prv, cid_serial := serial, cid_month := of_nat month,
      cid_year := of_nat (year + 1997)\<rparr>"
proof -
  obtain a0 a1 a2 a3 a4 a5 a6 a7 where name: "cid_prod_name (cd_cid mc) = [a0, a1, a2, a3, a4, a5, a6, a7]"
    using assms(4) by (auto simp: length_Suc_conv numeral_eq_Suc)
  note read = mmc_cid_image_read [of mid oid p0 p1 p2 p3 p4 p5 prv serial month year crc]
  have year: "of_nat year + 1997 = (of_nat (year + 1997) :: u32)" by simp
  have small: "(ucast (of_nat month :: u32) :: u8) = of_nat month"
    "ucast (of_nat (year + 1997) :: u32) = (of_nat (year + 1997) :: u16)"
    using assms(2,3) by (simp_all del: of_nat_add add: ucast_of_nat_small)
  show ?thesis
    using assms(1,2,3)
    by (auto simp: mmc_decode_cid_def Let_def assms(5) read name year small ucast_back simp del: of_nat_add)
qed

text \<open>
  For an SD card with a version 2 CSD \<open>mmc_decode_csd_sd\<close> succeeds, switches to block
  addressing with one-sector erases, computes the capacity in sectors of 1024 times the size
  field plus one, modulo the 32 bits of the field, and marks the card SDXC from 65536 units.
\<close>

lemma sd_csd_v2_capacity:
  assumes "rfield (cd_raw_csd mc) 126 2 = 1"
  shows "\<exists>mc'. mmc_decode_csd_sd mc = (0, mc') \<and> mmc_card_blockaddr mc' \<and>
    cd_erase_size mc' = 1 \<and>
    unat (csd_capacity (cd_csd mc')) = (rfield (cd_raw_csd mc) 48 22 + 1) * 1024 mod 2 ^ 32 \<and>
    (card_state MMC_CARD_SDXC mc' \<longleftrightarrow>
      card_state MMC_CARD_SDXC mc \<or> 65535 \<le> rfield (cd_raw_csd mc) 48 22)"
proof -
  let ?U = "UNSTUFF_BITS (cd_raw_csd mc)"
  have s: "?U 126 2 = 1" using assms by (simp add: word_unat_eq_iff unat_U)
  have c: "65535 \<le> ?U 48 22 \<longleftrightarrow> 65535 \<le> rfield (cd_raw_csd mc) 48 22"
    by (simp add: word_le_nat_alt unat_U)
  have "unat (1 + ?U 48 22) = rfield (cd_raw_csd mc) 48 22 + 1"
    using rfield_less [of "cd_raw_csd mc" 48 22] by (simp add: unat_add_small unat_U)
  moreover have "unat (push_bit 10 x) = unat x * 1024 mod 2 ^ 32" for x :: u32
    by (simp add: unsigned_push_bit_eq push_bit_eq_mult [where 'a = nat] take_bit_eq_mod)
  ultimately have cap: "unat (push_bit 10 (1 + ?U 48 22)) = (rfield (cd_raw_csd mc) 48 22 + 1) * 1024 mod 2 ^ 32"
    by simp
  have st: "(x OR 4) AND 4 \<noteq> 0" "(x OR 4) AND 8 = x AND 8" "((x OR 4) OR 8) AND 4 \<noteq> 0"
    "((x OR 4) OR 8) AND 8 \<noteq> 0" for x :: u32
    by (simp_all add: bit.conj_disj_distrib2 or_eq_0_iff)
  show ?thesis
    by (auto simp: mmc_decode_csd_sd_def Let_def s c cap sd_csd_v2_def card_set_state_def
        card_state_def st)
qed

section \<open>The extended CSD\<close>

text \<open>
  C22: \<open>mmc_select_card_type\<close> makes a speed mode available exactly if the card's type byte
  offers it and the host supports it (HS400 with enhanced strobe, bit 8, needs strobe support
  and an available HS400 mode), and sets the two maximum rates to those of the fastest
  available high speed and HS200 modes, 0 for none.
\<close>

theorem mmc_select_card_type_correct:
  "(\<forall>n. bit (cd_mmc_avail_type (mmc_select_card_type h mc)) n =
     (if n = 8 then MMC_CAP2_HS400_ES \<in> h_caps2 h \<and> ec_strobe_support (cd_ext_csd mc)
         \<and> (\<exists>m \<in> {6, 7}. host_card_type h m \<and> bit (raw_card_type (cd_ext_csd mc)) m)
      else n < 8 \<and> host_card_type h n \<and> bit (raw_card_type (cd_ext_csd mc)) n)) \<and>
   ec_hs200_max_dtr (cd_ext_csd (mmc_select_card_type h mc)) =
     (if \<exists>n \<in> {4, 5, 6, 7}. host_card_type h n \<and> bit (raw_card_type (cd_ext_csd mc)) n
      then MMC_HS200_MAX_DTR else 0) \<and>
   ec_hs_max_dtr (cd_ext_csd (mmc_select_card_type h mc)) =
     (if \<exists>n \<in> {1, 2, 3}. host_card_type h n \<and> bit (raw_card_type (cd_ext_csd mc)) n
      then MMC_HIGH_52_MAX_DTR
      else if host_card_type h 0 \<and> bit (raw_card_type (cd_ext_csd mc)) 0
      then MMC_HIGH_26_MAX_DTR else 0)"
  by (intro conjI allI avail_bit) (simp_all add: select_card_type_dtr)

lemma subseq_distinct_set:
  "subseq xs ys \<Longrightarrow> set xs \<subseteq> set ys \<and> length xs \<le> length ys \<and> (distinct ys \<longrightarrow> distinct xs)"
  by (induction rule: list_emb.induct) auto

text \<open>
  Decoding the register of a card without partitions registers each physical partition at
  most once: the configuration values are distinct, none is 0 (the user area), and there are
  at most the seven that the array \<open>part\<close> holds.
\<close>

lemma decode_partitions_distinct:
  assumes "cd_parts mc = []"
  shows "distinct (part_cfgs (snd (mmc_decode_ext_csd k h e mc))) \<and>
    set (part_cfgs (snd (mmc_decode_ext_csd k h e mc))) \<subseteq> {1 .. 7} \<and>
    length (cd_parts (snd (mmc_decode_ext_csd k h e mc))) \<le> 7"
proof -
  obtain l where l: "part_cfgs (snd (mmc_decode_ext_csd k h e mc)) = l"
    and sub: "subseq l [1, 2, 4, 5, 6, 7, 3]"
    using decode_ext_csd_cfgs [of k h e mc] assms by auto
  have "distinct l" "set l \<subseteq> {1, 2, 4, 5, 6, 7, 3}" "length l \<le> 7"
    using subseq_distinct_set [OF sub] by simp_all
  moreover have "{1, 2, 4, 5, 6, 7, 3} \<subseteq> {1 .. 7 :: u32}" by (simp add: word_le_nat_alt)
  moreover have "length (cd_parts (snd (mmc_decode_ext_csd k h e mc))) = length l"
    by (simp flip: l)
  ultimately show ?thesis unfolding l by auto
qed

text \<open>
  C14: after a successful decoding of \<open>e\<close> at revision 4 or later, the comparison that follows a
  change of the bus width accepts a second image exactly if it agrees with the first in the
  26 read-only bytes, so any garbled read of one of them is noticed.
\<close>

theorem compare_after_decode:
  assumes "fst (mmc_decode_ext_csd k h e mc) = 0" and "4 \<le> e ! 192"
  shows "ext_csds_match (cd_ext_csd (snd (mmc_decode_ext_csd k h e mc))) e' \<longleftrightarrow>
    (\<forall>i \<in> set ro_offsets. e' ! i = e ! i)"
  by (simp only: ext_csds_match_view decode_ro_view [OF assms] map_eq_conv)
    (auto simp: eq_commute)

lemma compare_after_decode_witness:
  "\<not> ext_csds_match (cd_ext_csd (snd (mmc_decode_ext_csd kernel_ok host_ok (replicate 512 5) card0)))
    ((replicate 512 5)[196 := 7])"
proof -
  have "fst (mmc_decode_ext_csd kernel_ok host_ok (replicate 512 5) card0) = 0"
    by (simp add: mmc_decode_ext_csd_def card0_def csd0_def)
  from compare_after_decode [OF this, of "(replicate 512 5)[196 := 7]"]
  show ?thesis by (simp add: ro_offsets_def)
qed

text \<open>
  From revision 2 on the sector count is the little-endian number in bytes 212 to 215, and
  the card is addressed in blocks exactly if it was before or has more than 2 GiB.
\<close>

lemma decode_sectors_correct:
  assumes "fst (mmc_decode_ext_csd k h e mc) = 0" and "2 \<le> e ! 192"
    and "mc' = snd (mmc_decode_ext_csd k h e mc)"
  shows "unat (ec_sectors (cd_ext_csd mc')) = unat (e ! 212) + 256 * unat (e ! 213)
      + 65536 * unat (e ! 214) + 16777216 * unat (e ! 215)
    \<and> (mmc_card_blockaddr mc' \<longleftrightarrow>
      mmc_card_blockaddr mc \<or> 2 * 1024 * 1024 * 1024 < 512 * unat (ec_sectors (cd_ext_csd mc')))"
  using decode_sectors [OF assms(1,2)] unfolding assms(3) by auto

lemma decode_sectors_correct_witness:
  "mmc_card_blockaddr (snd (mmc_decode_ext_csd kernel_ok host_ok (replicate 512 5) card0))"
proof -
  have "fst (mmc_decode_ext_csd kernel_ok host_ok (replicate 512 5) card0) = 0"
    by (simp add: mmc_decode_ext_csd_def card0_def csd0_def)
  from decode_sectors_correct [OF this _ refl] show ?thesis by simp
qed

text \<open>
  High priority interrupts are enabled exactly from revision 5 on for a card that
  announces them, unless it is one of the two kinds of the quirk table \<open>mmc_ext_csd_fixups\<close>,
  carries the quirk already, or the device tree says that they are broken.
\<close>

theorem decode_hpi_correct:
  assumes "fst (mmc_decode_ext_csd k h e mc) = 0" and "\<not> ec_hpi (cd_ext_csd mc)"
  shows "ec_hpi (cd_ext_csd (snd (mmc_decode_ext_csd k h e mc))) \<longleftrightarrow>
    5 \<le> e ! 192 \<and> e ! 503 AND 1 \<noteq> 0 \<and> \<not> kn_broken_hpi k
      \<and> MMC_QUIRK_BROKEN_HPI \<notin> cd_quirks mc
      \<and> \<not> (cid_manfid (cd_cid mc) = 0x90 \<and> cid_oemid (cd_cid mc) = 0x14A \<and> e ! 192 = 5)
      \<and> \<not> (cid_manfid (cd_cid mc) = 0xFE \<and> cid_oemid (cd_cid mc) = 0x14E \<and> e ! 192 = 6)"
  using decode_hpi [OF assms(1)] assms(2) by (auto simp: broken_hpi_card_def)

lemma decode_hpi_correct_witness:
  "ec_hpi (cd_ext_csd (snd (mmc_decode_ext_csd kernel_ok host_ok (replicate 512 5) card0)))"
proof -
  have "fst (mmc_decode_ext_csd kernel_ok host_ok (replicate 512 5) card0) = 0"
    by (simp add: mmc_decode_ext_csd_def card0_def csd0_def)
  from decode_hpi_correct [OF this] show ?thesis
    by (simp add: card0_def ext_csd0_def cid0_def kernel_ok_def)
qed

section \<open>Voltage windows\<close>

text \<open>
  \<open>mmc_vddrange_to_ocrmask\<close> sets exactly the bits 7 to 23 whose voltage window meets the
  range, for a range of millivolts within 1650 and 3600, and none for any other.
\<close>

theorem vddrange_to_ocrmask_bits:
  "bit (mmc_vddrange_to_ocrmask lo hi) n \<longleftrightarrow>
    lo \<le> hi \<and> 1650 \<le> lo \<and> hi \<le> 3600 \<and> n \<in> {7 .. 23} \<and> lo \<le> ocr_high n \<and> ocr_low n \<le> hi"
  by (simp add: bit_vddrange_to_ocrmask)

text \<open>
  The window that \<open>mmc_ocrbitnum_to_vdd\<close> gives for the bit of a voltage contains that
  voltage, whichever way the bit is rounded, for every voltage from 1650 to 1950 mV and from
  2000 to 3600 mV.
\<close>

theorem ocrbitnum_to_vdd_window:
  assumes "1650 \<le> v" and "v \<le> 1950 \<or> 2000 \<le> v" and "v \<le> 3600"
  shows "\<exists>min_uV max_uV. mmc_ocrbitnum_to_vdd (mmc_vdd_to_ocrbitnum v low) = Inr (min_uV, max_uV)
    \<and> min_uV \<le> v * 1000 \<and> v * 1000 \<le> max_uV"
proof (cases "v \<le> 1950")
  case True
  with assms show ?thesis by (simp add: mmc_vdd_to_ocrbitnum_def mmc_ocrbitnum_to_vdd_def)
next
  case False
  define u where "u = (if low then v - 1 else v) - 2000"
  have u: "v - 2000 - 1 \<le> u" "u \<le> v - 2000" "- 1 \<le> u" using assms False by (auto simp: u_def)
  define b where "b = (if u sdiv 100 + 8 > 23 then 23 else u sdiv 100 + 8)"
  have n: "mmc_vdd_to_ocrbitnum v low = b"
    using assms False by (auto simp: mmc_vdd_to_ocrbitnum_def Let_def u_def b_def)
  have "0 \<le> u sdiv 100" "u sdiv 100 * 100 \<le> max u 0" "u < u sdiv 100 * 100 + 100"
    using u by (auto simp: sdiv_100)
  moreover have "u \<noteq> - 1 \<or> v = 2000" "low \<or> u = v - 2000" "\<not> low \<or> u = v - 2001"
    using assms False by (auto simp: u_def)
  ultimately have "8 \<le> b" "2000 + (b - 8) * 100 \<le> v" "v \<le> 2100 + (b - 8) * 100"
    using u assms unfolding b_def by (auto split: if_splits)
  then show ?thesis
    unfolding n by (simp add: mmc_ocrbitnum_to_vdd_def Let_def)
qed

lemma ocrbitnum_to_vdd_window_witness:
  "\<exists>min_uV max_uV. mmc_ocrbitnum_to_vdd (mmc_vdd_to_ocrbitnum 3300 True) = Inr (min_uV, max_uV)
    \<and> min_uV \<le> 3300 * 1000 \<and> 3300 * 1000 \<le> max_uV"
  by (rule ocrbitnum_to_vdd_window) simp_all

text \<open>
  Parsing the property \<open>voltage-ranges\<close> reports success only if every pair is a valid
  range, and then adds to the mask exactly the windows of the ranges; a property that is
  missing leaves the mask alone.
\<close>

lemma of_parse_voltage_correct:
  assumes "mmc_of_parse_voltage np msk = (r, msk')"
  shows "(np = None \<longrightarrow> r = 0 \<and> msk' = msk) \<and>
    (r = 1 \<longrightarrow> (\<exists>ranges. np = Some ranges \<and> ocr_ranges ranges \<noteq> [] \<and>
      (\<forall>(lo, hi) \<in> set (ocr_ranges ranges). mmc_vddrange_to_ocrmask lo hi \<noteq> 0) \<and>
      (\<forall>n. bit msk' n \<longleftrightarrow> bit msk n \<or>
        (\<exists>(lo, hi) \<in> set (ocr_ranges ranges). bit (mmc_vddrange_to_ocrmask lo hi) n))))"
proof -
  have ne: "ocr_ranges ranges \<noteq> []" if "length ranges div 2 \<noteq> 0" for ranges
    using that by (cases ranges rule: ocr_ranges.cases) auto
  have valid: "of_voltage_loop ranges m = (1, m') \<Longrightarrow>
      \<forall>(lo, hi) \<in> set (ocr_ranges ranges). mmc_vddrange_to_ocrmask lo hi \<noteq> 0" for ranges m m'
    by (induction ranges m rule: of_voltage_loop.induct) (auto simp: Let_def split: if_splits)
  show ?thesis
  proof (cases np)
    case None
    with assms show ?thesis by (simp add: mmc_of_parse_voltage_def)
  next
    case (Some ranges)
    have "ocr_ranges ranges \<noteq> [] \<and> of_voltage_loop ranges msk = (1, msk')" if "r = 1"
      using assms that Some ne [of ranges] by (auto simp: mmc_of_parse_voltage_def split: if_splits)
    then show ?thesis using Some valid of_voltage_loop_ok by fastforce
  qed
qed

lemma of_parse_voltage_correct_witness:
  "bit (snd (mmc_of_parse_voltage (Some [3200, 3400]) 0)) 20"
proof -
  have "mmc_vddrange_to_ocrmask 3200 3400 \<noteq> 0"
    using bit_vddrange_to_ocrmask [of 3200 3400 20]
    by (auto simp: ocr_low_def ocr_high_def)
  then obtain m where run: "mmc_of_parse_voltage (Some [3200, 3400]) 0 = (1, m)"
    by (simp add: mmc_of_parse_voltage_def Let_def)
  with of_parse_voltage_correct [OF run] show ?thesis
    by (simp add: bit_vddrange_to_ocrmask ocr_low_def ocr_high_def)
qed

section \<open>Quirks\<close>





end
