(* ===== verification/Host_Claim.thy ===== *)
theory Host_Claim
  imports Mmc_Prelude
begin

text \<open>
  Claiming the host (\<open>__mmc_claim_host\<close>, \<open>mmc_release_host\<close> and their helpers in
  \<open>mmc/core/core.c\<close>).  What the code does while it holds the spin lock is one step.  A
  claim that has to wait makes no step: \<open>__mmc_claim_host\<close> then returns None, and the
  caller tries again when it is woken up.
\<close>

datatype mmc_ctx = Default_ctx | Ctx nat

record claim_state =
  cs_claimed :: bool
  cs_claimer :: "mmc_ctx option"
  cs_claim_cnt :: nat
  cs_ctx_task :: "mmc_ctx \<Rightarrow> nat option"
  cs_pm_usage :: int

definition mmc_ctx_matches :: "claim_state \<Rightarrow> mmc_ctx option \<Rightarrow> nat option \<Rightarrow> bool" where
  "mmc_ctx_matches s ctx task \<longleftrightarrow>
    cs_claimer s = ctx \<or>
    ctx = None \<and> task \<noteq> None \<and>
      (case cs_claimer s of None \<Rightarrow> False | Some c \<Rightarrow> cs_ctx_task s c = task)"

definition mmc_ctx_set_claimer :: "mmc_ctx option \<Rightarrow> nat option \<Rightarrow> claim_state \<Rightarrow> claim_state" where
  "mmc_ctx_set_claimer ctx task s =
    (let c = (case cs_claimer s of Some c \<Rightarrow> c
              | None \<Rightarrow> (case ctx of Some c \<Rightarrow> c | None \<Rightarrow> Default_ctx));
         s = s\<lparr>cs_claimer := Some c\<rparr>
     in if task \<noteq> None then s\<lparr>cs_ctx_task := (cs_ctx_task s)(c := task)\<rparr> else s)"

text \<open>
  \<open>abort\<close> is the value of the abort flag at the attempt, 0 when there is none.  The first
  claim takes a runtime-PM reference.
\<close>

definition mmc_claim_host ::
  "nat \<Rightarrow> mmc_ctx option \<Rightarrow> int \<Rightarrow> claim_state \<Rightarrow> (int \<times> claim_state) option" where
  "mmc_claim_host current ctx abort s =
    (let task = (if ctx \<noteq> None then None else Some current); stop = abort in
     if stop \<noteq> 0 \<or> \<not> cs_claimed s \<or> mmc_ctx_matches s ctx task then
       if stop = 0 then
         (let s = mmc_ctx_set_claimer ctx task (s\<lparr>cs_claimed := True\<rparr>);
              s = s\<lparr>cs_claim_cnt := cs_claim_cnt s + 1\<rparr>
          in Some (0, if cs_claim_cnt s = 1 then s\<lparr>cs_pm_usage := cs_pm_usage s + 1\<rparr> else s))
       else Some (stop, s)
     else None)"

definition mmc_release_host :: "claim_state \<Rightarrow> claim_state" where
  "mmc_release_host s =
    (let s = s\<lparr>cs_claim_cnt := cs_claim_cnt s - 1\<rparr> in
     if cs_claim_cnt s \<noteq> 0 then s
     else
       (case cs_claimer s of
          None \<Rightarrow> s
        | Some c \<Rightarrow> s\<lparr>cs_claimed := False, cs_ctx_task := (cs_ctx_task s)(c := None),
            cs_claimer := None, cs_pm_usage := cs_pm_usage s - 1\<rparr>))"

section \<open>Reentrant locks\<close>

text \<open>
  The runs of a lock: a configuration is the state of the lock and the list of those that
  hold it, once per nested claim.  Whoever holds the lock may release it.
\<close>

inductive lock_reach ::
  "('k \<Rightarrow> 's \<Rightarrow> 's option) \<Rightarrow> ('s \<Rightarrow> 's) \<Rightarrow> 's \<Rightarrow> 's \<Rightarrow> 'k list \<Rightarrow> bool"
  for acquire release init where
  start: "lock_reach acquire release init init []"
| acquired: "lock_reach acquire release init s hs \<Longrightarrow> acquire k s = Some s' \<Longrightarrow>
    lock_reach acquire release init s' (k # hs)"
| released: "lock_reach acquire release init s hs \<Longrightarrow> k \<in> set hs \<Longrightarrow>
    lock_reach acquire release init (release s) (remove1 k hs)"

inductive_cases lock_reachE: "lock_reach acquire release init s hs"

locale reentrant_lock =
  fixes inv :: "'s \<Rightarrow> bool" and owner :: "'s \<Rightarrow> 'k option" and depth :: "'s \<Rightarrow> nat"
    and acquire :: "'k \<Rightarrow> 's \<Rightarrow> 's option" and release :: "'s \<Rightarrow> 's" and init :: 's
  assumes init: "inv init" "depth init = 0"
    and depth_owner: "inv s \<Longrightarrow> depth s = 0 \<longleftrightarrow> owner s = None"
    and acquire_iff: "inv s \<Longrightarrow> acquire k s = None \<longleftrightarrow> owner s \<noteq> None \<and> owner s \<noteq> Some k"
    and acquire_ok: "inv s \<Longrightarrow> acquire k s = Some s' \<Longrightarrow>
      inv s' \<and> owner s' = Some k \<and> depth s' = Suc (depth s)"
    and release_ok: "inv s \<Longrightarrow> owner s = Some k \<Longrightarrow>
      inv (release s) \<and> depth (release s) = depth s - 1
      \<and> (depth s \<noteq> 1 \<longrightarrow> owner (release s) = owner s)"
begin

lemma reach_inv:
  "lock_reach acquire release init s hs \<Longrightarrow>
    inv s \<and> depth s = length hs \<and> (\<forall>k \<in> set hs. owner s = Some k)"
proof (induction rule: lock_reach.induct)
  case start
  then show ?case by (simp add: init)
next
  case (acquired s hs k s')
  then have inv: "inv s" and d: "depth s = length hs" and own: "\<forall>k \<in> set hs. owner s = Some k"
    by auto
  from acquired(2) have "acquire k s \<noteq> None" by simp
  with inv have free: "owner s = None \<or> owner s = Some k"
    using acquire_iff [of s k] by simp
  have "hs = []" if "owner s = None"
  proof -
    have "depth s = 0" using depth_owner [OF inv] that by blast
    with d show ?thesis by simp
  qed
  then have same: "\<forall>k' \<in> set hs. k' = k" using own free by fastforce
  have "inv s'" "owner s' = Some k" "depth s' = Suc (depth s)"
    using acquire_ok [OF inv acquired(2)] by blast+
  then show ?case using same d by simp
next
  case (released s hs k)
  then have inv: "inv s" and d: "depth s = length hs" and own: "\<forall>k \<in> set hs. owner s = Some k"
    by auto
  from own released(2) have k: "owner s = Some k" by blast
  have len: "length (remove1 k hs) = length hs - 1" using released(2) by (simp add: length_remove1)
  have rel: "inv (release s)" "depth (release s) = depth s - 1"
    "depth s \<noteq> 1 \<Longrightarrow> owner (release s) = owner s"
    using release_ok [OF inv k] by blast+
  have "\<forall>k' \<in> set (remove1 k hs). owner (release s) = Some k'"
  proof (cases "depth s = 1")
    case True
    with d released(2) have "hs = [k]" by (cases hs) auto
    then show ?thesis by simp
  next
    case False
    then show ?thesis using rel(3) own set_remove1_subset [of k hs] by auto
  qed
  then show ?case using rel d len by simp
qed

lemma mutual_exclusion:
  assumes "lock_reach acquire release init s hs" "k \<in> set hs" "k' \<in> set hs"
  shows "k = k'"
proof -
  have "owner s = Some k" "owner s = Some k'" using reach_inv [OF assms(1)] assms by blast+
  then show ?thesis by simp
qed

lemma free_again:
  assumes "lock_reach acquire release init s []"
  shows "acquire k s \<noteq> None"
proof -
  have "inv s" "depth s = 0" using reach_inv [OF assms] by auto
  then show ?thesis using depth_owner [of s] acquire_iff [of s k] by simp
qed

lemma holder_not_blocked:
  assumes "lock_reach acquire release init s hs" "k \<in> set hs"
  shows "acquire k s \<noteq> None"
proof -
  have "inv s" "owner s = Some k" using reach_inv [OF assms(1)] assms(2) by auto
  then show ?thesis using acquire_iff [of s k] by simp
qed

end

section \<open>The host claim is a reentrant lock\<close>

text \<open>
  Who claims: a context of a block queue, or a task when no context is given.  The
  contexts that clients pass are never the host's own default context.
\<close>

definition claim_as :: "nat + nat \<Rightarrow> claim_state \<Rightarrow> claim_state option" where
  "claim_as k s = map_option snd
    (case k of Inl c \<Rightarrow> mmc_claim_host 0 (Some (Ctx c)) 0 s | Inr t \<Rightarrow> mmc_claim_host t None 0 s)"

definition claim_owner :: "claim_state \<Rightarrow> (nat + nat) option" where
  "claim_owner s =
    (case cs_claimer s of
       None \<Rightarrow> None
     | Some (Ctx c) \<Rightarrow> Some (Inl c)
     | Some Default_ctx \<Rightarrow> map_option Inr (cs_ctx_task s Default_ctx))"

definition claim_inv :: "claim_state \<Rightarrow> bool" where
  "claim_inv s \<longleftrightarrow>
    (cs_claimed s \<longleftrightarrow> cs_claimer s \<noteq> None) \<and> (cs_claimed s \<longleftrightarrow> cs_claim_cnt s \<noteq> 0) \<and>
    (\<forall>c. cs_ctx_task s (Ctx c) = None) \<and>
    (cs_ctx_task s Default_ctx \<noteq> None \<longleftrightarrow> cs_claimer s = Some Default_ctx) \<and>
    cs_pm_usage s = (if cs_claimed s then 1 else 0)"

definition claim_init :: claim_state where
  "claim_init = \<lparr>cs_claimed = False, cs_claimer = None, cs_claim_cnt = 0,
     cs_ctx_task = (\<lambda>_. None), cs_pm_usage = 0\<rparr>"

lemmas claim_defs = claim_as_def claim_owner_def claim_inv_def mmc_claim_host_def
  mmc_ctx_matches_def mmc_ctx_set_claimer_def mmc_release_host_def Let_def

interpretation host_lock: reentrant_lock claim_inv claim_owner cs_claim_cnt claim_as
    mmc_release_host claim_init
proof unfold_locales
  show "claim_inv claim_init" "cs_claim_cnt claim_init = 0"
    by (simp_all add: claim_init_def claim_inv_def)
next
  fix s assume "claim_inv s"
  then show "cs_claim_cnt s = 0 \<longleftrightarrow> claim_owner s = None"
    by (auto simp: claim_inv_def claim_owner_def split: option.splits mmc_ctx.splits)
next
  fix s k assume "claim_inv s"
  then show "claim_as k s = None \<longleftrightarrow> claim_owner s \<noteq> None \<and> claim_owner s \<noteq> Some k"
    by (cases k) (auto simp: claim_defs split: option.splits mmc_ctx.splits if_splits)
next
  fix s k s' assume "claim_inv s" "claim_as k s = Some s'"
  then show "claim_inv s' \<and> claim_owner s' = Some k \<and> cs_claim_cnt s' = Suc (cs_claim_cnt s)"
    by (cases k) (auto simp: claim_defs split: option.splits mmc_ctx.splits if_splits)
next
  fix s k assume "claim_inv s" "claim_owner s = Some k"
  then show "claim_inv (mmc_release_host s) \<and>
      cs_claim_cnt (mmc_release_host s) = cs_claim_cnt s - 1 \<and>
      (cs_claim_cnt s \<noteq> 1 \<longrightarrow> claim_owner (mmc_release_host s) = claim_owner s)"
    by (auto simp: claim_defs split: option.splits mmc_ctx.splits if_splits)
qed

end
