(* ===== verification/Host_Ios_Facts.thy ===== *)
theory Host_Ios_Facts
  imports Host_Ios
begin

text \<open>
  What every operation on the host keeps: the board, the trace and the clock only grow
  (\<open>evolves\<close>); the holds of re-tuning are balanced (\<open>holds_balanced\<close>); the clock stays
  gated while the power comes up (\<open>clock_kept\<close>).
\<close>

section \<open>The world evolves\<close>

definition same_board :: "mmc_world \<Rightarrow> mmc_world \<Rightarrow> bool" where
  "same_board w v \<longleftrightarrow> w_kernel v = w_kernel w \<and> w_ops v = w_ops w \<and>
    h_caps (w_host v) = h_caps (w_host w) \<and> h_caps2 (w_host v) = h_caps2 (w_host w) \<and>
    h_f_min (w_host v) = h_f_min (w_host w) \<and> h_f_max (w_host v) = h_f_max (w_host w) \<and>
    h_f_init (w_host v) = h_f_init (w_host w) \<and>
    h_ocr_avail (w_host v) = h_ocr_avail (w_host w) \<and>
    h_max_blk_size (w_host v) = h_max_blk_size (w_host w) \<and>
    h_max_blk_count (w_host v) = h_max_blk_count (w_host w) \<and>
    h_max_req_size (w_host v) = h_max_req_size (w_host w) \<and>
    h_max_busy_timeout (w_host v) = h_max_busy_timeout (w_host w) \<and>
    h_retune_period (w_host v) = h_retune_period (w_host w) \<and>
    ios_power_delay_ms (w_ios v) = ios_power_delay_ms (w_ios w)"

text \<open>At least one nanosecond passes for each event.\<close>

definition evolves :: "mmc_world \<Rightarrow> mmc_world \<Rightarrow> bool" where
  "evolves w v \<longleftrightarrow> same_board w v \<and>
    (\<exists>evs. w_trace v = w_trace w @ evs \<and> w_now w + length evs \<le> w_now v)"

lemma same_board_refl [simp]: "same_board w w"
  by (simp add: same_board_def)

lemma same_board_trans: "same_board w v \<Longrightarrow> same_board v u \<Longrightarrow> same_board w u"
  by (simp add: same_board_def)

interpretation ev: io_preorder evolves
proof
  show "evolves s s" for s by (simp add: evolves_def)
next
  fix s t u assume "evolves s t" "evolves t u"
  then obtain e1 e2 where "same_board s u" "w_trace t = w_trace s @ e1"
      "w_now s + length e1 \<le> w_now t" "w_trace u = w_trace t @ e2" "w_now t + length e2 \<le> w_now u"
    using same_board_trans unfolding evolves_def by blast
  then show "evolves s u" by (auto simp: evolves_def intro!: exI [of _ "e1 @ e2"])
qed

text \<open>Updates that evolve the world without an event.\<close>

lemma evolves_silent:
  "same_board w v \<Longrightarrow> w_trace v = w_trace w \<Longrightarrow> w_now v = w_now w \<Longrightarrow> evolves w v"
  by (simp add: evolves_def)

lemma evolves_log [simp]: "evolves w (log_event e ns w)"
  by (auto simp: evolves_def log_event_def same_board_def)

lemma emit_evolves [io_rel]: "state_io_rel evolves (emit e ns)"
  unfolding emit_def by (intro ev.rel_modify) simp

lemmas silent_defs = evolves_silent same_board_def upd_defs

lemma delay_evolves [io_rel]: "state_io_rel evolves (mmc_delay ms)"
  unfolding mmc_delay_def by (intro io_rel)

lemma jiffies_evolves [io_rel]: "state_io_rel evolves jiffies"
  unfolding jiffies_def by (intro io_rel ev.rel_intros)

lemma pwrseq_evolves [io_rel]:
  "state_io_rel evolves mmc_pwrseq_pre_power_on" "state_io_rel evolves mmc_pwrseq_post_power_on"
  "state_io_rel evolves mmc_pwrseq_power_off" "state_io_rel evolves mmc_pwrseq_reset"
  unfolding mmc_pwrseq_pre_power_on_def mmc_pwrseq_post_power_on_def mmc_pwrseq_power_off_def
    mmc_pwrseq_reset_def pwrseq_call_def
  by (intro io_rel ev.rel_intros)+

lemma cqe_off_evolves [io_rel]: "state_io_rel evolves cqe_off"
  unfolding cqe_off_def by (intro io_rel ev.rel_intros ev.rel_modify) (auto simp: silent_defs)

lemma retune_evolves [io_rel]:
  "state_io_rel evolves mmc_retune_needed" "state_io_rel evolves mmc_retune_enable"
  "state_io_rel evolves mmc_retune_hold" "state_io_rel evolves mmc_retune_hold_now"
  "state_io_rel evolves mmc_retune_recheck" "state_io_rel evolves mmc_retune_release"
  "state_io_rel evolves mmc_retune_timer_stop"
  unfolding mmc_retune_needed_def mmc_retune_enable_def mmc_retune_hold_def
    mmc_retune_hold_now_def mmc_retune_recheck_def mmc_retune_release_def mmc_retune_timer_stop_def
  by (intro io_rel ev.rel_intros ev.rel_modify; auto simp: silent_defs)+

lemma retune_pause_evolves [io_rel]:
  "state_io_rel evolves mmc_retune_pause" "state_io_rel evolves mmc_retune_unpause"
  unfolding mmc_retune_pause_def mmc_retune_unpause_def
  by (intro io_rel ev.rel_intros ev.rel_modify; auto simp: silent_defs)+

lemma retune_disable_evolves [io_rel]: "state_io_rel evolves mmc_retune_disable"
  unfolding mmc_retune_disable_def
  by (intro io_rel ev.rel_intros ev.rel_modify; auto simp: silent_defs)

lemma set_ios_evolves [io_rel]:
  "state_io_rel evolves mmc_set_ios"
  unfolding mmc_set_ios_def by (intro io_rel ev.rel_intros)

lemma setters_evolve [io_rel]:
  "state_io_rel evolves (mmc_set_chip_select cs)" "state_io_rel evolves (mmc_set_clock hz)"
  "state_io_rel evolves (mmc_set_bus_mode bm)" "state_io_rel evolves (mmc_set_bus_width bw)"
  "state_io_rel evolves (mmc_set_timing tm)" "state_io_rel evolves (mmc_set_driver_type dt)"
  unfolding mmc_set_chip_select_def mmc_set_clock_def mmc_set_bus_mode_def mmc_set_bus_width_def
    mmc_set_timing_def mmc_set_driver_type_def
  by (intro io_rel ev.rel_intros ev.rel_modify; auto simp: silent_defs)+

lemma execute_tuning_evolves [io_rel]: "state_io_rel evolves mmc_execute_tuning"
  unfolding mmc_execute_tuning_def by (intro io_rel ev.rel_intros)

lemma initial_state_evolves [io_rel]: "state_io_rel evolves mmc_set_initial_state"
  unfolding mmc_set_initial_state_def
  by (intro io_rel ev.rel_intros ev.rel_modify; auto simp: silent_defs)

lemma signal_voltage_evolves [io_rel]: "state_io_rel evolves (mmc_set_signal_voltage v)"
  unfolding mmc_set_signal_voltage_def
  by (intro io_rel ev.rel_intros ev.rel_modify; auto simp: silent_defs)

lemma voltage_evolves [io_rel]:
  "state_io_rel evolves mmc_set_initial_signal_voltage" "state_io_rel evolves mmc_host_set_uhs_voltage"
  "state_io_rel evolves (mmc_select_drive_strength d c)"
  unfolding mmc_set_initial_signal_voltage_def mmc_host_set_uhs_voltage_def
    mmc_select_drive_strength_def
  by (intro io_rel ev.rel_intros ev.rel_modify; auto simp: silent_defs)+

lemma power_evolves [io_rel]:
  "state_io_rel evolves (mmc_power_up ocr)" "state_io_rel evolves mmc_power_off"
  unfolding mmc_power_up_def mmc_power_off_def
  by (intro io_rel ev.rel_intros ev.rel_modify; auto simp: silent_defs)+

lemma power_cycle_evolves [io_rel]: "state_io_rel evolves (mmc_power_cycle ocr)"
  unfolding mmc_power_cycle_def by (intro io_rel ev.rel_intros)

lemma select_voltage_evolves [io_rel]: "state_io_rel evolves (mmc_select_voltage ocr)"
  unfolding mmc_select_voltage_def by (intro io_rel ev.rel_intros)

section \<open>Holds of re-tuning\<close>

text \<open>
  The holds beyond the one that a pause owns.  A balanced operation leaves their number
  alone when there is no debt.
\<close>

definition hold_credit :: "mmc_world \<Rightarrow> int" where
  "hold_credit w = int (h_hold_retune (w_host w)) - of_bool (h_retune_paused (w_host w))"

definition holds_balanced :: "mmc_world \<Rightarrow> mmc_world \<Rightarrow> bool" where
  "holds_balanced w v \<longleftrightarrow> (0 \<le> hold_credit w \<longrightarrow> hold_credit v = hold_credit w)"

named_theorems io_hold \<open>introduction rules for balanced operations\<close>

interpretation hb: io_preorder holds_balanced
  by unfold_locales (auto simp: holds_balanced_def)

lemma credit_log [simp]: "hold_credit (log_event e ns w) = hold_credit w"
  by (simp add: hold_credit_def log_event_def)

lemma emit_hold [io_hold]: "state_io_rel holds_balanced (emit e ns)"
  unfolding emit_def by (intro hb.rel_modify) (simp add: holds_balanced_def)

lemmas hold_defs = holds_balanced_def hold_credit_def upd_defs

lemma delay_hold [io_hold]: "state_io_rel holds_balanced (mmc_delay ms)"
  unfolding mmc_delay_def by (intro io_hold)

lemma jiffies_hold [io_hold]: "state_io_rel holds_balanced jiffies"
  unfolding jiffies_def by (intro io_hold hb.rel_intros)

lemma pwrseq_hold [io_hold]:
  "state_io_rel holds_balanced mmc_pwrseq_pre_power_on"
  "state_io_rel holds_balanced mmc_pwrseq_post_power_on"
  "state_io_rel holds_balanced mmc_pwrseq_power_off"
  "state_io_rel holds_balanced mmc_pwrseq_reset"
  unfolding mmc_pwrseq_pre_power_on_def mmc_pwrseq_post_power_on_def mmc_pwrseq_power_off_def
    mmc_pwrseq_reset_def pwrseq_call_def
  by (intro io_hold hb.rel_intros)+

lemma cqe_off_hold [io_hold]: "state_io_rel holds_balanced cqe_off"
  unfolding cqe_off_def by (intro io_hold hb.rel_intros hb.rel_modify) (auto simp: hold_defs)

lemma retune_hold [io_hold]:
  "state_io_rel holds_balanced mmc_retune_needed" "state_io_rel holds_balanced mmc_retune_enable"
  "state_io_rel holds_balanced mmc_retune_recheck"
  "state_io_rel holds_balanced mmc_retune_timer_stop"
  unfolding mmc_retune_needed_def mmc_retune_enable_def mmc_retune_recheck_def
    mmc_retune_timer_stop_def
  by (intro io_hold hb.rel_intros hb.rel_modify; auto simp: hold_defs)+

text \<open>A pause takes one hold and an unpause gives it back.\<close>

lemma retune_pause_hold [io_hold]:
  "state_io_rel holds_balanced mmc_retune_pause" "state_io_rel holds_balanced mmc_retune_unpause"
  by (auto simp: state_io_rel_def mmc_retune_pause_def mmc_retune_unpause_def mmc_retune_hold_def
      mmc_retune_release_def mmc_retune_needed_def hold_defs)

lemma retune_disable_hold [io_hold]: "state_io_rel holds_balanced mmc_retune_disable"
  unfolding mmc_retune_disable_def
  by (intro io_hold hb.rel_intros hb.rel_modify; auto simp: hold_defs)

lemma setters_hold [io_hold]:
  "state_io_rel holds_balanced mmc_set_ios"
  "state_io_rel holds_balanced (mmc_set_chip_select cs)"
  "state_io_rel holds_balanced (mmc_set_clock hz)"
  "state_io_rel holds_balanced (mmc_set_bus_mode bm)"
  "state_io_rel holds_balanced (mmc_set_bus_width bw)"
  "state_io_rel holds_balanced (mmc_set_timing tm)"
  "state_io_rel holds_balanced (mmc_set_driver_type dt)"
  unfolding mmc_set_chip_select_def mmc_set_clock_def mmc_set_bus_mode_def mmc_set_bus_width_def
    mmc_set_timing_def mmc_set_driver_type_def mmc_set_ios_def
  by (intro io_hold hb.rel_intros hb.rel_modify; auto simp: hold_defs)+

lemma execute_tuning_hold [io_hold]: "state_io_rel holds_balanced mmc_execute_tuning"
  unfolding mmc_execute_tuning_def by (intro io_hold hb.rel_intros)

lemma initial_state_hold [io_hold]: "state_io_rel holds_balanced mmc_set_initial_state"
  unfolding mmc_set_initial_state_def
  by (intro io_hold hb.rel_intros hb.rel_modify; auto simp: hold_defs)

lemma signal_voltage_hold [io_hold]: "state_io_rel holds_balanced (mmc_set_signal_voltage v)"
  unfolding mmc_set_signal_voltage_def
  by (intro io_hold hb.rel_intros hb.rel_modify; auto simp: hold_defs)

lemma voltage_hold [io_hold]:
  "state_io_rel holds_balanced mmc_set_initial_signal_voltage"
  "state_io_rel holds_balanced mmc_host_set_uhs_voltage"
  "state_io_rel holds_balanced (mmc_select_drive_strength d c)"
  unfolding mmc_set_initial_signal_voltage_def mmc_host_set_uhs_voltage_def
    mmc_select_drive_strength_def
  by (intro io_hold hb.rel_intros hb.rel_modify; auto simp: hold_defs)+

lemma power_hold [io_hold]:
  "state_io_rel holds_balanced (mmc_power_up ocr)" "state_io_rel holds_balanced mmc_power_off"
  unfolding mmc_power_up_def mmc_power_off_def
  by (intro io_hold hb.rel_intros hb.rel_modify; auto simp: hold_defs)+

lemma power_cycle_hold [io_hold]: "state_io_rel holds_balanced (mmc_power_cycle ocr)"
  unfolding mmc_power_cycle_def by (intro io_hold hb.rel_intros)

section \<open>The clock while the power comes up\<close>

text \<open>
  The bus clock keeps its value, and whatever is programmed into the controller has it.
\<close>

definition clock_kept :: "mmc_world \<Rightarrow> mmc_world \<Rightarrow> bool" where
  "clock_kept w v \<longleftrightarrow> ios_clock (w_ios v) = ios_clock (w_ios w) \<and>
    (\<exists>evs. w_trace v = w_trace w @ evs \<and>
      (\<forall>i. EvSetIos i \<in> set evs \<longrightarrow> ios_clock i = ios_clock (w_ios w)))"

named_theorems io_clock \<open>introduction rules for operations that keep the clock\<close>

interpretation ck: io_preorder clock_kept
proof
  show "clock_kept s s" for s by (simp add: clock_kept_def)
next
  fix s t u assume "clock_kept s t" "clock_kept t u"
  then show "clock_kept s u"
    unfolding clock_kept_def by (metis Un_iff append.assoc set_append)
qed

lemmas clock_defs = clock_kept_def upd_defs

lemma emit_clock [io_clock]: "(\<And>i. e \<noteq> EvSetIos i) \<Longrightarrow> state_io_rel clock_kept (emit e ns)"
  unfolding emit_def by (intro ck.rel_modify) (auto simp: clock_kept_def log_event_def)

lemma set_ios_clock [io_clock]: "state_io_rel clock_kept mmc_set_ios"
  by (auto simp: state_io_rel_def mmc_set_ios_def emit_def clock_kept_def log_event_def)

lemma helpers_clock [io_clock]:
  "state_io_rel clock_kept (mmc_delay ms)"
  "state_io_rel clock_kept mmc_pwrseq_pre_power_on"
  "state_io_rel clock_kept mmc_pwrseq_post_power_on"
  "state_io_rel clock_kept mmc_pwrseq_power_off"
  "state_io_rel clock_kept cqe_off"
  unfolding mmc_pwrseq_pre_power_on_def mmc_pwrseq_post_power_on_def mmc_pwrseq_power_off_def
    pwrseq_call_def mmc_delay_def cqe_off_def
  by (intro io_clock ck.rel_intros ck.rel_modify; auto simp: clock_defs)+

lemma retune_clock [io_clock]: "state_io_rel clock_kept mmc_retune_disable"
  unfolding mmc_retune_disable_def mmc_retune_unpause_def mmc_retune_release_def
  by (intro io_clock ck.rel_intros ck.rel_modify; auto simp: clock_defs)

lemma initial_state_clock [io_clock]: "state_io_rel clock_kept mmc_set_initial_state"
  unfolding mmc_set_initial_state_def
  by (intro io_clock ck.rel_intros ck.rel_modify; auto simp: clock_defs)

lemma signal_voltage_clock [io_clock]: "state_io_rel clock_kept (mmc_set_signal_voltage v)"
  unfolding mmc_set_signal_voltage_def
  by (intro io_clock ck.rel_intros ck.rel_modify; auto simp: clock_defs)

lemma initial_signal_voltage_clock [io_clock]:
  "state_io_rel clock_kept mmc_set_initial_signal_voltage"
  unfolding mmc_set_initial_signal_voltage_def by (intro io_clock ck.rel_intros)

text \<open>Apart from the signal voltage the operating conditions stay as they are.\<close>

definition ios_kept :: "mmc_world \<Rightarrow> mmc_world \<Rightarrow> bool" where
  "ios_kept w v \<longleftrightarrow>
    (w_ios v)\<lparr>ios_signal_voltage := MMC_SIGNAL_VOLTAGE_330\<rparr>
      = (w_ios w)\<lparr>ios_signal_voltage := MMC_SIGNAL_VOLTAGE_330\<rparr> \<and> same_board w v"

interpretation ik: io_preorder ios_kept
  by unfold_locales (auto simp: ios_kept_def intro: same_board_trans)

named_theorems io_ios \<open>introduction rules for operations that keep the conditions\<close>

lemmas ios_kept_defs = ios_kept_def same_board_def upd_defs

lemma emit_ios [io_ios]: "state_io_rel ios_kept (emit e ns)"
  unfolding emit_def by (intro ik.rel_modify) (auto simp: ios_kept_defs log_event_def)

lemma helpers_ios [io_ios]:
  "state_io_rel ios_kept (mmc_delay ms)"
  "state_io_rel ios_kept mmc_pwrseq_pre_power_on"
  "state_io_rel ios_kept mmc_pwrseq_post_power_on"
  "state_io_rel ios_kept mmc_pwrseq_power_off"
  "state_io_rel ios_kept mmc_set_ios"
  "state_io_rel ios_kept cqe_off"
  unfolding mmc_pwrseq_pre_power_on_def mmc_pwrseq_post_power_on_def mmc_pwrseq_power_off_def
    pwrseq_call_def mmc_delay_def mmc_set_ios_def cqe_off_def
  by (intro io_ios ik.rel_intros ik.rel_modify; auto simp: ios_kept_defs)+

lemma retune_disable_ios [io_ios]: "state_io_rel ios_kept mmc_retune_disable"
  unfolding mmc_retune_disable_def mmc_retune_unpause_def mmc_retune_release_def
  by (intro io_ios ik.rel_intros ik.rel_modify; auto simp: ios_kept_defs)

lemma set_signal_voltage_ios [io_ios]: "state_io_rel ios_kept (mmc_set_signal_voltage v)"
  unfolding mmc_set_signal_voltage_def
  by (intro io_ios ik.rel_intros ik.rel_modify; auto simp: ios_kept_defs)

lemma initial_signal_voltage_ios [io_ios]: "state_io_rel ios_kept mmc_set_initial_signal_voltage"
  unfolding mmc_set_initial_signal_voltage_def by (intro io_ios ik.rel_intros)

lemma ios_kept_fields:
  assumes "ios_kept w v"
  shows "ios_clock (w_ios v) = ios_clock (w_ios w)" "ios_vdd (w_ios v) = ios_vdd (w_ios w)"
    "ios_bus_mode (w_ios v) = ios_bus_mode (w_ios w)"
    "ios_chip_select (w_ios v) = ios_chip_select (w_ios w)"
    "ios_power_mode (w_ios v) = ios_power_mode (w_ios w)"
    "ios_bus_width (w_ios v) = ios_bus_width (w_ios w)"
    "ios_timing (w_ios v) = ios_timing (w_ios w)"
    "ios_drv_type (w_ios v) = ios_drv_type (w_ios w)"
    "ios_enhanced_strobe (w_ios v) = ios_enhanced_strobe (w_ios w)"
  using assms unfolding ios_kept_def
  by (metis mmc_ios.select_convs(1-11) mmc_ios.surjective mmc_ios.update_convs(9))+

lemma unit_run: obtains t where "run_state m s = ((), t)"
  by (cases "run_state m s") auto

text \<open>The conditions after a reset of the bus: one line, legacy timing.\<close>

definition bus_reset :: "mmc_ios \<Rightarrow> bool" where
  "bus_reset i \<longleftrightarrow> ios_bus_mode i = MMC_BUSMODE_PUSHPULL \<and> ios_bus_width i = MMC_BUS_WIDTH_1 \<and>
    ios_timing i = MMC_TIMING_LEGACY \<and> ios_drv_type i = 0 \<and> \<not> ios_enhanced_strobe i"

lemma initial_state_result:
  assumes run: "run_state mmc_set_initial_state w = (x, v)"
  shows "bus_reset (w_ios v) \<and> ios_clock (w_ios v) = ios_clock (w_ios w) \<and>
    ios_vdd (w_ios v) = ios_vdd (w_ios w) \<and> ios_power_mode (w_ios v) = ios_power_mode (w_ios w)
    \<and> same_board w v"
proof -
  define A where "A = do { w \<leftarrow> gets id; io_when (h_cqe_on (w_host w)) cqe_off; mmc_retune_disable }"
  define C where "C = do { w \<leftarrow> gets id;
     io_when (MMC_CAP2_HS400_ES \<in> h_caps2 (w_host w) \<and> op_hs400_enhanced_strobe (w_ops w))
       (emit (EvEnhancedStrobe (w_ios w)) 0); mmc_set_ios }"
  obtain a where a: "run_state (io_when (h_cqe_on (w_host w)) cqe_off) w = ((), a)"
    by (rule unit_run)
  obtain u where u: "run_state mmc_retune_disable a = ((), u)" by (rule unit_run)
  have A: "run_state A w = ((), u)" using a u by (simp add: A_def del: run_io_when)
  have kA: "state_io_rel ios_kept A" and kC: "state_io_rel ios_kept C"
    unfolding A_def C_def by (intro io_ios ik.rel_intros)+
  define t where "t = upd_ios (\<lambda>i. i\<lparr>ios_bus_mode := MMC_BUSMODE_PUSHPULL,
     ios_bus_width := 0, ios_timing := MMC_TIMING_LEGACY, ios_drv_type := 0,
     ios_enhanced_strobe := False\<rparr>) (upd_ios (\<lambda>i. i\<lparr>ios_chip_select :=
       (if mmc_host_is_spi w then MMC_CS_HIGH else MMC_CS_DONTCARE)\<rparr>) u)"
  from run a u have "run_state C t = (x, v)"
    by (simp add: mmc_set_initial_state_def C_def t_def del: run_io_when)
  with kC have tv: "ios_kept t v" by (rule ik.rel_run)
  have wu: "ios_kept w u" using kA A by (rule ik.rel_run)
  have "same_board u t" by (simp add: t_def same_board_def upd_defs)
  then have "same_board w v"
    using wu tv same_board_trans unfolding ios_kept_def by blast
  moreover have "bus_reset (w_ios v)"
    by (simp add: bus_reset_def ios_kept_fields [OF tv] t_def upd_defs)
  moreover have "ios_clock (w_ios v) = ios_clock (w_ios w)" "ios_vdd (w_ios v) = ios_vdd (w_ios w)"
    "ios_power_mode (w_ios v) = ios_power_mode (w_ios w)"
    by (simp_all only: ios_kept_fields [OF tv]) (simp_all add: t_def upd_defs ios_kept_fields [OF wu])
  ultimately show ?thesis by blast
qed

lemma power_off_result:
  assumes run: "run_state mmc_power_off w = (x, v)"
    and off: "ios_power_mode (w_ios w) = MMC_POWER_OFF \<longrightarrow> ios_clock (w_ios w) = 0"
  shows "ios_clock (w_ios v) = 0 \<and> ios_power_mode (w_ios v) = MMC_POWER_OFF \<and> same_board w v \<and>
    (\<exists>evs. w_trace v = w_trace w @ evs \<and> (\<forall>i. EvSetIos i \<in> set evs \<longrightarrow> ios_clock i = 0))"
proof (cases "ios_power_mode (w_ios w) = MMC_POWER_OFF")
  case True
  with run off show ?thesis by (simp add: mmc_power_off_def)
next
  case False
  obtain t where t: "run_state mmc_pwrseq_power_off w = ((), t)" by (rule unit_run)
  define t' where "t' = upd_ios (\<lambda>i. i\<lparr>ios_clock := 0, ios_vdd := 0,
    ios_power_mode := MMC_POWER_OFF\<rparr>) t"
  obtain u where u: "run_state mmc_set_initial_state t' = ((), u)" by (rule unit_run)
  have v: "run_state (mmc_delay 1) u = (x, v)"
    using run False t u by (simp add: mmc_power_off_def t'_def)
  have seq: "state_io_rel (\<lambda>w v. \<exists>p. w_trace v = w_trace w @ p \<and> (\<forall>i. EvSetIos i \<notin> set p))
      mmc_pwrseq_power_off"
    by (simp add: state_io_rel_def mmc_pwrseq_power_off_def pwrseq_call_def emit_def log_event_def)
  obtain p where p: "w_trace t = w_trace w @ p" "\<forall>i. EvSetIos i \<notin> set p"
    using seq t by (auto simp: state_io_rel_def dest: spec [of _ w])
  have "clock_kept t' u" "clock_kept u v" "ios_kept u v" "evolves w t"
    using ck.rel_run [OF initial_state_clock u] ck.rel_run [OF helpers_clock(1) v]
      ik.rel_run [OF helpers_ios(1) v] ev.rel_run [OF pwrseq_evolves(3) t] by simp_all
  moreover note initial_state_result [OF u]
  ultimately have "ios_clock (w_ios v) = 0" "ios_power_mode (w_ios v) = MMC_POWER_OFF"
      "same_board w v" "clock_kept t' v"
    using ios_kept_fields [of u v] ck.trn [of t' u v]
    by (auto simp: t'_def upd_defs ios_kept_def same_board_def evolves_def)
  moreover from \<open>clock_kept t' v\<close> p have
    "\<exists>evs. w_trace v = w_trace w @ evs \<and> (\<forall>i. EvSetIos i \<in> set evs \<longrightarrow> ios_clock i = 0)"
    by (auto simp: clock_kept_def t'_def upd_defs)
  ultimately show ?thesis by blast
qed

text \<open>
  Powering up from the off state: the clock is programmed only after the supply had its
  delay to settle, with the bus reset and the frequency of the initialisation.
\<close>

definition power_up_trace :: "mmc_world \<Rightarrow> mmc_world \<Rightarrow> bool" where
  "power_up_trace w v \<longleftrightarrow>
    (\<exists>evs seq. w_trace v = w_trace w @ evs @ EvDelay (ios_power_delay_ms (w_ios w)) # seq
       @ [EvSetIos (w_ios v), EvDelay (ios_power_delay_ms (w_ios w))]
     \<and> (\<forall>i. EvSetIos i \<in> set evs \<longrightarrow> ios_clock i = ios_clock (w_ios w))
     \<and> set seq \<subseteq> {EvPwrseq POST_POWER_ON})"

lemma power_up_result:
  assumes run: "run_state (mmc_power_up ocr) w = (x, v)"
    and off: "ios_power_mode (w_ios w) \<noteq> MMC_POWER_ON"
  shows "power_up_trace w v \<and> bus_reset (w_ios v) \<and> ios_clock (w_ios v) = h_f_init (w_host w) \<and>
    ios_power_mode (w_ios v) = MMC_POWER_ON \<and> ios_vdd (w_ios v) = of_nat (fls ocr) - 1 \<and>
    same_board w v"
proof -
  let ?ms = "ios_power_delay_ms (w_ios w)"
  obtain a where a: "run_state mmc_pwrseq_pre_power_on w = ((), a)" by (rule unit_run)
  define b where "b = upd_ios (\<lambda>i. i\<lparr>ios_vdd := of_nat (fls ocr) - 1, ios_power_mode := MMC_POWER_UP\<rparr>) a"
  obtain c where c: "run_state mmc_set_initial_state b = ((), c)" by (rule unit_run)
  obtain d where d: "run_state mmc_set_initial_signal_voltage c = ((), d)" by (rule unit_run)
  define e where "e = log_event (EvDelay (ios_power_delay_ms (w_ios d)))
    (unat (ios_power_delay_ms (w_ios d)) * 1000000) d"
  obtain f where f: "run_state mmc_pwrseq_post_power_on e = ((), f)" by (rule unit_run)
  define g where "g = upd_ios (\<lambda>i. i\<lparr>ios_clock := h_f_init (w_host d), ios_power_mode := MMC_POWER_ON\<rparr>) f"
  have v: "v = log_event (EvDelay (ios_power_delay_ms (w_ios d)))
      (unat (ios_power_delay_ms (w_ios d)) * 1000000) (log_event (EvSetIos (w_ios g)) 0 g)"
    using run off
    by (simp add: mmc_power_up_def mmc_delay_def mmc_set_ios_def emit_def a b_def [symmetric] c d
        e_def [symmetric] f g_def [symmetric])
  have k: "clock_kept w a" "clock_kept b c" "clock_kept c d"
    using ck.rel_run [OF helpers_clock(2) a] ck.rel_run [OF initial_state_clock c]
      ck.rel_run [OF initial_signal_voltage_clock d] by simp_all
  moreover have "clock_kept a b" by (simp add: b_def clock_kept_def upd_defs)
  ultimately have wd: "clock_kept w d" using ck.trn by blast
  have wa: "ios_kept w a" and cd: "ios_kept c d" and ef: "ios_kept e f"
    using ik.rel_run [OF helpers_ios(2) a] ik.rel_run [OF initial_signal_voltage_ios d]
      ik.rel_run [OF helpers_ios(3) f] by simp_all
  note bc = initial_state_result [OF c]
  have sb: "same_board w a" "same_board b c" "same_board c d" "same_board e f"
    using wa cd ef bc by (auto simp: ios_kept_def)
  have sb': "same_board a b" "same_board d e" "same_board f g" "same_board g v"
    by (simp_all add: b_def e_def g_def v same_board_def upd_defs log_event_def)
  have wdb: "same_board w d"
    by (rule same_board_trans [OF sb(1) same_board_trans [OF sb'(1) same_board_trans [OF sb(2,3)]]])
  have wv: "same_board w v"
    by (rule same_board_trans [OF wdb same_board_trans [OF sb'(2) same_board_trans [OF sb(4)
        same_board_trans [OF sb'(3,4)]]]])
  from wdb have ms: "ios_power_delay_ms (w_ios d) = ?ms" and fi: "h_f_init (w_host d) = h_f_init (w_host w)"
    by (simp_all add: same_board_def)
  obtain seq where seq: "w_trace f = w_trace e @ seq" "set seq \<subseteq> {EvPwrseq POST_POWER_ON}"
    using f by (auto simp: mmc_pwrseq_post_power_on_def pwrseq_call_def emit_def log_event_def
        split: if_splits)
  from wd obtain evs where evs: "w_trace d = w_trace w @ evs"
      "\<forall>i. EvSetIos i \<in> set evs \<longrightarrow> ios_clock i = ios_clock (w_ios w)"
    by (auto simp: clock_kept_def)
  have ios: "w_ios v = w_ios g" by (simp add: v log_event_def)
  have tr: "w_trace v = w_trace w @ evs @ EvDelay ?ms # seq @ [EvSetIos (w_ios v), EvDelay ?ms]"
    by (simp add: ios) (simp add: v g_def e_def log_event_def upd_defs seq evs ms)
  have "power_up_trace w v"
    unfolding power_up_trace_def using tr evs(2) seq(2) by blast
  moreover have "bus_reset (w_ios v)" "ios_vdd (w_ios v) = of_nat (fls ocr) - 1"
    unfolding ios using bc ios_kept_fields [OF cd] ios_kept_fields [OF ef]
    by (simp_all add: bus_reset_def g_def upd_defs e_def log_event_def b_def)
  moreover have "ios_clock (w_ios v) = h_f_init (w_host w)" "ios_power_mode (w_ios v) = MMC_POWER_ON"
    unfolding ios by (simp_all add: g_def upd_defs fi)
  ultimately show ?thesis using wv by blast
qed

lemma power_cycle_result:
  assumes run: "run_state (mmc_power_cycle ocr) w = (x, v)"
    and off: "ios_power_mode (w_ios w) = MMC_POWER_OFF \<longrightarrow> ios_clock (w_ios w) = 0"
  shows "\<exists>evs seq. w_trace v = w_trace w @ evs @ EvDelay (ios_power_delay_ms (w_ios w)) # seq
       @ [EvSetIos (w_ios v), EvDelay (ios_power_delay_ms (w_ios w))]
     \<and> (\<forall>i. EvSetIos i \<in> set evs \<longrightarrow> ios_clock i = 0) \<and> set seq \<subseteq> {EvPwrseq POST_POWER_ON}"
    and "bus_reset (w_ios v)" and "ios_clock (w_ios v) = h_f_init (w_host w)"
    and "ios_power_mode (w_ios v) = MMC_POWER_ON"
proof -
  obtain a where a: "run_state mmc_power_off w = ((), a)" by (rule unit_run)
  define b where "b = log_event (EvDelay 1) 1000000 a"
  have v: "run_state (mmc_power_up ocr) b = (x, v)"
    using run a by (simp add: mmc_power_cycle_def mmc_delay_def emit_def b_def)
  note wa = power_off_result [OF a off]
  have b: "ios_clock (w_ios b) = 0" "ios_power_mode (w_ios b) = MMC_POWER_OFF"
    "same_board w b" "w_trace b = w_trace a @ [EvDelay 1]"
    using wa by (simp_all add: b_def log_event_def same_board_def)
  then have bv: "power_up_trace b v" "bus_reset (w_ios v)" "ios_power_mode (w_ios v) = MMC_POWER_ON"
    "ios_clock (w_ios v) = h_f_init (w_host b)"
    using power_up_result [OF v] by auto
  obtain e1 where e1: "w_trace a = w_trace w @ e1" "\<forall>i. EvSetIos i \<in> set e1 \<longrightarrow> ios_clock i = 0"
    using wa by blast
  obtain evs seq where t: "w_trace v = w_trace b @ evs @ EvDelay (ios_power_delay_ms (w_ios b)) # seq
       @ [EvSetIos (w_ios v), EvDelay (ios_power_delay_ms (w_ios b))]"
     "\<forall>i. EvSetIos i \<in> set evs \<longrightarrow> ios_clock i = 0" "set seq \<subseteq> {EvPwrseq POST_POWER_ON}"
    using bv(1) b(1) by (auto simp: power_up_trace_def)
  have ms: "ios_power_delay_ms (w_ios b) = ios_power_delay_ms (w_ios w)"
    using b(3) by (simp add: same_board_def)
  show "\<exists>evs seq. w_trace v = w_trace w @ evs @ EvDelay (ios_power_delay_ms (w_ios w)) # seq
       @ [EvSetIos (w_ios v), EvDelay (ios_power_delay_ms (w_ios w))]
     \<and> (\<forall>i. EvSetIos i \<in> set evs \<longrightarrow> ios_clock i = 0) \<and> set seq \<subseteq> {EvPwrseq POST_POWER_ON}"
  proof (intro exI conjI)
    show "w_trace v = w_trace w @ (e1 @ EvDelay 1 # evs) @ EvDelay (ios_power_delay_ms (w_ios w)) # seq
       @ [EvSetIos (w_ios v), EvDelay (ios_power_delay_ms (w_ios w))]"
      using t(1) b(4) e1(1) ms by simp
    show "\<forall>i. EvSetIos i \<in> set (e1 @ EvDelay 1 # evs) \<longrightarrow> ios_clock i = 0"
      using e1(2) t(2) by auto
    show "set seq \<subseteq> {EvPwrseq POST_POWER_ON}" by (rule t(3))
  qed
  show "bus_reset (w_ios v)" "ios_power_mode (w_ios v) = MMC_POWER_ON" by (rule bv)+
  show "ios_clock (w_ios v) = h_f_init (w_host w)" using bv(4) b(3) by (simp add: same_board_def)
qed

section \<open>Signal voltage and the voltage window\<close>

lemma set_signal_voltage_result:
  assumes "run_state (mmc_set_signal_voltage sv) w = (err, v)"
  shows "ios_signal_voltage (w_ios v) = (if err = 0 then sv else ios_signal_voltage (w_ios w))"
  using assms
  by (auto simp: mmc_set_signal_voltage_def emit_def log_event_def upd_defs
      split: option.splits if_splits)

text \<open>The windows that both sides support, without the reserved low bits.\<close>

definition common_ocr :: "mmc_world \<Rightarrow> u32 \<Rightarrow> u32" where
  "common_ocr w ocr = ocr AND NOT 0x7F AND h_ocr_avail (w_host w)"

text \<open>
  The windows chosen are supported by both sides, nothing is chosen only if nothing is
  common, and one or two neighbouring windows are chosen: from the lowest common one on a
  host that power-cycles, the highest common one otherwise.
\<close>

lemma select_voltage_result:
  assumes run: "run_state (mmc_select_voltage ocr) w = (r, v)"
  defines "c \<equiv> common_ocr w ocr"
  shows "bit r n \<longleftrightarrow> c \<noteq> 0 \<and> bit c n \<and>
    (if MMC_CAP2_FULL_PWR_CYCLE \<in> h_caps2 (w_host w) then n = ffs c - 1 \<or> n = ffs c
     else n = fls c - 1)"
proof -
  have c: "(if ocr AND 0x7F \<noteq> 0 then ocr AND NOT 0x7F else ocr) AND h_ocr_avail (w_host w) = c"
  proof (cases "ocr AND 0x7F = 0")
    case True
    have "ocr = (ocr AND 0x7F) OR (ocr AND NOT 0x7F)"
      by (subst bit.conj_disj_distrib [symmetric]) simp
    with True have "ocr AND NOT 0x7F = ocr" by simp
    with True show ?thesis by (simp add: c_def common_ocr_def and.assoc [symmetric])
  qed (simp add: c_def common_ocr_def and.assoc)
  have lt: "n < 32" if "bit c n" using that bit_imp_le_length [of c n] by simp
  consider (none) "c = 0" "r = 0"
    | (low) "c \<noteq> 0" "MMC_CAP2_FULL_PWR_CYCLE \<in> h_caps2 (w_host w)" "r = c AND push_bit (ffs c - 1) 3"
    | (high) "c \<noteq> 0" "MMC_CAP2_FULL_PWR_CYCLE \<notin> h_caps2 (w_host w)" "r = c AND push_bit (fls c - 1) 3"
    using run unfolding mmc_select_voltage_def Let_def
    by (auto simp: c split: prod.splits if_splits)
  then show ?thesis
  proof cases
    case none
    then show ?thesis by simp
  next
    case low
    then show ?thesis using lt ffs_spec [OF low(1)] by (auto simp: bit_and_iff bit_three)
  next
    case high
    then show ?thesis using lt fls_spec [OF high(1)] by (fastforce simp: bit_and_iff bit_three)
  qed
qed

end
