(* ===== verification/Host_Properties.thy ===== *)
theory Host_Properties
  imports Host_Claim Host_Ios_Facts Example_World
begin

text \<open>
  The properties of the host: the claim as a reentrant lock, power sequencing, the choice of
  the supply voltage and the switch of the signal voltage.
\<close>

section \<open>Claiming\<close>

text \<open>
  C13: in every run of claims and releases at most one context or task holds the host, the
  nesting depth is the number of its claims, and the runtime-PM reference is held exactly
  while the host is claimed.
\<close>

theorem host_claim_exclusive:
  assumes "lock_reach claim_as mmc_release_host claim_init s hs"
  shows "(\<forall>k \<in> set hs. \<forall>k' \<in> set hs. k = k') \<and> cs_claim_cnt s = length hs \<and>
    (cs_claimed s \<longleftrightarrow> hs \<noteq> []) \<and> cs_pm_usage s = (if hs = [] then 0 else 1)"
proof -
  have "claim_inv s" "cs_claim_cnt s = length hs"
    using host_lock.reach_inv [OF assms] by blast+
  moreover have "k = k'" if "k \<in> set hs" "k' \<in> set hs" for k k'
    by (rule host_lock.mutual_exclusion [OF assms that])
  ultimately show ?thesis by (auto simp: claim_inv_def)
qed

definition claim_twice :: claim_state where
  "claim_twice = the (claim_as (Inr 7) (the (claim_as (Inr 7) claim_init)))"

lemma claim_twice_reach:
  "lock_reach claim_as mmc_release_host claim_init claim_twice [Inr 7, Inr 7]"
proof -
  have one: "claim_as (Inr 7) claim_init = Some (the (claim_as (Inr 7) claim_init))"
    and two: "claim_as (Inr 7) (the (claim_as (Inr 7) claim_init)) = Some claim_twice"
    by (simp_all add: claim_twice_def claim_defs claim_init_def)
  have "lock_reach claim_as mmc_release_host claim_init claim_init []"
    by (rule lock_reach.start)
  from lock_reach.acquired [OF this one]
  have "lock_reach claim_as mmc_release_host claim_init (the (claim_as (Inr 7) claim_init)) [Inr 7]" .
  from lock_reach.acquired [OF this two] show ?thesis .
qed

lemma host_claim_exclusive_witness:
  "cs_claim_cnt claim_twice = 2 \<and> cs_pm_usage claim_twice = 1"
  using host_claim_exclusive [OF claim_twice_reach] by simp

text \<open>
  A claim has to wait exactly if the host is held and not by the claimant: the holder may
  claim again, and once all claims are released everyone may.
\<close>

lemma host_claim_waits:
  assumes "lock_reach claim_as mmc_release_host claim_init s hs"
  shows "claim_as k s = None \<longleftrightarrow> hs \<noteq> [] \<and> k \<notin> set hs"
proof (cases hs)
  case Nil
  with assms have "claim_as k s \<noteq> None" by (intro host_lock.free_again) simp
  with Nil show ?thesis by simp
next
  case (Cons k' rest)
  have inv: "claim_inv s" "claim_owner s = Some k'"
    using host_lock.reach_inv [OF assms] Cons by auto
  have same: "k'' = k'" if "k'' \<in> set hs" for k''
    by (rule host_lock.mutual_exclusion [OF assms that]) (simp add: Cons)
  have "claim_as k s = None \<longleftrightarrow> claim_owner s \<noteq> None \<and> claim_owner s \<noteq> Some k"
    using inv(1) by (rule host_lock.acquire_iff)
  then have "claim_as k s = None \<longleftrightarrow> k' \<noteq> k" by (simp only: inv(2) option.simps simp_thms)
  moreover have "k \<in> set hs \<longleftrightarrow> k = k'" using same [of k] Cons by fastforce
  ultimately show ?thesis using Cons by auto
qed

section \<open>Power\<close>




section \<open>Signal voltage\<close>

text \<open>
  C17: \<open>mmc_set_signal_voltage\<close> leaves the operating conditions with the new voltage when the
  controller switched or has no switch, and with the old voltage when the switch failed; no
  other condition changes.
\<close>

theorem set_signal_voltage_restores:
  "(case run_state (mmc_set_signal_voltage sv) w of (err, v) \<Rightarrow>
     w_ios v = (w_ios w)\<lparr>ios_signal_voltage := (if err = 0 then sv else ios_signal_voltage (w_ios w))\<rparr>)"
  by (auto simp: mmc_set_signal_voltage_def emit_def log_event_def upd_defs
      split: prod.split option.splits if_splits)

text \<open>
  \<open>mmc_host_set_uhs_voltage\<close> switches to 1.8 V only while the clock is stopped; it returns
  0 with the clock as before and 1.8 V, or \<open>-EAGAIN\<close> with the clock still stopped and the old
  voltage.
\<close>

lemma host_set_uhs_voltage_gated:
  "(case run_state mmc_host_set_uhs_voltage w of (err, v) \<Rightarrow>
     (err = 0 \<or> err = - EAGAIN) \<and>
     w_ios v = (if err = 0 then (w_ios w)\<lparr>ios_signal_voltage := MMC_SIGNAL_VOLTAGE_180\<rparr>
                else (w_ios w)\<lparr>ios_clock := 0\<rparr>) \<and>
     (\<exists>evs. w_trace v = w_trace w @ evs \<and>
       (\<forall>i. EvVoltageSwitch i \<in> set evs \<longrightarrow> ios_clock i = 0)))"
  by (auto simp: mmc_host_set_uhs_voltage_def mmc_set_signal_voltage_def emit_def log_event_def
      upd_defs mmc_set_ios_def mmc_delay_def split: prod.split option.splits if_splits)

end
