(* ===== verification/Requests.thy ===== *)
theory Requests
  imports Host_Ios_Facts
begin

text \<open>
  The request pipeline of \<open>mmc/core/core.c\<close>: preparation, start, completion, retries.

  Starting a request may first re-tune the bus (\<open>mmc_retune\<close>), which itself sends requests,
  and an interrupted sanitize is ended with \<open>mmc_interrupt_hpi\<close>, which also does.  The
  functions that send requests take these two as the record \<open>hooks\<close>; the theory
  \<open>Mmc_Retune\<close> ties the knot.  Requests that allow commands during their transfer
  (\<open>cap_cmd_during_tfr\<close>, set only by \<open>mmc_test.c\<close>) are not modelled: a request is complete
  when the controller has answered, and waiting for it returns at once.
\<close>

record io_hooks =
  hk_retune :: "int io"
  hk_hpi :: "int io"

section \<open>Polling loops\<close>

text \<open>
  \<open>io_poll limit stuck body\<close> repeats \<open>body\<close> until it answers.  The loop goes on only while
  time passes and the limit is not reached; \<open>io_poll_unfold\<close> shows that for the polling
  loops of the code, whose bodies take time and answer after their deadline, this
  condition never ends the loop.
\<close>

function io_poll :: "nat \<Rightarrow> 'a \<Rightarrow> 'a option io \<Rightarrow> mmc_world \<Rightarrow> 'a \<times> mmc_world" where
  "io_poll limit stuck body w =
    (case run_state body w of
       (Some r, v) \<Rightarrow> (r, v)
     | (None, v) \<Rightarrow> if w_now w < w_now v \<and> w_now w \<le> limit then io_poll limit stuck body v
                   else (stuck, v))"
  by auto
termination by (relation "measure (\<lambda>(limit, stuck, body, w). Suc limit - w_now w)") auto

declare io_poll.simps [simp del]

definition poll_until :: "nat \<Rightarrow> 'a \<Rightarrow> 'a option io \<Rightarrow> 'a io" where
  "poll_until limit stuck body = State (io_poll limit stuck body)"

text \<open>A loop body that takes time or answers, and answers once the limit is passed, in the worlds \<open>Q\<close>.\<close>

definition polls :: "(mmc_world \<Rightarrow> bool) \<Rightarrow> nat \<Rightarrow> 'a option io \<Rightarrow> bool" where
  "polls Q limit body \<longleftrightarrow>
    (\<forall>w v. Q w \<longrightarrow> run_state body w = (None, v) \<longrightarrow>
      w_now w < w_now v \<and> w_now w \<le> limit \<and> Q v)"

lemma io_poll_unfold:
  assumes "polls Q limit body" and "Q w"
  shows "run_state (poll_until limit stuck body) w =
    (case run_state body w of (Some r, v) \<Rightarrow> (r, v)
     | (None, v) \<Rightarrow> run_state (poll_until limit stuck body) v)"
  using assms
  by (auto simp: poll_until_def io_poll.simps [of limit stuck body w] polls_def
      split: prod.splits option.splits)

text \<open>Invariants of a polling loop.\<close>

lemma io_poll_induct:
  assumes ok: "polls Q limit body" and Q: "Q w"
    and answer: "\<And>w r v. Q w \<Longrightarrow> run_state body w = (Some r, v) \<Longrightarrow> P w r v"
    and again: "\<And>w v r u. Q w \<Longrightarrow> run_state body w = (None, v) \<Longrightarrow> P v r u \<Longrightarrow> P w r u"
    and run: "run_state (poll_until limit stuck body) w = (r, u)"
  shows "P w r u"
  using Q run
proof (induction "Suc limit - w_now w" arbitrary: w rule: less_induct)
  case less
  obtain o' v where b: "run_state body w = (o', v)" by fastforce
  show ?case
  proof (cases o')
    case (Some x)
    with less b answer [of w] show ?thesis by (auto simp: io_poll_unfold [OF ok])
  next
    case None
    with ok b less.prems(1) have v: "w_now w < w_now v" "w_now w \<le> limit" "Q v"
      unfolding polls_def by blast+
    then have "Suc limit - w_now v < Suc limit - w_now w" by simp
    moreover have "run_state (poll_until limit stuck body) v = (r, u)"
      using less.prems b None by (simp add: io_poll_unfold [OF ok])
    ultimately have "P v r u" using less.hyps v(3) by blast
    then show ?thesis using again [OF less.prems(1)] b None by blast
  qed
qed

text \<open>Without knowing anything of the body: a preorder that the body respects.\<close>

lemma io_poll_rel:
  assumes R: "io_preorder R" and body: "state_io_rel R body"
  shows "state_io_rel R (poll_until limit stuck body)"
proof -
  have "state_io_rel R body \<longrightarrow> R w (snd (io_poll limit stuck body w))" for w
  proof (induction limit stuck body w rule: io_poll.induct)
    case (1 limit stuck body w)
    obtain r v where run: "run_state body w = (r, v)" by fastforce
    show ?case
    proof (intro impI)
      assume m: "state_io_rel R body"
      then have wv: "R w v" using run by (rule io_preorder.rel_run [OF R])
      show "R w (snd (io_poll limit stuck body w))"
      proof (cases "r = None \<and> w_now w < w_now v \<and> w_now w \<le> limit")
        case True
        then have "R v (snd (io_poll limit stuck body v))" using 1 run m by auto
        with True wv show ?thesis
          using io_preorder.trn [OF R] by (simp add: io_poll.simps [of limit stuck body w] run)
      next
        case False
        with wv show ?thesis
          by (auto simp: io_poll.simps [of limit stuck body w] run split: option.splits)
      qed
    qed
  qed
  with body show ?thesis by (simp add: state_io_rel_def poll_until_def)
qed

section \<open>Preparation\<close>

text \<open>\<open>sdio_is_io_busy\<close> of \<open>sdio_ops.h\<close>; the registers 6 and 12 of the CCCR are the I/O
  abort and the bus suspend.\<close>

definition sdio_is_io_busy :: "u32 \<Rightarrow> u32 \<Rightarrow> bool" where
  "sdio_is_io_busy opcode arg \<longleftrightarrow>
    (let addr = drop_bit 9 arg AND 0x1FFFF in
     opcode = SD_IO_RW_EXTENDED \<or> opcode = SD_IO_RW_DIRECT \<and> \<not> (addr = 0x06 \<or> addr = 0x0C))"

definition set_cmd_error :: "int \<Rightarrow> mmc_request \<Rightarrow> mmc_request" where
  "set_cmd_error err mrq = mrq\<lparr>mrq_cmd := (mrq_cmd mrq)\<lparr>cmd_error := err\<rparr>\<rparr>"

definition clear_error :: "mmc_command \<Rightarrow> mmc_command" where
  "clear_error c = c\<lparr>cmd_error := 0\<rparr>"

definition mmc_mrq_prep :: "mmc_host \<Rightarrow> mmc_request \<Rightarrow> int \<times> mmc_request" where
  "mmc_mrq_prep h mrq =
    (let mrq = mrq\<lparr>mrq_cmd := clear_error (mrq_cmd mrq)\<rparr>;
         mrq = mrq\<lparr>mrq_sbc := map_option clear_error (mrq_sbc mrq)\<rparr>
     in case mrq_data mrq of
          None \<Rightarrow> (0, mrq)
        | Some d \<Rightarrow>
            if dat_blksz d > h_max_blk_size h \<or> dat_blocks d > h_max_blk_count h
               \<or> dat_blocks d * dat_blksz d > h_max_req_size h then (- EINVAL, mrq)
            else if sum_list (dat_sg d) \<noteq> dat_blocks d * dat_blksz d then (- EINVAL, mrq)
            else (0, mrq\<lparr>mrq_data := Some (d\<lparr>dat_error := 0\<rparr>),
                         mrq_stop := map_option clear_error (mrq_stop mrq)\<rparr>))"

section \<open>Completion\<close>

text \<open>
  What the controller driver writes into the request before it calls \<open>mmc_request_done\<close>:
  errors, the four response words of command and stop command, the count of bytes and, for a read, the buffer.
\<close>

definition resp4 :: "u32 list \<Rightarrow> u32 list" where
  "resp4 r = map (\<lambda>i. if i < length r then r ! i else 0) [0..<4]"

definition overlay :: "u8 list \<Rightarrow> u8 list \<Rightarrow> u8 list" where
  "overlay new old = take (length old) new @ drop (length new) old"

definition complete_mrq :: "mmc_completion \<Rightarrow> mmc_request \<Rightarrow> mmc_request" where
  "complete_mrq c mrq =
    mrq\<lparr>mrq_sbc := map_option (\<lambda>s. s\<lparr>cmd_error := cpl_sbc_error c\<rparr>) (mrq_sbc mrq),
        mrq_cmd := (mrq_cmd mrq)\<lparr>cmd_error := cpl_cmd_error c, cmd_resp := resp4 (cpl_cmd_resp c)\<rparr>,
        mrq_data := map_option (\<lambda>d. d\<lparr>dat_error := cpl_data_error c,
          dat_bytes_xfered := cpl_bytes_xfered c,
          dat_buf := (if MMC_DATA_READ \<in> dat_flags d then overlay (cpl_data c) (dat_buf d)
                      else dat_buf d)\<rparr>) (mrq_data mrq),
        mrq_stop := map_option (\<lambda>s. s\<lparr>cmd_error := cpl_stop_error c, cmd_resp := resp4 (cpl_stop_resp c)\<rparr>)
          (mrq_stop mrq)\<rparr>"

text \<open>
  The fault injection of \<open>CONFIG_FAIL_MMC_REQUEST\<close> is compiled out; the LED and the debug
  output are not modelled.
\<close>

definition mmc_request_done :: "mmc_request \<Rightarrow> mmc_request io" where
  "mmc_request_done mrq = do {
     let cmd = mrq_cmd mrq;
     let err = cmd_error cmd;
     io_when (cmd_opcode cmd \<noteq> MMC_SEND_TUNING_BLOCK \<and> cmd_opcode cmd \<noteq> MMC_SEND_TUNING_BLOCK_HS200
         \<and> (err = - EILSEQ \<or> (case mrq_sbc mrq of None \<Rightarrow> False | Some s \<Rightarrow> cmd_error s = - EILSEQ)
            \<or> (case mrq_data mrq of None \<Rightarrow> False | Some d \<Rightarrow> dat_error d = - EILSEQ)
            \<or> (case mrq_stop mrq of None \<Rightarrow> False | Some s \<Rightarrow> cmd_error s = - EILSEQ)))
       mmc_retune_needed;
     w \<leftarrow> gets id;
     ret (if err \<noteq> 0 \<and> cmd_retries cmd \<noteq> 0 \<and> mmc_host_is_spi w
             \<and> cmd_resp cmd ! 0 AND R1_SPI_ILLEGAL_COMMAND \<noteq> 0
          then mrq\<lparr>mrq_cmd := cmd\<lparr>cmd_retries := 0\<rparr>\<rparr> else mrq)
   }"

section \<open>Starting\<close>

text \<open>\<open>host->ops->card_busy(host)\<close>.\<close>

definition card_busy :: "(trace \<Rightarrow> bool) \<Rightarrow> bool io" where
  "card_busy busy = do { tr \<leftarrow> gets w_trace; emit EvCardBusy 0; ret (busy tr) }"

text \<open>\<open>while (card_busy(host) && --tries) mmc_delay(1)\<close>; the result is \<open>tries\<close>.\<close>

fun sdio_busy_loop :: "(trace \<Rightarrow> bool) \<Rightarrow> nat \<Rightarrow> nat io" where
  "sdio_busy_loop busy 0 = ret 0"
| "sdio_busy_loop busy (Suc tries) = do {
     b \<leftarrow> card_busy busy;
     if \<not> b then ret (Suc tries)
     else if tries = 0 then ret 0
     else do { mmc_delay 1; sdio_busy_loop busy tries }
   }"

definition start_request :: "io_hooks \<Rightarrow> mmc_request \<Rightarrow> mmc_request io" where
  "start_request hk mrq = do {
     err \<leftarrow> hk_retune hk;
     if err \<noteq> 0 then mmc_request_done (set_cmd_error err mrq)
     else do {
       w \<leftarrow> gets id;
       tries \<leftarrow> (case op_card_busy (w_ops w) of
           None \<Rightarrow> ret 1
         | Some busy \<Rightarrow> if sdio_is_io_busy (cmd_opcode (mrq_cmd mrq)) (cmd_arg (mrq_cmd mrq))
                        then sdio_busy_loop busy 500 else ret 1);
       if tries = 0 then mmc_request_done (set_cmd_error (- EBUSY) mrq)
       else do {
         w \<leftarrow> gets id;
         io_when (h_cqe_on (w_host w)) cqe_off;
         w \<leftarrow> gets id;
         emit (EvRequest mrq) 0;
         mmc_request_done (complete_mrq (op_request (w_ops w) (w_trace w) mrq) mrq)
       }
     }
   }"

definition mmc_start_request :: "io_hooks \<Rightarrow> mmc_request \<Rightarrow> (int \<times> mmc_request) io" where
  "mmc_start_request hk mrq = do {
     mmc_retune_hold;
     w \<leftarrow> gets id;
     if mmc_card_removed w then ret (- ENOMEDIUM, mrq)
     else (case mmc_mrq_prep (w_host w) mrq of (err, mrq) \<Rightarrow>
       if err \<noteq> 0 then ret (err, mrq)
       else do { mrq \<leftarrow> start_request hk mrq; ret (0, mrq) })
   }"

text \<open>\<open>__mmc_start_req\<close>.\<close>

definition mmc_start_req :: "io_hooks \<Rightarrow> mmc_request \<Rightarrow> (int \<times> mmc_request) io" where
  "mmc_start_req hk mrq = do {
     r \<leftarrow> mmc_start_request hk mrq;
     (case r of (err, mrq) \<Rightarrow>
        ret (err, if err \<noteq> 0 then set_cmd_error err mrq else mrq))
   }"

section \<open>Waiting, with retries\<close>

text \<open>A request keeps its number of retries or loses all of them.\<close>

lemma request_done_retries:
  "run_state (mmc_request_done mrq) w = (m, v) \<Longrightarrow>
    cmd_retries (mrq_cmd m) \<le> cmd_retries (mrq_cmd mrq)"
  by (auto simp: mmc_request_done_def Let_def split: if_splits prod.splits)

lemma start_request_retries:
  assumes "run_state (start_request hk mrq) w = (m, v)"
  shows "cmd_retries (mrq_cmd m) \<le> cmd_retries (mrq_cmd mrq)"
proof -
  have "cmd_retries (mrq_cmd (set_cmd_error e mrq)) = cmd_retries (mrq_cmd mrq)"
    "cmd_retries (mrq_cmd (complete_mrq c mrq)) = cmd_retries (mrq_cmd mrq)" for e c
    by (simp_all add: set_cmd_error_def complete_mrq_def)
  with assms show ?thesis
    by (auto simp: start_request_def split: prod.splits if_splits dest!: request_done_retries)
qed

text \<open>The loop of \<open>mmc_wait_for_req_done\<close>, on the request as the last start left it.\<close>

function wait_req_loop :: "io_hooks \<Rightarrow> mmc_request \<Rightarrow> mmc_world \<Rightarrow> mmc_request \<times> mmc_world" where
  "wait_req_loop hk mrq w =
    (let cmd = mrq_cmd mrq;
         (interrupted, w) =
           (if cmd_sanitize_busy cmd \<and> cmd_error cmd = - ETIMEDOUT
            then (case run_state (hk_hpi hk) w of (err, w) \<Rightarrow> (err = 0, w)) else (False, w))
     in if interrupted then (set_cmd_error 0 mrq, w)
        else if cmd_error cmd = 0 \<or> cmd_retries cmd = 0 \<or> mmc_card_removed w then (mrq, w)
        else
          (case run_state mmc_retune_recheck w of (_, w) \<Rightarrow>
           case run_state (start_request hk
               (mrq\<lparr>mrq_cmd := cmd\<lparr>cmd_retries := cmd_retries cmd - 1, cmd_error := 0\<rparr>\<rparr>)) w of
             (mrq, w) \<Rightarrow> wait_req_loop hk mrq w))"
  by auto
termination
proof (relation "measure (\<lambda>(hk, mrq, w). cmd_retries (mrq_cmd mrq))", goal_cases)
  case 1
  then show ?case by simp
next
  case (2 hk mrq w x xa a b aa ba ab bb)
  then have "cmd_retries (mrq_cmd ab) \<le> cmd_retries (mrq_cmd mrq) - 1"
    "cmd_retries (mrq_cmd mrq) \<noteq> 0"
    by (auto dest!: start_request_retries [OF sym])
  then show ?case by simp
qed

declare wait_req_loop.simps [simp del]

definition mmc_wait_for_req_done :: "io_hooks \<Rightarrow> mmc_request \<Rightarrow> mmc_request io" where
  "mmc_wait_for_req_done hk mrq = do {
     mrq \<leftarrow> State (wait_req_loop hk mrq);
     mmc_retune_release;
     ret mrq
   }"

definition mmc_wait_for_req :: "io_hooks \<Rightarrow> mmc_request \<Rightarrow> mmc_request io" where
  "mmc_wait_for_req hk mrq = do {
     r \<leftarrow> mmc_start_req hk mrq;
     mmc_wait_for_req_done hk (snd r)
   }"

text \<open>The result is the command, whose \<open>cmd_error\<close> the C function returns.\<close>

definition mmc_wait_for_cmd :: "io_hooks \<Rightarrow> mmc_command \<Rightarrow> nat \<Rightarrow> mmc_command io" where
  "mmc_wait_for_cmd hk cmd retries = do {
     let cmd = cmd\<lparr>cmd_resp := [0, 0, 0, 0], cmd_retries := retries\<rparr>;
     mrq \<leftarrow> mmc_wait_for_req hk (mrq_of cmd None);
     ret (mrq_cmd mrq)
   }"

end
