(* ===== verification/Request_Facts.thy ===== *)
theory Request_Facts
  imports Requests
begin

text \<open>
  What holds of every request: the world evolves, the holds of re-tuning balance, and the
  result is the one the controller reported.  The laws that the hooks must keep are the
  locale \<open>request_hooks\<close>; \<open>Mmc_Retune\<close> interprets it for each level of nesting.
\<close>

section \<open>The laws of the hooks\<close>

locale request_hooks =
  fixes hk :: io_hooks
  assumes hk_retune_evolves [io_rel]: "state_io_rel evolves (hk_retune hk)"
    and hk_hpi_evolves [io_rel]: "state_io_rel evolves (hk_hpi hk)"
    and hk_retune_hold [io_hold]: "state_io_rel holds_balanced (hk_retune hk)"
    and hk_hpi_hold [io_hold]: "state_io_rel holds_balanced (hk_hpi hk)"

lemma wait_req_loop_rel:
  assumes R: "io_preorder R" and hpi: "state_io_rel R (hk_hpi hk)"
    and recheck: "state_io_rel R mmc_retune_recheck"
    and start: "\<And>m. state_io_rel R (start_request hk m)"
  shows "state_io_rel R (State (wait_req_loop hk mrq))"
proof -
  have "hk' = hk \<longrightarrow> R w (snd (wait_req_loop hk' mrq w))" for hk' mrq w
  proof (induction hk' mrq w rule: wait_req_loop.induct)
    case (1 hk' mrq w)
    show ?case
    proof (intro impI)
      assume hk': "hk' = hk"
      define cmd where "cmd = mrq_cmd mrq"
      obtain b v where bv: "(if cmd_sanitize_busy cmd \<and> cmd_error cmd = - ETIMEDOUT
            then (case run_state (hk_hpi hk) w of (err, w) \<Rightarrow> (err = 0, w)) else (False, w)) = (b, v)"
        by fastforce
      have wv: "R w v"
        using bv io_preorder.rel_run [OF R hpi] io_preorder.rfl [OF R]
        by (auto split: if_splits prod.splits)
      show "R w (snd (wait_req_loop hk' mrq w))"
      proof (cases "b \<or> cmd_error cmd = 0 \<or> cmd_retries cmd = 0 \<or> mmc_card_removed v")
        case True
        with wv bv show ?thesis
          by (auto simp: hk' wait_req_loop.simps [of hk mrq w] cmd_def Let_def split: prod.splits)
      next
        case False
        obtain u where c: "run_state mmc_retune_recheck v = ((), u)" by (rule unit_run)
        let ?m = "mrq\<lparr>mrq_cmd := cmd\<lparr>cmd_retries := cmd_retries cmd - 1, cmd_error := 0\<rparr>\<rparr>"
        obtain m t where m: "run_state (start_request hk ?m) u = (m, t)" by fastforce
        have "R v u" "R u t"
          using io_preorder.rel_run [OF R recheck c] io_preorder.rel_run [OF R start m] by auto
        moreover have "R t (snd (wait_req_loop hk m t))"
          using 1 [of cmd "(b, v)" b v "()" u m t] False bv [symmetric] c m
          unfolding cmd_def hk' by simp
        moreover have "wait_req_loop hk mrq w = wait_req_loop hk m t"
          using False bv c m
          by (simp add: wait_req_loop.simps [of hk mrq w] cmd_def Let_def)
        ultimately show ?thesis
          using wv io_preorder.trn [OF R] unfolding hk' by metis
      qed
    qed
  qed
  then show ?thesis by (simp add: state_io_rel_def)
qed

lemma card_busy_evolves [io_rel]: "state_io_rel evolves (card_busy f)"
  unfolding card_busy_def by (intro io_rel ev.rel_intros)

lemma card_busy_hold [io_hold]: "state_io_rel holds_balanced (card_busy f)"
  unfolding card_busy_def by (intro io_hold hb.rel_intros)

lemma sdio_busy_loop_rel [io_rel, io_hold]:
  "state_io_rel evolves (sdio_busy_loop f n)" "state_io_rel holds_balanced (sdio_busy_loop f n)"
  by (induction f n rule: sdio_busy_loop.induct)
    (auto intro!: io_rel ev.rel_intros io_hold hb.rel_intros)

lemma request_done_rel [io_rel, io_hold]:
  "state_io_rel evolves (mmc_request_done m)" "state_io_rel holds_balanced (mmc_request_done m)"
  unfolding mmc_request_done_def Let_def
  by (intro io_rel ev.rel_intros) (intro io_hold hb.rel_intros)

context request_hooks begin

lemma start_request_evolves [io_rel]: "state_io_rel evolves (start_request hk m)"
  unfolding start_request_def by (intro io_rel ev.rel_intros)

lemma start_request_hold [io_hold]: "state_io_rel holds_balanced (start_request hk m)"
  unfolding start_request_def by (intro io_hold hb.rel_intros)

lemma wait_loop_evolves [io_rel]: "state_io_rel evolves (State (wait_req_loop hk m))"
  by (intro wait_req_loop_rel ev.io_preorder_axioms io_rel)

lemma wait_loop_hold [io_hold]: "state_io_rel holds_balanced (State (wait_req_loop hk m))"
  by (intro wait_req_loop_rel hb.io_preorder_axioms io_hold)

lemma wait_for_req_evolves [io_rel]: "state_io_rel evolves (mmc_wait_for_req hk m)"
  unfolding mmc_wait_for_req_def mmc_start_req_def mmc_start_request_def mmc_wait_for_req_done_def
  by (intro io_rel ev.rel_intros)

text \<open>
  Every request takes a hold before it starts and gives it back when it is done, on every
  path.
\<close>

lemma wait_for_req_hold [io_hold]: "state_io_rel holds_balanced (mmc_wait_for_req hk m)"
  unfolding state_io_rel_def
proof
  fix w
  define body where "body = do {
     w \<leftarrow> gets id;
     r \<leftarrow> (if mmc_card_removed w then ret (- ENOMEDIUM, m)
       else (case mmc_mrq_prep (w_host w) m of (err, mrq) \<Rightarrow>
         if err \<noteq> 0 then ret (err, mrq)
         else do { mrq \<leftarrow> start_request hk mrq; ret (0, mrq) }));
     State (wait_req_loop hk (if fst r \<noteq> 0 then set_cmd_error (fst r) (snd r) else snd r)) }"
  have "state_io_rel holds_balanced body"
    unfolding body_def by (intro io_hold hb.rel_intros)
  obtain a where a: "run_state mmc_retune_hold w = ((), a)" by (rule unit_run)
  obtain x b where b: "run_state body a = (x, b)" by fastforce
  have bal: "holds_balanced a b" by (rule hb.rel_run) fact+
  have run: "run_state (mmc_wait_for_req hk m) w
      = (x, snd (run_state mmc_retune_release b))"
    using a b
    by (simp add: mmc_wait_for_req_def mmc_start_req_def mmc_start_request_def
        mmc_wait_for_req_done_def body_def case_prod_beta split: prod.splits if_splits)
  have "hold_credit a = hold_credit w + 1"
    using a by (auto simp: mmc_retune_hold_def hold_credit_def upd_defs split: if_splits)
  then have "hold_credit (snd (run_state mmc_retune_release b)) = hold_credit w"
    if "0 \<le> hold_credit w"
    using that bal
    by (cases "h_retune_paused (w_host b)") (auto simp: mmc_retune_release_def hold_defs split: if_splits)
  then show "holds_balanced w (snd (run_state (mmc_wait_for_req hk m) w))"
    by (simp add: run holds_balanced_def)
qed

lemma wait_for_cmd_evolves [io_rel]: "state_io_rel evolves (mmc_wait_for_cmd hk c n)"
  unfolding mmc_wait_for_cmd_def by (intro io_rel ev.rel_intros)

lemma wait_for_cmd_hold [io_hold]: "state_io_rel holds_balanced (mmc_wait_for_cmd hk c n)"
  unfolding mmc_wait_for_cmd_def by (intro io_hold hb.rel_intros)

end

section \<open>A command that succeeds was answered\<close>

text \<open>
  Two commands that differ at most in their results and retries.
\<close>

definition same_cmd :: "mmc_command \<Rightarrow> mmc_command \<Rightarrow> bool" where
  "same_cmd c d \<longleftrightarrow> cmd_opcode c = cmd_opcode d \<and> cmd_arg c = cmd_arg d \<and>
    cmd_flags c = cmd_flags d \<and> cmd_busy_timeout c = cmd_busy_timeout d \<and>
    cmd_sanitize_busy c = cmd_sanitize_busy d"

text \<open>
  The request was the last thing sent, as an event after the first \<open>n\<close>, and its result is what
  the controller answered without a command error.
\<close>

definition answered :: "nat \<Rightarrow> mmc_world \<Rightarrow> mmc_request \<Rightarrow> bool" where
  "answered n v m \<longleftrightarrow>
    (\<exists>t q. w_trace v = t @ [EvRequest q] \<and> n \<le> length t \<and>
      cpl_cmd_error (op_request (w_ops v) t q) = 0 \<and>
      m = complete_mrq (op_request (w_ops v) t q) q)"

lemma evolves_length: "evolves w v \<Longrightarrow> length (w_trace w) \<le> length (w_trace v)"
  by (auto simp: evolves_def)

lemma same_cmd_trans [trans]: "same_cmd a b \<Longrightarrow> same_cmd b c \<Longrightarrow> same_cmd a c"
  by (simp add: same_cmd_def)

lemma request_done_ok:
  assumes "run_state (mmc_request_done q) w = (m, v)"
  shows "w_trace v = w_trace w" "w_ops v = w_ops w" "cmd_error (mrq_cmd m) = cmd_error (mrq_cmd q)"
    "same_cmd (mrq_cmd m) (mrq_cmd q)" "cmd_error (mrq_cmd q) = 0 \<Longrightarrow> m = q"
  using assms
  by (auto simp: mmc_request_done_def Let_def mmc_retune_needed_def upd_defs same_cmd_def
      split: if_splits)

context request_hooks begin

lemma start_request_answered:
  assumes run: "run_state (start_request hk q) w = (m, v)" and k: "k \<le> length (w_trace w)"
  shows "same_cmd (mrq_cmd m) (mrq_cmd q)"
    and "cmd_error (mrq_cmd m) = 0 \<Longrightarrow> answered k v m"
proof -
  obtain e a where e: "run_state (hk_retune hk) w = (e, a)" by fastforce
  define tries where "tries = (case op_card_busy (w_ops a) of None \<Rightarrow> ret 1
     | Some busy \<Rightarrow> if sdio_is_io_busy (cmd_opcode (mrq_cmd q)) (cmd_arg (mrq_cmd q))
                    then sdio_busy_loop busy 500 else ret 1)"
  obtain n b where n: "run_state tries a = (n, b)" by fastforce
  obtain c where c: "run_state (io_when (h_cqe_on (w_host b)) cqe_off) b = ((), c)"
    by (rule unit_run)
  have tr: "state_io_rel evolves tries" and co: "state_io_rel evolves (io_when (h_cqe_on (w_host b)) cqe_off)"
    unfolding tries_def by (intro io_rel ev.rel_intros)+
  have "evolves w a" "evolves a b" "evolves b c"
    by (rule ev.rel_run [OF hk_retune_evolves e], rule ev.rel_run [OF tr n], rule ev.rel_run [OF co c])
  then have kc: "k \<le> length (w_trace c)"
    using k evolves_length [of w a] evolves_length [of a b] evolves_length [of b c] by simp
  have sub: "same_cmd (mrq_cmd (set_cmd_error x q)) (mrq_cmd q)"
    "cmd_error (mrq_cmd (set_cmd_error x q)) = x"
    "same_cmd (mrq_cmd (complete_mrq r q)) (mrq_cmd q)"
    "cmd_error (mrq_cmd (complete_mrq r q)) = cpl_cmd_error r" for x r
    by (simp_all add: set_cmd_error_def complete_mrq_def same_cmd_def)
  consider (retune) "e \<noteq> 0" "run_state (mmc_request_done (set_cmd_error e q)) a = (m, v)"
    | (busy) "run_state (mmc_request_done (set_cmd_error (- EBUSY) q)) b = (m, v)"
    | (sent) "run_state (mmc_request_done (complete_mrq (op_request (w_ops c) (w_trace c) q) q))
        (log_event (EvRequest q) 0 c) = (m, v)"
    using run e n c unfolding start_request_def tries_def [symmetric]
    by (simp add: tries_def [symmetric] emit_def del: run_io_when split: if_splits)
  then have "same_cmd (mrq_cmd m) (mrq_cmd q) \<and> (cmd_error (mrq_cmd m) = 0 \<longrightarrow> answered k v m)"
  proof cases
    case retune
    note d = request_done_ok [OF retune(2)]
    from d(4) sub(1) have "same_cmd (mrq_cmd m) (mrq_cmd q)" by (rule same_cmd_trans)
    with d(3) retune(1) show ?thesis by (simp add: sub)
  next
    case busy
    note d = request_done_ok [OF busy]
    from d(4) sub(1) have "same_cmd (mrq_cmd m) (mrq_cmd q)" by (rule same_cmd_trans)
    with d(3) show ?thesis by (simp add: sub)
  next
    case sent
    note d = request_done_ok [OF sent]
    from d(4) sub(3) have "same_cmd (mrq_cmd m) (mrq_cmd q)" by (rule same_cmd_trans)
    moreover have "answered k v m" if "cmd_error (mrq_cmd m) = 0"
    proof -
      from that d(3) have ok: "cpl_cmd_error (op_request (w_ops c) (w_trace c) q) = 0"
        by (simp add: sub)
      with d(5) have "m = complete_mrq (op_request (w_ops c) (w_trace c) q) q" by (simp add: sub)
      with ok d(1,2) kc show ?thesis by (auto simp: answered_def log_event_def)
    qed
    ultimately show ?thesis by blast
  qed
  then show "same_cmd (mrq_cmd m) (mrq_cmd q)"
    and "cmd_error (mrq_cmd m) = 0 \<Longrightarrow> answered k v m" by blast+
qed

lemma start_request_ok:
  "run_state (start_request hk q) w = (m, v) \<Longrightarrow> k \<le> length (w_trace w) \<Longrightarrow>
    same_cmd (mrq_cmd m) (mrq_cmd q) \<and> (cmd_error (mrq_cmd m) = 0 \<longrightarrow> answered k v m)"
  using start_request_answered by blast

lemma wait_req_loop_answered:
  assumes "wait_req_loop h q w = (m, v)" and "h = hk" and "k \<le> length (w_trace w)"
    and "\<not> cmd_sanitize_busy (mrq_cmd q)" and "cmd_error (mrq_cmd q) = 0 \<longrightarrow> answered k w q"
  shows "same_cmd (mrq_cmd m) (mrq_cmd q) \<and> (cmd_error (mrq_cmd m) = 0 \<longrightarrow> answered k v m)"
  using assms
proof (induction h q w arbitrary: m v rule: wait_req_loop.induct)
  case (1 h q w)
  have run: "wait_req_loop h q w = (m, v)" and h: "h = hk" and k: "k \<le> length (w_trace w)"
    and san: "\<not> cmd_sanitize_busy (mrq_cmd q)" and ok: "cmd_error (mrq_cmd q) = 0 \<longrightarrow> answered k w q"
    using "1.prems" by blast+
  show ?case
  proof (cases "cmd_error (mrq_cmd q) = 0 \<or> cmd_retries (mrq_cmd q) = 0 \<or> mmc_card_removed w")
    case True
    with run san ok show ?thesis
      by (auto simp: wait_req_loop.simps [of h q w] Let_def same_cmd_def)
  next
    case False
    obtain u where u: "run_state mmc_retune_recheck w = ((), u)" by (rule unit_run)
    let ?q = "q\<lparr>mrq_cmd := (mrq_cmd q)\<lparr>cmd_retries := cmd_retries (mrq_cmd q) - 1, cmd_error := 0\<rparr>\<rparr>"
    obtain n t where n: "run_state (start_request hk ?q) u = (n, t)" by fastforce
    have "evolves w u" "evolves u t"
      using ev.rel_run [OF retune_evolves(5) u] ev.rel_run [OF start_request_evolves n] by simp_all
    then have len: "k \<le> length (w_trace u)" "k \<le> length (w_trace t)"
      using k evolves_length [of w u] evolves_length [of u t] by simp_all
    note st = start_request_answered [OF n len(1)]
    have q: "same_cmd (mrq_cmd ?q) (mrq_cmd q)" by (simp add: same_cmd_def)
    have loop: "wait_req_loop hk n t = (m, v)"
      using run san False u n unfolding h by (simp add: wait_req_loop.simps [of hk q w] Let_def)
    have "\<not> cmd_sanitize_busy (mrq_cmd n)" using st(1) san by (simp add: same_cmd_def)
    with "1.IH" [of "mrq_cmd q" "(False, w)" False w "()" u n t] loop st(2) u n san False len(2)
    have "same_cmd (mrq_cmd m) (mrq_cmd n) \<and> (cmd_error (mrq_cmd m) = 0 \<longrightarrow> answered k v m)"
      unfolding h by simp
    then show ?thesis
      using same_cmd_trans [OF _ same_cmd_trans [OF st(1) q]] by blast
  qed
qed

lemma mrq_prep_cmd:
  "mmc_mrq_prep h q = (e, m) \<Longrightarrow> same_cmd (mrq_cmd m) (mrq_cmd q)"
  by (auto simp: mmc_mrq_prep_def Let_def same_cmd_def clear_error_def split: option.splits if_splits)

lemma wait_for_req_answered:
  assumes run: "run_state (mmc_wait_for_req hk q) w = (m, v)"
    and san: "\<not> cmd_sanitize_busy (mrq_cmd q)"
  defines "k \<equiv> length (w_trace w)"
  shows "same_cmd (mrq_cmd m) (mrq_cmd q) \<and> (cmd_error (mrq_cmd m) = 0 \<longrightarrow> answered k v m)"
proof -
  obtain e n a where s: "run_state (mmc_start_request hk q) w = ((e, n), a)" by (metis surj_pair)
  let ?n = "if e \<noteq> 0 then set_cmd_error e n else n"
  have hold: "k \<le> length (w_trace x)" if "run_state mmc_retune_hold w = ((), x)" for x
    using that by (auto simp: mmc_retune_hold_def upd_defs k_def split: if_splits)
  have "state_io_rel evolves (mmc_start_request hk q)"
    unfolding mmc_start_request_def by (intro io_rel ev.rel_intros)
  then have ka: "k \<le> length (w_trace a)"
    unfolding k_def using s by (intro evolves_length) (rule ev.rel_run)
  have start: "same_cmd (mrq_cmd n) (mrq_cmd q) \<and>
      (e = 0 \<longrightarrow> cmd_error (mrq_cmd n) = 0 \<longrightarrow> answered k a n)"
    using s
    by (auto simp: mmc_start_request_def same_cmd_def split: prod.splits if_splits
        dest!: mrq_prep_cmd start_request_ok [OF _ hold])
  have n': "same_cmd (mrq_cmd ?n) (mrq_cmd q)" "cmd_error (mrq_cmd ?n) = 0 \<longrightarrow> answered k a ?n"
    using start by (auto simp: set_cmd_error_def same_cmd_def)
  obtain l b where l: "wait_req_loop hk ?n a = (l, b)" by fastforce
  have v: "v = snd (run_state mmc_retune_release b)" "m = l"
    using run s l by (auto simp: mmc_wait_for_req_def mmc_start_req_def mmc_wait_for_req_done_def
        split: prod.splits if_splits)
  have "\<not> cmd_sanitize_busy (mrq_cmd ?n)" using san n'(1) by (simp add: same_cmd_def)
  from wait_req_loop_answered [OF l refl ka this n'(2)]
  have "same_cmd (mrq_cmd l) (mrq_cmd ?n)" "cmd_error (mrq_cmd l) = 0 \<longrightarrow> answered k b l" by blast+
  moreover have "answered k v x = answered k b x" for x
    unfolding v by (auto simp: answered_def mmc_retune_release_def upd_defs)
  ultimately show ?thesis using same_cmd_trans [OF _ n'(1)] v(2) by blast
qed

lemma wait_for_cmd_answered:
  assumes run: "run_state (mmc_wait_for_cmd hk c n) w = (d, v)"
    and san: "\<not> cmd_sanitize_busy c"
  shows "same_cmd d c \<and> (cmd_error d = 0 \<longrightarrow> (\<exists>m. mrq_cmd m = d \<and> answered (length (w_trace w)) v m))"
proof -
  let ?q = "mrq_of (c\<lparr>cmd_resp := [0, 0, 0, 0], cmd_retries := n\<rparr>) None"
  obtain m where m: "run_state (mmc_wait_for_req hk ?q) w = (m, v)" "d = mrq_cmd m"
    using run by (auto simp: mmc_wait_for_cmd_def split: prod.splits)
  have "\<not> cmd_sanitize_busy (mrq_cmd ?q)" using san by (simp add: mrq_of_def)
  from wait_for_req_answered [OF m(1) this] have
    "same_cmd (mrq_cmd m) (mrq_cmd ?q) \<and>
      (cmd_error (mrq_cmd m) = 0 \<longrightarrow> answered (length (w_trace w)) v m)" .
  moreover have "same_cmd (mrq_cmd ?q) c" by (simp add: same_cmd_def mrq_of_def)
  ultimately show ?thesis using m(2) same_cmd_trans by blast
qed

text \<open>What a success of a command says of the controller.\<close>

lemma cmd_sent:
  assumes "run_state (mmc_wait_for_cmd hk c n) w = (d, v)"
    and "\<not> cmd_sanitize_busy c" and "cmd_error d = 0"
  shows "\<exists>t q. w_trace v = t @ [EvRequest q] \<and> length (w_trace w) \<le> length t \<and>
    same_cmd (mrq_cmd q) c \<and> cpl_cmd_error (op_request (w_ops w) t q) = 0 \<and>
    cmd_resp d = resp4 (cpl_cmd_resp (op_request (w_ops w) t q))"
proof -
  have ops: "w_ops v = w_ops w"
    using ev.rel_run [OF wait_for_cmd_evolves assms(1)] by (simp add: evolves_def same_board_def)
  obtain m where m: "mrq_cmd m = d" "answered (length (w_trace w)) v m" "same_cmd d c"
    using wait_for_cmd_answered [OF assms(1,2)] assms(3) by blast
  then obtain t q where t: "w_trace v = t @ [EvRequest q]" "length (w_trace w) \<le> length t"
      "cpl_cmd_error (op_request (w_ops v) t q) = 0"
      "d = mrq_cmd (complete_mrq (op_request (w_ops v) t q) q)"
    by (auto simp: answered_def)
  have "same_cmd (mrq_cmd q) d" "cmd_resp d = resp4 (cpl_cmd_resp (op_request (w_ops v) t q))"
    unfolding t(4) by (simp_all add: complete_mrq_def same_cmd_def)
  with t(1-3) m(3) same_cmd_trans ops show ?thesis by auto
qed

end

end
