(* ===== verification/Mmc_Ops.thy ===== *)
theory Mmc_Ops
  imports Request_Facts
begin

text \<open>
  The commands of \<open>mmc/core/mmc_ops.c\<close>, and the data timeout of \<open>mmc/core/core.c\<close>.  A
  function with results behind pointers returns them beside its return code; they are
  meaningful where the C function stores them.  \<open>time_after\<close> compares jiffies as numbers
  that do not wrap.  A buffer that the C code leaves uninitialised holds zeros.
\<close>

section \<open>Data transfers\<close>

text \<open>
  The clock of the bus in kHz divides here: the code relies on it not being 0 for a clock
  that is not 0.
\<close>

definition mmc_set_data_timeout :: "mmc_host \<Rightarrow> mmc_card \<Rightarrow> mmc_data \<Rightarrow> mmc_data" where
  "mmc_set_data_timeout h mc d =
    (if mmc_card_sdio mc then d\<lparr>dat_timeout_ns := 1000000000, dat_timeout_clks := 0\<rparr>
     else
       (let mult = (if mmc_card_sd mc then 100 else 10);
            mult = (if MMC_DATA_WRITE \<in> dat_flags d
                    then push_bit (unat (csd_r2w_factor (cd_csd mc))) mult else mult);
            d = d\<lparr>dat_timeout_ns := csd_taac_ns (cd_csd mc) * mult,
                  dat_timeout_clks := ucast (csd_taac_clks (cd_csd mc)) * mult\<rparr>;
            d = (if mmc_card_sd mc then
                   (let timeout_us = dat_timeout_ns d div 1000;
                        timeout_us = (if ios_clock (h_ios h) \<noteq> 0
                          then timeout_us + dat_timeout_clks d * 1000 div (ios_clock (h_ios h) div 1000)
                          else timeout_us);
                        limit_us = (if MMC_DATA_WRITE \<in> dat_flags d then 3000000 else 100000);
                        d = (if timeout_us > limit_us
                             then d\<lparr>dat_timeout_ns := limit_us * 1000, dat_timeout_clks := 0\<rparr> else d)
                    in if timeout_us = 0 then d\<lparr>dat_timeout_ns := limit_us * 1000\<rparr> else d)
                 else d);
            d = (if MMC_QUIRK_LONG_READ_TIME \<in> cd_quirks mc \<and> MMC_DATA_READ \<in> dat_flags d
                 then d\<lparr>dat_timeout_ns := 600000000, dat_timeout_clks := 0\<rparr> else d)
        in if MMC_CAP_SPI \<in> h_caps h then
             if MMC_DATA_WRITE \<in> dat_flags d then
               (if dat_timeout_ns d < 1000000000 then d\<lparr>dat_timeout_ns := 1000000000\<rparr> else d)
             else (if dat_timeout_ns d < 100000000 then d\<lparr>dat_timeout_ns := 100000000\<rparr> else d)
           else d))"

definition mmc_align_data_size :: "u32 \<Rightarrow> u32" where
  "mmc_align_data_size sz = ((sz + 3) div 4) * 4"

section \<open>Status and selection\<close>

abbreviation (input) MMC_CMD_RETRIES :: nat where "MMC_CMD_RETRIES \<equiv> 3"
abbreviation (input) MMC_OPS_TIMEOUT_MS :: u32 where "MMC_OPS_TIMEOUT_MS \<equiv> 10 * 60 * 1000"

definition rca_arg :: "mmc_world \<Rightarrow> u32" where
  "rca_arg w = push_bit 16 (cd_rca (w_card w))"

text \<open>\<open>__mmc_send_status\<close>.\<close>

definition send_status_retries :: "io_hooks \<Rightarrow> nat \<Rightarrow> (int \<times> u32) io" where
  "send_status_retries hk retries = do {
     w \<leftarrow> gets id;
     cmd \<leftarrow> mmc_wait_for_cmd hk (cmd0\<lparr>cmd_opcode := MMC_SEND_STATUS,
       cmd_arg := (if mmc_host_is_spi w then 0 else rca_arg w),
       cmd_flags := {MMC_RSP_SPI_R2, MMC_RSP_R1, MMC_CMD_AC}\<rparr>) retries;
     if cmd_error cmd \<noteq> 0 then ret (cmd_error cmd, 0) else ret (0, cmd_resp cmd ! 0)
   }"

definition mmc_send_status :: "io_hooks \<Rightarrow> (int \<times> u32) io" where
  "mmc_send_status hk = send_status_retries hk MMC_CMD_RETRIES"

text \<open>\<open>_mmc_select_card\<close>; the flag tells whether a card is selected or all deselected.\<close>

definition select_card :: "io_hooks \<Rightarrow> bool \<Rightarrow> int io" where
  "select_card hk sel = do {
     w \<leftarrow> gets id;
     cmd \<leftarrow> mmc_wait_for_cmd hk (cmd0\<lparr>cmd_opcode := MMC_SELECT_CARD,
       cmd_arg := (if sel then rca_arg w else 0),
       cmd_flags := (if sel then {MMC_RSP_R1, MMC_CMD_AC} else {MMC_RSP_NONE, MMC_CMD_AC})\<rparr>)
       MMC_CMD_RETRIES;
     ret (cmd_error cmd)
   }"

definition mmc_select_card :: "io_hooks \<Rightarrow> int io" where
  "mmc_select_card hk = select_card hk True"

definition mmc_deselect_cards :: "io_hooks \<Rightarrow> int io" where
  "mmc_deselect_cards hk = select_card hk False"

definition mmc_set_dsr :: "io_hooks \<Rightarrow> int io" where
  "mmc_set_dsr hk = do {
     w \<leftarrow> gets id;
     cmd \<leftarrow> mmc_wait_for_cmd hk (cmd0\<lparr>cmd_opcode := MMC_SET_DSR,
       cmd_arg := push_bit 16 (h_dsr (w_host w)) OR 0xFFFF,
       cmd_flags := {MMC_RSP_NONE, MMC_CMD_AC}\<rparr>) MMC_CMD_RETRIES;
     ret (cmd_error cmd)
   }"

section \<open>Identification\<close>

definition mmc_go_idle :: "io_hooks \<Rightarrow> int io" where
  "mmc_go_idle hk = do {
     w \<leftarrow> gets id;
     io_when (\<not> mmc_host_is_spi w) (do { mmc_set_chip_select MMC_CS_HIGH; mmc_delay 1 });
     cmd \<leftarrow> mmc_wait_for_cmd hk (cmd0\<lparr>cmd_opcode := MMC_GO_IDLE_STATE, cmd_arg := 0,
       cmd_flags := {MMC_RSP_SPI_R1, MMC_RSP_NONE, MMC_CMD_BC}\<rparr>) 0;
     mmc_delay 1;
     io_when (\<not> mmc_host_is_spi w) (do { mmc_set_chip_select MMC_CS_DONTCARE; mmc_delay 1 });
     modify (upd_host (\<lambda>h. h\<lparr>h_use_spi_crc := False\<rparr>));
     ret (cmd_error cmd)
   }"

text \<open>The loop of \<open>mmc_send_op_cond\<close>: the return code and the last command.\<close>

fun op_cond_loop :: "io_hooks \<Rightarrow> u32 \<Rightarrow> nat \<Rightarrow> int \<Rightarrow> mmc_command \<Rightarrow> (int \<times> mmc_command) io" where
  "op_cond_loop hk ocr 0 err cmd = ret (err, cmd)"
| "op_cond_loop hk ocr (Suc i) err cmd = do {
     cmd \<leftarrow> mmc_wait_for_cmd hk cmd 0;
     w \<leftarrow> gets id;
     if cmd_error cmd \<noteq> 0 then ret (cmd_error cmd, cmd)
     else if ocr = 0 then ret (0, cmd)
     else if mmc_host_is_spi w \<and> cmd_resp cmd ! 0 AND R1_SPI_IDLE = 0 then ret (0, cmd)
     else if \<not> mmc_host_is_spi w \<and> cmd_resp cmd ! 0 AND MMC_CARD_BUSY \<noteq> 0 then ret (0, cmd)
     else do { mmc_delay 10; op_cond_loop hk ocr i (- ETIMEDOUT) cmd }
   }"

text \<open>The second result is what is stored through \<open>rocr\<close>, on hosts that are not SPI.\<close>

definition mmc_send_op_cond :: "io_hooks \<Rightarrow> u32 \<Rightarrow> (int \<times> u32 option) io" where
  "mmc_send_op_cond hk ocr = do {
     w \<leftarrow> gets id;
     r \<leftarrow> op_cond_loop hk ocr 100 0 (cmd0\<lparr>cmd_opcode := MMC_SEND_OP_COND,
       cmd_arg := (if mmc_host_is_spi w then 0 else ocr),
       cmd_flags := {MMC_RSP_SPI_R1, MMC_RSP_R3, MMC_CMD_BCR}\<rparr>);
     w \<leftarrow> gets id;
     ret (fst r, if mmc_host_is_spi w then None else Some (cmd_resp (snd r) ! 0))
   }"

definition mmc_set_relative_addr :: "io_hooks \<Rightarrow> int io" where
  "mmc_set_relative_addr hk = do {
     w \<leftarrow> gets id;
     cmd \<leftarrow> mmc_wait_for_cmd hk (cmd0\<lparr>cmd_opcode := MMC_SET_RELATIVE_ADDR,
       cmd_arg := rca_arg w, cmd_flags := {MMC_RSP_R1, MMC_CMD_AC}\<rparr>) MMC_CMD_RETRIES;
     ret (cmd_error cmd)
   }"

section \<open>Registers\<close>

definition mmc_send_cxd_native :: "io_hooks \<Rightarrow> u32 \<Rightarrow> u32 \<Rightarrow> (int \<times> u32 list) io" where
  "mmc_send_cxd_native hk arg opcode = do {
     cmd \<leftarrow> mmc_wait_for_cmd hk (cmd0\<lparr>cmd_opcode := opcode, cmd_arg := arg,
       cmd_flags := {MMC_RSP_R2, MMC_CMD_AC}\<rparr>) MMC_CMD_RETRIES;
     if cmd_error cmd \<noteq> 0 then ret (cmd_error cmd, []) else ret (0, cmd_resp cmd)
   }"

text \<open>\<open>buf\<close> is the content of the caller's buffer, whose length is \<open>len\<close>.\<close>

definition mmc_send_cxd_data :: "io_hooks \<Rightarrow> u32 \<Rightarrow> u8 list \<Rightarrow> (int \<times> u8 list) io" where
  "mmc_send_cxd_data hk opcode buf = do {
     w \<leftarrow> gets id;
     let len = of_nat (length buf);
     let d = dat0\<lparr>dat_blksz := len, dat_blocks := 1, dat_flags := {MMC_DATA_READ},
       dat_sg := [len], dat_buf := buf\<rparr>;
     let d = (if opcode = MMC_SEND_CSD \<or> opcode = MMC_SEND_CID
       then d\<lparr>dat_timeout_ns := 0, dat_timeout_clks := 64\<rparr>
       else mmc_set_data_timeout (w_host w) (w_card w) d);
     mrq \<leftarrow> mmc_wait_for_req hk (mrq_of (cmd0\<lparr>cmd_opcode := opcode, cmd_arg := 0,
       cmd_flags := {MMC_RSP_SPI_R1, MMC_RSP_R1, MMC_CMD_ADTC}\<rparr>) (Some d));
     ret (case mrq_data mrq of
         None \<Rightarrow> (cmd_error (mrq_cmd mrq), buf)
       | Some d \<Rightarrow> (if cmd_error (mrq_cmd mrq) \<noteq> 0 then cmd_error (mrq_cmd mrq) else dat_error d,
                    dat_buf d))
   }"

text \<open>\<open>kzalloc\<close> of a number of bytes succeeds or not.\<close>

definition kzalloc :: "nat \<Rightarrow> bool io" where
  "kzalloc n = do {
     w \<leftarrow> gets id;
     emit (EvAlloc n) 0;
     ret (kn_alloc (w_kernel w) (w_trace w) n)
   }"

definition be32_to_cpu :: "u8 list \<Rightarrow> nat \<Rightarrow> u32" where
  "be32_to_cpu b i = push_bit 24 (ucast (b ! (4 * i))) OR push_bit 16 (ucast (b ! (4 * i + 1)))
     OR push_bit 8 (ucast (b ! (4 * i + 2))) OR ucast (b ! (4 * i + 3))"

text \<open>\<open>mmc_spi_send_csd\<close> and \<open>mmc_spi_send_cid\<close>, which differ in the command.\<close>

definition spi_send_cxd :: "io_hooks \<Rightarrow> u32 \<Rightarrow> (int \<times> u32 list) io" where
  "spi_send_cxd hk opcode = do {
     ok \<leftarrow> kzalloc 16;
     if \<not> ok then ret (- ENOMEM, [])
     else do {
       r \<leftarrow> mmc_send_cxd_data hk opcode (replicate 16 0);
       if fst r \<noteq> 0 then ret (fst r, []) else ret (0, map (be32_to_cpu (snd r)) [0..<4])
     }
   }"

definition mmc_spi_send_csd :: "io_hooks \<Rightarrow> (int \<times> u32 list) io" where
  "mmc_spi_send_csd hk = spi_send_cxd hk MMC_SEND_CSD"

definition mmc_send_csd :: "io_hooks \<Rightarrow> (int \<times> u32 list) io" where
  "mmc_send_csd hk = do {
     w \<leftarrow> gets id;
     if mmc_host_is_spi w then mmc_spi_send_csd hk
     else mmc_send_cxd_native hk (rca_arg w) MMC_SEND_CSD
   }"

definition mmc_spi_send_cid :: "io_hooks \<Rightarrow> (int \<times> u32 list) io" where
  "mmc_spi_send_cid hk = spi_send_cxd hk MMC_SEND_CID"

definition mmc_send_cid :: "io_hooks \<Rightarrow> (int \<times> u32 list) io" where
  "mmc_send_cid hk = do {
     w \<leftarrow> gets id;
     if mmc_host_is_spi w then mmc_spi_send_cid hk
     else mmc_send_cxd_native hk 0 MMC_ALL_SEND_CID
   }"

definition mmc_can_ext_csd :: "mmc_card \<Rightarrow> bool" where
  "mmc_can_ext_csd mc \<longleftrightarrow> csd_mmca_vsn (cd_csd mc) > CSD_SPEC_VER_3"

definition mmc_get_ext_csd :: "io_hooks \<Rightarrow> (int \<times> u8 list) io" where
  "mmc_get_ext_csd hk = do {
     w \<leftarrow> gets id;
     if \<not> mmc_can_ext_csd (w_card w) then ret (- EOPNOTSUPP, [])
     else do {
       ok \<leftarrow> kzalloc 512;
       if \<not> ok then ret (- ENOMEM, [])
       else mmc_send_cxd_data hk MMC_SEND_EXT_CSD (replicate 512 0)
     }
   }"

definition mmc_spi_read_ocr :: "io_hooks \<Rightarrow> bool \<Rightarrow> (int \<times> u32) io" where
  "mmc_spi_read_ocr hk highcap = do {
     cmd \<leftarrow> mmc_wait_for_cmd hk (cmd0\<lparr>cmd_opcode := MMC_SPI_READ_OCR,
       cmd_arg := (if highcap then push_bit 30 1 else 0), cmd_flags := {MMC_RSP_SPI_R3}\<rparr>) 0;
     ret (cmd_error cmd, cmd_resp cmd ! 1)
   }"

definition mmc_spi_set_crc :: "io_hooks \<Rightarrow> bool \<Rightarrow> int io" where
  "mmc_spi_set_crc hk use_crc = do {
     cmd \<leftarrow> mmc_wait_for_cmd hk (cmd0\<lparr>cmd_opcode := MMC_SPI_CRC_ON_OFF,
       cmd_flags := {MMC_RSP_SPI_R1}, cmd_arg := b2w use_crc\<rparr>) 0;
     io_when (cmd_error cmd = 0) (modify (upd_host (\<lambda>h. h\<lparr>h_use_spi_crc := use_crc\<rparr>)));
     ret (cmd_error cmd)
   }"

section \<open>Switching EXT_CSD bytes\<close>

definition mmc_switch_status_error :: "mmc_world \<Rightarrow> u32 \<Rightarrow> int" where
  "mmc_switch_status_error w status =
    (if mmc_host_is_spi w then (if status AND R1_SPI_ILLEGAL_COMMAND \<noteq> 0 then - EBADMSG else 0)
     else if status AND R1_SWITCH_ERROR \<noteq> 0 then - EBADMSG else 0)"

text \<open>\<open>__mmc_switch_status\<close>.\<close>

definition switch_status :: "io_hooks \<Rightarrow> bool \<Rightarrow> int io" where
  "switch_status hk crc_err_fatal = do {
     r \<leftarrow> mmc_send_status hk;
     w \<leftarrow> gets id;
     ret (if \<not> crc_err_fatal \<and> fst r = - EILSEQ then 0
          else if fst r \<noteq> 0 then fst r else mmc_switch_status_error w (snd r))
   }"

definition mmc_switch_status :: "io_hooks \<Rightarrow> int io" where
  "mmc_switch_status hk = switch_status hk True"

text \<open>
  One pass of the loop of \<open>mmc_poll_for_busy\<close>: the return code, or None to go on.  The loop
  cannot go on after the last nanosecond of the tick \<open>timeout\<close>.
\<close>

definition time_limit :: "mmc_world \<Rightarrow> nat \<Rightarrow> nat" where
  "time_limit w timeout = Suc timeout * Suc (kn_tick (w_kernel w))"

definition poll_busy_body :: "io_hooks \<Rightarrow> nat \<Rightarrow> bool \<Rightarrow> int option io" where
  "poll_busy_body hk timeout retry_crc_err = do {
     now \<leftarrow> jiffies;
     let expired = now > timeout;
     w \<leftarrow> gets id;
     r \<leftarrow> (case op_card_busy (w_ops w) of
         Some f \<Rightarrow> do { b \<leftarrow> card_busy f; ret (0, b) }
       | None \<Rightarrow> do {
           s \<leftarrow> mmc_send_status hk;
           w \<leftarrow> gets id;
           ret (if retry_crc_err \<and> fst s = - EILSEQ then (0, True)
                else if fst s \<noteq> 0 then (fst s, False)
                else (mmc_switch_status_error w (snd s), R1_CURRENT_STATE (snd s) = R1_STATE_PRG))
         });
     ret (if fst r \<noteq> 0 then Some (fst r)
          else if expired \<and> snd r then Some (- ETIMEDOUT)
          else if snd r then None else Some 0)
   }"

definition mmc_poll_for_busy :: "io_hooks \<Rightarrow> u32 \<Rightarrow> bool \<Rightarrow> bool \<Rightarrow> int io" where
  "mmc_poll_for_busy hk timeout_ms send_status retry_crc_err = do {
     let timeout_ms = (if timeout_ms = 0 then MMC_OPS_TIMEOUT_MS else timeout_ms);
     w \<leftarrow> gets id;
     if \<not> send_status \<and> op_card_busy (w_ops w) = None
     then do { mmc_delay timeout_ms; ret 0 }
     else do {
       now \<leftarrow> jiffies;
       let timeout = now + kn_msecs_to_jiffies (w_kernel w) timeout_ms + 1;
       poll_until (time_limit w timeout) (- ETIMEDOUT) (poll_busy_body hk timeout retry_crc_err)
     }
   }"

text \<open>
  \<open>__mmc_switch\<close>.  The timing \<open>MMC_TIMING_LEGACY\<close> is 0 and stands for no change of timing.
\<close>

definition switch_cmd :: "u8 \<Rightarrow> nat \<Rightarrow> u8 \<Rightarrow> u32 \<Rightarrow> bool \<Rightarrow> mmc_command" where
  "switch_cmd cset index val timeout_ms use_r1b_resp =
    cmd0\<lparr>cmd_opcode := MMC_SWITCH,
      cmd_arg := push_bit 24 MMC_SWITCH_MODE_WRITE_BYTE OR push_bit 16 (of_nat index)
        OR push_bit 8 (ucast val) OR ucast cset,
      cmd_flags := insert MMC_CMD_AC
        (if use_r1b_resp then {MMC_RSP_SPI_R1B, MMC_RSP_R1B} else {MMC_RSP_SPI_R1, MMC_RSP_R1}),
      cmd_busy_timeout := (if use_r1b_resp then timeout_ms else 0),
      cmd_sanitize_busy := (index = EXT_CSD_SANITIZE_START)\<rparr>"

definition switch_finish :: "io_hooks \<Rightarrow> mmc_timing \<Rightarrow> mmc_timing \<Rightarrow> bool \<Rightarrow> int io" where
  "switch_finish hk old_timing timing send_status = do {
     io_when (timing \<noteq> MMC_TIMING_LEGACY) (mmc_set_timing timing);
     if send_status then do {
       err \<leftarrow> mmc_switch_status hk;
       io_when (err \<noteq> 0 \<and> timing \<noteq> MMC_TIMING_LEGACY) (mmc_set_timing old_timing);
       ret err
     } else ret 0
   }"

definition mmc_switch_full ::
  "io_hooks \<Rightarrow> u8 \<Rightarrow> nat \<Rightarrow> u8 \<Rightarrow> u32 \<Rightarrow> mmc_timing \<Rightarrow> bool \<Rightarrow> bool \<Rightarrow> bool \<Rightarrow> int io" where
  "mmc_switch_full hk cset index val timeout_ms timing use_busy_signal send_status retry_crc_err =
   do {
     w \<leftarrow> gets id;
     let old_timing = ios_timing (w_ios w);
     mmc_retune_hold;
     let use_r1b_resp = use_busy_signal \<and>
       \<not> (timeout_ms \<noteq> 0 \<and> h_max_busy_timeout (w_host w) \<noteq> 0
          \<and> timeout_ms > h_max_busy_timeout (w_host w));
     cmd \<leftarrow> mmc_wait_for_cmd hk (switch_cmd cset index val timeout_ms use_r1b_resp) MMC_CMD_RETRIES;
     err \<leftarrow> (if cmd_error cmd \<noteq> 0 then ret (cmd_error cmd)
       else if \<not> use_busy_signal then ret 0
       else if MMC_CAP_WAIT_WHILE_BUSY \<in> h_caps (w_host w) \<and> use_r1b_resp \<or> mmc_host_is_spi w
       then switch_finish hk old_timing timing send_status
       else do {
         err \<leftarrow> mmc_poll_for_busy hk timeout_ms send_status retry_crc_err;
         if err \<noteq> 0 then ret err else switch_finish hk old_timing timing send_status
       });
     mmc_retune_release;
     ret err
   }"

definition mmc_switch :: "io_hooks \<Rightarrow> u8 \<Rightarrow> nat \<Rightarrow> u8 \<Rightarrow> u32 \<Rightarrow> int io" where
  "mmc_switch hk cset index val timeout_ms =
     mmc_switch_full hk cset index val timeout_ms MMC_TIMING_LEGACY True True False"

section \<open>Tuning and bus test\<close>

definition tuning_blk_pattern_4bit :: "u8 list" where
  "tuning_blk_pattern_4bit =
    [0xff, 0x0f, 0xff, 0x00, 0xff, 0xcc, 0xc3, 0xcc, 0xc3, 0x3c, 0xcc, 0xff, 0xfe, 0xff, 0xfe, 0xef,
     0xff, 0xdf, 0xff, 0xdd, 0xff, 0xfb, 0xff, 0xfb, 0xbf, 0xff, 0x7f, 0xff, 0x77, 0xf7, 0xbd, 0xef,
     0xff, 0xf0, 0xff, 0xf0, 0x0f, 0xfc, 0xcc, 0x3c, 0xcc, 0x33, 0xcc, 0xcf, 0xff, 0xef, 0xff, 0xee,
     0xff, 0xfd, 0xff, 0xfd, 0xdf, 0xff, 0xbf, 0xff, 0xbb, 0xff, 0xf7, 0xff, 0xf7, 0x7f, 0x7b, 0xde]"

definition tuning_blk_pattern_8bit :: "u8 list" where
  "tuning_blk_pattern_8bit =
    [0xff, 0xff, 0x00, 0xff, 0xff, 0xff, 0x00, 0x00, 0xff, 0xff, 0xcc, 0xcc, 0xcc, 0x33, 0xcc, 0xcc,
     0xcc, 0x33, 0x33, 0xcc, 0xcc, 0xcc, 0xff, 0xff, 0xff, 0xee, 0xff, 0xff, 0xff, 0xee, 0xee, 0xff,
     0xff, 0xff, 0xdd, 0xff, 0xff, 0xff, 0xdd, 0xdd, 0xff, 0xff, 0xff, 0xbb, 0xff, 0xff, 0xff, 0xbb,
     0xbb, 0xff, 0xff, 0xff, 0x77, 0xff, 0xff, 0xff, 0x77, 0x77, 0xff, 0x77, 0xbb, 0xdd, 0xee, 0xff,
     0xff, 0xff, 0xff, 0x00, 0xff, 0xff, 0xff, 0x00, 0x00, 0xff, 0xff, 0xcc, 0xcc, 0xcc, 0x33, 0xcc,
     0xcc, 0xcc, 0x33, 0x33, 0xcc, 0xcc, 0xcc, 0xff, 0xff, 0xff, 0xee, 0xff, 0xff, 0xff, 0xee, 0xee,
     0xff, 0xff, 0xff, 0xdd, 0xff, 0xff, 0xff, 0xdd, 0xdd, 0xff, 0xff, 0xff, 0xbb, 0xff, 0xff, 0xff,
     0xbb, 0xbb, 0xff, 0xff, 0xff, 0x77, 0xff, 0xff, 0xff, 0x77, 0x77, 0xff, 0x77, 0xbb, 0xdd, 0xee]"

text \<open>The results are the return code and \<open>*cmd_error\<close>, if it is stored.\<close>

definition mmc_send_tuning :: "io_hooks \<Rightarrow> u32 \<Rightarrow> (int \<times> int option) io" where
  "mmc_send_tuning hk opcode = do {
     w \<leftarrow> gets id;
     let width = ios_bus_width (w_ios w);
     if width \<noteq> MMC_BUS_WIDTH_8 \<and> width \<noteq> MMC_BUS_WIDTH_4 then ret (- EINVAL, None)
     else do {
       let pattern = (if width = MMC_BUS_WIDTH_8 then tuning_blk_pattern_8bit
                      else tuning_blk_pattern_4bit);
       let sz = length pattern;
       ok \<leftarrow> kzalloc sz;
       if \<not> ok then ret (- ENOMEM, None)
       else do {
         mrq \<leftarrow> mmc_wait_for_req hk (mrq_of
           (cmd0\<lparr>cmd_opcode := opcode, cmd_flags := {MMC_RSP_R1, MMC_CMD_ADTC}\<rparr>)
           (Some (dat0\<lparr>dat_blksz := of_nat sz, dat_blocks := 1, dat_flags := {MMC_DATA_READ},
             dat_timeout_ns := 150 * 1000000, dat_sg := [of_nat sz],
             dat_buf := replicate sz 0\<rparr>)));
         let cerr = cmd_error (mrq_cmd mrq);
         ret (if cerr \<noteq> 0 then cerr
              else (case mrq_data mrq of None \<Rightarrow> 0
                    | Some d \<Rightarrow> if dat_error d \<noteq> 0 then dat_error d
                              else if dat_buf d \<noteq> pattern then - EIO else 0), Some cerr)
       }
     }
   }"

definition mmc_abort_tuning :: "io_hooks \<Rightarrow> u32 \<Rightarrow> int io" where
  "mmc_abort_tuning hk opcode =
    (if opcode \<noteq> MMC_SEND_TUNING_BLOCK_HS200 then ret 0
     else do {
       cmd \<leftarrow> mmc_wait_for_cmd hk (cmd0\<lparr>cmd_opcode := MMC_STOP_TRANSMISSION,
         cmd_flags := {MMC_RSP_SPI_R1, MMC_RSP_R1, MMC_CMD_AC}, cmd_busy_timeout := 150\<rparr>) 0;
       ret (cmd_error cmd)
     })"

definition testdata_8bit :: "u8 list" where
  "testdata_8bit = [0x55, 0xaa, 0, 0, 0, 0, 0, 0]"

definition testdata_4bit :: "u8 list" where
  "testdata_4bit = [0x5a, 0, 0, 0]"

text \<open>The comparison reads the first quarter of the bytes, which must be inverted.\<close>

definition bus_test_ok :: "nat \<Rightarrow> u8 list \<Rightarrow> u8 list \<Rightarrow> bool" where
  "bus_test_ok len test buf \<longleftrightarrow> list_all (\<lambda>i. test ! i XOR buf ! i = 0xFF) [0..<len div 4]"

definition mmc_send_bus_test :: "io_hooks \<Rightarrow> u32 \<Rightarrow> nat \<Rightarrow> int io" where
  "mmc_send_bus_test hk opcode len = do {
     w \<leftarrow> gets id;
     ok \<leftarrow> kzalloc len;
     if \<not> ok then ret (- ENOMEM)
     else if len \<noteq> 8 \<and> len \<noteq> 4 then ret (- EINVAL)
     else do {
       let test = (if len = 8 then testdata_8bit else testdata_4bit);
       let d = dat0\<lparr>dat_blksz := of_nat len, dat_blocks := 1,
         dat_flags := (if opcode = MMC_BUS_TEST_R then {MMC_DATA_READ} else {MMC_DATA_WRITE}),
         dat_sg := [of_nat len],
         dat_buf := (if opcode = MMC_BUS_TEST_W then test else replicate len 0)\<rparr>;
       mrq \<leftarrow> mmc_wait_for_req hk (mrq_of (cmd0\<lparr>cmd_opcode := opcode, cmd_arg := 0,
         cmd_flags := {MMC_RSP_SPI_R1, MMC_RSP_R1, MMC_CMD_ADTC}\<rparr>)
         (Some (mmc_set_data_timeout (w_host w) (w_card w) d)));
       ret (case mrq_data mrq of None \<Rightarrow> cmd_error (mrq_cmd mrq)
            | Some d \<Rightarrow>
                if cmd_error (mrq_cmd mrq) \<noteq> 0 then cmd_error (mrq_cmd mrq)
                else if dat_error d \<noteq> 0 then dat_error d
                else if opcode = MMC_BUS_TEST_R \<and> \<not> bus_test_ok len test (dat_buf d) then - EIO
                else 0)
     }
   }"

definition mmc_bus_test :: "io_hooks \<Rightarrow> int \<Rightarrow> int io" where
  "mmc_bus_test hk bus_width =
    (if bus_width = MMC_BUS_WIDTH_1 then ret 0
     else if bus_width \<noteq> MMC_BUS_WIDTH_8 \<and> bus_width \<noteq> MMC_BUS_WIDTH_4 then ret (- EINVAL)
     else do {
       let width = (if bus_width = MMC_BUS_WIDTH_8 then 8 else 4);
       mmc_send_bus_test hk MMC_BUS_TEST_W width;
       mmc_send_bus_test hk MMC_BUS_TEST_R width
     })"

section \<open>High priority interrupt\<close>

definition mmc_send_hpi_cmd :: "io_hooks \<Rightarrow> (int \<times> u32) io" where
  "mmc_send_hpi_cmd hk = do {
     w \<leftarrow> gets id;
     if \<not> ec_hpi (cd_ext_csd (w_card w)) then ret (- EINVAL, 0)
     else do {
       let opcode = ec_hpi_cmd (cd_ext_csd (w_card w));
       cmd \<leftarrow> mmc_wait_for_cmd hk (cmd0\<lparr>cmd_opcode := opcode, cmd_arg := rca_arg w OR 1,
         cmd_flags := (if opcode = MMC_STOP_TRANSMISSION then {MMC_RSP_R1B, MMC_CMD_AC}
           else if opcode = MMC_SEND_STATUS then {MMC_RSP_R1, MMC_CMD_AC} else {})\<rparr>) 0;
       if cmd_error cmd \<noteq> 0 then ret (cmd_error cmd, 0) else ret (0, cmd_resp cmd ! 0)
     }
   }"

definition hpi_poll_body :: "io_hooks \<Rightarrow> nat \<Rightarrow> int option io" where
  "hpi_poll_body hk prg_wait = do {
     s \<leftarrow> mmc_send_status hk;
     if fst s = 0 \<and> R1_CURRENT_STATE (snd s) = R1_STATE_TRAN then ret (Some 0)
     else do {
       now \<leftarrow> jiffies;
       let err = (if now > prg_wait then - ETIMEDOUT else fst s);
       ret (if err = 0 then None else Some err)
     }
   }"

definition interrupt_hpi :: "io_hooks \<Rightarrow> int io" where
  "interrupt_hpi hk = do {
     w \<leftarrow> gets id;
     if \<not> ec_hpi_en (cd_ext_csd (w_card w)) then ret 1
     else do {
       s \<leftarrow> mmc_send_status hk;
       let st = R1_CURRENT_STATE (snd s);
       if fst s \<noteq> 0 then ret (fst s)
       else if st = R1_STATE_IDLE \<or> st = R1_STATE_READY \<or> st = R1_STATE_STBY \<or> st = R1_STATE_TRAN
       then ret 0
       else if st \<noteq> R1_STATE_PRG then ret (- EINVAL)
       else do {
         r \<leftarrow> mmc_send_hpi_cmd hk;
         if fst r \<noteq> 0 then ret (fst r)
         else do {
           now \<leftarrow> jiffies;
           w \<leftarrow> gets id;
           let prg_wait = now +
             kn_msecs_to_jiffies (w_kernel w) (ec_out_of_int_time (cd_ext_csd (w_card w)));
           poll_until (time_limit w prg_wait) (- ETIMEDOUT) (hpi_poll_body hk prg_wait)
         }
       }
     }
   }"

section \<open>Background operations, cache, command queue\<close>

text \<open>\<open>mmc_interrupt_hpi\<close> is the hook.\<close>

definition mmc_stop_bkops :: "io_hooks \<Rightarrow> int io" where
  "mmc_stop_bkops hk = do {
     err \<leftarrow> hk_hpi hk;
     if err = 0 \<or> err = - EINVAL then do {
       modify (upd_card (card_clr_state MMC_STATE_DOING_BKOPS));
       mmc_retune_release;
       ret 0
     } else ret err
   }"

definition mmc_read_bkops_status :: "io_hooks \<Rightarrow> int io" where
  "mmc_read_bkops_status hk = do {
     r \<leftarrow> mmc_get_ext_csd hk;
     if fst r \<noteq> 0 then ret (fst r)
     else do {
       modify (upd_card (upd_ec (\<lambda>x. x\<lparr>raw_bkops_status := snd r ! EXT_CSD_BKOPS_STATUS,
         raw_exception_status := snd r ! EXT_CSD_EXP_EVENTS_STATUS\<rparr>)));
       ret 0
     }
   }"

definition mmc_start_bkops :: "io_hooks \<Rightarrow> bool \<Rightarrow> unit io" where
  "mmc_start_bkops hk from_exception = do {
     w \<leftarrow> gets id;
     if \<not> ec_man_bkops_en (cd_ext_csd (w_card w)) \<or> card_state MMC_STATE_DOING_BKOPS (w_card w)
     then ret ()
     else do {
       err \<leftarrow> mmc_read_bkops_status hk;
       w \<leftarrow> gets id;
       let status = raw_bkops_status (cd_ext_csd (w_card w));
       if err \<noteq> 0 \<or> status = 0 \<or> status < EXT_CSD_BKOPS_LEVEL_2 \<and> from_exception then ret ()
       else do {
         let use_busy_signal = (status \<ge> EXT_CSD_BKOPS_LEVEL_2);
         let timeout = (if use_busy_signal then MMC_OPS_TIMEOUT_MS else 0);
         mmc_retune_hold;
         err \<leftarrow> mmc_switch_full hk EXT_CSD_CMD_SET_NORMAL EXT_CSD_BKOPS_START 1 timeout
           MMC_TIMING_LEGACY use_busy_signal True False;
         if err \<noteq> 0 then mmc_retune_release
         else if \<not> use_busy_signal then modify (upd_card (card_set_state MMC_STATE_DOING_BKOPS))
         else mmc_retune_release
       }
     }
   }"

definition mmc_flush_cache :: "io_hooks \<Rightarrow> int io" where
  "mmc_flush_cache hk = do {
     w \<leftarrow> gets id;
     let x = cd_ext_csd (w_card w);
     if mmc_card_mmc (w_card w) \<and> ec_cache_size x > 0 \<and> ec_cache_ctrl x AND 1 \<noteq> 0
     then mmc_switch hk EXT_CSD_CMD_SET_NORMAL EXT_CSD_FLUSH_CACHE 1 0
     else ret 0
   }"

definition mmc_cmdq_switch :: "io_hooks \<Rightarrow> bool \<Rightarrow> int io" where
  "mmc_cmdq_switch hk enable = do {
     w \<leftarrow> gets id;
     let x = cd_ext_csd (w_card w);
     if \<not> ec_cmdq_support x then ret (- EOPNOTSUPP)
     else do {
       err \<leftarrow> mmc_switch hk EXT_CSD_CMD_SET_NORMAL EXT_CSD_CMDQ_MODE_EN
         (if enable then EXT_CSD_CMDQ_MODE_ENABLED else 0) (ec_generic_cmd6_time x);
       io_when (err = 0) (modify (upd_card (upd_ec (\<lambda>x. x\<lparr>ec_cmdq_en := enable\<rparr>))));
       ret err
     }
   }"

definition mmc_cmdq_enable :: "io_hooks \<Rightarrow> int io" where
  "mmc_cmdq_enable hk = mmc_cmdq_switch hk True"

definition mmc_cmdq_disable :: "io_hooks \<Rightarrow> int io" where
  "mmc_cmdq_disable hk = mmc_cmdq_switch hk False"

end
