(* ===== verification/Mmc_Ops_Facts.thy ===== *)
theory Mmc_Ops_Facts
  imports Mmc_Ops
begin

text \<open>
  Every command of \<open>Mmc_Ops\<close> evolves the world and balances its holds, and what the polling
  loops, the switch command and the data timeout compute.
\<close>

section \<open>Polling loops of commands\<close>

lemma evolves_now: "evolves w v \<Longrightarrow> w_now w \<le> w_now v"
  by (auto simp: evolves_def)

lemma jiffies_run:
  "run_state jiffies w = (jiffies_of (log_event EvJiffies 0 w), log_event EvJiffies 0 w)"
  by (simp add: jiffies_def emit_def)

lemma log_now: "w_now w < w_now (log_event e n w)"
  by (simp add: log_event_def)

lemma jiffies_mono: "evolves w v \<Longrightarrow> jiffies_of w \<le> jiffies_of v"
  by (auto simp: jiffies_of_def evolves_def same_board_def intro: div_le_mono)

text \<open>A tick that is not past the deadline starts before the limit.\<close>

lemma time_limitI: "jiffies_of w \<le> timeout \<Longrightarrow> w_now w \<le> time_limit w timeout"
proof -
  let ?T = "Suc (kn_tick (w_kernel w))"
  assume "jiffies_of w \<le> timeout"
  then have "w_now w div ?T \<le> timeout" by (simp add: jiffies_of_def)
  then have "w_now w div ?T * ?T \<le> timeout * ?T" by (rule mult_le_mono1)
  moreover have "w_now w mod ?T < ?T" by simp
  ultimately have "w_now w \<le> timeout * ?T + ?T"
    using div_mult_mod_eq [of "w_now w" ?T] by linarith
  then show ?thesis by (simp add: time_limit_def add.commute)
qed

lemma time_limit_board: "same_board w v \<Longrightarrow> time_limit v t = time_limit w t"
  by (simp add: time_limit_def same_board_def)

lemma poll_until_rel [io_rel, io_hold]:
  "state_io_rel evolves body \<Longrightarrow> state_io_rel evolves (poll_until limit stuck body)"
  "state_io_rel holds_balanced body \<Longrightarrow> state_io_rel holds_balanced (poll_until limit stuck body)"
  by (intro io_poll_rel ev.io_preorder_axioms; assumption)
    (intro io_poll_rel hb.io_preorder_axioms; assumption)

section \<open>Evolution and balance\<close>

lemma kzalloc_rel [io_rel, io_hold]:
  "state_io_rel evolves (kzalloc n)" "state_io_rel holds_balanced (kzalloc n)"
  unfolding kzalloc_def by (intro io_rel ev.rel_intros) (intro io_hold hb.rel_intros)

lemma card_update_rel:
  "state_io_rel evolves (modify (upd_card f))" "state_io_rel holds_balanced (modify (upd_card f))"
  by (auto simp: state_io_rel_def silent_defs hold_defs)

lemma spi_crc_rel:
  "state_io_rel evolves (modify (upd_host (\<lambda>h. h\<lparr>h_use_spi_crc := b\<rparr>)))"
  "state_io_rel holds_balanced (modify (upd_host (\<lambda>h. h\<lparr>h_use_spi_crc := b\<rparr>)))"
  by (auto simp: state_io_rel_def silent_defs hold_defs)

lemmas quiet_evolves = card_update_rel(1) spi_crc_rel(1)
lemmas quiet_hold = card_update_rel(2) spi_crc_rel(2)

text \<open>Operations that take or give back holds, by the number of holds before and after.\<close>

definition credits :: "nat \<Rightarrow> nat \<Rightarrow> 'a io \<Rightarrow> bool" where
  "credits a b m \<longleftrightarrow> hoare (\<lambda>w. hold_credit w = int a) m (\<lambda>_ w. hold_credit w = int b)"

lemma credits_bind: "credits a b m \<Longrightarrow> (\<And>x. credits b c (f x)) \<Longrightarrow> credits a c (m \<bind> f)"
  unfolding credits_def by (rule hoare_bind)

lemma credits_balanced: "state_io_rel holds_balanced m \<Longrightarrow> credits a a m"
  unfolding credits_def by (auto intro!: hoareI dest: hb.rel_run simp: holds_balanced_def)

lemma credits_hold: "credits a (Suc a) mmc_retune_hold" "credits a (Suc a) mmc_retune_hold_now"
  unfolding credits_def
  by (auto intro!: hoareI simp: mmc_retune_hold_def mmc_retune_hold_now_def hold_credit_def upd_defs
      split: if_splits)

lemma credits_release: "credits (Suc a) a mmc_retune_release"
proof -
  have "hold_credit (snd (run_state mmc_retune_release w)) = int a"
    if "hold_credit w = int (Suc a)" for w
    using that by (cases "h_retune_paused (w_host w)")
      (auto simp: mmc_retune_release_def hold_credit_def upd_defs split: if_splits)
  then show ?thesis
    unfolding credits_def by (intro hoareI) (metis snd_conv)
qed

lemma credits_if: "(b \<Longrightarrow> credits n k m) \<Longrightarrow> (\<not> b \<Longrightarrow> credits n k m') \<Longrightarrow> credits n k (if b then m else m')"
  by simp

lemma balancedI: "(\<And>a. credits a a m) \<Longrightarrow> state_io_rel holds_balanced m"
proof -
  assume m: "\<And>a. credits a a m"
  have "hold_credit (snd (run_state m w)) = hold_credit w" if c: "0 \<le> hold_credit w" for w
  proof -
    obtain a where a: "hold_credit w = int a" using zero_le_imp_eq_int [OF c] by blast
    obtain x v where "run_state m w = (x, v)" by fastforce
    with m [of a] a show ?thesis by (auto simp: credits_def dest: hoareD)
  qed
  then show ?thesis by (simp add: state_io_rel_def holds_balanced_def)
qed

context request_hooks begin

lemma status_rel [io_rel, io_hold]:
  "state_io_rel evolves (mmc_send_status hk)" "state_io_rel holds_balanced (mmc_send_status hk)"
  unfolding mmc_send_status_def send_status_retries_def by (intro io_rel ev.rel_intros quiet_evolves) (intro io_hold hb.rel_intros quiet_hold)

lemma select_rel [io_rel, io_hold]:
  "state_io_rel evolves (mmc_select_card hk)" "state_io_rel holds_balanced (mmc_select_card hk)"
  "state_io_rel evolves (mmc_deselect_cards hk)" "state_io_rel holds_balanced (mmc_deselect_cards hk)"
  "state_io_rel evolves (mmc_set_dsr hk)" "state_io_rel holds_balanced (mmc_set_dsr hk)"
  "state_io_rel evolves (mmc_set_relative_addr hk)"
  "state_io_rel holds_balanced (mmc_set_relative_addr hk)"
  unfolding mmc_select_card_def mmc_deselect_cards_def select_card_def mmc_set_dsr_def
    mmc_set_relative_addr_def
  by (intro io_rel ev.rel_intros quiet_evolves io_hold hb.rel_intros quiet_hold)+

lemma go_idle_rel [io_rel, io_hold]:
  "state_io_rel evolves (mmc_go_idle hk)" "state_io_rel holds_balanced (mmc_go_idle hk)"
  unfolding mmc_go_idle_def by (intro io_rel ev.rel_intros quiet_evolves) (intro io_hold hb.rel_intros quiet_hold)

lemma op_cond_loop_evolves [io_rel]: "state_io_rel evolves (op_cond_loop hk ocr i err cmd)"
proof (induction i arbitrary: err cmd)
  case 0
  show ?case by (simp add: ev.rel_ret)
next
  case (Suc i)
  show ?case unfolding op_cond_loop.simps by (intro io_rel ev.rel_intros Suc)
qed

lemma op_cond_loop_hold [io_hold]: "state_io_rel holds_balanced (op_cond_loop hk ocr i err cmd)"
proof (induction i arbitrary: err cmd)
  case 0
  show ?case by (simp add: hb.rel_ret)
next
  case (Suc i)
  show ?case unfolding op_cond_loop.simps by (intro io_hold hb.rel_intros Suc)
qed

lemma send_op_cond_rel [io_rel, io_hold]:
  "state_io_rel evolves (mmc_send_op_cond hk ocr)"
  "state_io_rel holds_balanced (mmc_send_op_cond hk ocr)"
  unfolding mmc_send_op_cond_def by (intro io_rel ev.rel_intros quiet_evolves) (intro io_hold hb.rel_intros quiet_hold)

lemma cxd_rel [io_rel, io_hold]:
  "state_io_rel evolves (mmc_send_cxd_native hk arg opc)"
  "state_io_rel holds_balanced (mmc_send_cxd_native hk arg opc)"
  "state_io_rel evolves (mmc_send_cxd_data hk opc buf)"
  "state_io_rel holds_balanced (mmc_send_cxd_data hk opc buf)"
  unfolding mmc_send_cxd_native_def mmc_send_cxd_data_def by (intro io_rel ev.rel_intros quiet_evolves io_hold hb.rel_intros quiet_hold)+

lemma registers_rel [io_rel, io_hold]:
  "state_io_rel evolves (mmc_send_csd hk)" "state_io_rel holds_balanced (mmc_send_csd hk)"
  "state_io_rel evolves (mmc_send_cid hk)" "state_io_rel holds_balanced (mmc_send_cid hk)"
  "state_io_rel evolves (mmc_get_ext_csd hk)" "state_io_rel holds_balanced (mmc_get_ext_csd hk)"
  unfolding mmc_send_csd_def mmc_send_cid_def mmc_spi_send_csd_def mmc_spi_send_cid_def
    spi_send_cxd_def mmc_get_ext_csd_def
  by (intro io_rel ev.rel_intros quiet_evolves io_hold hb.rel_intros quiet_hold)+

lemma spi_rel [io_rel, io_hold]:
  "state_io_rel evolves (mmc_spi_read_ocr hk hc)" "state_io_rel holds_balanced (mmc_spi_read_ocr hk hc)"
  "state_io_rel evolves (mmc_spi_set_crc hk b)" "state_io_rel holds_balanced (mmc_spi_set_crc hk b)"
  unfolding mmc_spi_read_ocr_def mmc_spi_set_crc_def by (intro io_rel ev.rel_intros quiet_evolves io_hold hb.rel_intros quiet_hold)+

lemma switch_status_rel [io_rel, io_hold]:
  "state_io_rel evolves (switch_status hk b)" "state_io_rel holds_balanced (switch_status hk b)"
  "state_io_rel evolves (mmc_switch_status hk)" "state_io_rel holds_balanced (mmc_switch_status hk)"
  unfolding mmc_switch_status_def switch_status_def by (intro io_rel ev.rel_intros quiet_evolves io_hold hb.rel_intros quiet_hold)+

lemma poll_busy_body_rel [io_rel, io_hold]:
  "state_io_rel evolves (poll_busy_body hk t b)" "state_io_rel holds_balanced (poll_busy_body hk t b)"
  unfolding poll_busy_body_def by (intro io_rel ev.rel_intros quiet_evolves) (intro io_hold hb.rel_intros quiet_hold)

lemma poll_for_busy_rel [io_rel, io_hold]:
  "state_io_rel evolves (mmc_poll_for_busy hk t s b)"
  "state_io_rel holds_balanced (mmc_poll_for_busy hk t s b)"
  unfolding mmc_poll_for_busy_def by (intro io_rel ev.rel_intros quiet_evolves) (intro io_hold hb.rel_intros quiet_hold)

lemma switch_finish_rel [io_rel, io_hold]:
  "state_io_rel evolves (switch_finish hk o' t s)" "state_io_rel holds_balanced (switch_finish hk o' t s)"
  unfolding switch_finish_def by (intro io_rel ev.rel_intros quiet_evolves) (intro io_hold hb.rel_intros quiet_hold)

lemma switch_full_evolves [io_rel]: "state_io_rel evolves (mmc_switch_full hk cs i v tm ti ub ss rc)"
  unfolding mmc_switch_full_def by (intro io_rel ev.rel_intros quiet_evolves)

lemma switch_full_hold [io_hold]:
  "state_io_rel holds_balanced (mmc_switch_full hk cs i v tm ti ub ss rc)"
  unfolding mmc_switch_full_def Let_def
  by (rule balancedI, rule credits_bind, rule credits_balanced, rule hb.rel_gets,
      rule credits_bind, rule credits_hold, rule credits_bind, rule credits_balanced, rule io_hold,
      rule credits_bind, rule credits_balanced, (intro io_hold hb.rel_intros)[1],
      rule credits_bind, rule credits_release, rule credits_balanced, rule hb.rel_ret)

lemma switch_rel [io_rel, io_hold]:
  "state_io_rel evolves (mmc_switch hk cs i v tm)" "state_io_rel holds_balanced (mmc_switch hk cs i v tm)"
  unfolding mmc_switch_def by (intro io_rel) (intro io_hold)

lemma tuning_rel [io_rel, io_hold]:
  "state_io_rel evolves (mmc_send_tuning hk opc)" "state_io_rel holds_balanced (mmc_send_tuning hk opc)"
  "state_io_rel evolves (mmc_abort_tuning hk opc)"
  "state_io_rel holds_balanced (mmc_abort_tuning hk opc)"
  unfolding mmc_send_tuning_def mmc_abort_tuning_def Let_def
  by (intro io_rel ev.rel_intros io_hold hb.rel_intros)+

lemma bus_test_rel [io_rel, io_hold]:
  "state_io_rel evolves (mmc_send_bus_test hk opc len)"
  "state_io_rel holds_balanced (mmc_send_bus_test hk opc len)"
  "state_io_rel evolves (mmc_bus_test hk bw)" "state_io_rel holds_balanced (mmc_bus_test hk bw)"
  unfolding mmc_bus_test_def mmc_send_bus_test_def
  by (intro io_rel ev.rel_intros io_hold hb.rel_intros)+

lemma hpi_rel [io_rel, io_hold]:
  "state_io_rel evolves (mmc_send_hpi_cmd hk)" "state_io_rel holds_balanced (mmc_send_hpi_cmd hk)"
  "state_io_rel evolves (hpi_poll_body hk t)" "state_io_rel holds_balanced (hpi_poll_body hk t)"
  unfolding mmc_send_hpi_cmd_def hpi_poll_body_def
  by (intro io_rel ev.rel_intros io_hold hb.rel_intros)+

lemma interrupt_hpi_rel [io_rel, io_hold]:
  "state_io_rel evolves (interrupt_hpi hk)" "state_io_rel holds_balanced (interrupt_hpi hk)"
  unfolding interrupt_hpi_def by (intro io_rel ev.rel_intros io_hold hb.rel_intros)+

lemma bkops_status_rel [io_rel, io_hold]:
  "state_io_rel evolves (mmc_read_bkops_status hk)"
  "state_io_rel holds_balanced (mmc_read_bkops_status hk)"
  unfolding mmc_read_bkops_status_def
  by (intro io_rel ev.rel_intros quiet_evolves io_hold hb.rel_intros quiet_hold)+

lemma bkops_evolves [io_rel]:
  "state_io_rel evolves (mmc_stop_bkops hk)" "state_io_rel evolves (mmc_start_bkops hk b)"
  unfolding mmc_stop_bkops_def mmc_start_bkops_def Let_def
  by (intro io_rel ev.rel_intros quiet_evolves)+

lemma cache_rel [io_rel, io_hold]:
  "state_io_rel evolves (mmc_flush_cache hk)" "state_io_rel holds_balanced (mmc_flush_cache hk)"
  "state_io_rel evolves (mmc_cmdq_switch hk b)" "state_io_rel holds_balanced (mmc_cmdq_switch hk b)"
  "state_io_rel evolves (mmc_cmdq_enable hk)" "state_io_rel holds_balanced (mmc_cmdq_enable hk)"
  "state_io_rel evolves (mmc_cmdq_disable hk)" "state_io_rel holds_balanced (mmc_cmdq_disable hk)"
  unfolding mmc_flush_cache_def mmc_cmdq_enable_def mmc_cmdq_disable_def mmc_cmdq_switch_def
  by (intro io_rel ev.rel_intros quiet_evolves io_hold hb.rel_intros quiet_hold)+

end

end
