(* ===== verification/Poll_Facts.thy ===== *)
theory Poll_Facts
  imports Mmc_Ops_Facts Ext_Csd_Facts
begin

text \<open>
  The polling loops of the commands: their bodies take time and answer after the deadline,
  so the loops are the endless loops of the code and end; and what their answers mean.
\<close>

section \<open>The bodies answer\<close>

lemma evolves_now_less: "evolves (log_event e n w) v \<Longrightarrow> w_now w < w_now v"
  using log_now [of w e n] evolves_now [of "log_event e n w" v] by simp

lemma jiffies_log: "jiffies_of w \<le> jiffies_of (log_event e n w)"
  by (intro jiffies_mono) simp

text \<open>A step of a loop that has seen a tick not past the deadline began within the limit.\<close>

lemma deadline_limit:
  assumes "same_board w0 w" and "evolves w v" and "jiffies_of v \<le> timeout"
  shows "w_now w \<le> time_limit w0 timeout"
proof -
  have "jiffies_of w \<le> timeout" using jiffies_mono [OF assms(2)] assms(3) by simp
  from time_limitI [OF this] show ?thesis by (simp add: time_limit_board [OF assms(1)])
qed

lemma evolves_board: "evolves w v \<Longrightarrow> same_board w v"
  by (simp add: evolves_def)

context request_hooks begin

lemma poll_busy_polls:
  "polls (same_board w0) (time_limit w0 timeout) (poll_busy_body hk timeout crc)"
  unfolding polls_def
proof (intro allI impI)
  fix w v assume board: "same_board w0 w" and run: "run_state (poll_busy_body hk timeout crc) w = (None, v)"
  define x where "x = log_event EvJiffies 0 w"
  define rest where "rest = (case op_card_busy (w_ops x) of
      Some f \<Rightarrow> do { b \<leftarrow> card_busy f; ret (0, b) }
    | None \<Rightarrow> do { s \<leftarrow> mmc_send_status hk; w \<leftarrow> gets id;
        ret (if crc \<and> fst s = - EILSEQ then (0, True) else if fst s \<noteq> 0 then (fst s, False)
             else (mmc_switch_status_error w (snd s), R1_CURRENT_STATE (snd s) = R1_STATE_PRG)) })"
  obtain q y where y: "run_state rest x = (q, y)" by fastforce
  have rv: "y = v" "jiffies_of x \<le> timeout"
    using run y unfolding poll_busy_body_def
    by (auto simp: jiffies_run Let_def rest_def [symmetric] x_def [symmetric] split: if_splits)
  have "state_io_rel evolves rest" unfolding rest_def by (intro io_rel ev.rel_intros)
  then have xv: "evolves x v" using y unfolding rv(1) by (rule ev.rel_run)
  have wv: "evolves w v" by (rule ev.trn [OF _ xv]) (simp add: x_def)
  have "evolves w x" by (simp add: x_def)
  then have "w_now w \<le> time_limit w0 timeout"
    using deadline_limit [OF board] rv(2) by blast
  moreover have "same_board w0 v" by (rule same_board_trans [OF board evolves_board [OF wv]])
  ultimately show "w_now w < w_now v \<and> w_now w \<le> time_limit w0 timeout \<and> same_board w0 v"
    using evolves_now_less [of EvJiffies 0 w v] xv by (simp add: x_def)
qed

lemma hpi_poll_polls:
  "polls (same_board w0) (time_limit w0 timeout) (hpi_poll_body hk timeout)"
  unfolding polls_def
proof (intro allI impI)
  fix w v assume board: "same_board w0 w" and run: "run_state (hpi_poll_body hk timeout) w = (None, v)"
  have wv: "evolves w v" using hpi_rel(3) run by (rule ev.rel_run)
  obtain s y where s: "run_state (mmc_send_status hk) w = (s, y)" by fastforce
  have wy: "evolves w y" using status_rel(1) s by (rule ev.rel_run)
  have v: "v = log_event EvJiffies 0 y" "jiffies_of v \<le> timeout"
    using run s by (auto simp: hpi_poll_body_def jiffies_run Let_def split: if_splits)
  have "w_now w < w_now v" using evolves_now [OF wy] log_now [of y EvJiffies 0] v(1) by simp
  then show "w_now w < w_now v \<and> w_now w \<le> time_limit w0 timeout \<and> same_board w0 v"
    using same_board_trans [OF board evolves_board [OF wv]] deadline_limit [OF board wv v(2)] by simp
qed

section \<open>Waiting on the busy line\<close>

lemma poll_busy_line_step:
  assumes busy: "op_card_busy (w_ops w) = Some busy"
    and run: "run_state (poll_busy_body hk timeout crc) w = (r, v)"
  shows "\<exists>t. w_trace v = t @ [EvCardBusy] \<and> w_ops v = w_ops w \<and>
    r = (if busy t then if timeout < jiffies_of (log_event EvJiffies 0 w) then Some (- ETIMEDOUT) else None
         else Some 0) \<and> jiffies_of (log_event EvJiffies 0 w) \<le> jiffies_of v"
proof -
  let ?x = "log_event EvJiffies 0 w"
  have ops: "op_card_busy (w_ops ?x) = Some busy" using busy by (simp add: log_event_def)
  have "v = log_event EvCardBusy 0 ?x"
    "r = (if busy (w_trace ?x) then if timeout < jiffies_of ?x then Some (- ETIMEDOUT) else None
         else Some 0)"
    using run ops by (auto simp: poll_busy_body_def jiffies_run card_busy_def emit_def Let_def)
  moreover have "w_trace (log_event EvCardBusy 0 ?x) = w_trace ?x @ [EvCardBusy]"
    "w_ops (log_event EvCardBusy 0 ?x) = w_ops w"
    by (simp_all add: log_event_def)
  ultimately show ?thesis using jiffies_log [of ?x EvCardBusy 0] by blast
qed

text \<open>
  The answer is 0 when the line was seen free, and a timeout when it was seen busy after the
  deadline had passed.
\<close>

lemma poll_busy_line:
  assumes "op_card_busy (w_ops w) = Some busy"
    and "run_state (poll_until (time_limit w timeout) stuck (poll_busy_body hk timeout crc)) w = (r, v)"
  shows "(r = 0 \<or> r = - ETIMEDOUT) \<and>
    (\<exists>t. w_trace v = t @ [EvCardBusy] \<and> (busy t \<longleftrightarrow> r \<noteq> 0)) \<and> (r \<noteq> 0 \<longrightarrow> timeout < jiffies_of v)"
proof (rule io_poll_induct [where Q = "same_board w", OF poll_busy_polls _ _ _ assms(2)])
  show "same_board w w" by simp
next
  fix a r v
  assume a: "same_board w a" and run: "run_state (poll_busy_body hk timeout crc) a = (Some r, v)"
  from a assms(1) have "op_card_busy (w_ops a) = Some busy" by (simp add: same_board_def)
  from poll_busy_line_step [OF this run] show "(r = 0 \<or> r = - ETIMEDOUT) \<and>
    (\<exists>t. w_trace v = t @ [EvCardBusy] \<and> (busy t \<longleftrightarrow> r \<noteq> 0)) \<and> (r \<noteq> 0 \<longrightarrow> timeout < jiffies_of v)"
    by (auto split: if_splits)
qed

end

section \<open>A switch that succeeds was sent\<close>

text \<open>The argument of the switch command as a number.\<close>

lemma switch_arg:
  assumes "index < 256"
  shows "unat (cmd_arg (switch_cmd cset index val ms r1b))
    = 3 * 2 ^ 24 + index * 2 ^ 16 + unat val * 2 ^ 8 + unat cset"
proof -
  let ?e = "[cset, val, of_nat index, 3 :: u8]"
  have "of_nat index = (ucast (of_nat index :: u8) :: u32)"
    using assms by (simp add: word_unat_eq_iff unat_of_nat unat_ucast_small)
  then have "cmd_arg (switch_cmd cset index val ms r1b) =
      (eb ?e 0 OR push_bit 8 (eb ?e 1) OR push_bit 16 (eb ?e 2) OR push_bit 24 (eb ?e 3))"
    by (simp add: switch_cmd_def eb_def cmd0_def or.assoc or.commute or.left_commute)
  then have "unat (cmd_arg (switch_cmd cset index val ms r1b)) =
      unat cset + 256 * unat val + 65536 * unat (of_nat index :: u8) + 16777216 * 3"
    by (simp only: le32_bytes) simp
  then show ?thesis using assms by (simp add: unat_of_nat)
qed

context request_hooks begin

lemma switch_sent:
  assumes run: "run_state (mmc_switch_full hk cset index val ms timing busy status crc) w = (0, v)"
    and index: "index < 256" "index \<noteq> EXT_CSD_SANITIZE_START"
  shows "\<exists>t q rest. w_trace v = t @ EvRequest q # rest \<and> length (w_trace w) \<le> length t \<and>
    cpl_cmd_error (op_request (w_ops w) t q) = 0 \<and> cmd_opcode (mrq_cmd q) = 6 \<and>
    unat (cmd_arg (mrq_cmd q)) = 3 * 2 ^ 24 + index * 2 ^ 16 + unat val * 2 ^ 8 + unat cset"
proof -
  define r1b where "r1b \<longleftrightarrow> busy \<and> \<not> (ms \<noteq> 0 \<and> h_max_busy_timeout (w_host w) \<noteq> 0
    \<and> ms > h_max_busy_timeout (w_host w))"
  let ?c = "switch_cmd cset index val ms r1b"
  define rest :: "mmc_command \<Rightarrow> int io" where "rest c = do {
     err \<leftarrow> (if cmd_error c \<noteq> 0 then ret (cmd_error c)
       else if \<not> busy then ret 0
       else if MMC_CAP_WAIT_WHILE_BUSY \<in> h_caps (w_host w) \<and> r1b \<or> mmc_host_is_spi w
       then switch_finish hk (ios_timing (w_ios w)) timing status
       else do {
         err \<leftarrow> mmc_poll_for_busy hk ms status crc;
         if err \<noteq> 0 then ret err else switch_finish hk (ios_timing (w_ios w)) timing status
       });
     mmc_retune_release;
     ret err }" for c
  obtain a where a: "run_state mmc_retune_hold w = ((), a)" by (rule unit_run)
  obtain c b where c: "run_state (mmc_wait_for_cmd hk ?c 3) a = (c, b)" by fastforce
  have "run_state (mmc_switch_full hk cset index val ms timing busy status crc) w
      = run_state (mmc_retune_hold \<bind> (\<lambda>_. mmc_wait_for_cmd hk ?c 3 \<bind> rest)) w"
    unfolding mmc_switch_full_def Let_def r1b_def rest_def by simp
  with run a c have rest: "run_state (rest c) b = (0, v)" by simp
  have err: "cmd_error c = 0" using rest by (auto simp: rest_def split: prod.splits if_splits)
  have "\<not> cmd_sanitize_busy ?c" using index(2) by (simp add: switch_cmd_def cmd0_def)
  from cmd_sent [OF c this err] obtain t q where t: "w_trace b = t @ [EvRequest q]"
      "length (w_trace a) \<le> length t" "same_cmd (mrq_cmd q) ?c"
      "cpl_cmd_error (op_request (w_ops a) t q) = 0" by blast
  have "state_io_rel evolves (rest c)"
    unfolding rest_def by (intro io_rel ev.rel_intros)
  then have "evolves b v" using rest by (rule ev.rel_run)
  then obtain evs where evs: "w_trace v = w_trace b @ evs" by (auto simp: evolves_def)
  have wa: "evolves w a" using retune_evolves(3) a by (rule ev.rel_run)
  have "cmd_opcode (mrq_cmd q) = 6" "cmd_arg (mrq_cmd q) = cmd_arg ?c"
    using t(3) by (simp_all add: same_cmd_def switch_cmd_def)
  moreover have "length (w_trace w) \<le> length t" using evolves_length [OF wa] t(2) by simp
  moreover have "w_ops a = w_ops w" using wa by (simp add: evolves_def same_board_def)
  ultimately show ?thesis
    using t(1,4) evs switch_arg [OF index(1)]
    by (intro exI [of _ t] exI [of _ q] exI [of _ evs]) simp
qed

end

end
