(* ===== verification/Mmc_Timing.thy ===== *)
theory Mmc_Timing
  imports Poll_Facts
begin

text \<open>
  Power class, bus width and speed modes of MMC cards (\<open>mmc/core/mmc.c\<close>), with re-tuning
  and interruption as hooks.  Card and host are those of the world.
\<close>

section \<open>Reading EXT_CSD\<close>

definition mmc_read_ext_csd :: "io_hooks \<Rightarrow> int io" where
  "mmc_read_ext_csd hk = do {
     w \<leftarrow> gets id;
     if \<not> mmc_can_ext_csd (w_card w) then ret 0
     else do {
       r \<leftarrow> mmc_get_ext_csd hk;
       let err = fst r;
       if err \<noteq> 0 then
         (if err \<noteq> - EINVAL \<and> err \<noteq> - ENOSYS \<and> err \<noteq> - EFAULT then ret err
          else do {
            w \<leftarrow> gets id;
            if csd_capacity (cd_csd (w_card w)) = 4096 * 512 then ret err else ret 0
          })
       else do {
         w \<leftarrow> gets id;
         let (err, mc) = mmc_decode_ext_csd (w_kernel w) (w_host w) (snd r) (w_card w);
         modify (upd_card (\<lambda>_. mc));
         ret err
       }
     }
   }"

definition mmc_compare_ext_csds :: "io_hooks \<Rightarrow> int \<Rightarrow> int io" where
  "mmc_compare_ext_csds hk bus_width =
    (if bus_width = MMC_BUS_WIDTH_1 then ret 0
     else do {
       r \<leftarrow> mmc_get_ext_csd hk;
       if fst r \<noteq> 0 then ret (fst r)
       else do {
         w \<leftarrow> gets id;
         ret (if ext_csds_match (cd_ext_csd (w_card w)) (snd r) then 0 else - EINVAL)
       }
     })"

section \<open>Power class\<close>

text \<open>
  The power class byte that \<open>__mmc_select_powerclass\<close> picks, None for a voltage window
  that has none; \<open>vdd\<close> is \<open>1 << host->ios.vdd\<close>.
\<close>

definition powerclass_byte :: "mmc_ext_csd \<Rightarrow> u32 \<Rightarrow> u32 \<Rightarrow> u32 \<Rightarrow> u8 option" where
  "powerclass_byte x vdd clock bus_width =
    (if vdd = MMC_VDD_165_195 then
       Some (if clock \<le> MMC_HIGH_26_MAX_DTR then raw_pwr_cl_26_195 x
             else if clock \<le> MMC_HIGH_52_MAX_DTR then
               (if bus_width \<le> ucast EXT_CSD_BUS_WIDTH_8 then raw_pwr_cl_52_195 x
                else raw_pwr_cl_ddr_52_195 x)
             else if clock \<le> MMC_HS200_MAX_DTR then raw_pwr_cl_200_195 x else 0)
     else if vdd \<in> {MMC_VDD_27_28, MMC_VDD_28_29, MMC_VDD_29_30, MMC_VDD_30_31, MMC_VDD_31_32,
        MMC_VDD_32_33, MMC_VDD_33_34, MMC_VDD_34_35, MMC_VDD_35_36} then
       Some (if clock \<le> MMC_HIGH_26_MAX_DTR then raw_pwr_cl_26_360 x
             else if clock \<le> MMC_HIGH_52_MAX_DTR then
               (if bus_width \<le> ucast EXT_CSD_BUS_WIDTH_8 then raw_pwr_cl_52_360 x
                else raw_pwr_cl_ddr_52_360 x)
             else if clock \<le> MMC_HS200_MAX_DTR then
               (if bus_width = ucast EXT_CSD_DDR_BUS_WIDTH_8 then raw_pwr_cl_ddr_200_360 x
                else raw_pwr_cl_200_360 x)
             else 0)
     else None)"

text \<open>The nibble of the byte for the bus width.\<close>

definition powerclass_val :: "u32 \<Rightarrow> u32 \<Rightarrow> u32" where
  "powerclass_val bus_width val =
    (if bus_width AND (ucast EXT_CSD_BUS_WIDTH_8 OR ucast EXT_CSD_DDR_BUS_WIDTH_8) \<noteq> 0
     then drop_bit EXT_CSD_PWR_CL_8BIT_SHIFT (val AND EXT_CSD_PWR_CL_8BIT_MASK)
     else drop_bit EXT_CSD_PWR_CL_4BIT_SHIFT (val AND EXT_CSD_PWR_CL_4BIT_MASK))"

text \<open>\<open>__mmc_select_powerclass\<close>.\<close>

definition set_powerclass :: "io_hooks \<Rightarrow> u32 \<Rightarrow> int io" where
  "set_powerclass hk bus_width = do {
     w \<leftarrow> gets id;
     let x = cd_ext_csd (w_card w);
     (case powerclass_byte x (push_bit (unat (ios_vdd (w_ios w))) 1) (ios_clock (w_ios w)) bus_width of
        None \<Rightarrow> ret (- EINVAL)
      | Some b \<Rightarrow> do {
          let val = powerclass_val bus_width (ucast b);
          if val > 0 then mmc_switch hk EXT_CSD_CMD_SET_NORMAL EXT_CSD_POWER_CLASS (ucast val)
              (ec_generic_cmd6_time x)
          else ret 0
        })
   }"

definition mmc_select_powerclass :: "io_hooks \<Rightarrow> int io" where
  "mmc_select_powerclass hk = do {
     w \<leftarrow> gets id;
     let bus_width = ios_bus_width (w_ios w);
     if \<not> mmc_can_ext_csd (w_card w) then ret 0
     else if bus_width = MMC_BUS_WIDTH_1 then ret 0
     else do {
       let ddr = cd_mmc_avail_type (w_card w) AND EXT_CSD_CARD_TYPE_DDR_52 \<noteq> 0;
       let bits = (if ddr
         then (if bus_width = MMC_BUS_WIDTH_8 then EXT_CSD_DDR_BUS_WIDTH_8 else EXT_CSD_DDR_BUS_WIDTH_4)
         else (if bus_width = MMC_BUS_WIDTH_8 then EXT_CSD_BUS_WIDTH_8 else EXT_CSD_BUS_WIDTH_4));
       set_powerclass hk (ucast bits)
     }
   }"

section \<open>Bus speed and width\<close>

abbreviation mmc_card_hs :: "mmc_world \<Rightarrow> bool" where
  "mmc_card_hs w \<equiv> ios_timing (w_ios w) = MMC_TIMING_SD_HS \<or> ios_timing (w_ios w) = MMC_TIMING_MMC_HS"

abbreviation mmc_card_hs200 :: "mmc_world \<Rightarrow> bool" where
  "mmc_card_hs200 w \<equiv> ios_timing (w_ios w) = MMC_TIMING_MMC_HS200"

abbreviation mmc_card_hs400 :: "mmc_world \<Rightarrow> bool" where
  "mmc_card_hs400 w \<equiv> ios_timing (w_ios w) = MMC_TIMING_MMC_HS400"

definition mmc_set_bus_speed :: "unit io" where
  "mmc_set_bus_speed = do {
     w \<leftarrow> gets id;
     let max_dtr = - 1;
     let x = cd_ext_csd (w_card w);
     let max_dtr =
       (if (mmc_card_hs200 w \<or> mmc_card_hs400 w) \<and> max_dtr > ec_hs200_max_dtr x then ec_hs200_max_dtr x
        else if mmc_card_hs w \<and> max_dtr > ec_hs_max_dtr x then ec_hs_max_dtr x
        else if max_dtr > csd_max_dtr (cd_csd (w_card w)) then csd_max_dtr (cd_csd (w_card w))
        else max_dtr);
     mmc_set_clock max_dtr
   }"

text \<open>The loop over the widths, each with its EXT_CSD value.\<close>

fun bus_width_loop :: "io_hooks \<Rightarrow> (u8 \<times> int) list \<Rightarrow> int \<Rightarrow> int io" where
  "bus_width_loop hk [] err = ret err"
| "bus_width_loop hk ((bits, bus_width) # rest) err = do {
     w \<leftarrow> gets id;
     err \<leftarrow> mmc_switch hk EXT_CSD_CMD_SET_NORMAL EXT_CSD_BUS_WIDTH bits
       (ec_generic_cmd6_time (cd_ext_csd (w_card w)));
     if err \<noteq> 0 then bus_width_loop hk rest err
     else do {
       mmc_set_bus_width bus_width;
       err \<leftarrow> (if MMC_CAP_BUS_WIDTH_TEST \<notin> h_caps (w_host w)
               then mmc_compare_ext_csds hk bus_width else mmc_bus_test hk bus_width);
       if err = 0 then ret bus_width else bus_width_loop hk rest err
     }
   }"

definition mmc_select_bus_width :: "io_hooks \<Rightarrow> int io" where
  "mmc_select_bus_width hk = do {
     w \<leftarrow> gets id;
     let caps = h_caps (w_host w);
     if \<not> mmc_can_ext_csd (w_card w) \<or> MMC_CAP_4_BIT_DATA \<notin> caps \<and> MMC_CAP_8_BIT_DATA \<notin> caps
     then ret 0
     else
       bus_width_loop hk (drop (if MMC_CAP_8_BIT_DATA \<in> caps then 0 else 1)
         [(EXT_CSD_BUS_WIDTH_8, MMC_BUS_WIDTH_8), (EXT_CSD_BUS_WIDTH_4, MMC_BUS_WIDTH_4)]) 0
   }"

section \<open>High speed and DDR\<close>

text \<open>\<open>card->ext_csd.generic_cmd6_time\<close>, the timeout of all switches below.\<close>

abbreviation cmd6_time :: "mmc_world \<Rightarrow> u32" where
  "cmd6_time w \<equiv> ec_generic_cmd6_time (cd_ext_csd (w_card w))"

definition mmc_select_hs :: "io_hooks \<Rightarrow> int io" where
  "mmc_select_hs hk = do {
     w \<leftarrow> gets id;
     mmc_switch_full hk EXT_CSD_CMD_SET_NORMAL EXT_CSD_HS_TIMING EXT_CSD_TIMING_HS (cmd6_time w)
       MMC_TIMING_MMC_HS True True True
   }"

definition mmc_select_hs_ddr :: "io_hooks \<Rightarrow> int io" where
  "mmc_select_hs_ddr hk = do {
     w \<leftarrow> gets id;
     let avail = cd_mmc_avail_type (w_card w);
     let bus_width = ios_bus_width (w_ios w);
     if avail AND EXT_CSD_CARD_TYPE_DDR_52 = 0 then ret 0
     else if bus_width = MMC_BUS_WIDTH_1 then ret 0
     else do {
       err \<leftarrow> mmc_switch_full hk EXT_CSD_CMD_SET_NORMAL EXT_CSD_BUS_WIDTH
         (if bus_width = MMC_BUS_WIDTH_8 then EXT_CSD_DDR_BUS_WIDTH_8 else EXT_CSD_DDR_BUS_WIDTH_4)
         (cmd6_time w) MMC_TIMING_MMC_DDR52 True True True;
       if err \<noteq> 0 then ret err
       else do {
         err \<leftarrow> (if avail AND EXT_CSD_CARD_TYPE_DDR_1_2V \<noteq> 0
                 then mmc_set_signal_voltage MMC_SIGNAL_VOLTAGE_120 else ret 0);
         if avail AND EXT_CSD_CARD_TYPE_DDR_1_2V \<noteq> 0 \<and> err = 0 then ret 0
         else do {
           err \<leftarrow> (if avail AND EXT_CSD_CARD_TYPE_DDR_1_8V \<noteq> 0 \<and> MMC_CAP_1_8V_DDR \<in> h_caps (w_host w)
                   then mmc_set_signal_voltage MMC_SIGNAL_VOLTAGE_180 else ret err);
           if err \<noteq> 0 then mmc_set_signal_voltage MMC_SIGNAL_VOLTAGE_330 else ret err
         }
       }
     }
   }"

section \<open>HS200 and HS400\<close>

definition hs400_downgrade :: "unit io" where
  "hs400_downgrade = do {
     w \<leftarrow> gets id; io_when (op_hs400_downgrade (w_ops w)) (emit EvHs400Downgrade 0) }"

definition prepare_hs400_tuning :: "unit io" where
  "prepare_hs400_tuning = do {
     w \<leftarrow> gets id;
     io_when (op_prepare_hs400_tuning (w_ops w)) (emit (EvPrepareHs400Tuning (w_ios w)) 0) }"

text \<open>The HS_TIMING value of a mode with the drive strength of the card.\<close>

definition timing_val :: "u8 \<Rightarrow> mmc_world \<Rightarrow> u8" where
  "timing_val t w = t OR ucast (push_bit EXT_CSD_DRV_STR_SHIFT (cd_drive_strength (w_card w)))"

text \<open>The switches of these modes do not poll with CMD13 and keep the host's timing.\<close>

definition switch_quiet :: "io_hooks \<Rightarrow> nat \<Rightarrow> u8 \<Rightarrow> int io" where
  "switch_quiet hk index val = do {
     w \<leftarrow> gets id;
     mmc_switch_full hk EXT_CSD_CMD_SET_NORMAL index val (cmd6_time w) MMC_TIMING_LEGACY
       True False True
   }"

definition mmc_select_hs400 :: "io_hooks \<Rightarrow> int io" where
  "mmc_select_hs400 hk = do {
     w \<leftarrow> gets id;
     if \<not> (cd_mmc_avail_type (w_card w) AND EXT_CSD_CARD_TYPE_HS400 \<noteq> 0
           \<and> ios_bus_width (w_ios w) = MMC_BUS_WIDTH_8) then ret 0
     else do {
       err \<leftarrow> switch_quiet hk EXT_CSD_HS_TIMING EXT_CSD_TIMING_HS;
       if err \<noteq> 0 then ret err
       else do {
         mmc_set_timing MMC_TIMING_MMC_HS;
         hs400_downgrade;
         mmc_set_clock (ec_hs_max_dtr (cd_ext_csd (w_card w)));
         err \<leftarrow> mmc_switch_status hk;
         if err \<noteq> 0 then ret err
         else do {
           err \<leftarrow> mmc_switch hk EXT_CSD_CMD_SET_NORMAL EXT_CSD_BUS_WIDTH EXT_CSD_DDR_BUS_WIDTH_8
             (cmd6_time w);
           if err \<noteq> 0 then ret err
           else do {
             err \<leftarrow> switch_quiet hk EXT_CSD_HS_TIMING (timing_val EXT_CSD_TIMING_HS400 w);
             if err \<noteq> 0 then ret err
             else do {
               mmc_set_timing MMC_TIMING_MMC_HS400;
               mmc_set_bus_speed;
               err \<leftarrow> mmc_switch_status hk;
               if err \<noteq> 0 then ret err
               else do {
                 io_when (op_hs400_complete (w_ops w)) (emit EvHs400Complete 0);
                 ret 0
               }
             }
           }
         }
       }
     }
   }"

definition mmc_hs200_to_hs400 :: "io_hooks \<Rightarrow> int io" where
  "mmc_hs200_to_hs400 hk = mmc_select_hs400 hk"

definition mmc_hs400_to_hs200 :: "io_hooks \<Rightarrow> int io" where
  "mmc_hs400_to_hs200 hk = do {
     w \<leftarrow> gets id;
     mmc_set_clock (ec_hs_max_dtr (cd_ext_csd (w_card w)));
     err \<leftarrow> switch_quiet hk EXT_CSD_HS_TIMING EXT_CSD_TIMING_HS;
     if err \<noteq> 0 then ret err
     else do {
       mmc_set_timing MMC_TIMING_MMC_DDR52;
       err \<leftarrow> mmc_switch_status hk;
       if err \<noteq> 0 then ret err
       else do {
         err \<leftarrow> switch_quiet hk EXT_CSD_BUS_WIDTH EXT_CSD_BUS_WIDTH_8;
         if err \<noteq> 0 then ret err
         else do {
           mmc_set_timing MMC_TIMING_MMC_HS;
           hs400_downgrade;
           err \<leftarrow> mmc_switch_status hk;
           if err \<noteq> 0 then ret err
           else do {
             err \<leftarrow> switch_quiet hk EXT_CSD_HS_TIMING (timing_val EXT_CSD_TIMING_HS200 w);
             if err \<noteq> 0 then ret err
             else do {
               mmc_set_timing MMC_TIMING_MMC_HS200;
               err \<leftarrow> switch_status hk False;
               if err \<noteq> 0 then ret err
               else do { mmc_set_bus_speed; prepare_hs400_tuning; ret 0 }
             }
           }
         }
       }
     }
   }"

text \<open>\<open>mmc_driver_type_mask(n)\<close> is bit \<open>n\<close>.\<close>

definition mmc_select_driver_type :: "unit io" where
  "mmc_select_driver_type = do {
     w \<leftarrow> gets id;
     let fixed_drv_type = h_fixed_drv_type (w_host w);
     let card_drv_type = uint (raw_driver_strength (cd_ext_csd (w_card w))) OR 1;
     r \<leftarrow> (if fixed_drv_type \<ge> 0
           then ret (if card_drv_type AND push_bit (nat fixed_drv_type) 1 \<noteq> 0 then fixed_drv_type else 0, 0)
           else mmc_select_drive_strength (ec_hs200_max_dtr (cd_ext_csd (w_card w))) card_drv_type);
     modify (upd_card (\<lambda>c. c\<lparr>cd_drive_strength := word_of_int (fst r)\<rparr>));
     io_when (snd r \<noteq> 0) (mmc_set_driver_type (word_of_int (snd r)))
   }"

text \<open>
  The signal voltage that \<open>mmc_select_hs400es\<close> and \<open>mmc_select_hs200\<close> try: 1.2 V first,
  then 1.8 V, for the modes the card type offers.
\<close>

definition try_low_voltage :: "u32 \<Rightarrow> u32 \<Rightarrow> int io" where
  "try_low_voltage type_1_2V type_1_8V = do {
     w \<leftarrow> gets id;
     let avail = cd_mmc_avail_type (w_card w);
     err \<leftarrow> (if avail AND type_1_2V \<noteq> 0 then mmc_set_signal_voltage MMC_SIGNAL_VOLTAGE_120
             else ret (- EINVAL));
     if err \<noteq> 0 \<and> avail AND type_1_8V \<noteq> 0 then mmc_set_signal_voltage MMC_SIGNAL_VOLTAGE_180
     else ret err
   }"

definition mmc_select_hs400es :: "io_hooks \<Rightarrow> int io" where
  "mmc_select_hs400es hk = do {
     w \<leftarrow> gets id;
     if MMC_CAP_8_BIT_DATA \<notin> h_caps (w_host w) then ret (- ENOTSUPP)
     else do {
       err \<leftarrow> try_low_voltage EXT_CSD_CARD_TYPE_HS400_1_2V EXT_CSD_CARD_TYPE_HS400_1_8V;
       if err \<noteq> 0 then ret err
       else do {
         err \<leftarrow> mmc_select_bus_width hk;
         if err \<noteq> MMC_BUS_WIDTH_8 then ret (if err < 0 then err else - ENOTSUPP)
         else do {
           err \<leftarrow> switch_quiet hk EXT_CSD_HS_TIMING EXT_CSD_TIMING_HS;
           if err \<noteq> 0 then ret err
           else do {
             mmc_set_timing MMC_TIMING_MMC_HS;
             err \<leftarrow> mmc_switch_status hk;
             if err \<noteq> 0 then ret err
             else do {
               mmc_set_clock (ec_hs_max_dtr (cd_ext_csd (w_card w)));
               err \<leftarrow> mmc_switch hk EXT_CSD_CMD_SET_NORMAL EXT_CSD_BUS_WIDTH
                 (EXT_CSD_DDR_BUS_WIDTH_8 OR EXT_CSD_BUS_WIDTH_STROBE) (cmd6_time w);
               if err \<noteq> 0 then ret err
               else do {
                 mmc_select_driver_type;
                 w \<leftarrow> gets id;
                 err \<leftarrow> switch_quiet hk EXT_CSD_HS_TIMING (timing_val EXT_CSD_TIMING_HS400 w);
                 if err \<noteq> 0 then ret err
                 else do {
                   mmc_set_timing MMC_TIMING_MMC_HS400;
                   modify (upd_ios (\<lambda>i. i\<lparr>ios_enhanced_strobe := True\<rparr>));
                   w \<leftarrow> gets id;
                   io_when (op_hs400_enhanced_strobe (w_ops w)) (emit (EvEnhancedStrobe (w_ios w)) 0);
                   mmc_switch_status hk
                 }
               }
             }
           }
         }
       }
     }
   }"

definition mmc_select_hs200 :: "io_hooks \<Rightarrow> int io" where
  "mmc_select_hs200 hk = do {
     w \<leftarrow> gets id;
     let old_signal_voltage = ios_signal_voltage (w_ios w);
     err \<leftarrow> try_low_voltage EXT_CSD_CARD_TYPE_HS200_1_2V EXT_CSD_CARD_TYPE_HS200_1_8V;
     if err \<noteq> 0 then ret err
     else do {
       mmc_select_driver_type;
       err \<leftarrow> mmc_select_bus_width hk;
       err \<leftarrow> (if err > 0 then do {
           w \<leftarrow> gets id;
           err \<leftarrow> switch_quiet hk EXT_CSD_HS_TIMING (timing_val EXT_CSD_TIMING_HS200 w);
           if err \<noteq> 0 then ret err
           else do {
             w \<leftarrow> gets id;
             let old_timing = ios_timing (w_ios w);
             mmc_set_timing MMC_TIMING_MMC_HS200;
             err \<leftarrow> switch_status hk False;
             io_when (err = - EBADMSG) (mmc_set_timing old_timing);
             ret err
           }
         } else ret err);
       if err \<noteq> 0 then do {
         e \<leftarrow> mmc_set_signal_voltage old_signal_voltage;
         ret (if e \<noteq> 0 then - EIO else err)
       } else ret 0
     }
   }"

definition mmc_select_timing :: "io_hooks \<Rightarrow> int io" where
  "mmc_select_timing hk = do {
     w \<leftarrow> gets id;
     let avail = cd_mmc_avail_type (w_card w);
     err \<leftarrow> (if \<not> mmc_can_ext_csd (w_card w) then ret 0
       else if avail AND EXT_CSD_CARD_TYPE_HS400ES \<noteq> 0 then mmc_select_hs400es hk
       else if avail AND EXT_CSD_CARD_TYPE_HS200 \<noteq> 0 then mmc_select_hs200 hk
       else if avail AND EXT_CSD_CARD_TYPE_HS \<noteq> 0 then mmc_select_hs hk
       else ret 0);
     if err \<noteq> 0 \<and> err \<noteq> - EBADMSG then ret err
     else do { mmc_set_bus_speed; ret 0 }
   }"

definition mmc_hs200_tuning :: "int io" where
  "mmc_hs200_tuning = do {
     w \<leftarrow> gets id;
     io_when (cd_mmc_avail_type (w_card w) AND EXT_CSD_CARD_TYPE_HS400 \<noteq> 0
         \<and> ios_bus_width (w_ios w) = MMC_BUS_WIDTH_8)
       prepare_hs400_tuning;
     mmc_execute_tuning
   }"

end
