(* ===== verification/Mmc_Retune.thy ===== *)
theory Mmc_Retune
  imports Mmc_Timing
begin

text \<open>
  Re-tuning (\<open>mmc_retune\<close> of \<open>mmc/core/host.c\<close>) and the hooks of the request functions.

  \<open>mmc_retune\<close> sends commands, which start with \<open>mmc_retune\<close> again.  While a re-tuning runs,
  \<open>doing_retune\<close> is set and the nested call only clears \<open>retune_now\<close>: \<open>nested_hooks\<close> are the
  hooks of the commands of a re-tuning.  The commands of \<open>mmc_interrupt_hpi\<close> may re-tune but
  never start a sanitize, hence never interrupt one.  All other commands have the full hooks
  \<open>hooks\<close>.  \<open>retune_recursion\<close> shows that \<open>mmc_retune\<close> satisfies the equation of the code,
  with its own full hooks inside.
\<close>

section \<open>Tying the knot\<close>

text \<open>\<open>mmc_retune\<close> with the part between setting and clearing \<open>doing_retune\<close> open.\<close>

definition retune_with :: "int io \<Rightarrow> int io" where
  "retune_with tune = do {
     h \<leftarrow> gets w_host;
     if \<not> h_retune_now h then ret 0
     else do {
       modify (upd_host (\<lambda>h. h\<lparr>h_retune_now := False\<rparr>));
       if \<not> h_need_retune h \<or> h_doing_retune h \<or> \<not> h_card h then ret 0
       else do {
         modify (upd_host (\<lambda>h. h\<lparr>h_need_retune := False, h_doing_retune := True\<rparr>));
         err \<leftarrow> tune;
         modify (upd_host (\<lambda>h. h\<lparr>h_doing_retune := False\<rparr>));
         ret err
       }
     }
   }"

definition retune_body :: "io_hooks \<Rightarrow> int io" where
  "retune_body hk = do {
     w \<leftarrow> gets id;
     let return_to_hs400 = mmc_card_hs400 w;
     err \<leftarrow> (if return_to_hs400 then mmc_hs400_to_hs200 hk else ret 0);
     if err \<noteq> 0 then ret err
     else do {
       err \<leftarrow> mmc_execute_tuning;
       if err \<noteq> 0 then ret err
       else if return_to_hs400 then mmc_hs200_to_hs400 hk else ret err
     }
   }"

text \<open>The hooks of a nested command; its re-tuning never reaches a body.\<close>

definition nested_hooks :: io_hooks where
  "nested_hooks = \<lparr>hk_retune = retune_with (ret 0), hk_hpi = ret 0\<rparr>"

definition mmc_retune :: "int io" where
  "mmc_retune = retune_with (retune_body nested_hooks)"

definition hpi_hooks :: io_hooks where
  "hpi_hooks = \<lparr>hk_retune = mmc_retune, hk_hpi = ret 0\<rparr>"

definition mmc_interrupt_hpi :: "int io" where
  "mmc_interrupt_hpi = interrupt_hpi hpi_hooks"

definition hooks :: io_hooks where
  "hooks = \<lparr>hk_retune = mmc_retune, hk_hpi = mmc_interrupt_hpi\<rparr>"

section \<open>The hooks keep the laws\<close>

lemma retune_with_rel:
  assumes "state_io_rel evolves t" and "state_io_rel holds_balanced t"
  shows "state_io_rel evolves (retune_with t)" "state_io_rel holds_balanced (retune_with t)"
proof -
  show "state_io_rel evolves (retune_with t)"
    unfolding retune_with_def
    by (intro ev.rel_intros ev.rel_modify assms; auto simp: silent_defs)
  show "state_io_rel holds_balanced (retune_with t)"
    unfolding retune_with_def
    by (intro hb.rel_intros hb.rel_modify assms; auto simp: hold_defs)
qed

lemma ret_rel: "state_io_rel evolves (ret x)" "state_io_rel holds_balanced (ret x)"
  by (rule ev.rel_ret, rule hb.rel_ret)

interpretation nested: request_hooks nested_hooks
  by unfold_locales (simp_all add: nested_hooks_def retune_with_rel ret_rel)

context request_hooks begin

lemma speed_rel [io_rel, io_hold]:
  "state_io_rel evolves mmc_set_bus_speed" "state_io_rel holds_balanced mmc_set_bus_speed"
  "state_io_rel evolves hs400_downgrade" "state_io_rel holds_balanced hs400_downgrade"
  "state_io_rel evolves prepare_hs400_tuning" "state_io_rel holds_balanced prepare_hs400_tuning"
  "state_io_rel evolves (switch_quiet hk i v)" "state_io_rel holds_balanced (switch_quiet hk i v)"
  unfolding mmc_set_bus_speed_def hs400_downgrade_def prepare_hs400_tuning_def switch_quiet_def
  by (intro io_rel ev.rel_intros io_hold hb.rel_intros)+

lemma hs400_rel [io_rel, io_hold]:
  "state_io_rel evolves (mmc_select_hs400 hk)" "state_io_rel holds_balanced (mmc_select_hs400 hk)"
  "state_io_rel evolves (mmc_hs200_to_hs400 hk)" "state_io_rel holds_balanced (mmc_hs200_to_hs400 hk)"
  "state_io_rel evolves (mmc_hs400_to_hs200 hk)" "state_io_rel holds_balanced (mmc_hs400_to_hs200 hk)"
  unfolding mmc_hs200_to_hs400_def mmc_hs400_to_hs200_def mmc_select_hs400_def
  by (intro io_rel ev.rel_intros io_hold hb.rel_intros)+

lemma retune_body_rel [io_rel, io_hold]:
  "state_io_rel evolves (retune_body hk)" "state_io_rel holds_balanced (retune_body hk)"
  unfolding retune_body_def by (intro io_rel ev.rel_intros) (intro io_hold hb.rel_intros)

lemma read_ext_csd_rel [io_rel, io_hold]:
  "state_io_rel evolves (mmc_read_ext_csd hk)" "state_io_rel holds_balanced (mmc_read_ext_csd hk)"
  "state_io_rel evolves (mmc_compare_ext_csds hk bw)"
  "state_io_rel holds_balanced (mmc_compare_ext_csds hk bw)"
  unfolding mmc_read_ext_csd_def mmc_compare_ext_csds_def
  by (intro io_rel ev.rel_intros quiet_evolves io_hold hb.rel_intros quiet_hold)+

lemma powerclass_rel [io_rel, io_hold]:
  "state_io_rel evolves (set_powerclass hk bw)" "state_io_rel holds_balanced (set_powerclass hk bw)"
  "state_io_rel evolves (mmc_select_powerclass hk)"
  "state_io_rel holds_balanced (mmc_select_powerclass hk)"
  unfolding mmc_select_powerclass_def set_powerclass_def
  by (intro io_rel ev.rel_intros io_hold hb.rel_intros)+

lemma bus_width_loop_evolves [io_rel]: "state_io_rel evolves (bus_width_loop hk ws err)"
proof (induction ws arbitrary: err)
  case Nil
  show ?case by (simp add: ret_rel)
next
  case (Cons x ws)
  obtain b bw where x: "x = (b, bw)" by (cases x)
  show ?case unfolding x bus_width_loop.simps by (intro io_rel ev.rel_intros Cons)
qed

lemma bus_width_loop_hold [io_hold]: "state_io_rel holds_balanced (bus_width_loop hk ws err)"
proof (induction ws arbitrary: err)
  case Nil
  show ?case by (simp add: ret_rel)
next
  case (Cons x ws)
  obtain b bw where x: "x = (b, bw)" by (cases x)
  show ?case unfolding x bus_width_loop.simps by (intro io_hold hb.rel_intros Cons)
qed

lemma bus_width_rel [io_rel, io_hold]:
  "state_io_rel evolves (mmc_select_bus_width hk)"
  "state_io_rel holds_balanced (mmc_select_bus_width hk)"
  unfolding mmc_select_bus_width_def by (intro io_rel ev.rel_intros) (intro io_hold hb.rel_intros)

lemma driver_type_rel [io_rel, io_hold]:
  "state_io_rel evolves mmc_select_driver_type" "state_io_rel holds_balanced mmc_select_driver_type"
  "state_io_rel evolves (try_low_voltage a b)" "state_io_rel holds_balanced (try_low_voltage a b)"
  unfolding mmc_select_driver_type_def try_low_voltage_def
  by (intro io_rel ev.rel_intros quiet_evolves io_hold hb.rel_intros quiet_hold)+

lemma strobe_rel [io_rel, io_hold]:
  "state_io_rel evolves (modify (upd_ios (\<lambda>i. i\<lparr>ios_enhanced_strobe := b\<rparr>)))"
  "state_io_rel holds_balanced (modify (upd_ios (\<lambda>i. i\<lparr>ios_enhanced_strobe := b\<rparr>)))"
  by (auto simp: state_io_rel_def silent_defs hold_defs)

lemma modes_evolve [io_rel]:
  "state_io_rel evolves (mmc_select_hs hk)" "state_io_rel evolves (mmc_select_hs_ddr hk)"
  "state_io_rel evolves (mmc_select_hs400es hk)" "state_io_rel evolves (mmc_select_hs200 hk)"
  "state_io_rel evolves mmc_hs200_tuning"
  unfolding mmc_select_hs_def mmc_select_hs_ddr_def mmc_select_hs400es_def mmc_select_hs200_def
    mmc_hs200_tuning_def Let_def
  by (intro io_rel ev.rel_intros)+

lemma modes_hold [io_hold]:
  "state_io_rel holds_balanced (mmc_select_hs hk)" "state_io_rel holds_balanced (mmc_select_hs_ddr hk)"
  "state_io_rel holds_balanced (mmc_select_hs400es hk)"
  "state_io_rel holds_balanced (mmc_select_hs200 hk)"
  "state_io_rel holds_balanced mmc_hs200_tuning"
  unfolding mmc_select_hs_def mmc_select_hs_ddr_def mmc_select_hs400es_def mmc_select_hs200_def
    mmc_hs200_tuning_def Let_def
  by (intro io_hold hb.rel_intros)+

lemma select_timing_rel [io_rel, io_hold]:
  "state_io_rel evolves (mmc_select_timing hk)" "state_io_rel holds_balanced (mmc_select_timing hk)"
  unfolding mmc_select_timing_def Let_def
  by (intro io_rel ev.rel_intros) (intro io_hold hb.rel_intros)

end

lemma retune_rel: "state_io_rel evolves mmc_retune" "state_io_rel holds_balanced mmc_retune"
  unfolding mmc_retune_def
  by (intro retune_with_rel nested.retune_body_rel)+

interpretation hpi: request_hooks hpi_hooks
  by unfold_locales (simp_all add: hpi_hooks_def retune_rel ret_rel)

interpretation io: request_hooks hooks
  by unfold_locales
    (simp_all add: hooks_def retune_rel mmc_interrupt_hpi_def hpi.interrupt_hpi_rel)

end
