(* ===== verification/Command_Frame.thy ===== *)
theory Command_Frame
  imports Mmc_Retune Poll_Facts "HOL-Library.Sublist"
begin

text \<open>
  What commands leave alone.  Sending commands, polling, switching and re-tuning change the
  counters of re-tuning, the state of the command queue engine, the timing and the clock of
  the bus, and nothing else: neither the card object nor the width, voltages and modes of the
  bus, nor the claim of the host or its runtime PM.  The relation \<open>settled\<close> says so, and the locale \<open>settled_hooks\<close> derives it for every
  such operation; \<open>Mmc_Retune\<close>'s hooks are its instances.
\<close>

text \<open>The events by which an operation claims or releases the host or calls runtime PM.\<close>

fun claim_event :: "mmc_event \<Rightarrow> bool" where
  "claim_event EvClaim = True"
| "claim_event EvRelease = True"
| "claim_event (EvPm p) = True"
| "claim_event _ = False"

definition blank :: "mmc_world \<Rightarrow> mmc_world" where
  "blank w = w\<lparr>w_trace := filter claim_event (w_trace w), w_now := 0, w_host := (w_host w)\<lparr>h_retune_now := False,
     h_need_retune := False, h_hold_retune := 0, h_can_retune := False, h_retune_timer := None,
     h_cqe_on := False,
     h_ios := (w_ios w)\<lparr>ios_timing := MMC_TIMING_LEGACY, ios_clock := 0\<rparr>\<rparr>\<rparr>"

definition settled :: "mmc_world \<Rightarrow> mmc_world \<Rightarrow> bool" where
  "settled w v \<longleftrightarrow> blank v = blank w"

named_theorems io_settled \<open>introduction rules for operations that leave the card and bus alone\<close>

interpretation st: io_preorder settled
  by unfold_locales (simp_all add: settled_def)

lemmas settled_defs = settled_def blank_def upd_defs

text \<open>The parts that stay the same.\<close>

lemma settled_fields:
  assumes "settled w v"
  shows "w_card v = w_card w" "w_kernel v = w_kernel w" "w_ops v = w_ops w"
    "h_caps (w_host v) = h_caps (w_host w)" "h_caps2 (w_host v) = h_caps2 (w_host w)"
    "h_card (w_host v) = h_card (w_host w)"
    "h_doing_retune (w_host v) = h_doing_retune (w_host w)"
    "h_retune_paused (w_host v) = h_retune_paused (w_host w)"
    "h_max_busy_timeout (w_host v) = h_max_busy_timeout (w_host w)"
    "ios_bus_width (w_ios v) = ios_bus_width (w_ios w)"
    "ios_vdd (w_ios v) = ios_vdd (w_ios w)"
    "ios_power_mode (w_ios v) = ios_power_mode (w_ios w)"
    "ios_signal_voltage (w_ios v) = ios_signal_voltage (w_ios w)"
    "filter claim_event (w_trace v) = filter claim_event (w_trace w)"
    "h_bus_ops (w_host v) = h_bus_ops (w_host w)" "h_bus_refs (w_host v) = h_bus_refs (w_host w)"
    "h_bus_dead (w_host v) = h_bus_dead (w_host w)"
  using assms [unfolded settled_def, THEN arg_cong, of w_card]
      assms [unfolded settled_def, THEN arg_cong, of w_kernel]
      assms [unfolded settled_def, THEN arg_cong, of w_ops]
      assms [unfolded settled_def, THEN arg_cong, of "\<lambda>w. h_caps (w_host w)"]
      assms [unfolded settled_def, THEN arg_cong, of "\<lambda>w. h_caps2 (w_host w)"]
      assms [unfolded settled_def, THEN arg_cong, of "\<lambda>w. h_card (w_host w)"]
      assms [unfolded settled_def, THEN arg_cong, of "\<lambda>w. h_doing_retune (w_host w)"]
      assms [unfolded settled_def, THEN arg_cong, of "\<lambda>w. h_retune_paused (w_host w)"]
      assms [unfolded settled_def, THEN arg_cong, of "\<lambda>w. h_max_busy_timeout (w_host w)"]
      assms [unfolded settled_def, THEN arg_cong, of "\<lambda>w. ios_bus_width (w_ios w)"]
      assms [unfolded settled_def, THEN arg_cong, of "\<lambda>w. ios_vdd (w_ios w)"]
      assms [unfolded settled_def, THEN arg_cong, of "\<lambda>w. ios_power_mode (w_ios w)"]
      assms [unfolded settled_def, THEN arg_cong, of "\<lambda>w. ios_signal_voltage (w_ios w)"]
      assms [unfolded settled_def, THEN arg_cong, of w_trace]
      assms [unfolded settled_def, THEN arg_cong, of "\<lambda>w. h_bus_ops (w_host w)"]
      assms [unfolded settled_def, THEN arg_cong, of "\<lambda>w. h_bus_refs (w_host w)"]
      assms [unfolded settled_def, THEN arg_cong, of "\<lambda>w. h_bus_dead (w_host w)"]
  by (simp_all add: blank_def)

section \<open>Operations of the host\<close>

lemma emit_settled [io_settled]: "\<not> claim_event e \<Longrightarrow> state_io_rel settled (emit e n)"
  unfolding emit_def by (intro st.rel_modify) (simp add: settled_defs log_event_def)

lemma not_claim [io_settled]:
  "\<not> claim_event (EvRequest q)" "\<not> claim_event (EvSetIos i)" "\<not> claim_event EvCardBusy"
  "\<not> claim_event (EvVoltageSwitch i)" "\<not> claim_event (EvTuning o')"
  "\<not> claim_event (EvDriveStrength d h c)" "\<not> claim_event (EvDelay ms)"
  "\<not> claim_event (EvUsleep us)" "\<not> claim_event EvJiffies" "\<not> claim_event EvCqeOff"
  "\<not> claim_event EvCqeEnable" "\<not> claim_event EvCqeDisable" "\<not> claim_event EvHs400Downgrade"
  "\<not> claim_event EvHs400Complete" "\<not> claim_event (EvPrepareHs400Tuning i)"
  "\<not> claim_event (EvEnhancedStrobe i)" "\<not> claim_event EvHwReset" "\<not> claim_event EvInitCard"
  "\<not> claim_event (EvAlloc m)" "\<not> claim_event (EvPwrseq p)" "\<not> claim_event EvGetRo"
  "\<not> claim_event EvDeviceDel" "\<not> claim_event EvPutDevice"
  by simp_all

lemma simple_settled [io_settled]:
  "state_io_rel settled (mmc_delay ms)" "state_io_rel settled jiffies"
  "state_io_rel settled (card_busy f)" "state_io_rel settled mmc_set_ios"
  "state_io_rel settled (kzalloc n)"
  unfolding mmc_delay_def jiffies_def card_busy_def mmc_set_ios_def kzalloc_def
  by (intro io_settled st.rel_intros)+

lemma counters_settled [io_settled]:
  "state_io_rel settled cqe_off"
  "state_io_rel settled mmc_retune_needed" "state_io_rel settled mmc_retune_enable"
  "state_io_rel settled mmc_retune_hold" "state_io_rel settled mmc_retune_hold_now"
  "state_io_rel settled mmc_retune_recheck" "state_io_rel settled mmc_retune_release"
  unfolding cqe_off_def mmc_retune_needed_def mmc_retune_enable_def mmc_retune_hold_def
    mmc_retune_hold_now_def mmc_retune_recheck_def mmc_retune_release_def
  by (intro io_settled st.rel_intros st.rel_modify; simp add: settled_defs)+

lemma setters_settled [io_settled]:
  "state_io_rel settled (mmc_set_timing t)" "state_io_rel settled (mmc_set_clock hz)"
  unfolding mmc_set_timing_def mmc_set_clock_def
  by (intro io_settled st.rel_intros st.rel_modify; simp add: settled_defs)+

lemma speed_settled [io_settled]:
  "state_io_rel settled mmc_set_bus_speed" "state_io_rel settled hs400_downgrade"
  "state_io_rel settled prepare_hs400_tuning" "state_io_rel settled mmc_execute_tuning"
  unfolding mmc_set_bus_speed_def hs400_downgrade_def
    prepare_hs400_tuning_def mmc_execute_tuning_def
  by (intro io_settled st.rel_intros)+

lemma sdio_busy_settled [io_settled]: "state_io_rel settled (sdio_busy_loop f n)"
  by (induction f n rule: sdio_busy_loop.induct) (auto intro!: io_settled st.rel_intros)

lemma request_done_settled [io_settled]: "state_io_rel settled (mmc_request_done m)"
  unfolding mmc_request_done_def Let_def by (intro io_settled st.rel_intros)

lemma poll_settled [io_settled]:
  "state_io_rel settled body \<Longrightarrow> state_io_rel settled (poll_until limit stuck body)"
  by (intro io_poll_rel st.io_preorder_axioms)

section \<open>Commands\<close>

locale settled_hooks = request_hooks +
  assumes hk_retune_settled [io_settled]: "state_io_rel settled (hk_retune hk)"
    and hk_hpi_settled [io_settled]: "state_io_rel settled (hk_hpi hk)"
begin

lemma start_request_settled [io_settled]: "state_io_rel settled (start_request hk m)"
  unfolding start_request_def by (intro io_settled st.rel_intros)

lemma wait_loop_settled [io_settled]: "state_io_rel settled (State (wait_req_loop hk m))"
  by (intro wait_req_loop_rel st.io_preorder_axioms io_settled)

lemma wait_settled [io_settled]:
  "state_io_rel settled (mmc_wait_for_req hk m)" "state_io_rel settled (mmc_wait_for_cmd hk c n)"
  unfolding mmc_wait_for_cmd_def mmc_wait_for_req_def mmc_start_req_def mmc_start_request_def
    mmc_wait_for_req_done_def
  by (intro io_settled st.rel_intros)+

lemma status_settled [io_settled]:
  "state_io_rel settled (mmc_send_status hk)" "state_io_rel settled (switch_status hk b)"
  "state_io_rel settled (mmc_switch_status hk)"
  unfolding mmc_switch_status_def switch_status_def mmc_send_status_def send_status_retries_def
  by (intro io_settled st.rel_intros)+

lemma registers_settled [io_settled]:
  "state_io_rel settled (mmc_send_cxd_native hk arg opc)"
  "state_io_rel settled (mmc_send_cxd_data hk opc buf)"
  "state_io_rel settled (mmc_send_csd hk)" "state_io_rel settled (mmc_send_cid hk)"
  "state_io_rel settled (mmc_get_ext_csd hk)" "state_io_rel settled (mmc_compare_ext_csds hk bw)"
  unfolding mmc_send_csd_def mmc_send_cid_def mmc_spi_send_csd_def mmc_spi_send_cid_def
    spi_send_cxd_def mmc_get_ext_csd_def mmc_send_cxd_native_def mmc_send_cxd_data_def
    mmc_compare_ext_csds_def
  by (intro io_settled st.rel_intros)+

lemma poll_for_busy_settled [io_settled]:
  "state_io_rel settled (poll_busy_body hk t b)" "state_io_rel settled (mmc_poll_for_busy hk ms s b)"
  unfolding mmc_poll_for_busy_def poll_busy_body_def by (intro io_settled st.rel_intros)+

lemma switch_settled [io_settled]:
  "state_io_rel settled (switch_finish hk o' t s)"
  "state_io_rel settled (mmc_switch_full hk cs i v tm ti ub ss rc)"
  "state_io_rel settled (mmc_switch hk cs i v tm)" "state_io_rel settled (switch_quiet hk i v)"
  unfolding switch_quiet_def mmc_switch_def mmc_switch_full_def switch_finish_def Let_def
  by (intro io_settled st.rel_intros)+

lemma tuning_settled [io_settled]:
  "state_io_rel settled (mmc_send_tuning hk opc)" "state_io_rel settled (mmc_abort_tuning hk opc)"
  "state_io_rel settled (mmc_send_bus_test hk opc len)" "state_io_rel settled (mmc_bus_test hk bw)"
  unfolding mmc_send_tuning_def mmc_abort_tuning_def mmc_bus_test_def mmc_send_bus_test_def Let_def
  by (intro io_settled st.rel_intros)+

lemma hpi_settled [io_settled]:
  "state_io_rel settled (mmc_send_hpi_cmd hk)" "state_io_rel settled (hpi_poll_body hk t)"
  "state_io_rel settled (interrupt_hpi hk)"
  unfolding interrupt_hpi_def mmc_send_hpi_cmd_def hpi_poll_body_def
  by (intro io_settled st.rel_intros)+

lemma modes_settled [io_settled]:
  "state_io_rel settled (mmc_select_hs400 hk)" "state_io_rel settled (mmc_hs200_to_hs400 hk)"
  "state_io_rel settled (mmc_hs400_to_hs200 hk)" "state_io_rel settled (retune_body hk)"
  "state_io_rel settled (mmc_select_hs hk)"
  unfolding retune_body_def mmc_hs200_to_hs400_def mmc_hs400_to_hs200_def mmc_select_hs400_def
    mmc_select_hs_def
  by (intro io_settled st.rel_intros)+

lemma powerclass_settled [io_settled]:
  "state_io_rel settled (set_powerclass hk bw)" "state_io_rel settled (mmc_select_powerclass hk)"
  unfolding mmc_select_powerclass_def set_powerclass_def
  by (intro io_settled st.rel_intros)+

end

section \<open>The hooks\<close>

text \<open>Re-tuning runs its body only when none is running, and clears the flag afterwards.\<close>

lemma retune_with_settled:
  assumes "state_io_rel settled t"
  shows "state_io_rel settled (retune_with t)"
  unfolding state_io_rel_def
proof
  fix w
  show "settled w (snd (run_state (retune_with t) w))"
  proof (cases "h_retune_now (w_host w) \<and> h_need_retune (w_host w) \<and> \<not> h_doing_retune (w_host w)
      \<and> h_card (w_host w)")
    case True
    let ?set = "\<lambda>b. upd_host (\<lambda>h. h\<lparr>h_doing_retune := b\<rparr>)"
    let ?b = "upd_host (\<lambda>h. h\<lparr>h_retune_now := False, h_need_retune := False, h_doing_retune := True\<rparr>) w"
    obtain e u where u: "run_state t ?b = (e, u)" by fastforce
    have doing: "blank (?set b x) = ?set b (blank x)" for b x
      by (simp add: blank_def upd_defs)
    have "blank u = blank ?b" using assms u by (auto simp: settled_def dest: st.rel_run)
    also have "\<dots> = ?set True (blank w)" by (simp add: blank_def upd_defs)
    finally have "blank (?set False u) = blank w"
      unfolding doing using True by (simp add: blank_def upd_defs)
    moreover have "snd (run_state (retune_with t) w) = ?set False u"
      using True u by (simp add: retune_with_def upd_host_def)
    ultimately show ?thesis by (simp add: settled_def)
  next
    case False
    then show ?thesis by (auto simp: retune_with_def settled_defs)
  qed
qed

lemma ret_settled: "state_io_rel settled (ret x)"
  by (rule st.rel_ret)

interpretation nested: settled_hooks nested_hooks
  by unfold_locales (simp_all add: nested_hooks_def retune_with_settled ret_settled)

lemma retune_settled: "state_io_rel settled mmc_retune"
  unfolding mmc_retune_def by (intro retune_with_settled nested.modes_settled)

interpretation hpi: settled_hooks hpi_hooks
  by unfold_locales (simp_all add: hpi_hooks_def retune_settled ret_settled)

interpretation io: settled_hooks hooks
  by unfold_locales
    (simp_all add: hooks_def retune_settled mmc_interrupt_hpi_def hpi.hpi_settled)

section \<open>Commands that were served\<close>

text \<open>
  In the trace \<open>tr\<close>, after the events \<open>t\<close>, the command was sent and the controller completed it
  without error.
\<close>

definition served :: "host_ops \<Rightarrow> trace \<Rightarrow> mmc_command \<Rightarrow> trace \<Rightarrow> bool" where
  "served ops tr c t \<longleftrightarrow> (\<exists>q. prefix (t @ [EvRequest q]) tr \<and> same_cmd (mrq_cmd q) c \<and>
    cpl_cmd_error (op_request ops t q) = 0)"

lemma cmd_served:
  assumes "run_state (mmc_wait_for_cmd hooks c n) w = (d, v)"
    and "\<not> cmd_sanitize_busy c" and "cmd_error d = 0" and "evolves v u"
  shows "\<exists>t. length (w_trace w) \<le> length t \<and> length t < length (w_trace v) \<and>
    served (w_ops w) (w_trace u) c t"
proof -
  obtain t q where "w_trace v = t @ [EvRequest q]" "length (w_trace w) \<le> length t"
      "same_cmd (mrq_cmd q) c" "cpl_cmd_error (op_request (w_ops w) t q) = 0"
    using io.cmd_sent [OF assms(1-3)] by blast
  moreover obtain evs where "w_trace u = w_trace v @ evs"
    using assms(4) by (auto simp: evolves_def)
  ultimately show ?thesis
    by (intro exI [of _ t]) (auto simp: served_def intro: exI [of _ q])
qed

lemma evolves_ops: "evolves w v \<Longrightarrow> w_ops v = w_ops w"
  by (simp add: evolves_def same_board_def)

lemma cmd_evolves:
  "run_state (mmc_wait_for_cmd hooks c n) w = (d, v) \<Longrightarrow> evolves w v"
  by (rule ev.rel_run [OF io.wait_for_cmd_evolves])

end
