(* ===== verification/Retune_Recursion.thy ===== *)
theory Retune_Recursion
  imports Command_Frame
begin

text \<open>
  The recursion of the code through \<open>mmc_retune\<close>: the functions built from the nested hooks
  are the functions of the code.  Two programs agree when they have the same runs from the
  states in question, all of them or those in which a re-tuning runs; programs that differ
  only in their hooks agree where the hooks do.
\<close>

section \<open>Agreement\<close>

definition agree :: "bool \<Rightarrow> 'a io \<Rightarrow> 'a io \<Rightarrow> bool" where
  "agree D m m' \<longleftrightarrow>
    (\<forall>w. (D \<longrightarrow> h_doing_retune (w_host w)) \<longrightarrow> run_state m w = run_state m' w)"

lemma agree_refl: "agree D m m"
  by (simp add: agree_def)

lemma agreeD: "agree D m m' \<Longrightarrow> (D \<longrightarrow> h_doing_retune (w_host w)) \<Longrightarrow> run_state m w = run_state m' w"
  by (simp add: agree_def)

lemma settled_doing:
  "state_io_rel settled m \<Longrightarrow> run_state m w = (x, v) \<Longrightarrow>
    h_doing_retune (w_host v) = h_doing_retune (w_host w)"
  by (drule (1) st.rel_run) (simp add: settled_fields)

lemma agree_bind:
  assumes m: "agree D m m'" and s: "state_io_rel settled m" and f: "\<And>x. agree D (f x) (f' x)"
  shows "agree D (m \<bind> f) (m' \<bind> f')"
  unfolding agree_def
proof (intro allI impI)
  fix w :: mmc_world assume w: "D \<longrightarrow> h_doing_retune (w_host w)"
  obtain x v where run: "run_state m w = (x, v)" by fastforce
  have run': "run_state m' w = (x, v)" using agreeD [OF m w] run by simp
  have "run_state (f x) v = run_state (f' x) v"
    using w settled_doing [OF s run] by (intro agreeD [OF f]) simp
  then show "run_state (m \<bind> f) w = run_state (m' \<bind> f') w" by (simp add: run run')
qed

lemma agree_if: "(b \<Longrightarrow> agree D m m') \<Longrightarrow> (\<not> b \<Longrightarrow> agree D n n') \<Longrightarrow>
    agree D (if b then m else n) (if b then m' else n')"
  by simp

lemma agree_option: "(x = None \<Longrightarrow> agree D m m') \<Longrightarrow> (\<And>y. x = Some y \<Longrightarrow> agree D (f y) (f' y)) \<Longrightarrow>
    agree D (case x of None \<Rightarrow> m | Some y \<Rightarrow> f y) (case x of None \<Rightarrow> m' | Some y \<Rightarrow> f' y)"
  by (cases x) simp_all

lemma agree_let: "(\<And>y. agree D (f y) (f' y)) \<Longrightarrow> agree D (let y = x in f y) (let y = x in f' y)"
  by simp

lemmas agree_intros = agree_refl agree_if agree_option agree_let agree_bind

lemma agree_poll:
  assumes body: "agree D body body'" and s: "state_io_rel settled body"
  shows "agree D (poll_until limit stuck body) (poll_until limit stuck body')"
proof -
  have "b = body \<longrightarrow> (D \<longrightarrow> h_doing_retune (w_host w)) \<longrightarrow>
      io_poll limit stuck b w = io_poll limit stuck body' w" for b w
  proof (induction limit stuck b w rule: io_poll.induct)
    case (1 limit stuck b w)
    show ?case
    proof (intro impI)
      assume b: "b = body" and w: "D \<longrightarrow> h_doing_retune (w_host w)"
      obtain r v where run: "run_state body w = (r, v)" by fastforce
      have run': "run_state body' w = (r, v)" using agreeD [OF body w] run by simp
      have v: "D \<longrightarrow> h_doing_retune (w_host v)" using w settled_doing [OF s run] by simp
      show "io_poll limit stuck b w = io_poll limit stuck body' w"
      proof (cases "r = None \<and> w_now w < w_now v \<and> w_now w \<le> limit")
        case True
        then have "io_poll limit stuck body v = io_poll limit stuck body' v"
          using 1 [of r v] run v unfolding b by auto
        with True run run' show ?thesis unfolding b by (simp add: io_poll.simps [of limit stuck _ w])
      next
        case False
        with run run' show ?thesis
          unfolding b by (auto simp: io_poll.simps [of limit stuck _ w] split: option.splits)
      qed
    qed
  qed
  then show ?thesis by (simp add: agree_def poll_until_def)
qed

section \<open>Commands under hooks that agree\<close>

locale agreeing_hooks = settled_hooks hk for hk +
  fixes D :: bool and hk' :: io_hooks
  assumes retune: "agree D (hk_retune hk) (hk_retune hk')"
begin

lemma start_request: "agree D (start_request hk m) (start_request hk' m)"
  unfolding start_request_def by (intro retune agree_intros io_settled st.rel_intros)

text \<open>The interruption of a sanitize is not reached by other commands.\<close>

lemma wait_loop:
  assumes "\<not> cmd_sanitize_busy (mrq_cmd m)"
  shows "agree D (State (wait_req_loop hk m)) (State (wait_req_loop hk' m))"
proof -
  have "h = hk \<longrightarrow> \<not> cmd_sanitize_busy (mrq_cmd m) \<longrightarrow> (D \<longrightarrow> h_doing_retune (w_host w)) \<longrightarrow>
      wait_req_loop h m w = wait_req_loop hk' m w" for h m w
  proof (induction h m w rule: wait_req_loop.induct)
    case (1 h m w)
    show ?case
    proof (intro impI)
      assume h: "h = hk" and san: "\<not> cmd_sanitize_busy (mrq_cmd m)"
        and w: "D \<longrightarrow> h_doing_retune (w_host w)"
      show "wait_req_loop h m w = wait_req_loop hk' m w"
      proof (cases "cmd_error (mrq_cmd m) = 0 \<or> cmd_retries (mrq_cmd m) = 0 \<or> mmc_card_removed w")
        case True
        with san show ?thesis by (auto simp: wait_req_loop.simps [of _ m w] Let_def)
      next
        case False
        obtain u where u: "run_state mmc_retune_recheck w = ((), u)" by (rule unit_run)
        let ?m = "m\<lparr>mrq_cmd := (mrq_cmd m)\<lparr>cmd_retries := cmd_retries (mrq_cmd m) - 1,
          cmd_error := 0\<rparr>\<rparr>"
        obtain n t where n: "run_state (start_request hk ?m) u = (n, t)" by fastforce
        have du: "D \<longrightarrow> h_doing_retune (w_host u)"
          using w settled_doing [OF counters_settled(6) u] by simp
        have dt: "D \<longrightarrow> h_doing_retune (w_host t)"
          using du settled_doing [OF start_request_settled n] by simp
        have n': "run_state (start_request hk' ?m) u = (n, t)"
          using agreeD [OF start_request du] n by simp
        have sn: "\<not> cmd_sanitize_busy (mrq_cmd n)"
          using start_request_ok [OF n order_refl] san by (simp add: same_cmd_def)
        have ih: "wait_req_loop hk n t = wait_req_loop hk' n t"
          using 1 [of "mrq_cmd m" "(False, w)" False w "()" u n t] False san u n sn dt
          unfolding h by simp
        have step: "wait_req_loop k m w = wait_req_loop k n t"
          if "run_state (start_request k ?m) u = (n, t)" for k
          using False san u that by (simp add: wait_req_loop.simps [of k m w] Let_def)
        show ?thesis unfolding h by (simp only: step [OF n] step [OF n'] ih)
      qed
    qed
  qed
  with assms show ?thesis by (simp add: agree_def)
qed

lemma wait_for_req:
  assumes san: "\<not> cmd_sanitize_busy (mrq_cmd m)"
  shows "agree D (mmc_wait_for_req hk m) (mmc_wait_for_req hk' m)"
  unfolding agree_def
proof (intro allI impI)
  fix w :: mmc_world assume w: "D \<longrightarrow> h_doing_retune (w_host w)"
  have start: "agree D (mmc_start_req hk m) (mmc_start_req hk' m)"
    unfolding mmc_start_req_def mmc_start_request_def case_prod_beta
    by (intro start_request agree_intros io_settled st.rel_intros)
  have set: "state_io_rel settled (mmc_start_req hk m)"
    unfolding mmc_start_req_def mmc_start_request_def by (intro io_settled st.rel_intros)
  obtain e n v where n: "run_state (mmc_start_req hk m) w = ((e, n), v)" by (metis surj_pair)
  have n': "run_state (mmc_start_req hk' m) w = ((e, n), v)" using agreeD [OF start w] n by simp
  have dv: "D \<longrightarrow> h_doing_retune (w_host v)" using w settled_doing [OF set n] by simp
  have "same_cmd (mrq_cmd n) (mrq_cmd m)"
    using n by (auto simp: mmc_start_req_def mmc_start_request_def same_cmd_def set_cmd_error_def
        split: prod.splits if_splits dest!: mrq_prep_cmd start_request_ok [OF _ le0])
  then have "\<not> cmd_sanitize_busy (mrq_cmd n)" using san by (simp add: same_cmd_def)
  then have "agree D (mmc_wait_for_req_done hk n) (mmc_wait_for_req_done hk' n)"
    unfolding mmc_wait_for_req_done_def
    by (intro wait_loop agree_intros wait_loop_settled io_settled st.rel_intros)
  from agreeD [OF this dv] show "run_state (mmc_wait_for_req hk m) w = run_state (mmc_wait_for_req hk' m) w"
    by (simp add: mmc_wait_for_req_def n n')
qed

lemma wait_for_cmd:
  assumes "\<not> cmd_sanitize_busy c"
  shows "agree D (mmc_wait_for_cmd hk c n) (mmc_wait_for_cmd hk' c n)"
  unfolding mmc_wait_for_cmd_def Let_def
  by (intro agree_bind wait_for_req wait_settled agree_refl) (simp add: assms mrq_of_def)

lemma status:
  "agree D (mmc_send_status hk) (mmc_send_status hk')"
  "agree D (switch_status hk b) (switch_status hk' b)"
  "agree D (mmc_switch_status hk) (mmc_switch_status hk')"
proof -
  show s: "agree D (mmc_send_status hk) (mmc_send_status hk')"
    unfolding mmc_send_status_def send_status_retries_def
    by (intro wait_for_cmd agree_intros io_settled st.rel_intros wait_settled) (simp add: cmd0_def)
  show "agree D (switch_status hk b) (switch_status hk' b)"
    "agree D (mmc_switch_status hk) (mmc_switch_status hk')"
    unfolding mmc_switch_status_def switch_status_def
    by (intro s agree_intros io_settled st.rel_intros status_settled)+
qed

lemma poll_for_busy: "agree D (mmc_poll_for_busy hk ms s b) (mmc_poll_for_busy hk' ms s b)"
proof -
  have "agree D (poll_busy_body hk t b) (poll_busy_body hk' t b)" for t
    unfolding poll_busy_body_def
    by (intro status agree_intros io_settled st.rel_intros status_settled)
  then show ?thesis
    unfolding mmc_poll_for_busy_def
    by (intro agree_poll agree_intros io_settled st.rel_intros poll_for_busy_settled)
qed

lemma switch_full:
  assumes "i \<noteq> EXT_CSD_SANITIZE_START"
  shows "agree D (mmc_switch_full hk cs i v tm ti ub ss rc) (mmc_switch_full hk' cs i v tm ti ub ss rc)"
proof -
  have "agree D (switch_finish hk o' ti ss) (switch_finish hk' o' ti ss)" for o'
    unfolding switch_finish_def
    by (intro status agree_intros io_settled st.rel_intros status_settled)
  moreover have "\<not> cmd_sanitize_busy (switch_cmd cs i v tm r)" for r
    using assms by (simp add: switch_cmd_def cmd0_def)
  ultimately show ?thesis
    unfolding mmc_switch_full_def
    by (intro wait_for_cmd poll_for_busy agree_intros io_settled st.rel_intros
        switch_settled poll_for_busy_settled wait_settled)
qed

lemma switch:
  assumes "i \<noteq> EXT_CSD_SANITIZE_START"
  shows "agree D (mmc_switch hk cs i v tm) (mmc_switch hk' cs i v tm)"
    and "agree D (switch_quiet hk i v) (switch_quiet hk' i v)"
  unfolding mmc_switch_def switch_quiet_def
  by (intro switch_full assms agree_intros io_settled st.rel_intros)+

lemma hs400:
  "agree D (mmc_select_hs400 hk) (mmc_select_hs400 hk')"
  "agree D (mmc_hs400_to_hs200 hk) (mmc_hs400_to_hs200 hk')"
  unfolding mmc_select_hs400_def mmc_hs400_to_hs200_def
  by ((intro switch status agree_intros io_settled st.rel_intros switch_settled status_settled; simp)+)[2]

lemma retune_body: "agree D (retune_body hk) (retune_body hk')"
  unfolding retune_body_def mmc_hs200_to_hs400_def
  by (intro hs400 agree_intros io_settled st.rel_intros modes_settled)

lemma interrupt_hpi: "agree D (interrupt_hpi hk) (interrupt_hpi hk')"
proof -
  have "agree D (mmc_send_hpi_cmd hk) (mmc_send_hpi_cmd hk')"
    unfolding mmc_send_hpi_cmd_def
    by (intro wait_for_cmd agree_intros io_settled st.rel_intros wait_settled) (simp add: cmd0_def)
  moreover have "agree D (hpi_poll_body hk t) (hpi_poll_body hk' t)" for t
    unfolding hpi_poll_body_def
    by (intro status agree_intros io_settled st.rel_intros status_settled)
  ultimately show ?thesis
    unfolding interrupt_hpi_def
    by (intro status agree_poll agree_intros io_settled st.rel_intros hpi_settled status_settled)
qed

end

section \<open>The equations of the code\<close>

lemma retune_doing: "agree True (retune_with t) (retune_with t')"
  by (simp add: agree_def retune_with_def)

interpretation nested: agreeing_hooks nested_hooks True hooks
  by unfold_locales (simp add: nested_hooks_def hooks_def mmc_retune_def retune_doing)

interpretation hpi: agreeing_hooks hpi_hooks False hooks
  by unfold_locales (simp add: hpi_hooks_def hooks_def agree_refl)

end
