(* ===== verification/Request_Types.thy ===== *)
theory Request_Types
  imports Request_Facts
begin

text \<open>
  The type of a request: its commands and data keep what was asked for, the responses have four
  words and the buffer its length, however a request is prepared, sent, answered and repeated.
\<close>

section \<open>Shapes\<close>

definition cmd_shape :: "mmc_command \<Rightarrow> u32 \<times> u32 \<times> cmd_flag set \<times> u32 \<times> bool" where
  "cmd_shape c = (cmd_opcode c, cmd_arg c, cmd_flags c, cmd_busy_timeout c, cmd_sanitize_busy c)"

definition dat_shape :: "mmc_data \<Rightarrow> mmc_data \<times> nat" where
  "dat_shape d = (d\<lparr>dat_error := 0, dat_bytes_xfered := 0, dat_buf := []\<rparr>, length (dat_buf d))"

definition cmd_typed :: "mmc_command \<Rightarrow> bool" where
  "cmd_typed c \<longleftrightarrow> length (cmd_resp c) = 4"

definition mrq_typed :: "mmc_request \<Rightarrow> bool" where
  "mrq_typed m \<longleftrightarrow> cmd_typed (mrq_cmd m) \<and> (\<forall>c \<in> set_option (mrq_sbc m) \<union> set_option (mrq_stop m). cmd_typed c)"

definition same_shape :: "mmc_request \<Rightarrow> mmc_request \<Rightarrow> bool" where
  "same_shape m q \<longleftrightarrow> cmd_shape (mrq_cmd m) = cmd_shape (mrq_cmd q) \<and>
    map_option cmd_shape (mrq_sbc m) = map_option cmd_shape (mrq_sbc q) \<and>
    map_option dat_shape (mrq_data m) = map_option dat_shape (mrq_data q) \<and>
    map_option cmd_shape (mrq_stop m) = map_option cmd_shape (mrq_stop q)"

text \<open>\<open>m\<close> is what became of the request \<open>q\<close>.\<close>

definition keeps_type :: "mmc_request \<Rightarrow> mmc_request \<Rightarrow> bool" where
  "keeps_type q m \<longleftrightarrow> same_shape m q \<and> (mrq_typed q \<longrightarrow> mrq_typed m)"

lemma keeps_refl [simp]: "keeps_type q q"
  by (simp add: keeps_type_def same_shape_def)

lemma keeps_trans: "keeps_type q m \<Longrightarrow> keeps_type m n \<Longrightarrow> keeps_type q n"
  by (simp add: keeps_type_def same_shape_def)

lemmas shape_defs = keeps_type_def same_shape_def mrq_typed_def cmd_typed_def cmd_shape_def dat_shape_def

section \<open>Steps\<close>

lemma resp4_length [simp]: "length (resp4 r) = 4"
  by (simp add: resp4_def)

lemma overlay_length [simp]: "length (overlay new old) = length old"
  by (simp add: overlay_def)

lemma error_keeps: "keeps_type q (set_cmd_error e q)"
  by (simp add: shape_defs set_cmd_error_def)

lemma complete_keeps: "keeps_type q (complete_mrq c q)"
  by (cases "mrq_sbc q"; cases "mrq_data q"; cases "mrq_stop q") (simp_all add: shape_defs complete_mrq_def)

lemma prep_keeps: "mmc_mrq_prep h q = (e, m) \<Longrightarrow> keeps_type q m"
  by (cases "mrq_sbc q"; cases "mrq_data q"; cases "mrq_stop q")
    (auto simp: shape_defs mmc_mrq_prep_def clear_error_def Let_def split: if_splits)

section \<open>Operations\<close>

text \<open>All results of an operation have a property.\<close>

definition returns :: "('a \<Rightarrow> bool) \<Rightarrow> 'a io \<Rightarrow> bool" where
  "returns P m \<longleftrightarrow> (\<forall>w. P (fst (run_state m w)))"

lemma returns_run: "returns P m \<Longrightarrow> run_state m w = (x, v) \<Longrightarrow> P x"
  by (metis fst_conv returns_def)

lemma returns_ret: "P x \<Longrightarrow> returns P (ret x)"
  by (simp add: returns_def)

lemma returns_bind: "(\<And>x. returns P (f x)) \<Longrightarrow> returns P (m \<bind> f)"
  by (simp add: returns_def split_beta)

lemma returns_through: "returns Q m \<Longrightarrow> (\<And>x. Q x \<Longrightarrow> returns P (f x)) \<Longrightarrow> returns P (m \<bind> f)"
  by (simp add: returns_def split_beta)

lemma returns_if: "(b \<Longrightarrow> returns P m) \<Longrightarrow> (\<not> b \<Longrightarrow> returns P n) \<Longrightarrow> returns P (if b then m else n)"
  by simp

lemma retries_keeps: "keeps_type q m \<Longrightarrow> keeps_type q (m\<lparr>mrq_cmd := (mrq_cmd m)\<lparr>cmd_retries := n\<rparr>\<rparr>)"
  by (erule keeps_trans) (simp add: shape_defs)

lemma done_keeps: "keeps_type q m \<Longrightarrow> returns (keeps_type q) (mmc_request_done m)"
  unfolding mmc_request_done_def Let_def
  by (intro returns_bind returns_ret) (simp add: retries_keeps)

lemma start_keeps: "returns (keeps_type q) (start_request hk q)"
  unfolding start_request_def
  by (intro returns_bind returns_if done_keeps error_keeps complete_keeps)

lemma wait_loop_keeps: "wait_req_loop hk q w = (m, v) \<Longrightarrow> keeps_type q m"
proof (induction hk q w arbitrary: m v rule: wait_req_loop.induct)
  case (1 hk q w)
  obtain i a where a: "(i, a) = (if cmd_sanitize_busy (mrq_cmd q) \<and> cmd_error (mrq_cmd q) = - ETIMEDOUT
      then (case run_state (hk_hpi hk) w of (err, w) \<Rightarrow> (err = 0, w)) else (False, w))" by (metis surj_pair)
  consider (interrupted) i
    | (over) "\<not> i" "cmd_error (mrq_cmd q) = 0 \<or> cmd_retries (mrq_cmd q) = 0 \<or> mmc_card_removed a"
    | (again) "\<not> i" "\<not> (cmd_error (mrq_cmd q) = 0 \<or> cmd_retries (mrq_cmd q) = 0 \<or> mmc_card_removed a)" by blast
  then show ?case
  proof cases
    case interrupted
    with 1(2) a [symmetric] error_keeps [of q 0] show ?thesis by (simp add: wait_req_loop.simps [of hk q w] Let_def)
  next
    case over
    with 1(2) a [symmetric] show ?thesis by (simp add: wait_req_loop.simps [of hk q w] Let_def)
  next
    case again
    let ?q = "q\<lparr>mrq_cmd := (mrq_cmd q)\<lparr>cmd_retries := cmd_retries (mrq_cmd q) - 1, cmd_error := 0\<rparr>\<rparr>"
    obtain u where u: "run_state mmc_retune_recheck a = ((), u)" by (rule unit_run)
    obtain n t where n: "run_state (start_request hk ?q) u = (n, t)" by fastforce
    have "wait_req_loop hk n t = (m, v)"
      using 1(2) a [symmetric] again u n by (simp add: wait_req_loop.simps [of hk q w] Let_def)
    with 1(1) [OF refl refl a again u [symmetric] n [symmetric]] have "keeps_type n m" by simp
    moreover have "keeps_type ?q n" using returns_run [OF start_keeps n] .
    moreover have "keeps_type q ?q" by (simp add: shape_defs)
    ultimately show ?thesis by (blast intro: keeps_trans)
  qed
qed

lemma wait_keeps: "returns (keeps_type q) (mmc_wait_for_req hk q)"
proof -
  have start: "returns (\<lambda>r. keeps_type q (snd r)) (mmc_start_request hk q)"
    unfolding mmc_start_request_def
  proof (intro returns_bind returns_if returns_ret)
    fix w
    obtain e m where m: "mmc_mrq_prep (w_host w) q = (e, m)" by fastforce
    have "returns (\<lambda>r. keeps_type q (snd r)) (do { n \<leftarrow> start_request hk m; ret (0 :: int, n) })"
      by (rule returns_through [OF start_keeps [of m]], rule returns_ret)
        (use prep_keeps [OF m] in \<open>auto intro: keeps_trans\<close>)
    then show "returns (\<lambda>r. keeps_type q (snd r)) (case mmc_mrq_prep (w_host w) q of (err, mrq) \<Rightarrow>
        if err \<noteq> 0 then ret (err, mrq) else do { mrq \<leftarrow> start_request hk mrq; ret (0, mrq) })"
      using m prep_keeps [OF m] by (simp add: returns_ret)
  qed simp
  then have "returns (\<lambda>r. keeps_type q (snd r)) (mmc_start_req hk q)"
    unfolding mmc_start_req_def
    by (rule returns_through) (auto intro!: returns_ret intro: keeps_trans [OF _ error_keeps])
  then show ?thesis unfolding mmc_wait_for_req_def
  proof (rule returns_through)
    fix r :: "int \<times> mmc_request" assume r: "keeps_type q (snd r)"
    have "returns (keeps_type (snd r)) (State (wait_req_loop hk (snd r)))"
      using wait_loop_keeps [OF prod.collapse [symmetric]] by (simp add: returns_def)
    then show "returns (keeps_type q) (mmc_wait_for_req_done hk (snd r))"
      unfolding mmc_wait_for_req_done_def
      by (rule returns_through) (use r in \<open>auto intro!: returns_bind returns_ret intro: keeps_trans\<close>)
  qed
qed

end
