(* ===== verification/Quiet_World.thy ===== *)
theory Quiet_World
  imports Command_Frame Example_World
begin

text \<open>
  Worlds in which commands without data succeed at once; the example world is one of them.
\<close>

text \<open>
  A quiet world: nothing asks for re-tuning, the card is there, the command queue engine is
  off, and the controller completes requests without error.
\<close>

definition quiet :: "mmc_world \<Rightarrow> bool" where
  "quiet w \<longleftrightarrow> \<not> h_need_retune (w_host w) \<and> \<not> mmc_card_removed w \<and> \<not> h_cqe_on (w_host w) \<and>
    (\<forall>t q. cpl_cmd_error (op_request (w_ops w) t q) = 0)"

definition sent :: "mmc_command \<Rightarrow> nat \<Rightarrow> mmc_request" where
  "sent c n = mrq_of (c\<lparr>cmd_resp := [0, 0, 0, 0], cmd_retries := n, cmd_error := 0\<rparr>) None"

definition tuned :: "mmc_world \<Rightarrow> mmc_world" where
  "tuned w = upd_host (\<lambda>h. h\<lparr>h_retune_now := False\<rparr>) w"

lemma retune_quiet: "\<not> h_need_retune (w_host w) \<Longrightarrow> run_state mmc_retune w = (0, tuned w)"
proof -
  have "h\<lparr>h_retune_now := False\<rparr> = h" if "\<not> h_retune_now h" for h :: mmc_host
    using that by simp
  then show "\<not> h_need_retune (w_host w) \<Longrightarrow> ?thesis"
    by (auto simp: mmc_retune_def retune_with_def tuned_def upd_host_def)
qed

text \<open>The world with one more hold.\<close>

definition held :: "mmc_world \<Rightarrow> mmc_world" where
  "held w = upd_host (\<lambda>h. h\<lparr>h_retune_now := h_hold_retune h = 0 \<or> h_retune_now h,
    h_hold_retune := h_hold_retune h + 1\<rparr>) w"

lemma run_hold: "run_state mmc_retune_hold w = ((), held w)"
proof -
  have "h\<lparr>h_retune_now := h_retune_now h, h_hold_retune := k\<rparr> = h\<lparr>h_hold_retune := k\<rparr>"
    for h :: mmc_host and k by simp
  then show ?thesis by (simp add: mmc_retune_hold_def held_def upd_host_def)
qed

text \<open>Requests before which the controller is not asked whether the card is busy.\<close>

definition io_free :: "mmc_world \<Rightarrow> mmc_request \<Rightarrow> bool" where
  "io_free w q \<longleftrightarrow> op_card_busy (w_ops w) = None \<or>
    cmd_opcode (mrq_cmd q) \<noteq> SD_IO_RW_DIRECT \<and> cmd_opcode (mrq_cmd q) \<noteq> SD_IO_RW_EXTENDED"

lemma start_request_quiet:
  assumes "quiet w" and "io_free w q" and "mrq_sbc q = None" "mrq_stop q = None"
    and "mrq_data q = None \<or> cpl_data_error (op_request (w_ops w) (w_trace w) q) = 0"
  shows "run_state (start_request hooks q) w =
    (complete_mrq (op_request (w_ops w) (w_trace w) q) q, log_event (EvRequest q) 0 (tuned w))"
proof -
  have "op_card_busy (w_ops w) = None \<or> \<not> sdio_is_io_busy (cmd_opcode (mrq_cmd q)) (cmd_arg (mrq_cmd q))"
    using assms(2) by (auto simp: sdio_is_io_busy_def io_free_def)
  moreover have "w_host (tuned w) = (w_host w)\<lparr>h_retune_now := False\<rparr>" "w_trace (tuned w) = w_trace w"
    by (simp_all add: tuned_def upd_host_def)
  ultimately show ?thesis
    using assms by (auto simp: start_request_def hooks_def retune_quiet quiet_def emit_def
        mmc_request_done_def complete_mrq_def Let_def split: option.split)
qed

lemma data_timeout_size:
  "dat_blksz (mmc_set_data_timeout h mc d) = dat_blksz d"
  "dat_blocks (mmc_set_data_timeout h mc d) = dat_blocks d"
  "dat_sg (mmc_set_data_timeout h mc d) = dat_sg d"
  by (simp_all add: mmc_set_data_timeout_def Let_def)

text \<open>A request that passes \<open>mmc_mrq_prep\<close> is completed at once.\<close>

lemma req_quiet_io:
  assumes "quiet w" and free: "io_free w m"
    and prep: "mmc_mrq_prep (w_host w) m = (0, q)" and "mrq_sbc q = None" "mrq_stop q = None"
    and "mrq_data q = None \<or> cpl_data_error (op_request (w_ops w) (w_trace w) q) = 0"
  shows "run_state (mmc_wait_for_req hooks m) w =
    (complete_mrq (op_request (w_ops w) (w_trace w) q) q, log_event (EvRequest q) 0 (tuned w))"
proof -
  let ?a = "held w"
  have aw: "tuned ?a = upd_host (\<lambda>h. h\<lparr>h_hold_retune := h_hold_retune (w_host w) + 1\<rparr>) (tuned w)"
    "w_trace ?a = w_trace w" "w_ops ?a = w_ops w" "quiet ?a" "\<not> mmc_card_removed ?a"
    using assms(1) by (simp_all add: held_def tuned_def upd_host_def quiet_def mmc_card_removed_def)
  let ?r = "op_request (w_ops w) (w_trace w) q"
  have "same_cmd (mrq_cmd q) (mrq_cmd m)" using io.mrq_prep_cmd [OF prep] .
  then have "io_free ?a q" using free aw by (simp add: io_free_def same_cmd_def)
  then have start: "run_state (start_request hooks q) ?a =
      (complete_mrq ?r q, log_event (EvRequest q) 0 (tuned ?a))"
    using start_request_quiet [of ?a q] aw assms(4-6) by simp
  have prep': "mmc_mrq_prep (w_host ?a) m = (0, q)"
    using prep by (cases "mrq_data m") (simp_all add: mmc_mrq_prep_def held_def upd_host_def)
  have ok: "cmd_error (mrq_cmd (complete_mrq ?r q)) = 0"
    using assms(1) by (simp add: complete_mrq_def quiet_def)
  then have loop: "wait_req_loop hooks (complete_mrq ?r q) v = (complete_mrq ?r q, v)" for v
    by (simp add: wait_req_loop.simps [of hooks "complete_mrq ?r q" v])
  have rel: "run_state mmc_retune_release (log_event (EvRequest q) 0 (tuned ?a))
      = ((), log_event (EvRequest q) 0 (tuned w))"
    by (simp add: mmc_retune_release_def held_def log_event_def tuned_def upd_host_def)
  show ?thesis
    using run_hold [of w] aw start prep' loop rel
    by (simp add: mmc_wait_for_req_def mmc_start_req_def mmc_start_request_def
        mmc_wait_for_req_done_def)
qed

lemma req_quiet:
  assumes "quiet w" and "cmd_opcode (mrq_cmd m) \<noteq> SD_IO_RW_DIRECT"
    and "cmd_opcode (mrq_cmd m) \<noteq> SD_IO_RW_EXTENDED"
    and "mmc_mrq_prep (w_host w) m = (0, q)" and "mrq_sbc q = None" "mrq_stop q = None"
    and "mrq_data q = None \<or> cpl_data_error (op_request (w_ops w) (w_trace w) q) = 0"
  shows "run_state (mmc_wait_for_req hooks m) w =
    (complete_mrq (op_request (w_ops w) (w_trace w) q) q, log_event (EvRequest q) 0 (tuned w))"
  using assms(2,3) by (intro req_quiet_io [OF assms(1) _ assms(4-7)]) (simp add: io_free_def)

lemma cmd_quiet_io:
  assumes "quiet w" and "io_free w (mrq_of c None)"
  shows "run_state (mmc_wait_for_cmd hooks c n) w =
    (c\<lparr>cmd_resp := resp4 (cpl_cmd_resp (op_request (w_ops w) (w_trace w) (sent c n))),
       cmd_retries := n, cmd_error := 0\<rparr>,
     log_event (EvRequest (sent c n)) 0 (tuned w))"
proof -
  let ?m = "mrq_of (c\<lparr>cmd_resp := [0, 0, 0, 0], cmd_retries := n\<rparr>) None"
  let ?r = "op_request (w_ops w) (w_trace w) (sent c n)"
  have "mmc_mrq_prep (w_host w) ?m = (0, sent c n)"
    by (simp add: mmc_mrq_prep_def sent_def mrq_of_def clear_error_def)
  then have "run_state (mmc_wait_for_req hooks ?m) w =
      (complete_mrq ?r (sent c n), log_event (EvRequest (sent c n)) 0 (tuned w))"
    using assms by (intro req_quiet_io) (simp_all add: mrq_of_def sent_def io_free_def)
  moreover have "mrq_cmd (complete_mrq ?r (sent c n)) =
      c\<lparr>cmd_resp := resp4 (cpl_cmd_resp ?r), cmd_retries := n, cmd_error := 0\<rparr>"
    using assms(1) by (simp add: complete_mrq_def sent_def mrq_of_def quiet_def)
  ultimately show ?thesis by (simp add: mmc_wait_for_cmd_def)
qed

lemma cmd_quiet:
  assumes "quiet w" and "cmd_opcode c \<noteq> SD_IO_RW_DIRECT" and "cmd_opcode c \<noteq> SD_IO_RW_EXTENDED"
  shows "run_state (mmc_wait_for_cmd hooks c n) w =
    (c\<lparr>cmd_resp := resp4 (cpl_cmd_resp (op_request (w_ops w) (w_trace w) (sent c n))),
       cmd_retries := n, cmd_error := 0\<rparr>,
     log_event (EvRequest (sent c n)) 0 (tuned w))"
  using assms(2,3) by (intro cmd_quiet_io [OF assms(1)]) (simp add: io_free_def mrq_of_def)

lemma quiet_world: "quiet world_ok"
  by (simp add: quiet_def world_defs mmc_card_removed_def card_state_def)

text \<open>Events, holds and commands keep a world quiet.\<close>

lemma quiet_steps [simp]:
  "quiet (log_event e n w) = quiet w" "quiet (tuned w) = quiet w"
  "w_ops (log_event e n w) = w_ops w" "w_ops (tuned w) = w_ops w"
  "w_card (log_event e n w) = w_card w" "w_card (tuned w) = w_card w"
  "w_host (log_event e n w) = w_host w" "w_host (tuned w) = (w_host w)\<lparr>h_retune_now := False\<rparr>"
  by (simp_all add: quiet_def log_event_def tuned_def upd_host_def mmc_card_removed_def)

lemma quiet_held [simp]:
  "quiet (held w) = quiet w" "w_ops (held w) = w_ops w" "w_card (held w) = w_card w"
  "w_host (held w) = (w_host w)\<lparr>h_retune_now := h_hold_retune (w_host w) = 0 \<or> h_retune_now (w_host w),
    h_hold_retune := h_hold_retune (w_host w) + 1\<rparr>"
  by (simp_all add: quiet_def held_def upd_host_def mmc_card_removed_def)

end
