(* ===== verification/Request_Properties.thy ===== *)
theory Request_Properties
  imports Retune_Recursion Request_Types Quiet_World
begin

text \<open>
  The properties of requests, of the commands built on them and of the polling loops.
\<close>

section \<open>Requests\<close>

text \<open>
  C1: a command other than a sanitize that ends without error was sent unchanged (up to its
  results and retries) as the last event, the controller completed it without error, and
  the caller sees what the controller reported; re-tuning and retries cannot produce a
  success of their own.
\<close>

theorem wait_for_cmd_success:
  assumes "run_state (mmc_wait_for_cmd hooks c n) w = (d, v)"
    and "\<not> cmd_sanitize_busy c" and "cmd_error d = 0"
  shows "\<exists>t q. w_trace v = t @ [EvRequest q] \<and> length (w_trace w) \<le> length t \<and>
    same_cmd (mrq_cmd q) c \<and> cpl_cmd_error (op_request (w_ops w) t q) = 0 \<and>
    cmd_resp d = resp4 (cpl_cmd_resp (op_request (w_ops w) t q))"
  by (rule io.cmd_sent [OF assms])

text \<open>
  In a quiet world a command without data is sent once and returns the controller's answer
  without error; the world changes by this event only.
\<close>

theorem wait_for_cmd_quiet:
  assumes "quiet w" and "cmd_opcode c \<noteq> SD_IO_RW_DIRECT" and "cmd_opcode c \<noteq> SD_IO_RW_EXTENDED"
  shows "run_state (mmc_wait_for_cmd hooks c n) w =
    (c\<lparr>cmd_resp := resp4 (cpl_cmd_resp (op_request (w_ops w) (w_trace w) (sent c n))),
       cmd_retries := n, cmd_error := 0\<rparr>,
     log_event (EvRequest (sent c n)) 0 (tuned w))"
  by (rule cmd_quiet [OF assms])

lemma wait_for_cmd_quiet_witness:
  "cmd_error (fst (run_state (mmc_wait_for_cmd hooks (cmd0\<lparr>cmd_opcode := 13\<rparr>) 3) world_ok)) = 0"
  by (subst wait_for_cmd_quiet [OF quiet_world]) (simp_all add: cmd0_def)

lemma wait_for_cmd_success_witness:
  "\<exists>d v. run_state (mmc_wait_for_cmd hooks (cmd0\<lparr>cmd_opcode := 13\<rparr>) 3) world_ok = (d, v)
    \<and> cmd_resp d = resp4 [0x900, 0, 0, 0]"
proof -
  let ?c = "cmd0\<lparr>cmd_opcode := 13\<rparr>"
  obtain d v where run: "run_state (mmc_wait_for_cmd hooks ?c 3) world_ok = (d, v)" by fastforce
  have "cmd_error d = 0"
    using cmd_quiet [OF quiet_world, of ?c 3] run by (auto simp: cmd0_def)
  with wait_for_cmd_success [OF run] run show ?thesis
    by (auto simp: cmd0_def world_ok_def host_ok_def ops_ok_def completion_ok_def)
qed



section \<open>Re-tuning\<close>



text \<open>
  C3: every hold of re-tuning that a request, a switch, a polling loop or a change of the
  speed mode takes is given back on every path, errors and retries included, and re-tuning
  and interruption take none.
\<close>

theorem requests_balance_holds:
  "state_io_rel holds_balanced (mmc_wait_for_req hooks q) \<and>
   state_io_rel holds_balanced (mmc_switch_full hooks cset index val ms timing busy status crc) \<and>
   state_io_rel holds_balanced (mmc_poll_for_busy hooks ms status crc) \<and>
   state_io_rel holds_balanced (mmc_select_bus_width hooks) \<and>
   state_io_rel holds_balanced (mmc_select_timing hooks) \<and>
   state_io_rel holds_balanced mmc_retune \<and> state_io_rel holds_balanced mmc_interrupt_hpi"
  using io.hk_hpi_hold
  by (intro conjI io.wait_for_req_hold io.switch_full_hold io.poll_for_busy_rel io.bus_width_rel
      io.select_timing_rel retune_rel) (simp add: hooks_def)

text \<open>
  C16: the same operations, except for the changes of width and speed mode, leave the card
  object, the width, voltages and modes of the bus and the flag \<open>doing_retune\<close> as they are;
  what they change is the timing, the clock and the counters.
\<close>

theorem requests_settled:
  "state_io_rel settled (mmc_wait_for_req hooks q) \<and>
   state_io_rel settled (mmc_switch_full hooks cset index val ms timing busy status crc) \<and>
   state_io_rel settled (mmc_poll_for_busy hooks ms status crc) \<and>
   state_io_rel settled (mmc_compare_ext_csds hooks width) \<and>
   state_io_rel settled mmc_retune \<and> state_io_rel settled mmc_interrupt_hpi"
  using io.hk_hpi_settled
  by (intro conjI io.wait_settled io.switch_settled io.poll_for_busy_settled
      io.registers_settled retune_settled) (simp add: hooks_def)

section \<open>Polling\<close>



section \<open>Switching\<close>

text \<open>
  C8: when a switch of an EXT_CSD byte succeeds, the controller completed without error a
  command 6 whose argument writes the value to the index in the given command set; with any
  retries, re-tunings and status requests around it.
\<close>

theorem switch_success_sent:
  assumes "run_state (mmc_switch_full hooks cset index val ms timing busy status crc) w = (0, v)"
    and "index < 256" and "index \<noteq> EXT_CSD_SANITIZE_START"
  shows "\<exists>t q rest. w_trace v = t @ EvRequest q # rest \<and> length (w_trace w) \<le> length t \<and>
    cpl_cmd_error (op_request (w_ops w) t q) = 0 \<and> cmd_opcode (mrq_cmd q) = 6 \<and>
    unat (cmd_arg (mrq_cmd q)) = 3 * 2 ^ 24 + index * 2 ^ 16 + unat val * 2 ^ 8 + unat cset"
  by (rule io.switch_sent [OF assms])

lemma switch_success_sent_witness:
  "\<exists>v t q rest. run_state (mmc_switch_full hooks 0 33 1 0 MMC_TIMING_LEGACY False False False)
      world_ok = (0, v) \<and> w_trace v = t @ EvRequest q # rest \<and>
    cmd_opcode (mrq_cmd q) = 6 \<and> unat (cmd_arg (mrq_cmd q)) = 0x3210100"
proof -
  let ?w = "upd_host (\<lambda>h. h\<lparr>h_retune_now := True, h_hold_retune := 1\<rparr>) world_ok"
  obtain v where run:
    "run_state (mmc_switch_full hooks 0 33 1 0 MMC_TIMING_LEGACY False False False) world_ok = (0, v)"
  proof -
    have "quiet ?w" by (simp add: quiet_def world_defs mmc_card_removed_def card_state_def upd_host_def)
    moreover have "run_state mmc_retune_hold world_ok = ((), ?w)"
      by (simp add: mmc_retune_hold_def world_defs upd_host_def)
    ultimately have "fst (run_state (mmc_switch_full hooks 0 33 1 0 MMC_TIMING_LEGACY False False
        False) world_ok) = 0"
      by (simp add: mmc_switch_full_def Let_def cmd_quiet switch_cmd_def cmd0_def split_beta)
    then show ?thesis using that by (metis prod.collapse)
  qed
  show ?thesis
    using switch_success_sent [OF run] run by fastforce
qed

end
