(* ===== verification/Erase.thy ===== *)
theory Erase
  imports Command_Frame
begin

text \<open>
  Erasing (\<open>mmc/core/core.c\<close>): erase groups and preferred sizes, timeouts, the erase command
  with its polling, alignment to erase groups, what the card supports, and the largest
  discard.  The shift of \<open>mmc_init_erase\<close> relies on a block size of at least 512 bytes, and
  the divisions of the timeouts and group numbers on a running clock and an erase size that
  is not 0.
\<close>

section \<open>Erase groups\<close>

definition mmc_init_erase :: "mmc_card \<Rightarrow> mmc_card" where
  "mmc_init_erase mc =
    (let mc = mc\<lparr>cd_erase_shift :=
           (if is_power_of_2 (cd_erase_size mc) then ffs (cd_erase_size mc) - 1 else 0)\<rparr>
     in if mmc_card_sd mc \<and> ssr_au (cd_ssr mc) \<noteq> 0 then
          mc\<lparr>cd_pref_erase := ssr_au (cd_ssr mc), cd_erase_shift := ffs (ssr_au (cd_ssr mc)) - 1\<rparr>
        else if cd_erase_size mc \<noteq> 0 then
          (let sz = drop_bit 11 (push_bit (unat (csd_read_blkbits (cd_csd mc) - 9))
                      (csd_capacity (cd_csd mc)));
               pref = (if sz < 128 then 512 * 1024 div 512
                       else if sz < 512 then 1024 * 1024 div 512
                       else if sz < 1024 then 2 * 1024 * 1024 div 512
                       else 4 * 1024 * 1024 div 512)
           in if pref < cd_erase_size mc then mc\<lparr>cd_pref_erase := cd_erase_size mc\<rparr>
              else (let sz = pref mod cd_erase_size mc
                    in mc\<lparr>cd_pref_erase :=
                         (if sz \<noteq> 0 then pref + (cd_erase_size mc - sz) else pref)\<rparr>))
        else mc\<lparr>cd_pref_erase := 0\<rparr>)"

text \<open>\<open>mmc_set_erase_size\<close> of \<open>mmc.c\<close>.\<close>

definition mmc_set_erase_size :: "mmc_card \<Rightarrow> mmc_card" where
  "mmc_set_erase_size mc = mmc_init_erase (mc\<lparr>cd_erase_size :=
     (if ec_erase_group_def (cd_ext_csd mc) AND 1 \<noteq> 0 then ec_hc_erase_size (cd_ext_csd mc)
      else csd_erase_size (cd_csd mc))\<rparr>)"

section \<open>Timeouts\<close>

definition mmc_mmc_erase_timeout :: "mmc_host \<Rightarrow> mmc_card \<Rightarrow> u32 \<Rightarrow> u32 \<Rightarrow> u32" where
  "mmc_mmc_erase_timeout h mc arg qty =
    (let x = cd_ext_csd mc;
         erase_timeout =
           (if arg = MMC_DISCARD_ARG \<or> arg = MMC_TRIM_ARG \<and> ec_rev x \<ge> 6 then ec_trim_timeout x
            else if ec_erase_group_def x AND 1 \<noteq> 0 then
              (if arg = MMC_TRIM_ARG then ec_trim_timeout x else ec_hc_erase_timeout x)
            else
              (let mult = push_bit (unat (csd_r2w_factor (cd_csd mc))) 10;
                   timeout_clks = ucast (csd_taac_clks (cd_csd mc)) * mult;
                   timeout_us = (if csd_taac_ns (cd_csd mc) < 1000000
                     then (csd_taac_ns (cd_csd mc) * mult) div 1000
                     else (csd_taac_ns (cd_csd mc) div 1000) * mult);
                   timeout_clks = push_bit 1 timeout_clks;
                   timeout_us = timeout_us + (timeout_clks * 1000) div (ios_clock (h_ios h) div 1000);
                   erase_timeout = timeout_us div 1000
               in if erase_timeout = 0 then 1 else erase_timeout));
         erase_timeout =
           (if arg AND MMC_SECURE_ARGS \<noteq> 0 then
              (if arg = MMC_SECURE_ERASE_ARG then erase_timeout * ec_sec_erase_mult x
               else erase_timeout * ec_sec_trim_mult x)
            else erase_timeout);
         erase_timeout = erase_timeout * qty
     in if MMC_CAP_SPI \<in> h_caps h \<and> erase_timeout < 1000 then 1000 else erase_timeout)"

definition mmc_sd_erase_timeout :: "mmc_card \<Rightarrow> u32 \<Rightarrow> u32 \<Rightarrow> u32" where
  "mmc_sd_erase_timeout mc arg qty =
    (let erase_timeout =
       (if ssr_erase_timeout (cd_ssr mc) \<noteq> 0
        then ssr_erase_timeout (cd_ssr mc) * qty + ssr_erase_offset (cd_ssr mc)
        else 250 * qty)
     in if erase_timeout < 1000 then 1000 else erase_timeout)"

definition mmc_erase_timeout :: "mmc_host \<Rightarrow> mmc_card \<Rightarrow> u32 \<Rightarrow> u32 \<Rightarrow> u32" where
  "mmc_erase_timeout h mc arg qty =
    (if mmc_card_sd mc then mmc_sd_erase_timeout mc arg qty else mmc_mmc_erase_timeout h mc arg qty)"

section \<open>The erase command\<close>

text \<open>
  A polling loop with a variable: the body answers or gives the variable's next value.  As
  \<open>io_poll\<close>, the loop goes on only while time passes and the limit is not reached, which is
  the loop of the code where \<open>io_loop_unfold\<close> applies.
\<close>

function io_loop ::
  "nat \<Rightarrow> 'a \<Rightarrow> ('s \<Rightarrow> ('a + 's) io) \<Rightarrow> 's \<Rightarrow> mmc_world \<Rightarrow> 'a \<times> mmc_world" where
  "io_loop limit stuck body s w =
    (case run_state (body s) w of
       (Inl r, v) \<Rightarrow> (r, v)
     | (Inr t, v) \<Rightarrow> if w_now w < w_now v \<and> w_now w \<le> limit then io_loop limit stuck body t v
                   else (stuck, v))"
  by auto
termination by (relation "measure (\<lambda>(limit, stuck, body, s, w). Suc limit - w_now w)") auto

declare io_loop.simps [simp del]

definition loop_until :: "nat \<Rightarrow> 'a \<Rightarrow> ('s \<Rightarrow> ('a + 's) io) \<Rightarrow> 's \<Rightarrow> 'a io" where
  "loop_until limit stuck body s = State (io_loop limit stuck body s)"

definition erase_qty :: "mmc_card \<Rightarrow> u32 \<Rightarrow> u32 \<Rightarrow> u32" where
  "erase_qty mc from to =
    (if cd_erase_shift mc \<noteq> 0
     then (drop_bit (cd_erase_shift mc) to - drop_bit (cd_erase_shift mc) from) + 1
     else if mmc_card_sd mc then to - from + 1
     else (to div cd_erase_size mc - from div cd_erase_size mc) + 1)"

text \<open>One round of the status poll after the erase command; the variable is \<open>loop_udelay\<close>.\<close>

definition erase_poll_body :: "nat \<Rightarrow> nat \<Rightarrow> (int + nat) io" where
  "erase_poll_body timeout loop_udelay = do {
     w \<leftarrow> gets id;
     cmd \<leftarrow> mmc_wait_for_cmd hooks (cmd0\<lparr>cmd_opcode := MMC_SEND_STATUS, cmd_arg := rca_arg w,
       cmd_flags := {MMC_RSP_R1, MMC_CMD_AC}\<rparr>) 0;
     if cmd_error cmd \<noteq> 0 \<or> R1_STATUS (cmd_resp cmd ! 0) \<noteq> 0 then ret (Inl (- EIO))
     else do {
       now \<leftarrow> jiffies;
       if now > timeout then ret (Inl (- EIO))
       else if cmd_resp cmd ! 0 AND R1_READY_FOR_DATA \<noteq> 0
         \<and> R1_CURRENT_STATE (cmd_resp cmd ! 0) \<noteq> R1_STATE_PRG then ret (Inl 0)
       else do {
         emit (EvUsleep loop_udelay) (loop_udelay * 1000);
         ret (Inr (if loop_udelay < 32768 then loop_udelay * 2 else loop_udelay))
       }
     }
   }"

text \<open>The three commands.\<close>

definition erase_start_cmd :: "mmc_card \<Rightarrow> u32 \<Rightarrow> mmc_command" where
  "erase_start_cmd mc from = cmd0\<lparr>cmd_opcode :=
      (if mmc_card_sd mc then SD_ERASE_WR_BLK_START else MMC_ERASE_GROUP_START),
    cmd_arg := from, cmd_flags := {MMC_RSP_SPI_R1, MMC_RSP_R1, MMC_CMD_AC}\<rparr>"

definition erase_end_cmd :: "mmc_card \<Rightarrow> u32 \<Rightarrow> mmc_command" where
  "erase_end_cmd mc to = cmd0\<lparr>cmd_opcode :=
      (if mmc_card_sd mc then SD_ERASE_WR_BLK_END else MMC_ERASE_GROUP_END),
    cmd_arg := to, cmd_flags := {MMC_RSP_SPI_R1, MMC_RSP_R1, MMC_CMD_AC}\<rparr>"

definition erase_cmd :: "u32 \<Rightarrow> u32 \<Rightarrow> bool \<Rightarrow> mmc_command" where
  "erase_cmd arg busy_timeout use_r1b_resp =
    (if use_r1b_resp
     then cmd0\<lparr>cmd_opcode := MMC_ERASE, cmd_arg := arg, cmd_busy_timeout := busy_timeout,
       cmd_flags := {MMC_RSP_SPI_R1B, MMC_RSP_R1B, MMC_CMD_AC}\<rparr>
     else cmd0\<lparr>cmd_opcode := MMC_ERASE, cmd_arg := arg,
       cmd_flags := {MMC_RSP_SPI_R1, MMC_RSP_R1, MMC_CMD_AC}\<rparr>)"

text \<open>The commands of \<open>mmc_do_erase\<close> and the poll, on the scaled sector numbers.\<close>

definition erase_steps :: "mmc_card \<Rightarrow> u32 \<Rightarrow> u32 \<Rightarrow> u32 \<Rightarrow> u32 \<Rightarrow> int io" where
  "erase_steps mc from to arg qty = do {
     cmd \<leftarrow> mmc_wait_for_cmd hooks (erase_start_cmd mc from) 0;
     if cmd_error cmd \<noteq> 0 then ret (- EIO)
     else do {
       cmd \<leftarrow> mmc_wait_for_cmd hooks (erase_end_cmd mc to) 0;
       if cmd_error cmd \<noteq> 0 then ret (- EIO)
       else do {
         w \<leftarrow> gets id;
         let busy_timeout = mmc_erase_timeout (w_host w) (w_card w) arg qty;
         let use_r1b_resp = \<not> (h_max_busy_timeout (w_host w) \<noteq> 0
           \<and> busy_timeout > h_max_busy_timeout (w_host w));
         cmd \<leftarrow> mmc_wait_for_cmd hooks (erase_cmd arg busy_timeout use_r1b_resp) 0;
         w \<leftarrow> gets id;
         if cmd_error cmd \<noteq> 0 then ret (- EIO)
         else if mmc_host_is_spi w then ret 0
         else if MMC_CAP_WAIT_WHILE_BUSY \<in> h_caps (w_host w) \<and> use_r1b_resp then ret 0
         else do {
           now \<leftarrow> jiffies;
           w \<leftarrow> gets id;
           let timeout = now + kn_msecs_to_jiffies (w_kernel w) busy_timeout;
           loop_until (time_limit w timeout) (- EIO) (erase_poll_body timeout) 64
         }
       }
     }
   }"

definition mmc_do_erase :: "u32 \<Rightarrow> u32 \<Rightarrow> u32 \<Rightarrow> int io" where
  "mmc_do_erase from to arg = do {
     mmc_retune_hold;
     w \<leftarrow> gets id;
     let mc = w_card w;
     let qty = erase_qty mc from to;
     let from = (if mmc_card_blockaddr mc then from else push_bit 9 from);
     let to = (if mmc_card_blockaddr mc then to else push_bit 9 to);
     err \<leftarrow> erase_steps mc from to arg qty;
     mmc_retune_release;
     ret err
   }"

section \<open>Alignment\<close>

text \<open>The results are the return value, \<open>*from\<close> and \<open>*to\<close>.\<close>

definition mmc_align_erase_size :: "mmc_card \<Rightarrow> u32 \<Rightarrow> u32 \<Rightarrow> u32 \<Rightarrow> u32 \<times> u32 \<times> u32" where
  "mmc_align_erase_size mc from to nr =
    (let sz = cd_erase_size mc;
         stop = (0, from, to);
         finish = (\<lambda>from_new nr_new.
           if nr_new = 0 then stop else (nr_new, from_new, from_new + nr_new))
     in if is_power_of_2 sz then
          (let from_new = round_up from sz;
               rem = from_new - from
           in if nr > rem then finish from_new (round_down (nr - rem) sz) else stop)
        else
          (let rem = from mod sz in
           if rem \<noteq> 0 then
             (let rem = sz - rem;
                  from_new = from + rem
              in if nr > rem then
                   (let nr_new = nr - rem; rem = nr_new mod sz
                    in finish from_new (if rem \<noteq> 0 then nr_new - rem else nr_new))
                 else stop)
           else
             (let rem = nr mod sz
              in finish from (if rem \<noteq> 0 then nr - rem else nr))))"

text \<open>\<open>mmc_erase\<close> after its checks and the alignment.\<close>

definition erase_range :: "mmc_card \<Rightarrow> u32 \<Rightarrow> u32 \<Rightarrow> u32 \<Rightarrow> u32 \<Rightarrow> int io" where
  "erase_range mc from to nr arg =
    (if nr = 0 then ret 0
     else if to \<le> from then ret (- EINVAL)
     else
       (let to = to - 1;
            rem = cd_erase_size mc - from mod cd_erase_size mc
        in if arg AND MMC_TRIM_ARGS \<noteq> 0 \<and> cd_eg_boundary mc \<and> nr > rem then do {
             err \<leftarrow> mmc_do_erase from (from + rem - 1) arg;
             let from = from + rem;
             if err \<noteq> 0 \<or> to \<le> from then ret err else mmc_do_erase from to arg
           } else mmc_do_erase from to arg))"

definition mmc_erase :: "u32 \<Rightarrow> u32 \<Rightarrow> u32 \<Rightarrow> int io" where
  "mmc_erase from nr arg = do {
     w \<leftarrow> gets id;
     let mc = w_card w;
     let sf = ec_sec_feature_support (cd_ext_csd mc);
     if MMC_CAP_ERASE \<notin> h_caps (w_host w) \<or> csd_cmdclass (cd_csd mc) AND CCC_ERASE = 0
     then ret (- EOPNOTSUPP)
     else if cd_erase_size mc = 0 then ret (- EOPNOTSUPP)
     else if mmc_card_sd mc \<and> arg \<noteq> MMC_ERASE_ARG then ret (- EOPNOTSUPP)
     else if arg AND MMC_SECURE_ARGS \<noteq> 0 \<and> sf AND EXT_CSD_SEC_ER_EN = 0 then ret (- EOPNOTSUPP)
     else if arg AND MMC_TRIM_ARGS \<noteq> 0 \<and> sf AND EXT_CSD_SEC_GB_CL_EN = 0 then ret (- EOPNOTSUPP)
     else if arg = MMC_SECURE_ERASE_ARG
       \<and> (from mod cd_erase_size mc \<noteq> 0 \<or> nr mod cd_erase_size mc \<noteq> 0) then ret (- EINVAL)
     else (case (if arg = MMC_ERASE_ARG then mmc_align_erase_size mc from (from + nr) nr
                 else (nr, from, from + nr)) of
       (nr, from, to) \<Rightarrow> erase_range mc from to nr arg)
   }"

section \<open>What the card supports\<close>

definition mmc_can_erase :: "mmc_host \<Rightarrow> mmc_card \<Rightarrow> bool" where
  "mmc_can_erase h mc \<longleftrightarrow> MMC_CAP_ERASE \<in> h_caps h
    \<and> csd_cmdclass (cd_csd mc) AND CCC_ERASE \<noteq> 0 \<and> cd_erase_size mc \<noteq> 0"

definition mmc_can_trim :: "mmc_card \<Rightarrow> bool" where
  "mmc_can_trim mc \<longleftrightarrow> ec_sec_feature_support (cd_ext_csd mc) AND EXT_CSD_SEC_GB_CL_EN \<noteq> 0
    \<and> MMC_QUIRK_TRIM_BROKEN \<notin> cd_quirks mc"

definition mmc_can_discard :: "mmc_card \<Rightarrow> bool" where
  "mmc_can_discard mc \<longleftrightarrow> ec_discard_feature (cd_ext_csd mc)"

definition mmc_can_sanitize :: "mmc_host \<Rightarrow> mmc_card \<Rightarrow> bool" where
  "mmc_can_sanitize h mc \<longleftrightarrow>
    (if \<not> mmc_can_trim mc \<and> \<not> mmc_can_erase h mc then False
     else ec_sec_feature_support (cd_ext_csd mc) AND EXT_CSD_SEC_SANITIZE \<noteq> 0)"

definition mmc_can_secure_erase_trim :: "mmc_card \<Rightarrow> bool" where
  "mmc_can_secure_erase_trim mc \<longleftrightarrow>
    ec_sec_feature_support (cd_ext_csd mc) AND EXT_CSD_SEC_ER_EN \<noteq> 0
    \<and> MMC_QUIRK_SEC_ERASE_TRIM_BROKEN \<notin> cd_quirks mc"

definition mmc_erase_group_aligned :: "mmc_card \<Rightarrow> u32 \<Rightarrow> u32 \<Rightarrow> bool" where
  "mmc_erase_group_aligned mc from nr \<longleftrightarrow>
    (if cd_erase_size mc = 0 then False
     else if from mod cd_erase_size mc \<noteq> 0 \<or> nr mod cd_erase_size mc \<noteq> 0 then False
     else True)"

section \<open>The largest discard\<close>

text \<open>
  The inner loop tries \<open>x\<close> = 1, 2, 4, \<open>...\<close>; 32 doublings make \<open>x\<close> 0, which ends the loop, so
  a count of 32 rounds never does.  \<open>tmo\<close> is the timeout of a number of groups; the results
  are \<open>y\<close> and \<open>last_timeout\<close>.
\<close>

fun discard_probe ::
  "(u32 \<Rightarrow> u32) \<Rightarrow> u32 \<Rightarrow> u32 \<Rightarrow> u32 \<Rightarrow> u32 \<Rightarrow> nat \<Rightarrow> u32 \<Rightarrow> u32 \<Rightarrow> u32 \<Rightarrow> u32 \<times> u32" where
  "discard_probe tmo max_qty min_qty budget qty 0 x y last_timeout = (y, last_timeout)"
| "discard_probe tmo max_qty min_qty budget qty (Suc n) x y last_timeout =
    (if x \<noteq> 0 \<and> x \<le> max_qty \<and> max_qty - x \<ge> qty then
       (let timeout = tmo (qty + x) in
        if qty + x > min_qty \<and> timeout > budget then (y, last_timeout)
        else if timeout < last_timeout then (y, last_timeout)
        else discard_probe tmo max_qty min_qty budget qty n (push_bit 1 x) x timeout)
     else (y, last_timeout))"

text \<open>What the inner loop adds keeps within the largest number of groups.\<close>

lemma discard_probe_fits:
  "discard_probe tmo max_qty min_qty budget qty n x y l = (y', l') \<Longrightarrow>
    y' = y \<or> y' \<noteq> 0 \<and> y' \<le> max_qty \<and> qty \<le> max_qty - y'"
  by (induction n arbitrary: x y l) (auto simp: Let_def split: if_splits)

lemma probe_progress:
  assumes "discard_probe tmo max_qty min_qty budget qty n x 0 l = (y, l')" and "y \<noteq> (0 :: u32)"
  shows "unat (max_qty - (qty + y)) < unat (max_qty - qty)"
proof -
  have y: "y \<le> max_qty" "qty \<le> max_qty - y"
    using discard_probe_fits [OF assms(1)] assms(2) by auto
  then have "unat y \<le> unat max_qty" "unat qty \<le> unat max_qty - unat y"
    by (simp_all add: word_le_nat_alt unat_sub)
  moreover have "unat (qty + y) = unat qty + unat y"
    using calculation unsigned_less [of max_qty, where 'a = nat] by (intro unat_add_small) simp
  moreover have "0 < unat y" using assms(2) by (simp add: unat_gt_0)
  ultimately show ?thesis by (simp add: unat_sub word_le_nat_alt)
qed

function discard_loop ::
  "(u32 \<Rightarrow> u32) \<Rightarrow> u32 \<Rightarrow> u32 \<Rightarrow> u32 \<Rightarrow> u32 \<Rightarrow> u32 \<Rightarrow> u32" where
  "discard_loop tmo max_qty min_qty budget qty last_timeout =
    (case discard_probe tmo max_qty min_qty budget qty 32 1 0 last_timeout of
       (y, last_timeout) \<Rightarrow>
         if y = 0 then qty
         else discard_loop tmo max_qty min_qty budget (qty + y) last_timeout)"
  by auto
termination
  by (relation "measure (\<lambda>(tmo, max_qty, min_qty, budget, qty, l). unat (max_qty - qty))")
    (auto intro: probe_progress [OF sym])

declare discard_loop.simps [simp del]

abbreviation (input) MMC_ERASE_TIMEOUT_MS :: u32 where "MMC_ERASE_TIMEOUT_MS \<equiv> 60 * 1000"

definition discard_limits :: "mmc_card \<Rightarrow> u32 \<times> u32" where
  "discard_limits mc =
    (if cd_erase_shift mc \<noteq> 0
     then (drop_bit (cd_erase_shift mc) (- 1), drop_bit (cd_erase_shift mc) (cd_pref_erase mc))
     else if mmc_card_sd mc then (- 1, cd_pref_erase mc)
     else ((- 1) div cd_erase_size mc, cd_pref_erase mc div cd_erase_size mc))"

definition mmc_do_calc_max_discard :: "mmc_host \<Rightarrow> mmc_card \<Rightarrow> u32 \<Rightarrow> u32 \<times> mmc_card" where
  "mmc_do_calc_max_discard h mc arg =
    (let budget = (if h_max_busy_timeout h \<noteq> 0 then h_max_busy_timeout h else MMC_ERASE_TIMEOUT_MS);
         (max_qty, min_qty) = discard_limits mc;
         qty = discard_loop (mmc_erase_timeout h mc arg) max_qty min_qty budget 0 0
     in if qty = 0 then (0, mc)
        else
          (let mc = (if qty = 1 then mc\<lparr>cd_eg_boundary := True\<rparr> else mc);
               qty = (if qty = 1 then qty else qty - 1)
           in (if cd_erase_shift mc \<noteq> 0 then push_bit (cd_erase_shift mc) qty
               else if mmc_card_sd mc then qty + 1
               else qty * cd_erase_size mc, mc)))"

definition mmc_calc_max_discard :: "mmc_host \<Rightarrow> mmc_card \<Rightarrow> u32 \<times> mmc_card" where
  "mmc_calc_max_discard h mc =
    (if mmc_card_mmc mc \<and> ec_erase_group_def (cd_ext_csd mc) AND 1 = 0 then (cd_pref_erase mc, mc)
     else
       (let (max_discard, mc) = mmc_do_calc_max_discard h mc MMC_ERASE_ARG
        in if max_discard \<noteq> 0 \<and> mmc_can_trim mc then
             (let (max_trim, mc) = mmc_do_calc_max_discard h mc MMC_TRIM_ARG
              in (if max_trim < max_discard then max_trim else max_discard, mc))
           else if max_discard < cd_erase_size mc then (0, mc)
           else (max_discard, mc)))"

section \<open>Block length and count\<close>

definition mmc_card_is_blockaddr :: "mmc_card option \<Rightarrow> bool" where
  "mmc_card_is_blockaddr c = (case c of None \<Rightarrow> False | Some mc \<Rightarrow> mmc_card_blockaddr mc)"

definition mmc_set_blocklen :: "u32 \<Rightarrow> int io" where
  "mmc_set_blocklen blocklen = do {
     w \<leftarrow> gets id;
     if mmc_card_blockaddr (w_card w) \<or> ios_timing (w_ios w) = MMC_TIMING_MMC_DDR52
       \<or> ios_timing (w_ios w) = MMC_TIMING_MMC_HS400 \<or> ios_enhanced_strobe (w_ios w) then ret 0
     else do {
       cmd \<leftarrow> mmc_wait_for_cmd hooks (cmd0\<lparr>cmd_opcode := MMC_SET_BLOCKLEN, cmd_arg := blocklen,
         cmd_flags := {MMC_RSP_SPI_R1, MMC_RSP_R1, MMC_CMD_AC}\<rparr>) 5;
       ret (cmd_error cmd)
     }
   }"

definition mmc_set_blockcount :: "u32 \<Rightarrow> bool \<Rightarrow> int io" where
  "mmc_set_blockcount blockcount is_rel_write = do {
     let a = blockcount AND 0x0000FFFF;
     cmd \<leftarrow> mmc_wait_for_cmd hooks (cmd0\<lparr>cmd_opcode := MMC_SET_BLOCK_COUNT,
       cmd_arg := (if is_rel_write then a OR push_bit 31 1 else a),
       cmd_flags := {MMC_RSP_SPI_R1, MMC_RSP_R1, MMC_CMD_AC}\<rparr>) 5;
     ret (cmd_error cmd)
   }"

end
