(* ===== verification/Erase_Facts.thy ===== *)
theory Erase_Facts
  imports Erase
begin

text \<open>
  The arithmetic of erasing as natural numbers: alignment by masks and by division agree, the
  preferred size is a multiple of the erase size, and the largest discard keeps to its budget.
\<close>

section \<open>Powers of two\<close>

lemma bit_top_nat: "2 ^ m \<le> a \<Longrightarrow> a < 2 ^ Suc m \<Longrightarrow> bit (a :: nat) m"
proof -
  assume "2 ^ m \<le> a" "a < 2 ^ Suc m"
  then have "a div 2 ^ m = 1" by (intro div_nat_eqI) simp_all
  then show ?thesis by (simp add: bit_iff_odd)
qed

lemma word_le_bit: "bit (x :: u32) m \<Longrightarrow> 2 ^ m \<le> unat x"
proof (rule ccontr)
  assume b: "bit x m" and "\<not> 2 ^ m \<le> unat x"
  then have "unat x div 2 ^ m = 0" by simp
  moreover have "bit (unat x) m" using b by (simp add: bit_unsigned_iff)
  ultimately show False by (simp add: bit_iff_odd)
qed

lemma word_less_fls: "x \<noteq> 0 \<Longrightarrow> unat (x :: u32) < 2 ^ fls x"
proof -
  assume x: "x \<noteq> 0"
  have "take_bit (fls x) x = x"
    by (rule bit_word_eqI) (use fls_spec [OF x] in \<open>fastforce simp: bit_take_bit_iff\<close>)
  then have "unat x = take_bit (fls x) (unat x)"
    by (metis unsigned_take_bit_eq)
  also have "\<dots> < 2 ^ fls x" by simp
  finally show ?thesis .
qed

lemma power_of_2_ex:
  assumes "is_power_of_2 x"
  obtains k where "k < 32" and "unat x = 2 ^ k" and "x = 2 ^ k"
proof -
  define m where "m = fls x - 1"
  have x: "x \<noteq> 0" "x AND (x - 1) = 0" using assms by (simp_all add: is_power_of_2_def)
  have m: "bit x m" "m < 32" "unat x < 2 ^ Suc m"
    using fls_spec [OF x(1)] word_less_fls [OF x(1)] by (auto simp: m_def)
  have le: "2 ^ m \<le> unat x" using m(1) by (rule word_le_bit)
  have "unat x = 2 ^ m"
  proof (rule ccontr)
    assume "unat x \<noteq> 2 ^ m"
    with le m(3) have "2 ^ m \<le> unat x - 1" "unat x - 1 < 2 ^ Suc m" by simp_all
    then have "bit (unat x - 1) m" by (rule bit_top_nat)
    moreover have "unat (x - 1) = unat x - 1"
      using x(1) by (simp add: unat_minus_one)
    ultimately have "bit (x - 1) m" using m(2) by (metis bit_unsigned_iff)
    with m(1) have "bit (x AND (x - 1)) m" by (simp add: bit_and_iff)
    with x(2) show False by simp
  qed
  moreover have "of_nat (unat x) = x" by simp
  then have "x = 2 ^ m" unfolding calculation of_nat_power of_nat_numeral by simp
  ultimately show ?thesis using that m(2) by blast
qed

text \<open>Masking as division and multiplication.\<close>

lemma unat_push_drop:
  assumes "k < 32"
  shows "unat (push_bit k (drop_bit k x) :: u32) = unat x div 2 ^ k * 2 ^ k"
proof -
  have d: "unat (drop_bit k x) = unat x div 2 ^ k"
    by (simp only: unsigned_drop_bit_eq drop_bit_eq_div [where 'a = nat])
      (use unsigned_less [of x, where 'a = nat] in \<open>simp add: take_bit_nat_eq_self\<close>)
  have "unat x div 2 ^ k * 2 ^ k \<le> unat x" by (rule div_times_less_eq_dividend)
  also have "\<dots> < 2 ^ 32" using unsigned_less [of x, where 'a = nat] by simp
  finally show ?thesis by (subst unat_push_small) (simp_all add: d)
qed

lemma unat_round_down:
  assumes "k < 32"
  shows "unat (round_down x (2 ^ k)) = unat x div 2 ^ k * 2 ^ k"
proof -
  have "round_down x (2 ^ k) = push_bit k (drop_bit k x)"
    by (rule bit_word_eqI)
      (auto simp: round_down_def bit_simps mask_eq_exp_minus_1 [symmetric] not_le)
  then show ?thesis by (simp only: unat_push_drop [OF assms])
qed

lemma unat_round_up:
  assumes "k < 32"
  shows "unat (round_up x (2 ^ k)) = (unat x + 2 ^ k - 1) div 2 ^ k * 2 ^ k mod 2 ^ 32"
proof (cases "x = 0")
  case True
  then show ?thesis by (simp add: round_up_def)
next
  case False
  let ?a = "push_bit k (drop_bit k (x - 1))"
  have "(x - 1) OR mask k = ?a OR mask k"
    by (rule bit_word_eqI) (auto simp: bit_simps not_le)
  also have "\<dots> = ?a + mask k"
    by (rule disjunctive_add_eq_or [symmetric]) (rule bit_word_eqI, auto simp: bit_simps)
  finally have eq: "round_up x (2 ^ k) = ?a + 2 ^ k"
    by (simp add: round_up_def mask_eq_exp_minus_1)
  have x: "unat (x - 1) = unat x - 1" "0 < unat x"
    using False by (simp_all add: unat_minus_one unat_gt_0)
  have "unat (2 ^ k :: u32) = 2 ^ k"
    using assms by (simp add: unsigned_of_nat [of "2 ^ k", simplified] take_bit_nat_eq_self)
  then have "unat (round_up x (2 ^ k)) = ((unat x - 1) div 2 ^ k * 2 ^ k + 2 ^ k) mod 2 ^ 32"
    unfolding eq by (simp add: unat_word_ariths unat_push_drop [OF assms] x(1))
  also have "(unat x - 1) div 2 ^ k * 2 ^ k + 2 ^ k = (unat x + 2 ^ k - 1) div 2 ^ k * 2 ^ k"
  proof -
    have "unat x + 2 ^ k - 1 = (unat x - 1) + 1 * 2 ^ k" using x(2) by simp
    then have "(unat x + 2 ^ k - 1) div 2 ^ k = (unat x - 1) div 2 ^ k + 1"
      by (metis div_mult_self1 add.commute power_not_zero zero_neq_numeral)
    then show ?thesis by simp
  qed
  finally show ?thesis .
qed

section \<open>Alignment\<close>

lemma word32_of_mod: "unat (x :: u32) = n mod 2 ^ 32 \<Longrightarrow> x = of_nat n"
  by (simp add: word_unat_eq_iff unat_of_nat)

lemma ceil_mult:
  assumes "0 < (e :: nat)"
  shows "(f + e - 1) div e * e = (if f mod e = 0 then f else f + (e - f mod e))"
proof (cases "f mod e = 0")
  case True
  then have f: "f = f div e * e" using div_mult_mod_eq [of f e] by linarith
  have "(f + e - 1) div e = f div e"
    using assms by (intro div_nat_eqI) (use f in \<open>simp_all add: mult.commute\<close>)
  then have "(f + e - 1) div e * e = f" using f by presburger
  then show ?thesis using True by simp
next
  case False
  define q t where "q = f div e" and "t = f mod e"
  have f: "f = q * e + t" by (simp add: q_def t_def)
  have t: "t < e" "0 < t" using False assms by (simp_all add: t_def)
  have "f + e - 1 = (t - 1) + (q + 1) * e" using t by (simp add: f)
  moreover have "((t - 1) + (q + 1) * e) div e = (q + 1) + (t - 1) div e"
    using assms by (intro div_mult_self1) simp
  moreover have "(t - 1) div e = 0" using t by simp
  ultimately have "(f + e - 1) div e * e = f + (e - t)" using t by (simp add: f)
  then show ?thesis using False by (simp add: t_def)
qed

lemma ceil_bounds:
  assumes "0 < (e :: nat)"
  shows "f \<le> (f + e - 1) div e * e" "(f + e - 1) div e * e - f < e"
proof -
  have m: "f mod e < e" using assms by simp
  show "f \<le> (f + e - 1) div e * e" unfolding ceil_mult [OF assms] using m
    by (simp split: if_split) linarith
  show "(f + e - 1) div e * e - f < e" unfolding ceil_mult [OF assms] using m by simp
qed

lemma ceil_le_mult:
  assumes "0 < (e :: nat)"
  shows "f \<le> g * e \<longleftrightarrow> (f + e - 1) div e * e \<le> g * e"
proof
  assume "f \<le> g * e"
  then have "(f + e - 1) div e \<le> (g * e + (e - 1)) div e" using assms by (intro div_le_mono) simp
  also have "\<dots> = g" using div_mult_self3 [of e g "e - 1"] assms by simp
  finally show "(f + e - 1) div e * e \<le> g * e" by (rule mult_le_mono1)
qed (use ceil_bounds(1) [OF assms, of f] in linarith)

lemma floor_mult_le:
  assumes "0 < (e :: nat)" and "k * e \<le> m"
  shows "g * e \<le> m \<longleftrightarrow> g * e \<le> k * e + (m - k * e) div e * e"
proof -
  have "m = (m - k * e) + k * e" using assms(2) by simp
  then have "m div e = (m - k * e) div e + k"
    using assms(1) by (metis div_mult_self1 add.commute less_not_refl)
  moreover have "k \<le> m div e" using assms by (simp add: less_eq_div_iff_mult_less_eq)
  ultimately have "k * e + (m - k * e) div e * e = m div e * e"
    by (simp flip: add_mult_distrib)
  moreover have "g * e \<le> m \<longleftrightarrow> g \<le> m div e" using assms(1) by (simp add: less_eq_div_iff_mult_less_eq)
  ultimately show ?thesis using assms(1) by simp
qed

text \<open>
  Both branches advance the start by some \<open>r\<close> to a multiple of the erase size and round the
  rest down.
\<close>

lemma align_shape:
  assumes "cd_erase_size mc \<noteq> 0"
  obtains r x where
    "mmc_align_erase_size mc from to nr =
      (if nr > r \<and> x \<noteq> 0 then (x, from + r, from + r + x) else (0, from, to))"
    and "unat r = (unat from + unat (cd_erase_size mc) - 1) div unat (cd_erase_size mc)
      * unat (cd_erase_size mc) - unat from"
    and "nr > r \<Longrightarrow> unat x = (unat nr - unat r) div unat (cd_erase_size mc) * unat (cd_erase_size mc)"
proof -
  let ?e = "unat (cd_erase_size mc)" and ?f = "unat from"
  let ?c = "(?f + ?e - 1) div ?e * ?e"
  have e: "0 < ?e" using assms by (simp add: unat_gt_0)
  have sub: "unat (nr - r) = unat nr - unat r" if "nr > r" for r
    using that by (simp add: unat_sub order.strict_implies_order)
  have cf: "?c - ?f < ?e" "?f \<le> ?c"
    using ceil_bounds [OF e, of ?f] by simp_all
  show ?thesis
  proof (cases "is_power_of_2 (cd_erase_size mc)")
    case True
    then obtain k where k: "k < 32" "?e = 2 ^ k" "cd_erase_size mc = 2 ^ k"
      by (rule power_of_2_ex)
    define r where "r = round_up from (cd_erase_size mc) - from"
    have "unat (round_up from (cd_erase_size mc)) = ?c mod 2 ^ 32"
      using unat_round_up [OF k(1), of "from"] by (simp only: k(2) k(3) [symmetric])
    then have "round_up from (cd_erase_size mc) = of_nat ?c" by (rule word32_of_mod)
    then have "r = of_nat (?c - ?f)" using cf(2) by (simp add: r_def of_nat_diff)
    then have r: "unat r = ?c - ?f"
      using cf(1) unsigned_less [of "cd_erase_size mc", where 'a = nat]
      by (simp add: unsigned_of_nat take_bit_nat_eq_self)
    have "unat (round_down (nr - r) (cd_erase_size mc)) = (unat nr - unat r) div ?e * ?e"
      if "nr > r"
      using unat_round_down [OF k(1), of "nr - r"]
      by (simp only: k(2) k(3) [symmetric] sub [OF that])
    moreover have "from + r = round_up from (cd_erase_size mc)" by (simp add: r_def)
    then have "mmc_align_erase_size mc from to nr =
      (if nr > r \<and> round_down (nr - r) (cd_erase_size mc) \<noteq> 0
       then (round_down (nr - r) (cd_erase_size mc), from + r,
         from + r + round_down (nr - r) (cd_erase_size mc)) else (0, from, to))"
      using True by (simp add: mmc_align_erase_size_def Let_def r_def [symmetric])
    ultimately show ?thesis using r by (intro that)
  next
    case False
    define r where "r = (if from mod cd_erase_size mc = 0 then 0
      else cd_erase_size mc - from mod cd_erase_size mc)"
    define x where "x = (nr - r) - (nr - r) mod cd_erase_size mc"
    have m: "unat (from mod cd_erase_size mc) = ?f mod ?e" by (simp add: unat_mod)
    then have z: "from mod cd_erase_size mc = 0 \<longleftrightarrow> ?f mod ?e = 0"
      by (simp add: word_unat_eq_iff)
    have "from mod cd_erase_size mc < cd_erase_size mc"
      using e by (simp add: word_less_nat_alt m)
    then have r: "unat r = ?c - ?f"
      unfolding ceil_mult [OF e] r_def z
      by (auto simp: unat_sub order.strict_implies_order m)
    have x: "unat x = (unat nr - unat r) div ?e * ?e" if "nr > r"
    proof -
      have "(nr - r) mod cd_erase_size mc \<le> nr - r"
        by (simp add: word_le_nat_alt unat_mod)
      then have "unat x = unat (nr - r) - unat (nr - r) mod ?e"
        by (simp add: x_def unat_sub unat_mod)
      then show ?thesis by (simp add: sub [OF that] minus_mod_eq_div_mult)
    qed
    have "mmc_align_erase_size mc from to nr =
      (if nr > r \<and> x \<noteq> 0 then (x, from + r, from + r + x) else (0, from, to))"
    proof (cases "from mod cd_erase_size mc = 0")
      case True
      then have "r = 0" "x = nr - nr mod cd_erase_size mc" by (simp_all add: r_def x_def)
      moreover have "x = 0" if "nr = 0" using that calculation by simp
      ultimately show ?thesis
        using False True by (auto simp: mmc_align_erase_size_def Let_def word_gt_0)
    next
      case nz: False
      then have "r = cd_erase_size mc - from mod cd_erase_size mc" by (simp add: r_def)
      then show ?thesis
        using False nz by (auto simp: mmc_align_erase_size_def Let_def x_def)
    qed
    then show ?thesis using r x by (rule that)
  qed
qed

lemma align_erase_nat:
  assumes run: "mmc_align_erase_size mc from to nr = (nr', from', to')"
    and es: "cd_erase_size mc \<noteq> 0" and fits: "unat from + unat nr < 2 ^ 32"
  defines "e \<equiv> unat (cd_erase_size mc)"
  defines "c \<equiv> (unat from + e - 1) div e * e"
  shows "unat nr' = (if c < unat from + unat nr then (unat from + unat nr - c) div e * e else 0)"
    and "nr' \<noteq> 0 \<Longrightarrow> unat from' = c \<and> unat to' = c + unat nr'"
    and "nr' = 0 \<Longrightarrow> from' = from \<and> to' = to"
proof -
  obtain r x where sh: "mmc_align_erase_size mc from to nr =
      (if nr > r \<and> x \<noteq> 0 then (x, from + r, from + r + x) else (0, from, to))"
    and r: "unat r = c - unat from"
    and x: "nr > r \<Longrightarrow> unat x = (unat nr - unat r) div e * e"
    using align_shape [OF es] unfolding e_def c_def by metis
  have "0 < e" using es by (simp add: e_def unat_gt_0)
  then have fc: "unat from \<le> c" unfolding c_def by (rule ceil_bounds)
  have gt: "nr > r \<longleftrightarrow> c < unat from + unat nr"
    using fc by (auto simp: word_less_nat_alt r)
  have nr': "nr' = (if nr > r then x else 0)" using sh run by (auto split: if_splits)
  show n: "unat nr' = (if c < unat from + unat nr then (unat from + unat nr - c) div e * e else 0)"
    using x fc unfolding nr' gt by (auto simp: r add.commute)
  show "nr' = 0 \<Longrightarrow> from' = from \<and> to' = to" using sh run by (auto split: if_splits)
  assume nz: "nr' \<noteq> 0"
  have c: "c < unat from + unat nr"
  proof (rule ccontr)
    assume "\<not> ?thesis"
    with n have "nr' = 0" by (simp add: word_unat_eq_iff)
    with nz show False by simp
  qed
  have to: "from' = from + r" "to' = from' + nr'" using sh run nz by (auto split: if_splits)
  have "unat from' = c" unfolding to(1)
    using c fc fits by (subst unat_add_small) (simp_all add: r)
  moreover have "unat nr' \<le> unat from + unat nr - c"
    using n c div_times_less_eq_dividend [of "unat from + unat nr - c" e] by simp
  ultimately show "unat from' = c \<and> unat to' = c + unat nr'"
    unfolding to(2) using c fits by (subst unat_add_small) simp_all
qed

section \<open>The preferred size\<close>

lemma mod_completes:
  assumes "(e :: nat) \<le> p" and "p mod e \<noteq> 0" and "0 < e"
  shows "e dvd p + (e - p mod e)"
proof -
  have "p mod e < e" using assms(3) by simp
  then have "p + (e - p mod e) = p div e * e + e" using div_mult_mod_eq [of p e] by linarith
  then show ?thesis by simp
qed

lemma pref_erase_round:
  assumes "es \<noteq> (0 :: u32)" and "unat p \<le> 8192"
  defines "r \<equiv> (if p < es then es else if p mod es \<noteq> 0 then p + (es - p mod es) else p)"
  shows "unat es dvd unat r \<and> es \<le> r \<and> p \<le> r"
proof (cases "p < es")
  case True
  then show ?thesis by (simp add: r_def)
next
  case False
  then have le: "unat es \<le> unat p" by (simp add: word_less_nat_alt)
  have m: "unat (p mod es) = unat p mod unat es" by (simp add: unat_mod)
  have e: "0 < unat es" using assms(1) by (simp add: unat_gt_0)
  show ?thesis
  proof (cases "p mod es = 0")
    case True
    then have "unat es dvd unat p" using m by (simp add: dvd_eq_mod_eq_0)
    moreover have "es \<le> p" using False by simp
    ultimately show ?thesis using False True by (simp add: r_def)
  next
    case nz: False
    then have "unat p mod unat es \<noteq> 0" using m by (metis unsigned_0 word_unat_eq_iff)
    then have "unat es dvd unat p + (unat es - unat p mod unat es)"
      by (rule mod_completes [OF le _ e])
    moreover have "p mod es \<le> es" using e by (simp add: word_le_nat_alt m order.strict_implies_order)
    then have "unat r = unat p + (unat es - unat p mod unat es)"
      using False nz le assms(2) unfolding r_def
      by (simp add: unat_add_small unat_sub m)
    ultimately show ?thesis using le by (simp add: word_le_nat_alt)
  qed
qed

lemma init_erase_pref:
  assumes "cd_erase_size mc \<noteq> 0" and "\<not> (mmc_card_sd mc \<and> ssr_au (cd_ssr mc) \<noteq> 0)"
  shows "unat (cd_erase_size mc) dvd unat (cd_pref_erase (mmc_init_erase mc)) \<and>
    cd_erase_size mc \<le> cd_pref_erase (mmc_init_erase mc)"
proof -
  define sz :: u32 where "sz = drop_bit 11 (push_bit (unat (csd_read_blkbits (cd_csd mc) - 9))
    (csd_capacity (cd_csd mc)))"
  define p :: u32 where "p = (if sz < 128 then 1024 else if sz < 512 then 2048
    else if sz < 1024 then 4096 else 8192)"
  have "cd_pref_erase (mmc_init_erase mc) =
      (if p < cd_erase_size mc then cd_erase_size mc
       else if p mod cd_erase_size mc \<noteq> 0 then p + (cd_erase_size mc - p mod cd_erase_size mc) else p)"
    using assms by (auto simp: mmc_init_erase_def Let_def sz_def [symmetric] p_def)
  moreover have "unat p \<le> 8192" by (simp add: p_def)
  ultimately show ?thesis using pref_erase_round [OF assms(1)] by simp
qed

section \<open>The largest discard\<close>

text \<open>
  A number of groups is acceptable if it is at most the preferred one or within the budget.
  The loops keep an acceptable number and stop where one more group is not acceptable, does
  not exist, or has a shorter timeout, which means that the timeout has wrapped.
\<close>

definition groups_ok :: "(u32 \<Rightarrow> u32) \<Rightarrow> u32 \<Rightarrow> u32 \<Rightarrow> u32 \<Rightarrow> bool" where
  "groups_ok tmo min_qty budget q \<longleftrightarrow> q \<le> min_qty \<or> tmo q \<le> budget"

definition last_ok :: "(u32 \<Rightarrow> u32) \<Rightarrow> u32 \<Rightarrow> u32 \<Rightarrow> bool" where
  "last_ok tmo q l \<longleftrightarrow> l = (if q = 0 then 0 else tmo q)"

lemma probe_result:
  assumes "discard_probe tmo max_qty min_qty budget qty n x y l = (y', l')"
    and "l = (if y = 0 then l0 else tmo (qty + y))"
    and "y \<noteq> 0 \<Longrightarrow> groups_ok tmo min_qty budget (qty + y)"
  shows "l' = (if y' = 0 then l0 else tmo (qty + y')) \<and>
    (y' \<noteq> 0 \<longrightarrow> groups_ok tmo min_qty budget (qty + y'))"
  using assms
proof (induction n arbitrary: x y l)
  case 0
  have "y' = y" "l' = l" using 0(1) by simp_all
  with 0(2,3) show ?case by simp
next
  case (Suc n)
  define cont where "cont \<longleftrightarrow> x \<noteq> 0 \<and> x \<le> max_qty \<and> qty \<le> max_qty - x \<and>
    groups_ok tmo min_qty budget (qty + x) \<and> l \<le> tmo (qty + x)"
  have run: "discard_probe tmo max_qty min_qty budget qty (Suc n) x y l =
      (if cont then discard_probe tmo max_qty min_qty budget qty n (push_bit 1 x) x (tmo (qty + x))
       else (y, l))"
    by (auto simp: cont_def groups_ok_def Let_def not_le not_less)
  show ?case
  proof (cases cont)
    case True
    then have "x \<noteq> 0" "groups_ok tmo min_qty budget (qty + x)" by (simp_all add: cont_def)
    with True Suc.prems(1) show ?thesis
      by (intro Suc.IH [of "push_bit 1 x" x "tmo (qty + x)"]) (simp_all only: run if_True if_False)
  next
    case False
    then have "y' = y" "l' = l" using Suc.prems(1) unfolding run by simp_all
    with Suc.prems(2,3) show ?thesis by simp
  qed
qed

lemma probe_stops:
  assumes "discard_probe tmo max_qty min_qty budget qty (Suc n) 1 0 l = (0, l')"
  shows "max_qty = 0 \<or> max_qty - 1 < qty \<or> \<not> groups_ok tmo min_qty budget (qty + 1) \<or> tmo (qty + 1) < l"
proof (rule ccontr)
  assume c: "\<not> ?thesis"
  then have "1 \<le> max_qty" by (simp add: word_le_nat_alt unat_gt_0 Suc_le_eq)
  with c assms have "discard_probe tmo max_qty min_qty budget qty n (push_bit 1 1) 1 (tmo (qty + 1)) = (0, l')"
    by (auto simp: Let_def groups_ok_def not_le not_less split: if_splits)
  from discard_probe_fits [OF this] show False by simp
qed

lemma discard_loop_result:
  assumes "qty \<noteq> 0 \<Longrightarrow> groups_ok tmo min_qty budget qty" and "qty \<le> max_qty"
    and "last_ok tmo qty l"
  defines "q \<equiv> discard_loop tmo max_qty min_qty budget qty l"
  shows "(q \<noteq> 0 \<longrightarrow> groups_ok tmo min_qty budget q) \<and> q \<le> max_qty \<and>
    (q = max_qty \<or> \<not> groups_ok tmo min_qty budget (q + 1) \<or> tmo (q + 1) < tmo q)"
  unfolding q_def using assms(1-3)
proof (induction tmo max_qty min_qty budget qty l rule: discard_loop.induct)
  case (1 tmo max_qty min_qty budget qty l)
  obtain y l' where p: "discard_probe tmo max_qty min_qty budget qty 32 1 0 l = (y, l')" by fastforce
  show ?case
  proof (cases "y = 0")
    case True
    have "max_qty = 0 \<or> max_qty - 1 < qty \<or> \<not> groups_ok tmo min_qty budget (qty + 1) \<or> tmo (qty + 1) < l"
      using p unfolding True by (intro probe_stops [where n = 31]) simp
    moreover have "qty = max_qty" if "max_qty = 0 \<or> max_qty - 1 < qty"
      using that
    proof
      assume "max_qty - 1 < qty"
      then have "max_qty \<le> qty"
        using "1.prems"(2) by (cases "max_qty = 0")
          (simp_all add: word_less_nat_alt word_le_nat_alt unat_minus_one)
      with "1.prems"(2) show ?thesis by simp
    qed (use "1.prems"(2) in simp)
    moreover have "tmo (qty + 1) < tmo qty" if "tmo (qty + 1) < l"
      using that "1.prems"(3) by (auto simp: last_ok_def split: if_splits)
    ultimately show ?thesis
      using p True "1.prems" by (auto simp: discard_loop.simps [of tmo max_qty min_qty budget qty l])
  next
    case False
    have fits: "y \<le> max_qty" "qty \<le> max_qty - y" using discard_probe_fits [OF p] False by auto
    have "l' = tmo (qty + y) \<and> groups_ok tmo min_qty budget (qty + y)"
      using probe_result [OF p, of l] False by simp
    moreover have "unat (qty + y) = unat qty + unat y" "unat qty + unat y \<le> unat max_qty"
      using fits unsigned_less [of max_qty, where 'a = nat]
      by (auto simp: word_le_nat_alt unat_sub intro!: unat_add_small)
    then have "qty + y \<le> max_qty" "qty + y \<noteq> 0"
      using False by (auto simp: word_le_nat_alt word_unat_eq_iff)
    ultimately show ?thesis
      using "1.IH" [OF p [symmetric] False] p False
      by (simp add: discard_loop.simps [of tmo max_qty min_qty budget qty l] last_ok_def)
  qed
qed

section \<open>The commands\<close>

lemma io_loop_rel:
  assumes R: "io_preorder R" and body: "\<And>s. state_io_rel R (body s)"
  shows "state_io_rel R (loop_until limit stuck body s)"
proof -
  have "R w (snd (io_loop limit stuck body s w))" if "\<And>s. state_io_rel R (body s)" for w
    using that
  proof (induction limit stuck body s w rule: io_loop.induct)
    case (1 limit stuck body s w)
    obtain r v where run: "run_state (body s) w = (r, v)" by fastforce
    have wv: "R w v" using "1.prems" run by (rule io_preorder.rel_run [OF R])
    show ?case
    proof (cases "\<exists>t. r = Inr t \<and> w_now w < w_now v \<and> w_now w \<le> limit")
      case True
      then obtain t where t: "r = Inr t" "w_now w < w_now v \<and> w_now w \<le> limit" by blast
      have "R v (snd (io_loop limit stuck body t v))"
        by (rule "1.IH" [OF run [symmetric] t "1.prems"])
      with t wv show ?thesis
        using io_preorder.trn [OF R] by (simp add: io_loop.simps [of limit stuck body s w] run)
    next
      case False
      with wv show ?thesis
        by (auto simp: io_loop.simps [of limit stuck body s w] run split: sum.splits)
    qed
  qed
  from this [OF body] show ?thesis by (simp add: state_io_rel_def loop_until_def)
qed

lemmas loop_until_rel [io_rel] = io_loop_rel [OF ev.io_preorder_axioms]
lemmas loop_until_hold [io_hold] = io_loop_rel [OF hb.io_preorder_axioms]
lemmas loop_until_settled [io_settled] = io_loop_rel [OF st.io_preorder_axioms]

lemma erase_poll_rel [io_rel, io_hold, io_settled]:
  "state_io_rel evolves (erase_poll_body t d)" "state_io_rel holds_balanced (erase_poll_body t d)"
  "state_io_rel settled (erase_poll_body t d)"
  unfolding erase_poll_body_def
  by (intro io_rel ev.rel_intros io_hold hb.rel_intros io_settled st.rel_intros)+

lemma erase_steps_rel [io_rel, io_hold, io_settled]:
  "state_io_rel evolves (erase_steps mc from to arg qty)"
  "state_io_rel holds_balanced (erase_steps mc from to arg qty)"
  "state_io_rel settled (erase_steps mc from to arg qty)"
  unfolding erase_steps_def
  by (intro io_rel ev.rel_intros io_hold hb.rel_intros io_settled st.rel_intros)+

lemma do_erase_rel [io_rel, io_settled]:
  "state_io_rel evolves (mmc_do_erase from to arg)" "state_io_rel settled (mmc_do_erase from to arg)"
  unfolding mmc_do_erase_def Let_def
  by (intro io_rel ev.rel_intros io_settled st.rel_intros)+

lemma do_erase_hold [io_hold]: "state_io_rel holds_balanced (mmc_do_erase from to arg)"
  unfolding mmc_do_erase_def Let_def
  by (rule balancedI, rule credits_bind, rule credits_hold, rule credits_bind, rule credits_balanced,
      rule hb.rel_gets, rule credits_bind, rule credits_balanced, (intro io_hold hb.rel_intros)[1],
      rule credits_bind, rule credits_release, rule credits_balanced, rule hb.rel_ret)

lemma erase_rel [io_rel, io_hold, io_settled]:
  "state_io_rel evolves (mmc_erase from nr arg)" "state_io_rel holds_balanced (mmc_erase from nr arg)"
  "state_io_rel settled (mmc_erase from nr arg)"
  unfolding mmc_erase_def erase_range_def
  by (intro io_rel ev.rel_intros io_hold hb.rel_intros io_settled st.rel_intros)+

lemma blocklen_rel [io_rel, io_hold, io_settled]:
  "state_io_rel evolves (mmc_set_blocklen n)" "state_io_rel holds_balanced (mmc_set_blocklen n)"
  "state_io_rel settled (mmc_set_blocklen n)"
  "state_io_rel evolves (mmc_set_blockcount n b)" "state_io_rel holds_balanced (mmc_set_blockcount n b)"
  "state_io_rel settled (mmc_set_blockcount n b)"
  unfolding mmc_set_blocklen_def mmc_set_blockcount_def
  by (intro io_rel ev.rel_intros io_hold hb.rel_intros io_settled st.rel_intros)+

section \<open>The poll\<close>

text \<open>A loop body that takes time or answers, and answers once the limit is passed.\<close>

definition looping :: "(mmc_world \<Rightarrow> bool) \<Rightarrow> nat \<Rightarrow> ('s \<Rightarrow> ('a + 's) io) \<Rightarrow> bool" where
  "looping Q limit body \<longleftrightarrow> (\<forall>s w t v. Q w \<longrightarrow> run_state (body s) w = (Inr t, v) \<longrightarrow>
    w_now w < w_now v \<and> w_now w \<le> limit \<and> Q v)"

lemma io_loop_unfold:
  assumes "looping Q limit body" and "Q w"
  shows "run_state (loop_until limit stuck body s) w =
    (case run_state (body s) w of (Inl r, v) \<Rightarrow> (r, v)
     | (Inr t, v) \<Rightarrow> run_state (loop_until limit stuck body t) v)"
proof -
  obtain r v where run: "run_state (body s) w = (r, v)" by fastforce
  show ?thesis
  proof (cases r)
    case (Inr t)
    with assms run have "w_now w < w_now v \<and> w_now w \<le> limit" unfolding looping_def by blast
    with run Inr show ?thesis
      by (simp add: loop_until_def io_loop.simps [of limit stuck body s w])
  qed (simp add: loop_until_def io_loop.simps [of limit stuck body s w] run)
qed

lemma erase_looping:
  "looping (same_board w0) (time_limit w0 timeout) (erase_poll_body timeout)"
  unfolding looping_def
proof (intro allI impI)
  fix d w e v
  assume board: "same_board w0 w" and run: "run_state (erase_poll_body timeout d) w = (Inr e, v)"
  define c where "c = cmd0\<lparr>cmd_opcode := MMC_SEND_STATUS, cmd_arg := rca_arg w,
    cmd_flags := {MMC_RSP_R1, MMC_CMD_AC}\<rparr>"
  obtain r y where y: "run_state (mmc_wait_for_cmd hooks c 0) w = (r, y)" by fastforce
  let ?x = "log_event EvJiffies 0 y"
  have v: "v = log_event (EvUsleep d) (d * 1000) ?x" "jiffies_of ?x \<le> timeout"
    using run y by (auto simp: erase_poll_body_def c_def [symmetric] jiffies_run emit_def Let_def
        split: if_splits)
  have "evolves y ?x" by simp
  then have wx: "evolves w ?x" by (rule ev.trn [OF cmd_evolves [OF y]])
  then have wv: "evolves w v" using ev.trn [OF wx] by (simp add: v(1))
  have "w_now w < w_now v" using evolves_now [OF wx] log_now [of ?x] v(1) by (simp add: le_less_trans)
  then show "w_now w < w_now v \<and> w_now w \<le> time_limit w0 timeout \<and> same_board w0 v"
    using same_board_trans [OF board evolves_board [OF wv]] deadline_limit [OF board wx v(2)] by simp
qed

text \<open>An answer other than the one of a stuck loop is the answer of a last round.\<close>

lemma io_loop_answer:
  assumes R: "io_preorder R" and body: "\<And>s. state_io_rel R (body s)"
    and run: "run_state (loop_until limit stuck body s) w = (r, v)" and "r \<noteq> stuck"
  shows "\<exists>t u. R w u \<and> run_state (body t) u = (Inl r, v)"
proof -
  have "\<exists>t u. R w u \<and> run_state (body t) u = (Inl r, v)"
    if "io_loop limit stuck body s w = (r, v)" "r \<noteq> stuck" "\<And>s. state_io_rel R (body s)"
    using that
  proof (induction limit stuck body s w rule: io_loop.induct)
    case (1 limit stuck body s w)
    obtain q x where q: "run_state (body s) w = (q, x)" by fastforce
    have wx: "R w x" using "1.prems"(3) q by (rule io_preorder.rel_run [OF R])
    show ?case
    proof (cases q)
      case (Inl a)
      then show ?thesis
        using "1.prems"(1) q io_preorder.rfl [OF R]
        by (auto simp: io_loop.simps [of limit stuck body s w])
    next
      case (Inr t)
      have c: "w_now w < w_now x \<and> w_now w \<le> limit" "io_loop limit stuck body t x = (r, v)"
        using "1.prems"(1,2) q Inr by (auto simp: io_loop.simps [of limit stuck body s w] split: if_splits)
      from "1.IH" [OF q [symmetric] Inr c(1) c(2) "1.prems"(2,3)] wx show ?thesis
        using io_preorder.trn [OF R] by blast
    qed
  qed
  with assms show ?thesis by (simp add: loop_until_def)
qed

section \<open>What an erase does\<close>

text \<open>The masks of the arguments and features as bits.\<close>

lemma mask_bits:
  "(x :: u32) AND 0x80000000 \<noteq> 0 \<longleftrightarrow> bit x 31" "(x :: u32) AND 0x8001 \<noteq> 0 \<longleftrightarrow> bit x 0 \<or> bit x 15"
  "(y :: u8) AND 1 \<noteq> 0 \<longleftrightarrow> bit y 0" "(y :: u8) AND 0x10 \<noteq> 0 \<longleftrightarrow> bit y 4"
proof -
  have one: "z AND 2 ^ n \<noteq> 0 \<longleftrightarrow> bit z n" if "n < LENGTH('a)" for z :: "'a::len word" and n
  proof -
    have "z AND 2 ^ n = (if bit z n then 2 ^ n else 0)"
      by (rule bit_word_eqI) (auto simp: bit_simps)
    moreover have "(2 :: 'a word) ^ n \<noteq> 0" using that by simp
    ultimately show ?thesis by simp
  qed
  show "(x :: u32) AND 0x80000000 \<noteq> 0 \<longleftrightarrow> bit x 31" using one [of 31 x] by simp
  show "(y :: u8) AND 1 \<noteq> 0 \<longleftrightarrow> bit y 0" using one [of 0 y] by simp
  show "(y :: u8) AND 0x10 \<noteq> 0 \<longleftrightarrow> bit y 4" using one [of 4 y] by simp
  have "(x :: u32) AND 0x8001 = (x AND 2 ^ 0) OR (x AND 2 ^ 15)"
    by (simp add: bit.conj_disj_distrib [symmetric])
  then show "(x :: u32) AND 0x8001 \<noteq> 0 \<longleftrightarrow> bit x 0 \<or> bit x 15"
    using one [of 0 x] one [of 15 x] by (simp add: or_eq_0_iff)
qed

lemma do_erase_steps:
  assumes "run_state (mmc_do_erase from to arg) w = (r, v)"
  obtains a b where "run_state mmc_retune_hold w = ((), a)"
    and "run_state (erase_steps (w_card w) (if mmc_card_blockaddr (w_card w) then from else push_bit 9 from)
      (if mmc_card_blockaddr (w_card w) then to else push_bit 9 to) arg
      (erase_qty (w_card w) from to)) a = (r, b)"
    and "run_state mmc_retune_release b = ((), v)"
proof -
  obtain a where a: "run_state mmc_retune_hold w = ((), a)" by (rule unit_run)
  have "settled w a" using counters_settled(4) a by (rule st.rel_run)
  then have "w_card a = w_card w" by (rule settled_fields)
  then show ?thesis
    using assms a that
    by (auto simp: mmc_do_erase_def Let_def split: prod.splits)
qed

lemma erase_poll_codes: "run_state (erase_poll_body t d) w = (Inl r, v) \<Longrightarrow> r = 0 \<or> r = - EIO"
  by (auto simp: erase_poll_body_def Let_def split: prod.splits if_splits)

lemma erase_loop_codes:
  assumes "run_state (loop_until limit (- EIO) (erase_poll_body t) d) w = (r, v)"
  shows "r = 0 \<or> r = - EIO"
proof (cases "r = - EIO")
  case False
  from io_loop_answer [OF ev.io_preorder_axioms erase_poll_rel(1) assms False]
  show ?thesis using erase_poll_codes by blast
qed simp

lemma do_erase_codes:
  assumes "run_state (mmc_do_erase from to arg) w = (r, v)"
  shows "r = 0 \<or> r = - EIO"
proof -
  obtain a b mc f t q where "run_state (erase_steps mc f t arg q) a = (r, b)"
    using assms by (rule do_erase_steps)
  then show ?thesis
    by (auto simp: erase_steps_def Let_def split: prod.splits if_splits dest: erase_loop_codes)
qed

lemma erase_steps_served:
  assumes "run_state (erase_steps mc from to arg qty) w = (0, v)" and "evolves v u"
  shows "\<exists>t1 t2 t3 busy r1b. length (w_trace w) \<le> length t1 \<and> length t1 < length t2 \<and>
    length t2 < length t3 \<and> served (w_ops w) (w_trace u) (erase_start_cmd mc from) t1 \<and>
    served (w_ops w) (w_trace u) (erase_end_cmd mc to) t2 \<and>
    served (w_ops w) (w_trace u) (erase_cmd arg busy r1b) t3"
proof -
  obtain c1 x1 where c1: "run_state (mmc_wait_for_cmd hooks (erase_start_cmd mc from) 0) w = (c1, x1)"
    by fastforce
  obtain c2 x2 where c2: "run_state (mmc_wait_for_cmd hooks (erase_end_cmd mc to) 0) x1 = (c2, x2)"
    by fastforce
  define busy where "busy = mmc_erase_timeout (w_host x2) (w_card x2) arg qty"
  define r1b where "r1b \<longleftrightarrow> \<not> (h_max_busy_timeout (w_host x2) \<noteq> 0 \<and> busy > h_max_busy_timeout (w_host x2))"
  obtain c3 x3 where c3: "run_state (mmc_wait_for_cmd hooks (erase_cmd arg busy r1b) 0) x2 = (c3, x3)"
    by fastforce
  define poll where "poll = (do {
      w \<leftarrow> gets id;
      if mmc_host_is_spi w then ret 0
      else if MMC_CAP_WAIT_WHILE_BUSY \<in> h_caps (w_host w) \<and> r1b then ret 0
      else do {
        now \<leftarrow> jiffies;
        w \<leftarrow> gets id;
        let timeout = now + kn_msecs_to_jiffies (w_kernel w) busy;
        loop_until (time_limit w timeout) (- EIO) (erase_poll_body timeout) 64
      } } :: int io)"
  have ok: "cmd_error c1 = 0" "cmd_error c2 = 0" "cmd_error c3 = 0"
    and poll: "run_state poll x3 = (0, v)"
    using assms(1) c1 c2 c3
    by (auto simp: erase_steps_def Let_def busy_def r1b_def poll_def split: prod.splits if_splits)
  have "state_io_rel evolves poll" unfolding poll_def by (intro io_rel ev.rel_intros)
  then have e3: "evolves x3 u" using ev.rel_run [OF _ poll] ev.trn [OF _ assms(2)] by blast
  have e2: "evolves x2 u" by (rule ev.trn [OF cmd_evolves [OF c3] e3])
  have e1: "evolves x1 u" by (rule ev.trn [OF cmd_evolves [OF c2] e2])
  have sane: "\<not> cmd_sanitize_busy (erase_start_cmd mc from)" "\<not> cmd_sanitize_busy (erase_end_cmd mc to)"
    "\<not> cmd_sanitize_busy (erase_cmd arg busy r1b)"
    by (simp_all add: erase_start_cmd_def erase_end_cmd_def erase_cmd_def cmd0_def)
  have ops: "w_ops x1 = w_ops w" "w_ops x2 = w_ops w"
    using evolves_ops [OF cmd_evolves [OF c1]] evolves_ops [OF cmd_evolves [OF c2]] by simp_all
  show ?thesis
    using cmd_served [OF c1 sane(1) ok(1) e1] cmd_served [OF c2 sane(2) ok(2) e2]
      cmd_served [OF c3 sane(3) ok(3) e3]
    unfolding ops by (meson order.strict_trans2)
qed

end
