(* ===== verification/Erase_Properties.thy ===== *)
theory Erase_Properties
  imports Erase_Facts Quiet_World
begin

text \<open>
  The properties of erasing.
\<close>

section \<open>Alignment\<close>

text \<open>
  C24: for a range of sectors that does not exceed the 32 bits, \<open>mmc_align_erase_size\<close> keeps
  exactly the erase groups that lie within the range as a whole: a group is in the aligned
  range if and only if it is in the given one, both for sizes that are a power of two and
  for the others.  It changes the ends only if a group is left, and they then are multiples
  of the erase size.
\<close>

theorem align_erase_size_groups:
  assumes "mmc_align_erase_size mc from to nr = (nr', from', to')"
    and "cd_erase_size mc \<noteq> 0" and "unat from + unat nr < 2 ^ 32"
  defines "e \<equiv> unat (cd_erase_size mc)"
  shows "(\<forall>g. unat from \<le> g * e \<and> Suc g * e \<le> unat from + unat nr \<longleftrightarrow>
      unat from' \<le> g * e \<and> Suc g * e \<le> unat from' + unat nr') \<and> e dvd unat nr' \<and>
    (if nr' = 0 then from' = from \<and> to' = to
     else e dvd unat from' \<and> unat to' = unat from' + unat nr')"
proof -
  let ?f = "unat from" and ?n = "unat nr"
  define c where "c = (?f + e - 1) div e * e"
  note run = align_erase_nat [OF assms(1-3), folded e_def, folded c_def]
  have e: "0 < e" using assms(2) by (simp add: e_def unat_gt_0)
  have up: "?f \<le> g * e \<longleftrightarrow> c \<le> g * e" for g
    unfolding c_def by (rule ceil_le_mult [OF e])
  have down: "Suc g * e \<le> m \<longleftrightarrow> Suc g * e \<le> c + (m - c) div e * e" if "c \<le> m" for g m
    unfolding c_def using floor_mult_le [OF e, of "(?f + e - 1) div e" m "Suc g"] that
    by (simp add: c_def)
  have none: "\<not> (c \<le> g * e \<and> Suc g * e \<le> m)" if "m \<le> c" for g m
    using that e by auto
  show ?thesis
  proof (cases "nr' = 0")
    case True
    have "\<not> (c \<le> g * e \<and> Suc g * e \<le> ?f + ?n)" for g
    proof (cases "c < ?f + ?n")
      case lt: True
      then have "(?f + ?n - c) div e * e = 0" using run(1) True by simp
      then show ?thesis using down [of "?f + ?n" g] lt e by auto
    qed (use none in auto)
    moreover have "?f \<le> c" unfolding c_def by (rule ceil_bounds(1) [OF e])
    ultimately show ?thesis using True run(3) up none by auto
  next
    case False
    then have lt: "c < ?f + ?n" using run(1) by (rule_tac ccontr) (simp add: word_unat_eq_iff)
    then have "unat nr' = (?f + ?n - c) div e * e" using run(1) by simp
    moreover have "e dvd c" by (simp add: c_def)
    ultimately show ?thesis
      using run(2) [OF False] False up down [of "?f + ?n"] lt by simp
  qed
qed

lemma align_erase_size_groups_witness:
  "mmc_align_erase_size (card0\<lparr>cd_erase_size := 3\<rparr>) 4 14 10 = (6, 6, 12) \<and>
    (\<forall>g. 4 \<le> g * 3 \<and> Suc g * 3 \<le> 14 \<longleftrightarrow> 6 \<le> g * 3 \<and> Suc g * (3 :: nat) \<le> 12)"
proof -
  have run: "mmc_align_erase_size (card0\<lparr>cd_erase_size := 3\<rparr>) 4 14 10 = (6, 6, 12)"
    by (simp add: mmc_align_erase_size_def is_power_of_2_def card0_def)
  from align_erase_size_groups [OF this] run show ?thesis by (simp add: card0_def)
qed

section \<open>Erasing\<close>

text \<open>
  C25: when \<open>mmc_do_erase\<close> returns 0, the controller has completed without error, in this order,
  the commands that set the first and the last sector (in bytes for a card that is not
  block-addressed) and the erase command with the given argument.
\<close>

theorem do_erase_served:
  assumes "run_state (mmc_do_erase from to arg) w = (0, v)"
  defines "scale x \<equiv> (if mmc_card_blockaddr (w_card w) then x else push_bit 9 x)"
  shows "\<exists>t1 t2 t3 busy r1b. length (w_trace w) \<le> length t1 \<and> length t1 < length t2 \<and>
    length t2 < length t3 \<and>
    served (w_ops w) (w_trace v) (erase_start_cmd (w_card w) (scale from)) t1 \<and>
    served (w_ops w) (w_trace v) (erase_end_cmd (w_card w) (scale to)) t2 \<and>
    served (w_ops w) (w_trace v) (erase_cmd arg busy r1b) t3"
proof -
  obtain a b where a: "run_state mmc_retune_hold w = ((), a)"
    and run: "run_state (erase_steps (w_card w) (scale from) (scale to) arg
      (erase_qty (w_card w) from to)) a = (0, b)"
    and b: "run_state mmc_retune_release b = ((), v)"
    using assms(1) unfolding scale_def by (rule do_erase_steps)
  have wa: "evolves w a" using retune_evolves(3) a by (rule ev.rel_run)
  have bv: "evolves b v" using retune_evolves(6) b by (rule ev.rel_run)
  from erase_steps_served [OF run bv] show ?thesis
    using evolves_length [OF wa] unfolding evolves_ops [OF wa] by (meson order.trans)
qed

text \<open>The requests that the code refuses as not supported.\<close>

definition erase_unsupported :: "mmc_world \<Rightarrow> u32 \<Rightarrow> bool" where
  "erase_unsupported w arg \<longleftrightarrow> \<not> mmc_can_erase (w_host w) (w_card w) \<or>
    mmc_card_sd (w_card w) \<and> arg \<noteq> MMC_ERASE_ARG \<or>
    bit arg 31 \<and> \<not> bit (ec_sec_feature_support (cd_ext_csd (w_card w))) 0 \<or>
    (bit arg 0 \<or> bit arg 15) \<and> \<not> bit (ec_sec_feature_support (cd_ext_csd (w_card w))) 4"

text \<open>
  C26: \<open>mmc_erase\<close> answers \<open>-EOPNOTSUPP\<close> exactly for a request that card or host do not
  support (secure and trim arguments need their feature bits, an SD card takes the plain
  erase only), every other answer is 0, \<open>-EINVAL\<close> or \<open>-EIO\<close>, and with either of the two
  refusals nothing has happened.
\<close>

theorem mmc_erase_refuses:
  "(case run_state (mmc_erase from nr arg) w of (r, v) \<Rightarrow>
     (r = - EOPNOTSUPP \<longleftrightarrow> erase_unsupported w arg) \<and>
     r \<in> {0, - EINVAL, - EIO, - EOPNOTSUPP} \<and> (r = - EOPNOTSUPP \<or> r = - EINVAL \<longrightarrow> v = w))"
proof -
  obtain r v where run: "run_state (mmc_erase from nr arg) w = (r, v)" by fastforce
  have masks: "arg AND 0x80000000 \<noteq> 0 \<longleftrightarrow> bit arg 31" "arg AND 0x8001 \<noteq> 0 \<longleftrightarrow> bit arg 0 \<or> bit arg 15"
    "ec_sec_feature_support (cd_ext_csd (w_card w)) AND 1 \<noteq> 0 \<longleftrightarrow>
      bit (ec_sec_feature_support (cd_ext_csd (w_card w))) 0"
    "ec_sec_feature_support (cd_ext_csd (w_card w)) AND 0x10 \<noteq> 0 \<longleftrightarrow>
      bit (ec_sec_feature_support (cd_ext_csd (w_card w))) 4"
    by (rule mask_bits)+
  have uns: "erase_unsupported w arg \<longleftrightarrow>
      (MMC_CAP_ERASE \<notin> h_caps (w_host w) \<or> csd_cmdclass (cd_csd (w_card w)) AND 0x20 = 0) \<or>
      cd_erase_size (w_card w) = 0 \<or> mmc_card_sd (w_card w) \<and> arg \<noteq> 0 \<or>
      arg AND 0x80000000 \<noteq> 0 \<and> ec_sec_feature_support (cd_ext_csd (w_card w)) AND 1 = 0 \<or>
      arg AND 0x8001 \<noteq> 0 \<and> ec_sec_feature_support (cd_ext_csd (w_card w)) AND 0x10 = 0"
    unfolding erase_unsupported_def mmc_can_erase_def using masks by blast
  show ?thesis
  proof (cases "erase_unsupported w arg")
    case True
    then have "run_state (mmc_erase from nr arg) w = (- EOPNOTSUPP, w)"
      unfolding uns mmc_erase_def by (auto simp: Let_def)
    with True show ?thesis by simp
  next
    case False
    then have "r \<in> {0, - EIO} \<or> r = - EINVAL \<and> v = w"
      using run unfolding uns mmc_erase_def erase_range_def
      by (auto simp: Let_def split: prod.splits if_splits dest: do_erase_codes)
    with False show ?thesis unfolding run by auto
  qed
qed

text \<open>
  C27: on a card whose budget is one erase group a trim that ends one sector after a group
  boundary does not reach that sector: the request is cut at the boundary and the rest of
  one sector is taken for empty, because the last sector is inclusive by then; the answer is
  that of the first part.
\<close>

theorem erase_trim_tail:
  assumes "\<not> erase_unsupported w arg" and "bit arg 0 \<or> bit arg 15"
    and "cd_eg_boundary (w_card w)"
    and "unat nr = unat (cd_erase_size (w_card w)) - unat from mod unat (cd_erase_size (w_card w)) + 1"
    and "unat from + unat nr < 2 ^ 32"
  shows "run_state (mmc_erase from nr arg) w = run_state (mmc_do_erase from (from + nr - 2) arg) w"
proof -
  define es where "es = cd_erase_size (w_card w)"
  have es: "es \<noteq> 0" using assms(1) by (simp add: es_def erase_unsupported_def mmc_can_erase_def)
  define rem where "rem = es - from mod es"
  have "from mod es \<le> es"
    using es by (simp add: word_le_nat_alt unat_mod unat_gt_0 order.strict_implies_order)
  then have r: "unat rem = unat es - unat from mod unat es" by (simp add: rem_def unat_sub unat_mod)
  have "0 < unat es" using es by (simp add: unat_gt_0)
  then have "unat from mod unat es < unat es" by simp
  with r have pos: "0 < unat rem" by simp
  have nr: "nr = rem + 1"
  proof -
    have "unat nr = unat rem + 1" using assms(4) r by (simp add: es_def)
    moreover from this assms(5) have "unat (rem + 1) = unat rem + 1" by (subst unat_add_small) simp_all
    ultimately show ?thesis by (simp add: word_unat_eq_iff)
  qed
  have fit: "unat (from + nr) = unat from + unat nr" using assms(5) by (intro unat_add_small) simp
  have n: "unat nr = unat rem + 1" using assms(4) r by (simp add: es_def)
  have masks: "arg AND 0x80000000 \<noteq> 0 \<longleftrightarrow> bit arg 31" "arg AND 0x8001 \<noteq> 0 \<longleftrightarrow> bit arg 0 \<or> bit arg 15"
    "ec_sec_feature_support (cd_ext_csd (w_card w)) AND 1 \<noteq> 0 \<longleftrightarrow>
      bit (ec_sec_feature_support (cd_ext_csd (w_card w))) 0"
    "ec_sec_feature_support (cd_ext_csd (w_card w)) AND 0x10 \<noteq> 0 \<longleftrightarrow>
      bit (ec_sec_feature_support (cd_ext_csd (w_card w))) 4"
    by (rule mask_bits)+
  have trim: "arg AND 0x8001 \<noteq> 0" "arg \<noteq> 0" "arg \<noteq> 0x80000000"
    using assms(2) masks(2) by auto
  have sup: "MMC_CAP_ERASE \<in> h_caps (w_host w)" "csd_cmdclass (cd_csd (w_card w)) AND 0x20 \<noteq> 0"
    "\<not> mmc_card_sd (w_card w)"
    "\<not> (arg AND 0x80000000 \<noteq> 0 \<and> ec_sec_feature_support (cd_ext_csd (w_card w)) AND 1 = 0)"
    "ec_sec_feature_support (cd_ext_csd (w_card w)) AND 0x10 \<noteq> 0"
    using assms(1) trim masks by (auto simp: erase_unsupported_def mmc_can_erase_def)
  have lim: "nr \<noteq> 0" "\<not> from + nr \<le> from" "nr > rem"
    using n fit by (auto simp: word_le_nat_alt word_less_nat_alt)
  have ends: "from + (rem + 1) - 1 = from + rem" "from + (rem + 1) - 2 = from + rem - 1" by simp_all
  define first where "first = mmc_do_erase from (from + rem - 1) arg"
  have "run_state (mmc_erase from nr arg) w = run_state (erase_range (w_card w) from (from + nr) nr arg) w"
    using sup trim es by (auto simp: mmc_erase_def Let_def es_def)
  also have "erase_range (w_card w) from (from + nr) nr arg =
      do { err \<leftarrow> first; if err \<noteq> 0 \<or> from + rem \<le> from + rem then ret err
        else mmc_do_erase (from + rem) (from + rem) arg }"
    using trim assms(3) lim
    unfolding erase_range_def Let_def es_def [symmetric] rem_def [symmetric] nr ends first_def [symmetric]
    by simp
  also have "\<dots> = first" by simp
  finally show ?thesis unfolding nr ends first_def .
qed

definition erase_world :: mmc_world where
  "erase_world = world_ok\<lparr>w_host := host_ok\<lparr>h_caps := {MMC_CAP_ERASE, MMC_CAP_WAIT_WHILE_BUSY}\<rparr>,
    w_card := card0\<lparr>cd_erase_size := 4, cd_erase_shift := 2, cd_eg_boundary := True,
      cd_csd := csd0\<lparr>csd_cmdclass := CCC_ERASE\<rparr>,
      cd_ext_csd := ext_csd0\<lparr>ec_sec_feature_support := EXT_CSD_SEC_GB_CL_EN,
        ec_erase_group_def := 1, ec_hc_erase_timeout := 300, ec_trim_timeout := 300\<rparr>\<rparr>\<rparr>"

lemma erase_world_quiet: "quiet erase_world"
  by (simp add: quiet_def erase_world_def world_defs mmc_card_removed_def card_state_def)

lemma erase_trim_tail_witness:
  "run_state (mmc_erase 2 3 MMC_TRIM_ARG) erase_world = run_state (mmc_do_erase 2 3 MMC_TRIM_ARG) erase_world"
proof -
  have "\<not> erase_unsupported erase_world MMC_TRIM_ARG" "cd_eg_boundary (w_card erase_world)"
    "cd_erase_size (w_card erase_world) = 4"
    by (simp_all add: erase_world_def erase_unsupported_def mmc_can_erase_def card0_def bit_numeral_rec)
  with erase_trim_tail [of erase_world MMC_TRIM_ARG 3 2] show ?thesis by auto
qed

lemma mmc_erase_refuses_witness:
  "run_state (mmc_erase 1 2 MMC_SECURE_ERASE_ARG) world_ok = (- EOPNOTSUPP, world_ok)"
proof -
  have "erase_unsupported world_ok MMC_SECURE_ERASE_ARG"
    by (simp add: erase_unsupported_def world_defs mmc_can_erase_def)
  with mmc_erase_refuses [of world_ok MMC_SECURE_ERASE_ARG 1 2] show ?thesis
    by (auto split: prod.splits)
qed

lemma do_erase_served_witness:
  "\<exists>v t. run_state (mmc_do_erase 8 11 MMC_ERASE_ARG) erase_world = (0, v) \<and>
    served ops_ok (w_trace v) (erase_end_cmd (w_card erase_world) 0x1600) t"
proof -
  have card: "\<not> mmc_card_sd (w_card erase_world)" "\<not> card_state 4 (w_card erase_world)"
    "erase_qty (w_card erase_world) 8 11 = 1"
    by (simp_all add: erase_world_def card0_def card_state_def erase_qty_def)
  have host: "w_host erase_world = host_ok\<lparr>h_caps := {MMC_CAP_ERASE, MMC_CAP_WAIT_WHILE_BUSY}\<rparr>"
    by (simp add: erase_world_def)
  have tmo: "mmc_erase_timeout h (w_card erase_world) 0 1 = 300" if "MMC_CAP_SPI \<notin> h_caps h" for h
    using that by (simp add: mmc_erase_timeout_def mmc_mmc_erase_timeout_def erase_world_def card0_def Let_def)
  have "fst (run_state (mmc_do_erase 8 11 MMC_ERASE_ARG) erase_world) = 0"
    using erase_world_quiet card
    by (simp add: mmc_do_erase_def run_hold erase_steps_def cmd_quiet erase_start_cmd_def
        erase_end_cmd_def erase_cmd_def cmd0_def Let_def split_beta host tmo host_ok_def)
  then obtain v where run: "run_state (mmc_do_erase 8 11 MMC_ERASE_ARG) erase_world = (0, v)"
    by (metis prod.collapse)
  from do_erase_served [OF run] run show ?thesis
    by (auto simp: erase_world_def world_defs card_state_def)
qed

section \<open>Sizes\<close>

text \<open>
  For a card with erase groups, unless it is an SD card with an allocation unit, the
  preferred erase size is a multiple of the erase size and at least one group.
\<close>

lemma pref_erase_multiple:
  assumes "cd_erase_size mc \<noteq> 0" and "\<not> (mmc_card_sd mc \<and> ssr_au (cd_ssr mc) \<noteq> 0)"
  shows "unat (cd_erase_size mc) dvd unat (cd_pref_erase (mmc_init_erase mc)) \<and>
    cd_erase_size mc \<le> cd_pref_erase (mmc_init_erase mc)"
  by (rule init_erase_pref [OF assms])



end
