(* ===== verification/Sd_Ops.thy ===== *)
theory Sd_Ops
  imports Command_Frame
begin

text \<open>
  The commands of SD cards (\<open>mmc/core/sd_ops.c\<close>).  A card is addressed by the flag \<open>with_card\<close>
  where the C function takes a card that may be NULL; the check that card and host belong
  together is always met, as there is one host.
\<close>

section \<open>Application commands\<close>

definition mmc_app_cmd :: "bool \<Rightarrow> int io" where
  "mmc_app_cmd with_card = do {
     w \<leftarrow> gets id;
     cmd \<leftarrow> mmc_wait_for_cmd hooks (cmd0\<lparr>cmd_opcode := MMC_APP_CMD,
       cmd_arg := (if with_card then rca_arg w else 0),
       cmd_flags := {MMC_RSP_SPI_R1, MMC_RSP_R1, if with_card then MMC_CMD_AC else MMC_CMD_BCR}\<rparr>) 0;
     w \<leftarrow> gets id;
     if cmd_error cmd \<noteq> 0 then ret (cmd_error cmd)
     else if \<not> mmc_host_is_spi w \<and> cmd_resp cmd ! 0 AND R1_APP_CMD = 0 then ret (- EOPNOTSUPP)
     else ret 0
   }"

text \<open>
  The loop of \<open>mmc_wait_for_app_cmd\<close> with the number of attempts left; the results are the
  return code and the command.
\<close>

fun app_cmd_loop :: "bool \<Rightarrow> nat \<Rightarrow> int \<Rightarrow> mmc_command \<Rightarrow> (int \<times> mmc_command) io" where
  "app_cmd_loop with_card 0 err cmd = ret (err, cmd)"
| "app_cmd_loop with_card (Suc n) err cmd = do {
     err \<leftarrow> mmc_app_cmd with_card;
     w \<leftarrow> gets id;
     if err \<noteq> 0 then
       (if mmc_host_is_spi w \<and> cmd_resp cmd ! 0 AND R1_SPI_ILLEGAL_COMMAND \<noteq> 0
        then ret (err, cmd) else app_cmd_loop with_card n err cmd)
     else do {
       mrq \<leftarrow> mmc_wait_for_req hooks
         (mrq_of (cmd\<lparr>cmd_resp := [0, 0, 0, 0], cmd_retries := 0\<rparr>) None);
       w \<leftarrow> gets id;
       let cmd = mrq_cmd mrq;
       if cmd_error cmd = 0 then ret (0, cmd)
       else if mmc_host_is_spi w \<and> cmd_resp cmd ! 0 AND R1_SPI_ILLEGAL_COMMAND \<noteq> 0
       then ret (cmd_error cmd, cmd)
       else app_cmd_loop with_card n (cmd_error cmd) cmd
     }
   }"

definition mmc_wait_for_app_cmd :: "bool \<Rightarrow> mmc_command \<Rightarrow> int \<Rightarrow> (int \<times> mmc_command) io" where
  "mmc_wait_for_app_cmd with_card cmd retries =
    (let retries = (if retries < 0 then int MMC_CMD_RETRIES else retries)
     in app_cmd_loop with_card (nat (retries + 1)) (- EIO) cmd)"

definition mmc_app_set_bus_width :: "int \<Rightarrow> int io" where
  "mmc_app_set_bus_width width =
    (let cmd = cmd0\<lparr>cmd_opcode := SD_APP_SET_BUS_WIDTH, cmd_flags := {MMC_RSP_R1, MMC_CMD_AC}\<rparr> in
     if width \<noteq> MMC_BUS_WIDTH_1 \<and> width \<noteq> MMC_BUS_WIDTH_4 then ret (- EINVAL)
     else do {
       r \<leftarrow> mmc_wait_for_app_cmd True (cmd\<lparr>cmd_arg :=
         (if width = MMC_BUS_WIDTH_1 then SD_BUS_WIDTH_1 else SD_BUS_WIDTH_4)\<rparr>) (int MMC_CMD_RETRIES);
       ret (fst r)
     })"

section \<open>Identification\<close>

text \<open>The loop of \<open>mmc_send_app_op_cond\<close>: the return code and the last command.\<close>

fun app_op_cond_loop :: "u32 \<Rightarrow> nat \<Rightarrow> int \<Rightarrow> mmc_command \<Rightarrow> (int \<times> mmc_command) io" where
  "app_op_cond_loop ocr 0 err cmd = ret (err, cmd)"
| "app_op_cond_loop ocr (Suc i) err cmd = do {
     r \<leftarrow> mmc_wait_for_app_cmd False cmd (int MMC_CMD_RETRIES);
     w \<leftarrow> gets id;
     let cmd = snd r;
     if fst r \<noteq> 0 then ret (fst r, cmd)
     else if ocr = 0 then ret (0, cmd)
     else if mmc_host_is_spi w \<and> cmd_resp cmd ! 0 AND R1_SPI_IDLE = 0 then ret (0, cmd)
     else if \<not> mmc_host_is_spi w \<and> cmd_resp cmd ! 0 AND MMC_CARD_BUSY \<noteq> 0 then ret (0, cmd)
     else do { mmc_delay 10; app_op_cond_loop ocr i (- ETIMEDOUT) cmd }
   }"

text \<open>The second result is what is stored through \<open>rocr\<close>, on hosts that are not SPI.\<close>

definition mmc_send_app_op_cond :: "u32 \<Rightarrow> (int \<times> u32 option) io" where
  "mmc_send_app_op_cond ocr = do {
     w \<leftarrow> gets id;
     r \<leftarrow> app_op_cond_loop ocr 100 0 (cmd0\<lparr>cmd_opcode := SD_APP_OP_COND,
       cmd_arg := (if mmc_host_is_spi w then ocr AND push_bit 30 1 else ocr),
       cmd_flags := {MMC_RSP_SPI_R1, MMC_RSP_R3, MMC_CMD_BCR}\<rparr>);
     w \<leftarrow> gets id;
     ret (fst r, if mmc_host_is_spi w then None else Some (cmd_resp (snd r) ! 0))
   }"

definition mmc_send_if_cond :: "u32 \<Rightarrow> int io" where
  "mmc_send_if_cond ocr = do {
     let test_pattern = (0xAA :: u8);
     cmd \<leftarrow> mmc_wait_for_cmd hooks (cmd0\<lparr>cmd_opcode := SD_SEND_IF_COND,
       cmd_arg := push_bit 8 (if ocr AND 0xFF8000 \<noteq> 0 then 1 else 0) OR ucast test_pattern,
       cmd_flags := {MMC_RSP_SPI_R7, MMC_RSP_R7, MMC_CMD_BCR}\<rparr>) 0;
     w \<leftarrow> gets id;
     if cmd_error cmd \<noteq> 0 then ret (cmd_error cmd)
     else do {
       let result_pattern = ucast
         (if mmc_host_is_spi w then cmd_resp cmd ! 1 AND 0xFF else cmd_resp cmd ! 0 AND 0xFF);
       ret (if result_pattern \<noteq> test_pattern then - EIO else 0)
     }
   }"

text \<open>The second result is stored through \<open>rca\<close> when the first is 0.\<close>

definition mmc_send_relative_addr :: "(int \<times> u32) io" where
  "mmc_send_relative_addr = do {
     cmd \<leftarrow> mmc_wait_for_cmd hooks (cmd0\<lparr>cmd_opcode := SD_SEND_RELATIVE_ADDR, cmd_arg := 0,
       cmd_flags := {MMC_RSP_R6, MMC_CMD_BCR}\<rparr>) MMC_CMD_RETRIES;
     ret (if cmd_error cmd \<noteq> 0 then (cmd_error cmd, 0) else (0, drop_bit 16 (cmd_resp cmd ! 0)))
   }"

section \<open>Registers and the switch function\<close>

text \<open>
  The common part of the functions below: a read of one block into a buffer.  The results are
  the error of command or data and the buffer.
\<close>

definition sd_read_block :: "mmc_command \<Rightarrow> u8 list \<Rightarrow> (int \<times> u8 list) io" where
  "sd_read_block cmd buf = do {
     w \<leftarrow> gets id;
     let len = of_nat (length buf);
     let d = mmc_set_data_timeout (w_host w) (w_card w) (dat0\<lparr>dat_blksz := len, dat_blocks := 1,
       dat_flags := {MMC_DATA_READ}, dat_sg := [len], dat_buf := buf\<rparr>);
     mrq \<leftarrow> mmc_wait_for_req hooks (mrq_of cmd (Some d));
     ret (case mrq_data mrq of
         None \<Rightarrow> (cmd_error (mrq_cmd mrq), buf)
       | Some d \<Rightarrow> (if cmd_error (mrq_cmd mrq) \<noteq> 0 then cmd_error (mrq_cmd mrq) else dat_error d,
                    dat_buf d))
   }"

definition mmc_app_send_scr :: "int io" where
  "mmc_app_send_scr = do {
     err \<leftarrow> mmc_app_cmd True;
     if err \<noteq> 0 then ret err
     else do {
       ok \<leftarrow> kzalloc 8;
       if \<not> ok then ret (- ENOMEM)
       else do {
         r \<leftarrow> sd_read_block (cmd0\<lparr>cmd_opcode := SD_APP_SEND_SCR, cmd_arg := 0,
           cmd_flags := {MMC_RSP_SPI_R1, MMC_RSP_R1, MMC_CMD_ADTC}\<rparr>) (replicate 8 0);
         modify (upd_card (\<lambda>c. c\<lparr>cd_raw_scr := map (be32_to_cpu (snd r)) [0..<2]\<rparr>));
         ret (fst r)
       }
     }
   }"

definition mmc_sd_switch :: "bool \<Rightarrow> nat \<Rightarrow> u8 \<Rightarrow> u8 list \<Rightarrow> (int \<times> u8 list) io" where
  "mmc_sd_switch mode grp value resp = do {
     let value = value AND 0xF;
     let a = push_bit 31 (if mode then 1 else 0) OR 0x00FFFFFF;
     let a = a AND NOT (push_bit (grp * 4) 0xF);
     let a = a OR push_bit (grp * 4) (ucast value);
     sd_read_block (cmd0\<lparr>cmd_opcode := SD_SWITCH, cmd_arg := a,
       cmd_flags := {MMC_RSP_SPI_R1, MMC_RSP_R1, MMC_CMD_ADTC}\<rparr>) resp
   }"

definition mmc_app_sd_status :: "u8 list \<Rightarrow> (int \<times> u8 list) io" where
  "mmc_app_sd_status ssr = do {
     err \<leftarrow> mmc_app_cmd True;
     if err \<noteq> 0 then ret (err, ssr)
     else sd_read_block (cmd0\<lparr>cmd_opcode := SD_APP_SD_STATUS, cmd_arg := 0,
       cmd_flags := {MMC_RSP_SPI_R2, MMC_RSP_R1, MMC_CMD_ADTC}\<rparr>) ssr
   }"

end
