(* ===== verification/Sd_Card.thy ===== *)
theory Sd_Card
  imports Sd_Ops Card_Bus Erase Card_Registers
begin

text \<open>
  SD cards (\<open>mmc/core/sd.c\<close>): status and switch registers, high speed and UHS-I modes, the
  voltage switch of \<open>mmc/core/core.c\<close>, identification and initialisation.  The buffer
  \<open>status\<close> of 64 bytes that the functions share is passed along.
\<close>

section \<open>Status and switch registers\<close>

definition mmc_read_ssr :: "int io" where
  "mmc_read_ssr = do {
     w \<leftarrow> gets id;
     if csd_cmdclass (cd_csd (w_card w)) AND CCC_APP_SPEC = 0 then ret 0
     else do {
       ok \<leftarrow> kzalloc 64;
       if \<not> ok then ret (- ENOMEM)
       else do {
         r \<leftarrow> mmc_app_sd_status (replicate 64 0);
         if fst r \<noteq> 0 then ret 0
         else do {
           modify (upd_card (\<lambda>c. mmc_decode_ssr
             (c\<lparr>cd_raw_ssr := map (be32_to_cpu (snd r)) [0..<16]\<rparr>)));
           ret 0
         }
       }
     }
   }"

definition decode_switch :: "u8 list \<Rightarrow> mmc_card \<Rightarrow> mmc_card" where
  "decode_switch status mc =
    (let mc = (if status ! 13 AND SD_MODE_HIGH_SPEED \<noteq> 0
               then upd_sw (\<lambda>s. s\<lparr>sw_hs_max_dtr := HIGH_SPEED_MAX_DTR\<rparr>) mc else mc)
     in if scr_sda_spec3 (cd_scr mc) \<noteq> 0
        then upd_sw (\<lambda>s. s\<lparr>sw_sd3_bus_mode := ucast (status ! 13),
          sw_sd3_drv_type := ucast (status ! 9),
          sw_sd3_curr_limit := ucast (status ! 7) OR push_bit 8 (ucast (status ! 6))\<rparr>) mc
        else mc)"

definition mmc_read_switch :: "int io" where
  "mmc_read_switch = do {
     w \<leftarrow> gets id;
     if scr_sda_vsn (cd_scr (w_card w)) < SCR_SPEC_VER_1 then ret 0
     else if csd_cmdclass (cd_csd (w_card w)) AND CCC_SWITCH = 0 then ret 0
     else do {
       ok \<leftarrow> kzalloc 64;
       if \<not> ok then ret (- ENOMEM)
       else do {
         r \<leftarrow> mmc_sd_switch False 0 0 (replicate 64 0);
         let err = fst r;
         if err \<noteq> 0 then
           ret (if err \<noteq> - EINVAL \<and> err \<noteq> - ENOSYS \<and> err \<noteq> - EFAULT then err else 0)
         else do { modify (upd_card (decode_switch (snd r))); ret 0 }
       }
     }
   }"

text \<open>The result is 1 if the card has switched to high speed.\<close>

definition mmc_sd_switch_hs :: "int io" where
  "mmc_sd_switch_hs = do {
     w \<leftarrow> gets id;
     if scr_sda_vsn (cd_scr (w_card w)) < SCR_SPEC_VER_1 then ret 0
     else if csd_cmdclass (cd_csd (w_card w)) AND CCC_SWITCH = 0 then ret 0
     else if MMC_CAP_SD_HIGHSPEED \<notin> h_caps (w_host w) then ret 0
     else if sw_hs_max_dtr (cd_sw_caps (w_card w)) = 0 then ret 0
     else do {
       ok \<leftarrow> kzalloc 64;
       if \<not> ok then ret (- ENOMEM)
       else do {
         r \<leftarrow> mmc_sd_switch True 0 1 (replicate 64 0);
         ret (if fst r \<noteq> 0 then fst r
              else if snd r ! 16 AND 0xF \<noteq> 1 then 0 else 1)
       }
     }
   }"

section \<open>UHS-I\<close>

text \<open>\<open>drive_strength\<close> reaches \<open>mmc_sd_switch\<close> as a byte; the type of the driver is set as one.\<close>

definition sd_select_driver_type :: "u8 list \<Rightarrow> (int \<times> u8 list) io" where
  "sd_select_driver_type status = do {
     modify (upd_card (\<lambda>c. c\<lparr>cd_drive_strength := 0\<rparr>));
     w \<leftarrow> gets id;
     let sw = cd_sw_caps (w_card w);
     let card_drv_type = uint (sw_sd3_drv_type sw OR of_int SD_DRIVER_TYPE_B);
     d \<leftarrow> mmc_select_drive_strength (sw_uhs_max_dtr sw) card_drv_type;
     let drive_strength = fst d;
     let set_type = (\<lambda>status. do {
       io_when (snd d \<noteq> 0) (mmc_set_driver_type (of_int (snd d)));
       ret (0, status) });
     if drive_strength \<noteq> 0 then do {
       r \<leftarrow> mmc_sd_switch True 2 (of_int drive_strength) status;
       if fst r \<noteq> 0 then ret r
       else if uint (snd r ! 15 AND 0xF) \<noteq> drive_strength then ret (0, snd r)
       else do {
         modify (upd_card (\<lambda>c. c\<lparr>cd_drive_strength := of_int drive_strength\<rparr>));
         set_type (snd r)
       }
     } else set_type status
   }"

definition mmc_host_uhs :: "mmc_host \<Rightarrow> bool" where
  "mmc_host_uhs h \<longleftrightarrow> h_caps h \<inter> {MMC_CAP_UHS_SDR12, MMC_CAP_UHS_SDR25, MMC_CAP_UHS_SDR50,
     MMC_CAP_UHS_SDR104, MMC_CAP_UHS_DDR50} \<noteq> {} \<and> MMC_CAP_4_BIT_DATA \<in> h_caps h"

definition sd_update_bus_speed_mode :: "mmc_host \<Rightarrow> mmc_card \<Rightarrow> mmc_card" where
  "sd_update_bus_speed_mode h mc =
    (let mode = sw_sd3_bus_mode (cd_sw_caps mc) in
     if \<not> mmc_host_uhs h then mc\<lparr>cd_sd_bus_speed := 0\<rparr>
     else if MMC_CAP_UHS_SDR104 \<in> h_caps h \<and> mode AND SD_MODE_UHS_SDR104 \<noteq> 0
     then mc\<lparr>cd_sd_bus_speed := UHS_SDR104_BUS_SPEED\<rparr>
     else if MMC_CAP_UHS_DDR50 \<in> h_caps h \<and> mode AND SD_MODE_UHS_DDR50 \<noteq> 0
     then mc\<lparr>cd_sd_bus_speed := UHS_DDR50_BUS_SPEED\<rparr>
     else if h_caps h \<inter> {MMC_CAP_UHS_SDR104, MMC_CAP_UHS_SDR50} \<noteq> {}
       \<and> mode AND SD_MODE_UHS_SDR50 \<noteq> 0
     then mc\<lparr>cd_sd_bus_speed := UHS_SDR50_BUS_SPEED\<rparr>
     else if h_caps h \<inter> {MMC_CAP_UHS_SDR104, MMC_CAP_UHS_SDR50, MMC_CAP_UHS_SDR25} \<noteq> {}
       \<and> mode AND SD_MODE_UHS_SDR25 \<noteq> 0
     then mc\<lparr>cd_sd_bus_speed := UHS_SDR25_BUS_SPEED\<rparr>
     else if h_caps h \<inter> {MMC_CAP_UHS_SDR104, MMC_CAP_UHS_SDR50, MMC_CAP_UHS_SDR25,
         MMC_CAP_UHS_SDR12} \<noteq> {} \<and> mode AND SD_MODE_UHS_SDR12 \<noteq> 0
     then mc\<lparr>cd_sd_bus_speed := UHS_SDR12_BUS_SPEED\<rparr>
     else mc)"

text \<open>The timing and the rate of a bus speed.\<close>

definition uhs_mode :: "u32 \<Rightarrow> (mmc_timing \<times> u32) option" where
  "uhs_mode speed =
    (if speed = UHS_SDR104_BUS_SPEED then Some (MMC_TIMING_UHS_SDR104, UHS_SDR104_MAX_DTR)
     else if speed = UHS_DDR50_BUS_SPEED then Some (MMC_TIMING_UHS_DDR50, UHS_DDR50_MAX_DTR)
     else if speed = UHS_SDR50_BUS_SPEED then Some (MMC_TIMING_UHS_SDR50, UHS_SDR50_MAX_DTR)
     else if speed = UHS_SDR25_BUS_SPEED then Some (MMC_TIMING_UHS_SDR25, UHS_SDR25_MAX_DTR)
     else if speed = UHS_SDR12_BUS_SPEED then Some (MMC_TIMING_UHS_SDR12, UHS_SDR12_MAX_DTR)
     else None)"

definition sd_set_bus_speed_mode :: "u8 list \<Rightarrow> (int \<times> u8 list) io" where
  "sd_set_bus_speed_mode status = do {
     w \<leftarrow> gets id;
     let speed = cd_sd_bus_speed (w_card w);
     (case uhs_mode speed of
        None \<Rightarrow> ret (0, status)
      | Some (timing, dtr) \<Rightarrow> do {
          modify (upd_card (upd_sw (\<lambda>s. s\<lparr>sw_uhs_max_dtr := dtr\<rparr>)));
          r \<leftarrow> mmc_sd_switch True 0 (ucast speed) status;
          if fst r \<noteq> 0 then ret r
          else do {
            w \<leftarrow> gets id;
            io_when (ucast (snd r ! 16 AND 0xF) = speed) (do {
              mmc_set_timing timing;
              mmc_set_clock (sw_uhs_max_dtr (cd_sw_caps (w_card w)))
            });
            ret (0, snd r)
          }
        })
   }"

definition sd_get_host_max_current :: "mmc_host \<Rightarrow> u32" where
  "sd_get_host_max_current h =
    (let voltage = push_bit (unat (ios_vdd (h_ios h))) 1 :: u32 in
     if voltage = MMC_VDD_165_195 then h_max_current_180 h
     else if voltage = MMC_VDD_29_30 \<or> voltage = MMC_VDD_30_31 then h_max_current_300 h
     else if voltage = MMC_VDD_32_33 \<or> voltage = MMC_VDD_33_34 then h_max_current_330 h
     else 0)"

text \<open>The current limit that \<open>sd_set_current_limit\<close> chooses.\<close>

definition current_limit :: "u32 \<Rightarrow> u32 \<Rightarrow> int" where
  "current_limit max_current limits =
    (if max_current \<ge> 800 \<and> limits AND SD_MAX_CURRENT_800 \<noteq> 0 then SD_SET_CURRENT_LIMIT_800
     else if max_current \<ge> 600 \<and> limits AND SD_MAX_CURRENT_600 \<noteq> 0 then SD_SET_CURRENT_LIMIT_600
     else if max_current \<ge> 400 \<and> limits AND SD_MAX_CURRENT_400 \<noteq> 0 then SD_SET_CURRENT_LIMIT_400
     else if max_current \<ge> 200 \<and> limits AND SD_MAX_CURRENT_200 \<noteq> 0 then SD_SET_CURRENT_LIMIT_200
     else SD_SET_CURRENT_NO_CHANGE)"

definition sd_set_current_limit :: "u8 list \<Rightarrow> (int \<times> u8 list) io" where
  "sd_set_current_limit status = do {
     w \<leftarrow> gets id;
     let speed = cd_sd_bus_speed (w_card w);
     if speed \<noteq> UHS_SDR50_BUS_SPEED \<and> speed \<noteq> UHS_SDR104_BUS_SPEED \<and> speed \<noteq> UHS_DDR50_BUS_SPEED
     then ret (0, status)
     else do {
       let limit = current_limit (sd_get_host_max_current (w_host w))
         (sw_sd3_curr_limit (cd_sw_caps (w_card w)));
       if limit \<noteq> SD_SET_CURRENT_NO_CHANGE then do {
         r \<leftarrow> mmc_sd_switch True 3 (of_int limit) status;
         if fst r \<noteq> 0 then ret r else ret (0, snd r)
       } else ret (0, status)
     }
   }"

definition mmc_sd_init_uhs_card :: "int io" where
  "mmc_sd_init_uhs_card = do {
     w \<leftarrow> gets id;
     if csd_cmdclass (cd_csd (w_card w)) AND CCC_SWITCH = 0 then ret 0
     else do {
       ok \<leftarrow> kzalloc 64;
       if \<not> ok then ret (- ENOMEM)
       else do {
         err \<leftarrow> mmc_app_set_bus_width MMC_BUS_WIDTH_4;
         if err \<noteq> 0 then ret err
         else do {
           mmc_set_bus_width MMC_BUS_WIDTH_4;
           w \<leftarrow> gets id;
           modify (upd_card (sd_update_bus_speed_mode (w_host w)));
           r \<leftarrow> sd_select_driver_type (replicate 64 0);
           if fst r \<noteq> 0 then ret (fst r)
           else do {
             r \<leftarrow> sd_set_current_limit (snd r);
             if fst r \<noteq> 0 then ret (fst r)
             else do {
               r \<leftarrow> sd_set_bus_speed_mode (snd r);
               if fst r \<noteq> 0 then ret (fst r)
               else do {
                 w \<leftarrow> gets id;
                 let timing = ios_timing (w_ios w);
                 if \<not> mmc_host_is_spi w \<and> (timing = MMC_TIMING_UHS_SDR50
                   \<or> timing = MMC_TIMING_UHS_DDR50 \<or> timing = MMC_TIMING_UHS_SDR104)
                 then do {
                   err \<leftarrow> mmc_execute_tuning;
                   w \<leftarrow> gets id;
                   ret (if err \<noteq> 0 \<and> ios_timing (w_ios w) = MMC_TIMING_UHS_DDR50 then 0 else err)
                 } else ret 0
               }
             }
           }
         }
       }
     }
   }"

end
