(* ===== verification/Bus_Ops.thy ===== *)
theory Bus_Ops
  imports Command_Frame Card_Bus
begin

text \<open>
  The bus handler of a host and the detection of a removed card (\<open>mmc/core/core.c\<close>).  Claiming
  and releasing the host and the calls of runtime PM are events here; \<open>Host_Claim\<close> models
  what a claim does.  The warnings about misuse are not modelled.
\<close>

section \<open>Claims and references\<close>

definition claim_host :: "unit io" where
  "claim_host = emit EvClaim 0"

definition release_host :: "unit io" where
  "release_host = emit EvRelease 0"

definition pm :: "pm_call \<Rightarrow> unit io" where
  "pm p = emit (EvPm p) 0"

definition mmc_get_card :: "unit io" where
  "mmc_get_card = do { pm PM_GET_SYNC; claim_host }"

definition mmc_put_card :: "unit io" where
  "mmc_put_card = do { release_host; pm PM_MARK_LAST_BUSY; pm PM_PUT_AUTOSUSPEND }"

definition mmc_release_bus :: "unit io" where
  "mmc_release_bus = modify (upd_host (\<lambda>h. h\<lparr>h_bus_ops := None\<rparr>))"

definition mmc_bus_get :: "unit io" where
  "mmc_bus_get = modify (upd_host (\<lambda>h. h\<lparr>h_bus_refs := h_bus_refs h + 1\<rparr>))"

definition mmc_bus_put :: "unit io" where
  "mmc_bus_put = do {
     modify (upd_host (\<lambda>h. h\<lparr>h_bus_refs := h_bus_refs h - 1\<rparr>));
     h \<leftarrow> gets w_host;
     io_when (h_bus_refs h = 0 \<and> h_bus_ops h \<noteq> None) mmc_release_bus
   }"

definition mmc_attach_bus :: "mmc_bus_ops \<Rightarrow> unit io" where
  "mmc_attach_bus ops =
     modify (upd_host (\<lambda>h. h\<lparr>h_bus_ops := Some ops, h_bus_refs := 1, h_bus_dead := False\<rparr>))"

definition mmc_detach_bus :: "unit io" where
  "mmc_detach_bus = do {
     modify (upd_host (\<lambda>h. h\<lparr>h_bus_dead := True\<rparr>));
     mmc_bus_put
   }"

section \<open>Detection\<close>

text \<open>\<open>_mmc_detect_change\<close>; the detection work is queued after the delay in ticks.\<close>

definition detect_change :: "nat \<Rightarrow> bool \<Rightarrow> unit io" where
  "detect_change delay cd_irq = do {
     w \<leftarrow> gets id;
     io_when (cd_irq \<and> MMC_CAP_NEEDS_POLL \<notin> h_caps (w_host w) \<and> kn_can_wakeup (w_kernel w))
       (pm PM_WAKEUP);
     modify (upd_host (\<lambda>h. h\<lparr>h_detect_change := True\<rparr>));
     emit (EvScheduleDetect delay) 0
   }"

definition mmc_detect_change :: "nat \<Rightarrow> unit io" where
  "mmc_detect_change delay = detect_change delay True"

text \<open>
  \<open>host->bus_ops->alive(host)\<close>: \<open>mmc_alive\<close>, \<open>mmc_sd_alive\<close> and \<open>mmc_sdio_alive\<close>; the host has
  a handler where it has a card.
\<close>

definition bus_alive :: "int io" where
  "bus_alive = do {
     h \<leftarrow> gets w_host;
     if h_bus_ops h = Some MMC_SDIO_OPS then mmc_select_card hooks
     else do { r \<leftarrow> mmc_send_status hooks; ret (fst r) }
   }"

text \<open>\<open>_mmc_detect_card_removed\<close>.\<close>

definition detect_card_removed :: "int io" where
  "detect_card_removed = do {
     w \<leftarrow> gets id;
     if \<not> h_card (w_host w) \<or> mmc_card_removed w then ret 1
     else do {
       err \<leftarrow> bus_alive;
       w \<leftarrow> gets id;
       (case op_get_cd (w_ops w) of
          None \<Rightarrow> ret ()
        | Some get_cd \<Rightarrow> io_when (err = 0) (do {
            emit EvGetCd 0;
            io_when (get_cd (w_trace w) = 0)
              (mmc_detect_change (kn_msecs_to_jiffies (w_kernel w) 200))
          }));
       io_when (err \<noteq> 0) (modify (upd_card (card_set_state MMC_CARD_REMOVED)));
       ret err
     }
   }"

definition mmc_detect_card_removed :: "int io" where
  "mmc_detect_card_removed = do {
     w \<leftarrow> gets id;
     let removed = (if mmc_card_removed w then 1 else 0);
     if \<not> h_card (w_host w) then ret 1
     else if MMC_CAP_NONREMOVABLE \<in> h_caps (w_host w) then ret 0
     else if \<not> h_detect_change (w_host w) \<and> MMC_CAP_NEEDS_POLL \<notin> h_caps (w_host w) then ret removed
     else do {
       modify (upd_host (\<lambda>h. h\<lparr>h_detect_change := False\<rparr>));
       if removed = 0 then do {
         err \<leftarrow> detect_card_removed;
         w \<leftarrow> gets id;
         io_when (err \<noteq> 0 \<and> MMC_CAP_NEEDS_POLL \<in> h_caps (w_host w)) (do {
           emit EvCancelDetect 0;
           detect_change 0 False
         });
         ret err
       } else ret removed
     }
   }"

text \<open>
  The callbacks of MMC and SD cards: \<open>mmc_remove\<close>, \<open>mmc_sd_remove\<close>, and \<open>mmc_detect\<close>,
  \<open>mmc_sd_detect\<close>, which are the same code.
\<close>

definition bus_remove :: "unit io" where
  "bus_remove = do {
     mmc_remove_card;
     modify (upd_host (\<lambda>h. h\<lparr>h_card := False\<rparr>))
   }"

definition bus_detect :: "unit io" where
  "bus_detect = do {
     mmc_get_card;
     err \<leftarrow> detect_card_removed;
     mmc_put_card;
     io_when (err \<noteq> 0) (do {
       bus_remove;
       claim_host;
       mmc_detach_bus;
       mmc_power_off;
       release_host
     })
   }"

text \<open>The hardware reset that a probe starts with.\<close>

definition mmc_hw_reset_for_init :: "unit io" where
  "mmc_hw_reset_for_init = do {
     mmc_pwrseq_reset;
     w \<leftarrow> gets id;
     io_when (MMC_CAP_HW_RESET \<in> h_caps (w_host w) \<and> op_hw_reset (w_ops w)) (emit EvHwReset 0)
   }"

end
