(* ===== verification/Sd_Init.thy ===== *)
theory Sd_Init
  imports Sd_Card Bus_Ops
begin

text \<open>
  Identification, initialisation and the life of SD cards (\<open>mmc/core/sd.c\<close>), with the switch to
  1.8 V of \<open>mmc/core/core.c\<close>.

  \<open>mmc_sd_get_cid\<close> repeats itself while the voltage switch fails and the card keeps offering
  it; nothing in the code bounds this.  Its model takes a number of rounds, and the result
  None says that they did not suffice.  The card that is initialised is the world's card;
  the flag \<open>oldcard\<close> tells whether it is the one that was there before.
\<close>

section \<open>The switch to 1.8 V\<close>

definition mmc_set_uhs_voltage :: "u32 \<Rightarrow> int io" where
  "mmc_set_uhs_voltage ocr = do {
     w \<leftarrow> gets id;
     if op_start_signal_voltage_switch (w_ops w) = None then ret (- EPERM)
     else do {
       cmd \<leftarrow> mmc_wait_for_cmd hooks (cmd0\<lparr>cmd_opcode := SD_SWITCH_VOLTAGE, cmd_arg := 0,
         cmd_flags := {MMC_RSP_R1, MMC_CMD_AC}\<rparr>) 0;
       w \<leftarrow> gets id;
       if cmd_error cmd \<noteq> 0 then ret (cmd_error cmd)
       else if \<not> mmc_host_is_spi w \<and> cmd_resp cmd ! 0 AND R1_ERROR \<noteq> 0 then ret (- EIO)
       else do {
         mmc_delay 1;
         let busy = (case op_card_busy (w_ops w) of None \<Rightarrow> ret None
           | Some f \<Rightarrow> do { b \<leftarrow> card_busy f; ret (Some b) });
         b \<leftarrow> busy;
         err \<leftarrow> (if b = Some False then ret (- EAGAIN)
           else do {
             e \<leftarrow> mmc_host_set_uhs_voltage;
             if e \<noteq> 0 then ret (- EAGAIN)
             else do {
               mmc_delay 1;
               b \<leftarrow> busy;
               ret (if b = Some True then - EAGAIN else 0)
             }
           });
         io_when (err \<noteq> 0) (mmc_power_cycle ocr);
         ret err
       }
     }
   }"

section \<open>Identification\<close>

text \<open>
  The first half of a round of \<open>mmc_sd_get_cid\<close>, to the answer to the operating conditions: the
  conditions that were sent, the error and what the card answered.
\<close>

definition sd_cid_conditions :: "u32 \<Rightarrow> int \<Rightarrow> (u32 \<times> int \<times> u32 option) io" where
  "sd_cid_conditions ocr retries = do {
     let ocr = (if retries = 0 then ocr AND NOT SD_OCR_S18R else ocr);
     mmc_go_idle hooks;
     err \<leftarrow> mmc_send_if_cond ocr;
     w \<leftarrow> gets id;
     let ocr = (if err = 0 then ocr OR SD_OCR_CCS else ocr);
     let ocr = (if retries \<noteq> 0 \<and> mmc_host_uhs (w_host w) then ocr OR SD_OCR_S18R else ocr);
     let ocr = (if sd_get_host_max_current (w_host w) > 150 then ocr OR SD_OCR_XPC else ocr);
     r \<leftarrow> mmc_send_app_op_cond ocr;
     ret (ocr, r)
   }"

text \<open>
  A round gives the error, the response to the operating conditions and the CID, or the number
  of retries with which the next round starts, beside the value of \<open>ocr\<close>.
\<close>

definition sd_cid_round :: "u32 \<Rightarrow> bool \<Rightarrow> u32 \<Rightarrow> int \<Rightarrow>
  ((int \<times> u32 option \<times> u32 list) + (u32 \<times> int)) io" where
  "sd_cid_round pocr want_rocr ocr retries = do {
     r \<leftarrow> sd_cid_conditions ocr retries;
     w \<leftarrow> gets id;
     (case r of (ocr, err, answer) \<Rightarrow> do {
       let rocr = (if want_rocr then answer else None);
       let cid = do { c \<leftarrow> mmc_send_cid hooks; ret (Inl (fst c, rocr, snd c)) };
       if err \<noteq> 0 then ret (Inl (err, rocr, []))
       else if \<not> mmc_host_is_spi w
         \<and> (case rocr of None \<Rightarrow> False | Some x \<Rightarrow> x AND 0x41000000 = 0x41000000)
       then do {
         err \<leftarrow> mmc_set_uhs_voltage pocr;
         if err = - EAGAIN then ret (Inr (ocr, retries - 1))
         else if err \<noteq> 0 then ret (Inr (ocr, 0))
         else cid
       } else cid
     })
   }"

fun sd_cid_rounds :: "nat \<Rightarrow> u32 \<Rightarrow> bool \<Rightarrow> u32 \<Rightarrow> int \<Rightarrow>
  (int \<times> u32 option \<times> u32 list) option io" where
  "sd_cid_rounds 0 pocr want_rocr ocr retries = ret None"
| "sd_cid_rounds (Suc n) pocr want_rocr ocr retries = do {
     r \<leftarrow> sd_cid_round pocr want_rocr ocr retries;
     (case r of Inl x \<Rightarrow> ret (Some x)
      | Inr (ocr, retries) \<Rightarrow> sd_cid_rounds n pocr want_rocr ocr retries)
   }"

definition mmc_sd_get_cid :: "nat \<Rightarrow> u32 \<Rightarrow> bool \<Rightarrow> (int \<times> u32 option \<times> u32 list) option io" where
  "mmc_sd_get_cid n ocr want_rocr = sd_cid_rounds n ocr want_rocr ocr 10"

definition mmc_sd_get_csd :: "int io" where
  "mmc_sd_get_csd = do {
     r \<leftarrow> mmc_send_csd hooks;
     if fst r \<noteq> 0 then ret (fst r)
     else do {
       modify (upd_card (\<lambda>c. c\<lparr>cd_raw_csd := snd r\<rparr>));
       w \<leftarrow> gets id;
       let d = mmc_decode_csd_sd (w_card w);
       modify (upd_card (\<lambda>_. snd d));
       ret (fst d)
     }
   }"

definition mmc_sd_get_ro :: "int io" where
  "mmc_sd_get_ro = do {
     w \<leftarrow> gets id;
     if MMC_CAP2_NO_WRITE_PROTECT \<in> h_caps2 (w_host w) then ret 0
     else (case op_get_ro (w_ops w) of
         None \<Rightarrow> ret (- 1)
       | Some get_ro \<Rightarrow> do { emit EvGetRo 0; ret (get_ro (w_trace w)) })
   }"

section \<open>Initialisation\<close>

definition mmc_sd_setup_card :: "bool \<Rightarrow> int io" where
  "mmc_sd_setup_card reinit = do {
     err \<leftarrow> (if reinit then ret 0
       else do {
         err \<leftarrow> mmc_app_send_scr;
         if err \<noteq> 0 then ret err
         else do {
           w \<leftarrow> gets id;
           let d = mmc_decode_scr (w_card w);
           modify (upd_card (\<lambda>_. snd d));
           if fst d \<noteq> 0 then ret (fst d)
           else do {
             err \<leftarrow> mmc_read_ssr;
             if err \<noteq> 0 then ret err
             else do {
               modify (upd_card mmc_init_erase);
               mmc_read_switch
             }
           }
         }
       });
     if err \<noteq> 0 then ret err
     else do {
       w \<leftarrow> gets id;
       err \<leftarrow> (if mmc_host_is_spi w then mmc_spi_set_crc hooks (kn_use_spi_crc (w_kernel w)) else ret 0);
       if err \<noteq> 0 then ret err
       else if reinit then ret 0
       else do {
         ro \<leftarrow> mmc_sd_get_ro;
         io_when (ro > 0) (modify (upd_card (card_set_state MMC_STATE_READONLY)));
         ret 0
       }
     }
   }"

text \<open>\<open>mmc_card_hs\<close> of the kernel headers holds in the timings of high speed.\<close>

definition mmc_sd_get_max_clock :: "mmc_world \<Rightarrow> u32" where
  "mmc_sd_get_max_clock w =
    (let max_dtr = - 1 :: u32 in
     if ios_timing (w_ios w) = MMC_TIMING_SD_HS \<or> ios_timing (w_ios w) = MMC_TIMING_MMC_HS then
       (if max_dtr > sw_hs_max_dtr (cd_sw_caps (w_card w))
        then sw_hs_max_dtr (cd_sw_caps (w_card w)) else max_dtr)
     else if max_dtr > csd_max_dtr (cd_csd (w_card w)) then csd_max_dtr (cd_csd (w_card w))
     else max_dtr)"

definition mmc_sd_card_using_v18 :: "mmc_card \<Rightarrow> bool" where
  "mmc_sd_card_using_v18 mc \<longleftrightarrow> sw_sd3_bus_mode (cd_sw_caps mc)
     AND (SD_MODE_UHS_SDR50 OR SD_MODE_UHS_SDR104 OR SD_MODE_UHS_DDR50) \<noteq> 0"

text \<open>
  The end of \<open>mmc_sd_init_card\<close>, after the card was found not to need the 1.8 V fixup.
\<close>

definition sd_select_mode :: "u32 \<Rightarrow> int io" where
  "sd_select_mode rocr = do {
     w \<leftarrow> gets id;
     err \<leftarrow> (if rocr AND SD_ROCR_S18A \<noteq> 0 \<and> mmc_host_uhs (w_host w) then mmc_sd_init_uhs_card
       else do {
         err \<leftarrow> mmc_sd_switch_hs;
         if err < 0 then ret err
         else do {
           io_when (err > 0) (mmc_set_timing MMC_TIMING_SD_HS);
           w \<leftarrow> gets id;
           mmc_set_clock (mmc_sd_get_max_clock w);
           if MMC_CAP_4_BIT_DATA \<in> h_caps (w_host w)
             \<and> scr_bus_widths (cd_scr (w_card w)) AND SD_SCR_BUS_WIDTH_4 \<noteq> 0
           then do {
             err \<leftarrow> mmc_app_set_bus_width MMC_BUS_WIDTH_4;
             io_when (err = 0) (mmc_set_bus_width MMC_BUS_WIDTH_4);
             ret err
           } else ret 0
         }
       });
     w \<leftarrow> gets id;
     ret (if err \<noteq> 0 then err
          else if MMC_CAP2_AVOID_3_3V \<in> h_caps2 (w_host w)
            \<and> ios_signal_voltage (w_ios w) = MMC_SIGNAL_VOLTAGE_330 then - EINVAL
          else 0)
   }"

text \<open>From the call of \<open>init_card\<close> to the check of the signal voltage.\<close>

definition sd_select_setup :: "bool \<Rightarrow> int io" where
  "sd_select_setup oldcard = do {
     w \<leftarrow> gets id;
     (case op_init_card (w_ops w) of
        None \<Rightarrow> ret ()
      | Some init \<Rightarrow> do {
          emit EvInitCard 0;
          modify (upd_card (init (w_trace w)))
        });
     err \<leftarrow> (if mmc_host_is_spi w then ret 0
       else do {
         r \<leftarrow> mmc_send_relative_addr;
         io_when (fst r = 0) (modify (upd_card (\<lambda>c. c\<lparr>cd_rca := snd r\<rparr>)));
         ret (fst r)
       });
     if err \<noteq> 0 then ret err
     else do {
       err \<leftarrow> (if oldcard then ret 0
         else do {
           err \<leftarrow> mmc_sd_get_csd;
           io_when (err = 0) (modify (upd_card mmc_decode_cid_sd));
           ret err
         });
       if err \<noteq> 0 then ret err
       else do {
         w \<leftarrow> gets id;
         (if csd_dsr_imp (cd_csd (w_card w)) \<and> h_dsr_req (w_host w)
          then do { mmc_set_dsr hooks; ret () } else ret ());
         err \<leftarrow> (if mmc_host_is_spi w then ret 0 else mmc_select_card hooks);
         if err \<noteq> 0 then ret err else mmc_sd_setup_card oldcard
       }
     }
   }"

text \<open>
  The check of the signal voltage: the error and whether the card was brought to UHS-I, or a
  failed fixup, after which the code starts over.
\<close>

definition sd_v18_fixup :: "u32 \<Rightarrow> bool \<Rightarrow> bool \<Rightarrow> ((int \<times> bool) + unit) io" where
  "sd_v18_fixup ocr oldcard v18_fixup_failed = do {
     w \<leftarrow> gets id;
     if \<not> v18_fixup_failed \<and> \<not> mmc_host_is_spi w \<and> mmc_host_uhs (w_host w)
       \<and> mmc_sd_card_using_v18 (w_card w) \<and> ios_signal_voltage (w_ios w) \<noteq> MMC_SIGNAL_VOLTAGE_180
     then do {
       err \<leftarrow> (if oldcard then mmc_read_switch else ret 0);
       w \<leftarrow> gets id;
       if err \<noteq> 0 then ret (Inl (err, False))
       else if mmc_sd_card_using_v18 (w_card w) then do {
         failed \<leftarrow> do {
           err \<leftarrow> mmc_host_set_uhs_voltage;
           if err \<noteq> 0 then ret True else do { err \<leftarrow> mmc_sd_init_uhs_card; ret (err \<noteq> 0) }
         };
         if failed then do {
           mmc_power_cycle ocr;
           io_when (\<not> oldcard) mmc_remove_card;
           ret (Inr ())
         } else ret (Inl (0, True))
       } else ret (Inl (0, False))
     } else ret (Inl (0, False))
   }"

text \<open>
  One pass of \<open>mmc_sd_init_card\<close>; \<open>again\<close> is the pass after a failed fixup.
\<close>

definition sd_init_pass :: "nat \<Rightarrow> int option io \<Rightarrow> u32 \<Rightarrow> bool \<Rightarrow> bool \<Rightarrow> int option io" where
  "sd_init_pass n again ocr oldcard v18_fixup_failed = do {
     c \<leftarrow> mmc_sd_get_cid n ocr True;
     (case c of
        None \<Rightarrow> ret None
      | Some (err, rocr, cid) \<Rightarrow>
          if err \<noteq> 0 then ret (Some err)
          else do {
            w \<leftarrow> gets id;
            err \<leftarrow> (if oldcard then ret (if cid \<noteq> cd_raw_cid (w_card w) then - ENOENT else 0)
              else do {
                err \<leftarrow> mmc_alloc_card;
                io_when (err = 0) (modify (upd_card (\<lambda>c.
                  c\<lparr>cd_ocr := ocr, cd_type := MMC_TYPE_SD, cd_raw_cid := cid\<rparr>)));
                ret err
              });
            if err \<noteq> 0 then ret (Some err)
            else do {
              let free_card = (\<lambda>err. do { io_when (\<not> oldcard) mmc_remove_card; ret (Some err) });
              let done = do { modify (upd_host (\<lambda>h. h\<lparr>h_card := True\<rparr>)); ret (Some 0) };
              err \<leftarrow> sd_select_setup oldcard;
              if err \<noteq> 0 then free_card err
              else do {
                r \<leftarrow> sd_v18_fixup ocr oldcard v18_fixup_failed;
                (case r of
                   Inr _ \<Rightarrow> again
                 | Inl (err, uhs) \<Rightarrow>
                     if err \<noteq> 0 then free_card err
                     else if uhs then done
                     else do {
                       err \<leftarrow> sd_select_mode (case rocr of None \<Rightarrow> 0 | Some x \<Rightarrow> x);
                       if err \<noteq> 0 then free_card err else done
                     })
              }
            }
          })
   }"

text \<open>A pass with a failed fixup does not try it again, so there are two passes at most.\<close>

definition mmc_sd_init_card :: "nat \<Rightarrow> u32 \<Rightarrow> bool \<Rightarrow> int option io" where
  "mmc_sd_init_card n ocr oldcard =
     sd_init_pass n (sd_init_pass n (ret None) ocr oldcard True) ocr oldcard False"

end
