(* ===== verification/Sd_Life.thy ===== *)
theory Sd_Life
  imports Sd_Init
begin

text \<open>
  The life of an SD card (\<open>mmc/core/sd.c\<close>): suspend and resume, reset, attachment.  The
  operations that initialise a card take the number of rounds for \<open>mmc_sd_get_cid\<close> and
  return None if it did not suffice.
\<close>

abbreviation mmc_card_suspended :: "mmc_card \<Rightarrow> bool" where
  "mmc_card_suspended \<equiv> card_state MMC_STATE_SUSPENDED"

section \<open>Suspend\<close>

text \<open>\<open>_mmc_sd_suspend\<close>.\<close>

definition sd_suspend :: "int io" where
  "sd_suspend = do {
     claim_host;
     w \<leftarrow> gets id;
     err \<leftarrow> (if mmc_card_suspended (w_card w) then ret 0
       else do {
         err \<leftarrow> (if mmc_host_is_spi w then ret 0 else mmc_deselect_cards hooks);
         io_when (err = 0) (do {
           mmc_power_off;
           modify (upd_card (card_set_state MMC_STATE_SUSPENDED))
         });
         ret err
       });
     release_host;
     ret err
   }"

definition mmc_sd_suspend :: "int io" where
  "mmc_sd_suspend = do {
     err \<leftarrow> sd_suspend;
     io_when (err = 0) (do { pm PM_DISABLE; pm PM_SET_SUSPENDED });
     ret err
   }"

definition mmc_sd_runtime_suspend :: "int io" where
  "mmc_sd_runtime_suspend = do {
     w \<leftarrow> gets id;
     if MMC_CAP_AGGRESSIVE_PM \<notin> h_caps (w_host w) then ret 0 else sd_suspend
   }"

section \<open>Resume\<close>

text \<open>\<open>_mmc_sd_resume\<close>.\<close>

definition sd_resume :: "nat \<Rightarrow> int option io" where
  "sd_resume n = do {
     claim_host;
     w \<leftarrow> gets id;
     if \<not> mmc_card_suspended (w_card w) then do { release_host; ret (Some 0) }
     else do {
       mmc_power_up (cd_ocr (w_card w));
       r \<leftarrow> mmc_sd_init_card n (cd_ocr (w_card w)) True;
       (case r of
          None \<Rightarrow> ret None
        | Some err \<Rightarrow> do {
            modify (upd_card (card_clr_state MMC_STATE_SUSPENDED));
            release_host;
            ret (Some err)
          })
     }
   }"

definition mmc_sd_resume :: "int io" where
  "mmc_sd_resume = do { pm PM_ENABLE; ret 0 }"

definition mmc_sd_runtime_resume :: "nat \<Rightarrow> int option io" where
  "mmc_sd_runtime_resume n = do { r \<leftarrow> sd_resume n; ret (map_option (\<lambda>_. 0) r) }"

definition mmc_sd_hw_reset :: "nat \<Rightarrow> int option io" where
  "mmc_sd_hw_reset n = do {
     w \<leftarrow> gets id;
     mmc_power_cycle (cd_ocr (w_card w));
     mmc_sd_init_card n (cd_ocr (w_card w)) True
   }"

section \<open>Attachment\<close>

text \<open>
  \<open>mmc_attach_sd\<close> enters and leaves with the host claimed, and releases it while the card is
  registered.  The first part gives the operating conditions or the error.
\<close>

definition attach_sd_voltage :: "u32 \<Rightarrow> (int + u32) io" where
  "attach_sd_voltage ocr = do {
     mmc_attach_bus MMC_SD_OPS;
     h \<leftarrow> gets w_host;
     io_when (h_ocr_avail_sd h \<noteq> 0) (modify (upd_host (\<lambda>h. h\<lparr>h_ocr_avail := h_ocr_avail_sd h\<rparr>)));
     w \<leftarrow> gets id;
     r \<leftarrow> (if mmc_host_is_spi w then do { mmc_go_idle hooks; mmc_spi_read_ocr hooks False }
       else ret (0, ocr));
     if fst r \<noteq> 0 then ret (Inl (fst r))
     else do {
       rocr \<leftarrow> mmc_select_voltage (snd r);
       ret (if rocr = 0 then Inl (- EINVAL) else Inr rocr)
     }
   }"

definition mmc_attach_sd :: "nat \<Rightarrow> int option io" where
  "mmc_attach_sd n = do {
     r \<leftarrow> mmc_send_app_op_cond 0;
     if fst r \<noteq> 0 then ret (Some (fst r))
     else do {
       v \<leftarrow> attach_sd_voltage (case snd r of None \<Rightarrow> 0 | Some ocr \<Rightarrow> ocr);
       let detach = (\<lambda>err. do { mmc_detach_bus; ret (Some err) });
       (case v of
          Inl err \<Rightarrow> detach err
        | Inr rocr \<Rightarrow> do {
            r \<leftarrow> mmc_sd_init_card n rocr False;
            (case r of
               None \<Rightarrow> ret None
             | Some err \<Rightarrow>
                 if err \<noteq> 0 then detach err
                 else do {
                   release_host;
                   err \<leftarrow> mmc_add_card;
                   if err \<noteq> 0 then do { bus_remove; claim_host; detach err }
                   else do { claim_host; ret (Some 0) }
                 })
          })
     }
   }"

end
