(* ===== verification/Claim_Frame.thy ===== *)
theory Claim_Frame
  imports Bus_Ops Erase_Facts
begin

text \<open>
  What power cycles, voltage switches and the other steps of an initialisation keep: the claim
  of the host, its bus handler and whether it has a card (\<open>calm\<close>).  Commands keep more (\<open>settled\<close>) and hence this too.
\<close>

definition handler :: "mmc_host \<Rightarrow> mmc_bus_ops option \<times> u32 \<times> bool" where
  "handler h = (h_bus_ops h, h_bus_refs h, h_bus_dead h)"

definition calm :: "mmc_world \<Rightarrow> mmc_world \<Rightarrow> bool" where
  "calm w v \<longleftrightarrow> filter claim_event (w_trace v) = filter claim_event (w_trace w) \<and>
    handler (w_host v) = handler (w_host w) \<and> h_card (w_host v) = h_card (w_host w)"

named_theorems io_calm \<open>introduction rules for operations that keep claim, handler and presence of a card\<close>

interpretation cm: io_preorder calm
  by unfold_locales (auto simp: calm_def)

text \<open>Changes of the bus keep the card object as well.\<close>

definition bus_only :: "mmc_world \<Rightarrow> mmc_world \<Rightarrow> bool" where
  "bus_only w v \<longleftrightarrow> calm w v \<and> w_card v = w_card w"

named_theorems io_bus \<open>introduction rules for operations that change the bus only\<close>

interpretation bo: io_preorder bus_only
  by unfold_locales (auto simp: bus_only_def intro: cm.rfl cm.trn)

lemma settled_bus_only: "state_io_rel settled m \<Longrightarrow> state_io_rel bus_only m"
  by (simp add: state_io_rel_def bus_only_def calm_def handler_def settled_fields)

lemma bus_only_calm: "state_io_rel bus_only m \<Longrightarrow> state_io_rel calm m"
  by (simp add: state_io_rel_def bus_only_def)

lemmas settled_calm = settled_bus_only [THEN bus_only_calm]

lemmas calm_defs = bus_only_def calm_def handler_def upd_defs

lemma emit_calm [io_calm]: "\<not> claim_event e \<Longrightarrow> state_io_rel calm (emit e n)"
  unfolding emit_def by (intro cm.rel_modify) (simp add: calm_defs log_event_def)

lemma card_calm [io_calm]: "state_io_rel calm (modify (upd_card f))"
  by (intro cm.rel_modify) (simp add: calm_defs)

lemma clear_card_calm [io_calm]: "state_io_rel calm (modify (\<lambda>w. w\<lparr>w_card := c\<rparr>))"
  by (intro cm.rel_modify) (simp add: calm_defs)

lemma host_calm [io_calm]:
  "state_io_rel calm (modify (upd_host (\<lambda>h. h\<lparr>h_cqe_enabled := b\<rparr>)))"
  "state_io_rel calm (modify (upd_host (\<lambda>h. h\<lparr>h_ocr_avail := f h\<rparr>)))"
  "state_io_rel calm (modify (upd_host (\<lambda>h. h\<lparr>h_use_spi_crc := b\<rparr>)))"
  by (intro cm.rel_modify; simp add: calm_defs)+

lemmas [io_calm] = not_claim simple_settled [THEN settled_calm] counters_settled [THEN settled_calm]
  setters_settled [THEN settled_calm] speed_settled [THEN settled_calm]
  io.wait_settled [THEN settled_calm] io.status_settled [THEN settled_calm]
  io.registers_settled [THEN settled_calm] io.poll_for_busy_settled [THEN settled_calm]
  io.switch_settled [THEN settled_calm]

section \<open>Bus and power\<close>

lemma emit_bus [io_bus]: "\<not> claim_event e \<Longrightarrow> state_io_rel bus_only (emit e n)"
  unfolding emit_def by (intro bo.rel_modify) (simp add: calm_defs log_event_def)

lemmas [io_bus] = not_claim simple_settled [THEN settled_bus_only]
  counters_settled [THEN settled_bus_only] setters_settled [THEN settled_bus_only]

lemma pwrseq_bus [io_bus]:
  "state_io_rel bus_only mmc_pwrseq_pre_power_on" "state_io_rel bus_only mmc_pwrseq_post_power_on"
  "state_io_rel bus_only mmc_pwrseq_power_off" "state_io_rel bus_only mmc_pwrseq_reset"
  unfolding mmc_pwrseq_pre_power_on_def mmc_pwrseq_post_power_on_def mmc_pwrseq_power_off_def
    mmc_pwrseq_reset_def pwrseq_call_def
  by (intro io_bus bo.rel_intros)+

lemma retune_bus [io_bus]:
  "state_io_rel bus_only mmc_retune_timer_stop" "state_io_rel bus_only mmc_retune_unpause"
  "state_io_rel bus_only mmc_retune_disable"
  unfolding mmc_retune_disable_def mmc_retune_unpause_def mmc_retune_timer_stop_def
  by (intro io_bus bo.rel_intros bo.rel_modify; simp add: calm_defs)+

lemma setters_bus [io_bus]:
  "state_io_rel bus_only (mmc_set_chip_select cs)" "state_io_rel bus_only (mmc_set_bus_mode bm)"
  "state_io_rel bus_only (mmc_set_bus_width bw)" "state_io_rel bus_only (mmc_set_driver_type dt)"
  "state_io_rel bus_only mmc_set_initial_state" "state_io_rel bus_only (mmc_set_signal_voltage v)"
  unfolding mmc_set_chip_select_def mmc_set_bus_mode_def mmc_set_bus_width_def
    mmc_set_driver_type_def mmc_set_initial_state_def mmc_set_signal_voltage_def
  by (intro io_bus bo.rel_intros bo.rel_modify; simp add: calm_defs)+

lemma voltage_bus [io_bus]:
  "state_io_rel bus_only mmc_set_initial_signal_voltage"
  "state_io_rel bus_only mmc_host_set_uhs_voltage"
  "state_io_rel bus_only (mmc_select_drive_strength d c)"
  unfolding mmc_set_initial_signal_voltage_def mmc_host_set_uhs_voltage_def
    mmc_select_drive_strength_def
  by (intro io_bus bo.rel_intros bo.rel_modify; simp add: calm_defs)+

lemma power_bus [io_bus]:
  "state_io_rel bus_only (mmc_power_up ocr)" "state_io_rel bus_only mmc_power_off"
  unfolding mmc_power_up_def mmc_power_off_def
  by (intro io_bus bo.rel_intros bo.rel_modify; simp add: calm_defs)+

lemma power_cycle_bus [io_bus]:
  "state_io_rel bus_only (mmc_power_cycle ocr)" "state_io_rel bus_only (mmc_select_voltage ocr)"
  unfolding mmc_select_voltage_def mmc_power_cycle_def by (intro io_bus bo.rel_intros)+

lemmas [io_calm] = pwrseq_bus [THEN bus_only_calm] retune_bus [THEN bus_only_calm]
  setters_bus [THEN bus_only_calm] voltage_bus [THEN bus_only_calm] power_bus [THEN bus_only_calm]
  power_cycle_bus [THEN bus_only_calm]

section \<open>Commands and the card object\<close>

lemma commands_calm [io_calm]:
  "state_io_rel calm (mmc_go_idle hooks)" "state_io_rel calm (mmc_select_card hooks)"
  "state_io_rel calm (mmc_deselect_cards hooks)" "state_io_rel calm (mmc_set_dsr hooks)"
  "state_io_rel calm (mmc_set_relative_addr hooks)" "state_io_rel calm (mmc_spi_read_ocr hooks b)"
  "state_io_rel calm (mmc_spi_set_crc hooks b)"
  unfolding mmc_go_idle_def mmc_select_card_def mmc_deselect_cards_def select_card_def
    mmc_set_dsr_def mmc_set_relative_addr_def mmc_spi_read_ocr_def mmc_spi_set_crc_def
  by (intro io_calm cm.rel_intros)+

lemma card_object_calm [io_calm]:
  "state_io_rel calm mmc_alloc_card" "state_io_rel calm mmc_remove_card"
  unfolding mmc_alloc_card_def mmc_remove_card_def by (intro io_calm cm.rel_intros)+

section \<open>Initialisation\<close>

text \<open>
  An initialisation keeps the claim and the handler; it gives the host its card exactly when
  it ends with 0.
\<close>

definition initialised :: "int option \<Rightarrow> mmc_world \<Rightarrow> mmc_world \<Rightarrow> bool" where
  "initialised r w v \<longleftrightarrow> filter claim_event (w_trace v) = filter claim_event (w_trace w) \<and>
    handler (w_host v) = handler (w_host w) \<and>
    h_card (w_host v) = (h_card (w_host w) \<or> r = Some 0)"

definition initialises :: "int option io \<Rightarrow> bool" where
  "initialises m \<longleftrightarrow> (\<forall>w r v. run_state m w = (r, v) \<longrightarrow> initialised r w v)"

lemma initialises_run: "initialises m \<Longrightarrow> run_state m w = (r, v) \<Longrightarrow> initialised r w v"
  by (simp add: initialises_def)

lemma initialises_ret: "r \<noteq> Some 0 \<Longrightarrow> initialises (ret r)"
  by (simp add: initialises_def initialised_def)

lemma initialises_done:
  "initialises (do { modify (upd_host (\<lambda>h. h\<lparr>h_card := True\<rparr>)); ret (Some 0) })"
  by (simp add: initialises_def initialised_def handler_def upd_defs)

lemma initialises_bind:
  assumes "state_io_rel calm m" and "\<And>x. initialises (f x)"
  shows "initialises (m \<bind> f)"
  unfolding initialises_def
proof (intro allI impI)
  fix w r v assume run: "run_state (m \<bind> f) w = (r, v)"
  obtain x u where x: "run_state m w = (x, u)" by fastforce
  then have "calm w u" using assms(1) by (rule cm.rel_run [rotated])
  moreover have "initialised r u v" using run x by (intro initialises_run [OF assms(2)]) simp
  ultimately show "initialised r w v" by (simp add: calm_def initialised_def)
qed

lemma initialises_cases:
  "(b \<Longrightarrow> initialises m) \<Longrightarrow> (\<not> b \<Longrightarrow> initialises n) \<Longrightarrow> initialises (if b then m else n)"
  "(x = None \<Longrightarrow> initialises m) \<Longrightarrow> (\<And>y. x = Some y \<Longrightarrow> initialises (f y)) \<Longrightarrow>
    initialises (case x of None \<Rightarrow> m | Some y \<Rightarrow> f y)"
  "(\<And>a c. p = (a, c) \<Longrightarrow> initialises (g a c)) \<Longrightarrow> initialises (case p of (a, c) \<Rightarrow> g a c)"
  "(\<And>a. s = Inl a \<Longrightarrow> initialises (h a)) \<Longrightarrow> (\<And>c. s = Inr c \<Longrightarrow> initialises (k c)) \<Longrightarrow>
    initialises (case s of Inl a \<Rightarrow> h a | Inr c \<Rightarrow> k c)"
  by (simp_all split: option.split prod.split sum.split)

lemmas initialises_intros = initialises_done initialises_cases initialises_ret initialises_bind

end
