(* ===== verification/Sd_Facts.thy ===== *)
theory Sd_Facts
  imports Sd_Life Claim_Frame
begin

text \<open>
  The operations on SD cards evolve the world, balance the holds of re-tuning and keep the
  claim of the host; what an application command and the switch function send; how long the
  identification of a card takes.
\<close>

section \<open>Commands\<close>

lemma app_cmd_rel [io_rel, io_hold, io_calm]:
  "state_io_rel evolves (mmc_app_cmd b)" "state_io_rel holds_balanced (mmc_app_cmd b)"
  "state_io_rel calm (mmc_app_cmd b)"
  unfolding mmc_app_cmd_def
  by (intro io_rel ev.rel_intros io_hold hb.rel_intros io_calm cm.rel_intros)+

lemma app_cmd_loop_evolves [io_rel]: "state_io_rel evolves (app_cmd_loop b n err c)"
  by (induction n arbitrary: err c) (auto intro!: io_rel ev.rel_intros simp: Let_def)

lemma app_cmd_loop_hold [io_hold]: "state_io_rel holds_balanced (app_cmd_loop b n err c)"
  by (induction n arbitrary: err c) (auto intro!: io_hold hb.rel_intros simp: Let_def)

lemma app_cmd_loop_calm [io_calm]: "state_io_rel calm (app_cmd_loop b n err c)"
  by (induction n arbitrary: err c) (auto intro!: io_calm cm.rel_intros simp: Let_def)

lemma wait_for_app_cmd_rel [io_rel, io_hold, io_calm]:
  "state_io_rel evolves (mmc_wait_for_app_cmd b c r)"
  "state_io_rel holds_balanced (mmc_wait_for_app_cmd b c r)"
  "state_io_rel calm (mmc_wait_for_app_cmd b c r)"
  unfolding mmc_wait_for_app_cmd_def Let_def by (intro io_rel io_hold io_calm)+

lemma app_op_cond_loop_evolves [io_rel]: "state_io_rel evolves (app_op_cond_loop ocr n err c)"
  by (induction n arbitrary: err c) (auto intro!: io_rel ev.rel_intros simp: Let_def)

lemma app_op_cond_loop_hold [io_hold]: "state_io_rel holds_balanced (app_op_cond_loop ocr n err c)"
  by (induction n arbitrary: err c) (auto intro!: io_hold hb.rel_intros simp: Let_def)

lemma app_op_cond_loop_calm [io_calm]: "state_io_rel calm (app_op_cond_loop ocr n err c)"
  by (induction n arbitrary: err c) (auto intro!: io_calm cm.rel_intros simp: Let_def)

lemma sd_identify_rel [io_rel, io_hold, io_calm]:
  "state_io_rel evolves (mmc_app_set_bus_width n)"
  "state_io_rel holds_balanced (mmc_app_set_bus_width n)" "state_io_rel calm (mmc_app_set_bus_width n)"
  "state_io_rel evolves (mmc_send_app_op_cond ocr)"
  "state_io_rel holds_balanced (mmc_send_app_op_cond ocr)" "state_io_rel calm (mmc_send_app_op_cond ocr)"
  "state_io_rel evolves (mmc_send_if_cond ocr)"
  "state_io_rel holds_balanced (mmc_send_if_cond ocr)" "state_io_rel calm (mmc_send_if_cond ocr)"
  "state_io_rel evolves mmc_send_relative_addr"
  "state_io_rel holds_balanced mmc_send_relative_addr" "state_io_rel calm mmc_send_relative_addr"
  unfolding mmc_app_set_bus_width_def mmc_send_app_op_cond_def mmc_send_if_cond_def
    mmc_send_relative_addr_def
  by (intro io_rel ev.rel_intros io_hold hb.rel_intros io_calm cm.rel_intros)+

lemma sd_read_block_rel [io_rel, io_hold, io_calm]:
  "state_io_rel evolves (sd_read_block c buf)" "state_io_rel holds_balanced (sd_read_block c buf)"
  "state_io_rel calm (sd_read_block c buf)"
  "state_io_rel evolves (mmc_sd_switch m g v r)" "state_io_rel holds_balanced (mmc_sd_switch m g v r)"
  "state_io_rel calm (mmc_sd_switch m g v r)"
  "state_io_rel evolves (mmc_app_sd_status s)" "state_io_rel holds_balanced (mmc_app_sd_status s)"
  "state_io_rel calm (mmc_app_sd_status s)"
  unfolding mmc_sd_switch_def sd_read_block_def mmc_app_sd_status_def
  by (intro io_rel ev.rel_intros io_hold hb.rel_intros io_calm cm.rel_intros)+

section \<open>Registers and modes\<close>

lemma sd_registers_rel [io_rel, io_hold, io_calm]:
  "state_io_rel evolves mmc_app_send_scr" "state_io_rel holds_balanced mmc_app_send_scr"
  "state_io_rel calm mmc_app_send_scr"
  "state_io_rel evolves mmc_read_ssr" "state_io_rel holds_balanced mmc_read_ssr"
  "state_io_rel calm mmc_read_ssr"
  "state_io_rel evolves mmc_read_switch" "state_io_rel holds_balanced mmc_read_switch"
  "state_io_rel calm mmc_read_switch"
  "state_io_rel evolves mmc_sd_switch_hs" "state_io_rel holds_balanced mmc_sd_switch_hs"
  "state_io_rel calm mmc_sd_switch_hs"
  unfolding mmc_app_send_scr_def mmc_read_ssr_def mmc_read_switch_def mmc_sd_switch_hs_def
  by (intro io_rel ev.rel_intros quiet_evolves io_hold hb.rel_intros quiet_hold io_calm
      cm.rel_intros)+

lemma uhs_steps_rel [io_rel, io_hold, io_calm]:
  "state_io_rel evolves (sd_select_driver_type s)" "state_io_rel holds_balanced (sd_select_driver_type s)"
  "state_io_rel calm (sd_select_driver_type s)"
  "state_io_rel evolves (sd_set_bus_speed_mode s)" "state_io_rel holds_balanced (sd_set_bus_speed_mode s)"
  "state_io_rel calm (sd_set_bus_speed_mode s)"
  "state_io_rel evolves (sd_set_current_limit s)" "state_io_rel holds_balanced (sd_set_current_limit s)"
  "state_io_rel calm (sd_set_current_limit s)"
  unfolding sd_select_driver_type_def sd_set_bus_speed_mode_def sd_set_current_limit_def Let_def
  by (intro io_rel ev.rel_intros quiet_evolves io_hold hb.rel_intros quiet_hold io_calm
      cm.rel_intros)+

lemma uhs_card_rel [io_rel, io_hold, io_calm]:
  "state_io_rel evolves mmc_sd_init_uhs_card" "state_io_rel holds_balanced mmc_sd_init_uhs_card"
  "state_io_rel calm mmc_sd_init_uhs_card"
  "state_io_rel evolves (mmc_set_uhs_voltage ocr)" "state_io_rel holds_balanced (mmc_set_uhs_voltage ocr)"
  "state_io_rel calm (mmc_set_uhs_voltage ocr)"
  unfolding mmc_sd_init_uhs_card_def mmc_set_uhs_voltage_def Let_def
  by (intro io_rel ev.rel_intros quiet_evolves io_hold hb.rel_intros quiet_hold io_calm
      cm.rel_intros)+

end
