(* ===== verification/Sd_Init_Facts.thy ===== *)
theory Sd_Init_Facts
  imports Sd_Facts
begin

text \<open>
  Application commands and the switch function as the controller sees them, and how long the
  identification of an SD card takes.
\<close>

section \<open>Application commands\<close>

abbreviation app_cmd :: "mmc_world \<Rightarrow> bool \<Rightarrow> mmc_command" where
  "app_cmd w with_card \<equiv> cmd0\<lparr>cmd_opcode := MMC_APP_CMD,
     cmd_arg := (if with_card then rca_arg w else 0),
     cmd_flags := {MMC_RSP_SPI_R1, MMC_RSP_R1, if with_card then MMC_CMD_AC else MMC_CMD_BCR}\<rparr>"

lemma not_sanitize: "\<not> cmd_sanitize_busy (cmd0\<lparr>cmd_opcode := oc, cmd_arg := a, cmd_flags := f\<rparr>)"
  by (simp add: cmd0_def)

lemma app_cmd_served:
  assumes run: "run_state (mmc_app_cmd b) w = (0, v)" and u: "evolves v u"
  shows "\<exists>t. length (w_trace w) \<le> length t \<and> length t < length (w_trace v) \<and>
    served (w_ops w) (w_trace u) (app_cmd w b) t"
proof -
  obtain d where d: "run_state (mmc_wait_for_cmd hooks (app_cmd w b) 0) w = (d, v)"
    and "cmd_error d = 0"
    using run by (auto simp: mmc_app_cmd_def split: prod.splits if_splits)
  from cmd_served [OF d not_sanitize this(2) u] show ?thesis .
qed

lemma app_cmd_settled [io_settled]: "state_io_rel settled (mmc_app_cmd b)"
  unfolding mmc_app_cmd_def by (intro io_settled st.rel_intros)

lemma app_cmd_loop_settled [io_settled]: "state_io_rel settled (app_cmd_loop b n err c)"
  by (induction n arbitrary: err c) (auto intro!: io_settled st.rel_intros simp: Let_def)

lemma wait_for_app_cmd_settled [io_settled]: "state_io_rel settled (mmc_wait_for_app_cmd b c r)"
  unfolding mmc_wait_for_app_cmd_def Let_def by (intro io_settled)

lemma settled_app_cmd: "settled w v \<Longrightarrow> app_cmd v b = app_cmd w b"
  by (simp add: rca_arg_def settled_fields)

text \<open>An application command that succeeds is the last request, and the prefix came before it.\<close>

definition app_served :: "mmc_world \<Rightarrow> trace \<Rightarrow> bool \<Rightarrow> mmc_command \<Rightarrow> mmc_command \<Rightarrow> bool" where
  "app_served w tr b c d \<longleftrightarrow> same_cmd d c \<and>
    (\<exists>s t q. tr = t @ [EvRequest q] \<and> length (w_trace w) \<le> length s \<and> length s < length t \<and>
      served (w_ops w) t (app_cmd w b) s \<and>
      same_cmd (mrq_cmd q) c \<and> cpl_cmd_error (op_request (w_ops w) t q) = 0 \<and>
      cmd_resp d = resp4 (cpl_cmd_resp (op_request (w_ops w) t q)))"

lemma app_served_later:
  assumes st: "settled w v" and ev: "evolves w v" and "app_served v tr b c' d" and c: "same_cmd c' c"
  shows "app_served w tr b c d"
proof -
  have ops: "w_ops v = w_ops w" using ev by (rule evolves_ops)
  have d: "same_cmd d c" using c by (rule same_cmd_trans [rotated]) (use assms(3) in \<open>simp add: app_served_def\<close>)
  obtain s t q where "tr = t @ [EvRequest q]" "length (w_trace v) \<le> length s" "length s < length t"
      "served (w_ops w) t (app_cmd w b) s" "same_cmd (mrq_cmd q) c'"
      "cpl_cmd_error (op_request (w_ops w) t q) = 0"
      "cmd_resp d = resp4 (cpl_cmd_resp (op_request (w_ops w) t q))"
    using assms(3) unfolding app_served_def ops settled_app_cmd [OF st, of b] by blast
  moreover have "same_cmd (mrq_cmd q) c" using c by (rule same_cmd_trans [rotated]) fact
  ultimately show ?thesis
    using evolves_length [OF ev] d unfolding app_served_def
    by (intro conjI exI [of _ s] exI [of _ t] exI [of _ q]) simp_all
qed

lemma app_cmd_loop_served:
  assumes "run_state (app_cmd_loop b n err c) w = ((0, d), v)" and "err \<noteq> 0"
    and "\<not> cmd_sanitize_busy c"
  shows "app_served w (w_trace v) b c d"
  using assms
proof (induction n arbitrary: err c w)
  case 0
  then show ?case by simp
next
  case (Suc n)
  obtain e a where a: "run_state (mmc_app_cmd b) w = (e, a)" by fastforce
  have wa: "evolves w a" "settled w a"
    using ev.rel_run [OF app_cmd_rel(1) a] st.rel_run [OF app_cmd_settled a] by auto
  let ?q = "mrq_of (c\<lparr>cmd_resp := [0, 0, 0, 0], cmd_retries := 0\<rparr>) None"
  show ?case
  proof (cases "e = 0")
    case False
    then have "run_state (app_cmd_loop b n e c) a = ((0, d), v)"
      using Suc.prems(1) a by (auto split: if_splits)
    from Suc.IH [OF this False Suc.prems(3)] show ?thesis
      by (rule app_served_later [OF wa(2,1)]) (simp add: same_cmd_def)
  next
    case True
    obtain m u where m: "run_state (mmc_wait_for_req hooks ?q) a = (m, u)" by fastforce
    have san: "\<not> cmd_sanitize_busy (mrq_cmd ?q)" using Suc.prems(3) by (simp add: mrq_of_def)
    have au: "evolves a u" "settled a u"
      using ev.rel_run [OF io.wait_for_req_evolves m] st.rel_run [OF io.wait_settled(1) m] by auto
    have wu: "evolves w u" "settled w u"
      using ev.trn [OF wa(1) au(1)] st.trn [OF wa(2) au(2)] by auto
    have ans: "same_cmd (mrq_cmd m) (mrq_cmd ?q) \<and>
        (cmd_error (mrq_cmd m) = 0 \<longrightarrow> answered (length (w_trace a)) u m)"
      using io.wait_for_req_answered [OF m san] .
    have mc: "same_cmd (mrq_cmd m) c" using ans by (simp add: same_cmd_def mrq_of_def)
    show ?thesis
    proof (cases "cmd_error (mrq_cmd m) = 0")
      case ok: True
      then obtain t q where t: "w_trace u = t @ [EvRequest q]" "length (w_trace a) \<le> length t"
          "cpl_cmd_error (op_request (w_ops w) t q) = 0"
          "m = complete_mrq (op_request (w_ops w) t q) q"
        using ans evolves_ops [OF wu(1)] by (auto simp: answered_def)
      obtain x where x: "w_trace u = w_trace a @ x" using au(1) by (auto simp: evolves_def)
      have "prefix (w_trace a) t" using x t(1,2) by (metis prefixI prefix_length_prefix)
      then obtain y where y: "t = w_trace a @ y" by (auto simp: prefix_def)
      have vd: "v = u" "d = mrq_cmd m" using Suc.prems(1) a True m ok by (auto split: if_splits)
      obtain s where s: "length (w_trace w) \<le> length s" "length s < length (w_trace a)"
          "served (w_ops w) (w_trace (a\<lparr>w_trace := t, w_now := w_now a + length y\<rparr>)) (app_cmd w b) s"
        using app_cmd_served [of b w a "a\<lparr>w_trace := t, w_now := w_now a + length y\<rparr>"] a True y
        by (auto simp: evolves_def same_board_def)
      have "same_cmd (mrq_cmd q) c" "cmd_resp d = resp4 (cpl_cmd_resp (op_request (w_ops w) t q))"
        using mc unfolding vd t(4) by (simp_all add: complete_mrq_def same_cmd_def)
      with s t(1-3) vd mc show ?thesis
        unfolding app_served_def by (intro conjI exI [of _ s] exI [of _ t] exI [of _ q]) simp_all
    next
      case False
      have "\<not> cmd_sanitize_busy (mrq_cmd m)" using mc Suc.prems(3) by (simp add: same_cmd_def)
      moreover have "run_state (app_cmd_loop b n (cmd_error (mrq_cmd m)) (mrq_cmd m)) u = ((0, d), v)"
        using Suc.prems(1) a True m False by (auto simp: Let_def split: if_splits)
      ultimately have "app_served u (w_trace v) b (mrq_cmd m) d"
        by (intro Suc.IH [OF _ False])
      then show ?thesis by (rule app_served_later [OF wu(2,1) _ mc])
    qed
  qed
qed

section \<open>The switch function\<close>

lemma req_served:
  assumes run: "run_state (mmc_wait_for_req hooks q) w = (m, v)"
    and san: "\<not> cmd_sanitize_busy (mrq_cmd q)" and ok: "cmd_error (mrq_cmd m) = 0"
  shows "\<exists>t. length (w_trace w) \<le> length t \<and> length t < length (w_trace v) \<and>
    served (w_ops w) (w_trace v) (mrq_cmd q) t"
proof -
  have ops: "w_ops v = w_ops w" using ev.rel_run [OF io.wait_for_req_evolves run] by (rule evolves_ops)
  from io.wait_for_req_answered [OF run san] ok obtain t n where
    t: "w_trace v = t @ [EvRequest n]" "length (w_trace w) \<le> length t"
      "cpl_cmd_error (op_request (w_ops w) t n) = 0" "m = complete_mrq (op_request (w_ops w) t n) n"
    and m: "same_cmd (mrq_cmd m) (mrq_cmd q)"
    by (auto simp: answered_def ops)
  have "same_cmd (mrq_cmd n) (mrq_cmd q)"
    using m unfolding t(4) by (simp add: complete_mrq_def same_cmd_def)
  with t(1-3) show ?thesis by (intro exI [of _ t]) (auto simp: served_def intro: exI [of _ n])
qed

lemma sd_read_block_served:
  assumes "run_state (sd_read_block c buf) w = ((0, r), v)" and "\<not> cmd_sanitize_busy c"
  shows "\<exists>t. length (w_trace w) \<le> length t \<and> length t < length (w_trace v) \<and>
    served (w_ops w) (w_trace v) c t"
proof -
  let ?d = "mmc_set_data_timeout (w_host w) (w_card w) (dat0\<lparr>dat_blksz := of_nat (length buf),
    dat_blocks := 1, dat_flags := {MMC_DATA_READ}, dat_sg := [of_nat (length buf)], dat_buf := buf\<rparr>)"
  obtain m where "run_state (mmc_wait_for_req hooks (mrq_of c (Some ?d))) w = (m, v)"
      "cmd_error (mrq_cmd m) = 0"
    using assms(1) by (auto simp: sd_read_block_def Let_def split: prod.splits option.splits if_splits)
  from req_served [OF this(1) _ this(2)] assms(2) show ?thesis by (simp add: mrq_of_def)
qed

text \<open>The argument of the switch function: the mode in bit 31, and six groups of four bits.\<close>

lemma switch_arg_bits:
  fixes val :: u8 and mode :: bool and g :: nat
  defines "a \<equiv> (push_bit 31 (if mode then 1 else 0) OR 0x00FFFFFF) AND NOT (push_bit (g * 4) 0xF)
    OR push_bit (g * 4) (ucast (val AND 0xF)) :: u32"
  assumes g: "g < 6"
  shows "bit a 31 = mode" "drop_bit 24 a AND 0x7F = 0"
    "k < 6 \<Longrightarrow> drop_bit (4 * k) a AND 0xF = (if k = g then ucast (val AND 0xF) else 0xF)"
proof -
  have m: "(0xF :: u32) = mask 4" "(0x00FFFFFF :: u32) = mask 24" "(0x7F :: u32) = mask 7" "(0xF :: u8) = mask 4"
    by (simp_all add: mask_eq_exp_minus_1)
  have b: "bit a n \<longleftrightarrow> n < 32 \<and> (if g * 4 \<le> n \<and> n - g * 4 < 4 then bit val (n - g * 4) else mode \<and> n = 31 \<or> n < 24)" for n
    using g unfolding a_def m by (auto simp: bit_simps)
  show "bit a 31 = mode" using g by (auto simp: b)
  show "drop_bit 24 a AND 0x7F = 0"
    unfolding m using g by (intro bit_word_eqI) (auto simp: bit_simps b)
  show "drop_bit (4 * k) a AND 0xF = (if k = g then ucast (val AND 0xF) else 0xF)" if k: "k < 6"
  proof (rule bit_word_eqI)
    fix n assume "n < LENGTH(32)"
    have "bit (drop_bit (4 * k) a AND 0xF) n \<longleftrightarrow> n < 4 \<and> bit a (4 * k + n)"
      unfolding m by (auto simp: bit_simps)
    also have "\<dots> \<longleftrightarrow> n < 4 \<and> (k = g \<longrightarrow> bit val n)"
    proof (cases "n < 4")
      case True
      have "g * 4 \<le> 4 * k + n \<and> 4 * k + n - g * 4 < 4 \<longleftrightarrow> k = g" using True by presburger
      moreover have "4 * k + n < 24" using k True by simp
      ultimately show ?thesis using True by (auto simp: b)
    qed simp
    also have "\<dots> \<longleftrightarrow> bit (if k = g then ucast (val AND 0xF) else 0xF :: u32) n"
      unfolding m by (auto simp: bit_simps)
    finally show "bit (drop_bit (4 * k) a AND 0xF) n \<longleftrightarrow> bit (if k = g then ucast (val AND 0xF) else 0xF :: u32) n" .
  qed
qed

section \<open>Identification ends\<close>

lemma app_op_cond_loop_served:
  assumes "run_state (app_op_cond_loop ocr n err c) w = ((0, d), v)" and "n = 0 \<longrightarrow> err \<noteq> 0"
    and "\<not> cmd_sanitize_busy c"
  shows "\<exists>x. settled w x \<and> evolves w x \<and> app_served x (w_trace v) False c d"
  using assms
proof (induction n arbitrary: err c w)
  case 0
  then show ?case by simp
next
  case (Suc n)
  let ?m = "mmc_wait_for_app_cmd False c (int MMC_CMD_RETRIES)"
  obtain e k a where a: "run_state ?m w = ((e, k), a)" by (metis surj_pair)
  have loop: "run_state (app_cmd_loop False 4 (- EIO) c) w = ((e, k), a)"
    using a by (simp add: mmc_wait_for_app_cmd_def)
  show ?case
  proof (cases "e = 0")
    case False
    then show ?thesis using Suc.prems(1) a by (simp add: Let_def)
  next
    case True
    have served: "app_served w (w_trace a) False c k"
      by (rule app_cmd_loop_served [OF loop [unfolded True] _ Suc.prems(3)]) simp
    consider (stop) "v = a" "d = k"
      | (again) "run_state (do { mmc_delay 10; app_op_cond_loop ocr n (- ETIMEDOUT) k }) a = ((0, d), v)"
      using Suc.prems(1) a True by (auto simp: Let_def split: if_splits)
    then show ?thesis
    proof cases
      case stop
      then show ?thesis using served st.rfl ev.rfl by auto
    next
      case again
      have wa: "settled w a" "evolves w a"
        using st.rel_run [OF _ a] ev.rel_run [OF _ a] wait_for_app_cmd_rel(1) wait_for_app_cmd_settled
        by blast+
      obtain u where u: "run_state (mmc_delay 10) a = ((), u)" by (rule unit_run)
      have au: "settled a u" "evolves a u"
        using st.rel_run [OF simple_settled(1) u] ev.rel_run [OF delay_evolves u] by blast+
      have k: "same_cmd k c" using served by (simp add: app_served_def)
      then have "\<not> cmd_sanitize_busy k" using Suc.prems(3) by (simp add: same_cmd_def)
      with again u obtain x where x: "settled u x" "evolves u x" "app_served x (w_trace v) False k d"
        using Suc.IH [of "- ETIMEDOUT" k u] by auto
      have wx: "settled w x" "evolves w x"
        using st.trn [OF st.trn [OF wa(1) au(1)] x(1)] ev.trn [OF ev.trn [OF wa(2) au(2)] x(2)] by auto
      show ?thesis using wx app_served_later [OF st.rfl ev.rfl x(3) k] by blast
    qed
  qed
qed

text \<open>
  A card that agrees to the switch to 1.8 V (S18A, bit 24 of its answer) only if the host asked
  for it (S18R, the same bit of the argument), as the SD specification has it.
\<close>

definition s18_on_request :: "host_ops \<Rightarrow> bool" where
  "s18_on_request ops \<longleftrightarrow> (\<forall>t q. cmd_opcode (mrq_cmd q) = SD_APP_OP_COND \<longrightarrow>
    \<not> bit (cmd_arg (mrq_cmd q)) 24 \<longrightarrow> \<not> bit (resp4 (cpl_cmd_resp (op_request ops t q)) ! 0) 24)"

lemma send_app_op_cond_answer:
  assumes run: "run_state (mmc_send_app_op_cond ocr) w = ((0, Some x), v)"
    and ops: "s18_on_request (w_ops w)" and ocr: "\<not> bit ocr 24"
  shows "\<not> bit x 24"
proof -
  let ?c = "cmd0\<lparr>cmd_opcode := SD_APP_OP_COND,
    cmd_arg := (if mmc_host_is_spi w then ocr AND push_bit 30 1 else ocr),
    cmd_flags := {MMC_RSP_SPI_R1, MMC_RSP_R3, MMC_CMD_BCR}\<rparr>"
  obtain d where d: "run_state (app_op_cond_loop ocr 100 0 ?c) w = ((0, d), v)" "x = cmd_resp d ! 0"
    using run by (auto simp: mmc_send_app_op_cond_def split: prod.splits if_splits)
  obtain u t q where "evolves w u" "same_cmd (mrq_cmd q) ?c"
      "cmd_resp d = resp4 (cpl_cmd_resp (op_request (w_ops u) t q))"
    using app_op_cond_loop_served [OF d(1) _ not_sanitize] unfolding app_served_def by auto
  moreover have "\<not> bit (cmd_arg ?c) 24" using ocr by (simp add: bit_simps)
  ultimately have "cmd_opcode (mrq_cmd q) = SD_APP_OP_COND" "\<not> bit (cmd_arg (mrq_cmd q)) 24"
    "x = resp4 (cpl_cmd_resp (op_request (w_ops w) t q)) ! 0"
    using d(2) evolves_ops [of w u] by (auto simp: same_cmd_def)
  then show ?thesis using ops unfolding s18_on_request_def by blast
qed

lemma s18_bits: "x AND 0x41000000 = (0x41000000 :: u32) \<Longrightarrow> bit x 24"
  by (drule arg_cong [where f = "\<lambda>y. bit y 24"]) (simp add: bit_simps)

lemma sd_cid_round_rel [io_rel, io_hold, io_calm]:
  "state_io_rel evolves (sd_cid_conditions ocr k)" "state_io_rel holds_balanced (sd_cid_conditions ocr k)"
  "state_io_rel calm (sd_cid_conditions ocr k)"
  "state_io_rel evolves (sd_cid_round p b ocr k)" "state_io_rel holds_balanced (sd_cid_round p b ocr k)"
  "state_io_rel calm (sd_cid_round p b ocr k)"
  unfolding sd_cid_round_def sd_cid_conditions_def Let_def
  by (intro io_rel ev.rel_intros io_hold hb.rel_intros io_calm cm.rel_intros)+

text \<open>The last round does not ask for the switch, and the others count down.\<close>

lemma sd_cid_conditions_last:
  assumes run: "run_state (sd_cid_conditions ocr 0) w = ((o', 0, Some x), v)"
    and ops: "s18_on_request (w_ops w)"
  shows "\<not> bit x 24"
proof -
  let ?o = "ocr AND - 16777217 :: u32"
  obtain i a where a: "run_state (mmc_go_idle hooks) w = (i, a)" by fastforce
  obtain e b where b: "run_state (mmc_send_if_cond ?o) a = (e, b)" by fastforce
  have "evolves w b"
    using ev.trn [OF ev.rel_run [OF io.go_idle_rel(1) a] ev.rel_run [OF sd_identify_rel(7) b]] .
  then have "s18_on_request (w_ops b)" using ops by (simp add: evolves_ops)
  moreover have "\<not> bit (- 16777217 :: u32) 24" by (simp add: bit_iff_odd_drop_bit)
  moreover have "\<exists>o2. run_state (mmc_send_app_op_cond o2) b = ((0, Some x), v) \<and>
      (bit o2 24 \<longrightarrow> bit ?o 24)"
    using run by (auto simp: sd_cid_conditions_def Let_def a b bit_simps split: prod.splits if_splits)
  ultimately show ?thesis using send_app_op_cond_answer by (auto simp: bit_simps)
qed

lemma sd_cid_round_last:
  assumes "run_state (sd_cid_round pocr wr ocr 0) w = (r, v)" and "s18_on_request (w_ops w)"
  shows "\<exists>x. r = Inl x"
proof -
  obtain o' f y c where c: "run_state (sd_cid_conditions ocr 0) w = ((o', f, y), c)" by (metis surj_pair)
  have "x AND 0x41000000 \<noteq> 0x41000000" if "f = 0" "y = Some x" for x
    using sd_cid_conditions_last c assms(2) that s18_bits by metis
  with assms(1) c show ?thesis
    by (auto simp: sd_cid_round_def Let_def split: prod.splits if_splits option.splits)
qed

lemma sd_cid_round_next:
  assumes "run_state (sd_cid_round pocr wr ocr k) w = (Inr (ocr', k'), v)"
  shows "k' = k - 1 \<or> k' = 0"
  using assms by (auto simp: sd_cid_round_def Let_def split: prod.splits if_splits)

lemma sd_cid_rounds_end:
  assumes "s18_on_request (w_ops w)" and "0 \<le> k" and "nat k < n"
  shows "fst (run_state (sd_cid_rounds n pocr wr ocr k) w) \<noteq> None"
  using assms
proof (induction n arbitrary: ocr k w)
  case 0
  then show ?case by simp
next
  case (Suc n)
  obtain r v where r: "run_state (sd_cid_round pocr wr ocr k) w = (r, v)" by fastforce
  show ?case
  proof (cases r)
    case (Inl x)
    then show ?thesis using r by simp
  next
    case (Inr x)
    then obtain ocr' k' where x: "r = Inr (ocr', k')" by (cases x) simp
    have "k \<noteq> 0" using sd_cid_round_last r x Suc.prems(1) by blast
    then have "0 \<le> k'" "nat k' < n" using sd_cid_round_next [OF r [unfolded x]] Suc.prems(2,3) by auto
    moreover have "s18_on_request (w_ops v)"
      using evolves_ops [OF ev.rel_run [OF sd_cid_round_rel(4) r]] Suc.prems(1) by simp
    ultimately show ?thesis using Suc.IH [of v k' ocr'] r x by simp
  qed
qed

section \<open>Initialisation\<close>

lemma sd_cid_rounds_rel [io_rel, io_hold, io_calm]:
  "state_io_rel evolves (sd_cid_rounds n p b ocr k)" "state_io_rel holds_balanced (sd_cid_rounds n p b ocr k)"
  "state_io_rel calm (sd_cid_rounds n p b ocr k)"
proof -
  show "state_io_rel evolves (sd_cid_rounds n p b ocr k)"
    by (induction n arbitrary: ocr k)
      (auto intro!: ev.rel_ret ev.rel_bind sd_cid_round_rel split: sum.split)
  show "state_io_rel holds_balanced (sd_cid_rounds n p b ocr k)"
    by (induction n arbitrary: ocr k)
      (auto intro!: hb.rel_ret hb.rel_bind sd_cid_round_rel split: sum.split)
  show "state_io_rel calm (sd_cid_rounds n p b ocr k)"
    by (induction n arbitrary: ocr k)
      (auto intro!: cm.rel_ret cm.rel_bind sd_cid_round_rel split: sum.split)
qed

lemma remove_card_rel [io_rel, io_hold]:
  "state_io_rel evolves mmc_remove_card" "state_io_rel holds_balanced mmc_remove_card"
  "state_io_rel evolves mmc_alloc_card" "state_io_rel holds_balanced mmc_alloc_card"
  unfolding mmc_remove_card_def mmc_alloc_card_def
  by (intro io_rel ev.rel_intros ev.rel_modify io_hold hb.rel_intros hb.rel_modify;
      simp add: silent_defs hold_defs)+

lemma host_card_rel [io_rel, io_hold]:
  "state_io_rel evolves (modify (upd_host (\<lambda>h. h\<lparr>h_card := b\<rparr>)))"
  "state_io_rel holds_balanced (modify (upd_host (\<lambda>h. h\<lparr>h_card := b\<rparr>)))"
  by (intro ev.rel_modify hb.rel_modify; simp add: silent_defs hold_defs)+

lemma sd_setup_rel [io_rel, io_hold, io_calm]:
  "state_io_rel evolves mmc_sd_get_csd" "state_io_rel holds_balanced mmc_sd_get_csd"
  "state_io_rel calm mmc_sd_get_csd"
  "state_io_rel evolves mmc_sd_get_ro" "state_io_rel holds_balanced mmc_sd_get_ro"
  "state_io_rel calm mmc_sd_get_ro"
  "state_io_rel evolves (mmc_sd_setup_card b)" "state_io_rel holds_balanced (mmc_sd_setup_card b)"
  "state_io_rel calm (mmc_sd_setup_card b)"
  unfolding mmc_sd_setup_card_def mmc_sd_get_csd_def mmc_sd_get_ro_def Let_def
  by (intro io_rel ev.rel_intros quiet_evolves io_hold hb.rel_intros quiet_hold io_calm
      cm.rel_intros)+

lemma sd_init_parts_rel [io_rel, io_hold, io_calm]:
  "state_io_rel evolves (sd_select_mode r)" "state_io_rel holds_balanced (sd_select_mode r)"
  "state_io_rel calm (sd_select_mode r)"
  "state_io_rel evolves (sd_select_setup b)" "state_io_rel holds_balanced (sd_select_setup b)"
  "state_io_rel calm (sd_select_setup b)"
  "state_io_rel evolves (sd_v18_fixup ocr b f)" "state_io_rel holds_balanced (sd_v18_fixup ocr b f)"
  "state_io_rel calm (sd_v18_fixup ocr b f)"
  unfolding sd_select_mode_def sd_select_setup_def sd_v18_fixup_def
  by (intro io_rel ev.rel_intros quiet_evolves io_hold hb.rel_intros quiet_hold io_calm
      cm.rel_intros)+

lemma rel_sum:
  "(\<And>a. x = Inl a \<Longrightarrow> state_io_rel R (f a)) \<Longrightarrow> (\<And>b. x = Inr b \<Longrightarrow> state_io_rel R (g b)) \<Longrightarrow>
    state_io_rel R (case x of Inl a \<Rightarrow> f a | Inr b \<Rightarrow> g b)"
  by (cases x) simp_all

lemma sd_init_pass_rel:
  "state_io_rel evolves again \<Longrightarrow> state_io_rel evolves (sd_init_pass n again ocr b f)"
  "state_io_rel holds_balanced again \<Longrightarrow> state_io_rel holds_balanced (sd_init_pass n again ocr b f)"
  unfolding sd_init_pass_def mmc_sd_get_cid_def Let_def
  by ((intro io_rel ev.rel_intros quiet_evolves rel_sum | assumption)+,
    (intro io_hold hb.rel_intros quiet_hold rel_sum | assumption)+)

lemma sd_init_card_rel [io_rel, io_hold]:
  "state_io_rel evolves (mmc_sd_init_card n ocr b)" "state_io_rel holds_balanced (mmc_sd_init_card n ocr b)"
  unfolding mmc_sd_init_card_def
  by (intro sd_init_pass_rel ev.rel_ret hb.rel_ret)+

lemma sd_init_pass_initialises:
  "initialises again \<Longrightarrow> initialises (sd_init_pass n again ocr b f)"
  unfolding sd_init_pass_def mmc_sd_get_cid_def Let_def
  by (intro initialises_intros io_calm cm.rel_intros | simp | assumption)+

lemma sd_init_card_initialises: "initialises (mmc_sd_init_card n ocr b)"
  unfolding mmc_sd_init_card_def
  by (intro sd_init_pass_initialises initialises_ret) simp

text \<open>With such a card the rounds suffice.\<close>

definition ends :: "'a option io \<Rightarrow> bool" where
  "ends m \<longleftrightarrow> (\<forall>w. s18_on_request (w_ops w) \<longrightarrow> fst (run_state m w) \<noteq> None)"

lemma ends_ret: "ends (ret (Some x))"
  by (simp add: ends_def)

lemma ends_bind:
  assumes "state_io_rel evolves m" and "\<And>x. ends (f x)"
  shows "ends (m \<bind> f)"
  unfolding ends_def
proof (intro allI impI)
  fix w assume ops: "s18_on_request (w_ops w)"
  obtain x v where run: "run_state m w = (x, v)" by fastforce
  have "w_ops v = w_ops w" using assms(1) run by (intro evolves_ops ev.rel_run)
  then show "fst (run_state (m \<bind> f) w) \<noteq> None" using assms(2) [of x] ops run by (simp add: ends_def)
qed

lemma ends_bind_option:
  assumes "ends m" and "state_io_rel evolves m" and "\<And>x. ends (f x)"
  shows "ends (m \<bind> (\<lambda>r. case r of None \<Rightarrow> ret None | Some x \<Rightarrow> f x))"
  unfolding ends_def
proof (intro allI impI)
  fix w assume ops: "s18_on_request (w_ops w)"
  obtain r v where run: "run_state m w = (r, v)" by fastforce
  have "w_ops v = w_ops w" using assms(2) run by (intro evolves_ops ev.rel_run)
  moreover obtain x where "r = Some x" using assms(1) ops run unfolding ends_def by fastforce
  ultimately show "fst (run_state (m \<bind> (\<lambda>r. case r of None \<Rightarrow> ret None | Some x \<Rightarrow> f x)) w) \<noteq> None"
    using assms(3) [of x] ops run by (simp add: ends_def)
qed

lemma ends_cases:
  "(b \<Longrightarrow> ends m) \<Longrightarrow> (\<not> b \<Longrightarrow> ends n) \<Longrightarrow> ends (if b then m else n)"
  "(\<And>a c. p = (a, c) \<Longrightarrow> ends (g a c)) \<Longrightarrow> ends (case p of (a, c) \<Rightarrow> g a c)"
  "(\<And>a. s = Inl a \<Longrightarrow> ends (h a)) \<Longrightarrow> (\<And>c. s = Inr c \<Longrightarrow> ends (k c)) \<Longrightarrow>
    ends (case s of Inl a \<Rightarrow> h a | Inr c \<Rightarrow> k c)"
  by (simp_all split: prod.split sum.split)

lemmas ends_intros = ends_cases ends_ret ends_bind

lemma sd_get_cid_ends: "11 \<le> n \<Longrightarrow> ends (mmc_sd_get_cid n ocr b)"
  unfolding ends_def mmc_sd_get_cid_def by (intro allI impI sd_cid_rounds_end) simp_all

lemma fixup_not_again: "sd_v18_fixup ocr b True = ret (Inl (0, False))"
  by (rule state.expand) (simp add: fun_eq_iff sd_v18_fixup_def)

lemma sd_init_pass_ends:
  assumes "11 \<le> n" and "f \<or> ends again"
  shows "ends (sd_init_pass n again ocr b f)"
proof -
  have parts: "ends (do { r \<leftarrow> sd_v18_fixup ocr b f;
      (case r of Inr _ \<Rightarrow> again | Inl (err, uhs) \<Rightarrow> g err uhs) })"
    if "\<And>err uhs. ends (g err uhs)" for g
  proof (cases f)
    case True
    then show ?thesis by (simp add: fixup_not_again that)
  next
    case False
    with assms(2) show ?thesis
      by (intro ends_bind sd_init_parts_rel(7)) (auto simp: that split: sum.split)
  qed
  show ?thesis
    unfolding sd_init_pass_def Let_def
    by (intro ends_bind_option [OF sd_get_cid_ends] sd_cid_rounds_rel(1) [folded mmc_sd_get_cid_def]
        parts ends_intros assms(1) io_rel ev.rel_intros quiet_evolves
        | simp only: mmc_sd_get_cid_def)+
qed

lemma sd_init_card_ends: "11 \<le> n \<Longrightarrow> ends (mmc_sd_init_card n ocr b)"
  by (simp add: mmc_sd_init_card_def sd_init_pass_ends)

end
