(* ===== verification/Sd_Life_Facts.thy ===== *)
theory Sd_Life_Facts
  imports Sd_Init_Facts
begin

text \<open>
  Suspend and attachment of SD cards: what happens between the claim and the release of the
  host.
\<close>

lemma power_off_mode:
  assumes "run_state mmc_power_off w = (x, v)"
  shows "ios_power_mode (w_ios v) = MMC_POWER_OFF"
  using power_off_result [OF assms] assms
  by (cases "ios_power_mode (w_ios w) = MMC_POWER_OFF") (auto simp: mmc_power_off_def)

abbreviation (input) claims :: "mmc_world \<Rightarrow> mmc_event list" where
  "claims w \<equiv> filter claim_event (w_trace w)"

lemma card_state_set: "b \<noteq> 0 \<Longrightarrow> card_state b (card_set_state b c)"
proof -
  have "(cd_state c OR b) AND b = b" by (rule bit_word_eqI) (auto simp: bit_simps)
  then show "b \<noteq> 0 \<Longrightarrow> ?thesis" by (simp add: card_state_def card_set_state_def)
qed

lemma claim_steps [simp]:
  "run_state claim_host w = ((), log_event EvClaim 0 w)"
  "run_state release_host w = ((), log_event EvRelease 0 w)"
  "run_state (pm p) w = ((), log_event (EvPm p) 0 w)"
  by (simp_all add: claim_host_def release_host_def pm_def emit_def)

lemma log_fields [simp]:
  "w_trace (log_event e n w) = w_trace w @ [e]" "w_card (log_event e n w) = w_card w"
  "w_host (log_event e n w) = w_host w"
  by (simp_all add: log_event_def)

lemma card_fields [simp]:
  "w_trace (upd_card f w) = w_trace w" "w_host (upd_card f w) = w_host w"
  "w_card (upd_card f w) = f (w_card w)"
  by (simp_all add: upd_card_def)

lemma bus_only_fields:
  assumes "bus_only w v"
  shows "claims v = claims w" "w_card v = w_card w" "handler (w_host v) = handler (w_host w)"
    "h_card (w_host v) = h_card (w_host w)"
  using assms by (auto simp: bus_only_def calm_def)

text \<open>Between claim and release, \<open>_mmc_sd_suspend\<close> deselects the card and switches off.\<close>

lemma deselect_bus: "state_io_rel bus_only (mmc_deselect_cards hooks)"
  unfolding mmc_deselect_cards_def select_card_def
  by (intro settled_bus_only io_settled st.rel_intros)

lemma deselect_mode:
  assumes "run_state (mmc_deselect_cards hooks) w = (e, v)"
  shows "ios_power_mode (w_ios v) = ios_power_mode (w_ios w)"
proof -
  have "state_io_rel settled (mmc_deselect_cards hooks)"
    unfolding mmc_deselect_cards_def select_card_def by (intro io_settled st.rel_intros)
  from st.rel_run [OF this assms] show ?thesis by (simp add: settled_fields)
qed

lemma sd_suspend_result:
  assumes run: "run_state sd_suspend w = (r, v)"
  shows "claims v = claims w @ [EvClaim, EvRelease] \<and>
    w_card v = (if r = 0 \<and> \<not> mmc_card_suspended (w_card w)
      then card_set_state MMC_STATE_SUSPENDED (w_card w) else w_card w) \<and>
    (if mmc_card_suspended (w_card w) then r = 0 \<and> w_ios v = w_ios w
     else ios_power_mode (w_ios v) = (if r = 0 then MMC_POWER_OFF else ios_power_mode (w_ios w)))"
proof -
  let ?w = "log_event EvClaim 0 w"
  define m where "m = (if mmc_host_is_spi ?w then ret 0 else mmc_deselect_cards hooks)"
  obtain e a where a: "run_state m ?w = (e, a)" by fastforce
  obtain b where b: "run_state mmc_power_off a = ((), b)" by (rule unit_run)
  have "state_io_rel bus_only m" unfolding m_def by (intro bo.rel_intros deselect_bus)
  then have wa: "bus_only ?w a" using a by (rule bo.rel_run)
  have ab: "bus_only a b" by (rule bo.rel_run [OF power_bus(2) b])
  have mode: "ios_power_mode (w_ios a) = ios_power_mode (w_ios w)"
    using a deselect_mode by (auto simp: m_def split: if_splits)
  show ?thesis
  proof (cases "mmc_card_suspended (w_card w)")
    case True
    with run show ?thesis by (auto simp: sd_suspend_def)
  next
    case False
    note fs = bus_only_fields [OF wa] bus_only_fields [OF ab] power_off_mode [OF b]
    have "r = e \<and> v = log_event EvRelease 0
        (if e = 0 then upd_card (card_set_state MMC_STATE_SUSPENDED) b else a)"
      using run False a b by (auto simp: sd_suspend_def m_def split: if_splits)
    with False fs mode show ?thesis by (cases "e = 0") simp_all
  qed
qed

text \<open>
  An attachment enters and leaves with the host claimed.  It ends without the handler that it
  installed, or with an initialised and registered card.
\<close>

definition attached :: "mmc_bus_ops \<Rightarrow> int option \<Rightarrow> mmc_world \<Rightarrow> mmc_world \<Rightarrow> bool" where
  "attached ops r w v \<longleftrightarrow> (r = Some 0 \<longrightarrow> h_card (w_host v) \<and>
      handler (w_host v) = (Some ops, 1, False) \<and> card_state MMC_STATE_PRESENT (w_card v) \<and>
      claims v = claims w @ [EvRelease, EvClaim]) \<and>
    (\<forall>err. r = Some err \<longrightarrow> err \<noteq> 0 \<longrightarrow> \<not> h_card (w_host v) \<and>
      (handler (w_host v) = handler (w_host w) \<or> handler (w_host v) = (None, 0, True)) \<and>
      (claims v = claims w \<or> claims v = claims w @ [EvRelease, EvClaim]))"

lemma detach_result:
  assumes "handler (w_host w) = (Some ops, 1, False)"
  shows "\<exists>v. run_state mmc_detach_bus w = ((), v) \<and> claims v = claims w \<and>
    handler (w_host v) = (None, 0, True) \<and> h_card (w_host v) = h_card (w_host w)"
  using assms
  by (simp add: mmc_detach_bus_def mmc_bus_put_def mmc_release_bus_def handler_def upd_host_def)

lemma attach_voltage_result:
  assumes "run_state (attach_sd_voltage ocr) w = (r, v)"
  shows "claims v = claims w \<and> handler (w_host v) = (Some MMC_SD_OPS, 1, False) \<and>
    h_card (w_host v) = h_card (w_host w) \<and> (\<forall>err. r = Inl err \<longrightarrow> err \<noteq> 0)"
proof -
  define tail where "tail = (do {
     h \<leftarrow> gets w_host;
     io_when (h_ocr_avail_sd h \<noteq> 0) (modify (upd_host (\<lambda>h. h\<lparr>h_ocr_avail := h_ocr_avail_sd h\<rparr>)));
     w \<leftarrow> gets id;
     r \<leftarrow> (if mmc_host_is_spi w then do { mmc_go_idle hooks; mmc_spi_read_ocr hooks False }
       else ret (0, ocr));
     if fst r \<noteq> 0 then ret (Inl (fst r))
     else do {
       rocr \<leftarrow> mmc_select_voltage (snd r);
       ret (if rocr = 0 then Inl (- EINVAL) else Inr rocr)
     }
   } :: (int + u32) io)"
  let ?a = "upd_host (\<lambda>h. h\<lparr>h_bus_ops := Some MMC_SD_OPS, h_bus_refs := 1, h_bus_dead := False\<rparr>) w"
  have run: "run_state tail ?a = (r, v)"
    using assms by (simp add: attach_sd_voltage_def tail_def mmc_attach_bus_def)
  have "state_io_rel calm tail" unfolding tail_def by (intro io_calm cm.rel_intros)
  then have "calm ?a v" using run by (rule cm.rel_run)
  moreover have "\<forall>err. r = Inl err \<longrightarrow> err \<noteq> 0"
    using run by (auto simp: tail_def split: prod.splits if_splits)
  ultimately show ?thesis by (simp add: calm_def handler_def upd_host_def)
qed

text \<open>The registration of an initialised card.\<close>

lemma add_card_result:
  assumes "run_state mmc_add_card w = (r, v)"
  shows "claims v = claims w \<and> w_host v = w_host w \<and>
    (r = 0 \<longrightarrow> card_state MMC_STATE_PRESENT (w_card v))"
  using assms
  by (auto simp: mmc_add_card_def emit_def Let_def card_state_set split: if_splits)

lemma bus_remove_result:
  assumes "run_state bus_remove w = (x, v)"
  shows "claims v = claims w \<and> handler (w_host v) = handler (w_host w) \<and> \<not> h_card (w_host v)"
proof -
  obtain a where a: "run_state mmc_remove_card w = ((), a)" by (rule unit_run)
  have "calm w a" by (rule cm.rel_run [OF card_object_calm(2) a])
  with assms a show ?thesis by (auto simp: bus_remove_def calm_def handler_def upd_host_def)
qed

lemma register_result:
  assumes run: "run_state (do { release_host; err \<leftarrow> mmc_add_card;
      if err \<noteq> 0 then do { bus_remove; claim_host; mmc_detach_bus; ret (Some err) }
      else do { claim_host; ret (Some 0) } }) c = (r, v)"
    and c: "claims c = claims w" "handler (w_host c) = (Some MMC_SD_OPS, 1, False)" "h_card (w_host c)"
  shows "attached MMC_SD_OPS r w v"
proof -
  obtain e a where a: "run_state mmc_add_card (log_event EvRelease 0 c) = (e, a)" by fastforce
  note aa = add_card_result [OF a]
  show ?thesis
  proof (cases "e = 0")
    case True
    with run a aa c show ?thesis by (auto simp: attached_def)
  next
    case False
    obtain b where b: "run_state bus_remove a = ((), b)" by (rule unit_run)
    let ?b = "log_event EvClaim 0 b"
    have "handler (w_host ?b) = (Some MMC_SD_OPS, 1, False)"
      using bus_remove_result [OF b] aa c by simp
    from detach_result [OF this] obtain d where
      "run_state mmc_detach_bus ?b = ((), d)" "claims d = claims ?b"
      "handler (w_host d) = (None, 0, True)" "h_card (w_host d) = h_card (w_host ?b)" by blast
    then show ?thesis
      using run a b aa c False bus_remove_result [OF b] by (auto simp: attached_def)
  qed
qed

lemma attach_result:
  assumes run: "run_state (mmc_attach_sd n) w = (r, v)" and card: "\<not> h_card (w_host w)"
  shows "attached MMC_SD_OPS r w v"
proof -
  obtain e o1 a where a: "run_state (mmc_send_app_op_cond 0) w = ((e, o1), a)" by (metis surj_pair)
  have wa: "calm w a" by (rule cm.rel_run [OF sd_identify_rel(6) a])
  show ?thesis
  proof (cases "e = 0")
    case False
    with run a wa card show ?thesis by (auto simp: mmc_attach_sd_def attached_def calm_def)
  next
    case True
    obtain x b where b: "run_state (attach_sd_voltage (case o1 of None \<Rightarrow> 0 | Some ocr \<Rightarrow> ocr)) a = (x, b)"
      by fastforce
    have hb: "claims b = claims w" "handler (w_host b) = (Some MMC_SD_OPS, 1, False)"
      "\<not> h_card (w_host b)"
      using attach_voltage_result [OF b] wa card by (simp_all add: calm_def)
    show ?thesis
    proof (cases x)
      case (Inl err)
      then have "err \<noteq> 0" using attach_voltage_result [OF b] by simp
      then show ?thesis
        using run a b True Inl detach_result [OF hb(2)] hb
        by (auto simp: mmc_attach_sd_def attached_def)
    next
      case (Inr rocr)
      obtain y c where c: "run_state (mmc_sd_init_card n rocr False) b = (y, c)" by fastforce
      have hc: "claims c = claims w" "handler (w_host c) = (Some MMC_SD_OPS, 1, False)"
        "h_card (w_host c) \<longleftrightarrow> y = Some 0"
        using initialises_run [OF sd_init_card_initialises c] hb by (auto simp: initialised_def)
      consider (fuel) "y = None" | (failed) err where "y = Some err" "err \<noteq> 0" | (ok) "y = Some 0"
        by (cases y) auto
      then show ?thesis
      proof cases
        case fuel
        then show ?thesis using run a b True Inr c by (auto simp: mmc_attach_sd_def attached_def)
      next
        case failed
        then show ?thesis
          using run a b True Inr c hc detach_result [OF hc(2)]
          by (auto simp: mmc_attach_sd_def attached_def)
      next
        case ok
        have "(r, v) = run_state (do { release_host; err \<leftarrow> mmc_add_card;
            if err \<noteq> 0 then do { bus_remove; claim_host; mmc_detach_bus; ret (Some err) }
            else do { claim_host; ret (Some 0) } }) c"
          using run a b True Inr c ok by (simp add: mmc_attach_sd_def)
        with hc ok show ?thesis by (auto dest!: sym [of "(r, v)"] intro: register_result)
      qed
    qed
  qed
qed

end
