(* ===== verification/Sd_Properties.thy ===== *)
theory Sd_Properties
  imports Sd_Life_Facts Quiet_World
begin

text \<open>
  The properties of SD cards.
\<close>

section \<open>Identification\<close>

text \<open>
  A card that answers every command with S18A, the card capacity status, and the bits that say
  the answer is valid and the card ready.
\<close>

definition ops_stubborn :: host_ops where
  "ops_stubborn = ops_ok\<lparr>op_request := (\<lambda>_ _. completion_ok\<lparr>cpl_cmd_resp := [0xC1000020, 0, 0, 0]\<rparr>)\<rparr>"

definition stubborn :: "mmc_world \<Rightarrow> bool" where
  "stubborn w \<longleftrightarrow> quiet w \<and> w_ops w = ops_stubborn \<and> MMC_CAP_SPI \<notin> h_caps (w_host w)"

lemma stubborn_steps [simp]:
  "stubborn (log_event e n w) = stubborn w" "stubborn (tuned w) = stubborn w"
  "stubborn (upd_host (\<lambda>h. h\<lparr>h_use_spi_crc := b\<rparr>) w) = stubborn w"
  "stubborn (upd_ios f w) = stubborn w"
  by (simp_all add: stubborn_def quiet_def mmc_card_removed_def upd_ios_def upd_host_def)

lemma stubborn_cmd:
  assumes "stubborn w" and "cmd_opcode c \<noteq> SD_IO_RW_DIRECT" and "cmd_opcode c \<noteq> SD_IO_RW_EXTENDED"
  shows "\<exists>v. run_state (mmc_wait_for_cmd hooks c n) w =
    (c\<lparr>cmd_resp := [0xC1000020, 0, 0, 0], cmd_retries := n, cmd_error := 0\<rparr>, v) \<and> stubborn v"
proof -
  have "resp4 (cpl_cmd_resp (op_request (w_ops w) t q)) = [0xC1000020, 0, 0, 0]" for t q
    using assms(1) by (simp add: stubborn_def ops_stubborn_def completion_ok_def resp4_def upt_rec)
  with assms cmd_quiet [of w c n] show ?thesis by (simp add: stubborn_def)
qed

lemma stubborn_req:
  assumes "stubborn w" and "cmd_opcode c \<noteq> SD_IO_RW_DIRECT" and "cmd_opcode c \<noteq> SD_IO_RW_EXTENDED"
  shows "\<exists>m v. run_state (mmc_wait_for_req hooks
      (mrq_of (c\<lparr>cmd_resp := [0, 0, 0, 0], cmd_retries := n\<rparr>) None)) w = (m, v) \<and>
    mrq_cmd m = c\<lparr>cmd_resp := [0xC1000020, 0, 0, 0], cmd_retries := n, cmd_error := 0\<rparr> \<and> stubborn v"
  using stubborn_cmd [OF assms, of n] by (auto simp: mmc_wait_for_cmd_def split: prod.splits)

lemma stubborn_go_idle:
  assumes "stubborn w"
  shows "\<exists>r v. run_state (mmc_go_idle hooks) w = (r, v) \<and> stubborn v"
proof -
  let ?cs = "\<lambda>c. do { mmc_set_chip_select c; mmc_delay 1 }"
  have cs: "\<exists>v. run_state (?cs c) x = ((), v) \<and> stubborn v" if "stubborn x" for c x
    using that by (simp add: mmc_delay_def emit_def mmc_set_chip_select_def mmc_set_ios_def)
  let ?c = "cmd0\<lparr>cmd_opcode := MMC_GO_IDLE_STATE, cmd_arg := 0,
    cmd_flags := {MMC_RSP_SPI_R1, MMC_RSP_NONE, MMC_CMD_BC}\<rparr>"
  obtain a where a: "run_state (?cs MMC_CS_HIGH) w = ((), a)" "stubborn a" using cs [OF assms] by blast
  obtain d b where b: "run_state (mmc_wait_for_cmd hooks ?c 0) a = (d, b)" "stubborn b"
    using stubborn_cmd [OF a(2), of ?c 0] by (auto simp: cmd0_def)
  let ?b = "log_event (EvDelay 1) 1000000 b"
  obtain e where e: "run_state (?cs MMC_CS_DONTCARE) ?b = ((), e)" "stubborn e"
    using cs [of ?b] b(2) by auto
  have "\<not> mmc_host_is_spi w" using assms by (simp add: stubborn_def)
  then have "run_state (mmc_go_idle hooks) w =
      (cmd_error d, upd_host (\<lambda>h. h\<lparr>h_use_spi_crc := False\<rparr>) e)"
    using a(1) b(1) e(1) by (simp add: mmc_go_idle_def mmc_delay_def emit_def)
  with e(2) show ?thesis by simp
qed

lemma stubborn_app_cmd:
  assumes "stubborn w"
  shows "\<exists>v. run_state (mmc_app_cmd b) w = (0, v) \<and> stubborn v"
proof -
  obtain v where "run_state (mmc_wait_for_cmd hooks (app_cmd w b) 0) w =
      ((app_cmd w b)\<lparr>cmd_resp := [0xC1000020, 0, 0, 0], cmd_retries := 0, cmd_error := 0\<rparr>, v)" "stubborn v"
    using stubborn_cmd [OF assms, of "app_cmd w b" 0] by (auto simp: cmd0_def)
  then show ?thesis by (simp add: mmc_app_cmd_def)
qed

lemma stubborn_app_op:
  assumes "stubborn w"
  shows "\<exists>v. run_state (mmc_send_app_op_cond ocr) w = ((0, Some 0xC1000020), v) \<and> stubborn v"
proof -
  let ?c = "cmd0\<lparr>cmd_opcode := SD_APP_OP_COND, cmd_arg := ocr,
    cmd_flags := {MMC_RSP_SPI_R1, MMC_RSP_R3, MMC_CMD_BCR}\<rparr>"
  obtain a where a: "run_state (mmc_app_cmd False) w = (0, a)" "stubborn a"
    using stubborn_app_cmd [OF assms] by blast
  obtain m b where b: "run_state (mmc_wait_for_req hooks
        (mrq_of (?c\<lparr>cmd_resp := [0, 0, 0, 0], cmd_retries := 0\<rparr>) None)) a = (m, b)"
      "mrq_cmd m = ?c\<lparr>cmd_resp := [0xC1000020, 0, 0, 0], cmd_retries := 0, cmd_error := 0\<rparr>" "stubborn b"
    using stubborn_req [OF a(2), of ?c 0] by (auto simp: cmd0_def)
  have "run_state (mmc_wait_for_app_cmd False ?c (int MMC_CMD_RETRIES)) w = ((0, mrq_cmd m), b)"
    using a(1) b(1,2) by (simp add: mmc_wait_for_app_cmd_def Let_def eval_nat_numeral)
  moreover have "\<not> mmc_host_is_spi w" "\<not> mmc_host_is_spi b"
    using assms b(3) by (simp_all add: stubborn_def)
  moreover from calculation have "run_state (app_op_cond_loop ocr (Suc n) 0 ?c) w = ((0, mrq_cmd m), b)"
    for n using b(2) by (simp add: Let_def)
  from this [of 99] have "run_state (app_op_cond_loop ocr 100 0 ?c) w = ((0, mrq_cmd m), b)" by simp
  ultimately have "run_state (mmc_send_app_op_cond ocr) w = ((0, Some 0xC1000020), b)"
    using b(2) by (simp add: mmc_send_app_op_cond_def)
  with b(3) show ?thesis by blast
qed

text \<open>Without the operation that switches the voltage, each round starts over.\<close>

lemma stubborn_if_cond:
  assumes "stubborn w"
  shows "\<exists>r v. run_state (mmc_send_if_cond ocr) w = (r, v) \<and> stubborn v"
proof -
  let ?c = "cmd0\<lparr>cmd_opcode := SD_SEND_IF_COND,
       cmd_arg := push_bit 8 (if ocr AND 0xFF8000 \<noteq> 0 then 1 else 0) OR ucast (0xAA :: u8),
       cmd_flags := {MMC_RSP_SPI_R7, MMC_RSP_R7, MMC_CMD_BCR}\<rparr>"
  obtain d v where d: "run_state (mmc_wait_for_cmd hooks ?c 0) w = (d, v)" "stubborn v"
    using stubborn_cmd [OF assms, of ?c 0] by (auto simp: cmd0_def)
  have "\<exists>r. run_state (mmc_send_if_cond ocr) w = (r, v)"
    using d(1) by (simp add: mmc_send_if_cond_def Let_def split: if_splits)
  with d(2) show ?thesis by blast
qed

lemma stubborn_uhs: "stubborn w \<Longrightarrow> run_state (mmc_set_uhs_voltage ocr) w = (- EPERM, w)"
  by (simp add: mmc_set_uhs_voltage_def stubborn_def ops_stubborn_def ops_ok_def)

lemma stubborn_conditions:
  assumes "stubborn w"
  shows "\<exists>ocr' v. run_state (sd_cid_conditions ocr k) w = ((ocr', 0, Some 0xC1000020), v) \<and> stubborn v"
proof -
  define o0 where "o0 = (if k = 0 then ocr AND - 16777217 else ocr)"
  obtain r a where a: "run_state (mmc_go_idle hooks) w = (r, a)" "stubborn a"
    using stubborn_go_idle [OF assms] by blast
  obtain e b where b: "run_state (mmc_send_if_cond o0) a = (e, b)" "stubborn b"
    using stubborn_if_cond [OF a(2)] by blast
  define f where "f x = fst (run_state (mmc_send_app_op_cond x) b)" for x
  define g where "g x = snd (run_state (mmc_send_app_op_cond x) b)" for x
  have fg: "run_state (mmc_send_app_op_cond x) b = ((0, Some 0xC1000020), g x)" "stubborn (g x)" for x
    using stubborn_app_op [OF b(2), of x] by (auto simp: g_def)
  have "\<exists>x. run_state (sd_cid_conditions ocr k) w = ((x, 0, Some 0xC1000020), g x)"
    using b(1) by (cases "k = 0") (simp_all add: sd_cid_conditions_def Let_def a(1) o0_def fg(1))
  with fg(2) show ?thesis by blast
qed

lemma stubborn_round:
  assumes "stubborn w"
  shows "\<exists>ocr' v. run_state (sd_cid_round p True ocr k) w = (Inr (ocr', 0), v) \<and> stubborn v"
proof -
  obtain ocr' v where "run_state (sd_cid_conditions ocr k) w = ((ocr', 0, Some 0xC1000020), v)" "stubborn v"
    using stubborn_conditions [OF assms] by blast
  moreover from this have "\<not> mmc_host_is_spi v" by (simp add: stubborn_def)
  ultimately show ?thesis by (simp add: sd_cid_round_def Let_def stubborn_uhs)
qed

text \<open>
  C29: without the operation that switches the voltage, a card that always offers the switch keeps
  \<open>mmc_sd_get_cid\<close> in its loop: no number of rounds suffices.
\<close>

theorem sd_get_cid_endless:
  assumes "stubborn w"
  shows "fst (run_state (mmc_sd_get_cid n ocr True) w) = None"
proof -
  have "fst (run_state (sd_cid_rounds n ocr True o' k) w) = None" for o' k
    using assms
  proof (induction n arbitrary: o' k w)
    case 0
    show ?case by simp
  next
    case (Suc n)
    obtain o'' v where "run_state (sd_cid_round ocr True o' k) w = (Inr (o'', 0), v)" "stubborn v"
      using stubborn_round [OF Suc.prems] by blast
    with Suc.IH [of v o'' 0] show ?case by simp
  qed
  then show ?thesis by (simp add: mmc_sd_get_cid_def)
qed

lemma sd_get_cid_endless_witness:
  "\<forall>n. fst (run_state (mmc_sd_get_cid n 0x18000 True)
    (upd_host (\<lambda>h. h\<lparr>h_ops := ops_stubborn\<rparr>) world_ok)) = None"
  by (intro allI sd_get_cid_endless)
    (simp add: stubborn_def quiet_def mmc_card_removed_def card_state_def upd_host_def
      ops_stubborn_def world_defs)

section \<open>The switch function\<close>

text \<open>
  When \<open>mmc_sd_switch\<close> succeeds, the controller completed a command 6 whose argument has the
  mode in bit 31, zeros in the bits below, the value in the group's four bits and 0xF, no change,
  in those of the five other groups.
\<close>

lemma sd_switch_served:
  assumes "run_state (mmc_sd_switch mode grp val resp) w = ((0, r), v)" and "grp < 6"
  shows "\<exists>t arg. length (w_trace w) \<le> length t \<and> length t < length (w_trace v) \<and>
    served (w_ops w) (w_trace v) (cmd0\<lparr>cmd_opcode := SD_SWITCH, cmd_arg := arg,
      cmd_flags := {MMC_RSP_SPI_R1, MMC_RSP_R1, MMC_CMD_ADTC}\<rparr>) t \<and>
    bit arg 31 = mode \<and> drop_bit 24 arg AND 0x7F = 0 \<and>
    (\<forall>k < 6. drop_bit (4 * k) arg AND 0xF = (if k = grp then ucast (val AND 0xF) else 0xF))"
proof -
  let ?a = "(push_bit 31 (if mode then 1 else 0) OR 0x00FFFFFF) AND NOT (push_bit (grp * 4) 0xF)
    OR push_bit (grp * 4) (ucast (val AND 0xF)) :: u32"
  let ?c = "cmd0\<lparr>cmd_opcode := SD_SWITCH, cmd_arg := ?a,
      cmd_flags := {MMC_RSP_SPI_R1, MMC_RSP_R1, MMC_CMD_ADTC}\<rparr>"
  have "run_state (sd_read_block ?c resp) w = ((0, r), v)"
    using assms(1) by (simp only: mmc_sd_switch_def Let_def)
  from sd_read_block_served [OF this not_sanitize]
  show ?thesis using switch_arg_bits [OF assms(2)] by blast
qed

text \<open>In a quiet world a block that host and controller can take is read without error.\<close>

lemma read_block_quiet:
  assumes "quiet w" and "cmd_opcode c \<noteq> SD_IO_RW_DIRECT" and "cmd_opcode c \<noteq> SD_IO_RW_EXTENDED"
    and "\<And>t q. cpl_data_error (op_request (w_ops w) t q) = 0"
    and "of_nat (length buf) \<le> h_max_blk_size (w_host w)" "h_max_blk_count (w_host w) \<noteq> 0"
      "of_nat (length buf) \<le> h_max_req_size (w_host w)"
  shows "fst (fst (run_state (sd_read_block c buf) w)) = 0"
proof -
  let ?d = "mmc_set_data_timeout (w_host w) (w_card w) (dat0\<lparr>dat_blksz := of_nat (length buf),
    dat_blocks := 1, dat_flags := {MMC_DATA_READ}, dat_sg := [of_nat (length buf)], dat_buf := buf\<rparr>)"
  let ?q = "mrq_of (clear_error c) (Some (?d\<lparr>dat_error := 0\<rparr>))"
  have "mmc_mrq_prep (w_host w) (mrq_of c (Some ?d)) = (0, ?q)"
    using assms(5-7) by (simp add: mmc_mrq_prep_def mrq_of_def data_timeout_size not_less Let_def)
  then have "run_state (mmc_wait_for_req hooks (mrq_of c (Some ?d))) w =
      (complete_mrq (op_request (w_ops w) (w_trace w) ?q) ?q, log_event (EvRequest ?q) 0 (tuned w))"
    using assms by (intro req_quiet) (simp_all add: mrq_of_def)
  moreover have "cmd_error (mrq_cmd (complete_mrq (op_request (w_ops w) (w_trace w) ?q) ?q)) = 0"
    "mrq_data (complete_mrq (op_request (w_ops w) (w_trace w) ?q) ?q) = Some e \<Longrightarrow> dat_error e = 0" for e
    using assms(1,4) by (auto simp: complete_mrq_def quiet_def mrq_of_def)
  ultimately show ?thesis by (simp add: sd_read_block_def Let_def split: option.split)
qed

section \<open>UHS-I\<close>

text \<open>
  The bus speeds in the order of preference: the capabilities of the host, one of which
  suffices, the bit of the card's bus modes, and the speed.
\<close>

definition uhs_speeds :: "(mmc_cap set \<times> nat \<times> u32) list" where
  "uhs_speeds =
    [({MMC_CAP_UHS_SDR104}, 3, UHS_SDR104_BUS_SPEED),
     ({MMC_CAP_UHS_DDR50}, 4, UHS_DDR50_BUS_SPEED),
     ({MMC_CAP_UHS_SDR104, MMC_CAP_UHS_SDR50}, 2, UHS_SDR50_BUS_SPEED),
     ({MMC_CAP_UHS_SDR104, MMC_CAP_UHS_SDR50, MMC_CAP_UHS_SDR25}, 1, UHS_SDR25_BUS_SPEED),
     ({MMC_CAP_UHS_SDR104, MMC_CAP_UHS_SDR50, MMC_CAP_UHS_SDR25, MMC_CAP_UHS_SDR12}, 0,
      UHS_SDR12_BUS_SPEED)]"

lemma and_bit: "x AND 2 ^ n = 0 \<longleftrightarrow> \<not> bit (x :: u32) n"
  using bit_iff_and_push_bit_not_eq_0 [of x n] by (simp add: push_bit_of_1)

text \<open>
  The speed that \<open>sd_update_bus_speed_mode\<close> sets is the first of the list that host and card
  support; if there is none, a host with UHS-I leaves the speed as it was, another one sets 0.
\<close>

lemma sd_update_bus_speed_mode_first:
  "cd_sd_bus_speed (sd_update_bus_speed_mode h mc) =
    (if mmc_host_uhs h then
       (case find (\<lambda>(caps, n, speed). h_caps h \<inter> caps \<noteq> {} \<and>
            bit (sw_sd3_bus_mode (cd_sw_caps mc)) n) uhs_speeds of
          Some (caps, n, speed) \<Rightarrow> speed | None \<Rightarrow> cd_sd_bus_speed mc)
     else 0)"
proof -
  have b: "x AND 1 = 0 \<longleftrightarrow> \<not> bit x 0" "x AND 2 = 0 \<longleftrightarrow> \<not> bit x 1" "x AND 4 = 0 \<longleftrightarrow> \<not> bit x 2"
    "x AND 8 = 0 \<longleftrightarrow> \<not> bit x 3" "x AND 16 = 0 \<longleftrightarrow> \<not> bit x 4" for x :: u32
    using and_bit [of x 0] and_bit [of x 1] and_bit [of x 2] and_bit [of x 3] and_bit [of x 4] by simp_all
  show ?thesis
    by (simp add: sd_update_bus_speed_mode_def Let_def uhs_speeds_def b)
qed

section \<open>Life cycle\<close>

text \<open>
  \<open>mmc_sd_suspend\<close> claims and releases the host once.  A card that is not suspended yet is
  marked so exactly when the result is 0, and then the bus is off; otherwise card and power
  stay.  A suspended card and its bus stay as they are.  Runtime PM is disabled and marked
  suspended exactly on success.
\<close>

lemma sd_suspend_outcome:
  assumes "run_state mmc_sd_suspend w = (r, v)"
  shows "filter claim_event (w_trace v) = filter claim_event (w_trace w) @ [EvClaim, EvRelease] @
      (if r = 0 then [EvPm PM_DISABLE, EvPm PM_SET_SUSPENDED] else []) \<and>
    w_card v = (if r = 0 \<and> \<not> mmc_card_suspended (w_card w)
      then card_set_state MMC_STATE_SUSPENDED (w_card w) else w_card w) \<and>
    (if mmc_card_suspended (w_card w) then r = 0 \<and> w_ios v = w_ios w
     else ios_power_mode (w_ios v) = (if r = 0 then MMC_POWER_OFF else ios_power_mode (w_ios w)))"
proof -
  obtain e a where a: "run_state sd_suspend w = (e, a)" by fastforce
  from assms a have "r = e" "v = (if e = 0 then log_event (EvPm PM_SET_SUSPENDED) 0
      (log_event (EvPm PM_DISABLE) 0 a) else a)"
    by (auto simp: mmc_sd_suspend_def split: if_splits)
  with sd_suspend_result [OF a] show ?thesis by auto
qed

end
