(* ===== verification/Mmc_Init.thy ===== *)
theory Mmc_Init
  imports Erase Card_Registers Bus_Ops
begin

text \<open>
  Initialisation of MMC cards (\<open>mmc_init_card\<close> of \<open>mmc/core/mmc.c\<close>).  Each definition is a
  stretch of the function; it returns the error with which the function gives up the card, or
  0 where it goes on.  The card that is initialised is the world's card; \<open>oldcard\<close> tells
  whether it was there before.
\<close>

text \<open>Steps that stop at the first error.\<close>

fun io_steps :: "int io list \<Rightarrow> int io" where
  "io_steps [] = ret 0"
| "io_steps (m # ms) = do { err \<leftarrow> m; if err \<noteq> 0 then ret err else io_steps ms }"

section \<open>Identification\<close>

text \<open>
  From the start to the CID.  On an SPI host \<open>mmc_send_op_cond\<close> stores nothing through
  \<open>rocr\<close>, which the code reads later on.
\<close>

definition mmc_identify :: "u32 \<Rightarrow> (int + u32 \<times> u32 list) io" where
  "mmc_identify ocr = do {
     w \<leftarrow> gets id;
     io_when (\<not> mmc_host_is_spi w) (mmc_set_bus_mode MMC_BUSMODE_OPENDRAIN);
     mmc_go_idle hooks;
     r \<leftarrow> mmc_send_op_cond hooks (ocr OR push_bit 30 1);
     if fst r \<noteq> 0 then ret (Inl (fst r))
     else do {
       let rocr = (case snd r of None \<Rightarrow> kn_uninit (w_kernel w) | Some x \<Rightarrow> x);
       err \<leftarrow> (if mmc_host_is_spi w then mmc_spi_set_crc hooks (kn_use_spi_crc (w_kernel w)) else ret 0);
       if err \<noteq> 0 then ret (Inl err)
       else do {
         c \<leftarrow> mmc_send_cid hooks;
         ret (if fst c \<noteq> 0 then Inl (fst c) else Inr (rocr, snd c))
       }
     }
   }"

text \<open>The card object: the old one if it has the CID, or a new one.\<close>

definition mmc_card_object :: "u32 \<Rightarrow> u32 list \<Rightarrow> bool \<Rightarrow> int io" where
  "mmc_card_object ocr cid oldcard = do {
     w \<leftarrow> gets id;
     if oldcard then ret (if cid \<noteq> cd_raw_cid (w_card w) then - ENOENT else 0)
     else do {
       err \<leftarrow> mmc_alloc_card;
       io_when (err = 0) (modify (upd_card (\<lambda>c.
         c\<lparr>cd_ocr := ocr, cd_type := MMC_TYPE_MMC, cd_rca := 1, cd_raw_cid := cid\<rparr>)));
       ret err
     }
   }"

section \<open>Registers\<close>

definition mmc_init_rca :: "int io" where
  "mmc_init_rca = do {
     w \<leftarrow> gets id;
     (case op_init_card (w_ops w) of
        None \<Rightarrow> ret ()
      | Some init \<Rightarrow> do {
          emit EvInitCard 0;
          modify (upd_card (init (w_trace w)))
        });
     if mmc_host_is_spi w then ret 0
     else do {
       err \<leftarrow> mmc_set_relative_addr hooks;
       io_when (err = 0) (mmc_set_bus_mode MMC_BUSMODE_PUSHPULL);
       ret err
     }
   }"

definition mmc_init_csd :: "bool \<Rightarrow> int io" where
  "mmc_init_csd oldcard =
    (if oldcard then ret 0
     else do {
       r \<leftarrow> mmc_send_csd hooks;
       if fst r \<noteq> 0 then ret (fst r)
       else do {
         modify (upd_card (\<lambda>c. c\<lparr>cd_raw_csd := snd r\<rparr>));
         w \<leftarrow> gets id;
         let d = mmc_decode_csd (w_card w);
         modify (upd_card (\<lambda>_. snd d));
         if fst d \<noteq> 0 then ret (fst d)
         else do {
           let c = mmc_decode_cid (snd d);
           modify (upd_card (\<lambda>_. snd c));
           ret (fst c)
         }
       }
     })"

definition mmc_init_select :: "int io" where
  "mmc_init_select = do {
     w \<leftarrow> gets id;
     (if csd_dsr_imp (cd_csd (w_card w)) \<and> h_dsr_req (w_host w)
      then do { mmc_set_dsr hooks; ret () } else ret ());
     if mmc_host_is_spi w then ret 0 else mmc_select_card hooks
   }"

definition mmc_init_ext_csd :: "u32 \<Rightarrow> bool \<Rightarrow> int io" where
  "mmc_init_ext_csd rocr oldcard =
    (if oldcard then ret 0
     else do {
       err \<leftarrow> mmc_read_ext_csd hooks;
       if err \<noteq> 0 then ret err
       else do {
         io_when (rocr AND push_bit 30 1 \<noteq> 0)
           (modify (upd_card (card_set_state MMC_STATE_BLOCKADDR)));
         modify (upd_card mmc_set_erase_size);
         ret 0
       }
     })"

section \<open>Features\<close>

text \<open>
  Each of these switches a byte of the EXT_CSD.  An error in the card's status,
  \<open>-EBADMSG\<close>, is no reason to give up.
\<close>

definition mmc_init_erase_group :: "int io" where
  "mmc_init_erase_group = do {
     w \<leftarrow> gets id;
     if ec_rev (cd_ext_csd (w_card w)) < 3 then ret 0
     else do {
       err \<leftarrow> mmc_switch hooks EXT_CSD_CMD_SET_NORMAL EXT_CSD_ERASE_GROUP_DEF 1 (cmd6_time w);
       if err \<noteq> 0 \<and> err \<noteq> - EBADMSG then ret err
       else do {
         (if err \<noteq> 0
          then modify (upd_card (upd_ec (\<lambda>x. x\<lparr>ec_enhanced_area_offset := - of_int EINVAL,
            ec_enhanced_area_size := - of_int EINVAL\<rparr>)))
          else do {
            modify (upd_card (upd_ec (\<lambda>x. x\<lparr>ec_erase_group_def := 1\<rparr>)));
            modify (upd_card mmc_set_erase_size)
          });
         ret 0
       }
     }
   }"

definition mmc_init_partition :: "int io" where
  "mmc_init_partition = do {
     w \<leftarrow> gets id;
     if ec_part_config (cd_ext_csd (w_card w)) AND EXT_CSD_PART_CONFIG_ACC_MASK = 0 then ret 0
     else do {
       modify (upd_card (upd_ec (\<lambda>x. x\<lparr>ec_part_config :=
         ec_part_config x AND NOT EXT_CSD_PART_CONFIG_ACC_MASK\<rparr>)));
       w \<leftarrow> gets id;
       let x = cd_ext_csd (w_card w);
       err \<leftarrow> mmc_switch hooks EXT_CSD_CMD_SET_NORMAL EXT_CSD_PART_CONFIG (ec_part_config x)
         (ec_part_time x);
       ret (if err \<noteq> 0 \<and> err \<noteq> - EBADMSG then err else 0)
     }
   }"

definition mmc_init_power_off_note :: "int io" where
  "mmc_init_power_off_note = do {
     w \<leftarrow> gets id;
     if ec_rev (cd_ext_csd (w_card w)) < 6 then ret 0
     else do {
       err \<leftarrow> mmc_switch hooks EXT_CSD_CMD_SET_NORMAL EXT_CSD_POWER_OFF_NOTIFICATION
         EXT_CSD_POWER_ON (cmd6_time w);
       if err \<noteq> 0 \<and> err \<noteq> - EBADMSG then ret err
       else do {
         io_when (err = 0)
           (modify (upd_card (upd_ec (\<lambda>x. x\<lparr>ec_power_off_notification := EXT_CSD_POWER_ON\<rparr>))));
         ret 0
       }
     }
   }"

text \<open>Speed mode, width and power class.\<close>

definition mmc_init_timing :: "int io" where
  "mmc_init_timing = do {
     err \<leftarrow> mmc_select_timing hooks;
     if err \<noteq> 0 then ret err
     else do {
       w \<leftarrow> gets id;
       err \<leftarrow>
         (if mmc_card_hs200 w then do {
            err \<leftarrow> mmc_hs200_tuning;
            if err \<noteq> 0 then ret err else mmc_select_hs400 hooks
          }
          else if \<not> ios_enhanced_strobe (w_ios w) then do {
            err \<leftarrow> mmc_select_bus_width hooks;
            w \<leftarrow> gets id;
            if err > 0 \<and> mmc_card_hs w then mmc_select_hs_ddr hooks else ret 0
          }
          else ret 0);
       if err \<noteq> 0 then ret err
       else do { mmc_select_powerclass hooks; ret 0 }
     }
   }"

definition mmc_init_hpi :: "int io" where
  "mmc_init_hpi = do {
     w \<leftarrow> gets id;
     if \<not> ec_hpi (cd_ext_csd (w_card w)) then ret 0
     else do {
       err \<leftarrow> mmc_switch hooks EXT_CSD_CMD_SET_NORMAL EXT_CSD_HPI_MGMT 1 (cmd6_time w);
       if err \<noteq> 0 \<and> err \<noteq> - EBADMSG then ret err
       else do {
         modify (upd_card (upd_ec (\<lambda>x. x\<lparr>ec_hpi_en := (err = 0)\<rparr>)));
         ret 0
       }
     }
   }"

abbreviation (input) MIN_CACHE_EN_TIMEOUT_MS :: u32 where "MIN_CACHE_EN_TIMEOUT_MS \<equiv> 1600"

definition mmc_init_cache :: "int io" where
  "mmc_init_cache = do {
     w \<leftarrow> gets id;
     if ec_cache_size (cd_ext_csd (w_card w)) = 0 then ret 0
     else do {
       let timeout_ms = max (cmd6_time w) MIN_CACHE_EN_TIMEOUT_MS;
       err \<leftarrow> mmc_switch hooks EXT_CSD_CMD_SET_NORMAL EXT_CSD_CACHE_CTRL 1 timeout_ms;
       if err \<noteq> 0 \<and> err \<noteq> - EBADMSG then ret err
       else do {
         modify (upd_card (upd_ec (\<lambda>x. x\<lparr>ec_cache_ctrl := (if err = 0 then 1 else 0)\<rparr>)));
         ret 0
       }
     }
   }"

definition mmc_init_cmdq :: "int io" where
  "mmc_init_cmdq = do {
     modify (upd_card (upd_ec (\<lambda>x. x\<lparr>ec_cmdq_en := False\<rparr>)));
     w \<leftarrow> gets id;
     err \<leftarrow> (if ec_cmdq_support (cd_ext_csd (w_card w)) \<and> MMC_CAP2_CQE \<in> h_caps2 (w_host w)
       then do {
         err \<leftarrow> mmc_cmdq_enable hooks;
         if err \<noteq> 0 \<and> err \<noteq> - EBADMSG then ret err
         else do {
           io_when (err \<noteq> 0) (modify (upd_card (upd_ec (\<lambda>x.
             x\<lparr>ec_cmdq_support := False, ec_cmdq_depth := 0\<rparr>))));
           ret 0
         }
       } else ret 0);
     if err \<noteq> 0 then ret err
     else do {
       modify (upd_card (\<lambda>c. c\<lparr>cd_reenable_cmdq := ec_cmdq_en (cd_ext_csd c)\<rparr>));
       w \<leftarrow> gets id;
       io_when (ec_cmdq_en (cd_ext_csd (w_card w)) \<and> \<not> h_cqe_enabled (w_host w)) (do {
         emit EvCqeEnable 0;
         io_when (op_cqe_enable (w_ops w) (w_trace w) = 0)
           (modify (upd_host (\<lambda>h. h\<lparr>h_cqe_enabled := True\<rparr>)))
       });
       ret 0
     }
   }"

definition mmc_init_voltage :: "int io" where
  "mmc_init_voltage = do {
     w \<leftarrow> gets id;
     ret (if MMC_CAP2_AVOID_3_3V \<in> h_caps2 (w_host w)
       \<and> ios_signal_voltage (w_ios w) = MMC_SIGNAL_VOLTAGE_330 then - EINVAL else 0)
   }"

section \<open>The whole initialisation\<close>

definition mmc_init_steps :: "u32 \<Rightarrow> bool \<Rightarrow> int io list" where
  "mmc_init_steps rocr oldcard =
    [mmc_init_rca, mmc_init_csd oldcard, mmc_init_select, mmc_init_ext_csd rocr oldcard,
     mmc_init_erase_group, mmc_init_partition, mmc_init_power_off_note, mmc_init_timing,
     mmc_init_hpi, mmc_init_cache, mmc_init_cmdq, mmc_init_voltage]"

definition mmc_init_card :: "u32 \<Rightarrow> bool \<Rightarrow> int io" where
  "mmc_init_card ocr oldcard = do {
     r \<leftarrow> mmc_identify ocr;
     (case r of
        Inl err \<Rightarrow> ret err
      | Inr (rocr, cid) \<Rightarrow> do {
          err \<leftarrow> mmc_card_object ocr cid oldcard;
          if err \<noteq> 0 then ret err
          else do {
            err \<leftarrow> io_steps (mmc_init_steps rocr oldcard);
            if err \<noteq> 0 then do { io_when (\<not> oldcard) mmc_remove_card; ret err }
            else do {
              io_when (\<not> oldcard) (modify (upd_host (\<lambda>h. h\<lparr>h_card := True\<rparr>)));
              ret 0
            }
          }
        })
   }"

end
