(* ===== verification/Mmc_Life.thy ===== *)
theory Mmc_Life
  imports Mmc_Init Sd_Life
begin

text \<open>
  The life of an MMC card (\<open>mmc/core/mmc.c\<close>): sleep, power-off notification, suspend, resume,
  shutdown, reset, attachment.  The callbacks for removal and detection are those of
  \<open>Bus_Ops\<close>.  \<open>card_suspend\<close>, \<open>card_resume\<close> and \<open>card_hw_reset\<close> are the functions with a leading
  underscore.
\<close>

section \<open>Sleep and power-off notification\<close>

definition mmc_can_sleep :: "mmc_card \<Rightarrow> bool" where
  "mmc_can_sleep mc \<longleftrightarrow> ec_rev (cd_ext_csd mc) \<ge> 3"

definition sleep_cmd :: "mmc_world \<Rightarrow> u32 \<Rightarrow> mmc_command" where
  "sleep_cmd w timeout_ms =
    (let cmd = cmd0\<lparr>cmd_opcode := MMC_SLEEP_AWAKE,
       cmd_arg := push_bit 16 (cd_rca (w_card w)) OR push_bit 15 1\<rparr> in
     if h_max_busy_timeout (w_host w) \<noteq> 0 \<and> timeout_ms > h_max_busy_timeout (w_host w)
     then cmd\<lparr>cmd_flags := {MMC_RSP_R1, MMC_CMD_AC}\<rparr>
     else cmd\<lparr>cmd_flags := {MMC_RSP_R1B, MMC_CMD_AC}, cmd_busy_timeout := timeout_ms\<rparr>)"

definition mmc_sleep :: "int io" where
  "mmc_sleep = do {
     w \<leftarrow> gets id;
     let timeout_ms = (ec_sa_timeout (cd_ext_csd (w_card w)) + 9999) div 10000;
     mmc_retune_hold;
     err \<leftarrow> mmc_deselect_cards hooks;
     err \<leftarrow> (if err \<noteq> 0 then ret err
       else do {
         w \<leftarrow> gets id;
         cmd \<leftarrow> mmc_wait_for_cmd hooks (sleep_cmd w timeout_ms) 0;
         io_when (cmd_error cmd = 0 \<and> (cmd_busy_timeout cmd = 0
             \<or> MMC_CAP_WAIT_WHILE_BUSY \<notin> h_caps (w_host w)))
           (mmc_delay timeout_ms);
         ret (cmd_error cmd)
       });
     mmc_retune_release;
     ret err
   }"

definition mmc_can_poweroff_notify :: "mmc_card \<Rightarrow> bool" where
  "mmc_can_poweroff_notify mc \<longleftrightarrow> mmc_card_mmc mc
     \<and> ec_power_off_notification (cd_ext_csd mc) = EXT_CSD_POWER_ON"

definition mmc_poweroff_notify :: "u8 \<Rightarrow> int io" where
  "mmc_poweroff_notify notify_type = do {
     w \<leftarrow> gets id;
     let x = cd_ext_csd (w_card w);
     let timeout = (if notify_type = EXT_CSD_POWER_OFF_LONG then ec_power_off_longtime x
       else ec_generic_cmd6_time x);
     err \<leftarrow> mmc_switch_full hooks EXT_CSD_CMD_SET_NORMAL EXT_CSD_POWER_OFF_NOTIFICATION
       notify_type timeout MMC_TIMING_LEGACY True False False;
     modify (upd_card (upd_ec (\<lambda>x. x\<lparr>ec_power_off_notification := EXT_CSD_NO_POWER_NOTIFICATION\<rparr>)));
     ret err
   }"

section \<open>Suspend\<close>

text \<open>How the card is put to rest, after background operations were stopped.\<close>

definition mmc_quiesce :: "bool \<Rightarrow> int io" where
  "mmc_quiesce is_suspend = do {
     err \<leftarrow> mmc_flush_cache hooks;
     if err \<noteq> 0 then ret err
     else do {
       w \<leftarrow> gets id;
       if mmc_can_poweroff_notify (w_card w)
         \<and> (MMC_CAP2_FULL_PWR_CYCLE \<in> h_caps2 (w_host w) \<or> \<not> is_suspend)
       then mmc_poweroff_notify (if is_suspend then EXT_CSD_POWER_OFF_SHORT else EXT_CSD_POWER_OFF_LONG)
       else if mmc_can_sleep (w_card w) then mmc_sleep
       else if \<not> mmc_host_is_spi w then mmc_deselect_cards hooks
       else ret 0
     }
   }"

definition card_suspend :: "bool \<Rightarrow> int io" where
  "card_suspend is_suspend = do {
     claim_host;
     w \<leftarrow> gets id;
     err \<leftarrow> (if mmc_card_suspended (w_card w) then ret 0
       else do {
         err \<leftarrow> (if card_state MMC_STATE_DOING_BKOPS (w_card w) then mmc_stop_bkops hooks else ret 0);
         if err \<noteq> 0 then ret err
         else do {
           err \<leftarrow> mmc_quiesce is_suspend;
           io_when (err = 0) (do {
             mmc_power_off;
             modify (upd_card (card_set_state MMC_STATE_SUSPENDED))
           });
           ret err
         }
       });
     release_host;
     ret err
   }"

definition mmc_suspend :: "int io" where
  "mmc_suspend = do {
     err \<leftarrow> card_suspend True;
     io_when (err = 0) (do { pm PM_DISABLE; pm PM_SET_SUSPENDED });
     ret err
   }"

definition mmc_runtime_suspend :: "int io" where
  "mmc_runtime_suspend = do {
     w \<leftarrow> gets id;
     if MMC_CAP_AGGRESSIVE_PM \<notin> h_caps (w_host w) then ret 0 else card_suspend True
   }"

section \<open>Resume\<close>

definition card_resume :: "int io" where
  "card_resume = do {
     claim_host;
     w \<leftarrow> gets id;
     err \<leftarrow> (if \<not> mmc_card_suspended (w_card w) then ret 0
       else do {
         mmc_power_up (cd_ocr (w_card w));
         err \<leftarrow> mmc_init_card (cd_ocr (w_card w)) True;
         modify (upd_card (card_clr_state MMC_STATE_SUSPENDED));
         ret err
       });
     release_host;
     ret err
   }"

definition mmc_shutdown :: "int io" where
  "mmc_shutdown = do {
     w \<leftarrow> gets id;
     err \<leftarrow> (if mmc_can_poweroff_notify (w_card w) \<and> MMC_CAP2_FULL_PWR_CYCLE \<notin> h_caps2 (w_host w)
       then card_resume else ret 0);
     if err \<noteq> 0 then ret err else card_suspend False
   }"

definition mmc_resume :: "int io" where
  "mmc_resume = do { pm PM_ENABLE; ret 0 }"

definition mmc_runtime_resume :: "int io" where
  "mmc_runtime_resume = do { card_resume; ret 0 }"

section \<open>Reset\<close>

definition mmc_can_reset :: "mmc_card \<Rightarrow> bool" where
  "mmc_can_reset mc \<longleftrightarrow>
    ec_rst_n_function (cd_ext_csd mc) AND EXT_CSD_RST_N_EN_MASK = EXT_CSD_RST_N_ENABLED"

definition card_hw_reset :: "int io" where
  "card_hw_reset = do {
     mmc_flush_cache hooks;
     w \<leftarrow> gets id;
     (if MMC_CAP_HW_RESET \<in> h_caps (w_host w) \<and> op_hw_reset (w_ops w) \<and> mmc_can_reset (w_card w)
      then do {
        mmc_set_clock (h_f_init (w_host w));
        emit EvHwReset 0;
        mmc_set_initial_state
      } else do {
        mmc_power_cycle (cd_ocr (w_card w));
        mmc_pwrseq_reset
      });
     mmc_init_card (cd_ocr (w_card w)) True
   }"

section \<open>Attachment\<close>

text \<open>As for SD cards, the first part gives the operating conditions or the error.\<close>

definition attach_mmc_voltage :: "u32 \<Rightarrow> (int + u32) io" where
  "attach_mmc_voltage ocr = do {
     mmc_attach_bus MMC_OPS;
     h \<leftarrow> gets w_host;
     io_when (h_ocr_avail_mmc h \<noteq> 0) (modify (upd_host (\<lambda>h. h\<lparr>h_ocr_avail := h_ocr_avail_mmc h\<rparr>)));
     w \<leftarrow> gets id;
     r \<leftarrow> (if mmc_host_is_spi w then mmc_spi_read_ocr hooks True else ret (0, ocr));
     if fst r \<noteq> 0 then ret (Inl (fst r))
     else do {
       rocr \<leftarrow> mmc_select_voltage (snd r);
       ret (if rocr = 0 then Inl (- EINVAL) else Inr rocr)
     }
   }"

text \<open>The registration, with the host released.\<close>

definition mmc_register :: "int io" where
  "mmc_register = do {
     release_host;
     err \<leftarrow> mmc_add_card;
     io_when (err \<noteq> 0) mmc_remove_card;
     claim_host;
     io_when (err \<noteq> 0) (modify (upd_host (\<lambda>h. h\<lparr>h_card := False\<rparr>)));
     ret err
   }"

definition mmc_attach_mmc :: "int io" where
  "mmc_attach_mmc = do {
     w \<leftarrow> gets id;
     io_when (\<not> mmc_host_is_spi w) (mmc_set_bus_mode MMC_BUSMODE_OPENDRAIN);
     r \<leftarrow> mmc_send_op_cond hooks 0;
     if fst r \<noteq> 0 then ret (fst r)
     else do {
       v \<leftarrow> attach_mmc_voltage (case snd r of None \<Rightarrow> kn_uninit (w_kernel w) | Some ocr \<Rightarrow> ocr);
       err \<leftarrow> (case v of
           Inl err \<Rightarrow> ret err
         | Inr rocr \<Rightarrow> do {
             err \<leftarrow> mmc_init_card rocr False;
             if err \<noteq> 0 then ret err else mmc_register
           });
       io_when (err \<noteq> 0) mmc_detach_bus;
       ret err
     }
   }"

end
