(* ===== verification/Mmc_Init_Facts.thy ===== *)
theory Mmc_Init_Facts
  imports Mmc_Life Sd_Life_Facts
begin

text \<open>
  The operations on MMC cards evolve the world and keep claim and handler; the speed modes
  leave the EXT_CSD of the card alone (\<open>ext_kept\<close>), and the features that an
  initialisation records as enabled were enabled by the card.
\<close>

section \<open>Speed modes\<close>

definition ext_kept :: "mmc_world \<Rightarrow> mmc_world \<Rightarrow> bool" where
  "ext_kept w v \<longleftrightarrow> calm w v \<and> cd_ext_csd (w_card v) = cd_ext_csd (w_card w)"

named_theorems io_ext \<open>introduction rules for operations that keep the EXT_CSD\<close>

interpretation ek: io_preorder ext_kept
  by unfold_locales (auto simp: ext_kept_def intro: cm.rfl cm.trn)

lemma bus_only_ext: "state_io_rel bus_only m \<Longrightarrow> state_io_rel ext_kept m"
  by (simp add: state_io_rel_def ext_kept_def bus_only_def)

lemma ext_kept_calm: "state_io_rel ext_kept m \<Longrightarrow> state_io_rel calm m"
  by (simp add: state_io_rel_def ext_kept_def)

lemmas settled_ext = settled_bus_only [THEN bus_only_ext]

lemmas [io_ext] = not_claim emit_bus [THEN bus_only_ext] simple_settled [THEN settled_ext]
  counters_settled [THEN settled_ext] setters_settled [THEN settled_ext]
  speed_settled [THEN settled_ext] setters_bus [THEN bus_only_ext] voltage_bus [THEN bus_only_ext]
  io.wait_settled [THEN settled_ext] io.status_settled [THEN settled_ext]
  io.registers_settled [THEN settled_ext] io.switch_settled [THEN settled_ext]
  io.tuning_settled [THEN settled_ext] io.modes_settled [THEN settled_ext]
  io.powerclass_settled [THEN settled_ext]

lemma card_ext [io_ext]: "state_io_rel ext_kept (modify (upd_card (\<lambda>c. c\<lparr>cd_drive_strength := d\<rparr>)))"
  by (intro ek.rel_modify) (simp add: ext_kept_def calm_defs)

lemma strobe_ext [io_ext]: "state_io_rel ext_kept (modify (upd_ios (\<lambda>i. i\<lparr>ios_enhanced_strobe := b\<rparr>)))"
  by (intro ek.rel_modify) (simp add: ext_kept_def calm_defs)

lemma bus_width_ext [io_ext]: "state_io_rel ext_kept (bus_width_loop hooks ws err)"
proof (induction ws arbitrary: err)
  case Nil
  show ?case by (simp add: ek.rel_ret)
next
  case (Cons x ws)
  obtain b bw where x: "x = (b, bw)" by (cases x)
  show ?case unfolding x bus_width_loop.simps by (intro io_ext ek.rel_intros Cons)
qed

lemma modes_ext [io_ext]:
  "state_io_rel ext_kept (mmc_select_bus_width hooks)" "state_io_rel ext_kept mmc_select_driver_type"
  "state_io_rel ext_kept (try_low_voltage a b)"
  unfolding mmc_select_bus_width_def mmc_select_driver_type_def try_low_voltage_def
  by (intro io_ext ek.rel_intros)+

lemma speeds_ext [io_ext]:
  "state_io_rel ext_kept (mmc_select_hs_ddr hooks)" "state_io_rel ext_kept (mmc_select_hs400es hooks)"
  "state_io_rel ext_kept (mmc_select_hs200 hooks)" "state_io_rel ext_kept mmc_hs200_tuning"
  unfolding mmc_select_hs_ddr_def mmc_select_hs400es_def mmc_select_hs200_def
    mmc_hs200_tuning_def Let_def
  by (intro io_ext ek.rel_intros)+

lemma timing_ext [io_ext]:
  "state_io_rel ext_kept (mmc_select_timing hooks)" "state_io_rel ext_kept mmc_init_timing"
  unfolding mmc_init_timing_def mmc_select_timing_def Let_def by (intro io_ext ek.rel_intros)+

lemmas [io_calm] = timing_ext [THEN ext_kept_calm] io.powerclass_settled [THEN settled_calm]

section \<open>Steps of the initialisation\<close>

lemma io_steps_rel:
  "io_preorder R \<Longrightarrow> list_all (state_io_rel R) ms \<Longrightarrow> state_io_rel R (io_steps ms)"
  by (induction ms) (auto intro: io_preorder.rel_ret io_preorder.rel_bind io_preorder.rel_if)

lemma io_steps_ok:
  assumes "run_state (io_steps (m # ms)) w = (0, v)"
  obtains u where "run_state m w = (0, u)" "run_state (io_steps ms) u = (0, v)"
  using assms by (auto split: prod.splits if_splits)

lemma cqe_enabled_rel [io_rel, io_hold]:
  "state_io_rel evolves (modify (upd_host (\<lambda>h. h\<lparr>h_cqe_enabled := b\<rparr>)))"
  "state_io_rel holds_balanced (modify (upd_host (\<lambda>h. h\<lparr>h_cqe_enabled := b\<rparr>)))"
  by (intro ev.rel_modify hb.rel_modify; simp add: silent_defs hold_defs)+

lemma mmc_commands_calm [io_calm]:
  "state_io_rel calm (mmc_send_op_cond hooks ocr)" "state_io_rel calm (mmc_read_ext_csd hooks)"
  "state_io_rel calm (mmc_flush_cache hooks)" "state_io_rel calm (mmc_cmdq_enable hooks)"
  "state_io_rel calm (mmc_stop_bkops hooks)"
proof -
  have "state_io_rel calm (op_cond_loop hooks ocr n err c)" for n err c
    by (induction n arbitrary: err c) (auto intro!: io_calm cm.rel_intros simp: Let_def)
  then show "state_io_rel calm (mmc_send_op_cond hooks ocr)"
    unfolding mmc_send_op_cond_def by (intro cm.rel_intros)
  have hpi: "state_io_rel calm (hk_hpi hooks)"
    by (rule io.hk_hpi_settled [THEN settled_calm])
  show "state_io_rel calm (mmc_read_ext_csd hooks)" "state_io_rel calm (mmc_flush_cache hooks)"
    "state_io_rel calm (mmc_cmdq_enable hooks)" "state_io_rel calm (mmc_stop_bkops hooks)"
    unfolding mmc_read_ext_csd_def mmc_flush_cache_def mmc_cmdq_enable_def mmc_cmdq_switch_def
      mmc_stop_bkops_def
    by (intro hpi io_calm cm.rel_intros)+
qed

lemma init_first_rel [io_rel, io_hold, io_calm]:
  "state_io_rel evolves (mmc_identify ocr)" "state_io_rel holds_balanced (mmc_identify ocr)"
  "state_io_rel calm (mmc_identify ocr)"
  "state_io_rel evolves (mmc_card_object ocr cid b)"
  "state_io_rel holds_balanced (mmc_card_object ocr cid b)"
  "state_io_rel calm (mmc_card_object ocr cid b)"
  unfolding mmc_identify_def mmc_card_object_def Let_def
  by (intro io_rel ev.rel_intros quiet_evolves io_hold hb.rel_intros quiet_hold io_calm cm.rel_intros)+

lemma init_steps_rel:
  "list_all (state_io_rel evolves) (mmc_init_steps rocr b)"
  "list_all (state_io_rel holds_balanced) (mmc_init_steps rocr b)"
  "list_all (state_io_rel calm) (mmc_init_steps rocr b)"
  unfolding mmc_init_steps_def list.pred_inject mmc_init_rca_def mmc_init_csd_def
    mmc_init_select_def mmc_init_ext_csd_def mmc_init_erase_group_def mmc_init_partition_def
    mmc_init_power_off_note_def mmc_init_hpi_def mmc_init_cache_def
    mmc_init_cmdq_def mmc_init_voltage_def Let_def
  subgoal unfolding mmc_init_timing_def by (intro conjI list.pred_inject(1) io_rel ev.rel_intros quiet_evolves)
  subgoal unfolding mmc_init_timing_def by (intro conjI list.pred_inject(1) io_hold hb.rel_intros quiet_hold)
  subgoal by (intro conjI list.pred_inject(1) io_calm cm.rel_intros)
  done

lemma init_card_rel [io_rel, io_hold]:
  "state_io_rel evolves (mmc_init_card ocr b)" "state_io_rel holds_balanced (mmc_init_card ocr b)"
  unfolding mmc_init_card_def
  by (intro io_steps_rel ev.io_preorder_axioms hb.io_preorder_axioms init_steps_rel rel_sum
      io_rel ev.rel_intros io_hold hb.rel_intros)+

lemma identify_error: "run_state (mmc_identify ocr) w = (Inl err, v) \<Longrightarrow> err \<noteq> 0"
  by (auto simp: mmc_identify_def Let_def split: prod.splits if_splits)

lemma init_card_initialised:
  assumes run: "run_state (mmc_init_card ocr b) w = (r, v)" and card: "\<not> b \<or> h_card (w_host w)"
  shows "initialised (Some r) w v"
proof -
  obtain x a where a: "run_state (mmc_identify ocr) w = (x, a)" by fastforce
  have wa: "calm w a" by (rule cm.rel_run [OF init_first_rel(3) a])
  have fail: "initialised (Some e) w u" if "calm w u" "e \<noteq> 0" for e u
    using that by (simp add: initialised_def calm_def)
  show ?thesis
  proof (cases x)
    case (Inl err)
    with run a identify_error [of ocr w err a] fail [OF wa] show ?thesis
      by (auto simp: mmc_init_card_def)
  next
    case (Inr y)
    then obtain rocr cid where y: "x = Inr (rocr, cid)" by (cases y) simp
    obtain e c where c: "run_state (mmc_card_object ocr cid b) a = (e, c)" by fastforce
    have wc: "calm w c" using wa cm.rel_run [OF init_first_rel(6) c] by (rule cm.trn)
    show ?thesis
    proof (cases "e = 0")
      case False
      with run a y c fail [OF wc] show ?thesis by (auto simp: mmc_init_card_def)
    next
      case True
      obtain f d where d: "run_state (io_steps (mmc_init_steps rocr b)) c = (f, d)" by fastforce
      have "calm c d"
        using d by (rule cm.rel_run [rotated]) (intro io_steps_rel cm.io_preorder_axioms init_steps_rel)
      with wc have wd: "calm w d" by (rule cm.trn)
      obtain g where g: "run_state mmc_remove_card d = ((), g)" by (rule unit_run)
      have wg: "calm w g" using wd cm.rel_run [OF card_object_calm(2) g] by (rule cm.trn)
      show ?thesis
        using run a y c True d g fail [OF wd] fail [OF wg] wd card
        by (auto simp: mmc_init_card_def initialised_def calm_def handler_def upd_host_def
            split: if_splits)
    qed
  qed
qed

section \<open>Attachment\<close>

lemma attach_mmc_voltage_result:
  assumes "run_state (attach_mmc_voltage ocr) w = (r, v)"
  shows "claims v = claims w \<and> handler (w_host v) = (Some MMC_OPS, 1, False) \<and>
    h_card (w_host v) = h_card (w_host w) \<and> (\<forall>err. r = Inl err \<longrightarrow> err \<noteq> 0)"
proof -
  define tail where "tail = (do {
     h \<leftarrow> gets w_host;
     io_when (h_ocr_avail_mmc h \<noteq> 0) (modify (upd_host (\<lambda>h. h\<lparr>h_ocr_avail := h_ocr_avail_mmc h\<rparr>)));
     w \<leftarrow> gets id;
     r \<leftarrow> (if mmc_host_is_spi w then mmc_spi_read_ocr hooks True else ret (0, ocr));
     if fst r \<noteq> 0 then ret (Inl (fst r))
     else do {
       rocr \<leftarrow> mmc_select_voltage (snd r);
       ret (if rocr = 0 then Inl (- EINVAL) else Inr rocr)
     }
   } :: (int + u32) io)"
  let ?a = "upd_host (\<lambda>h. h\<lparr>h_bus_ops := Some MMC_OPS, h_bus_refs := 1, h_bus_dead := False\<rparr>) w"
  have run: "run_state tail ?a = (r, v)"
    using assms by (simp add: attach_mmc_voltage_def tail_def mmc_attach_bus_def)
  have "state_io_rel calm tail" unfolding tail_def by (intro io_calm cm.rel_intros)
  then have "calm ?a v" using run by (rule cm.rel_run)
  moreover have "\<forall>err. r = Inl err \<longrightarrow> err \<noteq> 0"
    using run by (auto simp: tail_def split: prod.splits if_splits)
  ultimately show ?thesis by (simp add: calm_def handler_def upd_host_def)
qed

lemma register_mmc_result:
  assumes run: "run_state mmc_register c = (r, v)" and "h_card (w_host c)"
  shows "claims v = claims c @ [EvRelease, EvClaim] \<and> handler (w_host v) = handler (w_host c) \<and>
    (h_card (w_host v) \<longleftrightarrow> r = 0) \<and> (r = 0 \<longrightarrow> card_state MMC_STATE_PRESENT (w_card v))"
proof -
  obtain e a where a: "run_state mmc_add_card (log_event EvRelease 0 c) = (e, a)" by fastforce
  obtain b where b: "run_state mmc_remove_card a = ((), b)" by (rule unit_run)
  note add_card_result [OF a]
  moreover have "calm a b" by (rule cm.rel_run [OF card_object_calm(2) b])
  ultimately show ?thesis
    using run a b assms(2)
    by (cases "e = 0") (auto simp: mmc_register_def calm_def handler_def upd_host_def)
qed

lemma attach_mmc_result:
  assumes run: "run_state mmc_attach_mmc w = (r, v)" and card: "\<not> h_card (w_host w)"
  shows "attached MMC_OPS (Some r) w v"
proof -
  let ?bus = "io_when (\<not> mmc_host_is_spi w) (mmc_set_bus_mode MMC_BUSMODE_OPENDRAIN)"
  obtain z where z: "run_state ?bus w = ((), z)" by (rule unit_run)
  obtain e o1 a where a: "run_state (mmc_send_op_cond hooks 0) z = ((e, o1), a)" by (metis surj_pair)
  have "state_io_rel calm ?bus" by (intro io_calm cm.rel_intros)
  then have wa: "calm w a" using z cm.rel_run [OF mmc_commands_calm(1) a] by (blast intro: cm.trn cm.rel_run)
  show ?thesis
  proof (cases "e = 0")
    case False
    with run z a wa card show ?thesis
      by (auto simp: mmc_attach_mmc_def attached_def calm_def simp del: run_io_when)
  next
    case True
    let ?o = "case o1 of None \<Rightarrow> kn_uninit (w_kernel w) | Some ocr \<Rightarrow> ocr"
    obtain x b where b: "run_state (attach_mmc_voltage ?o) a = (x, b)" by fastforce
    have hb: "claims b = claims w" "handler (w_host b) = (Some MMC_OPS, 1, False)" "\<not> h_card (w_host b)"
      using attach_mmc_voltage_result [OF b] wa card by (simp_all add: calm_def)
    define m where "m = (case x of Inl err \<Rightarrow> ret err | Inr rocr \<Rightarrow> do {
        err \<leftarrow> mmc_init_card rocr False; if err \<noteq> 0 then ret err else mmc_register })"
    obtain f c where c: "run_state m b = (f, c)" by fastforce
    have hc: "handler (w_host c) = (Some MMC_OPS, 1, False) \<and> (h_card (w_host c) \<longleftrightarrow> f = 0) \<and>
      (claims c = claims w \<and> f \<noteq> 0 \<or> claims c = claims w @ [EvRelease, EvClaim]) \<and>
      (f = 0 \<longrightarrow> card_state MMC_STATE_PRESENT (w_card c))"
    proof (cases x)
      case (Inl err)
      with c hb attach_mmc_voltage_result [OF b] show ?thesis by (auto simp: m_def)
    next
      case (Inr rocr)
      obtain y d where d: "run_state (mmc_init_card rocr False) b = (y, d)" by fastforce
      have hd: "claims d = claims w" "handler (w_host d) = (Some MMC_OPS, 1, False)"
        "h_card (w_host d) \<longleftrightarrow> y = 0"
        using init_card_initialised [OF d] hb by (auto simp: initialised_def)
      show ?thesis
      proof (cases "y = 0")
        case True
        then have "run_state mmc_register d = (f, c)" using c Inr d by (simp add: m_def)
        from register_mmc_result [OF this] hd True show ?thesis by simp
      next
        case False
        with c Inr d hd show ?thesis by (auto simp: m_def)
      qed
    qed
    have "run_state (do { io_when (f \<noteq> 0) mmc_detach_bus; ret f }) c = (r, v)"
      using run z a True b c by (simp add: mmc_attach_mmc_def m_def del: run_io_when)
    with hc detach_result [of c MMC_OPS] show ?thesis by (auto simp: attached_def split: if_splits)
  qed
qed

end
