(* ===== verification/Mmc_Life_Facts.thy ===== *)
theory Mmc_Life_Facts
  imports Mmc_Init_Facts
begin

text \<open>
  Suspend of MMC cards: what the card is told before the power goes off, and what the
  suspended flag says.
\<close>

section \<open>Switches that were completed\<close>

text \<open>
  Between the worlds \<open>w\<close> and \<open>v\<close> the controller completed a switch that writes the value to the
  byte of the EXT_CSD.
\<close>

definition switched :: "mmc_world \<Rightarrow> mmc_world \<Rightarrow> nat \<Rightarrow> u8 \<Rightarrow> bool" where
  "switched w v index val \<longleftrightarrow>
    (\<exists>t q. length (w_trace w) \<le> length t \<and> prefix (t @ [EvRequest q]) (w_trace v) \<and>
      cpl_cmd_error (op_request (w_ops w) t q) = 0 \<and> cmd_opcode (mrq_cmd q) = 6 \<and>
      unat (cmd_arg (mrq_cmd q)) = 3 * 2 ^ 24 + index * 2 ^ 16 + unat val * 2 ^ 8 + 1)"

lemma evolves_prefix: "evolves w v \<Longrightarrow> prefix (w_trace w) (w_trace v)"
  by (auto simp: evolves_def)

lemma switched_mono:
  assumes "switched x y i val" and "evolves w x" and "evolves y v"
  shows "switched w v i val"
proof -
  obtain t q where "length (w_trace x) \<le> length t" "prefix (t @ [EvRequest q]) (w_trace y)"
      "cpl_cmd_error (op_request (w_ops x) t q) = 0" "cmd_opcode (mrq_cmd q) = 6"
      "unat (cmd_arg (mrq_cmd q)) = 3 * 2 ^ 24 + i * 2 ^ 16 + unat val * 2 ^ 8 + 1"
    using assms(1) unfolding switched_def by blast
  with assms(2,3) show ?thesis
    unfolding switched_def using evolves_length evolves_ops evolves_prefix
    by (intro exI [of _ t] exI [of _ q]) (auto intro: order.trans prefix_order.trans)
qed

lemma switch_full_switched:
  assumes "run_state (mmc_switch_full hooks EXT_CSD_CMD_SET_NORMAL i val ms ti b s c) w = (0, v)"
    and "i < 256" "i \<noteq> EXT_CSD_SANITIZE_START"
  shows "switched w v i val"
  using io.switch_sent [OF assms] unfolding switched_def
  by (metis append.assoc append_Cons append_Nil prefixI unsigned_1)

lemma switch_switched:
  assumes "run_state (mmc_switch hooks EXT_CSD_CMD_SET_NORMAL i val ms) w = (0, v)"
    and "i < 256" "i \<noteq> EXT_CSD_SANITIZE_START"
  shows "switched w v i val"
  using assms(1) unfolding mmc_switch_def by (rule switch_full_switched [OF _ assms(2,3)])

section \<open>Sleep\<close>

abbreviation deselect_cmd :: mmc_command where
  "deselect_cmd \<equiv> cmd0\<lparr>cmd_opcode := MMC_SELECT_CARD, cmd_arg := 0, cmd_flags := {MMC_RSP_NONE, MMC_CMD_AC}\<rparr>"

lemma deselect_served:
  assumes "run_state (mmc_deselect_cards hooks) w = (0, v)" and "evolves v u"
  shows "\<exists>t. length (w_trace w) \<le> length t \<and> length t < length (w_trace v) \<and>
    served (w_ops w) (w_trace u) deselect_cmd t"
proof -
  obtain d where d: "run_state (mmc_wait_for_cmd hooks deselect_cmd MMC_CMD_RETRIES) w = (d, v)"
      "cmd_error d = 0"
    using assms(1) by (auto simp: mmc_deselect_cards_def select_card_def split: prod.splits)
  from cmd_served [OF d(1) _ d(2) assms(2)] show ?thesis by (simp add: cmd0_def)
qed

lemma sleep_cmd_settled: "settled w v \<Longrightarrow> sleep_cmd v ms = sleep_cmd w ms"
  by (simp add: sleep_cmd_def settled_fields)

lemma sleep_settled [io_settled]: "state_io_rel settled mmc_sleep"
  unfolding mmc_sleep_def mmc_deselect_cards_def select_card_def by (intro io_settled st.rel_intros)

lemma sleep_evolves [io_rel]: "state_io_rel evolves mmc_sleep"
  unfolding mmc_sleep_def by (intro io_rel ev.rel_intros)

lemma sleep_hold [io_hold]: "state_io_rel holds_balanced mmc_sleep"
  unfolding mmc_sleep_def Let_def
  by (rule balancedI, rule credits_bind, rule credits_balanced, rule hb.rel_gets,
      rule credits_bind, rule credits_hold, rule credits_bind, rule credits_balanced, rule io_hold,
      rule credits_bind, rule credits_balanced, (intro io_hold hb.rel_intros)[1],
      rule credits_bind, rule credits_release, rule credits_balanced, rule hb.rel_ret)

definition slept :: "mmc_world \<Rightarrow> mmc_world \<Rightarrow> bool" where
  "slept w v \<longleftrightarrow> (\<exists>s t. length (w_trace w) \<le> length s \<and> length s < length t \<and>
    served (w_ops w) (w_trace v) deselect_cmd s \<and>
    served (w_ops w) (w_trace v)
      (sleep_cmd w ((ec_sa_timeout (cd_ext_csd (w_card w)) + 9999) div 10000)) t)"

lemma sleep_slept:
  assumes run: "run_state mmc_sleep w = (0, v)"
  shows "slept w v"
proof -
  let ?ms = "(ec_sa_timeout (cd_ext_csd (w_card w)) + 9999) div 10000"
  obtain a where a: "run_state mmc_retune_hold w = ((), a)" by (rule unit_run)
  obtain e b where b: "run_state (mmc_deselect_cards hooks) a = (e, b)" by fastforce
  have wa: "evolves w a" "settled w a"
    using ev.rel_run [OF retune_evolves(3) a] st.rel_run [OF counters_settled(4) a] by auto
  have "state_io_rel settled (mmc_deselect_cards hooks)"
    unfolding mmc_deselect_cards_def select_card_def by (intro io_settled st.rel_intros)
  then have ab: "evolves a b" "settled a b"
    using ev.rel_run [OF io.select_rel(3) b] st.rel_run [OF _ b] by auto
  have cmd: "sleep_cmd b ?ms = sleep_cmd w ?ms"
    using sleep_cmd_settled [OF st.trn [OF wa(2) ab(2)]] .
  have e: "e = 0"
  proof (rule ccontr)
    assume "e \<noteq> 0" with run a b show False
      by (auto simp: mmc_sleep_def Let_def split: prod.splits)
  qed
  obtain d c where c: "run_state (mmc_wait_for_cmd hooks (sleep_cmd w ?ms) 0) b = (d, c)" by fastforce
  define m where "m = do {
     io_when (cmd_error d = 0 \<and> (cmd_busy_timeout d = 0 \<or> MMC_CAP_WAIT_WHILE_BUSY \<notin> h_caps (w_host b)))
       (mmc_delay ?ms);
     mmc_retune_release }"
  have "run_state (do { m; ret (cmd_error d) }) c = (0, v)"
    using run a b e c by (auto simp: mmc_sleep_def Let_def cmd m_def split_beta simp del: run_io_when)
  then have d: "cmd_error d = 0" and m: "run_state m c = ((), v)"
    by (auto split: prod.splits)
  have "state_io_rel evolves m" unfolding m_def by (intro io_rel ev.rel_intros)
  then have cv: "evolves c v" using m by (rule ev.rel_run)
  have "\<not> cmd_sanitize_busy (sleep_cmd w ?ms)" by (simp add: sleep_cmd_def cmd0_def Let_def)
  from cmd_served [OF c this d cv] obtain t where t: "length (w_trace b) \<le> length t"
      "served (w_ops b) (w_trace v) (sleep_cmd w ?ms) t" by blast
  have bv: "evolves b v" using cmd_evolves [OF c] cv by (rule ev.trn)
  from deselect_served [OF b [unfolded e] bv] obtain s where s: "length (w_trace a) \<le> length s"
      "length s < length (w_trace b)" "served (w_ops a) (w_trace v) deselect_cmd s" by blast
  show ?thesis
    unfolding slept_def
    using s t evolves_length [OF wa(1)] evolves_ops [OF wa(1)] evolves_ops [OF ab(1)]
    by (intro exI [of _ s] exI [of _ t]) simp
qed

section \<open>Putting the card to rest\<close>

text \<open>Until the power goes off, the power mode and the suspended flag stay.\<close>

definition awake :: "mmc_world \<Rightarrow> mmc_world \<Rightarrow> bool" where
  "awake w v \<longleftrightarrow> calm w v \<and> ios_power_mode (w_ios v) = ios_power_mode (w_ios w) \<and>
    mmc_card_suspended (w_card v) = mmc_card_suspended (w_card w)"

named_theorems io_awake \<open>introduction rules for operations before the power goes off\<close>

interpretation aw: io_preorder awake
  by unfold_locales (auto simp: awake_def intro: cm.rfl cm.trn)

lemma settled_awake: "state_io_rel settled m \<Longrightarrow> state_io_rel awake m"
proof -
  have "awake w v" if "settled w v" for w v
    using settled_fields [OF that] by (simp add: awake_def calm_def handler_def)
  then show "state_io_rel settled m \<Longrightarrow> ?thesis" by (simp add: state_io_rel_def)
qed

lemma card_awake:
  "(\<And>c. mmc_card_suspended (f c) = mmc_card_suspended c) \<Longrightarrow> state_io_rel awake (modify (upd_card f))"
  by (intro aw.rel_modify) (simp add: awake_def calm_defs)

lemmas [io_awake] = counters_settled [THEN settled_awake] io.switch_settled [THEN settled_awake]
  sleep_settled [THEN settled_awake]

lemma deselect_awake [io_awake]: "state_io_rel awake (mmc_deselect_cards hooks)"
  unfolding mmc_deselect_cards_def select_card_def
  by (intro settled_awake io_settled st.rel_intros)

lemma flush_settled [io_settled]: "state_io_rel settled (mmc_flush_cache hooks)"
  unfolding mmc_flush_cache_def by (intro io_settled st.rel_intros)

lemma quiesce_awake [io_awake]: "state_io_rel awake (mmc_quiesce b)"
  unfolding mmc_quiesce_def mmc_poweroff_notify_def
  by (intro io_awake aw.rel_intros settled_awake [OF flush_settled] card_awake)
    (simp add: card_state_def upd_ec_def)

lemma clear_bkops_suspended:
  "mmc_card_suspended (card_clr_state MMC_STATE_DOING_BKOPS c) = mmc_card_suspended c"
proof -
  have six: "x AND 0x40 = 0 \<longleftrightarrow> \<not> bit (x :: u32) 6" for x
    using bit_iff_and_push_bit_not_eq_0 [of x 6] by (simp add: push_bit_of_1)
  have "\<not> bit (0x20 :: u32) 6" by simp
  then show ?thesis by (simp add: card_state_def card_clr_state_def six bit_and_iff bit_not_iff)
qed

lemma stop_bkops_awake [io_awake]: "state_io_rel awake (mmc_stop_bkops hooks)"
  unfolding mmc_stop_bkops_def
  by (intro io_awake aw.rel_intros settled_awake [OF io.hk_hpi_settled] card_awake
      clear_bkops_suspended)

lemma quiesce_evolves [io_rel]: "state_io_rel evolves (mmc_quiesce b)"
  unfolding mmc_quiesce_def mmc_poweroff_notify_def
  by (intro io_rel ev.rel_intros quiet_evolves)

text \<open>What the controller has completed when the card is at rest.\<close>

definition at_rest :: "bool \<Rightarrow> mmc_world \<Rightarrow> mmc_world \<Rightarrow> bool" where
  "at_rest is_suspend w v \<longleftrightarrow>
    (let x = cd_ext_csd (w_card w) in
     (if mmc_card_mmc (w_card w) \<and> ec_cache_size x > 0 \<and> ec_cache_ctrl x AND 1 \<noteq> 0
      then switched w v EXT_CSD_FLUSH_CACHE 1 else True) \<and>
     (if mmc_can_poweroff_notify (w_card w)
         \<and> (MMC_CAP2_FULL_PWR_CYCLE \<in> h_caps2 (w_host w) \<or> \<not> is_suspend)
      then switched w v EXT_CSD_POWER_OFF_NOTIFICATION
        (if is_suspend then EXT_CSD_POWER_OFF_SHORT else EXT_CSD_POWER_OFF_LONG)
      else if mmc_can_sleep (w_card w) then slept w v
      else if \<not> mmc_host_is_spi w then
        \<exists>t. length (w_trace w) \<le> length t \<and> served (w_ops w) (w_trace v) deselect_cmd t
      else True))"

lemma slept_mono:
  assumes "slept x y" and wx: "evolves w x" "settled w x" and "evolves y v"
  shows "slept w v"
proof -
  let ?ms = "(ec_sa_timeout (cd_ext_csd (w_card w)) + 9999) div 10000"
  have eq: "w_card x = w_card w" "w_ops x = w_ops w" "sleep_cmd x ?ms = sleep_cmd w ?ms"
    using wx by (simp_all add: settled_fields evolves_ops sleep_cmd_settled)
  obtain s t where "length (w_trace x) \<le> length s" "length s < length t"
      "served (w_ops w) (w_trace y) deselect_cmd s" "served (w_ops w) (w_trace y) (sleep_cmd w ?ms) t"
    using assms(1) unfolding slept_def eq by blast
  moreover have "served ops (w_trace y) c t \<Longrightarrow> served ops (w_trace v) c t" for ops c t
    using evolves_prefix [OF assms(4)] unfolding served_def by (blast intro: prefix_order.trans)
  ultimately show ?thesis
    using evolves_length [OF wx(1)] unfolding slept_def
    by (intro exI [of _ s] exI [of _ t]) auto
qed

lemma notify_switched:
  assumes run: "run_state (mmc_poweroff_notify n) w = (0, v)"
  shows "switched w v EXT_CSD_POWER_OFF_NOTIFICATION n"
proof -
  define ms where "ms = (if n = EXT_CSD_POWER_OFF_LONG then ec_power_off_longtime (cd_ext_csd (w_card w))
    else ec_generic_cmd6_time (cd_ext_csd (w_card w)))"
  obtain e a where a: "run_state (mmc_switch_full hooks EXT_CSD_CMD_SET_NORMAL
      EXT_CSD_POWER_OFF_NOTIFICATION n ms MMC_TIMING_LEGACY True False False) w = (e, a)" by fastforce
  have "e = 0" "v = upd_card (upd_ec (\<lambda>x. x\<lparr>ec_power_off_notification := EXT_CSD_NO_POWER_NOTIFICATION\<rparr>)) a"
    using run a by (auto simp: mmc_poweroff_notify_def Let_def ms_def)
  with switch_full_switched [of EXT_CSD_POWER_OFF_NOTIFICATION n ms _ _ _ _ w a] a show ?thesis
    by (simp add: switched_def)
qed

lemma quiesce_at_rest:
  assumes run: "run_state (mmc_quiesce b) w = (0, v)"
  shows "at_rest b w v"
proof -
  obtain e a where a: "run_state (mmc_flush_cache hooks) w = (e, a)" by fastforce
  then have e: "e = 0" using run by (auto simp: mmc_quiesce_def split: if_splits)
  have wa: "evolves w a" "settled w a"
    using ev.rel_run [OF io.cache_rel(1) a] st.rel_run [OF flush_settled a] by auto
  define m where "m x =
    (if mmc_can_poweroff_notify (w_card x) \<and> (MMC_CAP2_FULL_PWR_CYCLE \<in> h_caps2 (w_host x) \<or> \<not> b)
     then mmc_poweroff_notify (if b then EXT_CSD_POWER_OFF_SHORT else EXT_CSD_POWER_OFF_LONG)
     else if mmc_can_sleep (w_card x) then mmc_sleep
     else if \<not> mmc_host_is_spi x then mmc_deselect_cards hooks else ret 0)" for x
  have "run_state (m a) a = (0, v)" using run a e by (simp add: mmc_quiesce_def m_def)
  moreover have "m a = m w" by (simp only: m_def settled_fields [OF wa(2)])
  ultimately have m: "run_state (m w) a = (0, v)" by simp
  have "state_io_rel evolves (m w)"
    unfolding m_def mmc_poweroff_notify_def by (intro io_rel ev.rel_intros quiet_evolves)
  then have av: "evolves a v" using m by (rule ev.rel_run)
  have flush: "switched w v EXT_CSD_FLUSH_CACHE 1"
    if "mmc_card_mmc (w_card w)" "ec_cache_size (cd_ext_csd (w_card w)) > 0"
      "ec_cache_ctrl (cd_ext_csd (w_card w)) AND 1 \<noteq> 0"
  proof -
    have "run_state (mmc_switch hooks EXT_CSD_CMD_SET_NORMAL EXT_CSD_FLUSH_CACHE 1 0) w = (0, a)"
      using a e that by (simp add: mmc_flush_cache_def Let_def)
    from switched_mono [OF switch_switched [OF this] ev.rfl av] show ?thesis by simp
  qed
  have "\<exists>t. length (w_trace w) \<le> length t \<and> served (w_ops w) (w_trace v) deselect_cmd t"
    if "run_state (mmc_deselect_cards hooks) a = (0, v)"
    using deselect_served [OF that ev.rfl] evolves_length [OF wa(1)] evolves_ops [OF wa(1)]
    by (auto intro: order.trans)
  with flush m show ?thesis
    unfolding at_rest_def Let_def m_def
    using switched_mono [OF notify_switched wa(1) ev.rfl] slept_mono [OF sleep_slept wa ev.rfl]
    by auto
qed

section \<open>Suspend\<close>

text \<open>The way to rest depends on what stopping the background operations leaves alone.\<close>

lemma retune_release_fields:
  assumes "run_state mmc_retune_release w = (x, v)"
  shows "w_card v = w_card w" "h_caps (w_host v) = h_caps (w_host w)"
    "h_caps2 (w_host v) = h_caps2 (w_host w)"
    "h_max_busy_timeout (w_host v) = h_max_busy_timeout (w_host w)"
  using st.rel_run [OF counters_settled(7) assms] by (simp_all add: settled_fields)

lemma stop_bkops_card:
  assumes "run_state (mmc_stop_bkops hooks) w = (e, v)"
  shows "w_card v = (if e = 0 then card_clr_state MMC_STATE_DOING_BKOPS (w_card w) else w_card w) \<and>
    h_caps (w_host v) = h_caps (w_host w) \<and> h_caps2 (w_host v) = h_caps2 (w_host w) \<and>
    h_max_busy_timeout (w_host v) = h_max_busy_timeout (w_host w)"
proof -
  obtain f a where a: "run_state (hk_hpi hooks) w = (f, a)" by fastforce
  note wa = settled_fields [OF st.rel_run [OF io.hk_hpi_settled a]]
  show ?thesis
  proof (cases "f = 0 \<or> f = - EINVAL")
    case True
    obtain b where b: "run_state mmc_retune_release
        (upd_card (card_clr_state MMC_STATE_DOING_BKOPS) a) = ((), b)" by (rule unit_run)
    have "e = 0" "v = b" using assms True a b by (auto simp: mmc_stop_bkops_def)
    with retune_release_fields [OF b] wa show ?thesis by simp
  next
    case False
    then have "e = f" "v = a" using assms a by (auto simp: mmc_stop_bkops_def)
    with False wa show ?thesis by simp
  qed
qed

text \<open>What was completed after a start, and with the same registers, was completed before the end.\<close>

lemma served_later: "served ops (w_trace y) c t \<Longrightarrow> evolves y v \<Longrightarrow> served ops (w_trace v) c t"
  using evolves_prefix unfolding served_def by (blast intro: prefix_order.trans)

lemma slept_card:
  assumes "slept x y" and wx: "evolves w x" and yv: "evolves y v"
    and cmd: "\<And>ms. sleep_cmd x ms = sleep_cmd w ms"
    and card: "cd_ext_csd (w_card x) = cd_ext_csd (w_card w)"
  shows "slept w v"
proof -
  let ?ms = "(ec_sa_timeout (cd_ext_csd (w_card x)) + 9999) div 10000"
  obtain s t where st: "length (w_trace x) \<le> length s" "length s < length t"
      "served (w_ops x) (w_trace y) deselect_cmd s" "served (w_ops x) (w_trace y) (sleep_cmd x ?ms) t"
    using assms(1) unfolding slept_def by blast
  from st(3,4) [THEN served_later, OF yv] st(1,2) evolves_length [OF wx] show ?thesis
    unfolding slept_def card [symmetric] cmd evolves_ops [OF wx]
    by (intro exI [of _ s] exI [of _ t]) simp
qed

lemma at_rest_mono:
  assumes rest: "at_rest b x y" and wx: "evolves w x" and yv: "evolves y v"
    and card: "cd_ext_csd (w_card x) = cd_ext_csd (w_card w)" "cd_type (w_card x) = cd_type (w_card w)"
      "cd_rca (w_card x) = cd_rca (w_card w)"
    and host: "h_caps (w_host x) = h_caps (w_host w)" "h_caps2 (w_host x) = h_caps2 (w_host w)"
      "h_max_busy_timeout (w_host x) = h_max_busy_timeout (w_host w)"
  shows "at_rest b w v"
proof -
  have cmd: "sleep_cmd x ms = sleep_cmd w ms" for ms by (simp add: sleep_cmd_def card host)
  have des: "\<exists>t. length (w_trace w) \<le> length t \<and> served (w_ops w) (w_trace v) deselect_cmd t"
    if "\<exists>t. length (w_trace x) \<le> length t \<and> served (w_ops x) (w_trace y) deselect_cmd t"
    using that served_later [OF _ yv] evolves_length [OF wx] evolves_ops [OF wx]
    by (metis order.trans)
  have eq: "mmc_can_poweroff_notify (w_card x) = mmc_can_poweroff_notify (w_card w)"
    "mmc_can_sleep (w_card x) = mmc_can_sleep (w_card w)"
    by (simp_all add: mmc_can_poweroff_notify_def mmc_can_sleep_def card)
  show ?thesis
    using rest unfolding at_rest_def Let_def eq card host
    using switched_mono [OF _ wx yv] slept_card [OF _ wx yv cmd card(1)] des
    by (auto split: if_splits)
qed

lemma suspend_steps:
  assumes run: "run_state (do {
      err \<leftarrow> (if card_state MMC_STATE_DOING_BKOPS (w_card w) then mmc_stop_bkops hooks else ret 0);
      if err \<noteq> 0 then ret err else mmc_quiesce b }) w = (e, a)"
  shows "awake w a \<and> evolves w a \<and> (e = 0 \<longrightarrow> at_rest b w a)"
proof -
  define m where
    "m = (if card_state MMC_STATE_DOING_BKOPS (w_card w) then mmc_stop_bkops hooks else ret 0)"
  obtain f c where c: "run_state m w = (f, c)" by fastforce
  have rest: "run_state (if f \<noteq> 0 then ret f else mmc_quiesce b) c = (e, a)"
    using run c by (simp add: m_def)
  have aw: "state_io_rel awake m" unfolding m_def by (intro io_awake aw.rel_intros)
  have ev: "state_io_rel evolves m" unfolding m_def by (intro io_rel ev.rel_intros)
  have rel: "state_io_rel awake (if f \<noteq> 0 then ret f else mmc_quiesce b)"
    "state_io_rel evolves (if f \<noteq> 0 then ret f else mmc_quiesce b)"
    by (intro io_awake aw.rel_intros, intro io_rel ev.rel_intros)
  have "at_rest b w a" if "e = 0"
  proof -
    have f: "f = 0" and q: "run_state (mmc_quiesce b) c = (0, a)"
      using rest that by (auto split: if_splits)
    have "w_card c = w_card w \<and> w_host c = w_host w \<or> run_state (mmc_stop_bkops hooks) w = (0, c)"
      using c f by (auto simp: m_def split: if_splits)
    then have eq: "cd_ext_csd (w_card c) = cd_ext_csd (w_card w)" "cd_type (w_card c) = cd_type (w_card w)"
        "cd_rca (w_card c) = cd_rca (w_card w)" "h_caps (w_host c) = h_caps (w_host w)"
        "h_caps2 (w_host c) = h_caps2 (w_host w)"
        "h_max_busy_timeout (w_host c) = h_max_busy_timeout (w_host w)"
      using stop_bkops_card [of w 0 c] by (auto simp: card_clr_state_def)
    show ?thesis
      by (rule at_rest_mono [OF quiesce_at_rest [OF q] ev.rel_run [OF ev c] ev.rfl eq])
  qed
  then show ?thesis
    using aw.trn [OF aw.rel_run [OF aw c] aw.rel_run [OF rel(1) rest]]
      ev.trn [OF ev.rel_run [OF ev c] ev.rel_run [OF rel(2) rest]] by blast
qed

text \<open>Between claim and release, \<open>_mmc_suspend\<close> puts the card to rest and switches off.\<close>

lemma card_suspend_result:
  assumes run: "run_state (card_suspend b) w = (r, v)"
  shows "claims v = claims w @ [EvClaim, EvRelease]"
    "mmc_card_suspended (w_card v) = (mmc_card_suspended (w_card w) \<or> r = 0)"
    "if mmc_card_suspended (w_card w) then r = 0 \<and> w_ios v = w_ios w \<and> w_card v = w_card w
     else ios_power_mode (w_ios v) = (if r = 0 then MMC_POWER_OFF else ios_power_mode (w_ios w))"
    "\<not> mmc_card_suspended (w_card w) \<Longrightarrow> r = 0 \<Longrightarrow> at_rest b w v"
proof -
  let ?w = "log_event EvClaim 0 w"
  let ?m = "do {
      err \<leftarrow> (if card_state MMC_STATE_DOING_BKOPS (w_card ?w) then mmc_stop_bkops hooks else ret 0);
      if err \<noteq> 0 then ret err else mmc_quiesce b }"
  obtain e a where a: "run_state ?m ?w = (e, a)" by fastforce
  obtain c where c: "run_state mmc_power_off a = ((), c)" by (rule unit_run)
  note steps = suspend_steps [OF a]
  have ac: "bus_only a c" by (rule bo.rel_run [OF power_bus(2) c])
  have run': "\<not> mmc_card_suspended (w_card w) \<Longrightarrow> r = e \<and> v = log_event EvRelease 0
      (if e = 0 then upd_card (card_set_state MMC_STATE_SUSPENDED) c else a)"
    using run a c by (auto simp: card_suspend_def split_beta split: if_splits)
  have asleep: "mmc_card_suspended (w_card w) \<Longrightarrow> r = 0 \<and> v = log_event EvRelease 0 ?w"
    using run by (auto simp: card_suspend_def)
  have set: "mmc_card_suspended (card_set_state MMC_STATE_SUSPENDED x)" for x
    by (rule card_state_set) simp
  have aw: "claims a = claims w @ [EvClaim]" "ios_power_mode (w_ios a) = ios_power_mode (w_ios w)"
    "mmc_card_suspended (w_card a) = mmc_card_suspended (w_card w)"
    using steps by (simp_all add: awake_def calm_def)
  note fs = bus_only_fields [OF ac] power_off_mode [OF c]
  show "claims v = claims w @ [EvClaim, EvRelease]"
    using run' asleep aw fs by (cases "mmc_card_suspended (w_card w)") (auto split: if_splits)
  show "mmc_card_suspended (w_card v) = (mmc_card_suspended (w_card w) \<or> r = 0)"
    using run' asleep aw fs set by (cases "mmc_card_suspended (w_card w)") (auto split: if_splits)
  show "if mmc_card_suspended (w_card w) then r = 0 \<and> w_ios v = w_ios w \<and> w_card v = w_card w
     else ios_power_mode (w_ios v) = (if r = 0 then MMC_POWER_OFF else ios_power_mode (w_ios w))"
    using run' asleep aw fs by (auto split: if_splits)
  assume live: "\<not> mmc_card_suspended (w_card w)" "r = 0"
  have "evolves a c" by (rule ev.rel_run [OF _ c]) (intro io_rel)
  moreover have "evolves w ?w" "evolves c v" using run' live by (simp_all add: evolves_def same_board_def log_event_def upd_card_def)
  ultimately show "at_rest b w v"
    using at_rest_mono [of b ?w a w v] steps run' live by (auto intro: ev.trn)
qed

end
