(* ===== verification/Mmc_Feature_Facts.thy ===== *)
theory Mmc_Feature_Facts
  imports Mmc_Life_Facts
begin

text \<open>
  The features that an initialisation of an MMC card records as enabled: each was switched
  on in the card, and what an initialisation records of one feature the later steps keep.
\<close>

section \<open>Fields of the EXT_CSD that an operation keeps\<close>

definition field_kept :: "(mmc_ext_csd \<Rightarrow> 'a) \<Rightarrow> mmc_world \<Rightarrow> mmc_world \<Rightarrow> bool" where
  "field_kept f w v \<longleftrightarrow> f (cd_ext_csd (w_card v)) = f (cd_ext_csd (w_card w))"

interpretation fk: io_preorder "field_kept f" for f
  by unfold_locales (auto simp: field_kept_def)

lemma settled_kept: "state_io_rel settled m \<Longrightarrow> state_io_rel (field_kept f) m"
proof -
  have "field_kept f w v" if "settled w v" for w v
    using settled_fields [OF that] by (simp add: field_kept_def)
  then show "state_io_rel settled m \<Longrightarrow> ?thesis" by (simp add: state_io_rel_def)
qed

lemma ext_kept_kept: "state_io_rel ext_kept m \<Longrightarrow> state_io_rel (field_kept f) m"
  by (simp add: state_io_rel_def field_kept_def ext_kept_def)

lemma update_kept: "(\<And>x. f (g x) = f x) \<Longrightarrow> state_io_rel (field_kept f) (modify (upd_card (upd_ec g)))"
  by (intro fk.rel_modify) (simp add: field_kept_def upd_card_def upd_ec_def)

lemma other_kept:
  "state_io_rel (field_kept f) (modify (upd_host h))" "state_io_rel (field_kept f) (emit e n)"
  "state_io_rel (field_kept f) (modify (upd_card (\<lambda>c. c\<lparr>cd_reenable_cmdq := k c\<rparr>)))"
  unfolding emit_def by (intro fk.rel_modify; simp add: field_kept_def upd_defs log_event_def)+

lemmas kept_intros = fk.rel_intros other_kept settled_kept [OF io.switch_settled(3)] ext_kept_kept [OF timing_ext(2)] update_kept

lemma late_steps_kept:
  "(\<And>x y. f (x\<lparr>ec_power_off_notification := y\<rparr>) = f x) \<Longrightarrow>
    state_io_rel (field_kept f) mmc_init_power_off_note"
  "state_io_rel (field_kept f) mmc_init_timing"
  "(\<And>x y. f (x\<lparr>ec_hpi_en := y\<rparr>) = f x) \<Longrightarrow> state_io_rel (field_kept f) mmc_init_hpi"
  "(\<And>x y. f (x\<lparr>ec_cache_ctrl := y\<rparr>) = f x) \<Longrightarrow> state_io_rel (field_kept f) mmc_init_cache"
  "(\<And>x y. f (x\<lparr>ec_cmdq_en := y\<rparr>) = f x) \<Longrightarrow> (\<And>x y. f (x\<lparr>ec_cmdq_support := y\<rparr>) = f x) \<Longrightarrow>
    (\<And>x y. f (x\<lparr>ec_cmdq_depth := y\<rparr>) = f x) \<Longrightarrow> state_io_rel (field_kept f) mmc_init_cmdq"
  "state_io_rel (field_kept f) mmc_init_voltage"
  unfolding mmc_init_power_off_note_def mmc_init_hpi_def mmc_init_cache_def mmc_init_cmdq_def
    mmc_init_voltage_def mmc_cmdq_enable_def mmc_cmdq_switch_def Let_def
  by (intro kept_intros; simp)+

section \<open>What is recorded was switched on\<close>

lemma init_hpi_switched:
  assumes "run_state mmc_init_hpi w = (0, v)"
  shows "if ec_hpi (cd_ext_csd (w_card v)) \<and> ec_hpi_en (cd_ext_csd (w_card v))
    then switched w v EXT_CSD_HPI_MGMT 1 else True"
proof -
  obtain e a where a: "run_state (mmc_switch hooks EXT_CSD_CMD_SET_NORMAL EXT_CSD_HPI_MGMT 1 (cmd6_time w)) w
      = (e, a)" by fastforce
  have "w_card a = w_card w"
    using settled_fields [OF st.rel_run [OF io.switch_settled(3) a]] by simp
  then show ?thesis
    using assms a switch_switched [of EXT_CSD_HPI_MGMT 1 _ w a]
    by (auto simp: mmc_init_hpi_def switched_def split: if_splits)
qed

lemma init_cache_switched:
  assumes "run_state mmc_init_cache w = (0, v)"
  shows "if ec_cache_size (cd_ext_csd (w_card v)) = 0 \<or> ec_cache_ctrl (cd_ext_csd (w_card v)) = 0 then True
    else ec_cache_ctrl (cd_ext_csd (w_card v)) = 1 \<and> switched w v EXT_CSD_CACHE_CTRL 1"
proof -
  obtain e a where a: "run_state (mmc_switch hooks EXT_CSD_CMD_SET_NORMAL EXT_CSD_CACHE_CTRL 1
      (max (cmd6_time w) MIN_CACHE_EN_TIMEOUT_MS)) w = (e, a)" by fastforce
  have "w_card a = w_card w"
    using settled_fields [OF st.rel_run [OF io.switch_settled(3) a]] by simp
  then show ?thesis
    using assms a switch_switched [of EXT_CSD_CACHE_CTRL 1 _ w a]
    by (auto simp: mmc_init_cache_def switched_def split: if_splits)
qed

lemma cmdq_enable_switched:
  assumes "run_state (mmc_cmdq_enable hooks) w = (e, v)" and "\<not> ec_cmdq_en (cd_ext_csd (w_card w))"
  shows "if ec_cmdq_en (cd_ext_csd (w_card v))
    then switched w v EXT_CSD_CMDQ_MODE_EN EXT_CSD_CMDQ_MODE_ENABLED else True"
proof -
  obtain f a where a: "run_state (mmc_switch hooks EXT_CSD_CMD_SET_NORMAL EXT_CSD_CMDQ_MODE_EN
      EXT_CSD_CMDQ_MODE_ENABLED (cmd6_time w)) w = (f, a)" by fastforce
  have "w_card a = w_card w"
    using settled_fields [OF st.rel_run [OF io.switch_settled(3) a]] by simp
  then show ?thesis
    using assms a switch_switched [of EXT_CSD_CMDQ_MODE_EN EXT_CSD_CMDQ_MODE_ENABLED _ w a]
    by (auto simp: mmc_cmdq_enable_def mmc_cmdq_switch_def switched_def Let_def split: if_splits)
qed

lemma init_cmdq_switched:
  assumes run: "run_state mmc_init_cmdq w = (r, v)"
  shows "if ec_cmdq_en (cd_ext_csd (w_card v))
    then switched w v EXT_CSD_CMDQ_MODE_EN EXT_CSD_CMDQ_MODE_ENABLED else True"
proof -
  let ?w = "upd_card (upd_ec (\<lambda>x. x\<lparr>ec_cmdq_en := False\<rparr>)) w"
  obtain e a where a: "run_state (mmc_cmdq_enable hooks) ?w = (e, a)" by fastforce
  have wa: "evolves ?w a" by (rule ev.rel_run [OF _ a]) (intro io_rel)
  define u where "u = (if ec_cmdq_support (cd_ext_csd (w_card ?w)) \<and> MMC_CAP2_CQE \<in> h_caps2 (w_host ?w)
    then (if e = - EBADMSG
      then upd_card (upd_ec (\<lambda>x. x\<lparr>ec_cmdq_support := False, ec_cmdq_depth := 0\<rparr>)) a else a) else ?w)"
  have "w_trace v = w_trace u @ [EvCqeEnable] \<and> ec_cmdq_en (cd_ext_csd (w_card v)) = ec_cmdq_en (cd_ext_csd (w_card u)) \<or>
    w_trace v = w_trace u \<and> ec_cmdq_en (cd_ext_csd (w_card v)) = ec_cmdq_en (cd_ext_csd (w_card u))"
    using run a by (auto simp: mmc_init_cmdq_def u_def emit_def upd_defs split: if_splits)
  then have vu: "prefix (w_trace u) (w_trace v)"
      "ec_cmdq_en (cd_ext_csd (w_card v)) = ec_cmdq_en (cd_ext_csd (w_card u))" by auto
  have "w_trace u = w_trace a \<and> ec_cmdq_en (cd_ext_csd (w_card u)) = ec_cmdq_en (cd_ext_csd (w_card a))
      \<or> \<not> ec_cmdq_en (cd_ext_csd (w_card u))"
    by (simp add: u_def upd_defs upd_ec_def)
  moreover have "switched w u i b \<Longrightarrow> switched w v i b" for i b
    using vu(1) unfolding switched_def by (blast intro: prefix_order.trans)
  moreover have "switched ?w a i b \<Longrightarrow> w_trace u = w_trace a \<Longrightarrow> switched w u i b" for i b
    by (simp add: switched_def upd_card_def)
  ultimately show ?thesis
    using cmdq_enable_switched [OF a] vu(2) by (auto simp: upd_ec_def)
qed

lemma init_partition_cleared:
  assumes "run_state mmc_init_partition w = (0, v)"
  shows "ec_part_config (cd_ext_csd (w_card v)) AND EXT_CSD_PART_CONFIG_ACC_MASK = 0"
proof -
  define u where "u = upd_card (upd_ec (\<lambda>x. x\<lparr>ec_part_config :=
    ec_part_config x AND NOT EXT_CSD_PART_CONFIG_ACC_MASK\<rparr>)) w"
  let ?x = "cd_ext_csd (w_card u)"
  obtain e a where a: "run_state (mmc_switch hooks EXT_CSD_CMD_SET_NORMAL EXT_CSD_PART_CONFIG
      (ec_part_config ?x) (ec_part_time ?x)) u = (e, a)" by fastforce
  have "(k AND NOT EXT_CSD_PART_CONFIG_ACC_MASK) AND EXT_CSD_PART_CONFIG_ACC_MASK = 0" for k :: u8
    by (rule bit_word_eqI) (auto simp: bit_simps)
  then have "ec_part_config (cd_ext_csd (w_card a)) AND EXT_CSD_PART_CONFIG_ACC_MASK = 0"
    using settled_fields [OF st.rel_run [OF io.switch_settled(3) a]]
    by (simp add: u_def upd_card_def upd_ec_def)
  moreover have "w_card v = w_card w \<and>
      ec_part_config (cd_ext_csd (w_card w)) AND EXT_CSD_PART_CONFIG_ACC_MASK = 0 \<or> v = a"
    using assms a by (auto simp: mmc_init_partition_def u_def Let_def split: if_splits)
  ultimately show ?thesis by auto
qed

section \<open>The whole initialisation\<close>

text \<open>
  A step of a successful sequence succeeds in between, and what the later steps keep is as the
  step left it.
\<close>

lemma io_steps_at:
  assumes "run_state (io_steps (pre @ m # post)) w = (0, v)"
    and "list_all (state_io_rel evolves) (pre @ m # post)"
  obtains x y where "evolves w x" "run_state m x = (0, y)" "evolves y v"
    "run_state (io_steps post) y = (0, v)"
  using assms
proof (induction pre arbitrary: w thesis)
  case Nil
  from Nil.prems(2) [unfolded append_Nil] obtain y
    where y: "run_state m w = (0, y)" "run_state (io_steps post) y = (0, v)" by (rule io_steps_ok)
  moreover have "evolves y v"
    using Nil.prems(3) by (intro ev.rel_run [OF io_steps_rel [OF ev.io_preorder_axioms] y(2)]) simp
  ultimately show ?case using Nil.prems(1) ev.rfl by blast
next
  case (Cons n pre)
  from Cons.prems(2) [unfolded append_Cons] obtain u where u: "run_state n w = (0, u)"
      "run_state (io_steps (pre @ m # post)) u = (0, v)" by (rule io_steps_ok)
  moreover have "evolves w u" using Cons.prems(3) u(1) by (auto intro: ev.rel_run)
  ultimately show ?case using Cons.IH [OF _ u(2)] Cons.prems(1,3) by (auto intro: ev.trn)
qed

lemma io_steps_kept:
  assumes "run_state (io_steps post) y = (0, v)" and "list_all (state_io_rel (field_kept f)) post"
  shows "f (cd_ext_csd (w_card v)) = f (cd_ext_csd (w_card y))"
  using fk.rel_run [OF io_steps_rel [OF fk.io_preorder_axioms assms(2)] assms(1)]
  by (simp add: field_kept_def)

definition features_on :: "mmc_world \<Rightarrow> mmc_world \<Rightarrow> bool" where
  "features_on w v \<longleftrightarrow> (let x = cd_ext_csd (w_card v) in
    ec_part_config x AND EXT_CSD_PART_CONFIG_ACC_MASK = 0 \<and>
    (if ec_hpi x \<and> ec_hpi_en x then switched w v EXT_CSD_HPI_MGMT 1 else True) \<and>
    (if ec_cache_size x = 0 \<or> ec_cache_ctrl x = 0 then True
     else ec_cache_ctrl x = 1 \<and> switched w v EXT_CSD_CACHE_CTRL 1) \<and>
    (if ec_cmdq_en x then switched w v EXT_CSD_CMDQ_MODE_EN EXT_CSD_CMDQ_MODE_ENABLED else True))"

lemma init_steps_features:
  assumes run: "run_state (io_steps (mmc_init_steps rocr b)) w = (0, v)"
  shows "features_on w v"
proof -
  let ?x = "cd_ext_csd (w_card v)"
  let ?s1 = "[mmc_init_rca, mmc_init_csd b, mmc_init_select, mmc_init_ext_csd rocr b,
    mmc_init_erase_group]"
  let ?s2 = "?s1 @ [mmc_init_partition, mmc_init_power_off_note, mmc_init_timing]"
  note steps = run [unfolded mmc_init_steps_def] init_steps_rel(1) [of rocr b, unfolded mmc_init_steps_def]
  have "ec_part_config ?x AND EXT_CSD_PART_CONFIG_ACC_MASK = 0"
  proof (rule io_steps_at [of ?s1 mmc_init_partition])
    show "run_state (io_steps (?s1 @ mmc_init_partition # [mmc_init_power_off_note, mmc_init_timing,
        mmc_init_hpi, mmc_init_cache, mmc_init_cmdq, mmc_init_voltage])) w = (0, v)" using steps by simp
  next
    fix x y assume y: "run_state mmc_init_partition x = (0, y)" "run_state (io_steps
        [mmc_init_power_off_note, mmc_init_timing, mmc_init_hpi, mmc_init_cache, mmc_init_cmdq,
         mmc_init_voltage]) y = (0, v)"
    show ?thesis
      using init_partition_cleared [OF y(1)] io_steps_kept [OF y(2), of ec_part_config]
      by (simp add: late_steps_kept)
  qed (use steps in simp)
  moreover have "if ec_hpi ?x \<and> ec_hpi_en ?x then switched w v EXT_CSD_HPI_MGMT 1 else True"
  proof (rule io_steps_at [of ?s2 mmc_init_hpi])
    show "run_state (io_steps (?s2 @ mmc_init_hpi # [mmc_init_cache, mmc_init_cmdq, mmc_init_voltage]))
        w = (0, v)" using steps by simp
  next
    fix x y assume y: "evolves w x" "run_state mmc_init_hpi x = (0, y)" "evolves y v"
      "run_state (io_steps [mmc_init_cache, mmc_init_cmdq, mmc_init_voltage]) y = (0, v)"
    show ?thesis
      using init_hpi_switched [OF y(2)] switched_mono [OF _ y(1,3)]
        io_steps_kept [OF y(4), of "\<lambda>x. (ec_hpi x, ec_hpi_en x)"]
      by (auto simp: late_steps_kept split: if_splits)
  qed (use steps in simp)
  moreover have "if ec_cache_size ?x = 0 \<or> ec_cache_ctrl ?x = 0 then True
    else ec_cache_ctrl ?x = 1 \<and> switched w v EXT_CSD_CACHE_CTRL 1"
  proof (rule io_steps_at [of "?s2 @ [mmc_init_hpi]" mmc_init_cache])
    show "run_state (io_steps ((?s2 @ [mmc_init_hpi]) @ mmc_init_cache # [mmc_init_cmdq, mmc_init_voltage]))
        w = (0, v)" using steps by simp
  next
    fix x y assume y: "evolves w x" "run_state mmc_init_cache x = (0, y)" "evolves y v"
      "run_state (io_steps [mmc_init_cmdq, mmc_init_voltage]) y = (0, v)"
    show ?thesis
      using init_cache_switched [OF y(2)] switched_mono [OF _ y(1,3)]
        io_steps_kept [OF y(4), of "\<lambda>x. (ec_cache_size x, ec_cache_ctrl x)"]
      by (auto simp: late_steps_kept split: if_splits)
  qed (use steps in simp)
  moreover have "if ec_cmdq_en ?x
    then switched w v EXT_CSD_CMDQ_MODE_EN EXT_CSD_CMDQ_MODE_ENABLED else True"
  proof (rule io_steps_at [of "?s2 @ [mmc_init_hpi, mmc_init_cache]" mmc_init_cmdq])
    show "run_state (io_steps ((?s2 @ [mmc_init_hpi, mmc_init_cache]) @ mmc_init_cmdq # [mmc_init_voltage]))
        w = (0, v)" using steps by simp
  next
    fix x y assume y: "evolves w x" "run_state mmc_init_cmdq x = (0, y)" "evolves y v"
      "run_state (io_steps [mmc_init_voltage]) y = (0, v)"
    show ?thesis
      using init_cmdq_switched [OF y(2)] switched_mono [OF _ y(1,3)]
        io_steps_kept [OF y(4), of ec_cmdq_en] by (auto simp: late_steps_kept split: if_splits)
  qed (use steps in simp)
  ultimately show ?thesis by (simp add: features_on_def Let_def)
qed

lemma init_card_features:
  assumes run: "run_state (mmc_init_card ocr b) w = (0, v)"
  shows "features_on w v"
proof -
  obtain x a where a: "run_state (mmc_identify ocr) w = (x, a)" by fastforce
  from run a identify_error [of ocr w _ a] obtain rocr cid where x: "x = Inr (rocr, cid)"
    by (cases x) (auto simp: mmc_init_card_def)
  obtain e c where c: "run_state (mmc_card_object ocr cid b) a = (e, c)" by fastforce
  obtain f d where d: "run_state (io_steps (mmc_init_steps rocr b)) c = (f, d)" by fastforce
  have e: "e = 0" "f = 0" and v: "w_trace v = w_trace d" "w_card v = w_card d"
    using run a x c d by (auto simp: mmc_init_card_def upd_host_def split: if_splits prod.splits)
  have wc: "evolves w c"
    using ev.rel_run [OF init_first_rel(1) a] ev.rel_run [OF init_first_rel(4) c] by (rule ev.trn)
  have "switched c d i n \<Longrightarrow> switched w v i n" for i n
    using switched_mono [OF _ wc ev.rfl, of d] v(1) by (simp add: switched_def)
  with init_steps_features [OF d [unfolded e]] show ?thesis
    by (auto simp: features_on_def Let_def v split: if_splits)
qed

end
