(* ===== verification/Mmc_Properties.thy ===== *)
theory Mmc_Properties
  imports Mmc_Feature_Facts Quiet_World
begin

text \<open>The properties of the life of MMC cards.\<close>

section \<open>Initialisation\<close>


section \<open>Suspend\<close>

text \<open>
  C31: \<open>mmc_suspend\<close> claims and releases the host once and marks the card as suspended exactly
  when it returns 0; then the bus is off and runtime PM is disabled and suspended, otherwise the
  power stays on.
\<close>

theorem mmc_suspend_outcome:
  assumes "run_state mmc_suspend w = (r, v)"
  shows "filter claim_event (w_trace v) = filter claim_event (w_trace w) @ [EvClaim, EvRelease] @
      (if r = 0 then [EvPm PM_DISABLE, EvPm PM_SET_SUSPENDED] else []) \<and>
    mmc_card_suspended (w_card v) = (mmc_card_suspended (w_card w) \<or> r = 0) \<and>
    (if mmc_card_suspended (w_card w) then r = 0 \<and> w_ios v = w_ios w \<and> w_card v = w_card w
     else ios_power_mode (w_ios v) = (if r = 0 then MMC_POWER_OFF else ios_power_mode (w_ios w)))"
proof -
  obtain e a where a: "run_state (card_suspend True) w = (e, a)" by fastforce
  from assms a have "r = e" "v = (if e = 0 then log_event (EvPm PM_SET_SUSPENDED) 0
      (log_event (EvPm PM_DISABLE) 0 a) else a)"
    by (auto simp: mmc_suspend_def split: if_splits)
  with card_suspend_result(1-3) [OF a] show ?thesis by auto
qed

lemma mmc_suspend_outcome_witness:
  "\<exists>r v. run_state mmc_suspend world_ok = (r, v) \<and>
    (if r = 0 then ios_power_mode (w_ios v) = MMC_POWER_OFF \<and> mmc_card_suspended (w_card v)
     else \<not> mmc_card_suspended (w_card v))"
proof -
  obtain r v where run: "run_state mmc_suspend world_ok = (r, v)" by fastforce
  have "\<not> mmc_card_suspended (w_card world_ok)" by (simp add: world_defs card_state_def)
  with mmc_suspend_outcome [OF run] run show ?thesis by auto
qed

text \<open>
  C32: when \<open>mmc_suspend\<close> returns 0 for a card that was awake, the controller has completed
  what puts it to rest: the flush of an active cache, and the power-off notification, or the
  deselection followed by the sleep command with the card's address, or the deselection,
  whichever is the first that card and host support.
\<close>

theorem mmc_suspend_rests:
  assumes "run_state mmc_suspend w = (0, v)" and "\<not> mmc_card_suspended (w_card w)"
  shows "at_rest True w v"
proof -
  obtain e a where a: "run_state (card_suspend True) w = (e, a)" by fastforce
  from assms(1) a have e: "e = 0" and v: "v = log_event (EvPm PM_SET_SUSPENDED) 0 (log_event (EvPm PM_DISABLE) 0 a)"
    by (auto simp: mmc_suspend_def split: if_splits)
  have "evolves a v" unfolding v by (simp add: evolves_def same_board_def log_event_def)
  with card_suspend_result(4) [OF a assms(2) e] show ?thesis
    by (rule at_rest_mono [OF _ ev.rfl]) simp_all
qed

text \<open>The example card is of revision 0, without a cache: it is deselected.\<close>

lemma mmc_suspend_rests_witness:
  "\<exists>v t. run_state mmc_suspend world_ok = (0, v) \<and> served ops_ok (w_trace v) deselect_cmd t"
proof -
  let ?w = "log_event EvClaim 0 world_ok"
  let ?a = "log_event (EvRequest (sent deselect_cmd MMC_CMD_RETRIES)) 0 (tuned ?w)"
  obtain d where "run_state (mmc_wait_for_cmd hooks deselect_cmd MMC_CMD_RETRIES) ?w = (d, ?a)"
      "cmd_error d = 0"
    using cmd_quiet [of ?w deselect_cmd MMC_CMD_RETRIES] quiet_world by (simp add: cmd0_def)
  then have des: "run_state (mmc_deselect_cards hooks) ?w = (0, ?a)"
    by (simp add: mmc_deselect_cards_def select_card_def)
  obtain b where b: "run_state mmc_power_off ?a = ((), b)" by (rule unit_run)
  have awake: "\<not> mmc_card_suspended (w_card world_ok)" by (simp add: world_defs card_state_def)
  have fields: "cd_ext_csd (w_card world_ok) = ext_csd0" "cd_state (w_card world_ok) = 0"
    "\<not> mmc_host_is_spi world_ok" by (simp_all add: world_defs)
  have flush: "run_state (mmc_flush_cache hooks) ?w = (0, ?w)"
    by (simp add: mmc_flush_cache_def fields ext_csd0_def)
  have "run_state (mmc_quiesce True) ?w = (0, ?a)"
    using flush des fields by (simp add: mmc_quiesce_def mmc_can_poweroff_notify_def
      mmc_can_sleep_def ext_csd0_def)
  then have "fst (run_state mmc_suspend world_ok) = 0"
    using b fields awake by (simp add: mmc_suspend_def card_suspend_def card_state_def split_beta)
  then obtain v where run: "run_state mmc_suspend world_ok = (0, v)" by (metis prod.collapse)
  from mmc_suspend_rests [OF this awake] run show ?thesis
    using fields by (auto simp: at_rest_def Let_def mmc_can_poweroff_notify_def
      mmc_can_sleep_def ext_csd0_def world_ok_def host_ok_def)
qed

end
