(* ===== verification/Sdio_Header.thy ===== *)
theory Sdio_Header
  imports Mmc_Types
begin

text \<open>
  The constants of \<open>linux/mmc/sdio.h\<close> and \<open>linux/mmc/pm.h\<close> that the SDIO part of the core names:
  addresses and bits of the common and of the functions' registers, bits of the responses.
\<close>

abbreviation (input) ENODEV :: int where "ENODEV \<equiv> 19"
abbreviation (input) ETIME :: int where "ETIME \<equiv> 62"

abbreviation (input) SD_IO_SEND_OP_COND :: u32 where "SD_IO_SEND_OP_COND \<equiv> 5"

section \<open>Responses\<close>

abbreviation (input) R4_18V_PRESENT :: u32 where "R4_18V_PRESENT \<equiv> 0x1000000"
abbreviation (input) R4_MEMORY_PRESENT :: u32 where "R4_MEMORY_PRESENT \<equiv> 0x8000000"
abbreviation (input) R5_ERROR :: u32 where "R5_ERROR \<equiv> 0x800"
abbreviation (input) R5_FUNCTION_NUMBER :: u32 where "R5_FUNCTION_NUMBER \<equiv> 0x200"
abbreviation (input) R5_OUT_OF_RANGE :: u32 where "R5_OUT_OF_RANGE \<equiv> 0x100"

section \<open>Card common control registers\<close>

abbreviation (input) SDIO_CCCR_CCCR :: u32 where "SDIO_CCCR_CCCR \<equiv> 0x00"
abbreviation (input) SDIO_CCCR_IOEx :: u32 where "SDIO_CCCR_IOEx \<equiv> 0x02"
abbreviation (input) SDIO_CCCR_IORx :: u32 where "SDIO_CCCR_IORx \<equiv> 0x03"
abbreviation (input) SDIO_CCCR_IENx :: u32 where "SDIO_CCCR_IENx \<equiv> 0x04"
abbreviation (input) SDIO_CCCR_INTx :: u32 where "SDIO_CCCR_INTx \<equiv> 0x05"
abbreviation (input) SDIO_CCCR_ABORT :: u32 where "SDIO_CCCR_ABORT \<equiv> 0x06"
abbreviation (input) SDIO_CCCR_IF :: u32 where "SDIO_CCCR_IF \<equiv> 0x07"
abbreviation (input) SDIO_CCCR_CAPS :: u32 where "SDIO_CCCR_CAPS \<equiv> 0x08"
abbreviation (input) SDIO_CCCR_POWER :: u32 where "SDIO_CCCR_POWER \<equiv> 0x12"
abbreviation (input) SDIO_CCCR_SPEED :: u32 where "SDIO_CCCR_SPEED \<equiv> 0x13"
abbreviation (input) SDIO_CCCR_UHS :: u32 where "SDIO_CCCR_UHS \<equiv> 0x14"
abbreviation (input) SDIO_CCCR_DRIVE_STRENGTH :: u32 where "SDIO_CCCR_DRIVE_STRENGTH \<equiv> 0x15"

abbreviation (input) SDIO_CCCR_REV_1_10 :: u8 where "SDIO_CCCR_REV_1_10 \<equiv> 1"
abbreviation (input) SDIO_CCCR_REV_1_20 :: u8 where "SDIO_CCCR_REV_1_20 \<equiv> 2"
abbreviation (input) SDIO_CCCR_REV_3_00 :: u8 where "SDIO_CCCR_REV_3_00 \<equiv> 3"
abbreviation (input) SDIO_SDIO_REV_1_00 :: u32 where "SDIO_SDIO_REV_1_00 \<equiv> 0"
abbreviation (input) SDIO_SDIO_REV_1_10 :: u32 where "SDIO_SDIO_REV_1_10 \<equiv> 1"

abbreviation (input) SDIO_CCCR_CAP_SMB :: u8 where "SDIO_CCCR_CAP_SMB \<equiv> 0x02"
abbreviation (input) SDIO_CCCR_CAP_LSC :: u8 where "SDIO_CCCR_CAP_LSC \<equiv> 0x40"
abbreviation (input) SDIO_CCCR_CAP_4BLS :: u8 where "SDIO_CCCR_CAP_4BLS \<equiv> 0x80"
abbreviation (input) SDIO_POWER_SMPC :: u8 where "SDIO_POWER_SMPC \<equiv> 0x01"
abbreviation (input) SDIO_SPEED_SHS :: u8 where "SDIO_SPEED_SHS \<equiv> 0x01"
abbreviation (input) SDIO_SPEED_BSS_MASK :: u8 where "SDIO_SPEED_BSS_MASK \<equiv> 0x0E"
abbreviation (input) SDIO_SPEED_SDR12 :: u8 where "SDIO_SPEED_SDR12 \<equiv> 0x00"
abbreviation (input) SDIO_SPEED_SDR25 :: u8 where "SDIO_SPEED_SDR25 \<equiv> 0x02"
abbreviation (input) SDIO_SPEED_SDR50 :: u8 where "SDIO_SPEED_SDR50 \<equiv> 0x04"
abbreviation (input) SDIO_SPEED_SDR104 :: u8 where "SDIO_SPEED_SDR104 \<equiv> 0x06"
abbreviation (input) SDIO_SPEED_DDR50 :: u8 where "SDIO_SPEED_DDR50 \<equiv> 0x08"
abbreviation (input) SDIO_SPEED_EHS :: u8 where "SDIO_SPEED_EHS \<equiv> 0x02"
abbreviation (input) SDIO_UHS_SDR50 :: u8 where "SDIO_UHS_SDR50 \<equiv> 0x01"
abbreviation (input) SDIO_UHS_SDR104 :: u8 where "SDIO_UHS_SDR104 \<equiv> 0x02"
abbreviation (input) SDIO_UHS_DDR50 :: u8 where "SDIO_UHS_DDR50 \<equiv> 0x04"
abbreviation (input) SDIO_DRIVE_SDTA :: u8 where "SDIO_DRIVE_SDTA \<equiv> 0x01"
abbreviation (input) SDIO_DRIVE_SDTC :: u8 where "SDIO_DRIVE_SDTC \<equiv> 0x02"
abbreviation (input) SDIO_DRIVE_SDTD :: u8 where "SDIO_DRIVE_SDTD \<equiv> 0x04"
abbreviation (input) SDIO_DRIVE_DTS :: u8 where "SDIO_DRIVE_DTS \<equiv> 0x30"
abbreviation (input) SDIO_BUS_WIDTH_MASK :: u8 where "SDIO_BUS_WIDTH_MASK \<equiv> 0x03"
abbreviation (input) SDIO_BUS_WIDTH_4BIT :: u8 where "SDIO_BUS_WIDTH_4BIT \<equiv> 0x02"
abbreviation (input) SDIO_BUS_ASYNC_INT :: u8 where "SDIO_BUS_ASYNC_INT \<equiv> 0x20"
abbreviation (input) SDIO_BUS_CD_DISABLE :: u8 where "SDIO_BUS_CD_DISABLE \<equiv> 0x80"

section \<open>Function basic registers\<close>

definition SDIO_FBR_BASE :: "u32 \<Rightarrow> u32" where
  "SDIO_FBR_BASE f = f * 0x100"

abbreviation (input) SDIO_FBR_STD_IF :: u32 where "SDIO_FBR_STD_IF \<equiv> 0x00"
abbreviation (input) SDIO_FBR_STD_IF_EXT :: u32 where "SDIO_FBR_STD_IF_EXT \<equiv> 0x01"
abbreviation (input) SDIO_FBR_CIS :: u32 where "SDIO_FBR_CIS \<equiv> 0x09"
abbreviation (input) SDIO_FBR_BLKSIZE :: u32 where "SDIO_FBR_BLKSIZE \<equiv> 0x10"
abbreviation (input) SDIO_MAX_FUNCS :: nat where "SDIO_MAX_FUNCS \<equiv> 7"
abbreviation (input) SDIO_CLASS_NONE :: u8 where "SDIO_CLASS_NONE \<equiv> 0"

section \<open>Power management flags of a host\<close>

abbreviation (input) MMC_PM_KEEP_POWER :: u32 where "MMC_PM_KEEP_POWER \<equiv> 1"
abbreviation (input) MMC_PM_WAKE_SDIO_IRQ :: u32 where "MMC_PM_WAKE_SDIO_IRQ \<equiv> 2"

definition mmc_card_keep_power :: "mmc_host \<Rightarrow> bool" where
  "mmc_card_keep_power h \<longleftrightarrow> h_pm_flags h AND MMC_PM_KEEP_POWER \<noteq> 0"

definition mmc_card_wake_sdio_irq :: "mmc_host \<Rightarrow> bool" where
  "mmc_card_wake_sdio_irq h \<longleftrightarrow> h_pm_flags h AND MMC_PM_WAKE_SDIO_IRQ \<noteq> 0"

end
