(* ===== verification/Sdio_Ops.thy ===== *)
theory Sdio_Ops
  imports Command_Frame Sdio_Header
begin

text \<open>
  The commands of SDIO cards (\<open>mmc/core/sdio_ops.c\<close>): operating conditions, transfers of a byte
  and of blocks, and the reset of the I/O part.
\<close>

section \<open>Operating conditions\<close>

text \<open>The loop of \<open>mmc_send_io_op_cond\<close>: the return code and the last command.\<close>

fun io_op_cond_loop :: "u32 \<Rightarrow> nat \<Rightarrow> int \<Rightarrow> mmc_command \<Rightarrow> (int \<times> mmc_command) io" where
  "io_op_cond_loop ocr 0 err cmd = ret (err, cmd)"
| "io_op_cond_loop ocr (Suc i) err cmd = do {
     cmd \<leftarrow> mmc_wait_for_cmd hooks cmd MMC_CMD_RETRIES;
     w \<leftarrow> gets id;
     if cmd_error cmd \<noteq> 0 then ret (cmd_error cmd, cmd)
     else if ocr = 0 then ret (0, cmd)
     else if cmd_resp cmd ! (if mmc_host_is_spi w then 1 else 0) AND MMC_CARD_BUSY \<noteq> 0
     then ret (0, cmd)
     else do { mmc_delay 10; io_op_cond_loop ocr i (- ETIMEDOUT) cmd }
   }"

text \<open>The second result is stored through \<open>rocr\<close>, also when the first is an error.\<close>

definition mmc_send_io_op_cond :: "u32 \<Rightarrow> (int \<times> u32) io" where
  "mmc_send_io_op_cond ocr = do {
     r \<leftarrow> io_op_cond_loop ocr 100 0 (cmd0\<lparr>cmd_opcode := SD_IO_SEND_OP_COND, cmd_arg := ocr,
       cmd_flags := {MMC_RSP_SPI_R4, MMC_RSP_R4, MMC_CMD_BCR}\<rparr>);
     w \<leftarrow> gets id;
     ret (fst r, cmd_resp (snd r) ! (if mmc_host_is_spi w then 1 else 0))
   }"

section \<open>Transfers\<close>

text \<open>What the flags of a response to a transfer mean, on hosts that do not check them.\<close>

definition r5_error :: "u32 \<Rightarrow> int" where
  "r5_error resp = (if resp AND R5_ERROR \<noteq> 0 then - EIO
     else if resp AND R5_FUNCTION_NUMBER \<noteq> 0 then - EINVAL
     else if resp AND R5_OUT_OF_RANGE \<noteq> 0 then - ERANGE else 0)"

definition rw_direct_cmd :: "bool \<Rightarrow> u32 \<Rightarrow> u32 \<Rightarrow> u8 \<Rightarrow> bool \<Rightarrow> mmc_command" where
  "rw_direct_cmd write fn addr inp want_out =
    cmd0\<lparr>cmd_opcode := SD_IO_RW_DIRECT,
      cmd_arg := (if write then 0x80000000 else 0) OR push_bit 28 fn
        OR (if write \<and> want_out then 0x08000000 else 0) OR push_bit 9 addr OR ucast inp,
      cmd_flags := {MMC_RSP_SPI_R5, MMC_RSP_R5, MMC_CMD_AC}\<rparr>"

text \<open>
  \<open>mmc_io_rw_direct_host\<close>; \<open>want_out\<close> tells whether \<open>out\<close> is not NULL.  The second result is the
  byte that is stored through it when the first is 0.
\<close>

definition mmc_io_rw_direct :: "bool \<Rightarrow> u32 \<Rightarrow> u32 \<Rightarrow> u8 \<Rightarrow> bool \<Rightarrow> (int \<times> u8) io" where
  "mmc_io_rw_direct write fn addr inp want_out =
    (if fn > 7 then ret (- EINVAL, 0)
     else if addr AND NOT 0x1FFFF \<noteq> 0 then ret (- EINVAL, 0)
     else do {
       cmd \<leftarrow> mmc_wait_for_cmd hooks (rw_direct_cmd write fn addr inp want_out) 0;
       w \<leftarrow> gets id;
       let resp = cmd_resp cmd ! 0;
       if cmd_error cmd \<noteq> 0 then ret (cmd_error cmd, 0)
       else if \<not> mmc_host_is_spi w \<and> r5_error resp \<noteq> 0 then ret (r5_error resp, 0)
       else ret (0, ucast (if mmc_host_is_spi w then drop_bit 8 resp AND 0xFF else resp AND 0xFF))
     })"

text \<open>
  The segments of a buffer that is longer than the largest segment: the loop over the scatter
  list, with the number of entries left.
\<close>

fun sg_lengths :: "nat \<Rightarrow> u32 \<Rightarrow> u32 \<Rightarrow> u32 list" where
  "sg_lengths 0 seg_size left_size = []"
| "sg_lengths (Suc n) seg_size left_size =
    min seg_size left_size # sg_lengths n seg_size (left_size - seg_size)"

definition rw_extended_cmd :: "bool \<Rightarrow> u32 \<Rightarrow> u32 \<Rightarrow> bool \<Rightarrow> u32 \<Rightarrow> u32 \<Rightarrow> mmc_command" where
  "rw_extended_cmd write fn addr incr_addr blocks blksz =
    cmd0\<lparr>cmd_opcode := SD_IO_RW_EXTENDED,
      cmd_arg := (if write then 0x80000000 else 0) OR push_bit 28 fn
        OR (if incr_addr then 0x04000000 else 0) OR push_bit 9 addr
        OR (if blocks = 0 then (if blksz = 512 then 0 else blksz) else 0x08000000 OR blocks),
      cmd_flags := {MMC_RSP_SPI_R5, MMC_RSP_R5, MMC_CMD_ADTC}\<rparr>"

text \<open>
  The buffer is the part of the caller's that the transfer covers; the second result is the
  buffer afterwards.  The scatter list of several entries is an allocation of its number of
  entries.
\<close>

definition mmc_io_rw_extended ::
  "bool \<Rightarrow> u32 \<Rightarrow> u32 \<Rightarrow> bool \<Rightarrow> u8 list \<Rightarrow> u32 \<Rightarrow> u32 \<Rightarrow> (int \<times> u8 list) io" where
  "mmc_io_rw_extended write fn addr incr_addr buf blocks blksz =
    (if addr AND NOT 0x1FFFF \<noteq> 0 then ret (- EINVAL, buf)
     else do {
       w \<leftarrow> gets id;
       let n = (if blocks = 0 then 1 else blocks);
       let left_size = blksz * n;
       let seg_size = h_max_seg_size (w_host w);
       let nents = (left_size + seg_size - 1) div seg_size;
       ok \<leftarrow> (if nents > 1 then kzalloc (unat nents) else ret True);
       if \<not> ok then ret (- ENOMEM, buf)
       else do {
         let sg = (if nents > 1 then sg_lengths (unat nents) seg_size left_size else [left_size]);
         w \<leftarrow> gets id;
         let d = mmc_set_data_timeout (w_host w) (w_card w) (dat0\<lparr>dat_blksz := blksz,
           dat_blocks := n, dat_flags := {if write then MMC_DATA_WRITE else MMC_DATA_READ},
           dat_sg := sg, dat_buf := buf\<rparr>);
         mrq \<leftarrow> mmc_wait_for_req hooks
           (mrq_of (rw_extended_cmd write fn addr incr_addr blocks blksz) (Some d));
         w \<leftarrow> gets id;
         let cmd = mrq_cmd mrq;
         let d = (case mrq_data mrq of None \<Rightarrow> dat0 | Some d \<Rightarrow> d);
         ret (if cmd_error cmd \<noteq> 0 then cmd_error cmd
              else if dat_error d \<noteq> 0 then dat_error d
              else if mmc_host_is_spi w then 0 else r5_error (cmd_resp cmd ! 0), dat_buf d)
       }
     })"

section \<open>Reset\<close>

definition sdio_reset :: "int io" where
  "sdio_reset = do {
     r \<leftarrow> mmc_io_rw_direct False 0 SDIO_CCCR_ABORT 0 True;
     let abort = (if fst r \<noteq> 0 then 0x08 else snd r OR 0x08);
     r \<leftarrow> mmc_io_rw_direct True 0 SDIO_CCCR_ABORT abort False;
     ret (fst r)
   }"

end
