(* ===== verification/Sdio_Cis.thy ===== *)
theory Sdio_Cis
  imports Sdio_Ops
begin

text \<open>
  The card information structure of SDIO cards (\<open>mmc/core/sdio_cis.c\<close>): a chain of tuples in the
  address space of function 0, read byte by byte and parsed by tables.

  A read behind the end of a tuple's buffer, and a copy that does not fit into its destination,
  are the result None; \<open>cis_parse_safe\<close> shows that there are none.  The card and the function
  whose information is read are passed and returned; without a function it is the common
  information of the card.
\<close>

section \<open>Checked accesses\<close>

definition byte_at :: "u8 list \<Rightarrow> nat \<Rightarrow> u8 option" where
  "byte_at buf i = (if i < length buf then Some (buf ! i) else None)"

definition le16_at :: "u8 list \<Rightarrow> nat \<Rightarrow> u32 option" where
  "le16_at buf i = do {
     lo \<leftarrow> byte_at buf i;
     hi \<leftarrow> byte_at buf (i + 1);
     Some (ucast lo OR push_bit 8 (ucast hi))
   }"

type_synonym cis_target = "mmc_card \<times> sdio_func option"
type_synonym cis_parser = "cis_target \<Rightarrow> u8 list \<Rightarrow> (int \<times> cis_target) option io"

text \<open>An assignment to the function if there is one, else to the card.\<close>

fun set_target :: "(mmc_card \<Rightarrow> mmc_card) \<Rightarrow> (sdio_func \<Rightarrow> sdio_func) \<Rightarrow> cis_target \<Rightarrow> cis_target" where
  "set_target g f (c, None) = (g c, None)"
| "set_target g f (c, Some fn) = (c, Some (f fn))"

section \<open>Parsers\<close>

text \<open>
  The first loop of \<open>cistpl_vers_1\<close>: the index at which it ends and the number of zeros that it
  has passed.
\<close>

fun vers_1_scan :: "u8 list \<Rightarrow> nat \<times> nat" where
  "vers_1_scan [] = (0, 0)"
| "vers_1_scan (b # bs) =
    (if b = 0xFF then (0, 0)
     else (case vers_1_scan bs of (i, nr) \<Rightarrow> (Suc i, if b = 0 then Suc nr else nr)))"

text \<open>
  \<open>strcpy\<close> reads to the zero and writes as many bytes; \<open>room\<close> is what is left of the
  destination.
\<close>

fun vers_1_strings :: "nat \<Rightarrow> nat \<Rightarrow> u8 list \<Rightarrow> u8 list list option" where
  "vers_1_strings 0 room buf = Some []"
| "vers_1_strings (Suc n) room buf =
    (let s = takeWhile (\<lambda>b. b \<noteq> 0) buf; len = length s + 1 in
     if len > length buf \<or> len > room then None
     else map_option (\<lambda>ss. s # ss) (vers_1_strings n (room - len) (drop len buf)))"

definition cistpl_vers_1 :: cis_parser where
  "cistpl_vers_1 tgt buf = (case vers_1_scan (drop 2 buf) of (sz, nr_strings) \<Rightarrow>
     if nr_strings = 0 then ret (Some (0, tgt))
     else do {
       w \<leftarrow> gets id;
       ok \<leftarrow> kzalloc (kn_sizeof_ptr (w_kernel w) * nr_strings + sz);
       ret (if \<not> ok then Some (- ENOMEM, tgt)
            else map_option
              (\<lambda>ss. (0, set_target (\<lambda>c. c\<lparr>cd_info := ss\<rparr>) (\<lambda>f. f\<lparr>fn_info := ss\<rparr>) tgt))
              (vers_1_strings nr_strings sz (drop 2 buf)))
     })"

definition cistpl_manfid :: cis_parser where
  "cistpl_manfid tgt buf = ret (do {
     vendor \<leftarrow> le16_at buf 0;
     device \<leftarrow> le16_at buf 2;
     Some (0, set_target (\<lambda>c. c\<lparr>cd_cis_vendor := ucast vendor, cd_cis_device := ucast device\<rparr>)
       (\<lambda>f. f\<lparr>fn_vendor := ucast vendor, fn_device := ucast device\<rparr>) tgt)
   })"

definition speed_val :: "u32 list" where
  "speed_val = [0, 10, 12, 13, 15, 20, 25, 30, 35, 40, 45, 50, 55, 60, 70, 80]"

definition speed_unit :: "u32 list" where
  "speed_unit = [10000, 100000, 1000000, 10000000, 0, 0, 0, 0]"

definition cistpl_funce_common :: cis_parser where
  "cistpl_funce_common tgt buf = ret (
     if snd tgt \<noteq> None then Some (- EINVAL, tgt)
     else do {
       blksize \<leftarrow> le16_at buf 1;
       s \<leftarrow> byte_at buf 3;
       Some (0, set_target (\<lambda>c. c\<lparr>cd_cis_blksize := ucast blksize,
         cd_cis_max_dtr := speed_val ! unat (drop_bit 3 s AND 15) * speed_unit ! unat (s AND 7)\<rparr>) id tgt)
     })"

definition cistpl_funce_func :: cis_parser where
  "cistpl_funce_func tgt buf = ret (
     if snd tgt = None then Some (- EINVAL, tgt)
     else
       let vsn = cc_sdio_vsn (cd_cccr (fst tgt));
           min_size = (if vsn = SDIO_SDIO_REV_1_00 then 28 else 42);
           broken = (length buf = 28 \<and> vsn = SDIO_SDIO_REV_1_10);
           vsn = (if broken then SDIO_SDIO_REV_1_00 else vsn)
       in if \<not> broken \<and> length buf < min_size then Some (- EINVAL, tgt)
          else do {
            max_blksize \<leftarrow> le16_at buf 12;
            timeout \<leftarrow> (if vsn > SDIO_SDIO_REV_1_00
              then map_option (\<lambda>t. t * 10) (le16_at buf 28) else Some 1000);
            Some (0, set_target id (\<lambda>f. f\<lparr>fn_max_blksize := max_blksize,
              fn_enable_timeout := timeout\<rparr>) tgt)
          })"

section \<open>Tables\<close>

text \<open>\<open>struct cis_tpl\<close>: the code, the least size, and the parser of a tuple that is parsed.\<close>

type_synonym cis_tpl = "u8 \<times> nat \<times> cis_parser option"

fun cis_tpl_parse :: "cis_tpl list \<Rightarrow> u8 \<Rightarrow> cis_parser" where
  "cis_tpl_parse [] code tgt buf = ret (Some (- ENOENT, tgt))"
| "cis_tpl_parse ((c, min_size, parse) # tpl) code tgt buf =
    (if c \<noteq> code then cis_tpl_parse tpl code tgt buf
     else if length buf < min_size then ret (Some (- EINVAL, tgt))
     else (case parse of None \<Rightarrow> ret (Some (- EILSEQ, tgt)) | Some p \<Rightarrow> p tgt buf))"

definition cis_tpl_funce_list :: "cis_tpl list" where
  "cis_tpl_funce_list =
    [(0x00, 4, Some cistpl_funce_common), (0x01, 0, Some cistpl_funce_func), (0x04, 1 + 1 + 6, None)]"

definition cistpl_funce :: cis_parser where
  "cistpl_funce tgt buf = (case byte_at buf 0 of
     None \<Rightarrow> ret (Some (- EINVAL, tgt))
   | Some code \<Rightarrow> cis_tpl_parse cis_tpl_funce_list code tgt buf)"

definition cis_tpl_list :: "cis_tpl list" where
  "cis_tpl_list =
    [(0x15, 3, Some cistpl_vers_1), (0x20, 4, Some cistpl_manfid), (0x21, 2, None),
     (0x22, 0, Some cistpl_funce), (0x91, 2, None)]"

section \<open>Reading\<close>

text \<open>\<open>mmc_io_rw_direct(card, 0, 0, addr, 0, &x)\<close>.\<close>

definition cis_byte :: "u32 \<Rightarrow> (int \<times> u8) io" where
  "cis_byte addr = mmc_io_rw_direct False 0 addr 0 True"

text \<open>The address of the chain, from three registers.\<close>

fun cis_pointer :: "u32 \<Rightarrow> nat list \<Rightarrow> u32 \<Rightarrow> (int \<times> u32) io" where
  "cis_pointer fn [] ptr = ret (0, ptr)"
| "cis_pointer fn (i # is) ptr = do {
     r \<leftarrow> cis_byte (SDIO_FBR_BASE fn + SDIO_FBR_CIS + of_nat i);
     if fst r \<noteq> 0 then ret (fst r, ptr)
     else cis_pointer fn is (ptr OR push_bit (i * 8) (ucast (snd r)))
   }"

text \<open>The data of a tuple: so many bytes from the address on.\<close>

fun cis_data :: "nat \<Rightarrow> u32 \<Rightarrow> (int \<times> u8 list) io" where
  "cis_data 0 addr = ret (0, [])"
| "cis_data (Suc n) addr = do {
     r \<leftarrow> cis_byte addr;
     if fst r \<noteq> 0 then ret (fst r, [])
     else do { s \<leftarrow> cis_data n (addr + 1); ret (fst s, snd r # snd s) }
   }"

definition queue_tuple :: "u8 \<Rightarrow> u8 list \<Rightarrow> cis_target \<Rightarrow> cis_target" where
  "queue_tuple code data = set_target (\<lambda>c. c\<lparr>cd_tuples := cd_tuples c @ [(code, data)]\<rparr>)
     (\<lambda>f. f\<lparr>fn_tuples := fn_tuples f @ [(code, data)]\<rparr>)"

text \<open>
  A pass of the loop: it ends with an error or 0, at once or after the tuples of the card are
  linked, or goes on at an address.
\<close>

datatype cis_pass = Cis_Return int cis_target | Cis_End int cis_target | Cis_Next u32 cis_target
  | Cis_Bad

definition cis_tuple_pass :: "u32 \<Rightarrow> cis_target \<Rightarrow> cis_pass io" where
  "cis_tuple_pass ptr tgt = do {
     code \<leftarrow> cis_byte ptr;
     if fst code \<noteq> 0 then ret (Cis_End (fst code) tgt)
     else if snd code = 0xFF then ret (Cis_End 0 tgt)
     else if snd code = 0x00 then ret (Cis_Next (ptr + 1) tgt)
     else do {
       link \<leftarrow> cis_byte (ptr + 1);
       if fst link \<noteq> 0 then ret (Cis_End (fst link) tgt)
       else if snd link = 0xFF then ret (Cis_End 0 tgt)
       else do {
         w \<leftarrow> gets id;
         ok \<leftarrow> kzalloc (kn_sizeof_tuple (w_kernel w) + unat (snd link));
         if \<not> ok then ret (Cis_Return (- ENOMEM) tgt)
         else do {
           d \<leftarrow> cis_data (unat (snd link)) (ptr + 2);
           if fst d \<noteq> 0 then ret (Cis_End (fst d) tgt)
           else do {
             r \<leftarrow> cis_tpl_parse cis_tpl_list (snd code) tgt (snd d);
             ret (case r of
                 None \<Rightarrow> Cis_Bad
               | Some (err, tgt) \<Rightarrow>
                   if err = - EILSEQ \<or> err = - ENOENT
                   then Cis_Next (ptr + 2 + ucast (snd link)) (queue_tuple (snd code) (snd d) tgt)
                   else if err = 0 then Cis_Next (ptr + 2 + ucast (snd link)) tgt
                   else Cis_End err tgt)
           }
         }
       }
     }
   }"

text \<open>
  The loop ends: the address grows from pass to pass, and \<open>mmc_io_rw_direct\<close> refuses addresses
  behind the 17 bits of the address space.
\<close>

lemma low_bits:
  assumes "addr AND NOT (0x1FFFF :: u32) = 0"
  shows "addr < 0x20000"
proof -
  have "addr = take_bit 17 addr"
  proof (rule bit_word_eqI)
    fix n assume n: "n < LENGTH(32)"
    have m: "(0x1FFFF :: u32) = mask 17" by (simp add: mask_eq_exp_minus_1)
    have "bit (addr AND NOT (0x1FFFF :: u32)) n \<longleftrightarrow> bit addr n \<and> \<not> n < 17"
      unfolding m using n by (auto simp: bit_simps)
    with assms show "bit addr n = bit (take_bit 17 addr) n" by (auto simp: bit_simps)
  qed
  then have "unat addr = take_bit 17 (unat addr)" by (metis unsigned_take_bit_eq)
  also have "\<dots> < 2 ^ 17" by (rule take_bit_nat_less_exp)
  finally show ?thesis by (simp add: word_less_nat_alt)
qed

lemma cis_byte_addr: "run_state (cis_byte addr) w = ((0, b), v) \<Longrightarrow> addr < 0x20000"
  using low_bits [of addr] by (auto simp: cis_byte_def mmc_io_rw_direct_def split: if_splits)

lemma pass_advances:
  assumes "run_state (cis_tuple_pass ptr tgt) w = (Cis_Next p t, v)"
  shows "unat ptr < 0x20000 \<and> unat ptr < unat p"
proof -
  obtain e c a where a: "run_state (cis_byte ptr) w = ((e, c), a)" by (metis surj_pair)
  with assms have e: "e = 0" by (auto simp: cis_tuple_pass_def split: if_splits)
  then have ptr: "unat ptr < 0x20000" using cis_byte_addr [of ptr w c a] a by (simp add: word_less_nat_alt)
  have "p = ptr + 1 \<or> (\<exists>n :: u8. p = ptr + 2 + ucast n)"
    using assms a e
    by (auto simp: cis_tuple_pass_def split: if_splits prod.splits option.splits)
  moreover have "unat (ptr + 1) = unat ptr + 1"
    using ptr by (simp add: unat_word_ariths)
  moreover have "unat (ptr + 2 + ucast (n :: u8)) = unat ptr + 2 + unat n" for n
  proof -
    have "unat n < 256" using unsigned_less [of n] by simp
    moreover have "unat (ucast n :: u32) = unat n"
      using \<open>unat n < 256\<close> by (simp add: unsigned_ucast_eq take_bit_nat_eq_self)
    ultimately show ?thesis using ptr by (simp add: unat_word_ariths)
  qed
  ultimately show ?thesis using ptr by auto
qed

function cis_tuples :: "u32 \<Rightarrow> cis_target \<Rightarrow> mmc_world \<Rightarrow> cis_pass \<times> mmc_world" where
  "cis_tuples ptr tgt w = (case run_state (cis_tuple_pass ptr tgt) w of
     (Cis_Next p t, v) \<Rightarrow> cis_tuples p t v
   | (r, v) \<Rightarrow> (r, v))"
  by auto
termination
proof (relation "measure (\<lambda>(ptr, tgt, w). 0x20000 - unat ptr)", goal_cases)
  case 1
  then show ?case by simp
next
  case (2 ptr tgt w r v p t)
  then show ?case using pass_advances [of ptr tgt w p t v] by auto
qed

declare cis_tuples.simps [simp del]

definition sdio_read_cis :: "cis_target \<Rightarrow> (int \<times> cis_target) option io" where
  "sdio_read_cis tgt = do {
     let fn = (case snd tgt of None \<Rightarrow> 0 | Some f \<Rightarrow> of_nat (fn_num f));
     r \<leftarrow> cis_pointer fn [0, 1, 2] 0;
     if fst r \<noteq> 0 then ret (Some (fst r, tgt))
     else if (case snd tgt of None \<Rightarrow> cd_tuples (fst tgt) \<noteq> [] | Some f \<Rightarrow> fn_tuples f \<noteq> [])
     then ret (Some (- EINVAL, tgt))
     else do {
       p \<leftarrow> State (cis_tuples (snd r) tgt);
       ret (case p of
           Cis_Return err tgt \<Rightarrow> Some (err, tgt)
         | Cis_End err tgt \<Rightarrow> Some (err, set_target id (\<lambda>f. f\<lparr>fn_linked := True\<rparr>) tgt)
         | _ \<Rightarrow> None)
     }
   }"

definition sdio_read_common_cis :: "mmc_card \<Rightarrow> (int \<times> mmc_card) option io" where
  "sdio_read_common_cis c = do {
     r \<leftarrow> sdio_read_cis (c, None);
     ret (map_option (\<lambda>(err, tgt). (err, fst tgt)) r)
   }"

definition sdio_free_common_cis :: "mmc_card \<Rightarrow> mmc_card" where
  "sdio_free_common_cis c = c\<lparr>cd_tuples := []\<rparr>"

text \<open>The tuples of a function as its driver sees them.\<close>

definition func_tuples :: "mmc_card \<Rightarrow> sdio_func \<Rightarrow> cis_tuple list" where
  "func_tuples c f = fn_tuples f @ (if fn_linked f then cd_tuples c else [])"

definition sdio_read_func_cis :: "mmc_card \<Rightarrow> sdio_func \<Rightarrow> (int \<times> sdio_func) option io" where
  "sdio_read_func_cis c f = do {
     r \<leftarrow> sdio_read_cis (c, Some f);
     (case r of
        None \<Rightarrow> ret None
      | Some (err, _, fo) \<Rightarrow> do {
          let f = (case fo of None \<Rightarrow> f | Some f \<Rightarrow> f);
          if err \<noteq> 0 then ret (Some (err, f))
          else do {
            emit EvGetDevice 0;
            ret (Some (0, if fn_vendor f = 0
              then f\<lparr>fn_vendor := cd_cis_vendor c, fn_device := cd_cis_device c\<rparr> else f))
          }
        })
   }"

definition sdio_free_func_cis :: "sdio_func \<Rightarrow> sdio_func io" where
  "sdio_free_func_cis f = do {
     emit EvPutDevice 0;
     ret (f\<lparr>fn_tuples := [], fn_linked := False\<rparr>)
   }"

end
