(* ===== verification/Sdio_Io.thy ===== *)
theory Sdio_Io
  imports Sdio_Cis Bus_Ops
begin

text \<open>
  What the drivers of SDIO functions call (\<open>mmc/core/sdio_io.c\<close>).  A function is named by its place
  in the card's array; an empty place is the NULL pointer.  An operation with an optional
  status pointer gives the status as its second result.

  The loops of \<open>sdio_io_rw_ext_helper\<close> go on as long as bytes remain, and a card may announce
  block sizes with which they make no progress.  Their model takes a number of rounds and
  answers None if it does not suffice; a division by a block size of 0 is None as well.
\<close>

section \<open>Functions of the card\<close>

definition func_at :: "mmc_card \<Rightarrow> nat \<Rightarrow> sdio_func option" where
  "func_at c i = (if i < length (cd_sdio_func c) then cd_sdio_func c ! i else None)"

definition upd_func :: "nat \<Rightarrow> (sdio_func \<Rightarrow> sdio_func) \<Rightarrow> mmc_card \<Rightarrow> mmc_card" where
  "upd_func i f c = c\<lparr>cd_sdio_func := (cd_sdio_func c)[i := map_option f (func_at c i)]\<rparr>"

definition func_bit :: "sdio_func \<Rightarrow> u8" where
  "func_bit f = push_bit (fn_num f) 1"

definition sdio_claim_host :: "nat \<Rightarrow> unit io" where
  "sdio_claim_host i = do {
     w \<leftarrow> gets id;
     io_when (func_at (w_card w) i \<noteq> None) claim_host
   }"

definition sdio_release_host :: "nat \<Rightarrow> unit io" where
  "sdio_release_host i = do {
     w \<leftarrow> gets id;
     io_when (func_at (w_card w) i \<noteq> None) release_host
   }"

section \<open>Activation\<close>

text \<open>A pass of the loop of \<open>sdio_enable_func\<close>: the result, or None to go on.\<close>

definition enable_poll_body :: "nat \<Rightarrow> u8 \<Rightarrow> int option io" where
  "enable_poll_body timeout b = do {
     r \<leftarrow> mmc_io_rw_direct False 0 SDIO_CCCR_IORx 0 True;
     if fst r \<noteq> 0 then ret (Some (fst r))
     else if snd r AND b \<noteq> 0 then ret (Some 0)
     else do { now \<leftarrow> jiffies; ret (if now > timeout then Some (- ETIME) else None) }
   }"

definition sdio_enable_func :: "nat \<Rightarrow> int io" where
  "sdio_enable_func i = do {
     w \<leftarrow> gets id;
     (case func_at (w_card w) i of
        None \<Rightarrow> ret (- EINVAL)
      | Some f \<Rightarrow> do {
          r \<leftarrow> mmc_io_rw_direct False 0 SDIO_CCCR_IOEx 0 True;
          if fst r \<noteq> 0 then ret (fst r)
          else do {
            r \<leftarrow> mmc_io_rw_direct True 0 SDIO_CCCR_IOEx (snd r OR func_bit f) False;
            if fst r \<noteq> 0 then ret (fst r)
            else do {
              now \<leftarrow> jiffies;
              w \<leftarrow> gets id;
              let timeout = now + kn_msecs_to_jiffies (w_kernel w) (fn_enable_timeout f);
              poll_until (time_limit w timeout) (- ETIME) (enable_poll_body timeout (func_bit f))
            }
          }
        })
   }"

definition sdio_disable_func :: "nat \<Rightarrow> int io" where
  "sdio_disable_func i = do {
     w \<leftarrow> gets id;
     (case func_at (w_card w) i of
        None \<Rightarrow> ret (- EINVAL)
      | Some f \<Rightarrow> do {
          r \<leftarrow> mmc_io_rw_direct False 0 SDIO_CCCR_IOEx 0 True;
          if fst r \<noteq> 0 then ret (- EIO)
          else do {
            r \<leftarrow> mmc_io_rw_direct True 0 SDIO_CCCR_IOEx (snd r AND NOT (func_bit f)) False;
            ret (if fst r \<noteq> 0 then - EIO else 0)
          }
        })
   }"

text \<open>The pointer is not checked here: without a function the result is None.\<close>

definition sdio_set_block_size :: "nat \<Rightarrow> u32 \<Rightarrow> int option io" where
  "sdio_set_block_size i blksz = do {
     w \<leftarrow> gets id;
     (case func_at (w_card w) i of
        None \<Rightarrow> ret None
      | Some f \<Rightarrow>
          if blksz > h_max_blk_size (w_host w) then ret (Some (- EINVAL))
          else do {
            let blksz = (if blksz = 0 then min (min (fn_max_blksize f) (h_max_blk_size (w_host w))) 512
              else blksz);
            let reg = SDIO_FBR_BASE (of_nat (fn_num f)) + SDIO_FBR_BLKSIZE;
            r \<leftarrow> mmc_io_rw_direct True 0 reg (ucast (blksz AND 0xFF)) False;
            if fst r \<noteq> 0 then ret (Some (fst r))
            else do {
              r \<leftarrow> mmc_io_rw_direct True 0 (reg + 1) (ucast (drop_bit 8 blksz AND 0xFF)) False;
              if fst r \<noteq> 0 then ret (Some (fst r))
              else do {
                modify (upd_card (upd_func i (\<lambda>f. f\<lparr>fn_cur_blksize := blksz\<rparr>)));
                ret (Some 0)
              }
            }
          })
   }"

section \<open>Sizes\<close>

definition sdio_max_byte_size :: "mmc_host \<Rightarrow> mmc_card \<Rightarrow> sdio_func \<Rightarrow> u32" where
  "sdio_max_byte_size h c f =
    (let mval = h_max_blk_size h;
         mval = (if MMC_QUIRK_BLKSZ_FOR_BYTE_MODE \<in> cd_quirks c then min mval (fn_cur_blksize f)
                 else min mval (fn_max_blksize f))
     in if MMC_QUIRK_BROKEN_BYTE_MODE_512 \<in> cd_quirks c then min mval 511 else min mval 512)"

text \<open>Where the code divides by a size, the size is the function's current block size or the chunk.\<close>

definition sdio_align_size :: "mmc_host \<Rightarrow> mmc_card \<Rightarrow> sdio_func \<Rightarrow> u32 \<Rightarrow> u32" where
  "sdio_align_size h c f orig_sz =
    (let sz = mmc_align_data_size orig_sz; mbs = sdio_max_byte_size h c f; cur = fn_cur_blksize f in
     if sz \<le> mbs then sz
     else if cc_multi_block (cd_cccr c) then
       (if sz mod cur = 0 then sz
        else
          let blk_sz = mmc_align_data_size (((sz + cur - 1) div cur) * cur) in
          if blk_sz mod cur = 0 then blk_sz
          else
            let byte_sz = mmc_align_data_size (sz mod cur) in
            if byte_sz \<le> mbs then (sz div cur) * cur + byte_sz else orig_sz)
     else
       let chunk_sz = mmc_align_data_size mbs in
       if chunk_sz = mbs then
         let byte_sz = orig_sz mod chunk_sz;
             byte_sz = (if byte_sz \<noteq> 0 then mmc_align_data_size byte_sz else 0)
         in (orig_sz div chunk_sz) * chunk_sz + byte_sz
       else orig_sz)"

section \<open>Transfers of any size\<close>

text \<open>
  The two loops of \<open>sdio_io_rw_ext_helper\<close> differ in the next transfer, a number of blocks (0 in
  byte mode) and a block size, which depends on the bytes that remain.
\<close>

definition block_chunk :: "mmc_host \<Rightarrow> sdio_func \<Rightarrow> u32 \<Rightarrow> (u32 \<times> u32) option" where
  "block_chunk h f remainder =
    (let max_blocks = min (h_max_blk_count h) 511; cur = fn_cur_blksize f in
     if remainder \<ge> cur then Some (min (remainder div cur) max_blocks, cur) else None)"

definition byte_chunk :: "mmc_host \<Rightarrow> mmc_card \<Rightarrow> sdio_func \<Rightarrow> u32 \<Rightarrow> (u32 \<times> u32) option" where
  "byte_chunk h c f remainder =
    (if remainder > 0 then Some (0, min remainder (sdio_max_byte_size h c f)) else None)"

definition chunk_size :: "u32 \<times> u32 \<Rightarrow> u32" where
  "chunk_size p = (if fst p = 0 then snd p else fst p * snd p)"

text \<open>
  A loop over transfers: the error, the address and the bytes that remain, and the buffer, as
  far as it was transferred and the rest.
\<close>

fun ext_loop :: "(u32 \<Rightarrow> (u32 \<times> u32) option) \<Rightarrow> nat \<Rightarrow> bool \<Rightarrow> u32 \<Rightarrow> bool \<Rightarrow> u32 \<Rightarrow> u32 \<Rightarrow> u8 list \<Rightarrow>
  (int \<times> u32 \<times> u32 \<times> u8 list \<times> u8 list) option io" where
  "ext_loop chunk 0 write fn incr addr remainder buf = ret None"
| "ext_loop chunk (Suc n) write fn incr addr remainder buf =
    (case chunk remainder of
       None \<Rightarrow> ret (Some (0, addr, remainder, [], buf))
     | Some p \<Rightarrow> do {
         let size = chunk_size p;
         r \<leftarrow> mmc_io_rw_extended write fn addr incr (take (unat size) buf) (fst p) (snd p);
         if fst r \<noteq> 0
         then ret (Some (fst r, addr, remainder, snd r, drop (unat size) buf))
         else do {
           s \<leftarrow> ext_loop chunk n write fn incr (if incr then addr + size else addr)
             (remainder - size) (drop (unat size) buf);
           ret (map_option (\<lambda>(err, addr, rem, done, rest). (err, addr, rem, snd r @ done, rest)) s)
         }
       })"

text \<open>The second result is the buffer afterwards.\<close>

definition sdio_io_rw_ext_helper ::
  "nat \<Rightarrow> nat \<Rightarrow> bool \<Rightarrow> u32 \<Rightarrow> bool \<Rightarrow> u8 list \<Rightarrow> u32 \<Rightarrow> (int \<times> u8 list) option io" where
  "sdio_io_rw_ext_helper n i write addr incr buf sz = do {
     w \<leftarrow> gets id;
     (case func_at (w_card w) i of
        None \<Rightarrow> ret (Some (- EINVAL, buf))
      | Some f \<Rightarrow>
          if fn_num f > 7 then ret (Some (- EINVAL, buf))
          else do {
            let h = w_host w;
            let c = w_card w;
            let fn = of_nat (fn_num f);
            r \<leftarrow> (if cc_multi_block (cd_cccr c) \<and> sz > sdio_max_byte_size h c f
              then (if fn_cur_blksize f = 0 then ret None
                    else ext_loop (block_chunk h f) n write fn incr addr sz buf)
              else ret (Some (0, addr, sz, [], buf)));
            (case r of
               None \<Rightarrow> ret None
             | Some (err, addr, remainder, done, rest) \<Rightarrow>
                 if err \<noteq> 0 then ret (Some (err, done @ rest))
                 else do {
                   s \<leftarrow> ext_loop (byte_chunk h c f) n write fn incr addr remainder rest;
                   ret (map_option (\<lambda>(err, _, _, done', rest). (err, done @ done' @ rest)) s)
                 })
          })
   }"

definition sdio_memcpy_fromio :: "nat \<Rightarrow> nat \<Rightarrow> u8 list \<Rightarrow> u32 \<Rightarrow> u32 \<Rightarrow> (int \<times> u8 list) option io" where
  "sdio_memcpy_fromio n i dst addr count = sdio_io_rw_ext_helper n i False addr True dst count"

definition sdio_memcpy_toio :: "nat \<Rightarrow> nat \<Rightarrow> u32 \<Rightarrow> u8 list \<Rightarrow> u32 \<Rightarrow> (int \<times> u8 list) option io" where
  "sdio_memcpy_toio n i addr src count = sdio_io_rw_ext_helper n i True addr True src count"

definition sdio_readsb :: "nat \<Rightarrow> nat \<Rightarrow> u8 list \<Rightarrow> u32 \<Rightarrow> u32 \<Rightarrow> (int \<times> u8 list) option io" where
  "sdio_readsb n i dst addr count = sdio_io_rw_ext_helper n i False addr False dst count"

definition sdio_writesb :: "nat \<Rightarrow> nat \<Rightarrow> u32 \<Rightarrow> u8 list \<Rightarrow> u32 \<Rightarrow> (int \<times> u8 list) option io" where
  "sdio_writesb n i addr src count = sdio_io_rw_ext_helper n i True addr False src count"

section \<open>Single values\<close>

definition sdio_readb :: "nat \<Rightarrow> u32 \<Rightarrow> (u8 \<times> int) io" where
  "sdio_readb i addr = do {
     w \<leftarrow> gets id;
     (case func_at (w_card w) i of
        None \<Rightarrow> ret (0xFF, - EINVAL)
      | Some f \<Rightarrow> do {
          r \<leftarrow> mmc_io_rw_direct False (of_nat (fn_num f)) addr 0 True;
          ret (if fst r \<noteq> 0 then 0xFF else snd r, fst r)
        })
   }"

definition sdio_writeb :: "nat \<Rightarrow> u8 \<Rightarrow> u32 \<Rightarrow> int io" where
  "sdio_writeb i b addr = do {
     w \<leftarrow> gets id;
     (case func_at (w_card w) i of
        None \<Rightarrow> ret (- EINVAL)
      | Some f \<Rightarrow> do { r \<leftarrow> mmc_io_rw_direct True (of_nat (fn_num f)) addr b False; ret (fst r) })
   }"

text \<open>This function does not check its pointer either.\<close>

definition sdio_writeb_readb :: "nat \<Rightarrow> u8 \<Rightarrow> u32 \<Rightarrow> (u8 \<times> int) option io" where
  "sdio_writeb_readb i b addr = do {
     w \<leftarrow> gets id;
     (case func_at (w_card w) i of
        None \<Rightarrow> ret None
      | Some f \<Rightarrow> do {
          r \<leftarrow> mmc_io_rw_direct True (of_nat (fn_num f)) addr b True;
          ret (Some (if fst r \<noteq> 0 then 0xFF else snd r, fst r))
        })
   }"

text \<open>\<open>le16_to_cpup\<close>, \<open>le32_to_cpup\<close> and the other direction, on the function's small buffer.\<close>

definition le_bytes :: "nat \<Rightarrow> u32 \<Rightarrow> u8 list" where
  "le_bytes n x = map (\<lambda>k. ucast (drop_bit (8 * k) x)) [0..<n]"

definition le_value :: "u8 list \<Rightarrow> u32" where
  "le_value bs = foldr (\<lambda>b x. ucast b OR push_bit 8 x) bs 0"

definition sdio_readw :: "nat \<Rightarrow> nat \<Rightarrow> u32 \<Rightarrow> (u16 \<times> int) option io" where
  "sdio_readw n i addr = do {
     r \<leftarrow> sdio_memcpy_fromio n i (replicate 2 0) addr 2;
     ret (map_option (\<lambda>(err, buf). (if err \<noteq> 0 then 0xFFFF else ucast (le_value buf), err)) r)
   }"

definition sdio_writew :: "nat \<Rightarrow> nat \<Rightarrow> u16 \<Rightarrow> u32 \<Rightarrow> int option io" where
  "sdio_writew n i b addr = do {
     r \<leftarrow> sdio_memcpy_toio n i addr (le_bytes 2 (ucast b)) 2;
     ret (map_option fst r)
   }"

definition sdio_readl :: "nat \<Rightarrow> nat \<Rightarrow> u32 \<Rightarrow> (u32 \<times> int) option io" where
  "sdio_readl n i addr = do {
     r \<leftarrow> sdio_memcpy_fromio n i (replicate 4 0) addr 4;
     ret (map_option (\<lambda>(err, buf). (if err \<noteq> 0 then 0xFFFFFFFF else le_value buf, err)) r)
   }"

definition sdio_writel :: "nat \<Rightarrow> nat \<Rightarrow> u32 \<Rightarrow> u32 \<Rightarrow> int option io" where
  "sdio_writel n i b addr = do {
     r \<leftarrow> sdio_memcpy_toio n i addr (le_bytes 4 b) 4;
     ret (map_option fst r)
   }"

definition sdio_f0_readb :: "nat \<Rightarrow> u32 \<Rightarrow> (u8 \<times> int) io" where
  "sdio_f0_readb i addr = do {
     w \<leftarrow> gets id;
     (case func_at (w_card w) i of
        None \<Rightarrow> ret (0xFF, - EINVAL)
      | Some f \<Rightarrow> do {
          r \<leftarrow> mmc_io_rw_direct False 0 addr 0 True;
          ret (if fst r \<noteq> 0 then 0xFF else snd r, fst r)
        })
   }"

definition sdio_f0_writeb :: "nat \<Rightarrow> u8 \<Rightarrow> u32 \<Rightarrow> int io" where
  "sdio_f0_writeb i b addr = do {
     w \<leftarrow> gets id;
     (case func_at (w_card w) i of
        None \<Rightarrow> ret (- EINVAL)
      | Some f \<Rightarrow>
          if (addr < 0xF0 \<or> addr > 0xFF) \<and> MMC_QUIRK_LENIENT_FN0 \<notin> cd_quirks (w_card w)
          then ret (- EINVAL)
          else do { r \<leftarrow> mmc_io_rw_direct True 0 addr b False; ret (fst r) })
   }"

section \<open>Power management\<close>

definition sdio_get_host_pm_caps :: "nat \<Rightarrow> u32 io" where
  "sdio_get_host_pm_caps i = do {
     w \<leftarrow> gets id;
     ret (if func_at (w_card w) i = None then 0 else h_pm_caps (w_host w))
   }"

definition sdio_set_host_pm_flags :: "nat \<Rightarrow> u32 \<Rightarrow> int io" where
  "sdio_set_host_pm_flags i flags = do {
     w \<leftarrow> gets id;
     if func_at (w_card w) i = None then ret (- EINVAL)
     else if flags AND NOT (h_pm_caps (w_host w)) \<noteq> 0 then ret (- EINVAL)
     else do { modify (upd_host (\<lambda>h. h\<lparr>h_pm_flags := h_pm_flags h OR flags\<rparr>)); ret 0 }
   }"

end
