(* ===== verification/Sdio_Irq.thy ===== *)
theory Sdio_Irq
  imports Sdio_Io
begin

text \<open>
  Interrupts of SDIO functions (\<open>mmc/core/sdio_irq.c\<close>): who has claimed one, the shortcut for a
  single claim, and the calls of the handlers.  A handler belongs to the driver of a function,
  which is not part of the core: its call is an event.
\<close>

section \<open>Processing\<close>

text \<open>
  The loop over the functions whose bit is set in \<open>pending\<close>: the number of handlers called and
  the return code.
\<close>

fun irq_calls :: "nat list \<Rightarrow> u8 \<Rightarrow> nat \<Rightarrow> int \<Rightarrow> (nat \<times> int) io" where
  "irq_calls [] pending count err = ret (count, err)"
| "irq_calls (i # is) pending count err =
    (if \<not> bit pending i then irq_calls is pending count err
     else do {
       w \<leftarrow> gets id;
       (case func_at (w_card w) (i - 1) of
          None \<Rightarrow> irq_calls is pending count (- EINVAL)
        | Some f \<Rightarrow>
            if fn_irq_handler f then do {
              emit (EvIrqHandler (i - 1)) 0;
              irq_calls is pending (count + 1) err
            } else irq_calls is pending count (- EINVAL))
     })"

definition process_sdio_pending_irqs :: "int io" where
  "process_sdio_pending_irqs = do {
     w \<leftarrow> gets id;
     (case (cd_sdio_single_irq (w_card w), h_sdio_irq_pending (w_host w)) of
        (Some i, True) \<Rightarrow> do { emit (EvIrqHandler i) 0; ret 1 }
      | _ \<Rightarrow> do {
          r \<leftarrow> mmc_io_rw_direct False 0 SDIO_CCCR_INTx 0 True;
          if fst r \<noteq> 0 then ret (fst r)
          else do {
            let pending = snd r;
            w \<leftarrow> gets id;
            io_when (pending \<noteq> 0 \<and> MMC_QUIRK_BROKEN_IRQ_POLLING \<in> cd_quirks (w_card w)
                \<and> MMC_CAP_SDIO_IRQ \<notin> h_caps (w_host w))
              (do { mmc_io_rw_direct False 0 0xFF 0 True; ret () });
            c \<leftarrow> irq_calls [1..<8] pending 0 0;
            ret (if fst c \<noteq> 0 then int (fst c) else snd c)
          }
        })
   }"

definition sdio_run_irqs :: "unit io" where
  "sdio_run_irqs = do {
     claim_host;
     h \<leftarrow> gets w_host;
     io_when (h_sdio_irqs h \<noteq> 0) (do {
       modify (upd_host (\<lambda>h. h\<lparr>h_sdio_irq_pending := True\<rparr>));
       process_sdio_pending_irqs;
       w \<leftarrow> gets id;
       io_when (op_ack_sdio_irq (w_ops w)) (emit EvAckSdioIrq 0)
     });
     release_host
   }"

text \<open>
  A round of \<open>sdio_irq_thread\<close> from the claim, which was not aborted, to the sleep, with the
  period of the polling.  The sleep itself and the sleep after an error are not modelled.
\<close>

definition next_period :: "bool \<Rightarrow> int \<Rightarrow> nat \<Rightarrow> nat \<Rightarrow> nat" where
  "next_period can_irq r idle_period period =
    (if can_irq then period else if r > 0 then period div 2 else min (period + 1) idle_period)"

definition irq_thread_round :: "nat \<Rightarrow> (int \<times> nat) io" where
  "irq_thread_round period = do {
     claim_host;
     r \<leftarrow> process_sdio_pending_irqs;
     modify (upd_host (\<lambda>h. h\<lparr>h_sdio_irq_pending := False\<rparr>));
     release_host;
     w \<leftarrow> gets id;
     let can_irq = (MMC_CAP_SDIO_IRQ \<in> h_caps (w_host w));
     io_when can_irq (emit (EvSdioIrq True) 0);
     ret (r, next_period can_irq r (kn_msecs_to_jiffies (w_kernel w) 10) period)
   }"

section \<open>Claims\<close>

definition sdio_card_irq_get :: "int io" where
  "sdio_card_irq_get = do {
     w \<leftarrow> gets id;
     modify (upd_host (\<lambda>h. h\<lparr>h_sdio_irqs := h_sdio_irqs h + 1\<rparr>));
     if h_sdio_irqs (w_host w) \<noteq> 0 then ret 0
     else if MMC_CAP2_SDIO_IRQ_NOTHREAD \<notin> h_caps2 (w_host w) then do {
       emit (EvIrqThread True) 0;
       let err = kn_thread_run (w_kernel w) (w_trace w);
       io_when (err < 0) (modify (upd_host (\<lambda>h. h\<lparr>h_sdio_irqs := h_sdio_irqs h - 1\<rparr>)));
       ret (if err < 0 then err else 0)
     }
     else do {
       io_when (MMC_CAP_SDIO_IRQ \<in> h_caps (w_host w)) (emit (EvSdioIrq True) 0);
       ret 0
     }
   }"

definition sdio_card_irq_put :: "int io" where
  "sdio_card_irq_put = do {
     w \<leftarrow> gets id;
     if h_sdio_irqs (w_host w) < 1 then ret (- EINVAL)
     else do {
       modify (upd_host (\<lambda>h. h\<lparr>h_sdio_irqs := h_sdio_irqs h - 1\<rparr>));
       io_when (h_sdio_irqs (w_host w) - 1 = 0)
         (if MMC_CAP2_SDIO_IRQ_NOTHREAD \<notin> h_caps2 (w_host w) then emit (EvIrqThread False) 0
          else io_when (MMC_CAP_SDIO_IRQ \<in> h_caps (w_host w)) (emit (EvSdioIrq False) 0));
       ret 0
     }
   }"

text \<open>Whether a place of the array holds a function with a handler.\<close>

definition has_irq :: "mmc_card \<Rightarrow> nat \<Rightarrow> bool" where
  "has_irq c i \<longleftrightarrow> (case func_at c i of None \<Rightarrow> False | Some f \<Rightarrow> fn_irq_handler f)"

definition single_irq :: "mmc_host \<Rightarrow> mmc_card \<Rightarrow> nat option" where
  "single_irq h c =
    (if MMC_CAP_SDIO_IRQ \<in> h_caps h \<and> h_sdio_irqs h = 1
     then find (has_irq c) [0..<cd_sdio_funcs c] else None)"

definition sdio_single_irq_set :: "unit io" where
  "sdio_single_irq_set = do {
     w \<leftarrow> gets id;
     modify (upd_card (\<lambda>c. c\<lparr>cd_sdio_single_irq := single_irq (w_host w) c\<rparr>))
   }"

definition set_handler :: "nat \<Rightarrow> bool \<Rightarrow> unit io" where
  "set_handler i b = modify (upd_card (upd_func i (\<lambda>f. f\<lparr>fn_irq_handler := b\<rparr>)))"

definition sdio_claim_irq :: "nat \<Rightarrow> int io" where
  "sdio_claim_irq i = do {
     w \<leftarrow> gets id;
     (case func_at (w_card w) i of
        None \<Rightarrow> ret (- EINVAL)
      | Some f \<Rightarrow>
          if fn_irq_handler f then ret (- EBUSY)
          else do {
            r \<leftarrow> mmc_io_rw_direct False 0 SDIO_CCCR_IENx 0 True;
            if fst r \<noteq> 0 then ret (fst r)
            else do {
              r \<leftarrow> mmc_io_rw_direct True 0 SDIO_CCCR_IENx (snd r OR func_bit f OR 1) False;
              if fst r \<noteq> 0 then ret (fst r)
              else do {
                set_handler i True;
                err \<leftarrow> sdio_card_irq_get;
                io_when (err \<noteq> 0) (set_handler i False);
                sdio_single_irq_set;
                ret err
              }
            }
          })
   }"

definition sdio_release_irq :: "nat \<Rightarrow> int io" where
  "sdio_release_irq i = do {
     w \<leftarrow> gets id;
     (case func_at (w_card w) i of
        None \<Rightarrow> ret (- EINVAL)
      | Some f \<Rightarrow> do {
          io_when (fn_irq_handler f) (do {
            set_handler i False;
            sdio_card_irq_put;
            sdio_single_irq_set
          });
          r \<leftarrow> mmc_io_rw_direct False 0 SDIO_CCCR_IENx 0 True;
          if fst r \<noteq> 0 then ret (fst r)
          else do {
            let reg = snd r AND NOT (func_bit f);
            r \<leftarrow> mmc_io_rw_direct True 0 SDIO_CCCR_IENx (if reg AND 0xFE = 0 then 0 else reg) False;
            ret (fst r)
          }
        })
   }"

end
