(* ===== verification/Sdio_Facts.thy ===== *)
theory Sdio_Facts
  imports Sdio_Irq Sd_Life_Facts
begin

text \<open>
  The operations on SDIO functions: what their commands leave alone, the safety of the parser,
  and the count of the claimed interrupts.
\<close>

section \<open>Commands\<close>

lemma io_op_cond_rel [io_rel, io_hold, io_settled]:
  "state_io_rel evolves (io_op_cond_loop ocr n err cmd)"
  "state_io_rel holds_balanced (io_op_cond_loop ocr n err cmd)"
  "state_io_rel settled (io_op_cond_loop ocr n err cmd)"
  by (induction n arbitrary: err cmd; simp only: io_op_cond_loop.simps Let_def;
      intro io_rel ev.rel_intros io_hold hb.rel_intros io_settled st.rel_intros; assumption?)+

lemma sdio_ops_rel [io_rel, io_hold, io_settled]:
  "state_io_rel evolves (mmc_send_io_op_cond ocr)"
  "state_io_rel holds_balanced (mmc_send_io_op_cond ocr)"
  "state_io_rel settled (mmc_send_io_op_cond ocr)"
  "state_io_rel evolves (mmc_io_rw_direct wr fn addr inp out)"
  "state_io_rel holds_balanced (mmc_io_rw_direct wr fn addr inp out)"
  "state_io_rel settled (mmc_io_rw_direct wr fn addr inp out)"
  "state_io_rel evolves (mmc_io_rw_extended wr fn addr inc buf blocks blksz)"
  "state_io_rel holds_balanced (mmc_io_rw_extended wr fn addr inc buf blocks blksz)"
  "state_io_rel settled (mmc_io_rw_extended wr fn addr inc buf blocks blksz)"
  unfolding mmc_send_io_op_cond_def mmc_io_rw_direct_def mmc_io_rw_extended_def kzalloc_def Let_def
  by (intro io_rel ev.rel_intros io_hold hb.rel_intros io_settled st.rel_intros)+

lemma sdio_reset_rel [io_rel, io_hold, io_settled]:
  "state_io_rel evolves sdio_reset" "state_io_rel holds_balanced sdio_reset"
  "state_io_rel settled sdio_reset"
  unfolding sdio_reset_def Let_def
  by (intro io_rel ev.rel_intros io_hold hb.rel_intros io_settled st.rel_intros)+

lemmas [io_calm] = sdio_ops_rel(3,6,9) [THEN settled_calm] sdio_reset_rel(3) [THEN settled_calm]

section \<open>Safety of the parser\<close>

text \<open>The operation never gives the result None.\<close>

definition never_bad :: "'a option io \<Rightarrow> bool" where
  "never_bad m \<longleftrightarrow> (\<forall>w. fst (run_state m w) \<noteq> None)"

lemma never_bad_ret: "never_bad (ret (Some x))" "x \<noteq> None \<Longrightarrow> never_bad (ret x)"
  by (simp_all add: never_bad_def)

lemma byte_at_some [simp]: "i < length buf \<Longrightarrow> byte_at buf i = Some (buf ! i)"
  by (simp add: byte_at_def)

lemma le16_at_some: "i + 1 < length buf \<Longrightarrow> \<exists>x. le16_at buf i = Some x"
  by (simp add: le16_at_def)

lemma vers_1_scan_bounds:
  "vers_1_scan bs = (i, nr) \<Longrightarrow> i \<le> length bs \<and> nr = count_list (take i bs) 0"
  by (induction bs arbitrary: i nr) (auto split: if_splits prod.splits)

text \<open>As many strings as there are zeros in the part that was scanned can be copied.\<close>

lemma vers_1_strings_fit:
  "count_list (take room buf) 0 \<ge> n \<Longrightarrow> room \<le> length buf \<Longrightarrow> vers_1_strings n room buf \<noteq> None"
proof (induction n arbitrary: room buf)
  case 0
  then show ?case by simp
next
  case (Suc n)
  have "0 \<in> set (take room buf)" using Suc.prems(1) by (metis count_notin not_less_eq_eq zero_le)
  then obtain ys zs where split: "take room buf = ys @ 0 # zs" "0 \<notin> set ys"
    by (metis split_list_first)
  have buf: "buf = ys @ 0 # zs @ drop room buf" using split(1) append_take_drop_id [of room buf] by simp
  have len: "length ys + 1 + length zs = room"
    using arg_cong [OF split(1), of length] Suc.prems(2) by simp
  have tw: "takeWhile (\<lambda>b. b \<noteq> 0) buf = ys"
    by (subst buf) (use split(2) in \<open>auto simp: takeWhile_append intro: takeWhile_eq_all_conv [THEN iffD2]\<close>)
  have rest: "drop (length ys + 1) buf = zs @ drop room buf" by (subst buf) simp
  have "vers_1_strings n (room - (length ys + 1)) (zs @ drop room buf) \<noteq> None"
    using Suc.prems len split count_notin [OF split(2)] by (intro Suc.IH) auto
  then show ?case using tw rest len Suc.prems(2) by (auto simp: Let_def)
qed

lemma vers_1_safe: "length buf \<ge> 3 \<Longrightarrow> never_bad (cistpl_vers_1 tgt buf)"
proof -
  obtain i nr where scan: "vers_1_scan (drop 2 buf) = (i, nr)" by fastforce
  note b = vers_1_scan_bounds [OF this]
  then have "vers_1_strings nr i (drop 2 buf) \<noteq> None"
    by (intro vers_1_strings_fit) auto
  then show ?thesis
    by (auto simp: never_bad_def cistpl_vers_1_def scan split_beta)
qed

lemma manfid_safe: "length buf \<ge> 4 \<Longrightarrow> never_bad (cistpl_manfid tgt buf)"
  using le16_at_some [of 0 buf] le16_at_some [of 2 buf]
  by (auto simp: never_bad_def cistpl_manfid_def)

lemma funce_safe: "never_bad (cistpl_funce tgt buf)"
proof -
  have "never_bad (cistpl_funce_common tgt buf)" if "length buf \<ge> 4"
    using that le16_at_some [of 1 buf] by (auto simp: never_bad_def cistpl_funce_common_def)
  moreover have "never_bad (cistpl_funce_func tgt buf)"
    using le16_at_some [of 12 buf] le16_at_some [of 28 buf]
    by (auto simp: never_bad_def cistpl_funce_func_def Let_def not_less)
  ultimately show ?thesis
    by (auto simp: cistpl_funce_def cis_tpl_funce_list_def never_bad_def not_less split: option.split)
qed

lemma cis_parse_safe: "never_bad (cis_tpl_parse cis_tpl_list code tgt buf)"
  using vers_1_safe [of buf tgt] manfid_safe [of buf tgt] funce_safe [of tgt buf]
  by (auto simp: cis_tpl_list_def never_bad_def)

lemma never_badD: "never_bad m \<Longrightarrow> run_state m w \<noteq> (None, v)"
  by (metis never_bad_def fst_conv)

lemma tuples_not_bad:
  "cis_tuples ptr tgt w \<noteq> (Cis_Bad, v)" "cis_tuples ptr tgt w \<noteq> (Cis_Next p t, v)"
proof (induction ptr tgt w rule: cis_tuples.induct)
  case (1 ptr tgt w)
  obtain r u where r: "run_state (cis_tuple_pass ptr tgt) w = (r, u)" by fastforce
  have "r \<noteq> Cis_Bad"
    using r never_badD [OF cis_parse_safe]
    by (auto simp: cis_tuple_pass_def split: if_splits prod.splits option.splits)
  with r 1 show "cis_tuples ptr tgt w \<noteq> (Cis_Bad, v)" "cis_tuples ptr tgt w \<noteq> (Cis_Next p t, v)"
    by (cases r; simp add: cis_tuples.simps [of ptr tgt w])+
qed

lemma read_cis_safe: "never_bad (sdio_read_cis tgt)"
proof -
  have "run_state (sdio_read_cis tgt) w \<noteq> (None, v)" for w v
    by (auto simp: sdio_read_cis_def Let_def tuples_not_bad simp del: cis_pointer.simps
        split: prod.splits if_splits cis_pass.splits)
  then show ?thesis by (metis never_bad_def prod.collapse)
qed

section \<open>Claimed interrupts\<close>

text \<open>
  The host counts the functions with a handler, the functions are the first \<open>sdio_funcs\<close> places
  of the array, and the shortcut is set for a single one.
\<close>

definition irq_count :: "mmc_card \<Rightarrow> nat" where
  "irq_count c = length (filter (has_irq c) [0..<cd_sdio_funcs c])"

definition irq_invariant :: "mmc_world \<Rightarrow> bool" where
  "irq_invariant w \<longleftrightarrow> (let h = w_host w; c = w_card w in
    cd_sdio_funcs c \<le> SDIO_MAX_FUNCS \<and> (\<forall>i. func_at c i \<noteq> None \<longrightarrow> i < cd_sdio_funcs c) \<and>
    h_sdio_irqs h = of_nat (irq_count c) \<and> cd_sdio_single_irq c = single_irq h c)"

lemma func_at_upd:
  "func_at (upd_func i f c) j = (if i = j then map_option f (func_at c i) else func_at c j)"
  by (auto simp: func_at_def upd_func_def)

lemma has_irq_upd:
  "func_at c i = Some f \<Longrightarrow>
    has_irq (upd_func i (\<lambda>f. f\<lparr>fn_irq_handler := b\<rparr>) c) j = (if j = i then b else has_irq c j)"
  by (simp add: has_irq_def func_at_upd)

lemma count_upd:
  assumes "i < n"
  shows "length (filter (\<lambda>j. if j = i then b else P j) [0..<n])
    = length (filter (\<lambda>j. j \<noteq> i \<and> P j) [0..<n]) + (if b then 1 else (0 :: nat))"
proof -
  have split: "[0..<n] = [0..<i] @ i # [Suc i..<n]"
    using assms by (metis append_Nil2 le_add1 less_imp_add_positive upt_add_eq_append upt_conv_Cons upt_rec zero_le)
  have "filter (\<lambda>j. if j = i then b else P j) [0..<i] = filter (\<lambda>j. j \<noteq> i \<and> P j) [0..<i]"
    "filter (\<lambda>j. if j = i then b else P j) [Suc i..<n] = filter (\<lambda>j. j \<noteq> i \<and> P j) [Suc i..<n]"
    by (auto intro: filter_cong)
  then show ?thesis by (simp add: split)
qed

lemma irq_count_upd:
  assumes "func_at c i = Some f" and "i < cd_sdio_funcs c"
  shows "irq_count (upd_func i (\<lambda>f. f\<lparr>fn_irq_handler := b\<rparr>) c) + (if fn_irq_handler f then 1 else 0)
    = irq_count c + (if b then 1 else 0)"
proof -
  have "has_irq c = (\<lambda>j. if j = i then fn_irq_handler f else has_irq c j)"
    using assms(1) by (auto simp: has_irq_def)
  then have "irq_count c = length (filter (\<lambda>j. j \<noteq> i \<and> has_irq c j) [0..<cd_sdio_funcs c])
      + (if fn_irq_handler f then 1 else 0)"
    using count_upd [OF assms(2), of "fn_irq_handler f" "has_irq c"] by (simp add: irq_count_def)
  moreover have "cd_sdio_funcs (upd_func i g c) = cd_sdio_funcs c" for g by (simp add: upd_func_def)
  moreover have "has_irq (upd_func i (\<lambda>f. f\<lparr>fn_irq_handler := b\<rparr>) c)
      = (\<lambda>j. if j = i then b else has_irq c j)"
    by (rule ext) (rule has_irq_upd [OF assms(1)])
  ultimately show ?thesis
    using count_upd [OF assms(2), of b "has_irq c"] by (simp add: irq_count_def)
qed

lemma settled_irqs:
  assumes "settled w v"
  shows "h_sdio_irqs (w_host v) = h_sdio_irqs (w_host w)"
    "h_sdio_irq_pending (w_host v) = h_sdio_irq_pending (w_host w)"
  using assms [unfolded settled_def, THEN arg_cong, of "\<lambda>w. h_sdio_irqs (w_host w)"]
    assms [unfolded settled_def, THEN arg_cong, of "\<lambda>w. h_sdio_irq_pending (w_host w)"]
  by (simp_all add: blank_def)

lemma settled_invariant: "settled w v \<Longrightarrow> irq_invariant v = irq_invariant w"
  by (simp add: irq_invariant_def settled_fields settled_irqs single_irq_def Let_def)

text \<open>
  What a claim and a release do to the card and the count of the host: the handler of one
  function changes, with the count, and the shortcut is set anew.
\<close>

lemma irq_invariantI:
  assumes inv: "irq_invariant w" and f: "func_at (w_card w) i = Some f"
    and card: "w_card v = (upd_func i (\<lambda>f. f\<lparr>fn_irq_handler := b\<rparr>) (w_card w))
      \<lparr>cd_sdio_single_irq := single_irq (w_host v) (upd_func i (\<lambda>f. f\<lparr>fn_irq_handler := b\<rparr>) (w_card w))\<rparr>"
    and irqs: "h_sdio_irqs (w_host v) = h_sdio_irqs (w_host w)
      + (if b then 1 else 0) - (if fn_irq_handler f then 1 else 0)"
  shows "irq_invariant v"
proof -
  let ?c = "upd_func i (\<lambda>f. f\<lparr>fn_irq_handler := b\<rparr>) (w_card w)"
  have at: "func_at (w_card v) = func_at ?c" by (rule ext) (simp add: card func_at_def)
  have same: "has_irq (w_card v) = has_irq ?c" "cd_sdio_funcs (w_card v) = cd_sdio_funcs (w_card w)"
    by (rule ext, simp add: has_irq_def at) (simp add: card upd_func_def)
  have i: "i < cd_sdio_funcs (w_card w)" using inv f by (auto simp: irq_invariant_def Let_def)
  have "irq_count (w_card v) = irq_count ?c" using same by (simp add: irq_count_def upd_func_def)
  then have "of_nat (irq_count (w_card v)) + (if fn_irq_handler f then 1 else 0 :: u32)
      = of_nat (irq_count (w_card w)) + (if b then 1 else 0)"
    using arg_cong [OF irq_count_upd [OF f i, of b], of "of_nat :: nat \<Rightarrow> u32"]
    by (simp split: if_splits)
  then have "of_nat (irq_count (w_card v)) = of_nat (irq_count (w_card w))
      + (if b then 1 else 0) - (if fn_irq_handler f then 1 else 0 :: u32)"
    by (simp add: algebra_simps)
  then have "h_sdio_irqs (w_host v) = of_nat (irq_count (w_card v))"
    using inv irqs by (simp add: irq_invariant_def Let_def)
  moreover have "single_irq (w_host v) (w_card v) = single_irq (w_host v) ?c"
    using same by (simp add: single_irq_def upd_func_def)
  moreover have "func_at (w_card v) j \<noteq> None \<longrightarrow> j < cd_sdio_funcs (w_card v)" for j
    using inv f same at by (auto simp: irq_invariant_def Let_def func_at_upd split: if_splits)
  ultimately show ?thesis
    using inv same card by (simp add: irq_invariant_def Let_def)
qed

lemma rw_direct_settled:
  "run_state (mmc_io_rw_direct wr fn addr inp out) w = (r, v) \<Longrightarrow> settled w v"
  by (rule st.rel_run [OF sdio_ops_rel(6)])

lemma claim_irq_invariant:
  assumes inv: "irq_invariant w" and run: "run_state (sdio_claim_irq i) w = (r, v)"
  shows "irq_invariant v"
proof (cases "func_at (w_card w) i")
  case None
  with run inv show ?thesis by (simp add: sdio_claim_irq_def)
next
  case (Some f)
  obtain e x a where a: "run_state (mmc_io_rw_direct False 0 SDIO_CCCR_IENx 0 True) w = ((e, x), a)"
    by (metis surj_pair)
  obtain e' y b where b: "run_state (mmc_io_rw_direct True 0 SDIO_CCCR_IENx (x OR func_bit f OR 1) False) a
    = ((e', y), b)" by (metis surj_pair)
  have wa: "settled w a" and wb: "settled w b"
    using rw_direct_settled [OF a] rw_direct_settled [OF b] by (auto intro: st.trn)
  note inv_ab = settled_invariant [OF wa] settled_invariant [OF wb]
  have fb: "func_at (w_card b) i = Some f" using settled_fields(1) [OF wb] Some by simp
  show ?thesis
  proof (cases "fn_irq_handler f \<or> e \<noteq> 0 \<or> e' \<noteq> 0")
    case True
    with run Some a b inv inv_ab show ?thesis by (auto simp: sdio_claim_irq_def split: if_splits)
  next
    case False
    let ?m = "do { set_handler i True; err \<leftarrow> sdio_card_irq_get;
      io_when (err \<noteq> 0) (set_handler i False); sdio_single_irq_set; ret err }"
    from run Some a b False have m: "run_state ?m b = (r, v)" by (simp add: sdio_claim_irq_def)
    have twice: "upd_func i (fn_irq_handler_update (\<lambda>_. False)) (upd_func i (fn_irq_handler_update (\<lambda>_. True)) (w_card b))
      = upd_func i (fn_irq_handler_update (\<lambda>_. False)) (w_card b)"
      by (cases "cd_sdio_func (w_card b) ! i") (simp_all add: upd_func_def func_at_def)
    have "irq_invariant b" using inv inv_ab by simp
    then show ?thesis
      using m twice False
      by (intro irq_invariantI [OF \<open>irq_invariant b\<close> fb, where b = "r = 0"])
        (auto simp: set_handler_def sdio_card_irq_get_def sdio_single_irq_set_def emit_def Let_def
          upd_host_def upd_card_def split: if_splits)
  qed
qed

lemma release_irq_invariant:
  assumes inv: "irq_invariant w" and run: "run_state (sdio_release_irq i) w = (r, v)"
  shows "irq_invariant v"
proof (cases "func_at (w_card w) i")
  case None
  with run inv show ?thesis by (simp add: sdio_release_irq_def)
next
  case (Some f)
  let ?m = "io_when (fn_irq_handler f) (do { set_handler i False; sdio_card_irq_put; sdio_single_irq_set })"
  obtain a where a: "run_state ?m w = ((), a)" by (rule unit_run)
  have "irq_invariant a"
  proof (cases "fn_irq_handler f")
    case True
    have i: "i < cd_sdio_funcs (w_card w)" "cd_sdio_funcs (w_card w) \<le> 7"
      using inv Some by (auto simp: irq_invariant_def Let_def)
    have "has_irq (w_card w) i" using Some True by (simp add: has_irq_def)
    then have "irq_count (w_card w) \<noteq> 0"
      using i by (auto simp: irq_count_def filter_empty_conv)
    moreover have "irq_count (w_card w) \<le> 7"
      using i(2) length_filter_le [of "has_irq (w_card w)" "[0..<cd_sdio_funcs (w_card w)]"]
      by (simp add: irq_count_def)
    ultimately have "h_sdio_irqs (w_host w) \<ge> 1"
      using inv by (simp add: irq_invariant_def Let_def word_le_nat_alt unat_of_nat)
    then show ?thesis
      using a True
      by (intro irq_invariantI [OF inv Some, where b = False])
        (auto simp: set_handler_def sdio_card_irq_put_def sdio_single_irq_set_def emit_def Let_def
          upd_host_def upd_card_def split: if_splits)
  next
    case False
    with a inv show ?thesis by simp
  qed
  moreover have "settled a v"
  proof -
    let ?n = "do { r \<leftarrow> mmc_io_rw_direct False 0 SDIO_CCCR_IENx 0 True;
      if fst r \<noteq> 0 then ret (fst r)
      else do {
        let reg = snd r AND NOT (func_bit f);
        r \<leftarrow> mmc_io_rw_direct True 0 SDIO_CCCR_IENx (if reg AND 0xFE = 0 then 0 else reg) False;
        ret (fst r) } }"
    have "state_io_rel settled ?n" unfolding Let_def by (intro io_settled st.rel_intros)
    moreover have "run_state ?n a = (r, v)"
      using run Some a by (simp add: sdio_release_irq_def del: run_io_when)
    ultimately show ?thesis by (rule st.rel_run)
  qed
  ultimately show ?thesis by (simp add: settled_invariant)
qed

end
