(* ===== verification/Sdio_Cis_Facts.thy ===== *)
theory Sdio_Cis_Facts
  imports Sdio_Facts Quiet_World
begin

text \<open>
  Reading the card information back: the image of a list of tuples, a controller that serves the
  bytes of a memory, and the result of the read.
\<close>

section \<open>Images\<close>

datatype cis_item = Cis_Null | Cis_Manfid u16 u16 | Cis_Common u16 u8 | Cis_Other u8 "u8 list"

definition bytes16 :: "u16 \<Rightarrow> u8 list" where
  "bytes16 x = [ucast x, ucast (drop_bit 8 x)]"

fun item_image :: "cis_item \<Rightarrow> u8 list" where
  "item_image Cis_Null = [0]"
| "item_image (Cis_Manfid vendor device) = 0x20 # 4 # bytes16 vendor @ bytes16 device"
| "item_image (Cis_Common blksize speed) = 0x22 # 4 # 0 # bytes16 blksize @ [speed]"
| "item_image (Cis_Other code data) = code # of_nat (length data) # data"

definition cis_image :: "cis_item list \<Rightarrow> u8 list" where
  "cis_image is = concat (map item_image is) @ [0xFF]"

text \<open>Tuples for which there is no parser, of a length that is not the end mark.\<close>

fun item_ok :: "cis_item \<Rightarrow> bool" where
  "item_ok (Cis_Other code data) \<longleftrightarrow> code \<notin> {0x00, 0x15, 0x20, 0x22, 0xFF} \<and> length data < 255 \<and>
     (code \<in> {0x21, 0x91} \<longrightarrow> 2 \<le> length data)"
| "item_ok _ = True"

text \<open>What the card object records of a tuple.\<close>

fun record_item :: "cis_item \<Rightarrow> mmc_card \<Rightarrow> mmc_card" where
  "record_item Cis_Null c = c"
| "record_item (Cis_Manfid vendor device) c = c\<lparr>cd_cis_vendor := vendor, cd_cis_device := device\<rparr>"
| "record_item (Cis_Common blksize s) c = c\<lparr>cd_cis_blksize := blksize,
     cd_cis_max_dtr := speed_val ! unat (drop_bit 3 s AND 15) * speed_unit ! unat (s AND 7)\<rparr>"
| "record_item (Cis_Other code data) c = c\<lparr>cd_tuples := cd_tuples c @ [(code, data)]\<rparr>"

section \<open>A controller that serves a memory\<close>

definition serves :: "(nat \<Rightarrow> u8) \<Rightarrow> mmc_world \<Rightarrow> bool" where
  "serves mem w \<longleftrightarrow> quiet w \<and> op_card_busy (w_ops w) = None \<and> \<not> mmc_host_is_spi w \<and>
    (\<forall>t n. kn_alloc (w_kernel w) t n) \<and>
    (\<forall>t q. cmd_opcode (mrq_cmd q) = SD_IO_RW_DIRECT \<longrightarrow>
      resp4 (cpl_cmd_resp (op_request (w_ops w) t q)) ! 0
        = ucast (mem (unat (drop_bit 9 (cmd_arg (mrq_cmd q)) AND 0x1FFFF))))"

text \<open>The operation gives this result on every controller that serves the memory, which it then does still.\<close>

definition gives :: "(nat \<Rightarrow> u8) \<Rightarrow> 'a io \<Rightarrow> 'a \<Rightarrow> bool" where
  "gives mem m x \<longleftrightarrow> (\<forall>w. serves mem w \<longrightarrow> (\<exists>v. run_state m w = (x, v) \<and> serves mem v))"

lemma kernel_kept: "w_kernel (log_event e n w) = w_kernel w" "w_kernel (tuned w) = w_kernel w"
  by (simp_all add: log_event_def tuned_def upd_host_def)

lemma givesI:
  "(\<And>w. serves mem w \<Longrightarrow> \<exists>v. run_state m w = (x, v) \<and> serves mem v) \<Longrightarrow> gives mem m x"
  by (simp add: gives_def)

lemma gives_run: "gives mem m x \<Longrightarrow> serves mem w \<Longrightarrow> \<exists>v. run_state m w = (x, v) \<and> serves mem v"
  by (simp add: gives_def)

lemma gives_ret: "gives mem (ret x) x"
  by (simp add: gives_def)

lemma gives_bind: "gives mem m x \<Longrightarrow> gives mem (f x) y \<Longrightarrow> gives mem (m \<bind> f) y"
  by (fastforce simp: gives_def)

lemma gives_gets: "(\<And>w. gives mem (f w) y) \<Longrightarrow> gives mem (gets id \<bind> f) y"
  by (simp add: gives_def)

lemma gives_kzalloc: "gives mem (kzalloc n) True"
  by (auto simp: gives_def kzalloc_def serves_def emit_def log_event_def quiet_def mmc_card_removed_def
     )

lemma address_bits:
  assumes "unat (addr :: u32) < 0x20000"
  shows "drop_bit 9 (push_bit 9 addr) AND 0x1FFFF = addr" "addr AND NOT 0x1FFFF = 0"
proof -
  have "take_bit 17 addr = addr"
    using assms by (intro word_unat_eq_iff [THEN iffD2]) (simp add: unsigned_take_bit_eq take_bit_nat_eq_self)
  then have low: "bit addr n \<Longrightarrow> n < 17" for n by (metis bit_take_bit_iff)
  have m: "(0x1FFFF :: u32) = mask 17" by (simp add: mask_eq_exp_minus_1)
  show "drop_bit 9 (push_bit 9 addr) AND 0x1FFFF = addr" "addr AND NOT 0x1FFFF = 0"
    unfolding m by (rule bit_word_eqI; use low in \<open>force simp: bit_simps\<close>)+
qed

lemma r5_byte: "r5_error (ucast (b :: u8)) = 0"
proof -
  have "(ucast b :: u32) AND push_bit n m = 0" if "n \<ge> 8" for n m
    using that bit_imp_le_length [of b] by (intro bit_word_eqI) (force simp: bit_simps)
  from this [of 8 "8 :: u32"] this [of 8 "2 :: u32"] this [of 8 "1 :: u32"]
  show ?thesis by (simp add: r5_error_def push_bit_eq_mult)
qed

lemma low_byte: "ucast (ucast (b :: u8) AND (0xFF :: u32)) = b"
proof -
  have m: "(0xFF :: u32) = mask 8" by (simp add: mask_eq_exp_minus_1)
  show ?thesis unfolding m by (rule bit_word_eqI) (simp add: bit_simps)
qed

lemma gives_byte:
  assumes "unat addr < 0x20000"
  shows "gives mem (cis_byte addr) (0, mem (unat addr))"
  unfolding gives_def
proof (intro allI impI)
  fix w assume s: "serves mem w"
  let ?c = "rw_direct_cmd False 0 addr 0 True"
  let ?v = "log_event (EvRequest (sent ?c 0)) 0 (tuned w)"
  have q: "quiet w" and busy: "op_card_busy (w_ops w) = None" and spi: "\<not> mmc_host_is_spi w"
    using s by (auto simp: serves_def)
  have "cmd_arg (mrq_cmd (sent ?c 0)) = push_bit 9 addr"
    "cmd_opcode (mrq_cmd (sent ?c 0)) = SD_IO_RW_DIRECT"
    by (simp_all add: sent_def mrq_of_def rw_direct_cmd_def)
  then have resp: "resp4 (cpl_cmd_resp (op_request (w_ops w) t (sent ?c 0))) ! 0 = ucast (mem (unat addr))" for t
    using s address_bits [OF assms] by (simp add: serves_def)
  have v: "serves mem ?v"
    using s by (simp add: serves_def kernel_kept)
  have "run_state (cis_byte addr) w = ((0, mem (unat addr)), ?v)"
    using cmd_quiet_io [OF q, of ?c 0] busy spi v address_bits [OF assms] resp
    by (simp add: cis_byte_def mmc_io_rw_direct_def io_free_def Let_def serves_def r5_byte low_byte)
  with v show "\<exists>v. run_state (cis_byte addr) w = ((0, mem (unat addr)), v) \<and> serves mem v" by blast
qed


lemma gives_byte_bind:
  "unat addr < 0x20000 \<Longrightarrow> gives mem (f (0, mem (unat addr))) y \<Longrightarrow> gives mem (cis_byte addr \<bind> f) y"
  by (rule gives_bind [OF gives_byte])

section \<open>Reading an image\<close>

text \<open>A part of the memory, within the address space.\<close>

definition holds :: "(nat \<Rightarrow> u8) \<Rightarrow> nat \<Rightarrow> u8 list \<Rightarrow> bool" where
  "holds mem a bs \<longleftrightarrow> a + length bs \<le> 0x20000 \<and> (\<forall>i < length bs. mem (a + i) = bs ! i)"

lemma holds_Cons: "holds mem a (b # bs) \<longleftrightarrow> a < 0x20000 \<and> mem a = b \<and> holds mem (Suc a) bs"
proof -
  have "(\<forall>i < Suc (length bs). mem (a + i) = (b # bs) ! i) \<longleftrightarrow>
      mem a = b \<and> (\<forall>i < length bs. mem (Suc a + i) = bs ! i)"
    by (simp add: All_less_Suc2)
  then show ?thesis by (auto simp: holds_def)
qed

lemma holds_append: "holds mem a (bs @ cs) \<longleftrightarrow> holds mem a bs \<and> holds mem (a + length bs) cs"
proof (induction bs arbitrary: a)
  case Nil
  then show ?case by (auto simp: holds_def)
next
  case (Cons b bs)
  then show ?case by (auto simp: holds_Cons)
qed

lemma unat_step: "unat (a :: u32) < 0x20000 \<Longrightarrow> n \<le> 0x20000 \<Longrightarrow> unat (a + of_nat n) = unat a + n"
  by (simp add: unat_word_ariths unat_of_nat)

lemma gives_data:
  assumes "holds mem (unat addr) data" and "unat addr < 0x20000"
  shows "gives mem (cis_data (length data) addr) (0, data)"
  using assms
proof (induction data arbitrary: addr)
  case Nil
  then show ?case by (simp add: gives_ret)
next
  case (Cons b data)
  note b = Cons.prems [unfolded holds_Cons]
  have suc: "unat (addr + 1) = Suc (unat addr)" using unat_step [of addr 1] b by simp
  have "gives mem (cis_data (length data) (addr + 1)) (0, data)"
  proof (cases data)
    case Nil
    then show ?thesis by (simp add: gives_ret)
  next
    case (Cons x xs)
    then show ?thesis using b suc by (intro Cons.IH) (auto simp: holds_Cons)
  qed
  show ?case
  proof (rule givesI)
    fix w assume "serves mem w"
    from gives_run [OF gives_byte this] b obtain u where
      u: "run_state (cis_byte addr) w = ((0, b), u)" "serves mem u" by metis
    from gives_run [OF \<open>gives mem _ (0, data)\<close> u(2)] obtain v where
      "run_state (cis_data (length data) (addr + 1)) u = ((0, data), v)" "serves mem v" by blast
    with u show "\<exists>v. run_state (cis_data (length (b # data)) addr) w = ((0, b # data), v) \<and> serves mem v"
      by simp
  qed
qed

text \<open>A tuple whose parser gives a result.\<close>

lemma gives_tuple:
  assumes mem: "holds mem (unat ptr) (code # of_nat (length data) # data)"
    and code: "code \<noteq> 0" "code \<noteq> 0xFF" and len: "length data < 255"
    and parse: "gives mem (cis_tpl_parse cis_tpl_list code tgt data) (Some (err, tgt'))"
    and err: "err = 0 \<and> t = tgt' \<or> (err = - EILSEQ \<or> err = - ENOENT) \<and> t = queue_tuple code data tgt'"
  shows "gives mem (cis_tuple_pass ptr tgt) (Cis_Next (ptr + of_nat (length data + 2)) t)"
proof -
  let ?n = "of_nat (length data) :: u8"
  have n: "unat ?n = length data" "?n \<noteq> 0xFF" "(ucast ?n :: u32) = of_nat (length data)"
  proof -
    show n: "unat ?n = length data" using len by (simp add: unat_of_nat)
    show "?n \<noteq> 0xFF" using len n by auto
    show "(ucast ?n :: u32) = of_nat (length data)"
      using len by (simp add: unsigned_of_nat take_bit_nat_eq_self)
  qed
  note m = mem [unfolded holds_Cons]
  have p: "unat (ptr + 1) = Suc (unat ptr)" using unat_step [of ptr 1] m by simp
  have "gives mem (cis_data (length data) (ptr + 2)) (0, data)"
  proof (cases data)
    case Nil
    then show ?thesis by (simp add: gives_ret)
  next
    case (Cons b bs)
    then have "holds mem (unat ptr + 2) (b # bs)" "unat ptr + 2 < 0x20000" using m by (auto simp: holds_Cons)
    moreover have "unat (ptr + 2) = unat ptr + 2" using unat_step [of ptr 2] m by simp
    ultimately show ?thesis unfolding Cons using gives_data [of mem "ptr + 2" "b # bs"] by simp
  qed
  note data = this
  show ?thesis
  proof (rule givesI)
    fix w assume "serves mem w"
    from gives_run [OF gives_byte this] m obtain w1 where
      1: "run_state (cis_byte ptr) w = ((0, code), w1)" "serves mem w1" by metis
    from gives_run [OF gives_byte 1(2), of "ptr + 1"] m p obtain w2 where
      2: "run_state (cis_byte (ptr + 1)) w1 = ((0, ?n), w2)" "serves mem w2" by auto
    from gives_run [OF gives_kzalloc 2(2)] obtain w3 where
      3: "run_state (kzalloc (kn_sizeof_tuple (w_kernel w2) + length data)) w2 = (True, w3)" "serves mem w3"
      by blast
    from gives_run [OF data 3(2)] obtain w4 where
      4: "run_state (cis_data (length data) (ptr + 2)) w3 = ((0, data), w4)" "serves mem w4" by blast
    from gives_run [OF parse 4(2)] obtain v where
      5: "run_state (cis_tpl_parse cis_tpl_list code tgt data) w4 = (Some (err, tgt'), v)" "serves mem v"
      by blast
    have "run_state (cis_tuple_pass ptr tgt) w = (Cis_Next (ptr + of_nat (length data + 2)) t, v)"
      using 1 2 3 4 5 n code err by (auto simp: cis_tuple_pass_def algebra_simps)
    with 5 show "\<exists>v. run_state (cis_tuple_pass ptr tgt) w = (Cis_Next (ptr + of_nat (length data + 2)) t, v)
      \<and> serves mem v" by blast
  qed
qed

text \<open>The items of an image are such tuples, or a null tuple.\<close>

lemma le16_image: "ucast (ucast (ucast (x :: u16) :: u8) OR push_bit 8 (ucast (ucast (drop_bit 8 x) :: u8)) :: u32) = x"
  by (rule bit_word_eqI) (auto simp: bit_simps)

lemma gives_item:
  assumes ok: "item_ok i" and mem: "holds mem (unat ptr) (item_image i)"
  shows "gives mem (cis_tuple_pass ptr (c, None))
    (Cis_Next (ptr + of_nat (length (item_image i))) (record_item i c, None))"
proof (cases i)
  case Cis_Null
  show ?thesis
  proof (rule givesI)
    fix w assume "serves mem w"
    from gives_run [OF gives_byte this, of ptr] mem Cis_Null obtain v where
      "run_state (cis_byte ptr) w = ((0, 0), v)" "serves mem v" by (auto simp: holds_Cons)
    with Cis_Null show "\<exists>v. run_state (cis_tuple_pass ptr (c, None)) w
      = (Cis_Next (ptr + of_nat (length (item_image i))) (record_item i c, None), v) \<and> serves mem v"
      by (simp add: cis_tuple_pass_def)
  qed
next
  case (Cis_Manfid vendor device)
  let ?d = "bytes16 vendor @ bytes16 device"
  have "gives mem (cis_tpl_parse cis_tpl_list 0x20 (c, None) ?d) (Some (0, record_item i c, None))"
    by (simp add: Cis_Manfid cis_tpl_list_def cistpl_manfid_def bytes16_def le16_at_def gives_ret le16_image)
  with gives_tuple [where mem = mem and ptr = ptr and code = "0x20" and data = ?d and tgt = "(c, None)"
    and err = 0 and tgt' = "(record_item i c, None)" and t = "(record_item i c, None)"] mem Cis_Manfid
  show ?thesis by (simp add: bytes16_def)
next
  case (Cis_Common blksize speed)
  let ?d = "0 # bytes16 blksize @ [speed]"
  have "gives mem (cis_tpl_parse cis_tpl_list 0x22 (c, None) ?d) (Some (0, record_item i c, None))"
    by (simp add: Cis_Common cis_tpl_list_def cistpl_funce_def cis_tpl_funce_list_def
        cistpl_funce_common_def bytes16_def le16_at_def gives_ret le16_image)
  with gives_tuple [where mem = mem and ptr = ptr and code = "0x22" and data = ?d and tgt = "(c, None)"
    and err = 0 and tgt' = "(record_item i c, None)" and t = "(record_item i c, None)"] mem Cis_Common
  show ?thesis by (simp add: bytes16_def)
next
  case (Cis_Other code data)
  define err where "err = (if code \<in> {0x21, 0x91} then - EILSEQ else - ENOENT)"
  have "gives mem (cis_tpl_parse cis_tpl_list code (c, None) data) (Some (err, c, None))"
    using ok Cis_Other by (auto simp: cis_tpl_list_def gives_ret err_def)
  note tuple = gives_tuple [OF _ _ _ _ this, of ptr "(record_item i c, None)"]
  have "holds mem (unat ptr) (code # of_nat (length data) # data)" "code \<noteq> 0" "code \<noteq> 0xFF"
    "length data < 255" "(record_item i c, None) = queue_tuple code data (c, None)"
    using mem ok Cis_Other by (auto simp: queue_tuple_def)
  then show ?thesis using tuple by (simp add: Cis_Other err_def)
qed

text \<open>The loop over the items, to the end mark.\<close>

lemma gives_tuples:
  assumes "\<forall>i \<in> set is. item_ok i" and "holds mem (unat ptr) (cis_image is)"
  shows "gives mem (State (cis_tuples ptr (c, None))) (Cis_End 0 (fold record_item is c, None))"
  using assms
proof (induction "is" arbitrary: ptr c)
  case Nil
  show ?case
  proof (rule givesI)
    fix w assume "serves mem w"
    from gives_run [OF gives_byte this, of ptr] Nil obtain v where
      "run_state (cis_byte ptr) w = ((0, 0xFF), v)" "serves mem v" by (auto simp: holds_Cons cis_image_def)
    then show "\<exists>v. run_state (State (cis_tuples ptr (c, None))) w
        = (Cis_End 0 (fold record_item [] c, None), v) \<and> serves mem v"
      by (simp add: cis_tuples.simps [of ptr] cis_tuple_pass_def)
  qed
next
  case (Cons i "is")
  let ?p = "ptr + of_nat (length (item_image i))"
  have mem: "holds mem (unat ptr) (item_image i)"
    "holds mem (unat ptr + length (item_image i)) (cis_image is)"
    using Cons.prems(2) by (simp_all add: cis_image_def holds_append)
  then have "unat ptr < 0x20000" "length (item_image i) \<le> 0x20000"
    by (auto simp: cis_image_def holds_def)
  then have p: "unat ?p = unat ptr + length (item_image i)" by (rule unat_step)
  have step: "gives mem (cis_tuple_pass ptr (c, None)) (Cis_Next ?p (record_item i c, None))"
    using gives_item [OF _ mem(1)] Cons.prems(1) by simp
  have rest: "gives mem (State (cis_tuples ?p (record_item i c, None)))
      (Cis_End 0 (fold record_item is (record_item i c), None))"
    using mem(2) p Cons.prems(1) by (intro Cons.IH) simp_all
  show ?case
  proof (rule givesI)
    fix w assume "serves mem w"
    from gives_run [OF step this] obtain u where
      u: "run_state (cis_tuple_pass ptr (c, None)) w = (Cis_Next ?p (record_item i c, None), u)" "serves mem u"
      by blast
    from gives_run [OF rest u(2)] u show "\<exists>v. run_state (State (cis_tuples ptr (c, None))) w
        = (Cis_End 0 (fold record_item (i # is) c, None), v) \<and> serves mem v"
      by (simp add: cis_tuples.simps [of ptr])
  qed
qed

text \<open>The pointer to the chain, in three bytes.\<close>

definition pointer_at :: "(nat \<Rightarrow> u8) \<Rightarrow> nat \<Rightarrow> u32 \<Rightarrow> bool" where
  "pointer_at mem a ptr \<longleftrightarrow> holds mem a [ucast ptr, ucast (drop_bit 8 ptr), ucast (drop_bit 16 ptr)]"

lemma pointer_bytes:
  assumes "unat (ptr :: u32) < 0x20000"
  shows "0 OR push_bit 0 (ucast (ucast ptr :: u8)) OR push_bit 8 (ucast (ucast (drop_bit 8 ptr) :: u8))
    OR push_bit 16 (ucast (ucast (drop_bit 16 ptr) :: u8)) = (ptr :: u32)"
proof (rule bit_word_eqI)
  fix n assume n: "n < LENGTH(32)"
  have "take_bit 17 ptr = ptr"
    using assms by (intro word_unat_eq_iff [THEN iffD2]) (simp add: unsigned_take_bit_eq take_bit_nat_eq_self)
  then have "bit ptr n \<Longrightarrow> n < 17" by (metis bit_take_bit_iff)
  then show "bit (0 OR push_bit 0 (ucast (ucast ptr :: u8)) OR push_bit 8 (ucast (ucast (drop_bit 8 ptr) :: u8))
    OR push_bit 16 (ucast (ucast (drop_bit 16 ptr) :: u8)) :: u32) n = bit ptr n"
    using n by (cases "n = 16") (auto simp: bit_simps)
qed

lemma gives_pointer:
  assumes ptr: "unat ptr < 0x20000" and mem: "pointer_at mem 9 ptr"
  shows "gives mem (cis_pointer 0 [0, 1, 2] 0) (0, ptr)"
proof (rule givesI)
  fix w assume "serves mem w"
  note m = mem [unfolded pointer_at_def holds_Cons, simplified]
  from gives_run [OF gives_byte \<open>serves mem w\<close>, of 9] m obtain w1 where
    1: "run_state (cis_byte 9) w = ((0, ucast ptr), w1)" "serves mem w1" by auto
  from gives_run [OF gives_byte 1(2), of 10] m obtain w2 where
    2: "run_state (cis_byte 10) w1 = ((0, ucast (drop_bit 8 ptr)), w2)" "serves mem w2" by auto
  from gives_run [OF gives_byte 2(2), of 11] m obtain v where
    3: "run_state (cis_byte 11) w2 = ((0, ucast (drop_bit 16 ptr)), v)" "serves mem v" by auto
  have "run_state (cis_pointer 0 [0, 1, 2] 0) w = ((0, ptr), v)"
    using 1 2 3 pointer_bytes [OF ptr] by (simp add: SDIO_FBR_BASE_def or.assoc)
  with 3 show "\<exists>v. run_state (cis_pointer 0 [0, 1, 2] 0) w = ((0, ptr), v) \<and> serves mem v" by blast
qed

lemma gives_common_cis:
  assumes ok: "\<forall>i \<in> set is. item_ok i" and mem: "holds mem (unat ptr) (cis_image is)"
    and ptr: "pointer_at mem 9 ptr" and c: "cd_tuples c = []"
  shows "gives mem (sdio_read_common_cis c) (Some (0, fold record_item is c))"
proof (rule givesI)
  fix w assume "serves mem w"
  moreover have "unat ptr < 0x20000" using mem by (auto simp: holds_def cis_image_def)
  ultimately obtain u where
    u: "run_state (cis_pointer 0 [0, 1, 2] 0) w = ((0, ptr), u)" "serves mem u"
    using gives_run [OF gives_pointer [OF _ ptr]] by blast
  from gives_run [OF gives_tuples [OF ok mem, of c] u(2)] obtain v where
    "cis_tuples ptr (c, None) u = (Cis_End 0 (fold record_item is c, None), v)" "serves mem v" by auto
  with u c show "\<exists>v. run_state (sdio_read_common_cis c) w = (Some (0, fold record_item is c), v) \<and> serves mem v"
    by (simp add: sdio_read_common_cis_def sdio_read_cis_def Let_def del: cis_pointer.simps)
qed

end
