(* ===== verification/Sdio_Transfer_Facts.thy ===== *)
theory Sdio_Transfer_Facts
  imports Sdio_Facts Quiet_World
begin

text \<open>
  Transfers of any size: a plan of transfers with its addresses and sizes, the operation that
  carries out a plan, and the plan that \<open>sdio_io_rw_ext_helper\<close> carries out.
\<close>

section \<open>Plans\<close>

text \<open>A transfer is its address, the number of blocks (0 in byte mode) and the block size.\<close>

type_synonym ext_plan = "(u32 \<times> u32 \<times> u32) list"

fun consecutive :: "bool \<Rightarrow> u32 \<Rightarrow> ext_plan \<Rightarrow> bool" where
  "consecutive incr addr [] = True"
| "consecutive incr addr ((a, p) # ps) \<longleftrightarrow>
    a = addr \<and> consecutive incr (if incr then addr + chunk_size p else addr) ps"

fun plan_end :: "bool \<Rightarrow> u32 \<Rightarrow> ext_plan \<Rightarrow> u32" where
  "plan_end incr addr [] = addr"
| "plan_end incr addr ((a, p) # ps) = plan_end incr (if incr then addr + chunk_size p else addr) ps"

definition plan_size :: "ext_plan \<Rightarrow> nat" where
  "plan_size ps = sum_list (map (\<lambda>(a, p). unat (chunk_size p)) ps)"

text \<open>
  The transfers of a plan one after the other, to the first error: the error, and the buffer,
  as far as it was transferred and the rest.
\<close>

fun transfers :: "bool \<Rightarrow> u32 \<Rightarrow> bool \<Rightarrow> ext_plan \<Rightarrow> u8 list \<Rightarrow> (int \<times> u8 list \<times> u8 list) io" where
  "transfers write fn incr [] buf = ret (0, [], buf)"
| "transfers write fn incr ((a, p) # ps) buf = do {
     let sz = unat (chunk_size p);
     r \<leftarrow> mmc_io_rw_extended write fn a incr (take sz buf) (fst p) (snd p);
     if fst r \<noteq> 0 then ret (fst r, snd r, drop sz buf)
     else do {
       s \<leftarrow> transfers write fn incr ps (drop sz buf);
       ret (fst s, snd r @ fst (snd s), snd (snd s))
     }
   }"

lemma consecutive_append:
  "consecutive incr addr (ps @ qs) \<longleftrightarrow>
    consecutive incr addr ps \<and> consecutive incr (plan_end incr addr ps) qs"
  by (induction incr addr ps rule: plan_end.induct) auto

lemma plan_size_append [simp]: "plan_size (ps @ qs) = plan_size ps + plan_size qs"
  by (simp add: plan_size_def)

lemma transfers_append:
  assumes "run_state (transfers write fn incr ps buf) w = ((e, dn, rest), v)"
  shows "run_state (transfers write fn incr (ps @ qs) buf) w =
    (if e \<noteq> 0 then ((e, dn, rest), v)
     else (case run_state (transfers write fn incr qs rest) v of
       ((e', dn', rest'), u) \<Rightarrow> ((e', dn @ dn', rest'), u)))"
  using assms
proof (induction "write" fn incr ps buf arbitrary: w e dn rest v rule: transfers.induct)
  case (1 "write" fn incr buf)
  then show ?case by (auto split: prod.splits)
next
  case (2 "write" fn incr a p ps buf)
  let ?sz = "unat (chunk_size p)"
  obtain r x where r: "run_state (mmc_io_rw_extended write fn a incr (take ?sz buf) (fst p) (snd p)) w
      = (r, x)" by fastforce
  show ?case
  proof (cases "fst r = 0")
    case False
    with 2 r show ?thesis by (auto simp: Let_def)
  next
    case True
    obtain e' d' t y where s: "run_state (transfers write fn incr ps (drop ?sz buf)) x = ((e', d', t), y)"
      by (metis surj_pair)
    have "e = e'" "dn = snd r @ d'" "rest = t" "v = y"
      using "2.prems" r True s by (auto simp: Let_def)
    moreover have "\<not> fst r \<noteq> 0" using True by simp
    note "2.IH" [OF refl this s]
    ultimately show ?thesis using r True by (auto simp: Let_def split: prod.splits)
  qed
qed

section \<open>The plan of a loop\<close>

text \<open>A loop whose transfers are not empty and fit follows a plan to where no transfer is left.\<close>

lemma ext_loop_plan:
  assumes chunk: "\<And>r p. chunk r = Some p \<Longrightarrow> 0 < chunk_size p \<and> chunk_size p \<le> r \<and> P p"
    and n: "unat remainder < n"
  shows "\<exists>ps rem. consecutive incr addr ps \<and> plan_size ps + unat rem = unat remainder \<and>
    chunk rem = None \<and> (\<forall>(a, p) \<in> set ps. P p) \<and>
    (\<forall>w buf e dn rest v. run_state (transfers write fn incr ps buf) w = ((e, dn, rest), v) \<longrightarrow>
      (\<exists>a r. run_state (ext_loop chunk n write fn incr addr remainder buf) w
          = (Some (e, a, r, dn, rest), v) \<and>
        (e = 0 \<longrightarrow> a = plan_end incr addr ps \<and> r = rem)))"
  using n
proof (induction n arbitrary: addr remainder)
  case 0
  then show ?case by simp
next
  case (Suc n)
  show ?case
  proof (cases "chunk remainder")
    case None
    then show ?thesis
      by (intro exI [of _ "[]"] exI [of _ remainder]) (auto simp: plan_size_def)
  next
    case (Some p)
    note c = chunk [OF Some]
    let ?addr = "if incr then addr + chunk_size p else addr"
    have less: "unat (remainder - chunk_size p) = unat remainder - unat (chunk_size p)"
      "0 < unat (chunk_size p)" "unat (chunk_size p) \<le> unat remainder"
      using c by (auto simp: unat_sub word_le_nat_alt word_less_nat_alt)
    then have "unat (remainder - chunk_size p) < n" using Suc.prems by simp
    from Suc.IH [OF this, of ?addr] obtain ps rem where
      ps: "consecutive incr ?addr ps" "plan_size ps + unat rem = unat (remainder - chunk_size p)"
        "chunk rem = None" "\<forall>(a, p) \<in> set ps. P p"
      and run: "\<And>w buf e dn rest v.
        run_state (transfers write fn incr ps buf) w = ((e, dn, rest), v) \<Longrightarrow>
        \<exists>a r. run_state (ext_loop chunk n write fn incr ?addr (remainder - chunk_size p) buf) w = (Some (e, a, r, dn, rest), v) \<and>
          (e = 0 \<longrightarrow> a = plan_end incr ?addr ps \<and> r = rem)" by blast
    let ?ps = "(addr, p) # ps"
    have "\<exists>a r. run_state (ext_loop chunk (Suc n) write fn incr addr remainder buf) w
        = (Some (e, a, r, dn, rest), v) \<and> (e = 0 \<longrightarrow> a = plan_end incr addr ?ps \<and> r = rem)"
      if t: "run_state (transfers write fn incr ?ps buf) w = ((e, dn, rest), v)" for w buf e dn rest v
    proof -
      obtain q x where q: "run_state (mmc_io_rw_extended write fn addr incr
          (take (unat (chunk_size p)) buf) (fst p) (snd p)) w = (q, x)" by fastforce
      show ?thesis
      proof (cases "fst q = 0")
        case False
        with t q Some show ?thesis by (auto simp: Let_def)
      next
        case True
        obtain e' d' t' y where s: "run_state (transfers write fn incr ps
            (drop (unat (chunk_size p)) buf)) x = ((e', d', t'), y)" by (metis surj_pair)
        from run [OF s] t q True s Some show ?thesis by (auto simp: Let_def)
      qed
    qed
    then show ?thesis
      using ps less c by (intro exI [of _ ?ps] exI [of _ rem]) (auto simp: plan_size_def)
  qed
qed

section \<open>The two loops\<close>

lemma block_chunk_ok:
  assumes "fn_cur_blksize f > 0" and "h_max_blk_count h > 0" and "block_chunk h f r = Some p"
  shows "0 < chunk_size p \<and> chunk_size p \<le> r \<and>
    fst p \<le> min (h_max_blk_count h) 511 \<and> snd p = fn_cur_blksize f \<and> 0 < fst p"
proof -
  let ?c = "fn_cur_blksize f"
  let ?b = "min (r div ?c) (min (h_max_blk_count h) 511)"
  have p: "p = (?b, ?c)" and le: "?c \<le> r"
    using assms(3) by (auto simp: block_chunk_def Let_def split: if_splits)
  have "unat ?c > 0" using assms(1) by (simp add: word_less_nat_alt)
  moreover have "unat ?c \<le> unat r" using le by (simp add: word_le_nat_alt)
  ultimately have "unat r div unat ?c > 0" by (simp add: div_greater_zero_iff)
  then have pos: "0 < ?b" using assms(2) by (auto simp: word_less_nat_alt unat_div min_def)
  have "unat ?b \<le> unat r div unat ?c" by (simp add: unat_div [symmetric] word_le_nat_alt [symmetric])
  then have le_r: "unat ?b * unat ?c \<le> unat r"
    by (metis div_times_less_eq_dividend le_trans mult_le_mono1)
  then have "unat ?b * unat ?c < 2 ^ 32" using unsigned_less [of r, where ?'a = nat] by simp
  then have "unat (?b * ?c) = unat ?b * unat ?c" by (simp add: unat_word_ariths)
  then have "0 < ?b * ?c" "?b * ?c \<le> r"
    using pos le_r assms(1) by (auto simp: word_le_nat_alt word_less_nat_alt)
  moreover have "?b \<le> min (h_max_blk_count h) 511" by (rule min.cobounded2)
  moreover have "?b \<noteq> 0" using pos by (metis less_irrefl)
  ultimately show ?thesis using p pos unfolding chunk_size_def by auto
qed

lemma byte_chunk_ok:
  assumes "sdio_max_byte_size h c f > 0" and "byte_chunk h c f r = Some p"
  shows "0 < chunk_size p \<and> chunk_size p \<le> r \<and> fst p = 0 \<and> snd p \<le> sdio_max_byte_size h c f \<and>
    0 < snd p"
  using assms by (auto simp: byte_chunk_def chunk_size_def split: if_splits)

lemma max_byte_size_bound: "sdio_max_byte_size h c f \<le> 512"
proof -
  have "min m 511 \<le> (512 :: u32)" for m by (rule order.trans [OF min.cobounded2]) simp
  then show ?thesis by (simp add: sdio_max_byte_size_def Let_def)
qed

text \<open>What a transfer of a plan may be.\<close>

definition transfer_ok :: "mmc_host \<Rightarrow> mmc_card \<Rightarrow> sdio_func \<Rightarrow> u32 \<times> u32 \<Rightarrow> bool" where
  "transfer_ok h c f p \<longleftrightarrow> 0 < snd p \<and>
    (if fst p = 0 then snd p \<le> sdio_max_byte_size h c f
     else cc_multi_block (cd_cccr c) \<and> fst p \<le> h_max_blk_count h \<and> fst p \<le> 511 \<and>
       snd p = fn_cur_blksize f)"

lemma ext_helper_plan:
  assumes f: "func_at (w_card w) i = Some f" "fn_num f \<le> 7"
    and bytes: "sdio_max_byte_size (w_host w) (w_card w) f > 0"
    and blocks: "cc_multi_block (cd_cccr (w_card w)) \<Longrightarrow> fn_cur_blksize f > 0 \<and> h_max_blk_count (w_host w) > 0"
  shows "\<exists>ps. consecutive incr addr ps \<and> plan_size ps = unat sz \<and>
    (\<forall>(a, p) \<in> set ps. transfer_ok (w_host w) (w_card w) f p) \<and>
    (\<forall>e dn rest v. run_state (transfers write (of_nat (fn_num f)) incr ps buf) w = ((e, dn, rest), v) \<longrightarrow>
      run_state (sdio_io_rw_ext_helper (Suc (unat sz)) i write addr incr buf sz) w = (Some (e, dn @ rest), v))"
proof -
  let ?h = "w_host w" and ?c = "w_card w" and ?fn = "of_nat (fn_num f) :: u32" and ?n = "Suc (unat sz)"
  let ?ok = "transfer_ok ?h ?c f"
  define multi where "multi \<longleftrightarrow> cc_multi_block (cd_cccr ?c) \<and> sz > sdio_max_byte_size ?h ?c f"
  define first where "first = (if multi then ext_loop (block_chunk ?h f) ?n write ?fn incr addr sz buf
    else ret (Some (0, addr, sz, [], buf)))"
  have "\<exists>ps rem. consecutive incr addr ps \<and> plan_size ps + unat rem = unat sz \<and>
    (\<forall>(a, p) \<in> set ps. ?ok p) \<and>
    (\<forall>w e dn rest v. run_state (transfers write ?fn incr ps buf) w = ((e, dn, rest), v) \<longrightarrow>
      (\<exists>a r. run_state first w = (Some (e, a, r, dn, rest), v) \<and>
        (e = 0 \<longrightarrow> a = plan_end incr addr ps \<and> r = rem)))"
  proof (cases multi)
    case True
    then have pos: "fn_cur_blksize f > 0" "h_max_blk_count ?h > 0" and mb: "cc_multi_block (cd_cccr ?c)"
      using blocks by (auto simp: multi_def)
    have "0 < chunk_size p \<and> chunk_size p \<le> r \<and> ?ok p" if "block_chunk ?h f r = Some p" for r p
      using block_chunk_ok [OF pos that] mb pos by (auto simp: transfer_ok_def)
    from ext_loop_plan [of "block_chunk ?h f" ?ok sz ?n incr addr "write" ?fn, OF this]
    show ?thesis unfolding first_def if_P [OF True] by blast
  next
    case False
    then show ?thesis
      by (intro exI [of _ "[]"] exI [of _ sz]) (auto simp: first_def plan_size_def)
  qed
  then obtain ps rem where ps: "consecutive incr addr ps" "plan_size ps + unat rem = unat sz"
      "\<forall>(a, p) \<in> set ps. ?ok p"
    and run1: "\<And>w e dn rest v. run_state (transfers write ?fn incr ps buf) w = ((e, dn, rest), v) \<Longrightarrow>
      \<exists>a r. run_state first w = (Some (e, a, r, dn, rest), v) \<and>
        (e = 0 \<longrightarrow> a = plan_end incr addr ps \<and> r = rem)" by blast
  have ok: "\<And>r p. byte_chunk ?h ?c f r = Some p \<Longrightarrow> 0 < chunk_size p \<and> chunk_size p \<le> r \<and> ?ok p"
    using byte_chunk_ok [OF bytes] by (auto simp: transfer_ok_def)
  have less: "unat rem < ?n" using ps(2) by simp
  have "\<exists>qs rem'. consecutive incr (plan_end incr addr ps) qs \<and> plan_size qs + unat rem' = unat rem \<and>
    byte_chunk ?h ?c f rem' = None \<and> (\<forall>(a, p) \<in> set qs. ?ok p) \<and>
    (\<forall>w buf e dn rest v. run_state (transfers write ?fn incr qs buf) w = ((e, dn, rest), v) \<longrightarrow>
      (\<exists>a r. run_state (ext_loop (byte_chunk ?h ?c f) ?n write ?fn incr (plan_end incr addr ps) rem buf) w
        = (Some (e, a, r, dn, rest), v) \<and>
        (e = 0 \<longrightarrow> a = plan_end incr (plan_end incr addr ps) qs \<and> r = rem')))"
    by (rule ext_loop_plan [OF ok less])
  then obtain qs rem' where qs: "consecutive incr (plan_end incr addr ps) qs"
      "plan_size qs + unat rem' = unat rem" "byte_chunk ?h ?c f rem' = None" "\<forall>(a, p) \<in> set qs. ?ok p"
    and run2: "\<forall>w buf e dn rest v. run_state (transfers write ?fn incr qs buf) w = ((e, dn, rest), v) \<longrightarrow>
      (\<exists>a r. run_state (ext_loop (byte_chunk ?h ?c f) ?n write ?fn incr (plan_end incr addr ps) rem buf) w
        = (Some (e, a, r, dn, rest), v) \<and>
        (e = 0 \<longrightarrow> a = plan_end incr (plan_end incr addr ps) qs \<and> r = rem'))"
    by (elim exE conjE) (rule that)
  have "rem' = 0" using qs(3) by (auto simp: byte_chunk_def word_greater_zero_iff split: if_splits)
  then have "plan_size (ps @ qs) = unat sz" using ps(2) qs(2) by simp
  moreover have "consecutive incr addr (ps @ qs)" using ps(1) qs(1) by (simp add: consecutive_append)
  moreover have "\<forall>(a, p) \<in> set (ps @ qs). ?ok p" using ps(3) qs(4) by auto
  moreover have "run_state (sdio_io_rw_ext_helper ?n i write addr incr buf sz) w = (Some (e, dn @ rest), v)"
    if t: "run_state (transfers write ?fn incr (ps @ qs) buf) w = ((e, dn, rest), v)" for e dn rest v
  proof -
    have helper: "run_state (sdio_io_rw_ext_helper ?n i write addr incr buf sz) w =
      run_state (do { r \<leftarrow> first;
        (case r of
           None \<Rightarrow> ret None
         | Some (err, addr, remainder, dn, rest) \<Rightarrow>
             if err \<noteq> 0 then ret (Some (err, dn @ rest))
             else do {
               s \<leftarrow> ext_loop (byte_chunk ?h ?c f) ?n write ?fn incr addr remainder rest;
               ret (map_option (\<lambda>(err, _, _, dn', rest). (err, dn @ dn' @ rest)) s)
             }) }) w"
      using f blocks by (auto simp: sdio_io_rw_ext_helper_def first_def multi_def Let_def)
    obtain e1 d1 r1 x where t1: "run_state (transfers write ?fn incr ps buf) w = ((e1, d1, r1), x)"
      by (metis surj_pair)
    from run1 [OF t1] obtain a r where fst: "run_state first w = (Some (e1, a, r, d1, r1), x)"
      "e1 = 0 \<Longrightarrow> a = plan_end incr addr ps \<and> r = rem" by blast
    show ?thesis
    proof (cases "e1 = 0")
      case False
      with t transfers_append [OF t1, of qs] helper fst show ?thesis by simp
    next
      case True
      obtain e2 d2 r2 y where t2: "run_state (transfers write ?fn incr qs r1) x = ((e2, d2, r2), y)"
        by (metis surj_pair)
      from run2 t2 obtain a2 b2 where
        "run_state (ext_loop (byte_chunk ?h ?c f) ?n write ?fn incr (plan_end incr addr ps) rem r1) x
          = (Some (e2, a2, b2, d2, r2), y)" by (metis (no_types, lifting))
      with t transfers_append [OF t1, of qs] helper fst True t2 show ?thesis by simp
    qed
  qed
  ultimately show ?thesis by blast
qed

section \<open>Empty transfers\<close>

text \<open>A controller that completes everything without error.\<close>

definition obliging :: "mmc_world \<Rightarrow> bool" where
  "obliging w \<longleftrightarrow> quiet w \<and> op_card_busy (w_ops w) = None \<and> 1 \<le> h_max_blk_count (w_host w) \<and>
    (\<forall>t q. cpl_data_error (op_request (w_ops w) t q) = 0 \<and>
      r5_error (resp4 (cpl_cmd_resp (op_request (w_ops w) t q)) ! 0) = 0)"

lemma no_segments: "\<not> 1 < (s - 1) div (s :: u32)"
proof (cases "s = 0")
  case False
  then have "unat (s - 1) < unat s"
    by (simp add: unat_minus_one unat_gt_0 [symmetric] del: unat_gt_0)
  then show ?thesis by (simp add: word_less_nat_alt unat_div)
qed simp

text \<open>It also completes a transfer of no bytes.\<close>

lemma empty_transfer:
  assumes w: "obliging w" and addr: "addr AND NOT 0x1FFFF = 0"
  shows "\<exists>d v. run_state (mmc_io_rw_extended write fn addr incr [] 0 0) w = ((0, d), v) \<and> obliging v"
proof -
  have blocks: "\<not> h_max_blk_count (w_host w) < 1"
    and q: "quiet w" and busy: "op_card_busy (w_ops w) = None"
    using w by (auto simp: obliging_def)
  define d where "d = mmc_set_data_timeout (w_host w) (w_card w) (dat0\<lparr>dat_blksz := 0,
    dat_blocks := 1, dat_flags := {if write then MMC_DATA_WRITE else MMC_DATA_READ},
    dat_sg := [0], dat_buf := []\<rparr>)"
  define m where "m = mrq_of (rw_extended_cmd write fn addr incr 0 0) (Some d)"
  have d: "dat_blksz d = 0" "dat_blocks d = 1" "dat_sg d = [0]"
    by (simp_all add: d_def data_timeout_size)
  let ?q = "m\<lparr>mrq_cmd := clear_error (mrq_cmd m), mrq_data := Some (d\<lparr>dat_error := 0\<rparr>)\<rparr>"
  have prep: "mmc_mrq_prep (w_host w) m = (0, ?q)"
    using d blocks by (simp add: mmc_mrq_prep_def m_def mrq_of_def)
  let ?r = "op_request (w_ops w) (w_trace w) ?q"
  let ?v = "log_event (EvRequest ?q) 0 (tuned w)"
  have run: "run_state (mmc_wait_for_req hooks m) w = (complete_mrq ?r ?q, ?v)"
    using w busy by (intro req_quiet_io [OF q _ prep]) (auto simp: io_free_def m_def mrq_of_def obliging_def)
  have ok: "cmd_error (mrq_cmd (complete_mrq ?r ?q)) = 0"
    "dat_error (case mrq_data (complete_mrq ?r ?q) of None \<Rightarrow> dat0 | Some d \<Rightarrow> d) = 0"
    "r5_error (cmd_resp (mrq_cmd (complete_mrq ?r ?q)) ! 0) = 0"
    using w by (auto simp: complete_mrq_def obliging_def quiet_def)
  have v: "obliging ?v" using w by (simp add: obliging_def)
  have "fst (fst (run_state (mmc_io_rw_extended write fn addr incr [] 0 0) w)) = 0 \<and>
      snd (run_state (mmc_io_rw_extended write fn addr incr [] 0 0) w) = ?v"
    using addr run ok no_segments [of "h_max_seg_size (w_host w)"]
    by (simp add: mmc_io_rw_extended_def Let_def m_def [symmetric] d_def [symmetric])
  with v show ?thesis by (metis surj_pair fst_conv snd_conv)
qed

lemma byte_chunk_none: "sdio_max_byte_size h c f = 0 \<Longrightarrow> 0 < sz \<Longrightarrow> byte_chunk h c f sz = Some (0, 0)"
  by (simp add: byte_chunk_def)

lemma byte_loop_endless:
  assumes "sdio_max_byte_size h c f = 0" and "0 < sz" and "addr AND NOT 0x1FFFF = 0" and "obliging w"
  shows "fst (run_state (ext_loop (byte_chunk h c f) n write fn incr addr sz buf) w) = None"
  using assms(4)
proof (induction n arbitrary: w)
  case 0
  then show ?case by simp
next
  case (Suc n)
  obtain d v where "run_state (mmc_io_rw_extended write fn addr incr [] 0 0) w = ((0, d), v)" "obliging v"
    using empty_transfer [OF Suc.prems assms(3)] by blast
  with Suc.IH [of v] assms(1,2) show ?case
    by (simp add: byte_chunk_none [OF assms(1,2)] chunk_size_def Let_def split_beta cong: if_cong)
qed

lemma ext_helper_endless:
  assumes "func_at (w_card w) i = Some f" "fn_num f \<le> 7" and "sdio_max_byte_size (w_host w) (w_card w) f = 0"
    and "\<not> cc_multi_block (cd_cccr (w_card w))" and "0 < sz" and "addr AND NOT 0x1FFFF = 0" and "obliging w"
  shows "fst (run_state (sdio_io_rw_ext_helper n i write addr incr buf sz) w) = None"
  using assms byte_loop_endless [OF assms(3,5,6,7)]
  by (simp add: sdio_io_rw_ext_helper_def Let_def split_beta)

end
