(* ===== verification/Sdio_Properties.thy ===== *)
theory Sdio_Properties
  imports Sdio_Cis_Facts Sdio_Transfer_Facts
begin

text \<open>
  The properties of SDIO cards.
\<close>

section \<open>Card information\<close>


text \<open>
  C34: the common information of a card is read back from its image: from a controller that
  serves a memory with the image of tuples behind the pointer, \<open>sdio_read_common_cis\<close> records
  the manufacturer, block size and speed of the tuples, and queues the others in their order.
\<close>

theorem sdio_cis_roundtrip:
  assumes "\<forall>i \<in> set is. item_ok i" and "cd_tuples c = []"
    and "pointer_at mem 9 ptr" and "holds mem (unat ptr) (cis_image is)" and "serves mem w"
  shows "fst (run_state (sdio_read_common_cis c) w) = Some (0, fold record_item is c)"
  using gives_run [OF gives_common_cis [OF assms(1,4,3,2)] assms(5)] by auto

text \<open>A card at whose address 0x1000 there are three tuples.\<close>

definition cis_items :: "cis_item list" where
  "cis_items = [Cis_Manfid 0x02D0 0xA9A6, Cis_Null, Cis_Common 512 0x32, Cis_Other 0x80 [1, 2, 3]]"

definition cis_memory :: "nat \<Rightarrow> u8" where
  "cis_memory a = (if a = 10 then 0x10
     else if 0x1000 \<le> a \<and> a < 0x1000 + length (cis_image cis_items)
     then cis_image cis_items ! (a - 0x1000) else 0)"

definition cis_world :: mmc_world where
  "cis_world = world_ok\<lparr>w_host := host_ok\<lparr>h_ops := ops_ok\<lparr>op_card_busy := None,
     op_request := (\<lambda>_ q. completion_ok\<lparr>cpl_cmd_resp :=
       [ucast (cis_memory (unat (drop_bit 9 (cmd_arg (mrq_cmd q)) AND 0x1FFFF))), 0, 0, 0]\<rparr>)\<rparr>\<rparr>\<rparr>"

lemma sdio_cis_roundtrip_witness:
  "fst (run_state (sdio_read_common_cis card0) cis_world) =
    Some (0, card0\<lparr>cd_cis_vendor := 0x02D0, cd_cis_device := 0xA9A6, cd_cis_blksize := 512,
      cd_cis_max_dtr := 25000000, cd_tuples := [(0x80, [1, 2, 3])]\<rparr>)"
proof -
  have "length (cis_image cis_items) = 19" by (simp add: cis_image_def cis_items_def bytes16_def)
  then have mem: "pointer_at cis_memory 9 0x1000" "holds cis_memory 0x1000 (cis_image cis_items)"
    by (simp add: pointer_at_def holds_Cons holds_def [of _ _ "[]"] cis_memory_def)
      (use \<open>length _ = 19\<close> in \<open>simp add: holds_def cis_memory_def\<close>)
  have "serves cis_memory cis_world"
    by (simp add: serves_def cis_world_def quiet_def mmc_card_removed_def card_state_def world_defs resp4_def)
  then have "fst (run_state (sdio_read_common_cis card0) cis_world) = Some (0, fold record_item cis_items card0)"
    using mem by (intro sdio_cis_roundtrip [where ptr = "0x1000" and mem = cis_memory])
      (simp_all, simp_all add: cis_items_def card0_def)
  then show ?thesis by (simp add: cis_items_def card0_def speed_val_def speed_unit_def)
qed

section \<open>Interrupts\<close>


definition func_ok :: sdio_func where
  "func_ok = \<lparr>fn_num = 1, fn_class = 0, fn_vendor = 0, fn_device = 0, fn_max_blksize = 512, fn_cur_blksize = 64,
     fn_enable_timeout = 0, fn_present = True, fn_irq_handler = False, fn_info = [], fn_tuples = [], fn_linked = False\<rparr>"

text \<open>A card with one function, on a controller that completes everything without error.\<close>

definition card_io :: "u32 \<Rightarrow> mmc_card" where
  "card_io max_blksize = card0\<lparr>cd_sdio_funcs := 1,
     cd_sdio_func := Some (func_ok\<lparr>fn_max_blksize := max_blksize\<rparr>) # replicate 6 None\<rparr>"

definition io_world :: "u32 \<Rightarrow> mmc_world" where
  "io_world max_blksize = world_ok\<lparr>w_card := card_io max_blksize,
     w_host := host_ok\<lparr>h_ops := ops_ok\<lparr>op_card_busy := None,
       op_request := (\<lambda>_ _. completion_ok\<lparr>cpl_cmd_resp := [0, 0, 0, 0]\<rparr>)\<rparr>\<rparr>\<rparr>"

lemmas io_world_defs = io_world_def card_io_def func_ok_def

lemma func_at_io: "func_at (w_card (io_world n)) 0 = Some (func_ok\<lparr>fn_max_blksize := n\<rparr>)"
  "j \<noteq> 0 \<Longrightarrow> func_at (w_card (io_world n)) j = None"
  by (simp_all add: func_at_def io_world_defs nth_Cons')


section \<open>Transfers\<close>



text \<open>
  C37: a function whose information has no maximal block size cannot be read or written: where
  the controller completes every command without error, a transfer of any size in byte mode
  sends transfers of no bytes without end, whatever number of rounds the model is given.
\<close>

theorem sdio_transfer_endless:
  assumes "func_at (w_card w) i = Some f" "fn_num f \<le> 7" and "fn_max_blksize f = 0"
    and "MMC_QUIRK_BLKSZ_FOR_BYTE_MODE \<notin> cd_quirks (w_card w)"
    and "\<not> cc_multi_block (cd_cccr (w_card w))" and "0 < sz" and "addr AND NOT 0x1FFFF = 0" and "obliging w"
  shows "fst (run_state (sdio_io_rw_ext_helper n i write addr incr buf sz) w) = None"
  using assms by (intro ext_helper_endless [OF assms(1,2)]) (simp_all add: sdio_max_byte_size_def)

lemma sdio_transfer_endless_witness:
  "fst (run_state (sdio_io_rw_ext_helper 100000 0 False 0x100 False [0] 1) (io_world 0)) = None"
proof (rule sdio_transfer_endless [OF func_at_io(1)])
  show "obliging (io_world 0)"
    by (simp add: obliging_def quiet_def mmc_card_removed_def card_state_def resp4_def r5_error_def
        io_world_defs world_defs)
qed (simp_all add: io_world_defs world_defs)

end
