(* ===== verification/Sdio_Card.thy ===== *)
theory Sdio_Card
  imports Sdio_Irq Sd_Init
begin

text \<open>
  Functions and bus modes of SDIO cards (the first half of \<open>mmc/core/sdio.c\<close>, and the functions
  as devices of \<open>mmc/core/sdio_bus.c\<close>).  A function is the place in the card's array that points
  to it; the device structure in it and its node in the device tree are not modelled.
\<close>

section \<open>Functions\<close>

definition func0 :: sdio_func where
  "func0 = \<lparr>fn_num = 0, fn_class = 0, fn_vendor = 0, fn_device = 0, fn_max_blksize = 0,
     fn_cur_blksize = 0, fn_enable_timeout = 0, fn_present = False, fn_irq_handler = False,
     fn_info = [], fn_tuples = [], fn_linked = False\<rparr>"

text \<open>The second allocation is the small buffer that transfers of a word use.\<close>

definition sdio_alloc_func :: "(int + sdio_func) io" where
  "sdio_alloc_func = do {
     w \<leftarrow> gets id;
     ok \<leftarrow> kzalloc (kn_sizeof_func (w_kernel w));
     if \<not> ok then ret (Inl (- ENOMEM))
     else do {
       ok \<leftarrow> kzalloc 4;
       ret (if ok then Inr func0 else Inl (- ENOMEM))
     }
   }"

definition sdio_add_func :: "nat \<Rightarrow> int io" where
  "sdio_add_func i = do {
     w \<leftarrow> gets id;
     emit (EvFuncAdd i) 0;
     let err = kn_func_add (w_kernel w) (w_trace w);
     io_when (err = 0) (modify (upd_card (upd_func i (\<lambda>f. f\<lparr>fn_present := True\<rparr>))));
     ret err
   }"

text \<open>
  \<open>device_del\<close> unbinds the driver; \<open>put_device\<close> drops the last reference, which frees the
  information of the function.  A function that was not registered is left as it is.
\<close>

definition sdio_remove_func :: "nat \<Rightarrow> unit io" where
  "sdio_remove_func i = do {
     w \<leftarrow> gets id;
     (case func_at (w_card w) i of
        None \<Rightarrow> ret ()
      | Some f \<Rightarrow> io_when (fn_present f) (do {
          emit (EvFuncDel i) 0;
          sdio_free_func_cis f;
          ret ()
        }))
   }"

text \<open>Entries of a driver's table of devices: class, vendor and device.\<close>

type_synonym sdio_device_id = "u8 \<times> u16 \<times> u16"

fun sdio_match_one :: "sdio_func \<Rightarrow> sdio_device_id \<Rightarrow> bool" where
  "sdio_match_one f (cls, vendor, device) \<longleftrightarrow>
     (cls = 0xFF \<or> cls = fn_class f) \<and> (vendor = 0xFFFF \<or> vendor = fn_vendor f) \<and>
     (device = 0xFFFF \<or> device = fn_device f)"

text \<open>The table ends with an entry of zeros.\<close>

definition sdio_match_device :: "sdio_func \<Rightarrow> sdio_device_id list \<Rightarrow> sdio_device_id option" where
  "sdio_match_device f ids = find (sdio_match_one f) (takeWhile (\<lambda>id. id \<noteq> (0, 0, 0)) ids)"

definition sdio_bus_match :: "sdio_func \<Rightarrow> sdio_device_id list \<Rightarrow> bool" where
  "sdio_bus_match f ids \<longleftrightarrow> sdio_match_device f ids \<noteq> None"

definition sdio_read_fbr :: "mmc_card \<Rightarrow> sdio_func \<Rightarrow> (int \<times> sdio_func) io" where
  "sdio_read_fbr c f =
    (if MMC_QUIRK_NONSTD_FUNC_IF \<in> cd_quirks c then ret (0, f\<lparr>fn_class := SDIO_CLASS_NONE\<rparr>)
     else do {
       let base = SDIO_FBR_BASE (of_nat (fn_num f));
       r \<leftarrow> mmc_io_rw_direct False 0 (base + SDIO_FBR_STD_IF) 0 True;
       if fst r \<noteq> 0 then ret (fst r, f)
       else if snd r AND 0x0F = 0x0F then do {
         r \<leftarrow> mmc_io_rw_direct False 0 (base + SDIO_FBR_STD_IF_EXT) 0 True;
         ret (if fst r \<noteq> 0 then (fst r, f) else (0, f\<lparr>fn_class := snd r\<rparr>))
       }
       else ret (0, f\<lparr>fn_class := snd r AND 0x0F\<rparr>)
     })"

text \<open>
  The functions are at the places \<open>fn - 1\<close>.  The function that a failure leaves behind is not
  registered, so \<open>sdio_remove_func\<close> does nothing with it.  None is an access out of bounds, as
  in \<open>Sdio_Cis\<close>.
\<close>

definition sdio_init_func :: "nat \<Rightarrow> int option io" where
  "sdio_init_func fn = (if fn > SDIO_MAX_FUNCS then ret (Some (- EINVAL))
     else do {
       a \<leftarrow> sdio_alloc_func;
       w \<leftarrow> gets id;
       let c = w_card w;
       (case a of
          Inl err \<Rightarrow> ret (Some err)
        | Inr f \<Rightarrow> do {
            let f = f\<lparr>fn_num := fn\<rparr>;
            r \<leftarrow> (if MMC_QUIRK_NONSTD_SDIO \<notin> cd_quirks c
              then do {
                r \<leftarrow> sdio_read_fbr c f;
                if fst r \<noteq> 0 then ret (Some r) else sdio_read_func_cis c (snd r)
              } else ret (Some (0, f\<lparr>fn_vendor := cd_cis_vendor c, fn_device := cd_cis_device c,
                fn_max_blksize := ucast (cd_cis_blksize c)\<rparr>)));
            (case r of
               None \<Rightarrow> ret None
             | Some (err, f) \<Rightarrow> do {
                 io_when (err = 0) (modify (upd_card (\<lambda>c.
                   c\<lparr>cd_sdio_func := (cd_sdio_func c)[fn - 1 := Some f]\<rparr>)));
                 ret (Some err)
               })
          })
     })"

section \<open>Common registers\<close>

text \<open>The capabilities that a register announces, as the bits of \<open>sw_caps\<close>.\<close>

definition sdio_uhs_modes :: "u8 \<Rightarrow> u32" where
  "sdio_uhs_modes data =
    (if data AND SDIO_UHS_DDR50 \<noteq> 0 then SD_MODE_UHS_DDR50 else 0)
    OR (if data AND SDIO_UHS_SDR50 \<noteq> 0 then SD_MODE_UHS_SDR50 else 0)
    OR (if data AND SDIO_UHS_SDR104 \<noteq> 0 then SD_MODE_UHS_SDR104 else 0)"

definition sdio_drive_types :: "u8 \<Rightarrow> u32" where
  "sdio_drive_types data =
    (if data AND SDIO_DRIVE_SDTA \<noteq> 0 then of_int SD_DRIVER_TYPE_A else 0)
    OR (if data AND SDIO_DRIVE_SDTC \<noteq> 0 then of_int SD_DRIVER_TYPE_C else 0)
    OR (if data AND SDIO_DRIVE_SDTD \<noteq> 0 then of_int SD_DRIVER_TYPE_D else 0)"

definition upd_cccr :: "(sdio_cccr \<Rightarrow> sdio_cccr) \<Rightarrow> mmc_card \<Rightarrow> mmc_card" where
  "upd_cccr f c = c\<lparr>cd_cccr := f (cd_cccr c)\<rparr>"

text \<open>The read of a common register into a variable.\<close>

definition cccr_read :: "u32 \<Rightarrow> mmc_card \<Rightarrow> (u8 \<Rightarrow> (int \<times> mmc_card) io) \<Rightarrow> (int \<times> mmc_card) io" where
  "cccr_read reg c k = do {
     r \<leftarrow> mmc_io_rw_direct False 0 reg 0 True;
     if fst r \<noteq> 0 then ret (fst r, c) else k (snd r)
   }"

text \<open>The UHS-I registers of cards of version 3.00.\<close>

definition cccr_read_uhs :: "mmc_card \<Rightarrow> (int \<times> mmc_card) io" where
  "cccr_read_uhs c = cccr_read SDIO_CCCR_UHS c (\<lambda>data. do {
     h \<leftarrow> gets w_host;
     let c = (if mmc_host_uhs h
       then upd_sw (\<lambda>s. s\<lparr>sw_sd3_bus_mode := sw_sd3_bus_mode s OR sdio_uhs_modes data\<rparr>) c else c);
     cccr_read SDIO_CCCR_DRIVE_STRENGTH c (\<lambda>data.
       ret (0, upd_sw (\<lambda>s. s\<lparr>sw_sd3_drv_type := sw_sd3_drv_type s OR sdio_drive_types data\<rparr>) c))
   })"

definition cccr_high_speed :: "u8 \<Rightarrow> mmc_card \<Rightarrow> mmc_card" where
  "cccr_high_speed speed c =
    (if sw_sd3_bus_mode (cd_sw_caps c) \<noteq> 0 then c
     else let hs = speed AND SDIO_SPEED_SHS \<noteq> 0 in
       upd_sw (\<lambda>s. s\<lparr>sw_hs_max_dtr := (if hs then 50000000 else 25000000)\<rparr>)
         (upd_cccr (\<lambda>cc. cc\<lparr>cc_high_speed := hs\<rparr>) c))"

text \<open>The flags that \<open>SDIO_CCCR_CAPS\<close> sets; it clears none.\<close>

definition cccr_caps :: "u8 \<Rightarrow> sdio_cccr \<Rightarrow> sdio_cccr" where
  "cccr_caps data cc = cc\<lparr>cc_multi_block := cc_multi_block cc \<or> data AND SDIO_CCCR_CAP_SMB \<noteq> 0,
     cc_low_speed := cc_low_speed cc \<or> data AND SDIO_CCCR_CAP_LSC \<noteq> 0,
     cc_wide_bus := cc_wide_bus cc \<or> data AND SDIO_CCCR_CAP_4BLS \<noteq> 0\<rparr>"

definition sdio_read_cccr :: "u32 \<Rightarrow> mmc_card \<Rightarrow> (int \<times> mmc_card) io" where
  "sdio_read_cccr ocr c = cccr_read SDIO_CCCR_CCCR c (\<lambda>data.
     let cccr_vsn = data AND 0x0F in
     if cccr_vsn > SDIO_CCCR_REV_3_00 then ret (- EINVAL, c)
     else let c = upd_cccr (\<lambda>cc. cc\<lparr>cc_sdio_vsn := ucast (drop_bit 4 (data AND 0xF0))\<rparr>) c in
       cccr_read SDIO_CCCR_CAPS c (\<lambda>data.
         let c = upd_cccr (cccr_caps data) c in do {
         r \<leftarrow> (if cccr_vsn \<ge> SDIO_CCCR_REV_1_10
           then cccr_read SDIO_CCCR_POWER c (\<lambda>data. ret (0, upd_cccr (\<lambda>cc.
             cc\<lparr>cc_high_power := cc_high_power cc \<or> data AND SDIO_POWER_SMPC \<noteq> 0\<rparr>) c))
           else ret (0, c));
         let c = snd r;
         if fst r \<noteq> 0 \<or> cccr_vsn < SDIO_CCCR_REV_1_20 then ret (fst r, c)
         else cccr_read SDIO_CCCR_SPEED c (\<lambda>speed. do {
           let uhs = (cccr_vsn \<ge> SDIO_CCCR_REV_3_00 \<and> ocr AND R4_18V_PRESENT \<noteq> 0);
           let c = upd_sw (\<lambda>s. s\<lparr>sw_sd3_bus_mode := 0, sw_sd3_drv_type := 0\<rparr>)
             (c\<lparr>cd_scr := (cd_scr c)\<lparr>scr_sda_spec3 := (if uhs then 1 else 0)\<rparr>\<rparr>);
           r \<leftarrow> (if uhs then cccr_read_uhs c else ret (0, c));
           ret (if fst r \<noteq> 0 then r else (0, cccr_high_speed speed (snd r)))
         })
       }))"

section \<open>Bus width\<close>

definition wide_possible :: "mmc_world \<Rightarrow> bool" where
  "wide_possible w \<longleftrightarrow> MMC_CAP_4_BIT_DATA \<in> h_caps (w_host w) \<and>
     \<not> (cc_low_speed (cd_cccr (w_card w)) \<and> \<not> cc_wide_bus (cd_cccr (w_card w)))"

definition sdio_enable_wide :: "int io" where
  "sdio_enable_wide = do {
     w \<leftarrow> gets id;
     if \<not> wide_possible w then ret 0
     else do {
       r \<leftarrow> mmc_io_rw_direct False 0 SDIO_CCCR_IF 0 True;
       if fst r \<noteq> 0 then ret (fst r)
       else do {
         r \<leftarrow> mmc_io_rw_direct True 0 SDIO_CCCR_IF
           (snd r AND NOT SDIO_BUS_WIDTH_MASK OR SDIO_BUS_WIDTH_4BIT) False;
         ret (if fst r \<noteq> 0 then fst r else 1)
       }
     }
   }"

definition sdio_disable_cd :: "int io" where
  "sdio_disable_cd = do {
     w \<leftarrow> gets id;
     if MMC_QUIRK_DISABLE_CD \<notin> cd_quirks (w_card w) then ret 0
     else do {
       r \<leftarrow> mmc_io_rw_direct False 0 SDIO_CCCR_IF 0 True;
       if fst r \<noteq> 0 then ret (fst r)
       else do {
         r \<leftarrow> mmc_io_rw_direct True 0 SDIO_CCCR_IF (snd r OR SDIO_BUS_CD_DISABLE) False;
         ret (fst r)
       }
     }
   }"

definition sdio_disable_wide :: "int io" where
  "sdio_disable_wide = do {
     w \<leftarrow> gets id;
     if \<not> wide_possible w then ret 0
     else do {
       r \<leftarrow> mmc_io_rw_direct False 0 SDIO_CCCR_IF 0 True;
       if fst r \<noteq> 0 then ret (fst r)
       else if snd r AND SDIO_BUS_WIDTH_4BIT = 0 then ret 0
       else do {
         r \<leftarrow> mmc_io_rw_direct True 0 SDIO_CCCR_IF
           (snd r AND NOT SDIO_BUS_WIDTH_4BIT OR SDIO_BUS_ASYNC_INT) False;
         if fst r \<noteq> 0 then ret (fst r)
         else do { mmc_set_bus_width MMC_BUS_WIDTH_1; ret 0 }
       }
     }
   }"

definition sdio_enable_4bit_bus :: "int io" where
  "sdio_enable_4bit_bus = do {
     w \<leftarrow> gets id;
     err \<leftarrow> (if cd_type (w_card w) = MMC_TYPE_SDIO then sdio_enable_wide
       else if MMC_CAP_4_BIT_DATA \<in> h_caps (w_host w)
         \<and> scr_bus_widths (cd_scr (w_card w)) AND SD_SCR_BUS_WIDTH_4 \<noteq> 0
       then do {
         err \<leftarrow> mmc_app_set_bus_width MMC_BUS_WIDTH_4;
         if err \<noteq> 0 then ret err
         else do {
           err \<leftarrow> sdio_enable_wide;
           if err \<le> 0 then do { mmc_app_set_bus_width MMC_BUS_WIDTH_1; ret err } else ret err
         }
       }
       else ret 0);
     if err > 0 then do { mmc_set_bus_width MMC_BUS_WIDTH_4; ret 0 } else ret err
   }"

end
