(* ===== verification/Sdio_Init.thy ===== *)
theory Sdio_Init
  imports Sdio_Card
begin

text \<open>
  Speed modes and initialisation of SDIO cards (\<open>mmc/core/sdio.c\<close>).

  \<open>mmc_sdio_init_card\<close> works on a new card object until it has read the card's information,
  and then goes on with it or, on a resume, with the object that the host has.  The new object
  is a value of its own that is passed along; where the host has no card it is stored in the
  world's place for the card.
\<close>

section \<open>High speed\<close>

definition mmc_sdio_switch_hs :: "bool \<Rightarrow> int io" where
  "mmc_sdio_switch_hs enable = do {
     w \<leftarrow> gets id;
     if MMC_CAP_SD_HIGHSPEED \<notin> h_caps (w_host w) then ret 0
     else if \<not> cc_high_speed (cd_cccr (w_card w)) then ret 0
     else do {
       r \<leftarrow> mmc_io_rw_direct False 0 SDIO_CCCR_SPEED 0 True;
       if fst r \<noteq> 0 then ret (fst r)
       else do {
         r \<leftarrow> mmc_io_rw_direct True 0 SDIO_CCCR_SPEED
           (if enable then snd r OR SDIO_SPEED_EHS else snd r AND NOT SDIO_SPEED_EHS) False;
         ret (if fst r \<noteq> 0 then fst r else 1)
       }
     }
   }"

definition sdio_enable_hs :: "int io" where
  "sdio_enable_hs = do {
     err \<leftarrow> mmc_sdio_switch_hs True;
     w \<leftarrow> gets id;
     if err \<le> 0 \<or> cd_type (w_card w) = MMC_TYPE_SDIO then ret err
     else do {
       err \<leftarrow> mmc_sd_switch_hs;
       if err \<le> 0 then do { mmc_sdio_switch_hs False; ret err } else ret err
     }
   }"

definition mmc_sdio_get_max_clock :: "mmc_world \<Rightarrow> u32" where
  "mmc_sdio_get_max_clock w =
    (let max_dtr = (if ios_timing (w_ios w) = MMC_TIMING_SD_HS \<or> ios_timing (w_ios w) = MMC_TIMING_MMC_HS
       then 50000000 else cd_cis_max_dtr (w_card w))
     in if cd_type (w_card w) = MMC_TYPE_SD_COMBO then min max_dtr (mmc_sd_get_max_clock w) else max_dtr)"

section \<open>UHS-I\<close>

definition host_drive_to_sdio_drive :: "int \<Rightarrow> u8" where
  "host_drive_to_sdio_drive host_strength =
    (if host_strength = 1 then 0x10 else if host_strength = 0 then 0x00
     else if host_strength = 2 then 0x20 else if host_strength = 3 then 0x30 else 0x00)"

definition sdio_select_driver_type :: "unit io" where
  "sdio_select_driver_type = do {
     modify (upd_card (\<lambda>c. c\<lparr>cd_drive_strength := 0\<rparr>));
     w \<leftarrow> gets id;
     let sw = cd_sw_caps (w_card w);
     let card_drv_type = uint (sw_sd3_drv_type sw OR of_int SD_DRIVER_TYPE_B);
     d \<leftarrow> mmc_select_drive_strength (sw_uhs_max_dtr sw) card_drv_type;
     let set_type = io_when (snd d \<noteq> 0) (mmc_set_driver_type (of_int (snd d)));
     if fst d = 0 then set_type
     else do {
       r \<leftarrow> mmc_io_rw_direct False 0 SDIO_CCCR_DRIVE_STRENGTH 0 True;
       if fst r \<noteq> 0 then ret ()
       else do {
         r \<leftarrow> mmc_io_rw_direct True 0 SDIO_CCCR_DRIVE_STRENGTH
           (snd r AND NOT SDIO_DRIVE_DTS OR host_drive_to_sdio_drive (fst d)) False;
         if fst r \<noteq> 0 then ret ()
         else do {
           modify (upd_card (\<lambda>c. c\<lparr>cd_drive_strength := of_int (fst d)\<rparr>));
           set_type
         }
       }
     }
   }"

text \<open>The register value, timing, rate and bus speed of the first mode that both sides support.\<close>

definition sdio_uhs_speed :: "mmc_host \<Rightarrow> mmc_card \<Rightarrow> (u8 \<times> mmc_timing \<times> u32 \<times> u32) option" where
  "sdio_uhs_speed h c = (let mode = sw_sd3_bus_mode (cd_sw_caps c); caps = h_caps h in
     if MMC_CAP_UHS_SDR104 \<in> caps \<and> mode AND SD_MODE_UHS_SDR104 \<noteq> 0
     then Some (SDIO_SPEED_SDR104, MMC_TIMING_UHS_SDR104, UHS_SDR104_MAX_DTR, UHS_SDR104_BUS_SPEED)
     else if MMC_CAP_UHS_DDR50 \<in> caps \<and> mode AND SD_MODE_UHS_DDR50 \<noteq> 0
     then Some (SDIO_SPEED_DDR50, MMC_TIMING_UHS_DDR50, UHS_DDR50_MAX_DTR, UHS_DDR50_BUS_SPEED)
     else if caps \<inter> {MMC_CAP_UHS_SDR104, MMC_CAP_UHS_SDR50} \<noteq> {} \<and> mode AND SD_MODE_UHS_SDR50 \<noteq> 0
     then Some (SDIO_SPEED_SDR50, MMC_TIMING_UHS_SDR50, UHS_SDR50_MAX_DTR, UHS_SDR50_BUS_SPEED)
     else if caps \<inter> {MMC_CAP_UHS_SDR104, MMC_CAP_UHS_SDR50, MMC_CAP_UHS_SDR25} \<noteq> {}
       \<and> mode AND SD_MODE_UHS_SDR25 \<noteq> 0
     then Some (SDIO_SPEED_SDR25, MMC_TIMING_UHS_SDR25, UHS_SDR25_MAX_DTR, UHS_SDR25_BUS_SPEED)
     else if caps \<inter> {MMC_CAP_UHS_SDR104, MMC_CAP_UHS_SDR50, MMC_CAP_UHS_SDR25, MMC_CAP_UHS_SDR12} \<noteq> {}
       \<and> mode AND SD_MODE_UHS_SDR12 \<noteq> 0
     then Some (SDIO_SPEED_SDR12, MMC_TIMING_UHS_SDR12, UHS_SDR12_MAX_DTR, UHS_SDR12_BUS_SPEED)
     else None)"

definition min_not_zero :: "u32 \<Rightarrow> u32 \<Rightarrow> u32" where
  "min_not_zero x y = (if x = 0 then y else if y = 0 then x else min x y)"

definition sdio_set_bus_speed_mode :: "int io" where
  "sdio_set_bus_speed_mode = do {
     w \<leftarrow> gets id;
     if \<not> mmc_host_uhs (w_host w) then ret 0
     else do {
       let m = sdio_uhs_speed (w_host w) (w_card w);
       let bus_speed = (case m of None \<Rightarrow> SDIO_SPEED_SDR12 | Some (s, _) \<Rightarrow> s);
       let timing = (case m of None \<Rightarrow> MMC_TIMING_UHS_SDR12 | Some (_, t, _) \<Rightarrow> t);
       (case m of None \<Rightarrow> ret ()
        | Some (_, _, dtr, speed) \<Rightarrow> modify (upd_card (\<lambda>c.
            upd_sw (\<lambda>s. s\<lparr>sw_uhs_max_dtr := dtr\<rparr>) (c\<lparr>cd_sd_bus_speed := speed\<rparr>))));
       r \<leftarrow> mmc_io_rw_direct False 0 SDIO_CCCR_SPEED 0 True;
       if fst r \<noteq> 0 then ret (fst r)
       else do {
         r \<leftarrow> mmc_io_rw_direct True 0 SDIO_CCCR_SPEED
           (snd r AND NOT SDIO_SPEED_BSS_MASK OR bus_speed) False;
         if fst r \<noteq> 0 then ret (fst r)
         else do {
           w \<leftarrow> gets id;
           let max_rate = min_not_zero (cd_quirk_max_rate (w_card w)) (sw_uhs_max_dtr (cd_sw_caps (w_card w)));
           io_when (bus_speed \<noteq> 0) (do { mmc_set_timing timing; mmc_set_clock max_rate });
           ret 0
         }
       }
     }
   }"

definition mmc_sdio_init_uhs_card :: "int io" where
  "mmc_sdio_init_uhs_card = do {
     w \<leftarrow> gets id;
     if scr_sda_spec3 (cd_scr (w_card w)) = 0 then ret 0
     else do {
       err \<leftarrow> sdio_enable_4bit_bus;
       if err \<noteq> 0 then ret err
       else do {
         sdio_select_driver_type;
         err \<leftarrow> sdio_set_bus_speed_mode;
         if err \<noteq> 0 then ret err
         else do {
           w \<leftarrow> gets id;
           if \<not> mmc_host_is_spi w \<and> (ios_timing (w_ios w) = MMC_TIMING_UHS_SDR50
               \<or> ios_timing (w_ios w) = MMC_TIMING_UHS_SDR104)
           then mmc_execute_tuning else ret 0
         }
       }
     }
   }"

section \<open>The new card object\<close>

text \<open>\<open>mmc_alloc_card\<close> and \<open>mmc_remove_card\<close> for an object that is not the host's.\<close>

definition new_card :: "(int + mmc_card) io" where
  "new_card = do {
     w \<leftarrow> gets id;
     ok \<leftarrow> kzalloc (kn_sizeof_card (w_kernel w));
     ret (if ok then Inr card0 else Inl (- ENOMEM))
   }"

definition drop_card :: "mmc_card \<Rightarrow> unit io" where
  "drop_card c = do {
     w \<leftarrow> gets id;
     io_when (h_cqe_enabled (w_host w)) (do {
       emit EvCqeDisable 0;
       modify (upd_host (\<lambda>h. h\<lparr>h_cqe_enabled := False\<rparr>))
     });
     io_when (card_state MMC_STATE_PRESENT c) (emit EvDeviceDel 0);
     emit EvPutDevice 0
   }"

definition mmc_sdio_resend_if_cond :: "mmc_card \<Rightarrow> unit io" where
  "mmc_sdio_resend_if_cond c = do {
     sdio_reset;
     mmc_go_idle hooks;
     h \<leftarrow> gets w_host;
     mmc_send_if_cond (h_ocr_avail h);
     drop_card c
   }"

text \<open>
  Combined or not: the object with its type, and whether it is the card that the host had.
\<close>

definition sdio_card_type :: "nat \<Rightarrow> u32 \<Rightarrow> u32 \<Rightarrow> bool \<Rightarrow> mmc_card \<Rightarrow> (mmc_card \<times> bool) option io" where
  "sdio_card_type n ocr rocr oldcard c = do {
     r \<leftarrow> (if rocr AND R4_MEMORY_PRESENT \<noteq> 0 then do {
         r \<leftarrow> mmc_sd_get_cid n (ocr AND rocr) False;
         ret (map_option (\<lambda>(err, _, cid). if err = 0 then Some cid else None) r)
       } else ret (Some None));
     w \<leftarrow> gets id;
     ret (case r of
         None \<Rightarrow> None
       | Some (Some cid) \<Rightarrow> Some (c\<lparr>cd_raw_cid := cid, cd_type := MMC_TYPE_SD_COMBO\<rparr>,
           \<not> oldcard \<or> cd_type (w_card w) = MMC_TYPE_SD_COMBO \<and> cid = cd_raw_cid (w_card w))
       | Some None \<Rightarrow> Some (c\<lparr>cd_type := MMC_TYPE_SDIO\<rparr>,
           \<not> oldcard \<or> cd_type (w_card w) = MMC_TYPE_SDIO))
   }"

definition sdio_init_hook :: "mmc_card \<Rightarrow> mmc_card io" where
  "sdio_init_hook c = do {
     w \<leftarrow> gets id;
     (case op_init_card (w_ops w) of
        None \<Rightarrow> ret c
      | Some init \<Rightarrow> do { emit EvInitCard 0; ret (init (w_trace w) c) })
   }"

text \<open>\<open>mmc_select_card\<close> for an object that need not be the host's.\<close>

definition select_new_card :: "mmc_card \<Rightarrow> int io" where
  "select_new_card c = do {
     cmd \<leftarrow> mmc_wait_for_cmd hooks (cmd0\<lparr>cmd_opcode := MMC_SELECT_CARD,
       cmd_arg := push_bit 16 (cd_rca c), cmd_flags := {MMC_RSP_R1, MMC_CMD_AC}\<rparr>) MMC_CMD_RETRIES;
     ret (cmd_error cmd)
   }"

text \<open>
  Relative address, CSD and selection: the error, whether the object is removed with it (an
  error of \<open>mmc_sd_get_csd\<close> returns at once), and the object.
\<close>

definition sdio_address_card :: "bool \<Rightarrow> bool \<Rightarrow> mmc_card \<Rightarrow> (int \<times> bool \<times> mmc_card) io" where
  "sdio_address_card oldcard powered_resume c = do {
     w \<leftarrow> gets id;
     let native = (\<not> powered_resume \<and> \<not> mmc_host_is_spi w);
     r \<leftarrow> (if native then do {
         r \<leftarrow> mmc_send_relative_addr;
         if fst r \<noteq> 0 then ret (fst r, c)
         else do {
           io_when oldcard (modify (upd_card (\<lambda>old. old\<lparr>cd_rca := snd r\<rparr>)));
           ret (0, c\<lparr>cd_rca := snd r\<rparr>)
         }
       } else ret (0, c));
     let c = snd r;
     if fst r \<noteq> 0 then ret (fst r, True, c)
     else do {
       r \<leftarrow> (if \<not> oldcard \<and> cd_type c = MMC_TYPE_SD_COMBO then do {
           modify (upd_card (\<lambda>_. c));
           err \<leftarrow> mmc_sd_get_csd;
           io_when (err = 0) (modify (upd_card mmc_decode_cid_sd));
           w \<leftarrow> gets id;
           ret (err, w_card w)
         } else ret (0, c));
       let c = snd r;
       if fst r \<noteq> 0 then ret (fst r, False, c)
       else do {
         err \<leftarrow> (if native then select_new_card c else ret 0);
         ret (err, True, c)
       }
     }
   }"

section \<open>Initialisation\<close>

text \<open>
  How a pass of \<open>mmc_sdio_init_card\<close> ends: with a result; by starting over with one retry
  less; or by starting over without retries.  Starting over goes on with \<open>ocr\<close>.
\<close>

datatype sdio_try = Try_Done int | Try_Again u32 | Try_Last u32

text \<open>What follows on the card object that stays, which is the world's card.\<close>

definition sdio_set_up :: "u32 \<Rightarrow> u32 \<Rightarrow> bool \<Rightarrow> int io" where
  "sdio_set_up ocr_card ocr oldcard = do {
     w \<leftarrow> gets id;
     modify (upd_card (\<lambda>c. mmc_fixup_device (sdio_fixup_methods (kn_sdio_ids (w_kernel w)))
       (c\<lparr>cd_ocr := ocr_card\<rparr>)));
     w \<leftarrow> gets id;
     io_when (cd_type (w_card w) = MMC_TYPE_SD_COMBO) (do {
       err \<leftarrow> mmc_sd_setup_card oldcard;
       io_when (err \<noteq> 0) (do {
         mmc_go_idle hooks;
         w \<leftarrow> gets id;
         io_when (mmc_host_is_spi w) (do { mmc_spi_set_crc hooks (kn_use_spi_crc (w_kernel w)); ret () });
         modify (upd_card (\<lambda>c. c\<lparr>cd_type := MMC_TYPE_SDIO\<rparr>))
       })
     });
     err \<leftarrow> sdio_disable_cd;
     if err \<noteq> 0 then ret err
     else do {
       w \<leftarrow> gets id;
       err \<leftarrow> (if ocr AND R4_18V_PRESENT \<noteq> 0 \<and> sw_sd3_bus_mode (cd_sw_caps (w_card w)) \<noteq> 0
         then mmc_sdio_init_uhs_card
         else do {
           err \<leftarrow> sdio_enable_hs;
           if err < 0 then ret err
           else do {
             io_when (err > 0) (mmc_set_timing MMC_TIMING_SD_HS);
             w \<leftarrow> gets id;
             mmc_set_clock (mmc_sdio_get_max_clock w);
             sdio_enable_4bit_bus
           }
         });
       w \<leftarrow> gets id;
       ret (if err \<noteq> 0 then err
            else if MMC_CAP2_AVOID_3_3V \<in> h_caps2 (w_host w)
              \<and> ios_signal_voltage (w_ios w) = MMC_SIGNAL_VOLTAGE_330 then - EINVAL
            else 0)
     }
   }"

text \<open>
  The labels \<open>finish\<close> and \<open>remove\<close>; \<open>c\<close> is the object of a first initialisation.
\<close>

definition sdio_finish :: "bool \<Rightarrow> sdio_try option io" where
  "sdio_finish oldcard = do {
     io_when (\<not> oldcard) (modify (upd_host (\<lambda>h. h\<lparr>h_card := True\<rparr>)));
     ret (Some (Try_Done 0))
   }"

definition sdio_fail :: "bool \<Rightarrow> mmc_card \<Rightarrow> int \<Rightarrow> sdio_try option io" where
  "sdio_fail oldcard c err = do { io_when (\<not> oldcard) (drop_card c); ret (Some (Try_Done err)) }"

text \<open>
  From the relative address on.  After an error of \<open>sdio_read_cccr\<close> the object is removed
  before the code decides, and once more at the label \<open>remove\<close>.
\<close>

definition sdio_bring_up :: "u32 \<Rightarrow> u32 \<Rightarrow> bool \<Rightarrow> bool \<Rightarrow> mmc_card \<Rightarrow> sdio_try option io" where
  "sdio_bring_up ocr_card ocr oldcard powered_resume c = do {
     r \<leftarrow> sdio_address_card oldcard powered_resume c;
     (case r of (err, rem, c) \<Rightarrow>
       if err \<noteq> 0 then (if rem then sdio_fail oldcard c err else ret (Some (Try_Done err)))
       else if MMC_QUIRK_NONSTD_SDIO \<in> cd_quirks c then do {
         mmc_set_clock (cd_cis_max_dtr c);
         io_when (cc_high_speed (cd_cccr c)) (mmc_set_timing MMC_TIMING_SD_HS);
         io_when (\<not> oldcard) (modify (upd_card (\<lambda>_. c)));
         sdio_finish oldcard
       }
       else do {
         r \<leftarrow> sdio_read_cccr ocr c;
         let c = snd r;
         if fst r \<noteq> 0 then do {
           mmc_sdio_resend_if_cond c;
           if ocr AND R4_18V_PRESENT \<noteq> 0 then ret (Some (Try_Last ocr))
           else sdio_fail oldcard c (fst r)
         }
         else do {
           r \<leftarrow> sdio_read_common_cis c;
           (case r of
              None \<Rightarrow> ret None
            | Some (err, c) \<Rightarrow>
                if err \<noteq> 0 then sdio_fail oldcard c err
                else do {
                  w \<leftarrow> gets id;
                  let same = (cd_cis_vendor c = cd_cis_vendor (w_card w)
                    \<and> cd_cis_device c = cd_cis_device (w_card w));
                  (if oldcard then drop_card c else modify (upd_card (\<lambda>_. c)));
                  if oldcard \<and> \<not> same then ret (Some (Try_Done (- ENOENT)))
                  else do {
                    err \<leftarrow> sdio_set_up ocr_card ocr oldcard;
                    w \<leftarrow> gets id;
                    if err \<noteq> 0 then sdio_fail oldcard (w_card w) err else sdio_finish oldcard
                  }
                })
         }
       })
   }"

definition sdio_init_try :: "nat \<Rightarrow> u32 \<Rightarrow> u32 \<Rightarrow> bool \<Rightarrow> bool \<Rightarrow> sdio_try option io" where
  "sdio_init_try n ocr_card ocr oldcard powered_resume = do {
     r \<leftarrow> (if powered_resume then ret (0, 0) else mmc_send_io_op_cond ocr);
     let rocr = snd r;
     if fst r \<noteq> 0 then ret (Some (Try_Done (fst r)))
     else do {
       w \<leftarrow> gets id;
       err \<leftarrow> (if mmc_host_is_spi w then mmc_spi_set_crc hooks (kn_use_spi_crc (w_kernel w)) else ret 0);
       if err \<noteq> 0 then ret (Some (Try_Done err))
       else do {
         a \<leftarrow> new_card;
         (case a of
            Inl err \<Rightarrow> ret (Some (Try_Done err))
          | Inr c \<Rightarrow> do {
              t \<leftarrow> sdio_card_type n ocr rocr oldcard c;
              (case t of
                 None \<Rightarrow> ret None
               | Some (c, same) \<Rightarrow>
                   if \<not> same then do { drop_card c; ret (Some (Try_Done (- ENOENT))) }
                   else do {
                     c \<leftarrow> sdio_init_hook c;
                     err \<leftarrow> (if \<not> powered_resume \<and> rocr AND ocr AND R4_18V_PRESENT \<noteq> 0
                       then mmc_set_uhs_voltage ocr_card else ret 0);
                     if err = - EAGAIN then do {
                       mmc_sdio_resend_if_cond c;
                       ret (Some (Try_Again ocr))
                     }
                     else sdio_bring_up ocr_card
                       (if err \<noteq> 0 then ocr AND NOT R4_18V_PRESENT else ocr) oldcard powered_resume c
                   })
            })
       }
     }
   }"

text \<open>
  The passes, by the number of retries.  Without retries \<open>ocr\<close> does not ask for 1.8 V, so that
  the pass does not start over.
\<close>

fun sdio_init_tries :: "nat \<Rightarrow> nat \<Rightarrow> u32 \<Rightarrow> u32 \<Rightarrow> bool \<Rightarrow> bool \<Rightarrow> int option io" where
  "sdio_init_tries 0 n ocr_card ocr oldcard powered_resume = do {
     r \<leftarrow> sdio_init_try n ocr_card (ocr AND NOT R4_18V_PRESENT) oldcard powered_resume;
     ret (case r of Some (Try_Done err) \<Rightarrow> Some err | _ \<Rightarrow> None)
   }"
| "sdio_init_tries (Suc k) n ocr_card ocr oldcard powered_resume = do {
     r \<leftarrow> sdio_init_try n ocr_card ocr oldcard powered_resume;
     (case r of
        None \<Rightarrow> ret None
      | Some (Try_Done err) \<Rightarrow> ret (Some err)
      | Some (Try_Again ocr) \<Rightarrow> sdio_init_tries k n ocr_card ocr oldcard powered_resume
      | Some (Try_Last ocr) \<Rightarrow> sdio_init_tries 0 n ocr_card ocr oldcard powered_resume)
   }"

definition mmc_sdio_init_card :: "nat \<Rightarrow> u32 \<Rightarrow> bool \<Rightarrow> bool \<Rightarrow> int option io" where
  "mmc_sdio_init_card n ocr oldcard powered_resume = do {
     h \<leftarrow> gets w_host;
     sdio_init_tries 10 n ocr (if mmc_host_uhs h then ocr OR R4_18V_PRESENT else ocr)
       oldcard powered_resume
   }"

definition mmc_sdio_reinit_card :: "nat \<Rightarrow> bool \<Rightarrow> int option io" where
  "mmc_sdio_reinit_card n powered_resume = do {
     w \<leftarrow> gets id;
     sdio_reset;
     mmc_go_idle hooks;
     mmc_send_if_cond (cd_ocr (w_card w));
     r \<leftarrow> mmc_send_io_op_cond 0;
     if fst r \<noteq> 0 then ret (Some (fst r))
     else do {
       w \<leftarrow> gets id;
       mmc_sdio_init_card n (cd_ocr (w_card w)) True powered_resume
     }
   }"

end
