(* ===== verification/Sdio_Life.thy ===== *)
theory Sdio_Life
  imports Sdio_Init
begin

text \<open>
  The life of an SDIO card (\<open>mmc/core/sdio.c\<close>): removal and detection, suspend and resume,
  reset, attachment; and the binding of a function to its driver (\<open>mmc/core/sdio_bus.c\<close>).  The
  result None is as in \<open>Sd_Life\<close>.
\<close>

text \<open>A call of runtime PM for the card whose result is used.\<close>

definition pm_result :: "pm_call \<Rightarrow> int io" where
  "pm_result p = do {
     w \<leftarrow> gets id;
     pm p;
     ret (kn_pm_result (w_kernel w) (w_trace w) p)
   }"

abbreviation power_off_card :: "mmc_world \<Rightarrow> bool" where
  "power_off_card w \<equiv> MMC_CAP_POWER_OFF_CARD \<in> h_caps (w_host w)"

section \<open>Removal\<close>

text \<open>The loop over the first functions, in their order.\<close>

fun sdio_remove_funcs :: "nat list \<Rightarrow> unit io" where
  "sdio_remove_funcs [] = ret ()"
| "sdio_remove_funcs (i # is) = do {
     w \<leftarrow> gets id;
     io_when (func_at (w_card w) i \<noteq> None) (do {
       sdio_remove_func i;
       modify (upd_card (\<lambda>c. c\<lparr>cd_sdio_func := (cd_sdio_func c)[i := None]\<rparr>))
     });
     sdio_remove_funcs is
   }"

definition mmc_sdio_remove :: "unit io" where
  "mmc_sdio_remove = do {
     w \<leftarrow> gets id;
     sdio_remove_funcs [0..<cd_sdio_funcs (w_card w)];
     mmc_remove_card;
     modify (upd_host (\<lambda>h. h\<lparr>h_card := False\<rparr>))
   }"

definition mmc_sdio_detect :: "unit io" where
  "mmc_sdio_detect = do {
     w \<leftarrow> gets id;
     pm_err \<leftarrow> (if power_off_card w then pm_result PM_GET_SYNC else ret 0);
     err \<leftarrow> (if pm_err < 0 then do { pm PM_PUT_NOIDLE; ret pm_err }
       else do {
         claim_host;
         err \<leftarrow> detect_card_removed;
         release_host;
         w \<leftarrow> gets id;
         io_when (power_off_card w) (pm PM_PUT_SYNC);
         ret err
       });
     io_when (err \<noteq> 0) (do {
       mmc_sdio_remove;
       claim_host;
       mmc_detach_bus;
       mmc_power_off;
       release_host
     })
   }"

section \<open>Suspend and resume\<close>

definition mmc_sdio_pre_suspend :: "mmc_world \<Rightarrow> int" where
  "mmc_sdio_pre_suspend w =
    (if list_all (\<lambda>i. case func_at (w_card w) i of
         None \<Rightarrow> True | Some f \<Rightarrow> fn_present f \<longrightarrow> kn_driver_pm (w_kernel w) i) [0..<cd_sdio_funcs (w_card w)]
     then 0 else - ENOSYS)"

definition mmc_sdio_suspend :: "int io" where
  "mmc_sdio_suspend = do {
     claim_host;
     h \<leftarrow> gets w_host;
     io_when (mmc_card_keep_power h \<and> mmc_card_wake_sdio_irq h) (do { sdio_disable_wide; ret () });
     h \<leftarrow> gets w_host;
     (if \<not> mmc_card_keep_power h then mmc_power_off
      else io_when (h_retune_period h \<noteq> 0) (do { mmc_retune_timer_stop; mmc_retune_needed }));
     release_host;
     ret 0
   }"

definition mmc_sdio_resume :: "nat \<Rightarrow> int option io" where
  "mmc_sdio_resume n = do {
     claim_host;
     w \<leftarrow> gets id;
     io_when (\<not> mmc_card_keep_power (w_host w)) (do {
       mmc_power_up (cd_ocr (w_card w));
       io_when (power_off_card w) (do { pm PM_DISABLE; pm PM_SET_ACTIVE; pm PM_ENABLE })
     });
     h \<leftarrow> gets w_host;
     r \<leftarrow> (if MMC_CAP_NONREMOVABLE \<notin> h_caps h \<or> \<not> mmc_card_keep_power h
       then mmc_sdio_reinit_card n (mmc_card_keep_power h)
       else if mmc_card_wake_sdio_irq h
       then do { err \<leftarrow> sdio_enable_4bit_bus; ret (Some err) } else ret (Some 0));
     (case r of
        None \<Rightarrow> ret None
      | Some err \<Rightarrow> do {
          h \<leftarrow> gets w_host;
          io_when (err = 0 \<and> h_sdio_irqs h \<noteq> 0)
            (if MMC_CAP2_SDIO_IRQ_NOTHREAD \<notin> h_caps2 h then emit EvWakeThread 0
             else io_when (MMC_CAP_SDIO_IRQ \<in> h_caps h) (emit (EvSdioIrq True) 0));
          release_host;
          modify (upd_host (\<lambda>h. h\<lparr>h_pm_flags := h_pm_flags h AND NOT MMC_PM_KEEP_POWER\<rparr>));
          ret (Some err)
        })
   }"

definition mmc_sdio_power_restore :: "nat \<Rightarrow> int option io" where
  "mmc_sdio_power_restore n = do {
     claim_host;
     h \<leftarrow> gets w_host;
     r \<leftarrow> mmc_sdio_reinit_card n (mmc_card_keep_power h);
     (case r of
        None \<Rightarrow> ret None
      | Some err \<Rightarrow> do {
          h \<leftarrow> gets w_host;
          io_when (err = 0 \<and> h_sdio_irqs h \<noteq> 0) (do {
            w \<leftarrow> gets id;
            emit EvSignalSdioIrq 0;
            modify (upd_host (\<lambda>h. h\<lparr>h_sdio_irq_pending :=
              kn_signal_pending (w_kernel w) (h_sdio_irq_pending h)\<rparr>))
          });
          release_host;
          ret (Some err)
        })
   }"

definition mmc_sdio_runtime_suspend :: "int io" where
  "mmc_sdio_runtime_suspend = do { claim_host; mmc_power_off; release_host; ret 0 }"

definition mmc_sdio_runtime_resume :: "nat \<Rightarrow> int option io" where
  "mmc_sdio_runtime_resume n = do {
     claim_host;
     w \<leftarrow> gets id;
     mmc_power_up (cd_ocr (w_card w));
     r \<leftarrow> mmc_sdio_power_restore n;
     (case r of None \<Rightarrow> ret None | Some err \<Rightarrow> do { release_host; ret (Some err) })
   }"

definition mmc_sdio_hw_reset :: "nat \<Rightarrow> int option io" where
  "mmc_sdio_hw_reset n = do {
     w \<leftarrow> gets id;
     mmc_power_cycle (cd_ocr (w_card w));
     mmc_sdio_power_restore n
   }"

definition mmc_sdio_sw_reset :: "nat \<Rightarrow> int option io" where
  "mmc_sdio_sw_reset n = do {
     h \<leftarrow> gets w_host;
     mmc_set_clock (h_f_init h);
     sdio_reset;
     mmc_go_idle hooks;
     mmc_set_initial_state;
     mmc_set_initial_signal_voltage;
     mmc_sdio_reinit_card n False
   }"

section \<open>Attachment\<close>

text \<open>The loops over the functions: the result, and the number of functions initialised.\<close>

fun sdio_init_funcs :: "nat list \<Rightarrow> int option io" where
  "sdio_init_funcs [] = ret (Some 0)"
| "sdio_init_funcs (i # is) = do {
     r \<leftarrow> sdio_init_func (i + 1);
     if r \<noteq> Some 0 then ret r
     else do {
       w \<leftarrow> gets id;
       io_when (power_off_card w) (emit (EvFuncPm i PM_ENABLE) 0);
       modify (upd_card (\<lambda>c. c\<lparr>cd_sdio_funcs := cd_sdio_funcs c + 1\<rparr>));
       sdio_init_funcs is
     }
   }"

fun sdio_add_funcs :: "nat list \<Rightarrow> int io" where
  "sdio_add_funcs [] = ret 0"
| "sdio_add_funcs (i # is) = do {
     err \<leftarrow> sdio_add_func i;
     if err \<noteq> 0 then ret err else sdio_add_funcs is
   }"

text \<open>From the runtime PM to the functions, with the host claimed.\<close>

definition sdio_prepare_funcs :: "nat \<Rightarrow> int option io" where
  "sdio_prepare_funcs funcs = do {
     w \<leftarrow> gets id;
     err \<leftarrow> (if power_off_card w then do {
         pm PM_GET_NORESUME;
         err \<leftarrow> pm_result PM_SET_ACTIVE;
         io_when (err = 0) (pm PM_ENABLE);
         ret err
       } else ret 0);
     if err \<noteq> 0 then ret (Some err)
     else do {
       modify (upd_card (\<lambda>c. c\<lparr>cd_sdio_funcs := 0\<rparr>));
       sdio_init_funcs [0..<funcs]
     }
   }"

text \<open>The registration, without the claim.\<close>

definition sdio_register :: "nat \<Rightarrow> int io" where
  "sdio_register funcs = do {
     err \<leftarrow> mmc_add_card;
     if err \<noteq> 0 then ret err
     else do {
       err \<leftarrow> sdio_add_funcs [0..<funcs];
       w \<leftarrow> gets id;
       io_when (err = 0 \<and> power_off_card w) (pm PM_PUT);
       ret err
     }
   }"

definition attach_sdio_voltage :: "u32 \<Rightarrow> (int + u32) io" where
  "attach_sdio_voltage ocr = do {
     mmc_attach_bus MMC_SDIO_OPS;
     h \<leftarrow> gets w_host;
     io_when (h_ocr_avail_sdio h \<noteq> 0) (modify (upd_host (\<lambda>h. h\<lparr>h_ocr_avail := h_ocr_avail_sdio h\<rparr>)));
     rocr \<leftarrow> mmc_select_voltage ocr;
     ret (if rocr = 0 then Inl (- EINVAL) else Inr rocr)
   }"

text \<open>The label \<open>remove_added\<close>, which is reached without the claim.\<close>

definition sdio_remove_added :: "int \<Rightarrow> int option io" where
  "sdio_remove_added err = do { mmc_sdio_remove; claim_host; mmc_detach_bus; ret (Some err) }"

definition mmc_attach_sdio :: "nat \<Rightarrow> int option io" where
  "mmc_attach_sdio n = do {
     r \<leftarrow> mmc_send_io_op_cond 0;
     let ocr = snd r;
     if fst r \<noteq> 0 then ret (Some (fst r))
     else do {
       v \<leftarrow> attach_sdio_voltage ocr;
       (case v of
          Inl err \<Rightarrow> do { mmc_detach_bus; ret (Some err) }
        | Inr rocr \<Rightarrow> do {
            r \<leftarrow> mmc_sdio_init_card n rocr False False;
            (case r of
               None \<Rightarrow> ret None
             | Some err \<Rightarrow>
                 if err \<noteq> 0 then do { mmc_detach_bus; ret (Some err) }
                 else do {
                   let funcs = unat (drop_bit 28 (ocr AND 0x70000000));
                   r \<leftarrow> sdio_prepare_funcs funcs;
                   (case r of
                      None \<Rightarrow> ret None
                    | Some err \<Rightarrow>
                        if err \<noteq> 0 then do { release_host; sdio_remove_added err }
                        else do {
                          release_host;
                          err \<leftarrow> sdio_register funcs;
                          if err \<noteq> 0 then sdio_remove_added err
                          else do { claim_host; ret (Some 0) }
                        })
                 })
          })
     }
   }"

section \<open>Binding a driver\<close>

text \<open>The table is that of the driver; the result None is a function that does not exist.\<close>

definition sdio_bus_probe :: "nat \<Rightarrow> sdio_device_id list \<Rightarrow> int option io" where
  "sdio_bus_probe i ids = do {
     w \<leftarrow> gets id;
     (case func_at (w_card w) i of
        None \<Rightarrow> ret None
      | Some f \<Rightarrow>
          if sdio_match_device f ids = None then ret (Some (- ENODEV))
          else do {
            emit (EvPmDomain i True) 0;
            if kn_pm_domain (w_kernel w) (w_trace w) \<noteq> 0
            then ret (Some (kn_pm_domain (w_kernel w) (w_trace w)))
            else do {
              let fail = (\<lambda>err. do {
                w \<leftarrow> gets id;
                io_when (power_off_card w) (emit (EvFuncPm i PM_PUT_NOIDLE) 0);
                emit (EvPmDomain i False) 0;
                ret (Some err) });
              w \<leftarrow> gets id;
              io_when (power_off_card w) (emit (EvFuncPm i PM_GET_SYNC) 0);
              let err = (if power_off_card w then kn_pm_result (w_kernel w) (w_trace w) PM_GET_SYNC else 0);
              if err < 0 then fail err
              else do {
                sdio_claim_host i;
                r \<leftarrow> sdio_set_block_size i 0;
                sdio_release_host i;
                (case r of
                   None \<Rightarrow> ret None
                 | Some err \<Rightarrow>
                     if err \<noteq> 0 then fail err
                     else do {
                       w \<leftarrow> gets id;
                       emit (EvDriverProbe i) 0;
                       let err = kn_driver_probe (w_kernel w) (w_trace w);
                       if err \<noteq> 0 then fail err else ret (Some 0)
                     })
              }
            }
          })
   }"

definition sdio_bus_remove :: "nat \<Rightarrow> int io" where
  "sdio_bus_remove i = do {
     w \<leftarrow> gets id;
     io_when (power_off_card w) (emit (EvFuncPm i PM_GET_SYNC) 0);
     emit (EvDriverRemove i) 0;
     w \<leftarrow> gets id;
     io_when (has_irq (w_card w) i) (do {
       sdio_claim_host i;
       sdio_release_irq i;
       sdio_release_host i
     });
     w \<leftarrow> gets id;
     io_when (power_off_card w) (do {
       emit (EvFuncPm i PM_PUT_NOIDLE) 0;
       emit (EvFuncPm i PM_PUT_SYNC) 0
     });
     emit (EvPmDomain i False) 0;
     ret 0
   }"

end
