(* ===== verification/Rescan.thy ===== *)
theory Rescan
  imports Mmc_Life Sd_Life Sdio_Life
begin

text \<open>
  The detection work of a host (\<open>mmc/core/core.c\<close>): the scan for a card, the start and the stop
  of a host, and the preparation for system sleep.  The operations that may attach a card take
  the number of rounds for \<open>mmc_sd_get_cid\<close> and return None if it did not suffice.
\<close>

section \<open>The bus handler\<close>

text \<open>The callbacks \<open>remove\<close>, \<open>detect\<close> and \<open>pre_suspend\<close>; only SDIO has the last one.\<close>

definition handler_remove :: "mmc_bus_ops \<Rightarrow> unit io" where
  "handler_remove ops = (if ops = MMC_SDIO_OPS then mmc_sdio_remove else bus_remove)"

definition handler_detect :: "mmc_bus_ops \<Rightarrow> unit io" where
  "handler_detect ops = (if ops = MMC_SDIO_OPS then mmc_sdio_detect else bus_detect)"

definition handler_pre_suspend :: "mmc_bus_ops \<Rightarrow> mmc_world \<Rightarrow> int" where
  "handler_pre_suspend ops w = (if ops = MMC_SDIO_OPS then mmc_sdio_pre_suspend w else 0)"

abbreviation card_is_removable :: "mmc_host \<Rightarrow> bool" where
  "card_is_removable h \<equiv> MMC_CAP_NONREMOVABLE \<notin> h_caps h"

section \<open>Scanning\<close>

text \<open>Unless the kind of card is excluded, an attempt to attach it; 0 ends the scan.\<close>

definition try_attach :: "mmc_cap2 \<Rightarrow> int option io \<Rightarrow> int option io \<Rightarrow> int option io" where
  "try_attach excluded attach next = do {
     h \<leftarrow> gets w_host;
     if excluded \<in> h_caps2 h then next
     else do {
       r \<leftarrow> attach;
       (case r of None \<Rightarrow> ret None | Some err \<Rightarrow> if err = 0 then ret (Some 0) else next)
     }
   }"

definition mmc_rescan_try_freq :: "nat \<Rightarrow> u32 \<Rightarrow> int option io" where
  "mmc_rescan_try_freq n freq = do {
     modify (upd_host (\<lambda>h. h\<lparr>h_f_init := freq\<rparr>));
     h \<leftarrow> gets w_host;
     mmc_power_up (h_ocr_avail h);
     mmc_hw_reset_for_init;
     h \<leftarrow> gets w_host;
     io_when (MMC_CAP2_NO_SDIO \<notin> h_caps2 h) (do { sdio_reset; ret () });
     mmc_go_idle hooks;
     h \<leftarrow> gets w_host;
     io_when (MMC_CAP2_NO_SD \<notin> h_caps2 h) (do { mmc_send_if_cond (h_ocr_avail h); ret () });
     try_attach MMC_CAP2_NO_SDIO (mmc_attach_sdio n)
       (try_attach MMC_CAP2_NO_SD (mmc_attach_sd n)
         (try_attach MMC_CAP2_NO_MMC (do { err \<leftarrow> mmc_attach_mmc; ret (Some err) })
           (do { mmc_power_off; ret (Some (- EIO)) })))
   }"

definition freqs :: "u32 list" where
  "freqs = [400000, 300000, 200000, 100000]"

fun rescan_freqs :: "nat \<Rightarrow> u32 list \<Rightarrow> unit option io" where
  "rescan_freqs n [] = ret (Some ())"
| "rescan_freqs n (f # fs) = do {
     h \<leftarrow> gets w_host;
     r \<leftarrow> mmc_rescan_try_freq n (max f (h_f_min h));
     (case r of
        None \<Rightarrow> ret None
      | Some err \<Rightarrow> do {
          h \<leftarrow> gets w_host;
          if err = 0 \<or> f \<le> h_f_min h then ret (Some ()) else rescan_freqs n fs
        })
   }"

text \<open>The card event and the check of the card that is registered.\<close>

definition rescan_detect :: "unit io" where
  "rescan_detect = do {
     modify (upd_host (\<lambda>h. h\<lparr>h_rescan_entered := True\<rparr>));
     w \<leftarrow> gets id;
     io_when (h_trigger_card_event (w_host w) \<and> op_card_event (w_ops w)) (do {
       claim_host;
       emit EvCardEvent 0;
       release_host;
       modify (upd_host (\<lambda>h. h\<lparr>h_trigger_card_event := False\<rparr>))
     });
     mmc_bus_get;
     h \<leftarrow> gets w_host;
     (case h_bus_ops h of
        None \<Rightarrow> ret ()
      | Some ops \<Rightarrow> io_when (\<not> h_bus_dead h \<and> card_is_removable h) (handler_detect ops));
     modify (upd_host (\<lambda>h. h\<lparr>h_detect_change := False\<rparr>));
     mmc_bus_put
   }"

text \<open>The scan of a host without a handler.\<close>

definition rescan_scan :: "nat \<Rightarrow> unit option io" where
  "rescan_scan n = do {
     claim_host;
     w \<leftarrow> gets id;
     no_card \<leftarrow> (case op_get_cd (w_ops w) of
        None \<Rightarrow> ret False
      | Some get_cd \<Rightarrow>
          if card_is_removable (w_host w) then do { emit EvGetCd 0; ret (get_cd (w_trace w) = 0) }
          else ret False);
     r \<leftarrow> (if no_card then do { mmc_power_off; ret (Some ()) } else rescan_freqs n freqs);
     (case r of None \<Rightarrow> ret None | Some _ \<Rightarrow> do { release_host; ret (Some ()) })
   }"

definition mmc_rescan :: "nat \<Rightarrow> unit option io" where
  "mmc_rescan n = do {
     h \<leftarrow> gets w_host;
     if h_rescan_disable h then ret (Some ())
     else if \<not> card_is_removable h \<and> h_rescan_entered h then ret (Some ())
     else do {
       rescan_detect;
       mmc_bus_get;
       h \<leftarrow> gets w_host;
       mmc_bus_put;
       r \<leftarrow> (if h_bus_ops h \<noteq> None then ret (Some ()) else rescan_scan n);
       (case r of
          None \<Rightarrow> ret None
        | Some _ \<Rightarrow> do {
            w \<leftarrow> gets id;
            io_when (MMC_CAP_NEEDS_POLL \<in> h_caps (w_host w)) (emit (EvScheduleDetect (kn_hz (w_kernel w))) 0);
            ret (Some ())
          })
     }
   }"

section \<open>Resets\<close>

definition handler_hw_reset :: "nat \<Rightarrow> mmc_bus_ops \<Rightarrow> int option io" where
  "handler_hw_reset n ops = (case ops of
     MMC_OPS \<Rightarrow> do { err \<leftarrow> card_hw_reset; ret (Some err) }
   | MMC_SD_OPS \<Rightarrow> mmc_sd_hw_reset n
   | MMC_SDIO_OPS \<Rightarrow> mmc_sdio_hw_reset n)"

definition mmc_hw_reset :: "nat \<Rightarrow> int option io" where
  "mmc_hw_reset n = do {
     h \<leftarrow> gets w_host;
     if \<not> h_card h then ret (Some (- EINVAL))
     else do {
       mmc_bus_get;
       h \<leftarrow> gets w_host;
       r \<leftarrow> (case (h_bus_ops h, h_bus_dead h) of
          (Some ops, False) \<Rightarrow> handler_hw_reset n ops
        | _ \<Rightarrow> ret (Some (- EOPNOTSUPP)));
       (case r of None \<Rightarrow> ret None | Some err \<Rightarrow> do { mmc_bus_put; ret (Some err) })
     }
   }"

text \<open>Only the handler of SDIO cards has a reset by software.\<close>

definition mmc_sw_reset :: "nat \<Rightarrow> int option io" where
  "mmc_sw_reset n = do {
     h \<leftarrow> gets w_host;
     if \<not> h_card h then ret (Some (- EINVAL))
     else do {
       mmc_bus_get;
       h \<leftarrow> gets w_host;
       r \<leftarrow> (if h_bus_ops h = Some MMC_SDIO_OPS \<and> \<not> h_bus_dead h then mmc_sdio_sw_reset n
         else ret (Some (- EOPNOTSUPP)));
       (case r of None \<Rightarrow> ret None | Some err \<Rightarrow> do { mmc_bus_put; ret (Some err) })
     }
   }"

section \<open>Start, stop and sleep\<close>

definition mmc_start_host :: "unit io" where
  "mmc_start_host = do {
     modify (upd_host (\<lambda>h. h\<lparr>h_f_init := max 400000 (h_f_min h), h_rescan_disable := False\<rparr>));
     modify (upd_ios (\<lambda>i. i\<lparr>ios_power_mode := MMC_POWER_UNDEFINED\<rparr>));
     h \<leftarrow> gets w_host;
     io_when (MMC_CAP2_NO_PRESCAN_POWERUP \<notin> h_caps2 h) (do {
       claim_host;
       mmc_power_up (h_ocr_avail h);
       release_host
     });
     emit EvRequestCdIrq 0;
     detect_change 0 False
   }"

text \<open>The card goes with its handler, and the power.\<close>

definition drop_handler :: "mmc_bus_ops \<Rightarrow> unit io" where
  "drop_handler ops = do {
     handler_remove ops;
     claim_host;
     mmc_detach_bus;
     mmc_power_off;
     release_host
   }"

definition mmc_stop_host :: "unit io" where
  "mmc_stop_host = do {
     h \<leftarrow> gets w_host;
     io_when (h_cd_irq h \<ge> 0) (do { emit (EvCdWake False) 0; emit EvDisableCdIrq 0 });
     modify (upd_host (\<lambda>h. h\<lparr>h_rescan_disable := True\<rparr>));
     emit EvCancelDetect 0;
     modify (upd_host (\<lambda>h. h\<lparr>h_pm_flags := 0\<rparr>));
     mmc_bus_get;
     h \<leftarrow> gets w_host;
     (case (h_bus_ops h, h_bus_dead h) of
        (Some ops, False) \<Rightarrow> do { drop_handler ops; mmc_bus_put }
      | _ \<Rightarrow> do {
          mmc_bus_put;
          claim_host;
          mmc_power_off;
          release_host
        })
   }"

datatype pm_mode = PM_HIBERNATION_PREPARE | PM_SUSPEND_PREPARE | PM_RESTORE_PREPARE
  | PM_POST_SUSPEND | PM_POST_HIBERNATION | PM_POST_RESTORE

definition pm_prepare :: "unit io" where
  "pm_prepare = do {
     modify (upd_host (\<lambda>h. h\<lparr>h_rescan_disable := True\<rparr>));
     emit EvCancelDetect 0;
     w \<leftarrow> gets id;
     (case h_bus_ops (w_host w) of
        None \<Rightarrow> ret ()
      | Some ops \<Rightarrow>
          io_when (handler_pre_suspend ops w \<noteq> 0 \<and> card_is_removable (w_host w)) (do {
            drop_handler ops;
            modify (upd_host (\<lambda>h. h\<lparr>h_pm_flags := 0\<rparr>))
          }))
   }"

definition mmc_pm_notify :: "pm_mode \<Rightarrow> int io" where
  "mmc_pm_notify mode = do {
     (if mode \<in> {PM_HIBERNATION_PREPARE, PM_SUSPEND_PREPARE, PM_RESTORE_PREPARE} then pm_prepare
      else do {
        modify (upd_host (\<lambda>h. h\<lparr>h_rescan_disable := False\<rparr>));
        detect_change 0 False
      });
     ret 0
   }"

end
