(* ===== verification/Sdio_Init_Facts.thy ===== *)
theory Sdio_Init_Facts
  imports Sdio_Facts Sdio_Life
begin

text \<open>
  The initialisation of SDIO cards: what its steps leave alone, that it keeps claim and handler
  of the host, and that it ends.
\<close>

section \<open>Steps\<close>

lemma rel_state: "(\<And>w. R w (snd (f w))) \<Longrightarrow> state_io_rel R (State f)"
  by (simp add: state_io_rel_def)

lemma more_not_claim [io_calm, io_settled, io_bus]:
  "\<not> claim_event EvGetDevice" "\<not> claim_event (EvFuncAdd i)" "\<not> claim_event (EvFuncDel i)"
  "\<not> claim_event (EvFuncPm i p)" "\<not> claim_event (EvSdioIrq b)" "\<not> claim_event EvWakeThread"
  "\<not> claim_event EvSignalSdioIrq" "\<not> claim_event (EvScheduleDetect n)" "\<not> claim_event EvCancelDetect"
  "\<not> claim_event EvGetCd" "\<not> claim_event EvCardEvent"
  "\<not> claim_event EvRequestCdIrq" "\<not> claim_event EvDisableCdIrq" "\<not> claim_event (EvCdWake b)"
  "\<not> claim_event EvDeviceAdd"
  by simp_all

lemma kzalloc_sdio_rel [io_rel, io_hold, io_calm]:
  "state_io_rel evolves (kzalloc n)" "state_io_rel holds_balanced (kzalloc n)" "state_io_rel calm (kzalloc n)"
  unfolding kzalloc_def
  by (intro io_rel ev.rel_intros io_hold hb.rel_intros io_calm cm.rel_intros)+

lemma cis_parse_rel [io_rel, io_hold, io_calm]:
  "state_io_rel evolves (cis_tpl_parse cis_tpl_list code tgt buf)"
  "state_io_rel holds_balanced (cis_tpl_parse cis_tpl_list code tgt buf)"
  "state_io_rel calm (cis_tpl_parse cis_tpl_list code tgt buf)"
  unfolding cis_tpl_list_def cis_tpl_parse.simps cistpl_vers_1_def cistpl_manfid_def cistpl_funce_def
    cis_tpl_funce_list_def cistpl_funce_common_def cistpl_funce_func_def option.case
  by (intro io_rel ev.rel_intros io_hold hb.rel_intros io_calm cm.rel_intros)+

lemma cis_byte_rel [io_rel, io_hold, io_calm]:
  "state_io_rel evolves (cis_byte a)" "state_io_rel holds_balanced (cis_byte a)" "state_io_rel calm (cis_byte a)"
  unfolding cis_byte_def by (intro io_rel io_hold io_calm)+

lemma cis_data_rel [io_rel, io_hold, io_calm]:
  "state_io_rel evolves (cis_data n a)" "state_io_rel holds_balanced (cis_data n a)" "state_io_rel calm (cis_data n a)"
  by (induction n arbitrary: a)
    (auto intro!: io_rel ev.rel_intros io_hold hb.rel_intros io_calm cm.rel_intros)

lemma cis_pointer_rel [io_rel, io_hold, io_calm]:
  "state_io_rel evolves (cis_pointer fn is p)" "state_io_rel holds_balanced (cis_pointer fn is p)"
  "state_io_rel calm (cis_pointer fn is p)"
  by (induction "is" arbitrary: p)
    (auto intro!: io_rel ev.rel_intros io_hold hb.rel_intros io_calm cm.rel_intros)

lemma cis_pass_rel:
  "state_io_rel evolves (cis_tuple_pass p tgt)" "state_io_rel holds_balanced (cis_tuple_pass p tgt)"
  "state_io_rel calm (cis_tuple_pass p tgt)"
  unfolding cis_tuple_pass_def
  by (intro io_rel ev.rel_intros io_hold hb.rel_intros io_calm cm.rel_intros)+

lemma cis_tuples_run:
  assumes "io_preorder R" and "\<And>p tgt. state_io_rel R (cis_tuple_pass p tgt)"
  shows "R w (snd (cis_tuples p tgt w))"
proof (induction p tgt w rule: cis_tuples.induct)
  case (1 p tgt w)
  obtain r v where r: "run_state (cis_tuple_pass p tgt) w = (r, v)" by fastforce
  have "R w v" using io_preorder.rel_run [OF assms(1,2) r] .
  then show ?case
    using 1 r io_preorder.trn [OF assms(1)]
    by (cases r) (auto simp: cis_tuples.simps [of p tgt w])
qed

lemma cis_tuples_rel [io_rel, io_hold, io_calm]:
  "state_io_rel evolves (State (cis_tuples p tgt))" "state_io_rel holds_balanced (State (cis_tuples p tgt))"
  "state_io_rel calm (State (cis_tuples p tgt))"
  by (rule rel_state; rule cis_tuples_run; rule ev.io_preorder_axioms hb.io_preorder_axioms
      cm.io_preorder_axioms cis_pass_rel)+

lemma read_cis_rel [io_rel, io_hold, io_calm]:
  "state_io_rel evolves (sdio_read_cis tgt)" "state_io_rel holds_balanced (sdio_read_cis tgt)"
  "state_io_rel calm (sdio_read_cis tgt)"
  "state_io_rel evolves (sdio_read_common_cis c)" "state_io_rel holds_balanced (sdio_read_common_cis c)"
  "state_io_rel calm (sdio_read_common_cis c)"
  "state_io_rel evolves (sdio_read_func_cis c f)" "state_io_rel holds_balanced (sdio_read_func_cis c f)"
  "state_io_rel calm (sdio_read_func_cis c f)"
  "state_io_rel evolves (sdio_free_func_cis f)" "state_io_rel holds_balanced (sdio_free_func_cis f)"
  "state_io_rel calm (sdio_free_func_cis f)"
  unfolding sdio_read_func_cis_def sdio_read_common_cis_def sdio_read_cis_def sdio_free_func_cis_def
  by (intro io_rel ev.rel_intros io_hold hb.rel_intros io_calm cm.rel_intros)+

lemma cccr_read_rel:
  "(\<And>x. state_io_rel evolves (k x)) \<Longrightarrow> state_io_rel evolves (cccr_read reg c k)"
  "(\<And>x. state_io_rel holds_balanced (k x)) \<Longrightarrow> state_io_rel holds_balanced (cccr_read reg c k)"
  "(\<And>x. state_io_rel calm (k x)) \<Longrightarrow> state_io_rel calm (cccr_read reg c k)"
  unfolding cccr_read_def
  by (intro io_rel ev.rel_intros io_hold hb.rel_intros io_calm cm.rel_intros | assumption)+

lemma read_cccr_rel [io_rel, io_hold, io_calm]:
  "state_io_rel evolves (sdio_read_cccr ocr c)" "state_io_rel holds_balanced (sdio_read_cccr ocr c)"
  "state_io_rel calm (sdio_read_cccr ocr c)"
  unfolding sdio_read_cccr_def cccr_read_uhs_def
  by (intro cccr_read_rel io_rel ev.rel_intros io_hold hb.rel_intros io_calm cm.rel_intros)+

lemma sdio_width_rel [io_rel, io_hold, io_calm]:
  "state_io_rel evolves sdio_enable_wide" "state_io_rel holds_balanced sdio_enable_wide"
  "state_io_rel calm sdio_enable_wide"
  "state_io_rel evolves sdio_disable_cd" "state_io_rel holds_balanced sdio_disable_cd"
  "state_io_rel calm sdio_disable_cd"
  "state_io_rel evolves sdio_enable_4bit_bus" "state_io_rel holds_balanced sdio_enable_4bit_bus"
  "state_io_rel calm sdio_enable_4bit_bus"
  unfolding sdio_enable_4bit_bus_def sdio_disable_cd_def sdio_enable_wide_def
  by (intro io_rel ev.rel_intros quiet_evolves io_hold hb.rel_intros quiet_hold io_calm cm.rel_intros)+

lemma switch_hs_rel [io_rel, io_hold, io_calm]:
  "state_io_rel evolves (mmc_sdio_switch_hs b)" "state_io_rel holds_balanced (mmc_sdio_switch_hs b)" "state_io_rel calm (mmc_sdio_switch_hs b)"
  unfolding mmc_sdio_switch_hs_def
  by (intro io_rel ev.rel_intros quiet_evolves io_hold hb.rel_intros quiet_hold io_calm cm.rel_intros)+

lemma enable_hs_rel [io_rel, io_hold, io_calm]:
  "state_io_rel evolves sdio_enable_hs" "state_io_rel holds_balanced sdio_enable_hs" "state_io_rel calm sdio_enable_hs"
  unfolding sdio_enable_hs_def
  by (intro io_rel ev.rel_intros quiet_evolves io_hold hb.rel_intros quiet_hold io_calm cm.rel_intros)+

lemma sdio_driver_type_rel [io_rel, io_hold, io_calm]:
  "state_io_rel evolves sdio_select_driver_type" "state_io_rel holds_balanced sdio_select_driver_type" "state_io_rel calm sdio_select_driver_type"
  unfolding sdio_select_driver_type_def Let_def
  by (intro io_rel ev.rel_intros quiet_evolves io_hold hb.rel_intros quiet_hold io_calm cm.rel_intros)+

lemma sdio_bus_speed_rel [io_rel, io_hold, io_calm]:
  "state_io_rel evolves sdio_set_bus_speed_mode" "state_io_rel holds_balanced sdio_set_bus_speed_mode" "state_io_rel calm sdio_set_bus_speed_mode"
  unfolding sdio_set_bus_speed_mode_def
  by (intro io_rel ev.rel_intros quiet_evolves io_hold hb.rel_intros quiet_hold io_calm cm.rel_intros)+

lemma sdio_uhs_rel [io_rel, io_hold, io_calm]:
  "state_io_rel evolves mmc_sdio_init_uhs_card" "state_io_rel holds_balanced mmc_sdio_init_uhs_card" "state_io_rel calm mmc_sdio_init_uhs_card"
  unfolding mmc_sdio_init_uhs_card_def
  by (intro io_rel ev.rel_intros quiet_evolves io_hold hb.rel_intros quiet_hold io_calm cm.rel_intros)+

lemma drop_card_rel [io_rel, io_hold, io_calm]:
  "state_io_rel evolves (drop_card c)" "state_io_rel holds_balanced (drop_card c)" "state_io_rel calm (drop_card c)"
  unfolding drop_card_def
  by (intro io_rel ev.rel_intros ev.rel_modify io_hold hb.rel_intros hb.rel_modify io_calm cm.rel_intros;
      simp add: silent_defs hold_defs)+

lemma sdio_object_rel [io_rel, io_hold, io_calm]:
  "state_io_rel evolves new_card" "state_io_rel holds_balanced new_card" "state_io_rel calm new_card"
  "state_io_rel evolves (mmc_sdio_resend_if_cond c)" "state_io_rel holds_balanced (mmc_sdio_resend_if_cond c)"
  "state_io_rel calm (mmc_sdio_resend_if_cond c)"
  "state_io_rel evolves (sdio_init_hook c)" "state_io_rel holds_balanced (sdio_init_hook c)"
  "state_io_rel calm (sdio_init_hook c)"
  "state_io_rel evolves (select_new_card c)" "state_io_rel holds_balanced (select_new_card c)"
  "state_io_rel calm (select_new_card c)"
  "state_io_rel evolves (sdio_address_card b p c)" "state_io_rel holds_balanced (sdio_address_card b p c)"
  "state_io_rel calm (sdio_address_card b p c)"
  unfolding new_card_def mmc_sdio_resend_if_cond_def sdio_init_hook_def
    sdio_address_card_def select_new_card_def
  by (intro io_rel ev.rel_intros quiet_evolves io_hold hb.rel_intros quiet_hold io_calm cm.rel_intros)+

lemma sdio_type_rel [io_rel, io_hold, io_calm]:
  "state_io_rel evolves (sdio_card_type n ocr rocr b c)" "state_io_rel holds_balanced (sdio_card_type n ocr rocr b c)"
  "state_io_rel calm (sdio_card_type n ocr rocr b c)"
  unfolding sdio_card_type_def mmc_sd_get_cid_def
  by (intro io_rel ev.rel_intros io_hold hb.rel_intros io_calm cm.rel_intros)+

lemma sdio_set_up_rel [io_rel, io_hold, io_calm]:
  "state_io_rel evolves (sdio_set_up oc ocr b)" "state_io_rel holds_balanced (sdio_set_up oc ocr b)"
  "state_io_rel calm (sdio_set_up oc ocr b)"
  unfolding sdio_set_up_def
  by (intro io_rel ev.rel_intros quiet_evolves io_hold hb.rel_intros quiet_hold io_calm cm.rel_intros)+

section \<open>Claim and handler\<close>

text \<open>The result with which a pass ends the initialisation.\<close>

definition try_result :: "sdio_try option \<Rightarrow> int option" where
  "try_result r = (case r of Some (Try_Done err) \<Rightarrow> Some err | _ \<Rightarrow> None)"

definition try_ends :: "sdio_try option io \<Rightarrow> bool" where
  "try_ends m \<longleftrightarrow> initialises (do { r \<leftarrow> m; ret (try_result r) })"

lemma try_ret: "try_result r \<noteq> Some 0 \<Longrightarrow> try_ends (ret r)"
  by (simp add: try_ends_def initialises_ret)

lemma try_bind: "state_io_rel calm m \<Longrightarrow> (\<And>x. try_ends (f x)) \<Longrightarrow> try_ends (m \<bind> f)"
  unfolding try_ends_def State_Monad.bind_assoc by (rule initialises_bind)

lemma try_cases:
  "(b \<Longrightarrow> try_ends m) \<Longrightarrow> (\<not> b \<Longrightarrow> try_ends n) \<Longrightarrow> try_ends (if b then m else n)"
  "(x = None \<Longrightarrow> try_ends m) \<Longrightarrow> (\<And>y. x = Some y \<Longrightarrow> try_ends (f y)) \<Longrightarrow>
    try_ends (case x of None \<Rightarrow> m | Some y \<Rightarrow> f y)"
  "(\<And>a c. p = (a, c) \<Longrightarrow> try_ends (g a c)) \<Longrightarrow> try_ends (case p of (a, c) \<Rightarrow> g a c)"
  "(\<And>a. s = Inl a \<Longrightarrow> a \<noteq> 0 \<Longrightarrow> try_ends (h a)) \<Longrightarrow> (\<And>c. s = Inr c \<Longrightarrow> try_ends (k c)) \<Longrightarrow>
    s \<noteq> Inl (0 :: int) \<Longrightarrow> try_ends (case s of Inl a \<Rightarrow> h a | Inr c \<Rightarrow> k c)"
  by (auto split: option.split prod.split sum.split)

lemma try_finish: "try_ends (sdio_finish False)"
proof -
  have "(do { r \<leftarrow> sdio_finish False; ret (try_result r) })
      = (do { modify (upd_host (\<lambda>h. h\<lparr>h_card := True\<rparr>)); ret (Some 0) })"
    by (simp add: sdio_finish_def try_result_def io_when_def)
  then show ?thesis by (simp add: try_ends_def initialises_done)
qed

lemma try_fail: "err \<noteq> 0 \<Longrightarrow> try_ends (sdio_fail b c err)"
  unfolding sdio_fail_def by (intro try_bind try_ret io_calm cm.rel_intros) (simp add: try_result_def)

lemmas try_intros = try_finish try_fail try_cases try_ret try_bind

lemma bring_up_ends: "try_ends (sdio_bring_up oc ocr False p c)"
  unfolding sdio_bring_up_def Let_def
  by (intro try_intros io_calm cm.rel_intros | simp add: try_result_def)+

lemma try_new_card:
  "(\<And>c. try_ends (k c)) \<Longrightarrow>
    try_ends (new_card \<bind> (\<lambda>a. case a of Inl err \<Rightarrow> ret (Some (Try_Done err)) | Inr c \<Rightarrow> k c))"
  unfolding new_card_def State_Monad.bind_assoc bind_left_identity
  by (intro try_bind cm.rel_intros io_calm; simp add: try_ret try_result_def split: if_splits)

lemma init_try_ends: "try_ends (sdio_init_try n oc ocr False p)"
  unfolding sdio_init_try_def Let_def
  by (intro bring_up_ends try_new_card try_intros io_calm cm.rel_intros | simp add: try_result_def)+

text \<open>Without 1.8 V in \<open>ocr\<close> a pass does not start over.\<close>

lemma initialises_try:
  assumes "try_ends m" and "\<And>ocr. initialises (f ocr)" and "\<And>ocr. initialises (g ocr)"
  shows "initialises (do { r \<leftarrow> m; (case r of None \<Rightarrow> ret None | Some (Try_Done err) \<Rightarrow> ret (Some err)
    | Some (Try_Again ocr) \<Rightarrow> f ocr | Some (Try_Last ocr) \<Rightarrow> g ocr) })"
  unfolding initialises_def
proof (intro allI impI)
  fix w r v
  assume run: "run_state (do { r \<leftarrow> m; (case r of None \<Rightarrow> ret None | Some (Try_Done err) \<Rightarrow> ret (Some err)
    | Some (Try_Again ocr) \<Rightarrow> f ocr | Some (Try_Last ocr) \<Rightarrow> g ocr) }) w = (r, v)"
  obtain x u where x: "run_state m w = (x, u)" by fastforce
  then have u: "initialised (try_result x) w u"
    by (intro initialises_run [OF assms(1) [unfolded try_ends_def]]) simp
  show "initialised r w v"
  proof (cases x)
    case None
    with run x u show ?thesis by (simp add: try_result_def)
  next
    case (Some t)
    with run x u initialises_run [OF assms(2)] initialises_run [OF assms(3)]
    show ?thesis by (cases t) (force simp: try_result_def initialised_def)+
  qed
qed

lemma init_tries_initialises: "initialises (sdio_init_tries k n oc ocr False p)"
proof (induction k arbitrary: ocr)
  case 0
  show ?case
    using init_try_ends [of n oc "ocr AND NOT R4_18V_PRESENT" p] unfolding try_ends_def
    by (simp add: try_result_def)
next
  case (Suc k)
  have "initialises (sdio_init_tries 0 n oc o' False p)" for o'
    using init_try_ends [of n oc "o' AND NOT R4_18V_PRESENT" p] unfolding try_ends_def
    by (simp add: try_result_def)
  then show ?case
    unfolding sdio_init_tries.simps(2) by (intro initialises_try init_try_ends Suc.IH)
qed

lemma sdio_init_card_initialises: "initialises (mmc_sdio_init_card n ocr False p)"
  unfolding mmc_sdio_init_card_def
  by (intro initialises_bind init_tries_initialises cm.rel_intros)

section \<open>The passes end\<close>

lemma ends_read_cis: "ends (sdio_read_common_cis c)"
proof -
  have "fst (run_state (sdio_read_common_cis c) w) \<noteq> None" for w
  proof -
    obtain r v where r: "run_state (sdio_read_cis (c, None)) w = (r, v)" by fastforce
    with never_badD [OF read_cis_safe, of "(c, None)" w v] have "r \<noteq> None" by auto
    with r show ?thesis by (auto simp: sdio_read_common_cis_def)
  qed
  then show ?thesis by (simp add: ends_def)
qed

text \<open>What does not end in None does so after any continuation that keeps a result.\<close>

lemma ends_bind_keep:
  assumes "ends m" and "state_io_rel evolves m" and "\<And>x. ends (f (Some x))"
  shows "ends (m \<bind> f)"
  unfolding ends_def
proof (intro allI impI)
  fix w assume ops: "s18_on_request (w_ops w)"
  obtain r v where run: "run_state m w = (r, v)" by fastforce
  have "w_ops v = w_ops w" using assms(2) run by (intro evolves_ops ev.rel_run)
  moreover obtain x where "r = Some x" using assms(1) ops run unfolding ends_def by fastforce
  ultimately show "fst (run_state (m \<bind> f) w) \<noteq> None" using assms(3) [of x] ops run by (simp add: ends_def)
qed

lemma card_type_ends:
  assumes "11 \<le> n"
  shows "ends (sdio_card_type n ocr rocr b c)"
  unfolding sdio_card_type_def
proof (rule ends_bind_keep)
  let ?m = "if rocr AND R4_MEMORY_PRESENT \<noteq> 0
      then mmc_sd_get_cid n (ocr AND rocr) False \<bind>
        (\<lambda>r. ret (map_option (\<lambda>(err, _, cid). if err = 0 then Some cid else None) r))
      else ret (Some None)"
  have cid: "state_io_rel evolves (mmc_sd_get_cid n ocr b)" for ocr b
    by (simp add: mmc_sd_get_cid_def sd_cid_rounds_rel)
  show "ends ?m"
    by (intro ends_cases ends_ret ends_bind_keep [OF sd_get_cid_ends [OF assms] cid]) (simp add: ends_ret)
  show "state_io_rel evolves ?m" by (intro ev.rel_intros cid)
qed (auto intro!: ends_bind ev.rel_intros simp: ends_ret split: option.split)

lemma bring_up_returns: "ends (sdio_bring_up oc ocr b p c)"
  unfolding sdio_bring_up_def sdio_fail_def sdio_finish_def Let_def
  by (intro ends_bind_option [OF ends_read_cis read_cis_rel(4)] ends_intros io_rel ev.rel_intros quiet_evolves)+

lemma new_card_sum: "ends (new_card \<bind> (\<lambda>a. case a of Inl err \<Rightarrow> ret (Some (x err)) | Inr c \<Rightarrow> k c))"
  if "\<And>c. ends (k c)"
  using that by (intro ends_intros sdio_object_rel)

lemma init_try_returns: "11 \<le> n \<Longrightarrow> ends (sdio_init_try n oc ocr b p)"
  unfolding sdio_init_try_def Let_def
  by (intro ends_bind_option [OF card_type_ends sdio_type_rel(1)] bring_up_returns ends_intros io_rel
      ev.rel_intros quiet_evolves | assumption)+

text \<open>Without 1.8 V a pass does not start over.\<close>

definition no_retry :: "sdio_try option io \<Rightarrow> bool" where
  "no_retry m \<longleftrightarrow> (\<forall>w ocr. fst (run_state m w) \<noteq> Some (Try_Again ocr) \<and> fst (run_state m w) \<noteq> Some (Try_Last ocr))"

lemma no_retry_intros:
  "no_retry (ret None)" "no_retry (ret (Some (Try_Done err)))"
  "(b \<Longrightarrow> no_retry m) \<Longrightarrow> (\<not> b \<Longrightarrow> no_retry n) \<Longrightarrow> no_retry (if b then m else n)"
  "(x = None \<Longrightarrow> no_retry m) \<Longrightarrow> (\<And>y. x = Some y \<Longrightarrow> no_retry (f y)) \<Longrightarrow>
    no_retry (case x of None \<Rightarrow> m | Some y \<Rightarrow> f y)"
  "(\<And>a c. q = (a, c) \<Longrightarrow> no_retry (g a c)) \<Longrightarrow> no_retry (case q of (a, c) \<Rightarrow> g a c)"
  "(\<And>a. s = Inl a \<Longrightarrow> no_retry (h a)) \<Longrightarrow> (\<And>c. s = Inr c \<Longrightarrow> no_retry (k c)) \<Longrightarrow>
    no_retry (case s of Inl a \<Rightarrow> h a | Inr c \<Rightarrow> k c)"
  "(\<And>x. no_retry (l x)) \<Longrightarrow> no_retry (r \<bind> l)"
  by (auto simp: no_retry_def split: option.split prod.split sum.split)

lemma bring_up_no_retry: "ocr AND R4_18V_PRESENT = 0 \<Longrightarrow> no_retry (sdio_bring_up oc ocr b p c)"
  unfolding sdio_bring_up_def sdio_fail_def sdio_finish_def Let_def
  by (intro no_retry_intros) simp_all

lemma no_18V: "(ocr AND - 16777217) AND 16777216 = (0 :: u32)"
proof -
  have "(ocr AND NOT 16777216) AND 16777216 = (0 :: u32)" by (rule bit_word_eqI) (auto simp: bit_simps)
  then show ?thesis by simp
qed

text \<open>The switch to 1.8 V is skipped.\<close>

lemma no_retry_skip:
  "rocr AND ocr AND R4_18V_PRESENT = (0 :: u32) \<Longrightarrow> no_retry (f 0) \<Longrightarrow>
    no_retry ((if \<not> p \<and> rocr AND ocr AND R4_18V_PRESENT \<noteq> 0 then m else ret (0 :: int)) \<bind> f)"
  by simp

lemma init_try_no_retry: "no_retry (sdio_init_try n oc (ocr AND NOT R4_18V_PRESENT) b p)"
  unfolding sdio_init_try_def Let_def
  by (intro no_retry_skip no_retry_intros bring_up_no_retry) (simp_all add: no_18V)

lemma last_try_returns:
  assumes "11 \<le> n"
  shows "ends (sdio_init_tries 0 n oc ocr b p)"
proof -
  have "\<exists>err. fst (run_state (sdio_init_try n oc (ocr AND NOT R4_18V_PRESENT) b p) w) = Some (Try_Done err)"
    if ops: "s18_on_request (w_ops w)" for w
  proof -
    let ?r = "fst (run_state (sdio_init_try n oc (ocr AND NOT R4_18V_PRESENT) b p) w)"
    obtain t where t: "?r = Some t"
      using init_try_returns [OF assms, of oc "ocr AND NOT R4_18V_PRESENT" b p] ops unfolding ends_def by blast
    with init_try_no_retry [of n oc ocr b p] show ?thesis unfolding no_retry_def by (cases t) metis+
  qed
  then show ?thesis by (fastforce simp: ends_def split_beta)
qed

lemma host_card_evolves:
  "state_io_rel evolves (sdio_finish b)" "state_io_rel holds_balanced (sdio_finish b)"
  "state_io_rel evolves (sdio_fail b c e)" "state_io_rel holds_balanced (sdio_fail b c e)"
  unfolding sdio_finish_def sdio_fail_def
  by (intro io_rel ev.rel_intros io_hold hb.rel_intros)+

lemma bring_up_rel:
  "state_io_rel evolves (sdio_bring_up oc ocr b p c)" "state_io_rel holds_balanced (sdio_bring_up oc ocr b p c)"
  unfolding sdio_bring_up_def Let_def
  by (intro host_card_evolves io_rel ev.rel_intros quiet_evolves io_hold hb.rel_intros quiet_hold)+

lemma init_try_rel:
  "state_io_rel evolves (sdio_init_try n oc ocr b p)" "state_io_rel holds_balanced (sdio_init_try n oc ocr b p)"
  unfolding sdio_init_try_def Let_def
  by (intro bring_up_rel rel_sum io_rel ev.rel_intros quiet_evolves io_hold hb.rel_intros quiet_hold)+

lemma try_rel:
  "(\<And>e. x = Try_Done e \<Longrightarrow> state_io_rel R (f e)) \<Longrightarrow> (\<And>o'. x = Try_Again o' \<Longrightarrow> state_io_rel R (g o')) \<Longrightarrow>
    (\<And>o'. x = Try_Last o' \<Longrightarrow> state_io_rel R (h o')) \<Longrightarrow> state_io_rel R (case_sdio_try f g h x)"
  "(\<And>e. x = Try_Done e \<Longrightarrow> ends (f' e)) \<Longrightarrow> (\<And>o'. x = Try_Again o' \<Longrightarrow> ends (g' o')) \<Longrightarrow>
    (\<And>o'. x = Try_Last o' \<Longrightarrow> ends (h' o')) \<Longrightarrow> ends (case_sdio_try f' g' h' x)"
  by (cases x; simp)+

lemma init_tries_return: "11 \<le> n \<Longrightarrow> ends (sdio_init_tries k n oc ocr b p)"
proof (induction k arbitrary: ocr)
  case 0
  then show ?case by (rule last_try_returns)
next
  case (Suc k)
  show ?case
    unfolding sdio_init_tries.simps(2)
    by (intro ends_bind_option init_try_returns init_try_rel try_rel ends_ret last_try_returns
        Suc.IH Suc.prems)
qed

lemma init_tries_preorder:
  assumes R: "io_preorder R" and try': "\<And>ocr. state_io_rel R (sdio_init_try n oc ocr b p)"
  shows "state_io_rel R (sdio_init_tries k n oc ocr b p)"
proof (induction k arbitrary: ocr)
  case 0
  show ?case unfolding sdio_init_tries.simps by (intro io_preorder.rel_intros [OF R] try')
next
  case (Suc k)
  have "state_io_rel R (sdio_init_tries 0 n oc ocr b p)" for ocr
    unfolding sdio_init_tries.simps by (intro io_preorder.rel_intros [OF R] try')
  then show ?case
    unfolding sdio_init_tries.simps(2) by (intro io_preorder.rel_intros [OF R] try_rel try' Suc.IH)
qed

lemma sdio_init_card_rel [io_rel, io_hold]:
  "state_io_rel evolves (mmc_sdio_init_card n ocr b p)"
  "state_io_rel holds_balanced (mmc_sdio_init_card n ocr b p)"
  unfolding mmc_sdio_init_card_def
  by (intro io_rel ev.rel_intros init_tries_preorder ev.io_preorder_axioms init_try_rel
      io_hold hb.rel_intros hb.io_preorder_axioms)+

lemma sdio_init_card_ends: "11 \<le> n \<Longrightarrow> ends (mmc_sdio_init_card n ocr b p)"
  unfolding mmc_sdio_init_card_def by (intro ends_bind init_tries_return ev.rel_gets)

end
