(* ===== verification/Rescan_Facts.thy ===== *)
theory Rescan_Facts
  imports Rescan Sdio_Init_Facts Mmc_Init_Facts
begin

text \<open>
  What a scan, a stop and the preparation for sleep make of a host: the depth of its claim, its
  bus handler and its card; and that a scan ends.
\<close>

section \<open>Claims, handler, card\<close>

text \<open>The depth of the claim after a sequence of events, None after a release without a claim.\<close>

fun brackets :: "nat \<Rightarrow> mmc_event list \<Rightarrow> nat option" where
  "brackets d [] = Some d"
| "brackets d (EvClaim # evs) = brackets (Suc d) evs"
| "brackets d (EvRelease # evs) = (case d of 0 \<Rightarrow> None | Suc d \<Rightarrow> brackets d evs)"
| "brackets d (_ # evs) = brackets d evs"

lemma brackets_append:
  "brackets d (xs @ ys) = (case brackets d xs of None \<Rightarrow> None | Some e \<Rightarrow> brackets e ys)"
  by (induction d xs rule: brackets.induct) (auto split: nat.split)

lemma brackets_filter: "brackets d (filter claim_event evs) = brackets d evs"
  by (induction d evs rule: brackets.induct) (auto split: nat.split)

definition depth :: "mmc_world \<Rightarrow> nat option" where
  "depth w = brackets 0 (w_trace w)"

lemma depth_claims: "claims v = claims w @ evs \<Longrightarrow>
    depth v = (case depth w of None \<Rightarrow> None | Some d \<Rightarrow> brackets d evs)"
  unfolding depth_def by (metis brackets_append brackets_filter)

definition at_phase :: "mmc_world \<Rightarrow> nat \<Rightarrow> mmc_bus_ops option \<times> u32 \<times> bool \<Rightarrow> bool \<Rightarrow> bool" where
  "at_phase w d hs c \<longleftrightarrow> depth w = Some d \<and> handler (w_host w) = hs \<and> h_card (w_host w) = c"

text \<open>Between its activities a host has its card and one reference to a live handler, or neither.\<close>

definition vacant :: "nat \<Rightarrow> mmc_world \<Rightarrow> bool" where
  "vacant d w \<longleftrightarrow> (\<exists>b. at_phase w d (None, 0, b) False)"

definition occupied :: "nat \<Rightarrow> mmc_bus_ops \<Rightarrow> mmc_world \<Rightarrow> bool" where
  "occupied d ops w \<longleftrightarrow> at_phase w d (Some ops, 1, False) True"

definition at_rest_host :: "nat \<Rightarrow> mmc_world \<Rightarrow> bool" where
  "at_rest_host d w \<longleftrightarrow> vacant d w \<or> (\<exists>ops. occupied d ops w)"

definition kept :: "mmc_world \<Rightarrow> mmc_world \<Rightarrow> bool" where
  "kept w v \<longleftrightarrow> depth v = depth w \<and> handler (w_host v) = handler (w_host w) \<and>
    h_card (w_host v) = h_card (w_host w)"

interpretation kp: io_preorder kept
  by unfold_locales (auto simp: kept_def)

lemma kept_phase: "kept w v \<Longrightarrow> at_phase v d hs c = at_phase w d hs c"
  by (auto simp: kept_def at_phase_def)

lemma calm_kept: "state_io_rel calm m \<Longrightarrow> state_io_rel kept m"
  using depth_claims [where evs = "[]"]
  by (fastforce simp: state_io_rel_def calm_def kept_def split: option.splits)

lemma pm_kept: "state_io_rel kept (pm p)"
  by (simp add: state_io_rel_def kept_def depth_def brackets_append split: option.split)

lemma host_kept:
  "state_io_rel kept (modify (upd_host (\<lambda>h. h\<lparr>h_detect_change := b\<rparr>)))"
  "state_io_rel kept (modify (upd_host (\<lambda>h. h\<lparr>h_f_init := f\<rparr>)))"
  "state_io_rel kept (modify (upd_host (\<lambda>h. h\<lparr>h_rescan_entered := b\<rparr>)))"
  "state_io_rel kept (modify (upd_host (\<lambda>h. h\<lparr>h_rescan_disable := b\<rparr>)))"
  "state_io_rel kept (modify (upd_host (\<lambda>h. h\<lparr>h_trigger_card_event := b\<rparr>)))"
  "state_io_rel kept (modify (upd_host (\<lambda>h. h\<lparr>h_pm_flags := p\<rparr>)))"
  "state_io_rel kept (modify (upd_host (\<lambda>h. h\<lparr>h_f_init := g h, h_rescan_disable := b\<rparr>)))"
  "state_io_rel kept (modify (upd_ios i))"
  by (intro kp.rel_modify; simp add: kept_def depth_def handler_def upd_defs)+

lemma pm_result_kept: "state_io_rel kept (pm_result p)"
  unfolding pm_result_def by (intro kp.rel_intros pm_kept)

lemmas kept_intros = pm_kept pm_result_kept host_kept kp.rel_intros

lemma kept_leaves:
  "state_io_rel kept (emit (EvFuncPm i p) n)" "state_io_rel kept (emit (EvFuncAdd i) n)"
  "state_io_rel kept (emit (EvFuncDel i) n)" "state_io_rel kept (emit (EvScheduleDetect t) n)"
  "state_io_rel kept (emit EvGetCd n)" "state_io_rel kept (emit EvCancelDetect n)"
  "state_io_rel kept (emit EvCardEvent n)" "state_io_rel kept (emit EvRequestCdIrq n)"
  "state_io_rel kept (emit EvDisableCdIrq n)" "state_io_rel kept (emit (EvCdWake b) n)"
  "state_io_rel kept (modify (upd_card f))" "state_io_rel kept mmc_remove_card"
  "state_io_rel kept (mmc_select_card hooks)" "state_io_rel kept (mmc_send_status hooks)"
  "state_io_rel kept mmc_power_off" "state_io_rel kept (mmc_power_up ocr)"
  "state_io_rel kept (mmc_go_idle hooks)" "state_io_rel kept sdio_reset"
  "state_io_rel kept (mmc_send_if_cond ocr)" "state_io_rel kept mmc_pwrseq_reset"
  "state_io_rel kept (emit EvHwReset n)" "state_io_rel kept (mmc_send_io_op_cond ocr)"
  "state_io_rel kept (sdio_free_func_cis f')" "state_io_rel kept (sdio_read_func_cis c f')"
  "state_io_rel kept (mmc_io_rw_direct wr fn a i' o')" "state_io_rel kept (kzalloc n)"
  by (intro calm_kept io_calm; simp)+

lemma detect_kept:
  "state_io_rel kept (detect_change n b)" "state_io_rel kept (mmc_detect_change n)"
  unfolding mmc_detect_change_def detect_change_def by (intro kept_intros kept_leaves)+

lemma removed_kept:
  "state_io_rel kept bus_alive" "state_io_rel kept detect_card_removed"
  "state_io_rel kept mmc_hw_reset_for_init"
  unfolding detect_card_removed_def bus_alive_def mmc_hw_reset_for_init_def
  by (intro kept_intros kept_leaves detect_kept)+

text \<open>Claims and releases, and the handler's references.\<close>

lemma claim_phase [simp]:
  "at_phase (log_event EvClaim n w) (Suc d) hs c = at_phase w d hs c"
  "at_phase w (Suc d) hs c \<Longrightarrow> at_phase (log_event EvRelease n w) d hs c"
  by (auto simp: at_phase_def depth_def brackets_append split: option.splits)

lemma phase_run: "state_io_rel kept m \<Longrightarrow> run_state m w = (x, v) \<Longrightarrow> at_phase w d hs c \<Longrightarrow> at_phase v d hs c"
  using kept_phase kp.rel_run by blast

lemma vacant_run: "state_io_rel kept m \<Longrightarrow> run_state m w = (x, v) \<Longrightarrow> vacant d w \<Longrightarrow> vacant d v"
  unfolding vacant_def by (elim exE, rule exI, rule phase_run)

lemma detach_phase:
  assumes "at_phase w d (Some ops, n, b) c" and "run_state mmc_detach_bus w = (x, v)"
  shows "at_phase v d (if n - 1 = 0 then None else Some ops, n - 1, True) c"
  using assms
  by (auto simp: at_phase_def depth_def mmc_detach_bus_def mmc_bus_put_def mmc_release_bus_def handler_def
      upd_host_def split: if_splits)

lemma bus_get_phase:
  assumes "at_phase w d (ops, n, b) c" and "run_state mmc_bus_get w = (x, v)"
  shows "at_phase v d (ops, n + 1, b) c"
  using assms by (auto simp: at_phase_def depth_def mmc_bus_get_def handler_def upd_host_def)

lemma bus_put_phase:
  assumes "at_phase w d (ops, n, b) c" and "run_state mmc_bus_put w = (x, v)"
  shows "at_phase v d (if n - 1 = 0 then None else ops, n - 1, b) c"
  using assms
  by (auto simp: at_phase_def depth_def mmc_bus_put_def mmc_release_bus_def handler_def upd_host_def
      split: if_splits)

section \<open>Removal and detection\<close>

lemma remove_func_kept: "state_io_rel kept (sdio_remove_func i)"
  unfolding sdio_remove_func_def by (intro kept_intros kept_leaves)

lemma remove_funcs_kept: "state_io_rel kept (sdio_remove_funcs is)"
  by (induction "is") (auto intro!: kept_intros kept_leaves remove_func_kept)

lemma handler_remove_phase:
  assumes "at_phase w d hs c" and "run_state (handler_remove ops) w = (x, v)"
  shows "at_phase v d hs False"
proof (cases "ops = MMC_SDIO_OPS")
  case True
  obtain a where a: "run_state (sdio_remove_funcs [0..<cd_sdio_funcs (w_card w)]) w = ((), a)" by (rule unit_run)
  obtain b where b: "run_state mmc_remove_card a = ((), b)" by (rule unit_run)
  have "at_phase b d hs c"
    by (rule phase_run [OF kept_leaves(12) b phase_run [OF remove_funcs_kept a assms(1)]])
  moreover have "v = upd_host (\<lambda>h. h\<lparr>h_card := False\<rparr>) b"
    using assms(2) a b True by (simp add: handler_remove_def mmc_sdio_remove_def)
  ultimately show ?thesis by (simp add: at_phase_def depth_def handler_def upd_host_def)
next
  case False
  obtain b where b: "run_state mmc_remove_card w = ((), b)" by (rule unit_run)
  have "at_phase b d hs c" by (rule phase_run [OF kept_leaves(12) b assms(1)])
  moreover have "v = upd_host (\<lambda>h. h\<lparr>h_card := False\<rparr>) b"
    using assms(2) b False by (simp add: handler_remove_def bus_remove_def)
  ultimately show ?thesis by (simp add: at_phase_def depth_def handler_def upd_host_def)
qed

lemma drop_handler_phase:
  assumes w: "at_phase w d (Some ops, n, b) c" and run: "run_state (drop_handler ops') w = (x, v)"
  shows "at_phase v d (if n - 1 = 0 then None else Some ops, n - 1, True) False"
proof -
  obtain a where a: "run_state (handler_remove ops') w = ((), a)" by (rule unit_run)
  obtain e where e: "run_state mmc_detach_bus (log_event EvClaim 0 a) = ((), e)" by (rule unit_run)
  obtain f where f: "run_state mmc_power_off e = ((), f)" by (rule unit_run)
  have "at_phase (log_event EvClaim 0 a) (Suc d) (Some ops, n, b) False"
    using handler_remove_phase [OF w a] by simp
  from phase_run [OF kept_leaves(15) f detach_phase [OF this e]]
  show ?thesis using run a e f by (auto simp: drop_handler_def split: if_splits)
qed

text \<open>Detection: the card is there or dropped with the handler.\<close>

lemma bus_detect_split:
  "bus_detect = do { mmc_get_card; err \<leftarrow> detect_card_removed; mmc_put_card; io_when (err \<noteq> 0) (drop_handler MMC_OPS) }"
  by (simp add: bus_detect_def drop_handler_def handler_remove_def)

definition sdio_detect_check :: "int io" where
  "sdio_detect_check = do {
     w \<leftarrow> gets id;
     pm_err \<leftarrow> (if power_off_card w then pm_result PM_GET_SYNC else ret 0);
     if pm_err < 0 then do { pm PM_PUT_NOIDLE; ret pm_err }
     else do {
       claim_host;
       err \<leftarrow> detect_card_removed;
       release_host;
       w \<leftarrow> gets id;
       io_when (power_off_card w) (pm PM_PUT_SYNC);
       ret err
     }
   }"

lemma sdio_detect_split:
  "mmc_sdio_detect = do { err \<leftarrow> sdio_detect_check; io_when (err \<noteq> 0) (drop_handler MMC_SDIO_OPS) }"
  by (simp add: mmc_sdio_detect_def drop_handler_def handler_remove_def sdio_detect_check_def
      if_distrib [where f = "\<lambda>m. State_Monad.bind m _"] cong: if_cong)

text \<open>An operation between a claim and its release.\<close>

lemma claimed_kept:
  assumes m: "state_io_rel kept m" and f: "\<And>x. state_io_rel kept (f x)"
  shows "state_io_rel kept (do { claim_host; x \<leftarrow> m; release_host; f x })"
  unfolding state_io_rel_def
proof
  fix w
  obtain x a where a: "run_state m (log_event EvClaim 0 w) = (x, a)" by fastforce
  have "kept (log_event EvClaim 0 w) a" by (rule kp.rel_run [OF m a])
  then have "kept w (log_event EvRelease 0 a)"
    by (auto simp: kept_def depth_def brackets_append split: option.splits)
  moreover have "kept (log_event EvRelease 0 a) (snd (run_state (f x) (log_event EvRelease 0 a)))"
    using f [of x] by (simp add: state_io_rel_def)
  ultimately show "kept w (snd (run_state (do { claim_host; x \<leftarrow> m; release_host; f x }) w))"
    using a by (simp add: kp.trn)
qed

lemma detect_check_kept:
  "state_io_rel kept sdio_detect_check"
  "state_io_rel kept (do { mmc_get_card; err \<leftarrow> detect_card_removed; mmc_put_card; ret err })"
  unfolding sdio_detect_check_def mmc_get_card_def mmc_put_card_def State_Monad.bind_assoc
  by (intro kept_intros claimed_kept removed_kept)+

lemma handler_detect_phase:
  assumes w: "at_phase w d (Some ops, 2, False) True" and run: "run_state (handler_detect ops) w = (x, v)"
  shows "at_phase v d (Some ops, 2, False) True \<or> at_phase v d (Some ops, 1, True) False"
proof -
  define m where "m = (if ops = MMC_SDIO_OPS then sdio_detect_check
    else do { mmc_get_card; err \<leftarrow> detect_card_removed; mmc_put_card; ret err })"
  define ops' where "ops' = (if ops = MMC_SDIO_OPS then MMC_SDIO_OPS else MMC_OPS)"
  have "handler_detect ops = do { err \<leftarrow> m; io_when (err \<noteq> 0) (drop_handler ops') }"
    by (simp add: handler_detect_def m_def ops'_def sdio_detect_split bus_detect_split)
  moreover obtain e a where a: "run_state m w = (e, a)" by fastforce
  ultimately have v: "run_state (io_when (e \<noteq> 0) (drop_handler ops')) a = (x, v)" using run by simp
  have "state_io_rel kept m" by (simp add: m_def detect_check_kept)
  then have "at_phase a d (Some ops, 2, False) True" using a w by (rule phase_run)
  with v drop_handler_phase [of a d ops 2 False True ops' x v] show ?thesis by (auto split: if_splits)
qed

section \<open>Attachment\<close>

text \<open>An attachment by a claimed host without a card: it is occupied after 0, else as before.\<close>

definition attaches :: "int option io \<Rightarrow> bool" where
  "attaches m \<longleftrightarrow> (\<forall>w r v. vacant (Suc 0) w \<longrightarrow> run_state m w = (Some r, v) \<longrightarrow>
    (if r = 0 then \<exists>ops. occupied (Suc 0) ops v else vacant (Suc 0) v))"

lemma attached_attaches:
  assumes "\<And>w r v. \<not> h_card (w_host w) \<Longrightarrow> run_state m w = (r, v) \<Longrightarrow> attached ops r w v"
  shows "attaches m"
  unfolding attaches_def
proof (intro allI impI)
  fix w r v assume w: "vacant (Suc 0) w" and run: "run_state m w = (Some r, v)"
  have "\<not> h_card (w_host w)" using w by (auto simp: vacant_def at_phase_def)
  from assms [OF this run] have a: "attached ops (Some r) w v" .
  have d: "depth w = Some (Suc 0)" using w by (auto simp: vacant_def at_phase_def)
  have "claims v = claims w \<or> claims v = claims w @ [EvRelease, EvClaim]"
    using a by (cases "r = 0") (auto simp: attached_def)
  then have "depth v = Some (Suc 0)"
    using d depth_claims [of v w "[]"] depth_claims [of v w "[EvRelease, EvClaim]"] by auto
  then show "if r = 0 then \<exists>ops. occupied (Suc 0) ops v else vacant (Suc 0) v"
    using a w by (cases "r = 0") (auto simp: attached_def vacant_def occupied_def at_phase_def)
qed

lemma attach_sd_attaches: "attaches (mmc_attach_sd n)"
  by (rule attached_attaches [OF attach_result])

lemma attach_mmc_attaches: "attaches (do { err \<leftarrow> mmc_attach_mmc; ret (Some err) })"
proof (rule attached_attaches)
  fix w r v assume "\<not> h_card (w_host w)" "run_state (do { err \<leftarrow> mmc_attach_mmc; ret (Some err) }) w = (r, v)"
  moreover obtain e u where "run_state mmc_attach_mmc w = (e, u)" by fastforce
  ultimately show "attached MMC_OPS r w v" using attach_mmc_result [of w e u] by simp
qed

lemma sdio_funcs_kept:
  "state_io_rel kept (sdio_init_func i)" "state_io_rel kept (sdio_add_func i)"
  unfolding sdio_init_func_def sdio_alloc_func_def sdio_read_fbr_def sdio_add_func_def
  by (intro kept_intros kept_leaves rel_sum)+

lemma sdio_funcs_loops_kept:
  "state_io_rel kept (sdio_init_funcs is)" "state_io_rel kept (sdio_add_funcs is)"
  by (induction "is") (auto intro!: kept_intros kept_leaves sdio_funcs_kept)

lemma sdio_prepare_kept: "state_io_rel kept (sdio_prepare_funcs n)"
  unfolding sdio_prepare_funcs_def by (intro kept_intros kept_leaves sdio_funcs_loops_kept)

lemma sdio_register_kept: "state_io_rel kept (sdio_register n)"
proof -
  have "state_io_rel kept mmc_add_card"
    unfolding mmc_add_card_def by (intro kept_intros kept_leaves calm_kept [OF emit_calm]) simp
  then show ?thesis unfolding sdio_register_def by (intro kept_intros kept_leaves sdio_funcs_loops_kept)
qed

lemma sdio_voltage_phase:
  assumes w: "vacant d w" and run: "run_state (attach_sdio_voltage ocr) w = (r, v)"
  shows "at_phase v d (Some MMC_SDIO_OPS, 1, False) False \<and> r \<noteq> Inl 0"
proof -
  define tail where "tail = (do {
     h \<leftarrow> gets w_host;
     io_when (h_ocr_avail_sdio h \<noteq> 0) (modify (upd_host (\<lambda>h. h\<lparr>h_ocr_avail := h_ocr_avail_sdio h\<rparr>)));
     rocr \<leftarrow> mmc_select_voltage ocr;
     ret (if rocr = 0 then Inl (- EINVAL) else Inr rocr)
   } :: (int + u32) io)"
  let ?a = "upd_host (\<lambda>h. h\<lparr>h_bus_ops := Some MMC_SDIO_OPS, h_bus_refs := 1, h_bus_dead := False\<rparr>) w"
  have tail: "run_state tail ?a = (r, v)"
    using run by (simp add: attach_sdio_voltage_def tail_def mmc_attach_bus_def)
  have keep: "state_io_rel kept tail" unfolding tail_def by (intro calm_kept io_calm cm.rel_intros)
  have "at_phase ?a d (Some MMC_SDIO_OPS, 1, False) False"
    using w by (auto simp: vacant_def at_phase_def depth_def handler_def upd_host_def)
  then have "at_phase v d (Some MMC_SDIO_OPS, 1, False) False"
    by (rule phase_run [OF keep tail])
  moreover have "r \<noteq> Inl 0" using tail by (auto simp: tail_def split: prod.splits if_splits)
  ultimately show ?thesis by simp
qed

lemma remove_added_phase:
  assumes w: "at_phase w d (Some ops, 1, False) c" and run: "run_state (sdio_remove_added err) w = (r, v)"
  shows "r = Some err \<and> vacant (Suc d) v"
proof -
  obtain a where a: "run_state mmc_sdio_remove w = ((), a)" by (rule unit_run)
  obtain b where b: "run_state mmc_detach_bus (log_event EvClaim 0 a) = ((), b)" by (rule unit_run)
  have "at_phase (log_event EvClaim 0 a) (Suc d) (Some ops, 1, False) False"
    using handler_remove_phase [OF w, of MMC_SDIO_OPS "()" a] a by (simp add: handler_remove_def)
  from detach_phase [OF this b] run a b show ?thesis by (auto simp: sdio_remove_added_def vacant_def)
qed

text \<open>What follows a successful initialisation.\<close>

definition sdio_attach_funcs :: "nat \<Rightarrow> int option io" where
  "sdio_attach_funcs funcs = do {
     r \<leftarrow> sdio_prepare_funcs funcs;
     (case r of
        None \<Rightarrow> ret None
      | Some err \<Rightarrow>
          if err \<noteq> 0 then do { release_host; sdio_remove_added err }
          else do {
            release_host;
            err \<leftarrow> sdio_register funcs;
            if err \<noteq> 0 then sdio_remove_added err
            else do { claim_host; ret (Some 0) }
          })
   }"

lemma attach_funcs_phase:
  assumes w: "at_phase w (Suc d) (Some MMC_SDIO_OPS, 1, False) True"
    and run: "run_state (sdio_attach_funcs n) w = (Some r, v)"
  shows "if r = 0 then occupied (Suc d) MMC_SDIO_OPS v else vacant (Suc d) v"
proof -
  obtain x a where a: "run_state (sdio_prepare_funcs n) w = (x, a)" by fastforce
  let ?b = "log_event EvRelease 0 a"
  have b: "at_phase ?b d (Some MMC_SDIO_OPS, 1, False) True"
    using phase_run [OF sdio_prepare_kept a w] by simp
  obtain err where x: "x = Some err" using run a by (cases x) (simp_all add: sdio_attach_funcs_def)
  show ?thesis
  proof (cases "err = 0")
    case False
    then have "run_state (sdio_remove_added err) ?b = (Some r, v)"
      using run a x by (simp add: sdio_attach_funcs_def)
    from remove_added_phase [OF b this] False show ?thesis by auto
  next
    case True
    obtain e c where c: "run_state (sdio_register n) ?b = (e, c)" by fastforce
    have pc: "at_phase c d (Some MMC_SDIO_OPS, 1, False) True"
      by (rule phase_run [OF sdio_register_kept c b])
    show ?thesis
    proof (cases "e = 0")
      case True
      with run a x \<open>err = 0\<close> c pc show ?thesis by (auto simp: sdio_attach_funcs_def occupied_def)
    next
      case False
      then have "run_state (sdio_remove_added e) c = (Some r, v)"
        using run a x \<open>err = 0\<close> c by (simp add: sdio_attach_funcs_def)
      from remove_added_phase [OF pc this] False show ?thesis by auto
    qed
  qed
qed

lemma initialised_phase:
  assumes "initialised r w v" and "at_phase w d hs c"
  shows "at_phase v d hs (c \<or> r = Some 0)"
  using assms depth_claims [of v w "[]"] by (auto simp: initialised_def at_phase_def)

lemma attach_sdio_attaches: "attaches (mmc_attach_sdio n)"
  unfolding attaches_def
proof (intro allI impI)
  fix w r v
  assume w: "vacant (Suc 0) w" and run: "run_state (mmc_attach_sdio n) w = (Some r, v)"
  obtain e ocr a where a: "run_state (mmc_send_io_op_cond 0) w = ((e, ocr), a)" by (metis surj_pair)
  have wa: "vacant (Suc 0) a"
    by (rule vacant_run [OF kept_leaves(22) a w])
  show "if r = 0 then \<exists>ops. occupied (Suc 0) ops v else vacant (Suc 0) v"
  proof (cases "e = 0")
    case False
    with run a wa show ?thesis by (auto simp: mmc_attach_sdio_def)
  next
    case True
    obtain x b where b: "run_state (attach_sdio_voltage ocr) a = (x, b)" by fastforce
    note hb = sdio_voltage_phase [OF wa b]
    show ?thesis
    proof (cases x)
      case (Inl err)
      obtain c where c: "run_state mmc_detach_bus b = ((), c)" by (rule unit_run)
      from detach_phase [OF conjunct1 [OF hb] c] run a True b Inl c hb show ?thesis
        by (auto simp: mmc_attach_sdio_def vacant_def)
    next
      case (Inr rocr)
      obtain y c where c: "run_state (mmc_sdio_init_card n rocr False False) b = (y, c)" by fastforce
      have pc: "at_phase c (Suc 0) (Some MMC_SDIO_OPS, 1, False) (y = Some 0)"
        using initialised_phase [OF initialises_run [OF sdio_init_card_initialises c] conjunct1 [OF hb]] by simp
      obtain err where y: "y = Some err"
        using run a True b Inr c by (cases y) (simp_all add: mmc_attach_sdio_def)
      show ?thesis
      proof (cases "err = 0")
        case False
        obtain d where d: "run_state mmc_detach_bus c = ((), d)" by (rule unit_run)
        from detach_phase [OF pc d] run a True b Inr c y False d show ?thesis
          by (auto simp: mmc_attach_sdio_def vacant_def)
      next
        case True
        have "run_state (sdio_attach_funcs (unat (drop_bit 28 (ocr AND 0x70000000)))) c = (Some r, v)"
          using run a \<open>e = 0\<close> b Inr c y True by (simp add: mmc_attach_sdio_def sdio_attach_funcs_def Let_def)
        from attach_funcs_phase [where d = 0, OF _ this] pc y True show ?thesis by auto
      qed
    qed
  qed
qed

section \<open>Scanning\<close>

lemma try_attach_attaches:
  assumes "attaches m" and "attaches next'"
  shows "attaches (try_attach k m next')"
  unfolding attaches_def
proof (intro allI impI)
  fix w r v
  assume w: "vacant (Suc 0) w" and run: "run_state (try_attach k m next') w = (Some r, v)"
  show "if r = 0 then \<exists>ops. occupied (Suc 0) ops v else vacant (Suc 0) v"
  proof (cases "k \<in> h_caps2 (w_host w)")
    case True
    with run w assms(2) show ?thesis by (simp add: try_attach_def attaches_def)
  next
    case False
    obtain x a where a: "run_state m w = (x, a)" by fastforce
    then obtain err where x: "x = Some err" using run False by (cases x) (simp_all add: try_attach_def)
    with a w assms(1) have pa: "if err = 0 then \<exists>ops. occupied (Suc 0) ops a else vacant (Suc 0) a"
      by (simp add: attaches_def)
    show ?thesis
    proof (cases "err = 0")
      case True
      with run a x False pa show ?thesis by (simp add: try_attach_def)
    next
      case err: False
      then have "run_state next' a = (Some r, v)" using run a x False by (simp add: try_attach_def)
      with err pa assms(2) show ?thesis by (simp add: attaches_def)
    qed
  qed
qed

lemma attaches_bind: "state_io_rel kept m \<Longrightarrow> (\<And>x. attaches (f x)) \<Longrightarrow> attaches (m \<bind> f)"
  unfolding attaches_def
proof (intro allI impI)
  fix w r v
  assume m: "state_io_rel kept m" and w: "vacant (Suc 0) w" and run: "run_state (m \<bind> f) w = (Some r, v)"
    and f: "\<And>x. \<forall>w r v. vacant (Suc 0) w \<longrightarrow> run_state (f x) w = (Some r, v) \<longrightarrow>
      (if r = 0 then \<exists>ops. occupied (Suc 0) ops v else vacant (Suc 0) v)"
  obtain x a where a: "run_state m w = (x, a)" by fastforce
  have "vacant (Suc 0) a" by (rule vacant_run [OF m a w])
  with f [of x] run a show "if r = 0 then \<exists>ops. occupied (Suc 0) ops v else vacant (Suc 0) v" by simp
qed

lemma attaches_fail: "err \<noteq> 0 \<Longrightarrow> attaches (ret (Some err))"
  by (simp add: attaches_def)

lemma try_freq_attaches: "attaches (mmc_rescan_try_freq n f)"
  unfolding mmc_rescan_try_freq_def
  by (intro attaches_bind try_attach_attaches attach_sdio_attaches attach_sd_attaches attach_mmc_attaches
      attaches_fail kept_intros kept_leaves removed_kept) simp

lemma get_host [simp]: "run_state (gets w_host) w = (w_host w, w)" "run_state (gets id) w = (w, w)"
  by simp_all

lemma rescan_freqs_phase:
  "vacant (Suc 0) w \<Longrightarrow> run_state (rescan_freqs n fs) w = (Some (), v) \<Longrightarrow> at_rest_host (Suc 0) v"
proof (induction fs arbitrary: w)
  case Nil then show ?case by (simp add: at_rest_host_def)
next
  case (Cons f fs)
  obtain r a where a: "run_state (mmc_rescan_try_freq n (max f (h_f_min (w_host w)))) w = (r, a)" by fastforce
  then obtain err where r: "r = Some err" using Cons.prems(2) by (cases r) simp_all
  have pa: "if err = 0 then \<exists>ops. occupied (Suc 0) ops a else vacant (Suc 0) a"
    using try_freq_attaches [of n "max f (h_f_min (w_host w))"] Cons.prems(1) a r
    unfolding attaches_def by blast
  show ?case
  proof (cases "err = 0 \<or> f \<le> h_f_min (w_host a)")
    case True
    with Cons.prems(2) a r have "v = a" by simp
    with pa show ?thesis by (auto simp: at_rest_host_def split: if_splits)
  next
    case False
    with Cons.prems(2) a r have "run_state (rescan_freqs n fs) a = (Some (), v)" by simp
    with Cons.IH [of a] pa False show ?thesis by simp
  qed
qed

text \<open>The rest between activities is not disturbed by what keeps claim, handler and card.\<close>

lemma rest_run:
  assumes "state_io_rel kept m" and "run_state m w = (x, v)" and "at_rest_host d w"
  shows "at_rest_host d v"
  using assms(3) unfolding at_rest_host_def
proof (elim disjE exE)
  assume "vacant d w"
  from vacant_run [OF assms(1,2) this] show "vacant d v \<or> (\<exists>ops. occupied d ops v)" ..
next
  fix ops assume "occupied d ops w"
  then have "occupied d ops v" unfolding occupied_def by (rule phase_run [OF assms(1,2)])
  then show "vacant d v \<or> (\<exists>ops. occupied d ops v)" by blast
qed

end
