(* ===== verification/Rescan_Steps.thy ===== *)
theory Rescan_Steps
  imports Rescan_Facts
begin

text \<open>
  The activities of a host that start and end at rest: the scan, the start and the stop of the
  host, and the preparation for sleep.
\<close>

section \<open>The parts of a scan\<close>

lemma vacant_get:
  assumes "vacant d w" and "run_state mmc_bus_get w = (x, v)"
  obtains b where "at_phase v d (None, 1, b) False"
  using assms bus_get_phase [of w d None 0 _ False x v] by (auto simp: vacant_def)

lemma occupied_get:
  assumes "occupied d ops w" and "run_state mmc_bus_get w = (x, v)"
  shows "at_phase v d (Some ops, 2, False) True"
  using assms bus_get_phase [of w d "Some ops" 1 False True x v] by (simp add: occupied_def)

text \<open>The states between \<open>mmc_bus_get\<close> and \<open>mmc_bus_put\<close>.\<close>

definition busy_host :: "nat \<Rightarrow> mmc_world \<Rightarrow> bool" where
  "busy_host d w \<longleftrightarrow> (\<exists>b. at_phase w d (None, 1, b) False) \<or> (\<exists>ops. at_phase w d (Some ops, 2, False) True) \<or>
    (\<exists>ops. at_phase w d (Some ops, 1, True) False)"

lemma busy_run: "state_io_rel kept m \<Longrightarrow> run_state m w = (x, v) \<Longrightarrow> busy_host d w \<Longrightarrow> busy_host d v"
  unfolding busy_host_def by (elim disjE exE) (drule (2) phase_run, blast)+

lemma rest_get:
  assumes "at_rest_host d w" and "run_state mmc_bus_get w = (x, v)"
  shows "busy_host d v"
  using assms(1) unfolding at_rest_host_def
proof (elim disjE exE)
  assume "vacant d w"
  then show ?thesis using vacant_get [OF _ assms(2)] unfolding busy_host_def by blast
next
  fix ops assume "occupied d ops w"
  from occupied_get [OF this assms(2)] show ?thesis unfolding busy_host_def by blast
qed

lemma busy_put:
  assumes "busy_host d w" and "run_state mmc_bus_put w = (x, v)"
  shows "at_rest_host d v"
  using assms(1) unfolding busy_host_def
proof (elim disjE exE)
  fix b assume "at_phase w d (None, 1, b) False"
  from bus_put_phase [OF this assms(2)] show ?thesis by (auto simp: at_rest_host_def vacant_def)
next
  fix ops assume "at_phase w d (Some ops, 2, False) True"
  from bus_put_phase [OF this assms(2)] show ?thesis by (auto simp: at_rest_host_def occupied_def)
next
  fix ops assume "at_phase w d (Some ops, 1, True) False"
  from bus_put_phase [OF this assms(2)] show ?thesis by (auto simp: at_rest_host_def vacant_def)
qed

text \<open>A reference taken and given back leaves host and trace as they were.\<close>

lemma card_event_kept: "state_io_rel kept (do {
       claim_host;
       emit EvCardEvent 0;
       release_host;
       modify (upd_host (\<lambda>h. h\<lparr>h_trigger_card_event := False\<rparr>))
     })"
  by (rule claimed_kept [OF kept_leaves(7) host_kept(5)])

definition rescan_prepare :: "unit io" where
  "rescan_prepare = do {
     modify (upd_host (\<lambda>h. h\<lparr>h_rescan_entered := True\<rparr>));
     w \<leftarrow> gets id;
     io_when (h_trigger_card_event (w_host w) \<and> op_card_event (w_ops w)) (do {
       claim_host;
       emit EvCardEvent 0;
       release_host;
       modify (upd_host (\<lambda>h. h\<lparr>h_trigger_card_event := False\<rparr>))
     })
   }"

definition rescan_check :: "unit io" where
  "rescan_check = do {
     h \<leftarrow> gets w_host;
     (case h_bus_ops h of
        None \<Rightarrow> ret ()
      | Some ops \<Rightarrow> io_when (\<not> h_bus_dead h \<and> card_is_removable h) (handler_detect ops))
   }"

lemma rescan_detect_split: "rescan_detect = do {
    rescan_prepare; mmc_bus_get; rescan_check;
    modify (upd_host (\<lambda>h. h\<lparr>h_detect_change := False\<rparr>)); mmc_bus_put }"
  by (simp add: rescan_detect_def rescan_prepare_def rescan_check_def State_Monad.bind_assoc)

lemma rescan_prepare_kept: "state_io_rel kept rescan_prepare"
  unfolding rescan_prepare_def by (intro kept_intros card_event_kept)

lemma rescan_check_busy:
  assumes "run_state mmc_bus_get u = (y, w)" and u: "at_rest_host d u"
    and run: "run_state rescan_check w = (x, v)"
  shows "busy_host d v"
proof -
  show ?thesis using u unfolding at_rest_host_def
  proof (elim disjE exE)
    assume "vacant d u"
    then obtain b where b: "at_phase w d (None, 1, b) False" by (rule vacant_get [OF _ assms(1)])
    then have "h_bus_ops (w_host w) = None" by (simp add: at_phase_def handler_def)
    with run have "v = w" by (simp add: rescan_check_def)
    with b show ?thesis unfolding busy_host_def by blast
  next
    fix ops assume "occupied d ops u"
    from occupied_get [OF this assms(1)] have w: "at_phase w d (Some ops, 2, False) True" .
    then have h: "h_bus_ops (w_host w) = Some ops" "\<not> h_bus_dead (w_host w)"
      by (simp_all add: at_phase_def handler_def)
    show ?thesis
    proof (cases "card_is_removable (w_host w)")
      case True
      with run h have "run_state (handler_detect ops) w = (x, v)" by (simp add: rescan_check_def)
      from handler_detect_phase [OF w this] show ?thesis unfolding busy_host_def by blast
    next
      case False
      with run h have "v = w" by (simp add: rescan_check_def)
      with w show ?thesis unfolding busy_host_def by blast
    qed
  qed
qed

lemma rescan_detect_rests:
  assumes w: "at_rest_host d w" and run: "run_state rescan_detect w = (x, v)"
  shows "at_rest_host d v"
proof -
  obtain a where a: "run_state rescan_prepare w = ((), a)" by (rule unit_run)
  obtain b where b: "run_state mmc_bus_get a = ((), b)" by (rule unit_run)
  obtain c where c: "run_state rescan_check b = ((), c)" by (rule unit_run)
  let ?e = "upd_host (\<lambda>h. h\<lparr>h_detect_change := False\<rparr>) c"
  have "at_rest_host d a" by (rule rest_run [OF rescan_prepare_kept a w])
  then have "busy_host d c" by (rule rescan_check_busy [OF b _ c])
  then have "busy_host d ?e" by (rule busy_run [OF host_kept(1), rotated]) simp
  moreover have "run_state mmc_bus_put ?e = (x, v)" using run a b c by (simp add: rescan_detect_split)
  ultimately show ?thesis by (rule busy_put)
qed

lemma no_card_kept: "state_io_rel kept (case op_get_cd (w_ops w) of
        None \<Rightarrow> ret False
      | Some get_cd \<Rightarrow>
          if card_is_removable (w_host w) then do { emit EvGetCd 0; ret (get_cd (w_trace w) = 0) }
          else ret False)"
  by (intro kept_intros kept_leaves)

lemma rest_release:
  "at_rest_host (Suc d) w \<Longrightarrow> at_rest_host d (log_event EvRelease n w)"
  unfolding at_rest_host_def vacant_def occupied_def using claim_phase(2) by blast

lemma rescan_scan_rests:
  assumes w: "vacant 0 w" and run: "run_state (rescan_scan n) w = (Some (), v)"
  shows "at_rest_host 0 v"
proof -
  let ?w = "log_event EvClaim 0 w"
  let ?cd = "case op_get_cd (w_ops ?w) of
        None \<Rightarrow> ret False
      | Some get_cd \<Rightarrow>
          if card_is_removable (w_host ?w) then do { emit EvGetCd 0; ret (get_cd (w_trace ?w) = 0) }
          else ret False"
  obtain b a where a: "run_state ?cd ?w = (b, a)" by fastforce
  have pw: "vacant (Suc 0) ?w" using w unfolding vacant_def by simp
  have pa: "vacant (Suc 0) a" by (rule vacant_run [OF no_card_kept a pw])
  define m where "m = (if b then do { mmc_power_off; ret (Some ()) } else rescan_freqs n freqs)"
  obtain r c where c: "run_state m a = (r, c)" by fastforce
  have "run_state (rescan_scan n) w = run_state (do { r \<leftarrow> m; (case r of None \<Rightarrow> ret None
      | Some _ \<Rightarrow> do { release_host; ret (Some ()) }) }) a"
    using a by (simp add: rescan_scan_def m_def)
  then have r: "r = Some ()" "v = log_event EvRelease 0 c"
    using run c by (auto split: option.splits)
  have "at_rest_host (Suc 0) c"
  proof (cases b)
    case True
    obtain e where e: "run_state mmc_power_off a = ((), e)" by (rule unit_run)
    from True c e have "c = e" by (simp add: m_def)
    with vacant_run [OF kept_leaves(15) e pa] show ?thesis by (simp add: at_rest_host_def)
  next
    case False
    with c r show ?thesis using rescan_freqs_phase [OF pa, of n freqs c] by (simp add: m_def)
  qed
  with rest_release r(2) show ?thesis by blast
qed

lemma poll_kept: "state_io_rel kept (emit (EvScheduleDetect t) n)"
  by (rule kept_leaves)

lemma rescan_rests:
  assumes w: "at_rest_host 0 w" and run: "run_state (mmc_rescan n) w = (Some (), v)"
  shows "at_rest_host 0 v"
proof (cases "h_rescan_disable (w_host w) \<or> \<not> card_is_removable (w_host w) \<and> h_rescan_entered (w_host w)")
  case True
  then have "run_state (mmc_rescan n) w = (Some (), w)"
    by (cases "h_rescan_disable (w_host w)") (simp_all add: mmc_rescan_def)
  with run w show ?thesis by simp
next
  case False
  obtain a where a: "run_state rescan_detect w = ((), a)" by (rule unit_run)
  obtain b where b: "run_state mmc_bus_get a = ((), b)" by (rule unit_run)
  obtain c where c: "run_state mmc_bus_put b = ((), c)" by (rule unit_run)
  have ra: "at_rest_host 0 a" by (rule rescan_detect_rests [OF w a])
  have rc: "at_rest_host 0 c" by (rule busy_put [OF rest_get [OF ra b] c])
  define m where "m = (if h_bus_ops (w_host b) \<noteq> None then ret (Some ()) else rescan_scan n)"
  obtain r e where e: "run_state m c = (r, e)" by fastforce
  define tail where "tail = (do { w \<leftarrow> gets id;
      io_when (MMC_CAP_NEEDS_POLL \<in> h_caps (w_host w)) (emit (EvScheduleDetect (kn_hz (w_kernel w))) 0);
      ret (Some ()) } :: unit option io)"
  have "run_state (mmc_rescan n) w =
      run_state (do { r \<leftarrow> m; (case r of None \<Rightarrow> ret None | Some _ \<Rightarrow> tail) }) c"
    using False a b c unfolding mmc_rescan_def m_def tail_def [symmetric] by auto
  with run e have r: "r = Some ()" "run_state tail e = (Some (), v)" by (auto split: option.splits)
  have e0: "at_rest_host 0 e"
  proof (cases "h_bus_ops (w_host b) = None")
    case False
    with e have "e = c" by (simp add: m_def)
    with rc show ?thesis by simp
  next
    case True
    with e r have scan: "run_state (rescan_scan n) c = (Some (), e)" by (simp add: m_def)
    have "\<not> occupied 0 ops a" for ops
      using occupied_get [OF _ b, of 0 ops] True by (auto simp: at_phase_def handler_def)
    with ra obtain bd where "at_phase b 0 (None, 1, bd) False"
      using vacant_get [OF _ b, of 0] by (auto simp: at_rest_host_def)
    from bus_put_phase [OF this c] have "vacant 0 c" by (auto simp: vacant_def)
    from rescan_scan_rests [OF this scan] show ?thesis .
  qed
  have "state_io_rel kept tail" unfolding tail_def by (intro kept_intros poll_kept)
  from rest_run [OF this r(2) e0] show ?thesis .
qed

section \<open>Start, stop and preparation for sleep\<close>

lemma power_up_claimed: "state_io_rel kept (do { claim_host; mmc_power_up ocr; release_host })"
  using claimed_kept [OF kept_leaves(16), of "\<lambda>_. ret ()"] by (simp add: kp.rel_intros)

lemma start_kept: "state_io_rel kept mmc_start_host"
  unfolding mmc_start_host_def
  by (intro kept_intros kept_leaves power_up_claimed detect_kept)

lemma power_off_claimed: "state_io_rel kept (do { claim_host; mmc_power_off; release_host })"
  using claimed_kept [OF kept_leaves(15), of "\<lambda>_. ret ()"] by (simp add: kp.rel_intros)

definition stop_prepare :: "unit io" where
  "stop_prepare = do {
     h \<leftarrow> gets w_host;
     io_when (h_cd_irq h \<ge> 0) (do { emit (EvCdWake False) 0; emit EvDisableCdIrq 0 });
     modify (upd_host (\<lambda>h. h\<lparr>h_rescan_disable := True\<rparr>));
     emit EvCancelDetect 0;
     modify (upd_host (\<lambda>h. h\<lparr>h_pm_flags := 0\<rparr>))
   }"

definition stop_handler :: "unit io" where
  "stop_handler = do {
     h \<leftarrow> gets w_host;
     (case (h_bus_ops h, h_bus_dead h) of
        (Some ops, False) \<Rightarrow> do { drop_handler ops; mmc_bus_put }
      | _ \<Rightarrow> do { mmc_bus_put; claim_host; mmc_power_off; release_host })
   }"

lemma stop_split: "mmc_stop_host = do { stop_prepare; mmc_bus_get; stop_handler }"
  by (simp add: mmc_stop_host_def stop_prepare_def stop_handler_def State_Monad.bind_assoc)

lemma stop_prepare_kept: "state_io_rel kept stop_prepare"
  unfolding stop_prepare_def by (intro kept_intros kept_leaves)

lemma stop_vacates:
  assumes w: "at_rest_host d w" and run: "run_state mmc_stop_host w = (x, v)"
  shows "vacant d v"
proof -
  obtain a where a: "run_state stop_prepare w = ((), a)" by (rule unit_run)
  obtain b where b: "run_state mmc_bus_get a = ((), b)" by (rule unit_run)
  have s: "run_state stop_handler b = (x, v)" using run a b by (simp add: stop_split)
  have "at_rest_host d a" by (rule rest_run [OF stop_prepare_kept a w])
  then show ?thesis unfolding at_rest_host_def
  proof (elim disjE exE)
    assume "vacant d a"
    then obtain bd where pb: "at_phase b d (None, 1, bd) False" by (rule vacant_get [OF _ b])
    then have h: "h_bus_ops (w_host b) = None" by (simp add: at_phase_def handler_def)
    obtain c where c: "run_state mmc_bus_put b = ((), c)" by (rule unit_run)
    from bus_put_phase [OF pb c] have pc: "vacant d c" by (auto simp: vacant_def)
    have "run_state (do { claim_host; mmc_power_off; release_host }) c = (x, v)"
      using s c h by (simp add: stop_handler_def)
    then show ?thesis by (rule vacant_run [OF power_off_claimed _ pc])
  next
    fix ops assume "occupied d ops a"
    from occupied_get [OF this b] have pb: "at_phase b d (Some ops, 2, False) True" .
    then have h: "h_bus_ops (w_host b) = Some ops" "\<not> h_bus_dead (w_host b)"
      by (simp_all add: at_phase_def handler_def)
    obtain c where c: "run_state (drop_handler ops) b = ((), c)" by (rule unit_run)
    have "at_phase c d (Some ops, 1, True) False" using drop_handler_phase [OF pb c] by simp
    moreover have "run_state mmc_bus_put c = (x, v)" using s c h by (simp add: stop_handler_def)
    ultimately show ?thesis using bus_put_phase by (fastforce simp: vacant_def)
  qed
qed

lemma pm_prepare_rests:
  assumes w: "at_rest_host d w" and run: "run_state pm_prepare w = (x, v)"
  shows "at_rest_host d v"
proof -
  define m where "m = (do { modify (upd_host (\<lambda>h. h\<lparr>h_rescan_disable := True\<rparr>)); emit EvCancelDetect 0 })"
  obtain a where a: "run_state m w = ((), a)" by (rule unit_run)
  have "state_io_rel kept m" unfolding m_def by (intro kept_intros kept_leaves)
  from rest_run [OF this a w] have ra: "at_rest_host d a" .
  show ?thesis
  proof (cases "h_bus_ops (w_host a) \<noteq> None \<and> handler_pre_suspend (the (h_bus_ops (w_host a))) a \<noteq> 0 \<and>
      card_is_removable (w_host a)")
    case False
    then have "run_state pm_prepare w = ((), a)"
      using a by (cases "h_bus_ops (w_host a)") (auto simp: pm_prepare_def m_def)
    with ra run show ?thesis by simp
  next
    case True
    then obtain ops where ops: "h_bus_ops (w_host a) = Some ops" by blast
    obtain c where c: "run_state (drop_handler ops) a = ((), c)" by (rule unit_run)
    have "v = upd_host (\<lambda>h. h\<lparr>h_pm_flags := 0\<rparr>) c"
      using run a True ops c by (simp add: pm_prepare_def m_def)
    then have v: "run_state (modify (upd_host (\<lambda>h. h\<lparr>h_pm_flags := 0\<rparr>))) c = ((), v)" by simp
    from ra ops obtain ops' where "occupied d ops' a"
      by (auto simp: at_rest_host_def vacant_def at_phase_def handler_def)
    with ops have pa: "at_phase a d (Some ops, 1, False) True"
      by (auto simp: occupied_def at_phase_def handler_def)
    have "vacant d c" using drop_handler_phase [OF pa c] by (auto simp: vacant_def)
    from vacant_run [OF host_kept(6) v this] show ?thesis by (simp add: at_rest_host_def)
  qed
qed

lemma pm_notify_rests:
  assumes w: "at_rest_host d w" and run: "run_state (mmc_pm_notify mode) w = (x, v)"
  shows "at_rest_host d v"
proof (cases "mode \<in> {PM_HIBERNATION_PREPARE, PM_SUSPEND_PREPARE, PM_RESTORE_PREPARE}")
  case True
  then have "run_state pm_prepare w = ((), v)" using run
    by (auto simp: mmc_pm_notify_def split: prod.splits)
  from pm_prepare_rests [OF w this] show ?thesis .
next
  case False
  have "state_io_rel kept (mmc_pm_notify mode)"
    unfolding mmc_pm_notify_def if_not_P [OF False] by (intro kept_intros detect_kept)
  from rest_run [OF this run w] show ?thesis .
qed

section \<open>The life of a host\<close>

text \<open>One activity of the core, run to its end.\<close>

inductive host_step :: "mmc_world \<Rightarrow> mmc_world \<Rightarrow> bool" where
  step_start: "run_state mmc_start_host w = ((), v) \<Longrightarrow> host_step w v"
| step_rescan: "run_state (mmc_rescan n) w = (Some (), v) \<Longrightarrow> host_step w v"
| step_stop: "run_state mmc_stop_host w = ((), v) \<Longrightarrow> host_step w v"
| step_pm: "run_state (mmc_pm_notify mode) w = (r, v) \<Longrightarrow> host_step w v"

inductive host_reach :: "mmc_world \<Rightarrow> mmc_world \<Rightarrow> bool" where
  reach_here: "host_reach w w"
| reach_step: "host_reach w u \<Longrightarrow> host_step u v \<Longrightarrow> host_reach w v"

lemma step_rests: "host_step w v \<Longrightarrow> at_rest_host 0 w \<Longrightarrow> at_rest_host 0 v"
  by (erule host_step.cases)
    (auto intro: rest_run [OF start_kept] rescan_rests pm_notify_rests
      dest: stop_vacates simp: at_rest_host_def [of 0 v])

lemma reach_rests: "host_reach w v \<Longrightarrow> at_rest_host 0 w \<Longrightarrow> at_rest_host 0 v"
  by (induction rule: host_reach.induct) (simp_all add: step_rests)

text \<open>After the stop there is no power either.\<close>

lemma stop_power:
  assumes "run_state mmc_stop_host w = (x, v)"
  shows "ios_power_mode (w_ios v) = MMC_POWER_OFF"
proof -
  have off: "ios_power_mode (w_ios e) = MMC_POWER_OFF" if "run_state mmc_power_off d = ((), e)" for d e
    using power_off_mode [OF that] .
  have drop: "ios_power_mode (w_ios v) = MMC_POWER_OFF" if "run_state (drop_handler ops) w = (x, v)" for ops w x v
    using that off by (auto simp: drop_handler_def split: prod.splits)
  have put: "ios_power_mode (w_ios v) = ios_power_mode (w_ios w)" if "run_state mmc_bus_put w = (x, v)" for w x v
    using that by (auto simp: mmc_bus_put_def mmc_release_bus_def upd_host_def split: if_splits)
  obtain a where a: "run_state stop_prepare w = ((), a)" by (rule unit_run)
  obtain b where b: "run_state mmc_bus_get a = ((), b)" by (rule unit_run)
  have s: "run_state stop_handler b = (x, v)" using assms a b by (simp add: stop_split)
  show ?thesis
  proof (cases "\<exists>ops. h_bus_ops (w_host b) = Some ops \<and> \<not> h_bus_dead (w_host b)")
    case True
    then obtain ops where ops: "h_bus_ops (w_host b) = Some ops" "\<not> h_bus_dead (w_host b)" by blast
    obtain c where c: "run_state (drop_handler ops) b = ((), c)" by (rule unit_run)
    have "run_state mmc_bus_put c = (x, v)" using s c ops by (simp add: stop_handler_def)
    from put [OF this] drop [OF c] show ?thesis by simp
  next
    case False
    obtain c where c: "run_state mmc_bus_put b = ((), c)" by (rule unit_run)
    obtain e where e: "run_state mmc_power_off (log_event EvClaim 0 c) = ((), e)" by (rule unit_run)
    have "v = log_event EvRelease 0 e" using s False c e
      by (cases "h_bus_ops (w_host b)"; cases "h_bus_dead (w_host b)") (auto simp: stop_handler_def)
    with off [OF e] show ?thesis by simp
  qed
qed

end
