(* ===== verification/Rescan_Ends.thy ===== *)
theory Rescan_Ends
  imports Rescan_Facts
begin

text \<open>
  A scan ends: the attachments return with eleven rounds of \<open>mmc_sd_get_cid\<close>, and nothing in a
  scan or a reset exchanges the operations of the controller or its capabilities.
\<close>

section \<open>The operations stay\<close>

definition same_ops :: "mmc_world \<Rightarrow> mmc_world \<Rightarrow> bool" where
  "same_ops w v \<longleftrightarrow> w_ops v = w_ops w \<and> h_caps (w_host v) = h_caps (w_host w) \<and>
    h_caps2 (w_host v) = h_caps2 (w_host w)"

interpretation so: io_preorder same_ops
  by unfold_locales (simp_all add: same_ops_def)

lemma evolves_same: "state_io_rel evolves m \<Longrightarrow> state_io_rel same_ops m"
  by (auto simp: state_io_rel_def same_ops_def evolves_def same_board_def)

lemma emit_same: "state_io_rel same_ops (emit e n)"
  by (rule evolves_same [OF emit_evolves])

lemma host_same:
  "(\<And>h. h_ops (f h) = h_ops h \<and> h_caps (f h) = h_caps h \<and> h_caps2 (f h) = h_caps2 h) \<Longrightarrow>
    state_io_rel same_ops (modify (upd_host f))"
  by (rule so.rel_modify) (simp add: same_ops_def upd_host_def)

lemma card_same: "state_io_rel same_ops (modify (upd_card f))"
  by (rule so.rel_modify) (simp add: same_ops_def upd_card_def)

lemma pm_same: "state_io_rel same_ops (pm p)"
  by (simp add: state_io_rel_def same_ops_def)

lemma claim_same: "state_io_rel same_ops claim_host" "state_io_rel same_ops release_host"
  by (simp_all add: state_io_rel_def same_ops_def)

lemmas same_intros = emit_same card_same pm_same so.rel_intros

lemma bus_same:
  "state_io_rel same_ops mmc_bus_get" "state_io_rel same_ops mmc_bus_put"
  "state_io_rel same_ops (mmc_attach_bus ops)" "state_io_rel same_ops mmc_detach_bus"
  "state_io_rel same_ops bus_remove" "state_io_rel same_ops mmc_add_card"
  unfolding mmc_bus_get_def mmc_bus_put_def mmc_release_bus_def mmc_attach_bus_def mmc_detach_bus_def
    bus_remove_def mmc_add_card_def mmc_remove_card_def
  by (intro same_intros host_same evolves_same io_rel quiet_evolves; simp)+

lemma attach_voltage_same:
  "state_io_rel same_ops (attach_sd_voltage ocr)" "state_io_rel same_ops (attach_mmc_voltage ocr)"
  "state_io_rel same_ops (attach_sdio_voltage ocr)"
  unfolding attach_sd_voltage_def attach_mmc_voltage_def attach_sdio_voltage_def
  by (intro so.rel_intros bus_same host_same evolves_same; (intro io_rel)?; simp)+

text \<open>As \<open>ends_bind\<close>, for operations that keep the controller's operations only.\<close>

lemma ends_then:
  assumes "state_io_rel same_ops m" and "\<And>x. ends (f x)"
  shows "ends (m \<bind> f)"
  unfolding ends_def
proof (intro allI impI)
  fix w assume ops: "s18_on_request (w_ops w)"
  obtain x v where run: "run_state m w = (x, v)" by fastforce
  have "w_ops v = w_ops w" using so.rel_run [OF assms(1) run] by (simp add: same_ops_def)
  then show "fst (run_state (m \<bind> f) w) \<noteq> None" using assms(2) [of x] ops run by (simp add: ends_def)
qed

lemma ends_then_option:
  assumes "ends m" and "state_io_rel same_ops m" and "\<And>x. ends (f x)"
  shows "ends (m \<bind> (\<lambda>r. case r of None \<Rightarrow> ret None | Some x \<Rightarrow> f x))"
  unfolding ends_def
proof (intro allI impI)
  fix w assume ops: "s18_on_request (w_ops w)"
  obtain r v where run: "run_state m w = (r, v)" by fastforce
  have "w_ops v = w_ops w" using so.rel_run [OF assms(2) run] by (simp add: same_ops_def)
  moreover obtain x where "r = Some x" using assms(1) ops run unfolding ends_def by fastforce
  ultimately show "fst (run_state (m \<bind> (\<lambda>r. case r of None \<Rightarrow> ret None | Some x \<Rightarrow> f x)) w) \<noteq> None"
    using assms(3) [of x] ops run by (simp add: ends_def)
qed

section \<open>Attachments end\<close>

lemma never_ends: "(\<And>w. fst (run_state m w) \<noteq> None) \<Longrightarrow> ends m"
  by (simp add: ends_def)

lemma attach_sd_ends: "11 \<le> n \<Longrightarrow> ends (mmc_attach_sd n)"
  unfolding mmc_attach_sd_def Let_def
  by (intro ends_cases ends_ret ends_then_option [OF sd_init_card_ends] ends_then attach_voltage_same bus_same
      claim_same evolves_same io_rel | assumption)+

lemma func_cis_ends: "ends (sdio_read_func_cis c f)"
proof (rule never_ends)
  fix w
  obtain r v where r: "run_state (sdio_read_cis (c, Some f)) w = (r, v)" by fastforce
  with never_badD [OF read_cis_safe, of "(c, Some f)" w v] have "r \<noteq> None" by auto
  with r show "fst (run_state (sdio_read_func_cis c f) w) \<noteq> None"
    by (auto simp: sdio_read_func_cis_def Let_def emit_def split: option.splits)
qed

lemma sdio_alloc_rel:
  "state_io_rel evolves sdio_alloc_func" "state_io_rel evolves (sdio_read_fbr c f)"
  unfolding sdio_alloc_func_def sdio_read_fbr_def by (intro io_rel ev.rel_intros quiet_evolves)+

lemma init_func_ends: "ends (sdio_init_func i)" "state_io_rel evolves (sdio_init_func i)"
proof -
  have read: "ends (if b then do { r \<leftarrow> sdio_read_fbr c f;
        if fst r \<noteq> 0 then ret (Some r) else sdio_read_func_cis c (snd r) }
      else ret (Some x))" for b c f x
    by (intro ends_intros func_cis_ends sdio_alloc_rel)
  have rel: "state_io_rel evolves (if b then do { r \<leftarrow> sdio_read_fbr c f;
        if fst r \<noteq> 0 then ret (Some r) else sdio_read_func_cis c (snd r) }
      else ret (Some x))" for b c f x
    by (intro ev.rel_intros io_rel sdio_alloc_rel)
  show "ends (sdio_init_func i)"
    unfolding sdio_init_func_def Let_def
    by (intro ends_bind_option [OF read rel] ends_intros sdio_alloc_rel ev.rel_intros io_rel quiet_evolves)
  show "state_io_rel evolves (sdio_init_func i)"
    unfolding sdio_init_func_def Let_def
    by (intro ev.rel_intros rel_sum rel sdio_alloc_rel io_rel quiet_evolves)
qed

lemma init_funcs_ends: "ends (sdio_init_funcs is)" "state_io_rel evolves (sdio_init_funcs is)"
proof (induction "is")
  case (Cons i "is")
  case 1
  have "ends (sdio_init_func (i + 1) \<bind> (\<lambda>r. case r of None \<Rightarrow> ret None | Some err \<Rightarrow>
      if err \<noteq> 0 then ret (Some err) else do {
       w \<leftarrow> gets id;
       io_when (power_off_card w) (emit (EvFuncPm i PM_ENABLE) 0);
       modify (upd_card (\<lambda>c. c\<lparr>cd_sdio_funcs := cd_sdio_funcs c + 1\<rparr>));
       sdio_init_funcs is
     }))"
    by (intro ends_bind_option init_func_ends ends_intros ev.rel_intros io_rel quiet_evolves Cons.IH)
  moreover have "(\<lambda>r. case r of None \<Rightarrow> ret None | Some err \<Rightarrow>
      if err \<noteq> 0 then ret (Some err) else m) = (\<lambda>r. if r \<noteq> Some 0 then ret r else m)" for m :: "int option io"
    by (auto split: option.split)
  ultimately show ?case by simp
  case 2
  show ?case by (auto intro!: ev.rel_intros io_rel quiet_evolves init_func_ends Cons.IH)
qed (simp_all add: ends_ret ev.rel_intros)

lemma prepare_funcs_ends:
  "ends (sdio_prepare_funcs n)" "state_io_rel same_ops (sdio_prepare_funcs n)"
  unfolding sdio_prepare_funcs_def pm_result_def
  by (intro ends_cases ends_ret ends_then init_funcs_ends same_intros evolves_same)+

lemma remove_func_same: "state_io_rel same_ops (sdio_remove_func i)"
  unfolding sdio_remove_func_def by (intro same_intros evolves_same io_rel)

lemma remove_funcs_same: "state_io_rel same_ops (sdio_remove_funcs is)"
  by (induction "is") (auto intro!: same_intros remove_func_same)

lemma sdio_remove_same: "state_io_rel same_ops mmc_sdio_remove"
  unfolding mmc_sdio_remove_def mmc_remove_card_def
  by (intro same_intros remove_funcs_same host_same) simp_all

lemma remove_added_ends: "ends (sdio_remove_added err)"
  unfolding sdio_remove_added_def by (intro ends_then ends_ret sdio_remove_same claim_same bus_same)

lemma register_same: "state_io_rel same_ops (sdio_register n)"
proof -
  have "state_io_rel same_ops (sdio_add_funcs is)" for "is"
    by (induction "is") (auto simp: sdio_add_func_def intro!: same_intros)
  then show ?thesis unfolding sdio_register_def by (intro same_intros bus_same)
qed

lemma attach_sdio_ends: "11 \<le> n \<Longrightarrow> ends (mmc_attach_sdio n)"
  unfolding mmc_attach_sdio_def Let_def
  by (intro ends_cases ends_ret ends_then_option [OF sdio_init_card_ends] ends_then_option [OF prepare_funcs_ends]
      ends_then attach_voltage_same bus_same claim_same remove_added_ends register_same evolves_same io_rel
      | assumption)+

lemma attach_same:
  "state_io_rel same_ops (mmc_attach_sd n)" "state_io_rel same_ops mmc_attach_mmc"
  "state_io_rel same_ops (mmc_attach_sdio n)"
  unfolding mmc_attach_sd_def mmc_attach_mmc_def mmc_register_def mmc_attach_sdio_def sdio_remove_added_def Let_def
  by (intro so.rel_intros rel_sum attach_voltage_same bus_same claim_same register_same sdio_remove_same
      prepare_funcs_ends evolves_same; (intro io_rel)?)+

section \<open>Scans end\<close>

lemma try_attach_ends:
  assumes "ends m" and "state_io_rel same_ops m" and "ends next'"
  shows "ends (try_attach k m next')"
  unfolding try_attach_def
  by (intro ends_then so.rel_gets ends_cases ends_then_option [OF assms(1,2)] ends_ret assms(3))

lemma try_attach_same:
  "state_io_rel same_ops m \<Longrightarrow> state_io_rel same_ops next' \<Longrightarrow> state_io_rel same_ops (try_attach k m next')"
  unfolding try_attach_def by (intro so.rel_intros)

lemma attach_mmc_some: "ends (do { err \<leftarrow> mmc_attach_mmc; ret (Some err) })"
  by (intro ends_then attach_same ends_ret)

lemma before_attach_same:
  "state_io_rel same_ops mmc_hw_reset_for_init" "state_io_rel same_ops sdio_reset"
  "state_io_rel same_ops (mmc_go_idle hooks)" "state_io_rel same_ops (mmc_send_if_cond ocr)"
  "state_io_rel same_ops (mmc_power_up ocr)" "state_io_rel same_ops mmc_power_off"
  unfolding mmc_hw_reset_for_init_def
  by (intro evolves_same io_rel ev.rel_intros quiet_evolves)+

lemma try_freq_ends:
  "11 \<le> n \<Longrightarrow> ends (mmc_rescan_try_freq n f)" "state_io_rel same_ops (mmc_rescan_try_freq n f)"
  unfolding mmc_rescan_try_freq_def
  subgoal by (intro ends_then try_attach_ends attach_sdio_ends attach_sd_ends attach_mmc_some attach_same
      before_attach_same so.rel_intros host_same ends_ret; simp)
  subgoal by (intro so.rel_intros try_attach_same attach_same before_attach_same host_same; simp)
  done

lemma rescan_freqs_ends: "11 \<le> n \<Longrightarrow> ends (rescan_freqs n fs)"
proof (induction fs)
  case (Cons f fs)
  then show ?case unfolding rescan_freqs.simps
    by (intro ends_then so.rel_gets ends_then_option [OF try_freq_ends] ends_cases ends_ret)
qed (simp add: ends_ret)

lemma rescan_freqs_same: "state_io_rel same_ops (rescan_freqs n fs)"
  by (induction fs) (auto intro!: so.rel_intros try_freq_ends)

lemma rescan_scan_ends:
  "11 \<le> n \<Longrightarrow> ends (rescan_scan n)" "state_io_rel same_ops (rescan_scan n)"
  unfolding rescan_scan_def
  by (intro ends_then_option ends_then claim_same same_intros ends_cases ends_ret rescan_freqs_ends
      before_attach_same rescan_freqs_same | assumption)+

lemma change_same: "state_io_rel same_ops (mmc_detect_change t)"
  unfolding mmc_detect_change_def detect_change_def by (intro same_intros host_same; simp)

lemma alive_same: "state_io_rel same_ops bus_alive"
  unfolding bus_alive_def by (intro evolves_same io_rel ev.rel_intros)

lemma removed_same: "state_io_rel same_ops detect_card_removed"
  unfolding detect_card_removed_def by (intro same_intros change_same alive_same)

lemma detect_same: "state_io_rel same_ops mmc_get_card" "state_io_rel same_ops mmc_put_card"
  unfolding mmc_get_card_def mmc_put_card_def by (intro claim_same same_intros)+

lemma drop_same: "state_io_rel same_ops (drop_handler ops)"
  unfolding drop_handler_def handler_remove_def
  by (intro same_intros bus_same claim_same before_attach_same sdio_remove_same)

lemma handler_detect_same: "state_io_rel same_ops (handler_detect ops)"
  unfolding handler_detect_def bus_detect_split sdio_detect_split sdio_detect_check_def pm_result_def
  by (intro same_intros drop_same detect_same removed_same claim_same)

lemma rescan_detect_same: "state_io_rel same_ops rescan_detect"
  unfolding rescan_detect_def
  by (intro same_intros host_same claim_same bus_same handler_detect_same; simp)

lemma rescan_ends: "11 \<le> n \<Longrightarrow> ends (mmc_rescan n)"
  unfolding mmc_rescan_def
  by (intro ends_then_option ends_then ends_cases ends_ret rescan_detect_same bus_same
      rescan_scan_ends same_intros | assumption)+

section \<open>Resets end\<close>

lemma reset_same:
  "state_io_rel same_ops card_hw_reset" "state_io_rel same_ops (mmc_sd_hw_reset n)"
  "state_io_rel same_ops (mmc_sdio_hw_reset n)"
  unfolding card_hw_reset_def mmc_sd_hw_reset_def mmc_sdio_hw_reset_def mmc_sdio_power_restore_def
    mmc_sdio_reinit_card_def
  by (intro same_intros host_same claim_same evolves_same; (intro io_rel)?; simp)+

lemma sdio_reset_ends: "11 \<le> n \<Longrightarrow> ends (mmc_sdio_hw_reset n)"
proof -
  assume n: "11 \<le> n"
  have reinit: "ends (mmc_sdio_reinit_card n b)" "state_io_rel same_ops (mmc_sdio_reinit_card n b)" for b
    unfolding mmc_sdio_reinit_card_def
    by (intro ends_then ends_cases ends_ret sdio_init_card_ends [OF n] same_intros evolves_same io_rel)+
  show ?thesis unfolding mmc_sdio_hw_reset_def mmc_sdio_power_restore_def
    by (intro ends_then_option [OF reinit] ends_then ends_ret claim_same same_intros host_same
        evolves_same; (intro io_rel)?; simp)
qed

lemma handler_reset:
  "state_io_rel same_ops (handler_hw_reset n ops)"
  by (cases ops) (simp_all add: handler_hw_reset_def reset_same so.rel_intros)

lemma handler_reset_ends:
  assumes "11 \<le> n"
  shows "ends (handler_hw_reset n ops)"
proof (cases ops)
  case MMC_OPS
  then show ?thesis unfolding handler_hw_reset_def by (simp add: ends_then reset_same ends_ret)
next
  case MMC_SD_OPS
  have "ends (mmc_sd_hw_reset n)" unfolding mmc_sd_hw_reset_def
    by (intro ends_then sd_init_card_ends [OF assms] so.rel_gets evolves_same io_rel)
  with MMC_SD_OPS show ?thesis by (simp add: handler_hw_reset_def)
next
  case MMC_SDIO_OPS
  with sdio_reset_ends [OF assms] show ?thesis by (simp add: handler_hw_reset_def)
qed

lemma try_handler:
  assumes "state_io_rel same_ops m" and "\<And>ops. state_io_rel same_ops (f ops)"
  shows "state_io_rel same_ops (case (x, b) of (Some ops, False) \<Rightarrow> f ops | _ \<Rightarrow> m)"
  using assms by (cases x; cases b) auto

lemma try_handler_ends:
  "ends m \<Longrightarrow> (\<And>ops. ends (f ops)) \<Longrightarrow> ends (case (x, b) of (Some ops, False) \<Rightarrow> f ops | _ \<Rightarrow> m)"
  by (cases x; cases b) auto

lemma hw_reset_same: "state_io_rel same_ops (mmc_hw_reset n)"
  unfolding mmc_hw_reset_def by (intro so.rel_intros try_handler bus_same handler_reset)

lemma hw_reset_ends: "11 \<le> n \<Longrightarrow> ends (mmc_hw_reset n)"
  unfolding mmc_hw_reset_def
  by (intro ends_then ends_then_option try_handler try_handler_ends ends_cases ends_ret so.rel_intros bus_same
      handler_reset handler_reset_ends | assumption)+

end
