(* ===== verification/Rescan_Properties.thy ===== *)
theory Rescan_Properties
  imports Rescan_Steps Rescan_Ends Quiet_World
begin

text \<open>
  The properties of the detection work.
\<close>

text \<open>
  C38: however often a host is started, scanned, prepared for sleep and stopped, between these
  activities no claim is left, and the host has its card and one reference to a live handler,
  or neither card nor handler.
\<close>

theorem host_always_rests:
  assumes "host_reach w v" and "at_rest_host 0 w"
  shows "brackets 0 (w_trace v) = Some 0 \<and>
    (if h_card (w_host v) then \<exists>ops. handler (w_host v) = (Some ops, 1, False)
     else \<exists>b. handler (w_host v) = (None, 0, b))"
  using reach_rests [OF assms]
  by (auto simp: at_rest_host_def vacant_def occupied_def at_phase_def depth_def)

lemma world_at_rest: "at_rest_host 0 world_ok"
  by (simp add: at_rest_host_def occupied_def at_phase_def depth_def handler_def world_ok_def host_ok_def)

lemma host_always_rests_witness:
  "\<exists>v. host_reach world_ok v \<and> \<not> h_card (w_host v) \<and> (\<exists>b. handler (w_host v) = (None, 0, b))"
proof -
  obtain r a where a: "run_state (mmc_pm_notify PM_POST_SUSPEND) world_ok = (r, a)" by fastforce
  obtain v where v: "run_state mmc_stop_host a = ((), v)" by (rule unit_run)
  have reach: "host_reach world_ok v"
    by (rule reach_step [OF reach_step [OF reach_here step_pm [OF a]] step_stop [OF v]])
  from stop_vacates [OF pm_notify_rests [OF world_at_rest a] v]
  have "\<not> h_card (w_host v)" by (auto simp: vacant_def at_phase_def)
  with host_always_rests [OF reach world_at_rest] reach show ?thesis by auto
qed

text \<open>
  C39: a scan returns: eleven rounds of \<open>mmc_sd_get_cid\<close> suffice if the card agrees to 1.8 V only
  when it was asked, for every other behaviour of controller and card.
\<close>

theorem rescan_returns:
  assumes "s18_on_request (w_ops w)" and "11 \<le> n"
  shows "\<exists>v. run_state (mmc_rescan n) w = (Some (), v)"
proof -
  obtain r v where "run_state (mmc_rescan n) w = (r, v)" by fastforce
  with rescan_ends [OF assms(2)] assms(1) show ?thesis by (cases r) (auto simp: ends_def)
qed

lemma rescan_returns_witness: "\<exists>v. run_state (mmc_rescan 11) world_ok = (Some (), v)"
proof (rule rescan_returns)
  show "s18_on_request (w_ops world_ok)"
    by (simp add: s18_on_request_def world_defs resp4_def)
qed simp

text \<open>
  C40: \<open>mmc_stop_host\<close> on a host at rest leaves it without card, handler, claim and
  power.
\<close>

theorem stop_leaves_nothing:
  assumes "run_state mmc_stop_host w = ((), v)" and "at_rest_host 0 w"
  shows "\<not> h_card (w_host v) \<and> (\<exists>b. handler (w_host v) = (None, 0, b)) \<and> brackets 0 (w_trace v) = Some 0 \<and>
    ios_power_mode (w_ios v) = MMC_POWER_OFF"
  using stop_vacates [OF assms(2,1)] stop_power [OF assms(1)]
  by (auto simp: vacant_def at_phase_def depth_def)

lemma stop_leaves_nothing_witness:
  "\<exists>v. run_state mmc_stop_host world_ok = ((), v) \<and> \<not> h_card (w_host v) \<and>
    ios_power_mode (w_ios v) = MMC_POWER_OFF"
proof -
  have "at_rest_host 0 world_ok"
    by (simp add: at_rest_host_def occupied_def at_phase_def depth_def handler_def world_ok_def host_ok_def)
  moreover obtain v where "run_state mmc_stop_host world_ok = ((), v)" by (rule unit_run)
  ultimately show ?thesis using stop_leaves_nothing [of world_ok v] by blast
qed

end
