(* ===== verification/Block_Types.thy ===== *)
theory Block_Types
  imports Rescan Erase
begin

text \<open>
  The state of the block device driver (\<open>mmc/core/block.c\<close>, \<open>queue.c\<close>) above the world of the
  core: the requests of the block layer, the queue with its flags, and the driver's data of a
  partition and of the whole card.

  The block layer itself is not part of the repository.  What the driver reads of a
  \<open>struct request\<close> is the record \<open>blk_request\<close>; the results of \<open>blk_update_request\<close> and
  \<open>blk_rq_map_sg\<close> are the parameters \<open>bl_update\<close> and \<open>bl_map_sg\<close>; the other calls are events of
  \<open>bw_log\<close>.
\<close>

section \<open>Numbers of the kernel headers\<close>

abbreviation (input) EEXIST :: int where "EEXIST \<equiv> 17"
abbreviation (input) EOVERFLOW :: int where "EOVERFLOW \<equiv> 75"
abbreviation (input) EROFS :: int where "EROFS \<equiv> 30"
abbreviation (input) ENXIO :: int where "ENXIO \<equiv> 6"

abbreviation (input) MMC_READ_SINGLE_BLOCK :: u32 where "MMC_READ_SINGLE_BLOCK \<equiv> 17"
abbreviation (input) MMC_READ_MULTIPLE_BLOCK :: u32 where "MMC_READ_MULTIPLE_BLOCK \<equiv> 18"
abbreviation (input) MMC_WRITE_BLOCK :: u32 where "MMC_WRITE_BLOCK \<equiv> 24"
abbreviation (input) MMC_WRITE_MULTIPLE_BLOCK :: u32 where "MMC_WRITE_MULTIPLE_BLOCK \<equiv> 25"
abbreviation (input) SD_APP_SEND_NUM_WR_BLKS :: u32 where "SD_APP_SEND_NUM_WR_BLKS \<equiv> 22"
abbreviation (input) MMC_CMDQ_TASK_MGMT :: u32 where "MMC_CMDQ_TASK_MGMT \<equiv> 48"

abbreviation (input) MMC_SECURE_TRIM1_ARG :: u32 where "MMC_SECURE_TRIM1_ARG \<equiv> 0x80000001"
abbreviation (input) MMC_SECURE_TRIM2_ARG :: u32 where "MMC_SECURE_TRIM2_ARG \<equiv> 0x80008000"
abbreviation (input) INAND_CMD38_ARG_EXT_CSD :: nat where "INAND_CMD38_ARG_EXT_CSD \<equiv> 113"
abbreviation (input) INAND_CMD38_ARG_ERASE :: u8 where "INAND_CMD38_ARG_ERASE \<equiv> 0"
abbreviation (input) INAND_CMD38_ARG_TRIM :: u8 where "INAND_CMD38_ARG_TRIM \<equiv> 1"
abbreviation (input) INAND_CMD38_ARG_SECERASE :: u8 where "INAND_CMD38_ARG_SECERASE \<equiv> 0x80"
abbreviation (input) INAND_CMD38_ARG_SECTRIM1 :: u8 where "INAND_CMD38_ARG_SECTRIM1 \<equiv> 0x81"
abbreviation (input) INAND_CMD38_ARG_SECTRIM2 :: u8 where "INAND_CMD38_ARG_SECTRIM2 \<equiv> 0x88"

abbreviation (input) R1_OUT_OF_RANGE :: u32 where "R1_OUT_OF_RANGE \<equiv> 0x80000000"
abbreviation (input) R1_ADDRESS_ERROR :: u32 where "R1_ADDRESS_ERROR \<equiv> 0x40000000"
abbreviation (input) R1_BLOCK_LEN_ERROR :: u32 where "R1_BLOCK_LEN_ERROR \<equiv> 0x20000000"
abbreviation (input) R1_WP_VIOLATION :: u32 where "R1_WP_VIOLATION \<equiv> 0x4000000"
abbreviation (input) R1_CARD_ECC_FAILED :: u32 where "R1_CARD_ECC_FAILED \<equiv> 0x200000"
abbreviation (input) R1_CC_ERROR :: u32 where "R1_CC_ERROR \<equiv> 0x100000"
abbreviation (input) R1_EXCEPTION_EVENT :: u32 where "R1_EXCEPTION_EVENT \<equiv> 0x40"

abbreviation (input) CCC_BLOCK_READ :: u16 where "CCC_BLOCK_READ \<equiv> 4"
abbreviation (input) CCC_BLOCK_WRITE :: u16 where "CCC_BLOCK_WRITE \<equiv> 16"
abbreviation (input) EXT_CSD_WR_REL_PARAM_EN :: u8 where "EXT_CSD_WR_REL_PARAM_EN \<equiv> 4"
abbreviation (input) EXT_CSD_BOOT_WP_B_PWR_WP_EN :: u32 where "EXT_CSD_BOOT_WP_B_PWR_WP_EN \<equiv> 1"
abbreviation (input) EXT_CSD_BOOT_WP_B_PERM_WP_EN :: u32 where "EXT_CSD_BOOT_WP_B_PERM_WP_EN \<equiv> 4"
abbreviation (input) SD_SCR_CMD23_SUPPORT :: u8 where "SD_SCR_CMD23_SUPPORT \<equiv> 2"

abbreviation (input) MMC_BLK_TIMEOUT_MS :: u32 where "MMC_BLK_TIMEOUT_MS \<equiv> 10000"
abbreviation (input) MMC_SANITIZE_REQ_TIMEOUT :: u32 where "MMC_SANITIZE_REQ_TIMEOUT \<equiv> 240000"

definition mmc_op_multi :: "u32 \<Rightarrow> bool" where
  "mmc_op_multi opcode \<longleftrightarrow> opcode = MMC_WRITE_MULTIPLE_BLOCK \<or> opcode = MMC_READ_MULTIPLE_BLOCK"

section \<open>Requests of the block layer\<close>

text \<open>\<open>REQ_OP_OTHER\<close> is any operation that the driver does not name.\<close>

datatype req_op = REQ_OP_READ | REQ_OP_WRITE | REQ_OP_FLUSH | REQ_OP_DISCARD
  | REQ_OP_SECURE_ERASE | REQ_OP_DRV_IN | REQ_OP_DRV_OUT | REQ_OP_OTHER

datatype blk_status = BLK_STS_OK | BLK_STS_NOTSUPP | BLK_STS_IOERR | BLK_STS_RESOURCE

text \<open>The part of a request that remains, in bytes from a sector of 512 on, and its flags.\<close>

record blk_request =
  rq_op :: req_op
  rq_pos :: u64
  rq_bytes :: u32
  rq_fua :: bool
  rq_meta :: bool
  rq_quiet :: bool
  rq_dontprep :: bool

definition rq_sectors :: "blk_request \<Rightarrow> u32" where
  "rq_sectors r = drop_bit 9 (rq_bytes r)"

text \<open>\<open>rq_data_dir\<close> is asked of reads and writes only.\<close>

abbreviation rq_read :: "blk_request \<Rightarrow> bool" where
  "rq_read r \<equiv> rq_op r = REQ_OP_READ"

abbreviation rq_write :: "blk_request \<Rightarrow> bool" where
  "rq_write r \<equiv> rq_op r \<noteq> REQ_OP_READ"

text \<open>
  \<open>struct mmc_blk_request\<close>: the commands and the data, and which of them \<open>mrq\<close> points to.
\<close>

record mmc_blk_request =
  brq_has_cmd :: bool
  brq_has_sbc :: bool
  brq_has_stop :: bool
  brq_has_data :: bool
  brq_sbc :: mmc_command
  brq_cmd :: mmc_command
  brq_stop :: mmc_command
  brq_data :: mmc_data

definition brq0 :: mmc_blk_request where
  "brq0 = \<lparr>brq_has_cmd = False, brq_has_sbc = False, brq_has_stop = False, brq_has_data = False,
     brq_sbc = cmd0, brq_cmd = cmd0, brq_stop = cmd0, brq_data = dat0\<rparr>"

text \<open>\<open>mrq\<close> as the core sees it, and the memory after the core is done with it.\<close>

definition mrq_of_brq :: "mmc_blk_request \<Rightarrow> mmc_request" where
  "mrq_of_brq b = \<lparr>mrq_sbc = (if brq_has_sbc b then Some (brq_sbc b) else None), mrq_cmd = brq_cmd b,
     mrq_data = (if brq_has_data b then Some (brq_data b) else None),
     mrq_stop = (if brq_has_stop b then Some (brq_stop b) else None)\<rparr>"

definition brq_of_mrq :: "mmc_request \<Rightarrow> mmc_blk_request \<Rightarrow> mmc_blk_request" where
  "brq_of_mrq m b = b\<lparr>brq_sbc := (case mrq_sbc m of None \<Rightarrow> brq_sbc b | Some c \<Rightarrow> c), brq_cmd := mrq_cmd m,
     brq_data := (case mrq_data m of None \<Rightarrow> brq_data b | Some d \<Rightarrow> d),
     brq_stop := (case mrq_stop m of None \<Rightarrow> brq_stop b | Some c \<Rightarrow> c)\<rparr>"

text \<open>
  \<open>struct mmc_ioc_cmd\<close> with its kernel buffer, and the partition of an access to the RPMB.  The
  flags of the command are those of \<open>cmd_flags\<close>.
\<close>

record mmc_ioc =
  ioc_write_flag :: u32
  ioc_is_acmd :: bool
  ioc_opcode :: u32
  ioc_arg :: u32
  ioc_response :: "u32 list"
  ioc_flags :: "cmd_flag set"
  ioc_blksz :: u32
  ioc_blocks :: u32
  ioc_postsleep_min_us :: u32
  ioc_data_timeout_ns :: u32
  ioc_cmd_timeout_ms :: u32
  ioc_buf :: "u8 list"
  ioc_rpmb :: "u32 option"

datatype mmc_drv_op = MMC_DRV_OP_IOCTL | MMC_DRV_OP_IOCTL_RPMB | MMC_DRV_OP_BOOT_WP
  | MMC_DRV_OP_GET_CARD_STATUS | MMC_DRV_OP_GET_EXT_CSD

record mmc_queue_req =
  mqr_req :: blk_request
  mqr_brq :: mmc_blk_request
  mqr_drv_op :: mmc_drv_op
  mqr_drv_result :: int
  mqr_ioc :: "mmc_ioc list"
  mqr_ext_csd :: "u8 list"
  mqr_retries :: nat

section \<open>The queue and the driver's data\<close>

datatype mmc_issue_type = MMC_ISSUE_SYNC | MMC_ISSUE_DCMD | MMC_ISSUE_ASYNC

datatype mmc_issued = MMC_REQ_STARTED | MMC_REQ_BUSY | MMC_REQ_FAILED_TO_START | MMC_REQ_FINISHED

text \<open>Requests are named by their tags.\<close>

record mmc_queue =
  mq_in_flight :: "mmc_issue_type \<Rightarrow> int"
  mq_cqe_dcmd_busy :: bool
  mq_cqe_queue_full :: bool
  mq_busy :: bool
  mq_use_cqe :: bool
  mq_recovery_needed :: bool
  mq_in_recovery :: bool
  mq_rw_wait :: bool
  mq_waiting :: bool
  mq_recovery_req :: "nat option"
  mq_complete_req :: "nat option"

abbreviation (input) MMC_BLK_READ :: u32 where "MMC_BLK_READ \<equiv> 1"
abbreviation (input) MMC_BLK_WRITE :: u32 where "MMC_BLK_WRITE \<equiv> 2"
abbreviation (input) MMC_BLK_DISCARD :: u32 where "MMC_BLK_DISCARD \<equiv> 4"
abbreviation (input) MMC_BLK_SECDISCARD :: u32 where "MMC_BLK_SECDISCARD \<equiv> 8"
abbreviation (input) MMC_BLK_CQE_RECOVERY :: u32 where "MMC_BLK_CQE_RECOVERY \<equiv> 16"

record mmc_blk_data =
  md_cmd23 :: bool
  md_rel_wr :: bool
  md_usage :: nat
  md_read_only :: bool
  md_part_type :: u32
  md_reset_done :: u32
  md_area_type :: mmc_area_type
  md_capacity :: u64

text \<open>
  Calls of the block layer, by tag: the update of a request by a number of bytes, its end, its
  way back to the queue, its completion by the timeout-safe path; the work that the driver
  schedules, and the card it takes and puts back with the queue's context.
\<close>

datatype blk_event = BlkStart nat | BlkUpdate nat blk_status u32 | BlkEnd nat blk_status
  | BlkRequeue nat | BlkComplete nat | BlkScheduleRecovery | BlkScheduleComplete | BlkWake
  | BlkRunQueues | BlkGetCard | BlkPutCard

record blk_layer =
  bl_update :: "blk_request \<Rightarrow> blk_status \<Rightarrow> u32 \<Rightarrow> bool \<times> blk_request"
  bl_map_sg :: "blk_request \<Rightarrow> u32 list"

text \<open>
  \<open>bw_md\<close> is the data of the queue's partition; \<open>bw_part_curr\<close> and \<open>bw_main_type\<close> are members
  of the main data, which \<open>card->dev\<close> points to.  Then come the activities that are under way:

  \<^item> the dispatch that sleeps in \<open>mmc_blk_rw_wait\<close>, with its type;
  \<^item> the requests that the controller works on: with the answer that it will report
    (\<open>bw_answers\<close>) or, when it has a command queue, by their tags (\<open>bw_cqe\<close>);
  \<^item> the requests that the block layer is about to complete, and the work that is scheduled.
\<close>

record blk_world =
  bw_world :: mmc_world
  bw_layer :: blk_layer
  bw_md :: mmc_blk_data
  bw_part_curr :: u32
  bw_main_type :: u32
  bw_reqs :: "nat \<Rightarrow> mmc_queue_req"
  bw_mq :: mmc_queue
  bw_dispatch :: "(nat \<times> mmc_issue_type) option"
  bw_answers :: "(nat \<times> mmc_request) list"
  bw_cqe :: "nat list"
  bw_completing :: "nat list"
  bw_recovery_work :: bool
  bw_complete_work :: bool
  bw_log :: "blk_event list"

type_synonym 'a blk = "(blk_world, 'a) state"

text \<open>An operation of the core.\<close>

definition core :: "'a io \<Rightarrow> 'a blk" where
  "core m = State (\<lambda>s. let (x, w) = run_state m (bw_world s) in (x, s\<lparr>bw_world := w\<rparr>))"

lemma run_core [simp]:
  "run_state (core m) s = (fst (run_state m (bw_world s)), s\<lparr>bw_world := snd (run_state m (bw_world s))\<rparr>)"
  by (simp add: core_def split_beta)

definition note_blk :: "blk_event \<Rightarrow> unit blk" where
  "note_blk e = modify (\<lambda>s. s\<lparr>bw_log := bw_log s @ [e]\<rparr>)"

definition upd_mq :: "(mmc_queue \<Rightarrow> mmc_queue) \<Rightarrow> blk_world \<Rightarrow> blk_world" where
  "upd_mq f s = s\<lparr>bw_mq := f (bw_mq s)\<rparr>"

definition upd_md :: "(mmc_blk_data \<Rightarrow> mmc_blk_data) \<Rightarrow> blk_world \<Rightarrow> blk_world" where
  "upd_md f s = s\<lparr>bw_md := f (bw_md s)\<rparr>"

definition upd_mqr :: "nat \<Rightarrow> (mmc_queue_req \<Rightarrow> mmc_queue_req) \<Rightarrow> blk_world \<Rightarrow> blk_world" where
  "upd_mqr t f s = s\<lparr>bw_reqs := (bw_reqs s)(t := f (bw_reqs s t))\<rparr>"

definition upd_brq :: "nat \<Rightarrow> (mmc_blk_request \<Rightarrow> mmc_blk_request) \<Rightarrow> blk_world \<Rightarrow> blk_world" where
  "upd_brq t f = upd_mqr t (\<lambda>q. q\<lparr>mqr_brq := f (mqr_brq q)\<rparr>)"

text \<open>\<open>blk_update_request\<close>.\<close>

definition blk_update_request :: "nat \<Rightarrow> blk_status \<Rightarrow> u32 \<Rightarrow> bool blk" where
  "blk_update_request t status n = do {
     s \<leftarrow> gets id;
     let (pending, r) = bl_update (bw_layer s) (mqr_req (bw_reqs s t)) status n;
     note_blk (BlkUpdate t status n);
     modify (upd_mqr t (\<lambda>q. q\<lparr>mqr_req := r\<rparr>));
     ret pending
   }"

end
