(* ===== verification/Block_Ops.thy ===== *)
theory Block_Ops
  imports Block_Types
begin

text \<open>
  What the block device driver (\<open>mmc/core/block.c\<close>) does beside reads and writes: partitions,
  status and busy polling, the reset of the card, ioctls, discards and cache flushes.
\<close>

section \<open>Partitions\<close>

definition mmc_blk_part_switch_pre :: "u32 \<Rightarrow> int io" where
  "mmc_blk_part_switch_pre part_type =
    (if part_type = EXT_CSD_PART_CONFIG_ACC_RPMB then do {
       w \<leftarrow> gets id;
       err \<leftarrow> (if ec_cmdq_en (cd_ext_csd (w_card w)) then mmc_cmdq_disable hooks else ret 0);
       if err \<noteq> 0 then ret err else do { mmc_retune_pause; ret 0 }
     } else ret 0)"

definition mmc_blk_part_switch_post :: "u32 \<Rightarrow> int io" where
  "mmc_blk_part_switch_post part_type =
    (if part_type = EXT_CSD_PART_CONFIG_ACC_RPMB then do {
       mmc_retune_unpause;
       w \<leftarrow> gets id;
       if cd_reenable_cmdq (w_card w) \<and> \<not> ec_cmdq_en (cd_ext_csd (w_card w)) then mmc_cmdq_enable hooks
       else ret 0
     } else ret 0)"

text \<open>The switch of an MMC card from the partition \<open>cur\<close>: the error, and whether it switched.\<close>

definition part_config_switch :: "u32 \<Rightarrow> u32 \<Rightarrow> (int \<times> bool) io" where
  "part_config_switch cur part_type = do {
     w \<leftarrow> gets id;
     let x = cd_ext_csd (w_card w);
     err \<leftarrow> mmc_blk_part_switch_pre part_type;
     if err \<noteq> 0 then ret (err, False)
     else do {
       let part_config = ec_part_config x AND NOT EXT_CSD_PART_CONFIG_ACC_MASK OR ucast part_type;
       w \<leftarrow> gets id;
       err \<leftarrow> mmc_switch hooks EXT_CSD_CMD_SET_NORMAL EXT_CSD_PART_CONFIG part_config
         (ec_part_time (cd_ext_csd (w_card w)));
       if err \<noteq> 0 then do { mmc_blk_part_switch_post part_type; ret (err, False) }
       else do {
         modify (upd_card (upd_ec (\<lambda>x. x\<lparr>ec_part_config := part_config\<rparr>)));
         err \<leftarrow> mmc_blk_part_switch_post cur;
         ret (err, True)
       }
     }
   }"

definition mmc_blk_part_switch :: "u32 \<Rightarrow> int blk" where
  "mmc_blk_part_switch part_type = do {
     s \<leftarrow> gets id;
     if bw_part_curr s = part_type then ret 0
     else do {
       r \<leftarrow> (if mmc_card_mmc (w_card (bw_world s))
         then core (part_config_switch (bw_part_curr s) part_type) else ret (0, True));
       io_when (snd r) (modify (\<lambda>s. s\<lparr>bw_part_curr := part_type\<rparr>));
       ret (fst r)
     }
   }"

section \<open>Written blocks, timeouts, status\<close>

definition be32 :: "u8 list \<Rightarrow> u32" where
  "be32 b = push_bit 24 (ucast (b ! 0)) OR push_bit 16 (ucast (b ! 1)) OR push_bit 8 (ucast (b ! 2)) OR ucast (b ! 3)"

definition mmc_sd_num_wr_blocks :: "(int \<times> u32) io" where
  "mmc_sd_num_wr_blocks = do {
     w \<leftarrow> gets id;
     cmd \<leftarrow> mmc_wait_for_cmd hooks (cmd0\<lparr>cmd_opcode := MMC_APP_CMD, cmd_arg := rca_arg w,
       cmd_flags := {MMC_RSP_SPI_R1, MMC_RSP_R1, MMC_CMD_AC}\<rparr>) 0;
     w \<leftarrow> gets id;
     if cmd_error cmd \<noteq> 0 then ret (cmd_error cmd, 0)
     else if \<not> mmc_host_is_spi w \<and> cmd_resp cmd ! 0 AND R1_APP_CMD = 0 then ret (- EIO, 0)
     else do {
       let d = mmc_set_data_timeout (w_host w) (w_card w)
         (dat0\<lparr>dat_blksz := 4, dat_blocks := 1, dat_flags := {MMC_DATA_READ}, dat_sg := [4],
           dat_buf := replicate 4 0\<rparr>);
       ok \<leftarrow> kzalloc 4;
       if \<not> ok then ret (- ENOMEM, 0)
       else do {
         m \<leftarrow> mmc_wait_for_req hooks (mrq_of (cmd0\<lparr>cmd_opcode := SD_APP_SEND_NUM_WR_BLKS,
           cmd_flags := {MMC_RSP_SPI_R1, MMC_RSP_R1, MMC_CMD_ADTC}\<rparr>) (Some d));
         (case mrq_data m of
            None \<Rightarrow> ret (- EIO, 0)
          | Some d \<Rightarrow>
              if cmd_error (mrq_cmd m) \<noteq> 0 \<or> dat_error d \<noteq> 0 then ret (- EIO, 0)
              else ret (0, be32 (dat_buf d)))
       }
     }
   }"

definition mmc_blk_clock_khz :: "mmc_host \<Rightarrow> u32" where
  "mmc_blk_clock_khz h =
    (if h_actual_clock h \<noteq> 0 then h_actual_clock h div 1000
     else if ios_clock (h_ios h) \<noteq> 0 then ios_clock (h_ios h) div 2000
     else 100)"

text \<open>
  \<open>DIV_ROUND_UP(n, d)\<close> is \<open>(n + d - 1) / d\<close> in 32 bits; the code relies on the clock not being
  0 kHz.
\<close>

definition div_round_up :: "u32 \<Rightarrow> u32 \<Rightarrow> u32" where
  "div_round_up n d = (n + d - 1) div d"

definition mmc_blk_data_timeout_ms :: "mmc_host \<Rightarrow> mmc_data \<Rightarrow> u32" where
  "mmc_blk_data_timeout_ms h d =
    (let ms = div_round_up (dat_timeout_ns d) 1000000 in
     if dat_timeout_clks d \<noteq> 0 then ms + div_round_up (dat_timeout_clks d) (mmc_blk_clock_khz h) else ms)"

definition mmc_blk_in_tran_state :: "u32 \<Rightarrow> bool" where
  "mmc_blk_in_tran_state status \<longleftrightarrow>
     status AND R1_READY_FOR_DATA \<noteq> 0 \<and> R1_CURRENT_STATE status = R1_STATE_TRAN"

text \<open>A round of \<open>card_busy_detect\<close>; the variable collects the bits of the responses.\<close>

definition busy_detect_body :: "nat \<Rightarrow> u32 \<Rightarrow> (int \<times> u32 + u32) io" where
  "busy_detect_body timeout errs = do {
     now \<leftarrow> jiffies;
     let late = now > timeout;
     r \<leftarrow> send_status_retries hooks 5;
     ret (if fst r \<noteq> 0 then Inl (fst r, errs)
          else if late then Inl (- ETIMEDOUT, errs OR snd r)
          else if mmc_blk_in_tran_state (snd r) then Inl (0, errs OR snd r)
          else Inr (errs OR snd r))
   }"

definition card_busy_detect :: "u32 \<Rightarrow> (int \<times> u32) io" where
  "card_busy_detect timeout_ms = do {
     now \<leftarrow> jiffies;
     w \<leftarrow> gets id;
     let timeout = now + kn_msecs_to_jiffies (w_kernel w) timeout_ms;
     loop_until (time_limit w timeout) (- ETIMEDOUT, 0) (busy_detect_body timeout) 0
   }"

section \<open>Reset\<close>

text \<open>
  The reset of SD cards runs the loop of \<open>mmc_sd_get_cid\<close>, which eleven rounds end for a card
  that keeps to the specification (\<open>block_hw_reset_returns\<close>); for others the value is arbitrary.
\<close>

definition block_hw_reset :: "int io" where
  "block_hw_reset = do {
     r \<leftarrow> mmc_hw_reset 11;
     ret (case r of None \<Rightarrow> - ETIMEDOUT | Some err \<Rightarrow> err)
   }"

definition mmc_blk_reset :: "u32 \<Rightarrow> int blk" where
  "mmc_blk_reset type = do {
     s \<leftarrow> gets id;
     if md_reset_done (bw_md s) AND type \<noteq> 0 then ret (- EEXIST)
     else do {
       modify (upd_md (\<lambda>m. m\<lparr>md_reset_done := md_reset_done m OR type\<rparr>));
       err \<leftarrow> core block_hw_reset;
       if err = - EOPNOTSUPP then ret err
       else do {
         modify (\<lambda>s. s\<lparr>bw_part_curr := bw_main_type s\<rparr>);
         part_err \<leftarrow> mmc_blk_part_switch (md_part_type (bw_md s));
         ret (if part_err \<noteq> 0 then - ENODEV else err)
       }
     }
   }"

definition mmc_blk_reset_success :: "u32 \<Rightarrow> unit blk" where
  "mmc_blk_reset_success type = modify (upd_md (\<lambda>m. m\<lparr>md_reset_done := md_reset_done m AND NOT type\<rparr>))"

text \<open>
  A loop whose rounds answer or fail with an error that a reset of the card may mend: the code
  starts over while \<open>mmc_blk_reset\<close> returns 0.  That is once at most, for it then refuses until a
  success clears the mark.
\<close>

lemma core_md [simp]: "bw_md (snd (run_state (core m) s)) = bw_md s"
  by simp

lemma core_md_eq: "(x, t) = run_state (core m) s \<Longrightarrow> bw_md t = bw_md s"
  by (metis core_md snd_conv)

lemma or_and_mask: "(x OR y) AND y = (y :: u32)"
  by (rule bit_eqI) (auto simp: bit_simps)

lemma part_switch_md: "bw_md (snd (run_state (mmc_blk_part_switch p) s)) = bw_md s"
  by (simp add: mmc_blk_part_switch_def)

lemma reset_marks:
  assumes "run_state (mmc_blk_reset type) s = (0, t)"
  shows "md_reset_done (bw_md s) AND type = 0 \<and> md_reset_done (bw_md t) = md_reset_done (bw_md s) OR type"
proof -
  let ?a = "upd_md (\<lambda>m. m\<lparr>md_reset_done := md_reset_done m OR type\<rparr>) s"
  have z: "md_reset_done (bw_md s) AND type = 0"
    using assms by (auto simp: mmc_blk_reset_def split: if_splits)
  obtain e b where e: "run_state (core block_hw_reset) ?a = (e, b)" by fastforce
  have "bw_md b = bw_md ?a" using e core_md [of block_hw_reset ?a] by simp
  moreover have "bw_md t = bw_md b"
  proof (cases "e = - 95")
    case True
    with assms z e show ?thesis by (simp add: mmc_blk_reset_def del: run_core)
  next
    case False
    let ?c = "b\<lparr>bw_part_curr := bw_main_type b\<rparr>"
    obtain p d where d: "run_state (mmc_blk_part_switch (md_part_type (bw_md s))) ?c = (p, d)" by fastforce
    then have "t = d" using assms z e False by (simp add: mmc_blk_reset_def del: run_core)
    with part_switch_md [of "md_part_type (bw_md s)" ?c] d show ?thesis by simp
  qed
  ultimately show ?thesis using z by (simp add: upd_md_def)
qed

function reset_loop :: "u32 \<Rightarrow> ('a + int) io \<Rightarrow> blk_world \<Rightarrow> ('a + int) \<times> blk_world" where
  "reset_loop type round s =
    (case run_state (core round) s of
       (Inl x, t) \<Rightarrow> (Inl x, t)
     | (Inr err, t) \<Rightarrow>
         (case run_state (mmc_blk_reset type) t of
            (r, u) \<Rightarrow> if r = 0 \<and> type \<noteq> 0 then reset_loop type round u else (Inr err, u)))"
  by auto
termination
proof (relation "measure (\<lambda>(type, round, s). if md_reset_done (bw_md s) AND type = 0 then 1 else 0)", goal_cases)
  case 2
  then show ?case
    by (auto simp: or_and_mask dest!: reset_marks [OF sym] core_md_eq simp del: run_core core_md)
qed simp

declare reset_loop.simps [simp del]

section \<open>Ioctls\<close>

text \<open>
  \<open>ioctl_rpmb_card_status_poll\<close> with the number of polls left, at least one: the error and the
  last status.
\<close>

fun rpmb_card_status_poll :: "nat \<Rightarrow> (int \<times> u32) io" where
  "rpmb_card_status_poll 0 = ret (- EINVAL, 0)"
| "rpmb_card_status_poll (Suc k) = do {
     r \<leftarrow> send_status_retries hooks 5;
     if fst r \<noteq> 0 then ret r
     else if R1_STATUS (snd r) = 0 \<and> R1_CURRENT_STATE (snd r) \<noteq> R1_STATE_PRG then ret r
     else do {
       emit (EvUsleep 1000) 1000000;
       if k = 0 then ret (- EPERM, snd r) else rpmb_card_status_poll k
     }
   }"

definition ioctl_do_sanitize :: "int io" where
  "ioctl_do_sanitize = do {
     w \<leftarrow> gets id;
     if \<not> mmc_can_sanitize (w_host w) (w_card w) then ret (- EOPNOTSUPP)
     else mmc_switch hooks EXT_CSD_CMD_SET_NORMAL EXT_CSD_SANITIZE_START 1 MMC_SANITIZE_REQ_TIMEOUT
   }"

text \<open>The data of an ioctl that has a buffer.\<close>

definition ioctl_data :: "mmc_world \<Rightarrow> mmc_ioc \<Rightarrow> mmc_data" where
  "ioctl_data w i =
    (let d = dat0\<lparr>dat_sg := [of_nat (length (ioc_buf i))], dat_buf := ioc_buf i, dat_blksz := ioc_blksz i,
           dat_blocks := ioc_blocks i,
           dat_flags := {if ioc_write_flag i \<noteq> 0 then MMC_DATA_WRITE else MMC_DATA_READ}\<rparr>;
         d = mmc_set_data_timeout (w_host w) (w_card w) d;
         d = (if ioc_data_timeout_ns i \<noteq> 0 then d\<lparr>dat_timeout_ns := ioc_data_timeout_ns i\<rparr> else d)
     in if MMC_RSP_R1B \<in> ioc_flags i then d\<lparr>dat_timeout_ns := ioc_cmd_timeout_ms i * 1000000\<rparr> else d)"

text \<open>What is sent; the block count of an access to the RPMB takes the number of the data.\<close>

definition ioctl_mrq :: "mmc_world \<Rightarrow> mmc_ioc \<Rightarrow> mmc_request" where
  "ioctl_mrq w i =
    (let d = (if ioc_buf i \<noteq> [] then Some (ioctl_data w i) else None) in
     \<lparr>mrq_sbc = (if ioc_rpmb i = None then None
        else Some (cmd0\<lparr>cmd_opcode := MMC_SET_BLOCK_COUNT,
          cmd_arg := (case d of None \<Rightarrow> 0 | Some d \<Rightarrow> dat_blocks d) OR (ioc_write_flag i AND 0x80000000),
          cmd_flags := {MMC_RSP_R1, MMC_CMD_AC}\<rparr>)),
      mrq_cmd = cmd0\<lparr>cmd_opcode := ioc_opcode i, cmd_arg := ioc_arg i, cmd_flags := ioc_flags i\<rparr>,
      mrq_data = d, mrq_stop = None\<rparr>)"

definition arg_index :: "u32 \<Rightarrow> u32" where
  "arg_index x = drop_bit 16 (x AND 0xFF0000)"

definition arg_value :: "u32 \<Rightarrow> u32" where
  "arg_value x = drop_bit 8 (x AND 0xFF00)"

text \<open>
  \<open>__mmc_blk_ioctl_cmd\<close> behind the checks of its pointers: the error, and the data with the
  answer.
\<close>

definition blk_ioctl_cmd :: "mmc_ioc \<Rightarrow> (int \<times> mmc_ioc) blk" where
  "blk_ioctl_cmd i = do {
     s \<leftarrow> gets id;
     let target_part = (case ioc_rpmb i of
         Some index \<Rightarrow> index OR EXT_CSD_PART_CONFIG_ACC_RPMB | None \<Rightarrow> md_part_type (bw_md s));
     let mrq = ioctl_mrq (bw_world s) i;
     err \<leftarrow> mmc_blk_part_switch target_part;
     if err \<noteq> 0 then ret (err, i)
     else do {
       err \<leftarrow> (if ioc_is_acmd i then core (mmc_app_cmd True) else ret 0);
       if err \<noteq> 0 then ret (err, i)
       else if arg_index (ioc_arg i) = of_nat EXT_CSD_SANITIZE_START \<and> ioc_opcode i = MMC_SWITCH
       then do { err \<leftarrow> core ioctl_do_sanitize; ret (err, i) }
       else do {
         m \<leftarrow> core (mmc_wait_for_req hooks mrq);
         let i = i\<lparr>ioc_buf := (case mrq_data m of None \<Rightarrow> ioc_buf i | Some d \<Rightarrow> dat_buf d)\<rparr>;
         let data_error = (case mrq_data m of None \<Rightarrow> 0 | Some d \<Rightarrow> dat_error d);
         if cmd_error (mrq_cmd m) \<noteq> 0 then ret (cmd_error (mrq_cmd m), i)
         else if data_error \<noteq> 0 then ret (data_error, i)
         else do {
           io_when (arg_index (cmd_arg (mrq_cmd m)) = of_nat EXT_CSD_PART_CONFIG
               \<and> cmd_opcode (mrq_cmd m) = MMC_SWITCH) (do {
             let value = arg_value (cmd_arg (mrq_cmd m));
             core (modify (upd_card (upd_ec (\<lambda>x. x\<lparr>ec_part_config := ucast value\<rparr>))));
             modify (\<lambda>s. s\<lparr>bw_part_curr := value AND ucast EXT_CSD_PART_CONFIG_ACC_MASK\<rparr>)
           });
           io_when (ioc_postsleep_min_us i \<noteq> 0)
             (core (emit (EvUsleep (unat (ioc_postsleep_min_us i))) (unat (ioc_postsleep_min_us i) * 1000)));
           let i = i\<lparr>ioc_response := cmd_resp (mrq_cmd m)\<rparr>;
           err \<leftarrow> (if ioc_rpmb i = None then ret 0
             else do { r \<leftarrow> core (rpmb_card_status_poll 5); ret (fst r) });
           ret (err, i)
         }
       }
     }
   }"

text \<open>The loop over the commands of an ioctl: the error and the data of all.\<close>

fun blk_ioctl_cmds :: "mmc_ioc list \<Rightarrow> (int \<times> mmc_ioc list) blk" where
  "blk_ioctl_cmds [] = ret (0, [])"
| "blk_ioctl_cmds (i # is) = do {
     r \<leftarrow> blk_ioctl_cmd i;
     if fst r \<noteq> 0 then ret (fst r, snd r # is)
     else do {
       rs \<leftarrow> blk_ioctl_cmds is;
       ret (fst rs, snd r # snd rs)
     }
   }"

definition blk_mq_end_request :: "nat \<Rightarrow> blk_status \<Rightarrow> unit blk" where
  "blk_mq_end_request t status = note_blk (BlkEnd t status)"

definition drv_op_result :: "nat \<Rightarrow> int blk" where
  "drv_op_result t = do {
     s \<leftarrow> gets id;
     let q = bw_reqs s t;
     (case mqr_drv_op q of
        MMC_DRV_OP_BOOT_WP \<Rightarrow> core (do {
          w \<leftarrow> gets id;
          let x = cd_ext_csd (w_card w);
          err \<leftarrow> mmc_switch hooks EXT_CSD_CMD_SET_NORMAL EXT_CSD_BOOT_WP
            (ucast (ec_boot_ro_lock x OR EXT_CSD_BOOT_WP_B_PWR_WP_EN)) (ec_part_time x);
          io_when (err = 0) (modify (upd_card (upd_ec (\<lambda>x.
            x\<lparr>ec_boot_ro_lock := ec_boot_ro_lock x OR EXT_CSD_BOOT_WP_B_PWR_WP_EN\<rparr>))));
          ret err
        })
      | MMC_DRV_OP_GET_CARD_STATUS \<Rightarrow> core (do {
          r \<leftarrow> mmc_send_status hooks;
          ret (if fst r = 0 then sint (snd r) else fst r)
        })
      | MMC_DRV_OP_GET_EXT_CSD \<Rightarrow> do {
          r \<leftarrow> core (mmc_get_ext_csd hooks);
          modify (upd_mqr t (\<lambda>q. q\<lparr>mqr_ext_csd := snd r\<rparr>));
          ret (fst r)
        }
      | _ \<Rightarrow> do {
          r \<leftarrow> blk_ioctl_cmds (mqr_ioc q);
          modify (upd_mqr t (\<lambda>q. q\<lparr>mqr_ioc := snd r\<rparr>));
          io_when (mqr_drv_op q = MMC_DRV_OP_IOCTL_RPMB) (do { mmc_blk_part_switch 0; ret () });
          ret (fst r)
        })
   }"

definition mmc_blk_issue_drv_op :: "nat \<Rightarrow> unit blk" where
  "mmc_blk_issue_drv_op t = do {
     err \<leftarrow> drv_op_result t;
     modify (upd_mqr t (\<lambda>q. q\<lparr>mqr_drv_result := err\<rparr>));
     blk_mq_end_request t (if err \<noteq> 0 then BLK_STS_IOERR else BLK_STS_OK)
   }"

section \<open>Discards and flushes\<close>

text \<open>The command 38 of the first iNAND devices takes its argument from the EXT_CSD.\<close>

definition inand_cmd38 :: "u8 \<Rightarrow> int io" where
  "inand_cmd38 arg = do {
     w \<leftarrow> gets id;
     if MMC_QUIRK_INAND_CMD38 \<in> cd_quirks (w_card w)
     then mmc_switch hooks EXT_CSD_CMD_SET_NORMAL INAND_CMD38_ARG_EXT_CSD arg 0
     else ret 0
   }"

definition discard_round :: "u32 \<Rightarrow> u32 \<Rightarrow> u32 \<Rightarrow> (int + int) io" where
  "discard_round from nr arg = do {
     err \<leftarrow> inand_cmd38 (if arg = MMC_TRIM_ARG then INAND_CMD38_ARG_TRIM else INAND_CMD38_ARG_ERASE);
     err \<leftarrow> (if err = 0 then mmc_erase from nr arg else ret err);
     ret (if err = - EIO then Inr err else Inl err)
   }"

definition mmc_blk_issue_discard_rq :: "nat \<Rightarrow> unit blk" where
  "mmc_blk_issue_discard_rq t = do {
     s \<leftarrow> gets id;
     let w = bw_world s;
     let r = mqr_req (bw_reqs s t);
     if \<not> mmc_can_erase (w_host w) (w_card w) then blk_mq_end_request t BLK_STS_NOTSUPP
     else do {
       let arg = (if mmc_can_discard (w_card w) then MMC_DISCARD_ARG
         else if mmc_can_trim (w_card w) then MMC_TRIM_ARG else MMC_ERASE_ARG);
       x \<leftarrow> State (reset_loop MMC_BLK_DISCARD (discard_round (ucast (rq_pos r)) (rq_sectors r) arg));
       let err = (case x of Inl err \<Rightarrow> err | Inr err \<Rightarrow> err);
       if err \<noteq> 0 then blk_mq_end_request t BLK_STS_IOERR
       else do { mmc_blk_reset_success MMC_BLK_DISCARD; blk_mq_end_request t BLK_STS_OK }
     }
   }"

text \<open>
  A round of the secure discard: an error that goes to \<open>out_retry\<close>, or whether it succeeded; a
  failure that is none of those ends the request with an error.
\<close>

definition secdiscard_round :: "u32 \<Rightarrow> u32 \<Rightarrow> u32 \<Rightarrow> (bool + int) io" where
  "secdiscard_round from nr arg = do {
     err \<leftarrow> inand_cmd38 (if arg = MMC_SECURE_TRIM1_ARG then INAND_CMD38_ARG_SECTRIM1
       else INAND_CMD38_ARG_SECERASE);
     if err \<noteq> 0 then ret (Inr err)
     else do {
       err \<leftarrow> mmc_erase from nr arg;
       if err = - EIO then ret (Inr err)
       else if err \<noteq> 0 then ret (Inl False)
       else if arg \<noteq> MMC_SECURE_TRIM1_ARG then ret (Inl True)
       else do {
         err \<leftarrow> inand_cmd38 INAND_CMD38_ARG_SECTRIM2;
         if err \<noteq> 0 then ret (Inr err)
         else do {
           err \<leftarrow> mmc_erase from nr MMC_SECURE_TRIM2_ARG;
           ret (if err = - EIO then Inr err else Inl (err = 0))
         }
       }
     }
   }"

text \<open>An error after which the card could not be reset leaves the status as it was, \<open>BLK_STS_OK\<close>.\<close>

definition mmc_blk_issue_secdiscard_rq :: "nat \<Rightarrow> unit blk" where
  "mmc_blk_issue_secdiscard_rq t = do {
     s \<leftarrow> gets id;
     let c = w_card (bw_world s);
     let r = mqr_req (bw_reqs s t);
     let from = ucast (rq_pos r);
     let nr = rq_sectors r;
     if \<not> mmc_can_secure_erase_trim c then blk_mq_end_request t BLK_STS_NOTSUPP
     else do {
       let arg = (if mmc_can_trim c \<and> \<not> mmc_erase_group_aligned c from nr
         then MMC_SECURE_TRIM1_ARG else MMC_SECURE_ERASE_ARG);
       x \<leftarrow> State (reset_loop MMC_BLK_SECDISCARD (secdiscard_round from nr arg));
       io_when (x = Inl True) (mmc_blk_reset_success MMC_BLK_SECDISCARD);
       blk_mq_end_request t (if x = Inl False then BLK_STS_IOERR else BLK_STS_OK)
     }
   }"

definition mmc_blk_issue_flush :: "nat \<Rightarrow> unit blk" where
  "mmc_blk_issue_flush t = do {
     err \<leftarrow> core (mmc_flush_cache hooks);
     blk_mq_end_request t (if err \<noteq> 0 then BLK_STS_IOERR else BLK_STS_OK)
   }"

end
