(* ===== verification/Block_Rw.thy ===== *)
theory Block_Rw
  imports Block_Ops
begin

text \<open>
  Reads and writes (\<open>mmc/core/block.c\<close>): the preparation of a request, the check of its answer,
  the recovery from errors, and how much of it the block layer is told to be done.
\<close>

section \<open>Preparation\<close>

definition mmc_apply_rel_rw :: "mmc_card \<Rightarrow> u64 \<Rightarrow> u32 \<Rightarrow> u32" where
  "mmc_apply_rel_rw c pos blocks =
    (let rel = ucast (ec_rel_sectors (cd_ext_csd c)) :: u32 in
     if ec_rel_param (cd_ext_csd c) AND EXT_CSD_WR_REL_PARAM_EN \<noteq> 0 then blocks
     else let blocks = (if pos AND (ucast rel - 1) \<noteq> 0 then 1 else blocks) in
       if blocks > rel then rel else if blocks < rel then 1 else blocks)"

text \<open>The list of segments is cut to the size of the data.\<close>

fun adjust_sg :: "int \<Rightarrow> u32 list \<Rightarrow> u32 list" where
  "adjust_sg left [] = []"
| "adjust_sg left (l # ls) =
    (let left = left - uint l in
     if left \<le> 0 then [l + word_of_int left] else l # adjust_sg left ls)"

text \<open>
  The number of blocks before the restrictions of reliable writes: SPI hosts do not read up to the
  very end of the card, and recovery reads single blocks.
\<close>

definition multi_blocks :: "mmc_world \<Rightarrow> mmc_blk_data \<Rightarrow> blk_request \<Rightarrow> bool \<Rightarrow> u32 \<Rightarrow> u32" where
  "multi_blocks w md r disable_multi blocks =
    (let blocks = (if mmc_host_is_spi w \<and> rq_read r \<and> rq_pos r + ucast (rq_sectors r) = md_capacity md
                   then blocks - 1 else blocks)
     in if disable_multi then 1 else blocks)"

definition data_blocks :: "mmc_world \<Rightarrow> mmc_blk_data \<Rightarrow> blk_request \<Rightarrow> bool \<Rightarrow> u32" where
  "data_blocks w md r disable_multi =
    (let blocks = min (rq_sectors r) (h_max_blk_count (w_host w))
     in if blocks > 1 then
          (let blocks = multi_blocks w md r disable_multi blocks
           in case op_multi_io_quirk (w_ops w) of
                None \<Rightarrow> blocks
              | Some quirk \<Rightarrow> quirk (w_card w) (if rq_read r then MMC_DATA_READ else MMC_DATA_WRITE) blocks)
        else blocks)"

text \<open>The results are the request, and whether the write is reliable and tagged.\<close>

definition mmc_blk_data_prep ::
  "mmc_world \<Rightarrow> blk_layer \<Rightarrow> mmc_blk_data \<Rightarrow> blk_request \<Rightarrow> bool \<Rightarrow> mmc_blk_request \<times> bool \<times> bool" where
  "mmc_blk_data_prep w bl md r disable_multi =
    (let h = w_host w;
         c = w_card w;
         do_rel_wr = (rq_fua r \<and> rq_write r \<and> md_rel_wr md);
         blocks = data_blocks w md r disable_multi;
         blocks = (if do_rel_wr then mmc_apply_rel_rw c (rq_pos r) blocks else blocks);
         tag_size = ec_data_tag_unit_size (cd_ext_csd c);
         do_data_tag = (tag_size \<noteq> 0 \<and> rq_meta r \<and> rq_write r \<and> blocks * 512 \<ge> tag_size);
         d = dat0\<lparr>dat_blksz := 512, dat_blocks := blocks, dat_blk_addr := ucast (rq_pos r),
           dat_flags := {if rq_read r then MMC_DATA_READ else MMC_DATA_WRITE}
             \<union> (if do_rel_wr then {MMC_DATA_REL_WR} else {})
             \<union> (if do_data_tag then {MMC_DATA_DAT_TAG} else {})\<rparr>;
         d = mmc_set_data_timeout h c d;
         sg = bl_map_sg bl r;
         d = d\<lparr>dat_sg := (if blocks \<noteq> rq_sectors r then adjust_sg (sint (push_bit 9 blocks)) sg else sg)\<rparr>;
         stop = cmd0\<lparr>cmd_opcode := MMC_STOP_TRANSMISSION, cmd_flags := insert MMC_CMD_AC
           (if rq_read r then {MMC_RSP_SPI_R1, MMC_RSP_R1} else {MMC_RSP_SPI_R1B, MMC_RSP_R1B})\<rparr>
     in (brq0\<lparr>brq_has_data := True, brq_data := d, brq_stop := stop\<rparr>, do_rel_wr, do_data_tag))"

definition mmc_blk_rw_rq_prep ::
  "mmc_world \<Rightarrow> blk_layer \<Rightarrow> mmc_blk_data \<Rightarrow> blk_request \<Rightarrow> bool \<Rightarrow> mmc_blk_request" where
  "mmc_blk_rw_rq_prep w bl md r disable_multi =
    (let (brq, do_rel_wr, do_data_tag) = mmc_blk_data_prep w bl md r disable_multi;
         c = w_card w;
         blocks = dat_blocks (brq_data brq);
         multi = (blocks > 1 \<or> do_rel_wr);
         pos = ucast (rq_pos r) :: u32;
         cmd = cmd0\<lparr>cmd_arg := (if mmc_card_blockaddr c then pos else push_bit 9 pos),
           cmd_flags := {MMC_RSP_SPI_R1, MMC_RSP_R1, MMC_CMD_ADTC},
           cmd_opcode := (if rq_read r then if multi then MMC_READ_MULTIPLE_BLOCK else MMC_READ_SINGLE_BLOCK
             else if multi then MMC_WRITE_MULTIPLE_BLOCK else MMC_WRITE_BLOCK)\<rparr>;
         brq = brq\<lparr>brq_has_cmd := True, brq_cmd := cmd,
           brq_has_stop := multi \<and> (\<not> mmc_host_is_spi w \<or> rq_read r)\<rparr>
     in if md_cmd23 md \<and> mmc_op_multi (cmd_opcode cmd)
           \<and> (do_rel_wr \<or> MMC_QUIRK_BLK_NO_CMD23 \<notin> cd_quirks c \<or> do_data_tag)
        then brq\<lparr>brq_has_sbc := True, brq_sbc := cmd0\<lparr>cmd_opcode := MMC_SET_BLOCK_COUNT,
          cmd_arg := blocks OR (if do_rel_wr then 0x80000000 else 0) OR (if do_data_tag then 0x20000000 else 0),
          cmd_flags := {MMC_RSP_R1, MMC_CMD_AC}\<rparr>\<rparr>
        else brq)"

definition rw_prep :: "nat \<Rightarrow> bool \<Rightarrow> unit blk" where
  "rw_prep t disable_multi = do {
     s \<leftarrow> gets id;
     modify (upd_brq t (\<lambda>_. mmc_blk_rw_rq_prep (bw_world s) (bw_layer s) (bw_md s)
       (mqr_req (bw_reqs s t)) disable_multi))
   }"

section \<open>Errors\<close>

definition CMD_ERRORS_EXCL_OOR :: u32 where
  "CMD_ERRORS_EXCL_OOR = R1_ADDRESS_ERROR OR R1_BLOCK_LEN_ERROR OR R1_WP_VIOLATION OR R1_CARD_ECC_FAILED
    OR R1_CC_ERROR OR R1_ERROR"

definition CMD_ERRORS :: u32 where
  "CMD_ERRORS = CMD_ERRORS_EXCL_OOR OR R1_OUT_OF_RANGE"

definition mmc_blk_eval_resp_error :: "mmc_blk_request \<Rightarrow> mmc_blk_request" where
  "mmc_blk_eval_resp_error b =
    (if cmd_error (brq_stop b) = 0 then
       (let val = cmd_resp (brq_stop b) ! 0 AND CMD_ERRORS;
            oor_with_open_end = (val AND R1_OUT_OF_RANGE \<noteq> 0 \<and> \<not> brq_has_sbc b)
        in if val \<noteq> 0 \<and> \<not> oor_with_open_end
           then b\<lparr>brq_stop := (brq_stop b)\<lparr>cmd_error := - EIO\<rparr>\<rparr> else b)
     else b)"

text \<open>The request with the evaluated stop command, and whether it has an error.\<close>

definition mmc_blk_rq_error :: "mmc_blk_request \<Rightarrow> mmc_blk_request \<times> bool" where
  "mmc_blk_rq_error b =
    (let b = mmc_blk_eval_resp_error b in
     (b, cmd_error (brq_sbc b) \<noteq> 0 \<or> cmd_error (brq_cmd b) \<noteq> 0 \<or> cmd_error (brq_stop b) \<noteq> 0
       \<or> dat_error (brq_data b) \<noteq> 0 \<or> cmd_resp (brq_cmd b) ! 0 AND CMD_ERRORS \<noteq> 0))"

definition mmc_blk_stop_err_bits :: "mmc_blk_request \<Rightarrow> u32" where
  "mmc_blk_stop_err_bits b = (if brq_has_sbc b then CMD_ERRORS else CMD_ERRORS_EXCL_OOR)"

definition mmc_blk_status_error :: "mmc_world \<Rightarrow> blk_request \<Rightarrow> mmc_blk_request \<Rightarrow> u32 \<Rightarrow> bool" where
  "mmc_blk_status_error w r b status \<longleftrightarrow>
    \<not> mmc_host_is_spi w \<and>
    (cmd_resp (brq_cmd b) ! 0 AND CMD_ERRORS \<noteq> 0
     \<or> cmd_resp (brq_stop b) ! 0 AND mmc_blk_stop_err_bits b \<noteq> 0
     \<or> status AND mmc_blk_stop_err_bits b \<noteq> 0
     \<or> rq_write r \<and> \<not> mmc_blk_in_tran_state status)"

definition mmc_blk_cmd_started :: "mmc_blk_request \<Rightarrow> bool" where
  "mmc_blk_cmd_started b \<longleftrightarrow> cmd_error (brq_sbc b) = 0 \<and> cmd_error (brq_cmd b) = 0
    \<and> cmd_resp (brq_cmd b) ! 0 AND CMD_ERRORS = 0"

definition mmc_blk_send_stop :: "u32 \<Rightarrow> int io" where
  "mmc_blk_send_stop timeout = do {
     cmd \<leftarrow> mmc_wait_for_cmd hooks (cmd0\<lparr>cmd_opcode := MMC_STOP_TRANSMISSION,
       cmd_flags := {MMC_RSP_SPI_R1, MMC_RSP_R1, MMC_CMD_AC}, cmd_busy_timeout := timeout\<rparr>) 5;
     ret (cmd_error cmd)
   }"

definition mmc_blk_fix_state :: "mmc_data \<Rightarrow> int io" where
  "mmc_blk_fix_state d = do {
     h \<leftarrow> gets w_host;
     let timeout = mmc_blk_data_timeout_ms h d;
     mmc_retune_hold_now;
     mmc_blk_send_stop timeout;
     r \<leftarrow> card_busy_detect timeout;
     mmc_retune_release;
     ret (fst r)
   }"

definition set_bytes_xfered :: "nat \<Rightarrow> u32 \<Rightarrow> unit blk" where
  "set_bytes_xfered t n = modify (upd_brq t (\<lambda>b. b\<lparr>brq_data := (brq_data b)\<lparr>dat_bytes_xfered := n\<rparr>\<rparr>))"

section \<open>Single sectors\<close>

abbreviation (input) MMC_MAX_RETRIES :: nat where "MMC_MAX_RETRIES \<equiv> 5"
abbreviation (input) MMC_DATA_RETRIES :: nat where "MMC_DATA_RETRIES \<equiv> 2"
abbreviation (input) MMC_NO_RETRIES :: nat where "MMC_NO_RETRIES \<equiv> 6"
abbreviation (input) MMC_READ_SINGLE_RETRIES :: nat where "MMC_READ_SINGLE_RETRIES \<equiv> 2"

text \<open>
  A read of one sector and the return of the card to its transfer state: the request as it was
  answered and the card's status, or None after an error that ends the loop.
\<close>

definition read_sector :: "nat \<Rightarrow> (mmc_blk_request \<times> u32) option blk" where
  "read_sector t = do {
     rw_prep t True;
     s \<leftarrow> gets id;
     m \<leftarrow> core (mmc_wait_for_req hooks (mrq_of_brq (mqr_brq (bw_reqs s t))));
     modify (upd_brq t (brq_of_mrq m));
     r \<leftarrow> core (mmc_send_status hooks);
     s \<leftarrow> gets id;
     let b = mqr_brq (bw_reqs s t);
     if fst r \<noteq> 0 then ret None
     else do {
       err \<leftarrow> (if \<not> mmc_host_is_spi (bw_world s) \<and> \<not> mmc_blk_in_tran_state (snd r)
         then core (mmc_blk_fix_state (brq_data b)) else ret 0);
       ret (if err \<noteq> 0 then None else Some (b, snd r))
     }
   }"

text \<open>
  The decision after a sector: the number of retries and the status that the block layer is
  told.  The \<open>continue\<close> of a retry jumps to the condition of the loop, which ends the sector
  with the status that the previous one had.
\<close>

definition sector_result :: "mmc_world \<Rightarrow> nat \<Rightarrow> blk_status \<Rightarrow> mmc_blk_request \<Rightarrow> u32 \<Rightarrow> nat \<times> blk_status" where
  "sector_result w retries error b status =
    (if cmd_error (brq_cmd b) \<noteq> 0 \<and> retries < MMC_READ_SINGLE_RETRIES then (retries + 1, error)
     else (0, if cmd_error (brq_cmd b) \<noteq> 0 \<or> dat_error (brq_data b) \<noteq> 0
         \<or> \<not> mmc_host_is_spi w \<and> (cmd_resp (brq_cmd b) ! 0 AND CMD_ERRORS \<noteq> 0 \<or> status AND CMD_ERRORS \<noteq> 0)
       then BLK_STS_IOERR else BLK_STS_OK))"

definition read_single_fail :: "nat \<Rightarrow> unit blk" where
  "read_single_fail t = do {
     set_bytes_xfered t 0;
     blk_update_request t BLK_STS_IOERR 512;
     modify (upd_mqr t (\<lambda>q. q\<lparr>mqr_retries := min (mqr_retries q) (MMC_MAX_RETRIES - 1)\<rparr>))
   }"

text \<open>
  The loop goes on only while the request gets shorter, which \<open>blk_update_request\<close> does in each
  round that leaves something pending (\<open>read_single_round\<close>).
\<close>

definition bytes_left :: "nat \<Rightarrow> blk_world \<Rightarrow> nat" where
  "bytes_left t s = unat (rq_bytes (mqr_req (bw_reqs s t)))"

function read_single :: "nat \<Rightarrow> nat \<Rightarrow> blk_status \<Rightarrow> blk_world \<Rightarrow> unit \<times> blk_world" where
  "read_single t retries error s =
    (case run_state (read_sector t) s of
       (None, v) \<Rightarrow> run_state (read_single_fail t) v
     | (Some (b, status), v) \<Rightarrow>
         (case sector_result (bw_world v) retries error b status of
            (retries, error) \<Rightarrow>
              (case run_state (blk_update_request t error 512) v of
                 (pending, u) \<Rightarrow> if pending \<and> bytes_left t u < bytes_left t s
                   then read_single t retries error u else ((), u))))"
  by auto
termination by (relation "measure (\<lambda>(t, retries, error, s). bytes_left t s)") auto

declare read_single.simps [simp del]

definition mmc_blk_read_single :: "nat \<Rightarrow> unit blk" where
  "mmc_blk_read_single t = State (read_single t 0 BLK_STS_OK)"

section \<open>Recovery\<close>

definition rw_type :: "blk_request \<Rightarrow> u32" where
  "rw_type r = (if rq_read r then MMC_BLK_READ else MMC_BLK_WRITE)"

abbreviation mmc_large_sector :: "mmc_card \<Rightarrow> bool" where
  "mmc_large_sector c \<equiv> ec_data_sector_size (cd_ext_csd c) = 4096"

text \<open>
  The status of the card, asked for twice if the first answer fails, with the number of bytes
  discarded where it cannot be trusted: the error and the status.
\<close>

definition recovery_status :: "nat \<Rightarrow> (int \<times> u32) blk" where
  "recovery_status t = do {
     r \<leftarrow> core (send_status_retries hooks 0);
     s \<leftarrow> gets id;
     let q = bw_reqs s t;
     io_when (fst r \<noteq> 0 \<or> mmc_blk_status_error (bw_world s) (mqr_req q) (mqr_brq q) (snd r))
       (set_bytes_xfered t 0);
     core mmc_retune_release;
     (if fst r \<noteq> 0 then core (send_status_retries hooks 0) else ret r)
   }"

text \<open>The number of bytes that an SD card has written.\<close>

definition recovery_written :: "nat \<Rightarrow> int \<Rightarrow> unit blk" where
  "recovery_written t err = do {
     s \<leftarrow> gets id;
     let q = bw_reqs s t;
     io_when (err = 0 \<and> mmc_blk_cmd_started (mqr_brq q) \<and> mmc_card_sd (w_card (bw_world s))
         \<and> rq_write (mqr_req q)) (do {
       r \<leftarrow> core mmc_sd_num_wr_blocks;
       set_bytes_xfered t (if fst r \<noteq> 0 then 0 else push_bit 9 (snd r))
     })
   }"

text \<open>What is done when nothing was transferred.\<close>

definition recovery_retry :: "nat \<Rightarrow> unit blk" where
  "recovery_retry t = do {
     s \<leftarrow> gets id;
     let q = bw_reqs s t;
     io_when (mqr_retries q + 1 = MMC_MAX_RETRIES) (do { mmc_blk_reset (rw_type (mqr_req q)); ret () });
     s \<leftarrow> gets id;
     let b = mqr_brq q;
     if cmd_error (brq_sbc b) \<noteq> 0 \<or> cmd_error (brq_cmd b) \<noteq> 0 then ret ()
     else if mqr_retries q < MMC_MAX_RETRIES - MMC_DATA_RETRIES
     then modify (upd_mqr t (\<lambda>q. q\<lparr>mqr_retries := MMC_MAX_RETRIES - MMC_DATA_RETRIES\<rparr>))
     else io_when (\<not> mmc_large_sector (w_card (bw_world s)) \<and> rq_read (mqr_req q) \<and> dat_blocks (brq_data b) > 1)
       (mmc_blk_read_single t)
   }"

definition mmc_blk_mq_rw_recovery :: "nat \<Rightarrow> unit blk" where
  "mmc_blk_mq_rw_recovery t = do {
     r \<leftarrow> recovery_status t;
     gone \<leftarrow> (if fst r \<noteq> 0 then core mmc_detect_card_removed else ret 0);
     if gone \<noteq> 0 then ret ()
     else do {
       s \<leftarrow> gets id;
       let q = bw_reqs s t;
       err \<leftarrow> (if \<not> mmc_host_is_spi (bw_world s) \<and> (fst r \<noteq> 0 \<or> \<not> mmc_blk_in_tran_state (snd r))
         then core (mmc_blk_fix_state (brq_data (mqr_brq q))) else ret (fst r));
       recovery_written t err;
       s \<leftarrow> gets id;
       failed \<leftarrow> (if \<not> mmc_host_is_spi (bw_world s) \<and> err \<noteq> 0 then mmc_blk_reset (rw_type (mqr_req q)) else ret 0);
       if failed \<noteq> 0 then modify (upd_mqr t (\<lambda>q. q\<lparr>mqr_retries := MMC_NO_RETRIES\<rparr>))
       else do {
         s \<leftarrow> gets id;
         io_when (dat_bytes_xfered (brq_data (mqr_brq (bw_reqs s t))) = 0) (recovery_retry t)
       }
     }
   }"

text \<open>The card is asked until it is ready after a write; its errors discard what was written.\<close>

definition mmc_blk_card_busy :: "nat \<Rightarrow> int blk" where
  "mmc_blk_card_busy t = do {
     s \<leftarrow> gets id;
     let q = bw_reqs s t;
     if mmc_host_is_spi (bw_world s) \<or> rq_read (mqr_req q) then ret 0
     else do {
       r \<leftarrow> core (card_busy_detect MMC_BLK_TIMEOUT_MS);
       let bad = (snd r AND mmc_blk_stop_err_bits (mqr_brq q) \<noteq> 0);
       io_when bad (set_bytes_xfered t 0);
       s \<leftarrow> gets id;
       io_when (mmc_card_mmc (w_card (bw_world s)) \<and> snd r AND R1_EXCEPTION_EVENT \<noteq> 0)
         (modify (upd_brq t (\<lambda>b. b\<lparr>brq_cmd := (brq_cmd b)\<lparr>cmd_resp :=
           (cmd_resp (brq_cmd b))[0 := cmd_resp (brq_cmd b) ! 0 OR R1_EXCEPTION_EVENT]\<rparr>\<rparr>)));
       ret (if bad \<and> fst r = 0 then - EIO else fst r)
     }
   }"

definition mmc_blk_urgent_bkops_needed :: "mmc_world \<Rightarrow> mmc_blk_request \<Rightarrow> bool" where
  "mmc_blk_urgent_bkops_needed w b \<longleftrightarrow> mmc_card_mmc (w_card w) \<and> \<not> mmc_host_is_spi w \<and>
    (cmd_resp (brq_cmd b) ! 0 AND R1_EXCEPTION_EVENT \<noteq> 0 \<or> cmd_resp (brq_stop b) ! 0 AND R1_EXCEPTION_EVENT \<noteq> 0)"

definition mmc_blk_urgent_bkops :: "nat \<Rightarrow> unit blk" where
  "mmc_blk_urgent_bkops t = do {
     s \<leftarrow> gets id;
     io_when (mmc_blk_urgent_bkops_needed (bw_world s) (mqr_brq (bw_reqs s t))) (core (mmc_start_bkops hooks True))
   }"

text \<open>The check of the answer, which is stored.\<close>

definition rq_error :: "nat \<Rightarrow> bool blk" where
  "rq_error t = do {
     s \<leftarrow> gets id;
     let r = mmc_blk_rq_error (mqr_brq (bw_reqs s t));
     modify (upd_brq t (\<lambda>_. fst r));
     ret (snd r)
   }"

definition mmc_blk_mq_poll_completion :: "nat \<Rightarrow> unit blk" where
  "mmc_blk_mq_poll_completion t = do {
     bad \<leftarrow> rq_error t;
     busy \<leftarrow> (if bad then ret 0 else mmc_blk_card_busy t);
     (if bad \<or> busy \<noteq> 0 then mmc_blk_mq_rw_recovery t
      else do {
        s \<leftarrow> gets id;
        mmc_blk_reset_success (rw_type (mqr_req (bw_reqs s t)));
        core mmc_retune_release
      });
     mmc_blk_urgent_bkops t
   }"

section \<open>The end of a request\<close>

definition mmc_blk_mq_complete_rq :: "nat \<Rightarrow> unit blk" where
  "mmc_blk_mq_complete_rq t = do {
     s \<leftarrow> gets id;
     let q = bw_reqs s t;
     let nr_bytes = dat_bytes_xfered (brq_data (mqr_brq q));
     if nr_bytes \<noteq> 0 then do {
       pending \<leftarrow> blk_update_request t BLK_STS_OK nr_bytes;
       note_blk (if pending then BlkRequeue t else BlkEnd t BLK_STS_OK)
     }
     else if rq_bytes (mqr_req q) = 0 then note_blk (BlkEnd t BLK_STS_IOERR)
     else do {
       let again = (mqr_retries q < MMC_MAX_RETRIES);
       modify (upd_mqr t (\<lambda>q. q\<lparr>mqr_retries := mqr_retries q + 1\<rparr>));
       if again then note_blk (BlkRequeue t)
       else do {
         io_when (mmc_card_removed (bw_world s))
           (modify (upd_mqr t (\<lambda>q. q\<lparr>mqr_req := (mqr_req q)\<lparr>rq_quiet := True\<rparr>\<rparr>)));
         blk_mq_end_request t BLK_STS_IOERR
       }
     }
   }"

end
