(* ===== verification/Block_Queue.thy ===== *)
theory Block_Queue
  imports Block_Rw
begin

text \<open>
  The queue of a block device (\<open>mmc/core/queue.c\<close> and the end of \<open>block.c\<close>): how a request is
  dispatched, waits for the one before it, is answered, recovered and completed, with and without a
  command queue in the controller (CQE).
\<close>

section \<open>Types of requests, requests in flight\<close>

definition mmc_cqe_dcmd_busy :: "mmc_queue \<Rightarrow> bool" where
  "mmc_cqe_dcmd_busy q \<longleftrightarrow> mq_in_flight q MMC_ISSUE_DCMD \<noteq> 0"

definition mmc_cqe_check_busy :: "mmc_queue \<Rightarrow> mmc_queue" where
  "mmc_cqe_check_busy q =
    (let q = (if mq_cqe_dcmd_busy q \<and> \<not> mmc_cqe_dcmd_busy q then q\<lparr>mq_cqe_dcmd_busy := False\<rparr> else q)
     in q\<lparr>mq_cqe_queue_full := False\<rparr>)"

definition mmc_cqe_can_dcmd :: "mmc_host \<Rightarrow> bool" where
  "mmc_cqe_can_dcmd h \<longleftrightarrow> MMC_CAP2_CQE_DCMD \<in> h_caps2 h"

definition mmc_cqe_issue_type :: "mmc_host \<Rightarrow> blk_request \<Rightarrow> mmc_issue_type" where
  "mmc_cqe_issue_type h r =
    (if rq_op r \<in> {REQ_OP_DRV_IN, REQ_OP_DRV_OUT, REQ_OP_DISCARD, REQ_OP_SECURE_ERASE} then MMC_ISSUE_SYNC
     else if rq_op r = REQ_OP_FLUSH then if mmc_cqe_can_dcmd h then MMC_ISSUE_DCMD else MMC_ISSUE_SYNC
     else MMC_ISSUE_ASYNC)"

definition mmc_issue_type :: "mmc_queue \<Rightarrow> mmc_host \<Rightarrow> blk_request \<Rightarrow> mmc_issue_type" where
  "mmc_issue_type q h r =
    (if mq_use_cqe q then mmc_cqe_issue_type h r
     else if rq_op r = REQ_OP_READ \<or> rq_op r = REQ_OP_WRITE then MMC_ISSUE_ASYNC else MMC_ISSUE_SYNC)"

definition mmc_tot_in_flight :: "mmc_queue \<Rightarrow> int" where
  "mmc_tot_in_flight q = mq_in_flight q MMC_ISSUE_SYNC + mq_in_flight q MMC_ISSUE_DCMD + mq_in_flight q MMC_ISSUE_ASYNC"

definition mmc_cqe_qcnt :: "mmc_queue \<Rightarrow> int" where
  "mmc_cqe_qcnt q = mq_in_flight q MMC_ISSUE_DCMD + mq_in_flight q MMC_ISSUE_ASYNC"

definition add_in_flight :: "mmc_issue_type \<Rightarrow> int \<Rightarrow> mmc_queue \<Rightarrow> mmc_queue" where
  "add_in_flight ty n q = q\<lparr>mq_in_flight := (mq_in_flight q)(ty := mq_in_flight q ty + n)\<rparr>"

definition type_of :: "nat \<Rightarrow> blk_world \<Rightarrow> mmc_issue_type" where
  "type_of t s = mmc_issue_type (bw_mq s) (w_host (bw_world s)) (mqr_req (bw_reqs s t))"

abbreviation mmc_host_done_complete :: "blk_world \<Rightarrow> bool" where
  "mmc_host_done_complete s \<equiv> MMC_CAP_DONE_COMPLETE \<in> h_caps (w_host (bw_world s))"

section \<open>Calls of the queue\<close>

definition queue_get_card :: "unit blk" where
  "queue_get_card = do { core mmc_get_card; note_blk BlkGetCard }"

definition queue_put_card :: "unit blk" where
  "queue_put_card = do { core mmc_put_card; note_blk BlkPutCard }"

definition blk_mq_complete_request :: "nat \<Rightarrow> unit blk" where
  "blk_mq_complete_request t = do {
     modify (\<lambda>s. s\<lparr>bw_completing := bw_completing s @ [t]\<rparr>);
     note_blk (BlkComplete t)
   }"

definition schedule_recovery :: "unit blk" where
  "schedule_recovery = do { modify (\<lambda>s. s\<lparr>bw_recovery_work := True\<rparr>); note_blk BlkScheduleRecovery }"

definition schedule_complete :: "unit blk" where
  "schedule_complete = do { modify (\<lambda>s. s\<lparr>bw_complete_work := True\<rparr>); note_blk BlkScheduleComplete }"

definition mmc_pre_req :: "nat \<Rightarrow> unit blk" where
  "mmc_pre_req t = do {
     s \<leftarrow> gets id;
     io_when (op_pre_req (w_ops (bw_world s))) (core (emit (EvPreReq (mrq_of_brq (mqr_brq (bw_reqs s t)))) 0))
   }"

definition mmc_post_req :: "nat \<Rightarrow> int \<Rightarrow> unit blk" where
  "mmc_post_req t err = do {
     s \<leftarrow> gets id;
     io_when (op_post_req (w_ops (bw_world s))) (core (emit (EvPostReq (mrq_of_brq (mqr_brq (bw_reqs s t))) err) 0))
   }"

section \<open>The end of a request that was read or written without a command queue\<close>

definition mmc_blk_mq_dec_in_flight :: "nat \<Rightarrow> unit blk" where
  "mmc_blk_mq_dec_in_flight t = do {
     s \<leftarrow> gets id;
     modify (upd_mq (add_in_flight (type_of t s) (- 1)));
     q \<leftarrow> gets bw_mq;
     io_when (mmc_tot_in_flight q = 0) queue_put_card
   }"

definition mmc_blk_mq_post_req :: "nat \<Rightarrow> unit blk" where
  "mmc_blk_mq_post_req t = do {
     mmc_post_req t 0;
     s \<leftarrow> gets id;
     (if mq_in_recovery (bw_mq s) then mmc_blk_mq_complete_rq t else blk_mq_complete_request t);
     mmc_blk_mq_dec_in_flight t
   }"

text \<open>The code takes \<open>recovery_req\<close> to be set: None is an access through a null pointer.\<close>

definition mmc_blk_mq_recovery :: "unit option blk" where
  "mmc_blk_mq_recovery = do {
     s \<leftarrow> gets id;
     (case mq_recovery_req (bw_mq s) of
        None \<Rightarrow> ret None
      | Some t \<Rightarrow> do {
          modify (upd_mq (\<lambda>q. q\<lparr>mq_recovery_req := None, mq_rw_wait := False\<rparr>));
          bad \<leftarrow> rq_error t;
          io_when bad (do { core mmc_retune_hold_now; mmc_blk_mq_rw_recovery t });
          mmc_blk_urgent_bkops t;
          mmc_blk_mq_post_req t;
          ret (Some ())
        })
   }"

text \<open>
  With \<open>keep\<close> the request that was completed is left for the caller to post; that is the argument
  \<open>prev_req\<close> of the code, which is then not NULL.
\<close>

definition mmc_blk_mq_complete_prev_req :: "bool \<Rightarrow> nat option blk" where
  "mmc_blk_mq_complete_prev_req keep = do {
     s \<leftarrow> gets id;
     if mmc_host_done_complete s then ret None
     else (case mq_complete_req (bw_mq s) of
        None \<Rightarrow> ret None
      | Some t \<Rightarrow> do {
          mmc_blk_mq_poll_completion t;
          io_when (\<not> keep) (mmc_blk_mq_post_req t);
          modify (upd_mq (\<lambda>q. q\<lparr>mq_complete_req := None\<rparr>));
          ret (if keep then Some t else None)
        })
   }"

definition mmc_blk_mq_complete_work :: "unit blk" where
  "mmc_blk_mq_complete_work = do {
     modify (\<lambda>s. s\<lparr>bw_complete_work := False\<rparr>);
     mmc_blk_mq_complete_prev_req False;
     ret ()
   }"

text \<open>The controller reports a request, after it has written its answer into it.\<close>

definition mmc_blk_mq_req_done :: "nat \<Rightarrow> unit blk" where
  "mmc_blk_mq_req_done t = do {
     s \<leftarrow> gets id;
     if \<not> mmc_host_done_complete s then do {
       modify (upd_mq (\<lambda>q. q\<lparr>mq_complete_req := Some t, mq_rw_wait := False\<rparr>));
       if mq_waiting (bw_mq s) then note_blk BlkWake else schedule_complete
     }
     else do {
       bad \<leftarrow> rq_error t;
       s \<leftarrow> gets id;
       if bad \<or> mmc_blk_urgent_bkops_needed (bw_world s) (mqr_brq (bw_reqs s t)) then do {
         modify (upd_mq (\<lambda>q. q\<lparr>mq_recovery_needed := True, mq_recovery_req := Some t\<rparr>));
         note_blk BlkWake;
         schedule_recovery
       }
       else do {
         mmc_blk_reset_success (rw_type (mqr_req (bw_reqs s t)));
         modify (upd_mq (\<lambda>q. q\<lparr>mq_rw_wait := False\<rparr>));
         note_blk BlkWake;
         mmc_blk_mq_post_req t
       }
     }
   }"

section \<open>The command queue\<close>

definition cqe_cmd :: "mmc_blk_request \<Rightarrow> mmc_command option" where
  "cqe_cmd b = (if brq_has_cmd b then Some (brq_cmd b) else None)"

definition cqe_data :: "mmc_blk_request \<Rightarrow> mmc_data option" where
  "cqe_data b = (if brq_has_data b then Some (brq_data b) else None)"

text \<open>\<open>mmc_cqe_start_req\<close>: the request joins those that the controller works on.\<close>

definition mmc_cqe_start_req :: "nat \<Rightarrow> int blk" where
  "mmc_cqe_start_req t = do {
     err \<leftarrow> core mmc_retune;
     if err \<noteq> 0 then ret err
     else do {
       s \<leftarrow> gets id;
       let (err, m) = mmc_mrq_prep (w_host (bw_world s)) (mrq_of_brq (mqr_brq (bw_reqs s t)));
       modify (upd_brq t (brq_of_mrq m));
       if err \<noteq> 0 then ret err
       else do {
         s \<leftarrow> gets id;
         let b = mqr_brq (bw_reqs s t);
         core (emit (EvCqeRequest (cqe_cmd b) (cqe_data b)) 0);
         let err = op_cqe_request (w_ops (bw_world s)) (w_trace (bw_world s)) (cqe_cmd b) (cqe_data b);
         io_when (err = 0) (modify (\<lambda>s. s\<lparr>bw_cqe := bw_cqe s @ [t]\<rparr>));
         ret err
       }
     }
   }"

definition mmc_cqe_post_req :: "unit blk" where
  "mmc_cqe_post_req = do {
     s \<leftarrow> gets id;
     io_when (op_cqe_post_req (w_ops (bw_world s))) (core (emit EvCqePostReq 0))
   }"

definition cqe_error :: "mmc_blk_request \<Rightarrow> int" where
  "cqe_error b =
    (if brq_has_cmd b \<and> cmd_error (brq_cmd b) \<noteq> 0 then cmd_error (brq_cmd b)
     else if brq_has_data b \<and> dat_error (brq_data b) \<noteq> 0 then dat_error (brq_data b)
     else 0)"

abbreviation (input) MMC_CQE_RETRIES :: nat where "MMC_CQE_RETRIES \<equiv> 2"

text \<open>What the block layer is told of the request, and the end of its flight.\<close>

definition cqe_result :: "nat \<Rightarrow> unit blk" where
  "cqe_result t = do {
     s \<leftarrow> gets id;
     let q = bw_reqs s t;
     let b = mqr_brq q;
     if cqe_error b \<noteq> 0 then do {
       modify (upd_mqr t (\<lambda>q. q\<lparr>mqr_retries := mqr_retries q + 1\<rparr>));
       note_blk (if mqr_retries q < MMC_CQE_RETRIES then BlkRequeue t else BlkEnd t BLK_STS_IOERR)
     }
     else if brq_has_data b then do {
       pending \<leftarrow> blk_update_request t BLK_STS_OK (dat_bytes_xfered (brq_data b));
       note_blk (if pending then BlkRequeue t else BlkEnd t BLK_STS_OK)
     }
     else blk_mq_end_request t BLK_STS_OK
   }"

definition cqe_leave :: "nat \<Rightarrow> unit blk" where
  "cqe_leave t = do {
     s \<leftarrow> gets id;
     modify (upd_mq (add_in_flight (type_of t s) (- 1)));
     q \<leftarrow> gets bw_mq;
     let put_card = (mmc_tot_in_flight q = 0);
     modify (upd_mq mmc_cqe_check_busy);
     q \<leftarrow> gets bw_mq;
     io_when (\<not> mq_cqe_dcmd_busy q \<and> \<not> mq_cqe_queue_full q) (note_blk BlkRunQueues);
     io_when put_card queue_put_card
   }"

definition mmc_blk_cqe_complete_rq :: "nat \<Rightarrow> unit blk" where
  "mmc_blk_cqe_complete_rq t = do { mmc_cqe_post_req; cqe_result t; cqe_leave t }"

text \<open>What the controller tells of a request of its queue: the errors of command and data, the bytes.\<close>

definition cqe_answer :: "int \<times> int \<times> u32 \<Rightarrow> mmc_blk_request \<Rightarrow> mmc_blk_request" where
  "cqe_answer a b =
    (case a of (cmd_err, data_err, n) \<Rightarrow>
       b\<lparr>brq_cmd := (if brq_has_cmd b then (brq_cmd b)\<lparr>cmd_error := cmd_err\<rparr> else brq_cmd b),
         brq_data := (if brq_has_data b then (brq_data b)\<lparr>dat_error := data_err, dat_bytes_xfered := n\<rparr>
           else brq_data b)\<rparr>)"

definition mmc_blk_cqe_req_done :: "nat \<Rightarrow> unit blk" where
  "mmc_blk_cqe_req_done t = do {
     s \<leftarrow> gets id;
     if mq_in_recovery (bw_mq s) then mmc_blk_cqe_complete_rq t else blk_mq_complete_request t
   }"

definition mmc_cqe_request_done :: "nat \<Rightarrow> int \<times> int \<times> u32 \<Rightarrow> unit blk" where
  "mmc_cqe_request_done t a = do {
     modify (upd_brq t (cqe_answer a));
     modify (\<lambda>s. s\<lparr>bw_cqe := remove1 t (bw_cqe s)\<rparr>);
     s \<leftarrow> gets id;
     let b = mqr_brq (bw_reqs s t);
     io_when (brq_has_cmd b \<and> cmd_error (brq_cmd b) = - EILSEQ \<or> brq_has_data b \<and> dat_error (brq_data b) = - EILSEQ)
       (core mmc_retune_needed);
     mmc_blk_cqe_req_done t
   }"

text \<open>
  \<open>mmc_cqe_recovery\<close>: the controller reports all the requests that it still has (\<open>ans\<close>), which
  is what the comment of the function asks of it.
\<close>

fun cqe_report :: "(nat \<Rightarrow> int \<times> int \<times> u32) \<Rightarrow> nat list \<Rightarrow> unit blk" where
  "cqe_report ans [] = ret ()"
| "cqe_report ans (t # ts) = do { mmc_cqe_request_done t (ans t); cqe_report ans ts }"

definition cqe_recovery_cmd :: "u32 \<Rightarrow> u32 \<Rightarrow> mmc_command" where
  "cqe_recovery_cmd opcode arg = cmd0\<lparr>cmd_opcode := opcode, cmd_arg := arg,
    cmd_flags := {MMC_RSP_R1B_NO_CRC, MMC_CMD_AC}, cmd_busy_timeout := 1000\<rparr>"

definition mmc_cqe_recovery :: "(nat \<Rightarrow> int \<times> int \<times> u32) \<Rightarrow> int blk" where
  "mmc_cqe_recovery ans = do {
     core (do {
       mmc_retune_hold_now;
       emit (EvCqeRecovery True) 0;
       mmc_wait_for_cmd hooks (cqe_recovery_cmd MMC_STOP_TRANSMISSION 0) 0;
       ret ()
     });
     cmd \<leftarrow> core (mmc_wait_for_cmd hooks (cqe_recovery_cmd MMC_CMDQ_TASK_MGMT 1) 0);
     core (emit (EvCqeRecovery False) 0);
     s \<leftarrow> gets id;
     cqe_report ans (bw_cqe s);
     core mmc_retune_release;
     ret (cmd_error cmd)
   }"

definition mmc_blk_cqe_recovery :: "(nat \<Rightarrow> int \<times> int \<times> u32) \<Rightarrow> unit blk" where
  "mmc_blk_cqe_recovery ans = do {
     err \<leftarrow> mmc_cqe_recovery ans;
     if err \<noteq> 0 then do { mmc_blk_reset MMC_BLK_CQE_RECOVERY; ret () }
     else mmc_blk_reset_success MMC_BLK_CQE_RECOVERY
   }"

definition mmc_blk_cqe_issue_flush :: "nat \<Rightarrow> int blk" where
  "mmc_blk_cqe_issue_flush t = do {
     modify (upd_brq t (\<lambda>_. brq0\<lparr>brq_has_cmd := True, brq_cmd := cmd0\<lparr>cmd_opcode := MMC_SWITCH,
       cmd_arg := push_bit 24 MMC_SWITCH_MODE_WRITE_BYTE OR push_bit 16 (of_nat EXT_CSD_FLUSH_CACHE) OR push_bit 8 1
         OR ucast EXT_CSD_CMD_SET_NORMAL,
       cmd_flags := {MMC_CMD_AC, MMC_RSP_R1B}\<rparr>\<rparr>));
     mmc_cqe_start_req t
   }"

definition mmc_blk_cqe_issue_rw_rq :: "nat \<Rightarrow> int blk" where
  "mmc_blk_cqe_issue_rw_rq t = do {
     s \<leftarrow> gets id;
     modify (upd_brq t (\<lambda>_. fst (mmc_blk_data_prep (bw_world s) (bw_layer s) (bw_md s) (mqr_req (bw_reqs s t)) False)));
     mmc_cqe_start_req t
   }"

section \<open>Completion by the block layer, timeouts, recovery\<close>

definition mmc_blk_mq_complete :: "nat \<Rightarrow> unit blk" where
  "mmc_blk_mq_complete t = do {
     modify (\<lambda>s. s\<lparr>bw_completing := remove1 t (bw_completing s)\<rparr>);
     q \<leftarrow> gets bw_mq;
     if mq_use_cqe q then mmc_blk_cqe_complete_rq t else mmc_blk_mq_complete_rq t
   }"

definition mmc_cqe_recovery_notifier :: "unit blk" where
  "mmc_cqe_recovery_notifier = do {
     q \<leftarrow> gets bw_mq;
     io_when (\<not> mq_recovery_needed q) (do {
       modify (upd_mq (\<lambda>q. q\<lparr>mq_recovery_needed := True\<rparr>));
       schedule_recovery
     })
   }"

datatype blk_eh_timer = BLK_EH_DONE | BLK_EH_RESET_TIMER

definition mmc_cqe_timed_out :: "nat \<Rightarrow> blk_eh_timer blk" where
  "mmc_cqe_timed_out t = do {
     s \<leftarrow> gets id;
     if type_of t s = MMC_ISSUE_SYNC then ret BLK_EH_RESET_TIMER
     else do {
       let (timed_out, recovery_needed) = op_cqe_timeout (w_ops (bw_world s)) (w_trace (bw_world s));
       core (emit EvCqeTimeout 0);
       if timed_out then do { io_when recovery_needed mmc_cqe_recovery_notifier; ret BLK_EH_RESET_TIMER }
       else do { blk_mq_complete_request t; ret BLK_EH_DONE }
     }
   }"

definition mmc_mq_timed_out :: "nat \<Rightarrow> blk_eh_timer blk" where
  "mmc_mq_timed_out t = do {
     q \<leftarrow> gets bw_mq;
     if mq_recovery_needed q \<or> \<not> mq_use_cqe q then ret BLK_EH_RESET_TIMER else mmc_cqe_timed_out t
   }"

definition mmc_mq_recovery_handler :: "(nat \<Rightarrow> int \<times> int \<times> u32) \<Rightarrow> unit option blk" where
  "mmc_mq_recovery_handler ans = do {
     modify (\<lambda>s. s\<lparr>bw_recovery_work := False\<rparr>);
     queue_get_card;
     modify (upd_mq (\<lambda>q. q\<lparr>mq_in_recovery := True\<rparr>));
     q \<leftarrow> gets bw_mq;
     r \<leftarrow> (if mq_use_cqe q then do { mmc_blk_cqe_recovery ans; ret (Some ()) } else mmc_blk_mq_recovery);
     (case r of
        None \<Rightarrow> ret None
      | Some _ \<Rightarrow> do {
          modify (upd_mq (\<lambda>q. q\<lparr>mq_in_recovery := False, mq_recovery_needed := False\<rparr>));
          queue_put_card;
          note_blk BlkRunQueues;
          ret (Some ())
        })
   }"

section \<open>Dispatch\<close>

text \<open>The condition that a dispatch waits for, and the error it gets.\<close>

definition mmc_blk_rw_wait_cond :: "(bool \<times> int) blk" where
  "mmc_blk_rw_wait_cond = do {
     q \<leftarrow> gets bw_mq;
     let go_on = (mq_recovery_needed q \<or> \<not> mq_rw_wait q);
     modify (upd_mq (\<lambda>q. q\<lparr>mq_waiting := \<not> go_on\<rparr>));
     ret (go_on, if mq_recovery_needed q then - EBUSY else 0)
   }"

text \<open>None is a dispatch that sleeps; woken up, it starts \<open>mmc_blk_rw_wait\<close> anew.\<close>

definition mmc_blk_rw_wait :: "bool \<Rightarrow> (int \<times> nat option) option blk" where
  "mmc_blk_rw_wait keep = do {
     r \<leftarrow> mmc_blk_rw_wait_cond;
     if \<not> fst r then ret None
     else do {
       prev \<leftarrow> mmc_blk_mq_complete_prev_req keep;
       ret (Some (snd r, prev))
     }
   }"

text \<open>The start of a read or write that has its turn, and what follows at once.\<close>

definition start_rw :: "nat \<Rightarrow> nat option \<Rightarrow> int blk" where
  "start_rw t prev = do {
     modify (upd_mq (\<lambda>q. q\<lparr>mq_rw_wait := True\<rparr>));
     s \<leftarrow> gets id;
     r \<leftarrow> core (mmc_start_request hooks (mrq_of_brq (mqr_brq (bw_reqs s t))));
     (if fst r = 0 then modify (\<lambda>s. s\<lparr>bw_answers := bw_answers s @ [(t, snd r)]\<rparr>)
      else modify (upd_brq t (brq_of_mrq (snd r))));
     (case prev of None \<Rightarrow> ret () | Some p \<Rightarrow> mmc_blk_mq_post_req p);
     io_when (fst r \<noteq> 0) (modify (upd_mq (\<lambda>q. q\<lparr>mq_rw_wait := False\<rparr>)));
     s \<leftarrow> gets id;
     io_when (fst r \<noteq> 0 \<or> mmc_host_done_complete s) (core mmc_retune_release);
     ret (fst r)
   }"

text \<open>
  \<open>mmc_blk_mq_issue_rw_rq\<close> after the preparation, from its wait on.  A request that was completed
  while recovery is needed would be lost here.
\<close>

definition issue_rw_rq :: "nat \<Rightarrow> int option blk" where
  "issue_rw_rq t = do {
     r \<leftarrow> mmc_blk_rw_wait True;
     (case r of
        None \<Rightarrow> ret None
      | Some (err, prev) \<Rightarrow> do {
          err \<leftarrow> (if err \<noteq> 0 then ret err else start_rw t prev);
          io_when (err \<noteq> 0) (mmc_post_req t err);
          ret (Some err)
        })
   }"

definition issue_sync :: "nat \<Rightarrow> mmc_issued blk" where
  "issue_sync t = do {
     s \<leftarrow> gets id;
     (case rq_op (mqr_req (bw_reqs s t)) of
        REQ_OP_DRV_IN \<Rightarrow> do { mmc_blk_issue_drv_op t; ret MMC_REQ_FINISHED }
      | REQ_OP_DRV_OUT \<Rightarrow> do { mmc_blk_issue_drv_op t; ret MMC_REQ_FINISHED }
      | REQ_OP_DISCARD \<Rightarrow> do { mmc_blk_issue_discard_rq t; ret MMC_REQ_FINISHED }
      | REQ_OP_SECURE_ERASE \<Rightarrow> do { mmc_blk_issue_secdiscard_rq t; ret MMC_REQ_FINISHED }
      | REQ_OP_FLUSH \<Rightarrow> do { mmc_blk_issue_flush t; ret MMC_REQ_FINISHED }
      | _ \<Rightarrow> ret MMC_REQ_FAILED_TO_START)
   }"

definition issued_of :: "int \<Rightarrow> mmc_issued" where
  "issued_of err = (if err = 0 then MMC_REQ_STARTED else if err = - EBUSY then MMC_REQ_BUSY
     else MMC_REQ_FAILED_TO_START)"

text \<open>
  \<open>mmc_blk_mq_issue_rq\<close> up to the wait for the read or write before (None), and from there on.
  With a command queue there is no such wait.
\<close>

definition issue_idle :: "nat \<Rightarrow> mmc_issued blk" where
  "issue_idle t = do {
     s \<leftarrow> gets id;
     core (emit EvCqeIdle 0);
     if op_cqe_wait_for_idle (w_ops (bw_world s)) (w_trace (bw_world s)) \<noteq> 0 then ret MMC_REQ_BUSY
     else issue_sync t
   }"

definition issue_async :: "nat \<Rightarrow> int option blk" where
  "issue_async t = do {
     s \<leftarrow> gets id;
     let op = rq_op (mqr_req (bw_reqs s t));
     if op = REQ_OP_FLUSH then do { err \<leftarrow> mmc_blk_cqe_issue_flush t; ret (Some err) }
     else if op \<noteq> REQ_OP_READ \<and> op \<noteq> REQ_OP_WRITE then ret (Some (- EINVAL))
     else if mq_use_cqe (bw_mq s) then do { err \<leftarrow> mmc_blk_cqe_issue_rw_rq t; ret (Some err) }
     else do { rw_prep t False; mmc_pre_req t; ret None }
   }"

definition issue_begin :: "nat \<Rightarrow> mmc_issued option blk" where
  "issue_begin t = do {
     s \<leftarrow> gets id;
     err \<leftarrow> mmc_blk_part_switch (md_part_type (bw_md s));
     s \<leftarrow> gets id;
     if err \<noteq> 0 then ret (Some MMC_REQ_FAILED_TO_START)
     else if type_of t s \<noteq> MMC_ISSUE_SYNC then do { r \<leftarrow> issue_async t; ret (map_option issued_of r) }
     else if mq_use_cqe (bw_mq s) then do { i \<leftarrow> issue_idle t; ret (Some i) }
     else ret None
   }"

definition issue_go :: "nat \<Rightarrow> mmc_issue_type \<Rightarrow> mmc_issued option blk" where
  "issue_go t ty =
    (if ty = MMC_ISSUE_SYNC then do {
       r \<leftarrow> mmc_blk_rw_wait False;
       (case r of
          None \<Rightarrow> ret None
        | Some (err, _) \<Rightarrow> if err \<noteq> 0 then ret (Some MMC_REQ_BUSY) else do { i \<leftarrow> issue_sync t; ret (Some i) })
     }
     else do { r \<leftarrow> issue_rw_rq t; ret (map_option issued_of r) })"

text \<open>
  \<open>mmc_mq_queue_rq\<close> up to the call of \<open>mmc_blk_mq_issue_rq\<close>: a request that is let in, and whether
  it is; and what follows the call.
\<close>

definition queue_admit :: "nat \<Rightarrow> mmc_issue_type \<Rightarrow> unit blk" where
  "queue_admit t ty = do {
     modify (upd_mq (\<lambda>q. (add_in_flight ty 1 q)\<lparr>mq_busy := True\<rparr>));
     s \<leftarrow> gets id;
     let q = bw_mq s;
     io_when (\<not> rq_dontprep (mqr_req (bw_reqs s t))) (modify (upd_mqr t (\<lambda>q. q\<lparr>mqr_retries := 0,
       mqr_req := (mqr_req q)\<lparr>rq_dontprep := True\<rparr>\<rparr>)));
     io_when (mmc_tot_in_flight q = 1) queue_get_card;
     io_when (mq_use_cqe q) (core (modify (upd_host (\<lambda>h. h\<lparr>h_retune_now :=
       h_need_retune h \<and> mmc_cqe_qcnt q = 1 \<and> h_hold_retune h = 0\<rparr>))));
     note_blk (BlkStart t)
   }"

definition queue_enter :: "nat \<Rightarrow> (blk_status + mmc_issue_type) blk" where
  "queue_enter t = do {
     s \<leftarrow> gets id;
     let ty = type_of t s;
     let q = bw_mq s;
     if mmc_card_removed (bw_world s) then do {
       modify (upd_mqr t (\<lambda>q. q\<lparr>mqr_req := (mqr_req q)\<lparr>rq_quiet := True\<rparr>\<rparr>));
       ret (Inl BLK_STS_IOERR)
     }
     else if mq_recovery_needed q \<or> mq_busy q then ret (Inl BLK_STS_RESOURCE)
     else if ty = MMC_ISSUE_DCMD \<and> mmc_cqe_dcmd_busy q then do {
       modify (upd_mq (\<lambda>q. q\<lparr>mq_cqe_dcmd_busy := True\<rparr>));
       ret (Inl BLK_STS_RESOURCE)
     }
     else do { queue_admit t ty; ret (Inr ty) }
   }"

definition queue_leave :: "mmc_issue_type \<Rightarrow> mmc_issued \<Rightarrow> blk_status blk" where
  "queue_leave ty issued = do {
     (if issued \<noteq> MMC_REQ_STARTED then do {
        modify (upd_mq (add_in_flight ty (- 1)));
        q \<leftarrow> gets bw_mq;
        modify (upd_mq (\<lambda>q. q\<lparr>mq_busy := False\<rparr>));
        io_when (mmc_tot_in_flight q = 0) queue_put_card
      }
      else modify (upd_mq (\<lambda>q. q\<lparr>mq_busy := False\<rparr>)));
     ret (case issued of MMC_REQ_BUSY \<Rightarrow> BLK_STS_RESOURCE | MMC_REQ_FAILED_TO_START \<Rightarrow> BLK_STS_IOERR
       | _ \<Rightarrow> BLK_STS_OK)
   }"

text \<open>A dispatch that sleeps is remembered; \<open>queue_resume\<close> goes on with it.\<close>

definition queue_issue :: "nat \<Rightarrow> mmc_issue_type \<Rightarrow> mmc_issued option \<Rightarrow> blk_status option blk" where
  "queue_issue t ty i = (case i of
     Some i \<Rightarrow> do { modify (\<lambda>s. s\<lparr>bw_dispatch := None\<rparr>); r \<leftarrow> queue_leave ty i; ret (Some r) }
   | None \<Rightarrow> do { modify (\<lambda>s. s\<lparr>bw_dispatch := Some (t, ty)\<rparr>); ret None })"

definition mmc_mq_queue_rq :: "nat \<Rightarrow> blk_status option blk" where
  "mmc_mq_queue_rq t = do {
     r \<leftarrow> queue_enter t;
     (case r of
        Inl status \<Rightarrow> ret (Some status)
      | Inr ty \<Rightarrow> do {
          i \<leftarrow> issue_begin t;
          i \<leftarrow> (if i = None then issue_go t ty else ret i);
          queue_issue t ty i
        })
   }"

definition queue_resume :: "nat \<Rightarrow> mmc_issue_type \<Rightarrow> blk_status option blk" where
  "queue_resume t ty = do { i \<leftarrow> issue_go t ty; queue_issue t ty i }"

end
