(* ===== verification/Block_Queue_Facts.thy ===== *)
theory Block_Queue_Facts
  imports Block_Queue Rescan_Ends Erase_Facts
begin

text \<open>
  What the operations do to the queue: everything that reads, writes, resets or recovers leaves it
  alone (\<open>queue_kept\<close>), and the operations of \<open>queue.c\<close> change it as the functions on \<open>queue_view\<close>
  say.
\<close>

section \<open>The queue as its bookkeeping sees it\<close>

definition cards_held :: "blk_event list \<Rightarrow> int" where
  "cards_held es = int (count_list es BlkGetCard) - int (count_list es BlkPutCard)"

lemma cards_held_append [simp]:
  "cards_held (es @ [e]) = cards_held es + (if e = BlkGetCard then 1 else if e = BlkPutCard then - 1 else 0)"
  by (simp add: cards_held_def)

record queue_view =
  qv_mq :: mmc_queue
  qv_dispatch :: "(nat \<times> mmc_issue_type) option"
  qv_answers :: "nat list"
  qv_cqe :: "nat list"
  qv_completing :: "nat list"
  qv_recovery_work :: bool
  qv_complete_work :: bool
  qv_held :: int
  qv_done_complete :: bool

definition view :: "blk_world \<Rightarrow> queue_view" where
  "view s = \<lparr>qv_mq = bw_mq s, qv_dispatch = bw_dispatch s, qv_answers = List.map fst (bw_answers s),
     qv_cqe = bw_cqe s, qv_completing = bw_completing s, qv_recovery_work = bw_recovery_work s,
     qv_complete_work = bw_complete_work s, qv_held = cards_held (bw_log s),
     qv_done_complete = mmc_host_done_complete s\<rparr>"

definition queue_kept :: "blk_world \<Rightarrow> blk_world \<Rightarrow> bool" where
  "queue_kept s t \<longleftrightarrow> view t = view s"

interpretation qk: io_preorder queue_kept
  by unfold_locales (simp_all add: queue_kept_def)

lemma kept_view: "state_io_rel queue_kept m \<Longrightarrow> view (snd (run_state m s)) = view s"
  by (simp add: state_io_rel_def queue_kept_def)

text \<open>What follows from equal views.\<close>

lemma view_parts:
  assumes "view t = view s"
  shows "bw_mq t = bw_mq s" "bw_dispatch t = bw_dispatch s" "bw_cqe t = bw_cqe s"
    "mmc_host_done_complete t \<longleftrightarrow> mmc_host_done_complete s"
  using assms by (simp_all add: view_def)

section \<open>Leaves\<close>

lemma core_kept: "state_io_rel same_ops m \<Longrightarrow> state_io_rel queue_kept (core m)"
  by (auto simp: state_io_rel_def queue_kept_def view_def same_ops_def)

lemma core_ev_kept: "state_io_rel evolves m \<Longrightarrow> state_io_rel queue_kept (core m)"
  by (intro core_kept evolves_same)

lemma note_kept:
  "e \<noteq> BlkGetCard \<Longrightarrow> e \<noteq> BlkPutCard \<Longrightarrow> state_io_rel queue_kept (note_blk e)"
  unfolding note_blk_def by (rule qk.rel_modify) (simp add: queue_kept_def view_def)

lemma upd_kept:
  "state_io_rel queue_kept (modify (upd_mqr t f))" "state_io_rel queue_kept (modify (upd_brq t g))"
  "state_io_rel queue_kept (modify (upd_md h))" "state_io_rel queue_kept (modify (\<lambda>s. s\<lparr>bw_part_curr := k s\<rparr>))"
  by (rule qk.rel_modify; simp add: queue_kept_def view_def upd_brq_def upd_mqr_def upd_md_def)+

lemma rel_State: "(\<And>s. R s (snd (f s))) \<Longrightarrow> state_io_rel R (State f)"
  by (simp add: state_io_rel_def)

lemmas kept_rules = upd_kept qk.rel_intros

section \<open>Operations that leave the queue alone\<close>

lemma update_request_kept: "state_io_rel queue_kept (blk_update_request t st n)"
  unfolding blk_update_request_def by (intro kept_rules note_kept) simp_all

lemma part_switch_kept: "state_io_rel queue_kept (mmc_blk_part_switch p)"
proof -
  have "state_io_rel evolves (part_config_switch c p)" for c
    unfolding part_config_switch_def mmc_blk_part_switch_pre_def mmc_blk_part_switch_post_def
    by (intro ev.rel_intros io_rel quiet_evolves)
  then show ?thesis unfolding mmc_blk_part_switch_def by (intro kept_rules core_ev_kept)
qed

lemma reset_kept: "state_io_rel queue_kept (mmc_blk_reset type)"
proof -
  have "state_io_rel same_ops block_hw_reset"
    unfolding block_hw_reset_def by (intro so.rel_intros hw_reset_same)
  then show ?thesis unfolding mmc_blk_reset_def by (intro kept_rules core_kept part_switch_kept)
qed

lemma reset_success_kept: "state_io_rel queue_kept (mmc_blk_reset_success type)"
  unfolding mmc_blk_reset_success_def by (intro kept_rules)

lemma reset_loop_kept:
  assumes "state_io_rel same_ops round"
  shows "state_io_rel queue_kept (State (reset_loop type round))"
proof (rule rel_State)
  show "queue_kept s (snd (reset_loop type round s))" for s
    using assms
  proof (induction type round s rule: reset_loop.induct)
    case (1 type round s)
    obtain x t where x: "run_state (core round) s = (x, t)" by fastforce
    have st: "queue_kept s t" by (rule qk.rel_run [OF core_kept [OF 1(2)] x])
    show ?case
    proof (cases x)
      case (Inl a)
      with x st show ?thesis by (simp add: reset_loop.simps [of type round s] del: run_core)
    next
      case (Inr err)
      obtain r u where u: "run_state (mmc_blk_reset type) t = (r, u)" by fastforce
      have tu: "queue_kept t u" by (rule qk.rel_run [OF reset_kept u])
      with st have su: "queue_kept s u" by (rule qk.trn)
      have "queue_kept u (snd (reset_loop type round u))" if "r = 0 \<and> type \<noteq> 0"
        using 1(1) [OF x [symmetric] Inr u [symmetric] that 1(2)] .
      then show ?thesis using x u Inr su qk.trn [OF su]
        by (simp add: reset_loop.simps [of type round s] del: run_core)
    qed
  qed
qed

lemma inand_evolves: "state_io_rel evolves (inand_cmd38 a)"
  unfolding inand_cmd38_def by (intro ev.rel_intros io_rel)

lemma discard_rounds:
  "state_io_rel same_ops (discard_round from nr arg)" "state_io_rel same_ops (secdiscard_round from nr arg)"
  unfolding discard_round_def secdiscard_round_def
  by (intro evolves_same ev.rel_intros inand_evolves erase_rel)+


lemma blk_end_kept: "state_io_rel queue_kept (blk_mq_end_request t st)"
  unfolding blk_mq_end_request_def by (intro note_kept) simp_all

lemma status_evolves: "state_io_rel evolves (send_status_retries hooks n)"
  unfolding send_status_retries_def by (intro ev.rel_intros io_rel quiet_evolves)

lemma detect_removed_same: "state_io_rel same_ops mmc_detect_card_removed"
  unfolding mmc_detect_card_removed_def Let_def detect_change_def
  by (intro same_intros host_same removed_same; simp)

lemma busy_detect_evolves: "state_io_rel evolves (card_busy_detect ms)"
  unfolding card_busy_detect_def busy_detect_body_def
  by (intro ev.rel_intros io_rel status_evolves)

lemma ioctl_kept: "state_io_rel queue_kept (blk_ioctl_cmd i)" "state_io_rel queue_kept (blk_ioctl_cmds is)"
proof -
  have poll: "state_io_rel evolves (rpmb_card_status_poll k)" for k
    by (induction k) (auto intro!: ev.rel_intros status_evolves io_rel)
  have san: "state_io_rel evolves ioctl_do_sanitize"
    unfolding ioctl_do_sanitize_def by (intro ev.rel_intros io_rel)
  show cmd: "state_io_rel queue_kept (blk_ioctl_cmd i)" for i
    unfolding blk_ioctl_cmd_def
    by (intro kept_rules part_switch_kept core_ev_kept san poll quiet_evolves io_rel)
  show "state_io_rel queue_kept (blk_ioctl_cmds is)"
    by (induction "is") (auto intro!: kept_rules cmd)
qed

lemma rel_drv_op:
  assumes "state_io_rel R a" "state_io_rel R b" "state_io_rel R c" "state_io_rel R d"
  shows "state_io_rel R (case x of MMC_DRV_OP_BOOT_WP \<Rightarrow> a | MMC_DRV_OP_GET_CARD_STATUS \<Rightarrow> b
    | MMC_DRV_OP_GET_EXT_CSD \<Rightarrow> c | _ \<Rightarrow> d)"
  using assms by (cases x) simp_all

lemma drv_op_kept: "state_io_rel queue_kept (mmc_blk_issue_drv_op t)"
proof -
  have "state_io_rel queue_kept (drv_op_result t)"
    unfolding drv_op_result_def
    by (intro kept_rules rel_drv_op core_ev_kept ioctl_kept part_switch_kept
        ev.rel_intros quiet_evolves status_evolves io_rel)
  then show ?thesis unfolding mmc_blk_issue_drv_op_def by (intro kept_rules blk_end_kept)
qed

lemma discard_kept:
  "state_io_rel queue_kept (mmc_blk_issue_discard_rq t)" "state_io_rel queue_kept (mmc_blk_issue_secdiscard_rq t)"
  "state_io_rel queue_kept (mmc_blk_issue_flush t)"
  unfolding mmc_blk_issue_discard_rq_def mmc_blk_issue_secdiscard_rq_def mmc_blk_issue_flush_def
  by (intro kept_rules blk_end_kept reset_loop_kept discard_rounds reset_success_kept core_ev_kept io_rel)+

lemma issue_sync_kept: "state_io_rel queue_kept (issue_sync t)"
proof -
  have "state_io_rel queue_kept (case x of
        REQ_OP_DRV_IN \<Rightarrow> do { mmc_blk_issue_drv_op t; ret MMC_REQ_FINISHED }
      | REQ_OP_DRV_OUT \<Rightarrow> do { mmc_blk_issue_drv_op t; ret MMC_REQ_FINISHED }
      | REQ_OP_DISCARD \<Rightarrow> do { mmc_blk_issue_discard_rq t; ret MMC_REQ_FINISHED }
      | REQ_OP_SECURE_ERASE \<Rightarrow> do { mmc_blk_issue_secdiscard_rq t; ret MMC_REQ_FINISHED }
      | REQ_OP_FLUSH \<Rightarrow> do { mmc_blk_issue_flush t; ret MMC_REQ_FINISHED }
      | _ \<Rightarrow> ret MMC_REQ_FAILED_TO_START)" for x
    by (cases x) (simp_all add: kept_rules drv_op_kept discard_kept)
  then show ?thesis unfolding issue_sync_def by (intro kept_rules)
qed

lemma rw_prep_kept: "state_io_rel queue_kept (rw_prep t b)"
  unfolding rw_prep_def by (intro kept_rules)

lemma rq_error_kept: "state_io_rel queue_kept (rq_error t)"
  unfolding rq_error_def by (intro kept_rules)

lemma xfered_kept: "state_io_rel queue_kept (set_bytes_xfered t n)"
  unfolding set_bytes_xfered_def by (intro kept_rules)

lemma fix_state_evolves: "state_io_rel evolves (mmc_blk_fix_state d)"
  unfolding mmc_blk_fix_state_def mmc_blk_send_stop_def
  by (intro ev.rel_intros io_rel busy_detect_evolves)

text \<open>What each round of the single reads does, the loop does.\<close>

lemma read_single_rel:
  assumes R: "io_preorder R" and sector: "state_io_rel R (read_sector t)" and fail: "state_io_rel R (read_single_fail t)"
    and upd: "\<And>st n. state_io_rel R (blk_update_request t st n)"
  shows "R s (snd (read_single t n e s))"
  using sector fail upd
proof (induction t n e s rule: read_single.induct)
  case (1 t n e s)
  note run = io_preorder.rel_run [OF R] and trn = io_preorder.trn [OF R]
  obtain r v where r: "run_state (read_sector t) s = (r, v)" by fastforce
  have sv: "R s v" by (rule run [OF 1(2) r])
  show ?case
  proof (cases r)
    case None
    obtain w where "run_state (read_single_fail t) v = ((), w)" by (rule unit_run)
    with run [OF 1(3) this] r None trn [OF sv] show ?thesis
      by (simp add: read_single.simps [of t n e s])
  next
    case (Some p)
    obtain b status where p: "(b, status) = p" by (metis surj_pair)
    obtain k f where k: "(k, f) = sector_result (bw_world v) n e b status" by (metis surj_pair)
    obtain pending u where u: "(pending, u) = run_state (blk_update_request t f 512) v" by (metis surj_pair)
    have su: "R s u" by (rule trn [OF sv run [OF 1(4) u [symmetric]]])
    have "R u (snd (read_single t k f u))" if "pending \<and> bytes_left t u < bytes_left t s"
      using 1(1) [OF r [symmetric] Some p k u that 1(2-4)] .
    with r Some p [symmetric] k [symmetric] u [symmetric] su trn [OF su] show ?thesis
      by (simp add: read_single.simps [of t n e s])
  qed
qed

lemma read_single_kept: "state_io_rel queue_kept (mmc_blk_read_single t)"
proof -
  have sector: "state_io_rel queue_kept (read_sector t)"
    unfolding read_sector_def
    by (intro kept_rules rw_prep_kept core_ev_kept fix_state_evolves io_rel)
  have fail: "state_io_rel queue_kept (read_single_fail t)"
    unfolding read_single_fail_def by (intro kept_rules xfered_kept update_request_kept)
  show ?thesis unfolding mmc_blk_read_single_def
    by (intro rel_State read_single_rel [OF qk.io_preorder_axioms sector fail update_request_kept])
qed

lemma recovery_kept: "state_io_rel queue_kept (mmc_blk_mq_rw_recovery t)"
proof -
  have "state_io_rel queue_kept (recovery_status t)"
    unfolding recovery_status_def by (intro kept_rules core_ev_kept xfered_kept status_evolves io_rel)
  moreover have "state_io_rel evolves mmc_sd_num_wr_blocks"
    unfolding mmc_sd_num_wr_blocks_def by (intro ev.rel_intros io_rel)
  then have "state_io_rel queue_kept (recovery_written t err)" for err
    unfolding recovery_written_def by (intro kept_rules core_ev_kept xfered_kept)
  moreover have "state_io_rel queue_kept (recovery_retry t)"
    unfolding recovery_retry_def by (intro kept_rules reset_kept read_single_kept)
  ultimately show ?thesis unfolding mmc_blk_mq_rw_recovery_def
    by (intro kept_rules core_ev_kept fix_state_evolves reset_kept core_kept detect_removed_same)
qed

lemma urgent_kept: "state_io_rel queue_kept (mmc_blk_urgent_bkops t)"
  unfolding mmc_blk_urgent_bkops_def by (intro kept_rules core_ev_kept io_rel)

lemma poll_completion_kept: "state_io_rel queue_kept (mmc_blk_mq_poll_completion t)"
proof -
  have "state_io_rel queue_kept (mmc_blk_card_busy t)"
    unfolding mmc_blk_card_busy_def by (intro kept_rules core_ev_kept busy_detect_evolves xfered_kept)
  then show ?thesis unfolding mmc_blk_mq_poll_completion_def
    by (intro kept_rules rq_error_kept recovery_kept reset_success_kept urgent_kept core_ev_kept io_rel)
qed

lemma complete_kept: "state_io_rel queue_kept (mmc_blk_mq_complete_rq t)"
  unfolding mmc_blk_mq_complete_rq_def by (intro kept_rules update_request_kept note_kept blk_end_kept) simp_all

lemma pre_post_kept: "state_io_rel queue_kept (mmc_pre_req t)" "state_io_rel queue_kept (mmc_post_req t err)"
  unfolding mmc_pre_req_def mmc_post_req_def by (intro kept_rules core_ev_kept io_rel)+

end
