(* ===== verification/Block_Queue_Views.thy ===== *)
theory Block_Queue_Views
  imports Block_Queue_Facts
begin

text \<open>The operations of the queue as functions on its view.\<close>

declare run_core [simp del]

section \<open>Reads and updates\<close>

lemma read_view:
  "bw_mq s = qv_mq (view s)" "bw_dispatch s = qv_dispatch (view s)" "bw_cqe s = qv_cqe (view s)"
  "mmc_host_done_complete s = qv_done_complete (view s)"
  by (simp_all add: view_def)

lemma upd_view [simp]:
  "view (upd_mq f s) = (view s)\<lparr>qv_mq := f (qv_mq (view s))\<rparr>"
  "view (upd_mqr t g s) = view s" "view (upd_brq t h s) = view s" "view (upd_md k s) = view s"
  "view (s\<lparr>bw_dispatch := d\<rparr>) = (view s)\<lparr>qv_dispatch := d\<rparr>"
  "view (s\<lparr>bw_answers := bw_answers s @ [(t, m)]\<rparr>) = (view s)\<lparr>qv_answers := qv_answers (view s) @ [t]\<rparr>"
  "view (s\<lparr>bw_cqe := bw_cqe s @ [t]\<rparr>) = (view s)\<lparr>qv_cqe := qv_cqe (view s) @ [t]\<rparr>"
  "view (s\<lparr>bw_cqe := remove1 t (bw_cqe s)\<rparr>) = (view s)\<lparr>qv_cqe := remove1 t (qv_cqe (view s))\<rparr>"
  "view (s\<lparr>bw_completing := bw_completing s @ [t]\<rparr>) = (view s)\<lparr>qv_completing := qv_completing (view s) @ [t]\<rparr>"
  "view (s\<lparr>bw_completing := remove1 t (bw_completing s)\<rparr>) =
    (view s)\<lparr>qv_completing := remove1 t (qv_completing (view s))\<rparr>"
  "view (s\<lparr>bw_recovery_work := b\<rparr>) = (view s)\<lparr>qv_recovery_work := b\<rparr>"
  "view (s\<lparr>bw_complete_work := b\<rparr>) = (view s)\<lparr>qv_complete_work := b\<rparr>"
  by (simp_all add: view_def upd_mq_def upd_mqr_def upd_brq_def upd_md_def)

lemma note_view [simp]:
  "view (snd (run_state (note_blk e) s)) =
    (view s)\<lparr>qv_held := qv_held (view s) + (if e = BlkGetCard then 1 else if e = BlkPutCard then - 1 else 0)\<rparr>"
  by (simp add: note_blk_def view_def)

lemma tot_add [simp]: "mmc_tot_in_flight (add_in_flight ty n q) = mmc_tot_in_flight q + n"
  by (cases ty) (simp_all add: mmc_tot_in_flight_def add_in_flight_def)

lemma tot_cong [simp]:
  "mmc_tot_in_flight (q\<lparr>mq_busy := b\<rparr>) = mmc_tot_in_flight q"
  "mmc_tot_in_flight (q\<lparr>mq_cqe_dcmd_busy := b\<rparr>) = mmc_tot_in_flight q"
  "mmc_tot_in_flight (q\<lparr>mq_recovery_needed := b\<rparr>) = mmc_tot_in_flight q"
  "mmc_tot_in_flight (q\<lparr>mq_in_recovery := b\<rparr>) = mmc_tot_in_flight q"
  "mmc_tot_in_flight (q\<lparr>mq_rw_wait := b\<rparr>) = mmc_tot_in_flight q"
  "mmc_tot_in_flight (q\<lparr>mq_waiting := b\<rparr>) = mmc_tot_in_flight q"
  "mmc_tot_in_flight (q\<lparr>mq_recovery_req := r\<rparr>) = mmc_tot_in_flight q"
  "mmc_tot_in_flight (q\<lparr>mq_complete_req := r\<rparr>) = mmc_tot_in_flight q"
  "mmc_tot_in_flight (mmc_cqe_check_busy q) = mmc_tot_in_flight q"
  by (simp_all add: mmc_tot_in_flight_def mmc_cqe_check_busy_def Let_def)

lemma card_view [simp]:
  "view (snd (run_state queue_get_card s)) = (view s)\<lparr>qv_held := qv_held (view s) + 1\<rparr>"
  "view (snd (run_state queue_put_card s)) = (view s)\<lparr>qv_held := qv_held (view s) - 1\<rparr>"
  by (simp_all add: queue_get_card_def queue_put_card_def split_beta kept_view [OF core_kept] detect_same)

lemma calls_view [simp]:
  "view (snd (run_state (blk_mq_complete_request t) s)) = (view s)\<lparr>qv_completing := qv_completing (view s) @ [t]\<rparr>"
  "view (snd (run_state schedule_recovery s)) = (view s)\<lparr>qv_recovery_work := True\<rparr>"
  "view (snd (run_state schedule_complete s)) = (view s)\<lparr>qv_complete_work := True\<rparr>"
  by (simp_all add: blk_mq_complete_request_def schedule_recovery_def schedule_complete_def split_beta)

lemmas kept_views [simp] = kept_view [OF update_request_kept] kept_view [OF part_switch_kept] kept_view [OF reset_kept]
  kept_view [OF reset_success_kept] kept_view [OF blk_end_kept] kept_view [OF issue_sync_kept]
  kept_view [OF rw_prep_kept] kept_view [OF rq_error_kept] kept_view [OF recovery_kept]
  kept_view [OF urgent_kept] kept_view [OF poll_completion_kept] kept_view [OF complete_kept]
  kept_view [OF pre_post_kept(1)] kept_view [OF pre_post_kept(2)]

lemma io_when_view [simp]:
  "view (snd (run_state (io_when b m) s)) = (if b then view (snd (run_state m s)) else view s)"
  by simp

section \<open>Operations without a command queue\<close>

definition v_dec :: "mmc_issue_type \<Rightarrow> queue_view \<Rightarrow> queue_view" where
  "v_dec ty v = (let q = add_in_flight ty (- 1) (qv_mq v) in
     v\<lparr>qv_mq := q, qv_held := qv_held v - (if mmc_tot_in_flight q = 0 then 1 else 0)\<rparr>)"

lemma dec_view [simp]: "view (snd (run_state (mmc_blk_mq_dec_in_flight t) s)) = v_dec (type_of t s) (view s)"
  by (simp add: mmc_blk_mq_dec_in_flight_def split_beta v_dec_def Let_def read_view)

definition v_post :: "nat \<Rightarrow> mmc_issue_type \<Rightarrow> queue_view \<Rightarrow> queue_view" where
  "v_post t ty v = v_dec ty (if mq_in_recovery (qv_mq v) then v
     else v\<lparr>qv_completing := qv_completing v @ [t]\<rparr>)"

text \<open>The type that a request has when it leaves.\<close>

definition post_type :: "nat \<Rightarrow> blk_world \<Rightarrow> mmc_issue_type" where
  "post_type t s = (let u = snd (run_state (mmc_post_req t 0) s) in
     type_of t (snd (run_state (if mq_in_recovery (bw_mq u) then mmc_blk_mq_complete_rq t
       else blk_mq_complete_request t) u)))"

lemma post_view [simp]:
  "view (snd (run_state (mmc_blk_mq_post_req t) s)) = v_post t (post_type t s) (view s)"
  by (simp add: mmc_blk_mq_post_req_def split_beta v_post_def post_type_def read_view Let_def)

lemma recovery_none: "mq_recovery_req (bw_mq s) = None \<Longrightarrow> fst (run_state mmc_blk_mq_recovery s) = None"
  by (simp add: mmc_blk_mq_recovery_def)

lemma recovery_view:
  assumes "mq_recovery_req (qv_mq (view s)) = Some t"
  shows "fst (run_state mmc_blk_mq_recovery s) = Some ()"
    "\<exists>ty. view (snd (run_state mmc_blk_mq_recovery s)) = v_post t ty ((view s)\<lparr>qv_mq :=
      (qv_mq (view s))\<lparr>mq_recovery_req := None, mq_rw_wait := False\<rparr>\<rparr>)"
  using assms
  by (auto simp: mmc_blk_mq_recovery_def split_beta read_view kept_view [OF core_ev_kept] io_rel)

lemma prev_view:
  "run_state (mmc_blk_mq_complete_prev_req keep) s = (r, u) \<Longrightarrow>
    (if qv_done_complete (view s) \<or> mq_complete_req (qv_mq (view s)) = None then r = None \<and> view u = view s
     else \<exists>t ty. mq_complete_req (qv_mq (view s)) = Some t \<and> r = (if keep then Some t else None) \<and>
       view u = (if keep then id else v_post t ty) (view s)
         \<lparr>qv_mq := (qv_mq ((if keep then id else v_post t ty) (view s)))\<lparr>mq_complete_req := None\<rparr>\<rparr>)"
  by (auto simp: mmc_blk_mq_complete_prev_req_def split_beta read_view split: option.splits if_splits)

definition v_done :: "bool \<Rightarrow> nat \<Rightarrow> mmc_issue_type \<Rightarrow> queue_view \<Rightarrow> queue_view" where
  "v_done bad t ty v =
    (if \<not> qv_done_complete v then v\<lparr>qv_mq := (qv_mq v)\<lparr>mq_complete_req := Some t, mq_rw_wait := False\<rparr>,
       qv_complete_work := qv_complete_work v \<or> \<not> mq_waiting (qv_mq v)\<rparr>
     else if bad then v\<lparr>qv_mq := (qv_mq v)\<lparr>mq_recovery_needed := True, mq_recovery_req := Some t\<rparr>,
       qv_recovery_work := True\<rparr>
     else v_post t ty (v\<lparr>qv_mq := (qv_mq v)\<lparr>mq_rw_wait := False\<rparr>\<rparr>))"

lemma done_view: "\<exists>bad ty. view (snd (run_state (mmc_blk_mq_req_done t) s)) = v_done bad t ty (view s)"
proof -
  have "\<exists>ty. view (snd (run_state (mmc_blk_mq_req_done t) s)) =
      v_done (fst (run_state (rq_error t) s) \<or> mmc_blk_urgent_bkops_needed (bw_world (snd (run_state (rq_error t) s)))
        (mqr_brq (bw_reqs (snd (run_state (rq_error t) s)) t))) t ty (view s)"
    by (auto simp: mmc_blk_mq_req_done_def v_done_def split_beta read_view)
  then show ?thesis by blast
qed

section \<open>Accounts\<close>

text \<open>The flags of the queue, without its counts.\<close>

definition flags_of :: "mmc_queue \<Rightarrow> mmc_queue" where
  "flags_of q = q\<lparr>mq_in_flight := (\<lambda>_. 0), mq_cqe_dcmd_busy := False, mq_cqe_queue_full := False\<rparr>"

lemma flags_iff:
  "flags_of p = flags_of q \<longleftrightarrow> mq_busy p = mq_busy q \<and> mq_use_cqe p = mq_use_cqe q \<and>
    mq_recovery_needed p = mq_recovery_needed q \<and> mq_in_recovery p = mq_in_recovery q \<and>
    mq_rw_wait p = mq_rw_wait q \<and> mq_waiting p = mq_waiting q \<and> mq_recovery_req p = mq_recovery_req q \<and>
    mq_complete_req p = mq_complete_req q"
  by (cases p; cases q) (auto simp: flags_of_def)

lemma add_flags [simp]:
  "mq_busy (add_in_flight ty n q) = mq_busy q" "mq_use_cqe (add_in_flight ty n q) = mq_use_cqe q"
  "mq_recovery_needed (add_in_flight ty n q) = mq_recovery_needed q"
  "mq_in_recovery (add_in_flight ty n q) = mq_in_recovery q" "mq_rw_wait (add_in_flight ty n q) = mq_rw_wait q"
  "mq_waiting (add_in_flight ty n q) = mq_waiting q" "mq_recovery_req (add_in_flight ty n q) = mq_recovery_req q"
  "mq_complete_req (add_in_flight ty n q) = mq_complete_req q"
  by (simp_all add: add_in_flight_def)

lemma check_flags [simp]:
  "mq_busy (mmc_cqe_check_busy q) = mq_busy q" "mq_use_cqe (mmc_cqe_check_busy q) = mq_use_cqe q"
  "mq_recovery_needed (mmc_cqe_check_busy q) = mq_recovery_needed q"
  "mq_in_recovery (mmc_cqe_check_busy q) = mq_in_recovery q" "mq_rw_wait (mmc_cqe_check_busy q) = mq_rw_wait q"
  "mq_waiting (mmc_cqe_check_busy q) = mq_waiting q" "mq_recovery_req (mmc_cqe_check_busy q) = mq_recovery_req q"
  "mq_complete_req (mmc_cqe_check_busy q) = mq_complete_req q"
  by (simp_all add: mmc_cqe_check_busy_def Let_def)

lemma dec_simps [simp]:
  "flags_of (qv_mq (v_dec ty v)) = flags_of (qv_mq v)" "mmc_tot_in_flight (qv_mq (v_dec ty v)) = mmc_tot_in_flight (qv_mq v) - 1"
  "qv_dispatch (v_dec ty v) = qv_dispatch v" "qv_answers (v_dec ty v) = qv_answers v" "qv_cqe (v_dec ty v) = qv_cqe v"
  "qv_completing (v_dec ty v) = qv_completing v" "qv_recovery_work (v_dec ty v) = qv_recovery_work v"
  "qv_complete_work (v_dec ty v) = qv_complete_work v" "qv_done_complete (v_dec ty v) = qv_done_complete v"
  by (simp_all add: v_dec_def Let_def flags_iff)

text \<open>The queue holds the card while requests are in flight, and \<open>c\<close> times more.\<close>

definition balanced :: "int \<Rightarrow> queue_view \<Rightarrow> bool" where
  "balanced c v \<longleftrightarrow> 0 \<le> mmc_tot_in_flight (qv_mq v) \<and>
    qv_held v = c + (if mmc_tot_in_flight (qv_mq v) = 0 then 0 else 1)"

lemma balanced_dec: "balanced c v \<Longrightarrow> 0 < mmc_tot_in_flight (qv_mq v) \<Longrightarrow> balanced c (v_dec ty v)"
  by (auto simp: balanced_def v_dec_def Let_def)

section \<open>The command queue\<close>

lemma cqe_start_view:
  "view (snd (run_state (mmc_cqe_start_req t) s)) =
    (if fst (run_state (mmc_cqe_start_req t) s) = 0 then (view s)\<lparr>qv_cqe := qv_cqe (view s) @ [t]\<rparr> else view s)"
  by (auto simp: mmc_cqe_start_req_def split_beta Let_def kept_view [OF core_ev_kept] retune_rel io_rel)

definition v_cqe_complete :: "mmc_issue_type \<Rightarrow> queue_view \<Rightarrow> queue_view" where
  "v_cqe_complete ty v = (v_dec ty v)\<lparr>qv_mq := mmc_cqe_check_busy (qv_mq (v_dec ty v))\<rparr>"

lemma cqe_complete_view: "\<exists>ty. view (snd (run_state (mmc_blk_cqe_complete_rq t) s)) = v_cqe_complete ty (view s)"
proof -
  have post: "state_io_rel queue_kept (do { mmc_cqe_post_req; cqe_result t })"
    unfolding mmc_cqe_post_req_def cqe_result_def
    by (intro kept_rules core_ev_kept update_request_kept blk_end_kept note_kept io_rel) simp_all
  obtain u where u: "run_state (do { mmc_cqe_post_req; cqe_result t }) s = ((), u)" by (rule unit_run)
  have "view u = view s" using kept_view [OF post, of s] u by simp
  moreover have "run_state (mmc_blk_cqe_complete_rq t) s = run_state (cqe_leave t) u"
    using u by (auto simp: mmc_blk_cqe_complete_rq_def split: prod.splits)
  moreover have "view (snd (run_state (cqe_leave t) u)) = v_cqe_complete (type_of t u) (view u)"
    by (simp add: cqe_leave_def split_beta Let_def read_view v_cqe_complete_def v_dec_def)
  ultimately show ?thesis by metis
qed

lemma cqe_complete_simps [simp]:
  "flags_of (qv_mq (v_cqe_complete ty v)) = flags_of (qv_mq v)"
  "mmc_tot_in_flight (qv_mq (v_cqe_complete ty v)) = mmc_tot_in_flight (qv_mq v) - 1"
  "qv_dispatch (v_cqe_complete ty v) = qv_dispatch v" "qv_answers (v_cqe_complete ty v) = qv_answers v"
  "qv_cqe (v_cqe_complete ty v) = qv_cqe v" "qv_completing (v_cqe_complete ty v) = qv_completing v"
  "qv_recovery_work (v_cqe_complete ty v) = qv_recovery_work v"
  "qv_complete_work (v_cqe_complete ty v) = qv_complete_work v"
  "qv_done_complete (v_cqe_complete ty v) = qv_done_complete v"
  by (simp_all add: v_cqe_complete_def flags_iff) (simp_all add: v_dec_def Let_def)

lemma balanced_cqe: "balanced c v \<Longrightarrow> 0 < mmc_tot_in_flight (qv_mq v) \<Longrightarrow> balanced c (v_cqe_complete ty v)"
  using balanced_dec [of c v ty] by (simp add: balanced_def v_cqe_complete_def)

lemma request_done_view:
  "\<exists>ty. view (snd (run_state (mmc_cqe_request_done t a) s)) =
    (if mq_in_recovery (qv_mq (view s)) then v_cqe_complete ty ((view s)\<lparr>qv_cqe := remove1 t (qv_cqe (view s))\<rparr>)
     else (view s)\<lparr>qv_cqe := remove1 t (qv_cqe (view s)), qv_completing := qv_completing (view s) @ [t]\<rparr>)"
proof -
  define m where "m = (do { s \<leftarrow> gets id;
     let b = mqr_brq (bw_reqs s t);
     io_when (brq_has_cmd b \<and> cmd_error (brq_cmd b) = - EILSEQ \<or> brq_has_data b \<and> dat_error (brq_data b) = - EILSEQ)
       (core mmc_retune_needed) })"
  have "state_io_rel queue_kept m" unfolding m_def by (intro kept_rules core_ev_kept io_rel)
  from kept_view [OF this] have m: "view (snd (run_state m u)) = view u" for u .
  obtain u where u: "run_state m ((upd_brq t (cqe_answer a) s)\<lparr>bw_cqe := remove1 t (bw_cqe (upd_brq t (cqe_answer a) s))\<rparr>) = ((), u)"
    by (rule unit_run)
  have v: "view u = (view s)\<lparr>qv_cqe := remove1 t (qv_cqe (view s))\<rparr>"
    using m [of "(upd_brq t (cqe_answer a) s)\<lparr>bw_cqe := remove1 t (bw_cqe (upd_brq t (cqe_answer a) s))\<rparr>"] u
    by (simp only: snd_conv upd_view)
  have "run_state (mmc_cqe_request_done t a) s = run_state (mmc_blk_cqe_req_done t) u"
    using u by (simp add: mmc_cqe_request_done_def m_def Let_def)
  then show ?thesis using cqe_complete_view [of t u] v
    by (auto simp: mmc_blk_cqe_req_done_def read_view)
qed

text \<open>All but the counts, the card and the command queue.\<close>

definition v_same :: "queue_view \<Rightarrow> queue_view \<Rightarrow> bool" where
  "v_same v u \<longleftrightarrow> flags_of (qv_mq u) = flags_of (qv_mq v) \<and> qv_dispatch u = qv_dispatch v \<and>
    qv_answers u = qv_answers v \<and> qv_completing u = qv_completing v \<and>
    qv_recovery_work u = qv_recovery_work v \<and> qv_complete_work u = qv_complete_work v \<and>
    qv_done_complete u = qv_done_complete v"

lemma report_view:
  assumes "qv_cqe (view s) = ts" and "mq_in_recovery (qv_mq (view s))" and "balanced c (view s)"
    and "int (length ts) \<le> mmc_tot_in_flight (qv_mq (view s))"
    and "run_state (cqe_report ans ts) s = ((), u)"
  shows "v_same (view s) (view u) \<and> balanced c (view u) \<and> qv_cqe (view u) = [] \<and>
    mmc_tot_in_flight (qv_mq (view u)) = mmc_tot_in_flight (qv_mq (view s)) - int (length ts)"
  using assms
proof (induction ts arbitrary: s)
  case Nil
  then show ?case by (simp add: v_same_def)
next
  case (Cons t ts)
  obtain a where a: "run_state (mmc_cqe_request_done t (ans t)) s = ((), a)" by (rule unit_run)
  with request_done_view [of t "ans t" s] Cons.prems(1,2)
  obtain ty where v: "view a = v_cqe_complete ty ((view s)\<lparr>qv_cqe := ts\<rparr>)" by auto
  have tot: "mmc_tot_in_flight (qv_mq (view a)) = mmc_tot_in_flight (qv_mq (view s)) - 1" "qv_cqe (view a) = ts"
    by (simp_all add: v)
  have same: "v_same (view s) (view a)" by (simp add: v v_same_def)
  have "balanced c ((view s)\<lparr>qv_cqe := ts\<rparr>)" using Cons.prems(3) by (simp add: balanced_def)
  then have bal: "balanced c (view a)" unfolding v by (rule balanced_cqe) (use Cons.prems(4) in simp)
  have rec: "mq_in_recovery (qv_mq (view a))"
    using same Cons.prems(2) by (auto simp: v_same_def flags_iff)
  have run: "run_state (cqe_report ans ts) a = ((), u)" using Cons.prems(5) a by simp
  have "int (length ts) \<le> mmc_tot_in_flight (qv_mq (view a))" using Cons.prems(4) tot by simp
  from Cons.IH [OF tot(2) rec bal this run] show ?case
    using same tot by (simp add: v_same_def)
qed

lemma cqe_recovery_view:
  assumes "mq_in_recovery (qv_mq (view s))" and "balanced c (view s)"
    and "int (length (qv_cqe (view s))) \<le> mmc_tot_in_flight (qv_mq (view s))"
    and "run_state (mmc_blk_cqe_recovery ans) s = ((), u)"
  shows "v_same (view s) (view u) \<and> balanced c (view u) \<and> qv_cqe (view u) = [] \<and>
    mmc_tot_in_flight (qv_mq (view u)) = mmc_tot_in_flight (qv_mq (view s)) - int (length (qv_cqe (view s)))"
proof -
  define m where "m = (do {
     core (do {
       mmc_retune_hold_now;
       emit (EvCqeRecovery True) 0;
       mmc_wait_for_cmd hooks (cqe_recovery_cmd MMC_STOP_TRANSMISSION 0) 0;
       ret ()
     });
     cmd \<leftarrow> core (mmc_wait_for_cmd hooks (cqe_recovery_cmd MMC_CMDQ_TASK_MGMT 1) 0);
     core (emit (EvCqeRecovery False) 0);
     ret (cmd_error cmd) })"
  have mk: "state_io_rel queue_kept m" unfolding m_def by (intro kept_rules core_ev_kept ev.rel_intros io_rel)
  obtain e a where a: "run_state m s = (e, a)" by fastforce
  have va: "view a = view s" using kept_view [OF mk, of s] a by simp
  obtain b where b: "run_state (cqe_report ans (bw_cqe a)) a = ((), b)" by (rule unit_run)
  define n where "n = (do {
     core mmc_retune_release;
     if e \<noteq> 0 then do { mmc_blk_reset MMC_BLK_CQE_RECOVERY; ret () }
     else mmc_blk_reset_success MMC_BLK_CQE_RECOVERY })"
  have nk: "state_io_rel queue_kept n" unfolding n_def
    by (intro kept_rules core_ev_kept reset_kept reset_success_kept io_rel)
  have "run_state n b = ((), u)"
    using assms(4) a b by (auto simp: mmc_blk_cqe_recovery_def mmc_cqe_recovery_def m_def n_def split: prod.splits)
  then have "view u = view b" using kept_view [OF nk, of b] by simp
  moreover have "qv_cqe (view a) = bw_cqe a" by (simp add: view_def)
  ultimately show ?thesis using report_view [of a "bw_cqe a" c ans b] assms va b by simp
qed

section \<open>Dispatch\<close>

lemma retune_now_kept:
  "state_io_rel queue_kept (core (modify (upd_host (\<lambda>h. h\<lparr>h_retune_now := f h\<rparr>))))"
  by (intro core_kept host_same) simp

lemma admit_view [simp]:
  "view (snd (run_state (queue_admit t ty) s)) =
    (view s)\<lparr>qv_mq := (add_in_flight ty 1 (qv_mq (view s)))\<lparr>mq_busy := True\<rparr>,
      qv_held := qv_held (view s) + (if mmc_tot_in_flight (qv_mq (view s)) = 0 then 1 else 0)\<rparr>"
  by (simp add: queue_admit_def split_beta Let_def read_view kept_view [OF retune_now_kept])

lemma busy_same: "v = v\<lparr>qv_mq := (qv_mq v)\<lparr>mq_cqe_dcmd_busy := mq_cqe_dcmd_busy (qv_mq v)\<rparr>\<rparr>"
  by simp

lemma enter_view:
  assumes "run_state (queue_enter t) s = (r, u)"
  shows "(\<exists>st b. r = Inl st \<and> view u = (view s)\<lparr>qv_mq := (qv_mq (view s))\<lparr>mq_cqe_dcmd_busy := b\<rparr>\<rparr>) \<or>
    (\<exists>ty. r = Inr ty \<and> \<not> mq_recovery_needed (qv_mq (view s)) \<and> \<not> mq_busy (qv_mq (view s)) \<and>
        view u = (view s)\<lparr>qv_mq := (add_in_flight ty 1 (qv_mq (view s)))\<lparr>mq_busy := True\<rparr>,
          qv_held := qv_held (view s) + (if mmc_tot_in_flight (qv_mq (view s)) = 0 then 1 else 0)\<rparr>)"
proof -
  consider (removed) "mmc_card_removed (bw_world s)"
    | (busy) "\<not> mmc_card_removed (bw_world s)" "mq_recovery_needed (qv_mq (view s)) \<or> mq_busy (qv_mq (view s))"
    | (dcmd) "\<not> mmc_card_removed (bw_world s)" "\<not> (mq_recovery_needed (qv_mq (view s)) \<or> mq_busy (qv_mq (view s)))"
        "type_of t s = MMC_ISSUE_DCMD \<and> mmc_cqe_dcmd_busy (qv_mq (view s))"
    | (enter) "\<not> mmc_card_removed (bw_world s)" "\<not> (mq_recovery_needed (qv_mq (view s)) \<or> mq_busy (qv_mq (view s)))"
        "\<not> (type_of t s = MMC_ISSUE_DCMD \<and> mmc_cqe_dcmd_busy (qv_mq (view s)))"
    by blast
  then show ?thesis
  proof cases
    case removed
    with assms have "r = Inl BLK_STS_IOERR \<and> view u = view s" by (auto simp: queue_enter_def)
    then show ?thesis using busy_same by metis
  next
    case busy
    with assms have "r = Inl BLK_STS_RESOURCE \<and> view u = view s" by (auto simp: queue_enter_def read_view)
    then show ?thesis using busy_same by metis
  next
    case dcmd
    with assms show ?thesis by (auto simp: queue_enter_def read_view)
  next
    case enter
    obtain v where v: "run_state (queue_admit t (type_of t s)) s = ((), v)" by (rule unit_run)
    with enter assms have "r = Inr (type_of t s)" "u = v" by (auto simp: queue_enter_def read_view Let_def)
    with enter(2) admit_view [of t "type_of t s" s] v show ?thesis by simp
  qed
qed

lemma issue_sync_not: "fst (run_state (issue_sync t) s) \<noteq> MMC_REQ_STARTED"
  by (simp add: issue_sync_def split_beta split: req_op.split)

lemma async_view:
  assumes "run_state (issue_async t) s = (r, u)" and "type_of t s \<noteq> MMC_ISSUE_SYNC"
  shows "(if r = Some 0 then mq_use_cqe (qv_mq (view s)) \<and>
      view u = (view s)\<lparr>qv_cqe := qv_cqe (view s) @ [t]\<rparr> else view u = view s) \<and>
    (r = None \<longrightarrow> \<not> mq_use_cqe (qv_mq (view s)))"
proof -
  have flush: "rq_op (mqr_req (bw_reqs s t)) = REQ_OP_FLUSH \<Longrightarrow> mq_use_cqe (qv_mq (view s))"
    using assms(2) by (auto simp: type_of_def mmc_issue_type_def view_def split: if_splits)
  have cqe: "view (snd (run_state m s)) =
      (if fst (run_state m s) = 0 then (view s)\<lparr>qv_cqe := qv_cqe (view s) @ [t]\<rparr> else view s)"
    if "m = mmc_blk_cqe_issue_flush t \<or> m = mmc_blk_cqe_issue_rw_rq t" for m
    using that cqe_start_view
    by (auto simp: mmc_blk_cqe_issue_flush_def mmc_blk_cqe_issue_rw_rq_def)
  from assms(1) show ?thesis
    using flush cqe [of "mmc_blk_cqe_issue_flush t"] cqe [of "mmc_blk_cqe_issue_rw_rq t"]
    by (auto simp: issue_async_def split_beta Let_def read_view split: if_splits)
qed

lemma begin_view:
  assumes "run_state (issue_begin t) s = (r, u)"
  shows "(if r = Some MMC_REQ_STARTED then mq_use_cqe (qv_mq (view s)) \<and>
      view u = (view s)\<lparr>qv_cqe := qv_cqe (view s) @ [t]\<rparr> else view u = view s) \<and>
    (r = None \<longrightarrow> \<not> mq_use_cqe (qv_mq (view s)))"
proof -
  obtain err a where a: "run_state (mmc_blk_part_switch (md_part_type (bw_md s))) s = (err, a)" by fastforce
  have va: "view a = view s" using kept_views(2) [of "md_part_type (bw_md s)" s] a by simp
  have idle: "view (snd (run_state (issue_idle t) a)) = view s" "fst (run_state (issue_idle t) a) \<noteq> MMC_REQ_STARTED"
    using kept_view [OF core_ev_kept [OF emit_evolves]] va issue_sync_not
    by (auto simp: issue_idle_def split_beta)
  obtain x b where b: "run_state (issue_async t) a = (x, b)" by fastforce
  consider "err \<noteq> 0" | "err = 0" "type_of t a \<noteq> MMC_ISSUE_SYNC"
    | "err = 0" "type_of t a = MMC_ISSUE_SYNC" "mq_use_cqe (bw_mq a)"
    | "err = 0" "type_of t a = MMC_ISSUE_SYNC" "\<not> mq_use_cqe (bw_mq a)" by blast
  then show ?thesis
  proof cases
    case 1
    with assms a have "r = Some MMC_REQ_FAILED_TO_START \<and> u = a" by (auto simp: issue_begin_def)
    with va show ?thesis by simp
  next
    case 2
    with assms a b have "r = map_option issued_of x \<and> u = b" by (auto simp: issue_begin_def)
    with async_view [OF b 2(2)] va show ?thesis
      by (cases x) (auto simp: issued_of_def split: if_splits)
  next
    case 3
    with assms a have "r = Some (fst (run_state (issue_idle t) a)) \<and> u = snd (run_state (issue_idle t) a)"
      by (auto simp: issue_begin_def split_beta)
    with idle show ?thesis by simp
  next
    case 4
    with assms a have "r = None \<and> u = a" by (auto simp: issue_begin_def)
    with va 4 show ?thesis by (simp add: read_view)
  qed
qed

definition v_prev :: "nat option \<Rightarrow> mmc_issue_type \<Rightarrow> queue_view \<Rightarrow> queue_view" where
  "v_prev prev ty v = (case prev of None \<Rightarrow> v | Some p \<Rightarrow> v_post p ty v)"

definition v_start :: "int \<Rightarrow> nat \<Rightarrow> nat option \<Rightarrow> mmc_issue_type \<Rightarrow> queue_view \<Rightarrow> queue_view" where
  "v_start err t prev ty v =
    (let v = v\<lparr>qv_mq := (qv_mq v)\<lparr>mq_rw_wait := True\<rparr>\<rparr>;
         v = (if err = 0 then v\<lparr>qv_answers := qv_answers v @ [t]\<rparr> else v);
         v = v_prev prev ty v
     in if err \<noteq> 0 then v\<lparr>qv_mq := (qv_mq v)\<lparr>mq_rw_wait := False\<rparr>\<rparr> else v)"

lemma start_request_kept: "state_io_rel queue_kept (core (mmc_start_request hooks m))"
  unfolding mmc_start_request_def
  by (intro core_ev_kept ev.rel_intros io.start_request_evolves io_rel)

lemma start_view: "\<exists>ty. view (snd (run_state (start_rw t prev) s)) = v_start (fst (run_state (start_rw t prev) s)) t prev ty (view s)"
  by (cases prev) (auto simp: start_rw_def split_beta v_start_def v_prev_def Let_def kept_view [OF start_request_kept]
      kept_view [OF core_ev_kept] io_rel)

lemma wait_view:
  assumes "run_state (mmc_blk_rw_wait keep) s = (r, u)"
  shows "if mq_recovery_needed (qv_mq (view s)) \<or> \<not> mq_rw_wait (qv_mq (view s))
    then \<exists>prev. r = Some (if mq_recovery_needed (qv_mq (view s)) then - EBUSY else 0, prev) \<and>
      run_state (mmc_blk_mq_complete_prev_req keep) (upd_mq (\<lambda>q. q\<lparr>mq_waiting := False\<rparr>) s) = (prev, u)
    else r = None \<and> view u = (view s)\<lparr>qv_mq := (qv_mq (view s))\<lparr>mq_waiting := True\<rparr>\<rparr>"
  using assms
  by (auto simp: mmc_blk_rw_wait_def mmc_blk_rw_wait_cond_def Let_def split_beta read_view)

section \<open>Invariant\<close>

text \<open>The requests in flight, without the one that is being dispatched.\<close>

definition pending :: "queue_view \<Rightarrow> nat" where
  "pending v = length (qv_answers v) + length (qv_cqe v) + (if mq_complete_req (qv_mq v) = None then 0 else 1) +
    (if mq_recovery_req (qv_mq v) = None then 0 else 1) +
    (if mq_use_cqe (qv_mq v) then length (qv_completing v) else 0)"

text \<open>\<open>n\<close> requests are being dispatched.\<close>

definition flight_inv :: "nat \<Rightarrow> queue_view \<Rightarrow> bool" where
  "flight_inv n v \<longleftrightarrow> balanced 0 v \<and> mmc_tot_in_flight (qv_mq v) = int (pending v + n) \<and>
    \<not> mq_in_recovery (qv_mq v) \<and>
    (mq_recovery_needed (qv_mq v) \<longleftrightarrow> qv_recovery_work v) \<and>
    (mq_use_cqe (qv_mq v) \<longrightarrow> qv_answers v = [] \<and> mq_complete_req (qv_mq v) = None \<and>
       mq_recovery_req (qv_mq v) = None \<and> \<not> mq_rw_wait (qv_mq v)) \<and>
    (\<not> mq_use_cqe (qv_mq v) \<longrightarrow> qv_cqe v = [] \<and>
       (qv_recovery_work v \<longleftrightarrow> mq_recovery_req (qv_mq v) \<noteq> None)) \<and>
    (qv_answers v \<noteq> [] \<longrightarrow> length (qv_answers v) = 1 \<and> mq_rw_wait (qv_mq v) \<and>
       mq_complete_req (qv_mq v) = None \<and> mq_recovery_req (qv_mq v) = None) \<and>
    (mq_rw_wait (qv_mq v) \<longrightarrow> qv_answers v \<noteq> [] \<or> mq_recovery_req (qv_mq v) \<noteq> None) \<and>
    (mq_recovery_req (qv_mq v) \<noteq> None \<longrightarrow> qv_done_complete v) \<and>
    (mq_complete_req (qv_mq v) \<noteq> None \<longrightarrow> \<not> qv_done_complete v \<and> \<not> mq_rw_wait (qv_mq v))"

text \<open>With the dispatch that sleeps; a request that was answered is not forgotten.\<close>

definition queue_inv :: "queue_view \<Rightarrow> bool" where
  "queue_inv v \<longleftrightarrow> flight_inv (if qv_dispatch v = None then 0 else 1) v \<and>
    (mq_busy (qv_mq v) \<longleftrightarrow> qv_dispatch v \<noteq> None) \<and> (mq_waiting (qv_mq v) \<longleftrightarrow> qv_dispatch v \<noteq> None) \<and>
    (qv_dispatch v \<noteq> None \<longrightarrow> \<not> mq_use_cqe (qv_mq v)) \<and>
    (mq_complete_req (qv_mq v) \<noteq> None \<longrightarrow> qv_complete_work v \<or> qv_dispatch v \<noteq> None)"

lemma flight_irrelevant [simp]:
  "flight_inv n (v\<lparr>qv_dispatch := d\<rparr>) = flight_inv n v"
  "flight_inv n (v\<lparr>qv_complete_work := b\<rparr>) = flight_inv n v"
  "flight_inv n (v\<lparr>qv_mq := (qv_mq v)\<lparr>mq_busy := b\<rparr>\<rparr>) = flight_inv n v"
  "flight_inv n (v\<lparr>qv_mq := (qv_mq v)\<lparr>mq_waiting := b\<rparr>\<rparr>) = flight_inv n v"
  "flight_inv n (v\<lparr>qv_mq := (qv_mq v)\<lparr>mq_cqe_dcmd_busy := b\<rparr>\<rparr>) = flight_inv n v"
  by (simp_all add: flight_inv_def pending_def balanced_def)

text \<open>What the invariant reads besides the counts.\<close>

lemma dec_flags [simp]:
  "mq_busy (qv_mq (v_dec ty v)) = mq_busy (qv_mq v)" "mq_use_cqe (qv_mq (v_dec ty v)) = mq_use_cqe (qv_mq v)"
  "mq_recovery_needed (qv_mq (v_dec ty v)) = mq_recovery_needed (qv_mq v)"
  "mq_in_recovery (qv_mq (v_dec ty v)) = mq_in_recovery (qv_mq v)"
  "mq_rw_wait (qv_mq (v_dec ty v)) = mq_rw_wait (qv_mq v)" "mq_waiting (qv_mq (v_dec ty v)) = mq_waiting (qv_mq v)"
  "mq_recovery_req (qv_mq (v_dec ty v)) = mq_recovery_req (qv_mq v)"
  "mq_complete_req (qv_mq (v_dec ty v)) = mq_complete_req (qv_mq v)" "pending (v_dec ty v) = pending v"
  by (simp_all add: v_dec_def Let_def pending_def)

lemma leave_inv: "flight_inv (Suc n) v \<Longrightarrow> flight_inv n (v_dec ty v)"
  using balanced_dec [of 0 v ty] unfolding flight_inv_def by simp

lemma enter_inv:
  assumes "flight_inv n v"
  shows "flight_inv (Suc n) (v\<lparr>qv_mq := add_in_flight ty 1 (qv_mq v),
      qv_held := qv_held v + (if mmc_tot_in_flight (qv_mq v) = 0 then 1 else 0)\<rparr>)"
proof -
  let ?u = "v\<lparr>qv_mq := add_in_flight ty 1 (qv_mq v),
      qv_held := qv_held v + (if mmc_tot_in_flight (qv_mq v) = 0 then 1 else 0)\<rparr>"
  have "balanced 0 ?u" using assms by (auto simp: flight_inv_def balanced_def)
  moreover have "pending ?u = pending v" by (simp add: pending_def)
  ultimately show ?thesis using assms unfolding flight_inv_def by simp
qed

text \<open>A request that is posted was one of those being dispatched or answered.\<close>

lemma completing_inv:
  "\<not> mq_use_cqe (qv_mq v) \<Longrightarrow> flight_inv n (v\<lparr>qv_completing := c\<rparr>) = flight_inv n v"
  by (simp add: flight_inv_def pending_def balanced_def)

lemma post_inv:
  assumes "flight_inv (Suc n) v" and "\<not> mq_use_cqe (qv_mq v)"
  shows "flight_inv n (v_post t ty v)"
  using assms by (simp add: v_post_def leave_inv completing_inv)

lemma post_flags [simp]:
  "mq_busy (qv_mq (v_post t ty v)) = mq_busy (qv_mq v)" "mq_use_cqe (qv_mq (v_post t ty v)) = mq_use_cqe (qv_mq v)"
  "mq_complete_req (qv_mq (v_post t ty v)) = mq_complete_req (qv_mq v)"
  "mq_recovery_req (qv_mq (v_post t ty v)) = mq_recovery_req (qv_mq v)"
  "mq_waiting (qv_mq (v_post t ty v)) = mq_waiting (qv_mq v)"
  "qv_dispatch (v_post t ty v) = qv_dispatch v" "qv_complete_work (v_post t ty v) = qv_complete_work v"
  "mmc_tot_in_flight (qv_mq (v_post t ty v)) = mmc_tot_in_flight (qv_mq v) - 1"
  "qv_answers (v_post t ty v) = qv_answers v" "qv_cqe (v_post t ty v) = qv_cqe v"
  by (simp_all add: v_post_def)

text \<open>\<open>complete_req\<close> is one of the requests in flight until it is cleared.\<close>

lemma clear_complete_inv:
  assumes "flight_inv n v" and "mq_complete_req (qv_mq v) \<noteq> None"
  shows "flight_inv (Suc n) (v\<lparr>qv_mq := (qv_mq v)\<lparr>mq_complete_req := None\<rparr>\<rparr>)"
  using assms by (auto simp: flight_inv_def pending_def balanced_def)

lemma post_clear:
  "(v_post t ty v)\<lparr>qv_mq := (qv_mq (v_post t ty v))\<lparr>mq_complete_req := None\<rparr>\<rparr> =
    v_post t ty (v\<lparr>qv_mq := (qv_mq v)\<lparr>mq_complete_req := None\<rparr>\<rparr>)"
  by (simp add: v_post_def v_dec_def Let_def add_in_flight_def mmc_tot_in_flight_def)

lemma prev_inv:
  assumes "run_state (mmc_blk_mq_complete_prev_req keep) s = (r, u)" and inv: "flight_inv n (view s)"
    and cqe: "\<not> mq_use_cqe (qv_mq (view s))"
  shows "flight_inv (if r = None then n else Suc n) (view u) \<and> mq_complete_req (qv_mq (view u)) = None \<and>
    \<not> mq_use_cqe (qv_mq (view u)) \<and> (\<not> keep \<longrightarrow> r = None) \<and> (r \<noteq> None \<longrightarrow> \<not> qv_done_complete (view s)) \<and>
    mq_waiting (qv_mq (view u)) = mq_waiting (qv_mq (view s)) \<and> mq_busy (qv_mq (view u)) = mq_busy (qv_mq (view s)) \<and>
    qv_dispatch (view u) = qv_dispatch (view s) \<and> qv_complete_work (view u) = qv_complete_work (view s) \<and>
    qv_answers (view u) = qv_answers (view s) \<and> qv_cqe (view u) = qv_cqe (view s) \<and>
    mmc_tot_in_flight (qv_mq (view u)) = mmc_tot_in_flight (qv_mq (view s)) -
      (if mq_complete_req (qv_mq (view s)) \<noteq> None \<and> \<not> keep then 1 else 0) \<and>
    mq_recovery_req (qv_mq (view u)) = mq_recovery_req (qv_mq (view s)) \<and>
    mq_rw_wait (qv_mq (view u)) = mq_rw_wait (qv_mq (view s)) \<and> qv_done_complete (view u) = qv_done_complete (view s)"
proof (cases "qv_done_complete (view s) \<or> mq_complete_req (qv_mq (view s)) = None")
  case True
  with prev_view [OF assms(1)] have same: "r = None" "view u = view s" by auto
  have "mq_complete_req (qv_mq (view s)) = None" using True inv by (auto simp: flight_inv_def)
  with same inv cqe show ?thesis by simp
next
  case False
  with clear_complete_inv [OF inv]
  have clear: "flight_inv (Suc n) ((view s)\<lparr>qv_mq := (qv_mq (view s))\<lparr>mq_complete_req := None\<rparr>\<rparr>)" by blast
  show ?thesis
  proof (cases keep)
    case True
    with False prev_view [OF assms(1)] clear cqe show ?thesis by auto
  next
    case False': False
    with False prev_view [OF assms(1)] obtain t ty where r: "r = None"
      "view u = v_post t ty ((view s)\<lparr>qv_mq := (qv_mq (view s))\<lparr>mq_complete_req := None\<rparr>\<rparr>)"
      by (auto simp: post_clear)
    with post_inv [OF clear] cqe False False' show ?thesis by (simp add: v_post_def)
  qed
qed

end
