(* ===== verification/Block_Queue_Steps.thy ===== *)
theory Block_Queue_Steps
  imports Block_Queue_Views
begin

text \<open>
  The queue as a transition system: the block layer dispatches and completes, the controller
  answers, the driver's work runs, a sleeping dispatch goes on; each keeps the accounts.
\<close>

section \<open>Starting\<close>

lemma post_rw:
  "(v_post t ty v)\<lparr>qv_mq := (qv_mq (v_post t ty v))\<lparr>mq_rw_wait := b\<rparr>\<rparr> =
    v_post t ty (v\<lparr>qv_mq := (qv_mq v)\<lparr>mq_rw_wait := b\<rparr>\<rparr>)"
  by (simp add: v_post_def v_dec_def Let_def add_in_flight_def mmc_tot_in_flight_def)

lemma prev_rw:
  "(v_prev p ty v)\<lparr>qv_mq := (qv_mq (v_prev p ty v))\<lparr>mq_rw_wait := b\<rparr>\<rparr> =
    v_prev p ty (v\<lparr>qv_mq := (qv_mq v)\<lparr>mq_rw_wait := b\<rparr>\<rparr>)"
  by (cases p) (simp_all add: v_prev_def post_rw)

lemma v_prev_inv:
  "flight_inv (if p = None then n else Suc n) v \<Longrightarrow> \<not> mq_use_cqe (qv_mq v) \<Longrightarrow> flight_inv n (v_prev p ty v)"
  by (cases p) (simp_all add: v_prev_def post_inv)

lemma v_prev_flags [simp]:
  "mq_busy (qv_mq (v_prev p ty v)) = mq_busy (qv_mq v)" "mq_use_cqe (qv_mq (v_prev p ty v)) = mq_use_cqe (qv_mq v)"
  "mq_complete_req (qv_mq (v_prev p ty v)) = mq_complete_req (qv_mq v)"
  "mq_waiting (qv_mq (v_prev p ty v)) = mq_waiting (qv_mq v)" "qv_dispatch (v_prev p ty v) = qv_dispatch v"
  "mmc_tot_in_flight (qv_mq (v_prev p ty v)) \<le> mmc_tot_in_flight (qv_mq v)"
  by (cases p; simp add: v_prev_def)+

lemma started_inv:
  assumes "flight_inv (Suc n) v" and "\<not> mq_use_cqe (qv_mq v)" "\<not> mq_rw_wait (qv_mq v)"
    "mq_complete_req (qv_mq v) = None" "mq_recovery_req (qv_mq v) = None"
  shows "flight_inv n (v\<lparr>qv_mq := (qv_mq v)\<lparr>mq_rw_wait := True\<rparr>, qv_answers := qv_answers v @ [t]\<rparr>)"
  using assms by (auto simp: flight_inv_def pending_def balanced_def)

lemma start_inv:
  assumes "flight_inv (if p = None then Suc n else Suc (Suc n)) v" and "\<not> mq_use_cqe (qv_mq v)"
    "\<not> mq_rw_wait (qv_mq v)" "mq_complete_req (qv_mq v) = None" "mq_recovery_req (qv_mq v) = None"
  shows "flight_inv (if err = 0 then n else Suc n) (v_start err t p ty v)"
proof (cases "err = 0")
  case True
  let ?v = "v\<lparr>qv_mq := (qv_mq v)\<lparr>mq_rw_wait := True\<rparr>, qv_answers := qv_answers v @ [t]\<rparr>"
  have "flight_inv (if p = None then n else Suc n) ?v"
    using assms started_inv [of _ v t] by (cases p) simp_all
  then have "flight_inv n (v_prev p ty ?v)" using assms(2) by (intro v_prev_inv) simp_all
  with True show ?thesis by (simp add: v_start_def)
next
  case False
  have "v\<lparr>qv_mq := (qv_mq v)\<lparr>mq_rw_wait := False\<rparr>\<rparr> = v" using assms(3) by simp
  with False have "v_start err t p ty v = v_prev p ty v"
    by (simp add: v_start_def prev_rw)
  moreover have "flight_inv (Suc n) (v_prev p ty v)"
    using assms(1,2) by (intro v_prev_inv) (auto split: if_splits)
  ultimately show ?thesis using False by simp
qed

lemma v_start_flags [simp]:
  "mq_busy (qv_mq (v_start err t p ty v)) = mq_busy (qv_mq v)"
  "mq_use_cqe (qv_mq (v_start err t p ty v)) = mq_use_cqe (qv_mq v)"
  "mq_complete_req (qv_mq (v_start err t p ty v)) = mq_complete_req (qv_mq v)"
  "mq_waiting (qv_mq (v_start err t p ty v)) = mq_waiting (qv_mq v)" "qv_dispatch (v_start err t p ty v) = qv_dispatch v"
  "mmc_tot_in_flight (qv_mq (v_start err t p ty v)) \<le> mmc_tot_in_flight (qv_mq v)"
  using v_prev_flags(6) [of p ty "v\<lparr>qv_mq := (qv_mq v)\<lparr>mq_rw_wait := True\<rparr>\<rparr>"]
    v_prev_flags(6) [of p ty "v\<lparr>qv_mq := (qv_mq v)\<lparr>mq_rw_wait := True\<rparr>, qv_answers := qv_answers v @ [t]\<rparr>"]
  by (simp_all add: v_start_def Let_def)

section \<open>Dispatch\<close>

lemma wait_inv:
  assumes "run_state (mmc_blk_rw_wait keep) s = (Some (err, p), u)" and "flight_inv (Suc 0) (view s)"
    and "\<not> mq_use_cqe (qv_mq (view s))"
  shows "flight_inv (if p = None then Suc 0 else Suc (Suc 0)) (view u) \<and> mq_complete_req (qv_mq (view u)) = None \<and>
    \<not> mq_waiting (qv_mq (view u)) \<and> \<not> mq_use_cqe (qv_mq (view u)) \<and> (\<not> keep \<longrightarrow> p = None) \<and>
    (err \<noteq> 0 \<longrightarrow> p = None) \<and>
    (err = 0 \<longrightarrow> \<not> mq_rw_wait (qv_mq (view u)) \<and> mq_recovery_req (qv_mq (view u)) = None) \<and>
    mmc_tot_in_flight (qv_mq (view u)) \<le> mmc_tot_in_flight (qv_mq (view s))"
proof -
  let ?w = "upd_mq (\<lambda>q. q\<lparr>mq_waiting := False\<rparr>) s"
  from wait_view [OF assms(1)]
  have cond: "mq_recovery_needed (qv_mq (view s)) \<or> \<not> mq_rw_wait (qv_mq (view s))"
    and err: "err = (if mq_recovery_needed (qv_mq (view s)) then - EBUSY else 0)"
    and run: "run_state (mmc_blk_mq_complete_prev_req keep) ?w = (p, u)"
    by (auto split: if_splits)
  have "flight_inv (Suc 0) (view ?w)" using assms(2) by simp
  from prev_inv [OF run this] assms(3)
  have inv: "flight_inv (if p = None then Suc 0 else Suc (Suc 0)) (view u)" "mq_complete_req (qv_mq (view u)) = None"
    "\<not> mq_waiting (qv_mq (view u))" "\<not> mq_use_cqe (qv_mq (view u))" "\<not> keep \<longrightarrow> p = None"
    "p \<noteq> None \<longrightarrow> \<not> qv_done_complete (view s)" "mq_rw_wait (qv_mq (view u)) = mq_rw_wait (qv_mq (view s))"
    "mq_recovery_req (qv_mq (view u)) = mq_recovery_req (qv_mq (view s))"
    "mmc_tot_in_flight (qv_mq (view u)) \<le> mmc_tot_in_flight (qv_mq (view s))" by auto
  have "mq_recovery_needed (qv_mq (view s)) \<longrightarrow> qv_done_complete (view s)"
    using assms(2,3) unfolding flight_inv_def by blast
  then have lost: "err \<noteq> 0 \<longrightarrow> p = None" using err inv(6) by auto
  have "\<not> mq_recovery_needed (qv_mq (view s)) \<longrightarrow> mq_recovery_req (qv_mq (view s)) = None"
    using assms(2,3) unfolding flight_inv_def by blast
  then have "err = 0 \<longrightarrow> \<not> mq_rw_wait (qv_mq (view u)) \<and> mq_recovery_req (qv_mq (view u)) = None"
    using err cond inv(7,8) by auto
  with inv lost show ?thesis by simp
qed

lemma issue_rw_inv:
  assumes "run_state (issue_rw_rq t) s = (Some err, u)" and "flight_inv (Suc 0) (view s)"
    and "\<not> mq_use_cqe (qv_mq (view s))"
  shows "flight_inv (if err = 0 then 0 else Suc 0) (view u) \<and> mq_complete_req (qv_mq (view u)) = None \<and>
    \<not> mq_waiting (qv_mq (view u)) \<and> \<not> mq_use_cqe (qv_mq (view u)) \<and>
    mmc_tot_in_flight (qv_mq (view u)) \<le> mmc_tot_in_flight (qv_mq (view s))"
proof -
  obtain r a where a: "run_state (mmc_blk_rw_wait True) s = (r, a)" by fastforce
  with assms(1) obtain e p where r: "r = Some (e, p)" by (cases r) (auto simp: issue_rw_rq_def)
  from wait_inv [OF a [unfolded r] assms(2,3)]
  have w: "flight_inv (if p = None then Suc 0 else Suc (Suc 0)) (view a)" "mq_complete_req (qv_mq (view a)) = None"
    "\<not> mq_waiting (qv_mq (view a))" "\<not> mq_use_cqe (qv_mq (view a))" "e \<noteq> 0 \<longrightarrow> p = None"
    "e = 0 \<longrightarrow> \<not> mq_rw_wait (qv_mq (view a)) \<and> mq_recovery_req (qv_mq (view a)) = None"
    "mmc_tot_in_flight (qv_mq (view a)) \<le> mmc_tot_in_flight (qv_mq (view s))" by auto
  show ?thesis
  proof (cases "e = 0")
    case False
    with assms(1) a r have "err = e" "view u = view a" by (auto simp: issue_rw_rq_def split: prod.splits)
      (metis (no_types, lifting) kept_views(14) snd_conv)
    with False w show ?thesis by simp
  next
    case True
    obtain x b where b: "run_state (start_rw t p) a = (x, b)" by fastforce
    with start_view [of t p a] obtain ty where vb: "view b = v_start x t p ty (view a)" by auto
    from assms(1) a r True b have "err = x" "view u = view b"
      by (auto simp: issue_rw_rq_def split: prod.splits if_splits)
        (metis (no_types, lifting) kept_views(14) snd_conv)
    moreover have "flight_inv (if x = 0 then 0 else Suc 0) (v_start x t p ty (view a))"
      by (rule start_inv) (use w True in auto)
    moreover have "mmc_tot_in_flight (qv_mq (v_start x t p ty (view a))) \<le> mmc_tot_in_flight (qv_mq (view s))"
      using v_start_flags(6) w(7) by (rule order.trans)
    ultimately show ?thesis using w vb by simp
  qed
qed

lemma sleeps:
  assumes "run_state (issue_go t ty) s = (None, u)"
  shows "\<not> mq_recovery_needed (qv_mq (view s)) \<and> mq_rw_wait (qv_mq (view s)) \<and>
    view u = (view s)\<lparr>qv_mq := (qv_mq (view s))\<lparr>mq_waiting := True\<rparr>\<rparr>"
proof -
  obtain keep r a where a: "run_state (mmc_blk_rw_wait keep) s = (r, a)" "r = None" "u = a"
  proof (cases "ty = MMC_ISSUE_SYNC")
    case True
    with assms that [of False] show ?thesis
      by (auto simp: issue_go_def split: prod.splits option.splits if_splits)
  next
    case False
    with assms that [of True] show ?thesis
      by (auto simp: issue_go_def issue_rw_rq_def split: prod.splits option.splits if_splits)
  qed
  with wait_view [of keep s r a] show ?thesis by (auto split: if_splits)
qed

lemma go_inv:
  assumes "run_state (issue_go t ty) s = (Some i, u)" and "flight_inv (Suc 0) (view s)"
    and "\<not> mq_use_cqe (qv_mq (view s))"
  shows "flight_inv (if i = MMC_REQ_STARTED then 0 else Suc 0) (view u) \<and>
    mq_complete_req (qv_mq (view u)) = None \<and> \<not> mq_waiting (qv_mq (view u)) \<and> \<not> mq_use_cqe (qv_mq (view u)) \<and>
    mmc_tot_in_flight (qv_mq (view u)) \<le> mmc_tot_in_flight (qv_mq (view s))"
proof (cases "ty = MMC_ISSUE_SYNC")
  case True
  obtain r a where a: "run_state (mmc_blk_rw_wait False) s = (r, a)" by fastforce
  with assms(1) True obtain e p where r: "r = Some (e, p)" by (cases r) (auto simp: issue_go_def)
  have w: "flight_inv (Suc 0) (view a)" "mq_complete_req (qv_mq (view a)) = None"
    "\<not> mq_waiting (qv_mq (view a))" "\<not> mq_use_cqe (qv_mq (view a))"
    "mmc_tot_in_flight (qv_mq (view a)) \<le> mmc_tot_in_flight (qv_mq (view s))"
    using wait_inv [OF a [unfolded r] assms(2,3)] by auto
  have "i \<noteq> MMC_REQ_STARTED \<and> view u = view a"
  proof (cases "e = 0")
    case True
    obtain j b where b: "run_state (issue_sync t) a = (j, b)" by fastforce
    with \<open>ty = MMC_ISSUE_SYNC\<close> True assms(1) a r have "i = j" "u = b" by (auto simp: issue_go_def)
    with issue_sync_not [of t a] kept_view [OF issue_sync_kept, of t a] b show ?thesis by simp
  qed (use True assms(1) a r in \<open>auto simp: issue_go_def\<close>)
  with w show ?thesis by simp
next
  case False
  obtain r where r: "run_state (issue_rw_rq t) s = (Some r, u)" "i = issued_of r"
    using assms(1) False by (auto simp: issue_go_def split: prod.splits)
  from issue_rw_inv [OF r(1) assms(2,3)] r(2) show ?thesis by (auto simp: issued_of_def)
qed

lemma queue_leave_view:
  "view (snd (run_state (queue_leave ty i) s)) =
    (let v = (if i = MMC_REQ_STARTED then view s else v_dec ty (view s)) in v\<lparr>qv_mq := (qv_mq v)\<lparr>mq_busy := False\<rparr>\<rparr>)"
  by (simp add: queue_leave_def split_beta v_dec_def Let_def read_view)

lemma issued_view:
  assumes "run_state (queue_issue t ty (Some i)) s = (r, u)"
  shows "view u = (let v = (if i = MMC_REQ_STARTED then (view s)\<lparr>qv_dispatch := None\<rparr>
      else v_dec ty ((view s)\<lparr>qv_dispatch := None\<rparr>)) in v\<lparr>qv_mq := (qv_mq v)\<lparr>mq_busy := False\<rparr>\<rparr>)"
  using assms queue_leave_view [of ty i "s\<lparr>bw_dispatch := None\<rparr>"]
  by (auto simp: queue_issue_def split: prod.splits)

lemma issued_inv:
  assumes "run_state (queue_issue t ty (Some i)) s = (r, u)"
    and "flight_inv (if i = MMC_REQ_STARTED then 0 else Suc 0) (view s)"
    and "\<not> mq_waiting (qv_mq (view s))"
    and "mq_complete_req (qv_mq (view s)) \<noteq> None \<longrightarrow> qv_complete_work (view s)"
  shows "queue_inv (view u)"
proof -
  have "flight_inv 0 (if i = MMC_REQ_STARTED then (view s)\<lparr>qv_dispatch := None\<rparr>
      else v_dec ty ((view s)\<lparr>qv_dispatch := None\<rparr>))"
    using assms(2) leave_inv [of 0 "(view s)\<lparr>qv_dispatch := None\<rparr>" ty] by (auto split: if_splits)
  then show ?thesis using assms(3,4) issued_view [OF assms(1)] by (auto simp: queue_inv_def Let_def split: if_splits)
qed

lemma sleep_inv:
  assumes "run_state (issue_go t ty) s = (None, a)" and "run_state (queue_issue t ty None) a = (r, u)"
    and "flight_inv (Suc 0) (view s)" and "\<not> mq_use_cqe (qv_mq (view s))" and "mq_busy (qv_mq (view s))"
  shows "queue_inv (view u)"
proof -
  have "view u = (view a)\<lparr>qv_dispatch := Some (t, ty)\<rparr>" using assms(2) by (auto simp: queue_issue_def)
  then show ?thesis using sleeps [OF assms(1)] assms(3,4,5) by (simp add: queue_inv_def)
qed

lemma resume_inv:
  assumes "run_state (queue_resume t ty) s = (r, u)" and "queue_inv (view s)"
    and "qv_dispatch (view s) \<noteq> None"
  shows "queue_inv (view u)"
proof -
  have s: "flight_inv (Suc 0) (view s)" "\<not> mq_use_cqe (qv_mq (view s))" "mq_busy (qv_mq (view s))"
    using assms(2,3) by (auto simp: queue_inv_def)
  obtain i a where a: "run_state (issue_go t ty) s = (i, a)" by fastforce
  have run: "run_state (queue_issue t ty i) a = (r, u)" using assms(1) a by (simp add: queue_resume_def)
  show ?thesis
  proof (cases i)
    case None
    with sleep_inv [OF _ _ s] a run show ?thesis by simp
  next
    case (Some j)
    with issued_inv [of t ty j a r u] go_inv [of t ty s j a] a run s show ?thesis by auto
  qed
qed

lemma queue_rq_inv:
  assumes "run_state (mmc_mq_queue_rq t) s = (r, u)" and "queue_inv (view s)"
  shows "queue_inv (view u)"
proof -
  obtain x a where a: "run_state (queue_enter t) s = (x, a)" by fastforce
  from enter_view [OF a] show ?thesis
  proof (elim disjE exE conjE)
    fix st b assume "x = Inl st" and v: "view a = (view s)\<lparr>qv_mq := (qv_mq (view s))\<lparr>mq_cqe_dcmd_busy := b\<rparr>\<rparr>"
    then have "u = a" using assms(1) a by (simp add: mmc_mq_queue_rq_def)
    with v assms(2) show ?thesis by (simp add: queue_inv_def)
  next
    fix ty assume x: "x = Inr ty" and free: "\<not> mq_recovery_needed (qv_mq (view s))" "\<not> mq_busy (qv_mq (view s))"
      and v: "view a = (view s)\<lparr>qv_mq := (add_in_flight ty 1 (qv_mq (view s)))\<lparr>mq_busy := True\<rparr>,
          qv_held := qv_held (view s) + (if mmc_tot_in_flight (qv_mq (view s)) = 0 then 1 else 0)\<rparr>"
    have idle: "qv_dispatch (view s) = None" "\<not> mq_waiting (qv_mq (view s))" "flight_inv 0 (view s)"
      using assms(2) free(2) by (cases "qv_dispatch (view s)"; auto simp: queue_inv_def)+
    have ia: "flight_inv (Suc 0) (view a)" "mq_busy (qv_mq (view a))" "\<not> mq_waiting (qv_mq (view a))"
      "mq_complete_req (qv_mq (view a)) \<noteq> None \<longrightarrow> qv_complete_work (view a)"
      using enter_inv [OF idle(3), of ty] idle assms(2) by (auto simp: v queue_inv_def flight_inv_def pending_def balanced_def)
    obtain i b where b: "run_state (issue_begin t) a = (i, b)" by fastforce
    note bv = begin_view [OF b]
    show ?thesis
    proof (cases i)
      case (Some j)
      have run: "run_state (queue_issue t ty (Some j)) b = (r, u)"
        using assms(1) a x b Some by (simp add: mmc_mq_queue_rq_def)
      show ?thesis
      proof (rule issued_inv [OF run])
        show "flight_inv (if j = MMC_REQ_STARTED then 0 else Suc 0) (view b)"
          using bv Some ia(1) by (auto simp: flight_inv_def pending_def balanced_def)
        show "\<not> mq_waiting (qv_mq (view b))" "mq_complete_req (qv_mq (view b)) \<noteq> None \<longrightarrow> qv_complete_work (view b)"
          using bv Some ia by (auto split: if_splits)
      qed
    next
      case None
      with bv have vb: "view b = view a" "\<not> mq_use_cqe (qv_mq (view b))" by auto
      obtain k c where c: "run_state (issue_go t ty) b = (k, c)" by fastforce
      have run: "run_state (queue_issue t ty k) c = (r, u)"
        using assms(1) a x b None c by (simp add: mmc_mq_queue_rq_def)
      show ?thesis
      proof (cases k)
        case None
        with sleep_inv [of t ty b c r u] c run ia vb show ?thesis by simp
      next
        case (Some j)
        with issued_inv [of t ty j c r u] go_inv [of t ty b j c] c run ia vb show ?thesis by auto
      qed
    qed
  qed
qed

end
