(* ===== verification/Block_Disk.thy ===== *)
theory Block_Disk
  imports Block_Queue Quirks
begin

text \<open>
  The disks of a card (\<open>mmc/core/block.c\<close>) and the limits of their queues (\<open>queue.c\<close>): what a
  probe makes of the card's registers, how a disk is opened and closed, and what suspend, resume
  and removal do.  The allocations and registrations of the kernel succeed here; names of devices,
  sysfs attributes and the character devices of RPMB partitions are not modelled.
\<close>

section \<open>Limits of the queue\<close>

text \<open>
  The discards of a queue: the largest in sectors, the granularity in bytes, and whether secure
  ones are possible.
\<close>

record queue_limits =
  ql_depth :: int
  ql_max_hw_sectors :: u32
  ql_max_segments :: u32
  ql_max_segment_size :: u32
  ql_discard :: "(u32 \<times> u32 \<times> bool) option"

definition mmc_queue_setup_discard :: "mmc_host \<Rightarrow> mmc_card \<Rightarrow> (u32 \<times> u32 \<times> bool) option" where
  "mmc_queue_setup_discard h c =
    (let max_discard = fst (mmc_calc_max_discard h c) in
     if max_discard = 0 then None
     else Some (max_discard, if cd_pref_erase c > max_discard then 0 else push_bit 9 (cd_pref_erase c),
       mmc_can_secure_erase_trim c))"

text \<open>\<open>mmc_setup_queue\<close> with the depth that \<open>mmc_mq_init\<close> chooses; the DMA mask is not modelled.\<close>

definition mmc_mq_depth :: "bool \<Rightarrow> mmc_host \<Rightarrow> mmc_card \<Rightarrow> int" where
  "mmc_mq_depth use_cqe h c =
    (if use_cqe then min (sint (ec_cmdq_depth (cd_ext_csd c))) (sint (h_cqe_qdepth h)) else 64)"

definition mmc_setup_queue :: "bool \<Rightarrow> mmc_host \<Rightarrow> mmc_card \<Rightarrow> queue_limits" where
  "mmc_setup_queue use_cqe h c = \<lparr>ql_depth = mmc_mq_depth use_cqe h c,
     ql_max_hw_sectors = min (h_max_blk_count h) (h_max_req_size h div 512),
     ql_max_segments = h_max_segs h, ql_max_segment_size = h_max_seg_size h,
     ql_discard = (if mmc_can_erase h c then mmc_queue_setup_discard h c else None)\<rparr>"

text \<open>The flags of a new queue, all else is zero, and its limits.\<close>

definition mmc_init_queue :: "mmc_host \<Rightarrow> mmc_card \<Rightarrow> mmc_queue \<times> queue_limits" where
  "mmc_init_queue h c =
    (\<lparr>mq_in_flight = (\<lambda>_. 0), mq_cqe_dcmd_busy = False, mq_cqe_queue_full = False,
       mq_busy = False, mq_use_cqe = h_cqe_enabled h, mq_recovery_needed = False, mq_in_recovery = False,
       mq_rw_wait = False, mq_waiting = False, mq_recovery_req = None, mq_complete_req = None\<rparr>,
     mmc_setup_queue (h_cqe_enabled h) h c)"

section \<open>Disks\<close>

text \<open>
  A disk with its data; \<open>md_capacity\<close> is what \<open>set_capacity\<close> is told.  \<open>dk_read_only\<close> is the flag of
  the disk, \<open>md_read_only\<close> that of the card.
\<close>

record blk_disk =
  dk_md :: mmc_blk_data
  dk_subname :: string
  dk_read_only :: bool
  dk_no_part_scan :: bool
  dk_block_size :: u32
  dk_write_cache :: bool
  dk_queue :: mmc_queue
  dk_limits :: queue_limits

definition mmc_blk_readonly :: "mmc_card \<Rightarrow> bool" where
  "mmc_blk_readonly c \<longleftrightarrow> card_state MMC_STATE_READONLY c \<or> csd_cmdclass (cd_csd c) AND CCC_BLOCK_WRITE = 0"

definition blk_cmd23 :: "mmc_host \<Rightarrow> mmc_card \<Rightarrow> bool" where
  "blk_cmd23 h c \<longleftrightarrow> MMC_CAP_CMD23 \<in> h_caps h \<and>
    (mmc_card_mmc c \<and> csd_mmca_vsn (cd_csd c) \<ge> CSD_SPEC_VER_3
     \<or> mmc_card_sd c \<and> scr_cmds (cd_scr c) AND SD_SCR_CMD23_SUPPORT \<noteq> 0)"

definition blk_rel_wr :: "mmc_host \<Rightarrow> mmc_card \<Rightarrow> bool" where
  "blk_rel_wr h c \<longleftrightarrow> mmc_card_mmc c \<and> blk_cmd23 h c \<and>
    (ec_rel_param (cd_ext_csd c) AND EXT_CSD_WR_REL_PARAM_EN \<noteq> 0 \<or> ec_rel_sectors (cd_ext_csd c) \<noteq> 0)"

definition mmc_blk_alloc_req ::
  "mmc_host \<Rightarrow> mmc_card \<Rightarrow> u64 \<Rightarrow> bool \<Rightarrow> string \<Rightarrow> mmc_area_type \<Rightarrow> blk_disk" where
  "mmc_blk_alloc_req h c sectors default_ro subname area_type =
    (let (q, limits) = mmc_init_queue h c in
     \<lparr>dk_md = \<lparr>md_cmd23 = blk_cmd23 h c, md_rel_wr = blk_rel_wr h c, md_usage = 1,
        md_read_only = mmc_blk_readonly c, md_part_type = 0, md_reset_done = 0, md_area_type = area_type,
        md_capacity = sectors\<rparr>,
      dk_subname = subname, dk_read_only = mmc_blk_readonly c \<or> default_ro,
      dk_no_part_scan = (area_type = MMC_BLK_DATA_AREA_RPMB \<or> area_type = MMC_BLK_DATA_AREA_BOOT),
      dk_block_size = (if mmc_card_mmc c then ec_data_sector_size (cd_ext_csd c) else 512),
      dk_write_cache = blk_rel_wr h c, dk_queue = q, dk_limits = limits\<rparr>)"

text \<open>The shift of the code is undefined for cards whose blocks are below 512 bytes.\<close>

definition mmc_blk_alloc :: "mmc_host \<Rightarrow> mmc_card \<Rightarrow> blk_disk" where
  "mmc_blk_alloc h c = mmc_blk_alloc_req h c
    (if \<not> mmc_card_sd c \<and> mmc_card_blockaddr c then ucast (ec_sectors (cd_ext_csd c))
     else push_bit (unat (csd_read_blkbits (cd_csd c) - 9)) (ucast (csd_capacity (cd_csd c))))
    False '''' MMC_BLK_DATA_AREA_MAIN"

definition mmc_blk_alloc_part :: "mmc_host \<Rightarrow> mmc_card \<Rightarrow> mmc_part \<Rightarrow> blk_disk" where
  "mmc_blk_alloc_part h c p =
    (let d = mmc_blk_alloc_req h c (ucast (drop_bit 9 (part_size p))) (part_force_ro p) (part_name p)
       (part_area_type p)
     in d\<lparr>dk_md := (dk_md d)\<lparr>md_part_type := part_cfg p\<rparr>\<rparr>)"

text \<open>
  The partitions' disks, the last one first, and the partitions that get a character device: those
  of the RPMB; partitions of size 0 get nothing.
\<close>

fun alloc_parts ::
  "mmc_host \<Rightarrow> mmc_card \<Rightarrow> mmc_part list \<Rightarrow> blk_disk list \<times> mmc_part list \<Rightarrow> blk_disk list \<times> mmc_part list" where
  "alloc_parts h c [] ds = ds"
| "alloc_parts h c (p # ps) (ds, rs) = alloc_parts h c ps
    (if part_area_type p = MMC_BLK_DATA_AREA_RPMB then (ds, p # rs)
     else if part_size p \<noteq> 0 then (mmc_blk_alloc_part h c p # ds, rs)
     else (ds, rs))"

definition mmc_blk_alloc_parts :: "mmc_host \<Rightarrow> mmc_card \<Rightarrow> blk_disk list \<times> mmc_part list" where
  "mmc_blk_alloc_parts h c = (if mmc_card_mmc c then alloc_parts h c (cd_parts c) ([], []) else ([], []))"

text \<open>The card with its quirks, the main disk, those of the partitions, the RPMB partitions.\<close>

definition mmc_blk_probe ::
  "mmc_host \<Rightarrow> mmc_card \<Rightarrow> int + mmc_card \<times> blk_disk \<times> blk_disk list \<times> mmc_part list" where
  "mmc_blk_probe h c =
    (if csd_cmdclass (cd_csd c) AND CCC_BLOCK_READ = 0 then Inl (- ENODEV)
     else let c = mmc_fixup_device mmc_blk_fixups c in Inr (c, mmc_blk_alloc h c, mmc_blk_alloc_parts h c))"

section \<open>References\<close>

text \<open>What \<open>private_data\<close> points to, and whether there still is something.\<close>

definition mmc_blk_get :: "mmc_blk_data option \<Rightarrow> mmc_blk_data option \<times> mmc_blk_data option" where
  "mmc_blk_get data = (case data of
     None \<Rightarrow> (None, None)
   | Some md \<Rightarrow> if md_usage md = 0 then (None, data)
       else (let md = md\<lparr>md_usage := md_usage md + 1\<rparr> in (Some md, Some md)))"

text \<open>The last reference frees the data.\<close>

definition mmc_blk_put :: "mmc_blk_data \<Rightarrow> mmc_blk_data option" where
  "mmc_blk_put md =
    (let md = md\<lparr>md_usage := md_usage md - 1\<rparr> in if md_usage md = 0 then None else Some md)"

text \<open>The result, the data, and whether a change of the disk is looked for.\<close>

definition mmc_blk_open :: "bool \<Rightarrow> mmc_blk_data option \<Rightarrow> int \<times> mmc_blk_data option \<times> bool" where
  "mmc_blk_open for_write data = (case mmc_blk_get data of
     (None, data) \<Rightarrow> (- ENXIO, data, False)
   | (Some md, data) \<Rightarrow>
       (if for_write \<and> md_read_only md then (- EROFS, mmc_blk_put md, md_usage md = 2)
        else (0, data, md_usage md = 2)))"

section \<open>Suspend, resume, removal\<close>

text \<open>The requests that are in flight hold the claim of the host.\<close>

definition mmc_queue_suspend :: "unit io" where
  "mmc_queue_suspend = do { claim_host; release_host }"

text \<open>Suspend of the main disk and of \<open>n\<close> partitions.\<close>

fun blk_suspend :: "nat \<Rightarrow> unit io" where
  "blk_suspend 0 = mmc_queue_suspend"
| "blk_suspend (Suc n) = do { mmc_queue_suspend; blk_suspend n }"

definition mmc_blk_resume :: "unit blk" where
  "mmc_blk_resume = modify (\<lambda>s. s\<lparr>bw_part_curr := bw_main_type s\<rparr>)"

text \<open>The part of \<open>mmc_blk_remove\<close> that concerns the card: the main partition is selected.\<close>

definition mmc_blk_remove :: "unit blk" where
  "mmc_blk_remove = do {
     core (pm PM_GET_SYNC);
     s \<leftarrow> gets id;
     io_when (bw_part_curr s \<noteq> bw_main_type s) (do {
       core claim_host;
       mmc_blk_part_switch (bw_main_type s);
       core release_host
     });
     s \<leftarrow> gets id;
     io_when (cd_type (w_card (bw_world s)) \<noteq> MMC_TYPE_SD_COMBO) (core (pm PM_DISABLE));
     core (pm PM_PUT_NOIDLE)
   }"

section \<open>Limits\<close>

text \<open>What the block layer makes of the limits: the requests of a queue have whole sectors, no more than allowed.\<close>

definition within_limits :: "queue_limits \<Rightarrow> blk_request \<Rightarrow> bool" where
  "within_limits l r \<longleftrightarrow> rq_bytes r mod 512 = 0 \<and> 0 < rq_bytes r \<and> rq_sectors r \<le> ql_max_hw_sectors l"

end
