(* ===== verification/Block_Queue_Runs.thy ===== *)
theory Block_Queue_Runs
  imports Block_Queue_Steps Block_Disk
begin

text \<open>
  The runs of a queue and its life: every activity keeps the accounts, and the activities without
  the block layer's dispatch empty the queue.
\<close>

section \<open>Activities\<close>

text \<open>
  What can happen next: the block layer hands a request over or completes one, a dispatch that
  sleeps is woken up, the controller answers (without and with a command queue), notices an error
  of its queue or is asked after a timeout, the work runs, and anything happens outside that does
  not change the capabilities of the host.  A controller whose queue still has a request does not
  deny it when it is asked after a timeout.
\<close>

datatype queue_event = Dispatch nat | Resume | Answer nat mmc_request | CompleteWork
  | RecoveryWork "nat \<Rightarrow> int \<times> int \<times> u32" | Complete nat | CqeDone nat "int \<times> int \<times> u32" | CqeError
  | Timeout nat | Outside mmc_world

definition controller_answers :: "nat \<Rightarrow> mmc_request \<Rightarrow> unit blk" where
  "controller_answers t m = do {
     modify (\<lambda>s. s\<lparr>bw_answers := remove1 (t, m) (bw_answers s)\<rparr>);
     modify (upd_brq t (brq_of_mrq m));
     mmc_blk_mq_req_done t
   }"

inductive queue_step :: "queue_event \<Rightarrow> blk_world \<Rightarrow> blk_world \<Rightarrow> bool" where
  q_dispatch: "run_state (mmc_mq_queue_rq t) s = (r, u) \<Longrightarrow> queue_step (Dispatch t) s u"
| q_resume: "bw_dispatch s = Some (t, ty) \<Longrightarrow> run_state (queue_resume t ty) s = (r, u) \<Longrightarrow> queue_step Resume s u"
| q_answer: "(t, m) \<in> set (bw_answers s) \<Longrightarrow> run_state (controller_answers t m) s = ((), u) \<Longrightarrow>
    queue_step (Answer t m) s u"
| q_complete_work: "bw_complete_work s \<Longrightarrow> run_state mmc_blk_mq_complete_work s = ((), u) \<Longrightarrow>
    queue_step CompleteWork s u"
| q_recovery_work: "bw_recovery_work s \<Longrightarrow> run_state (mmc_mq_recovery_handler ans) s = (Some (), u) \<Longrightarrow>
    queue_step (RecoveryWork ans) s u"
| q_complete: "t \<in> set (bw_completing s) \<Longrightarrow> run_state (mmc_blk_mq_complete t) s = ((), u) \<Longrightarrow>
    queue_step (Complete t) s u"
| q_cqe_done: "t \<in> set (bw_cqe s) \<Longrightarrow> run_state (mmc_cqe_request_done t a) s = ((), u) \<Longrightarrow>
    queue_step (CqeDone t a) s u"
| q_cqe_error: "t \<in> set (bw_cqe s) \<Longrightarrow> run_state mmc_cqe_recovery_notifier s = ((), u) \<Longrightarrow>
    queue_step CqeError s u"
| q_timeout: "fst (op_cqe_timeout (w_ops (bw_world s)) (w_trace (bw_world s))) \<Longrightarrow>
    run_state (mmc_mq_timed_out t) s = (r, u) \<Longrightarrow> queue_step (Timeout t) s u"
| q_outside: "h_caps (w_host w) = h_caps (w_host (bw_world s)) \<Longrightarrow> queue_step (Outside w) s (s\<lparr>bw_world := w\<rparr>)"

inductive_cases queue_stepE: "queue_step e s u"

inductive queue_run :: "queue_event list \<Rightarrow> blk_world \<Rightarrow> blk_world \<Rightarrow> bool" where
  run_none: "queue_run [] s s"
| run_next: "queue_step e s u \<Longrightarrow> queue_run es u v \<Longrightarrow> queue_run (e # es) s v"

section \<open>The activities keep the accounts\<close>

lemma answers_view [simp]: "view (s\<lparr>bw_answers := xs\<rparr>) = (view s)\<lparr>qv_answers := List.map fst xs\<rparr>"
  by (simp add: view_def)

lemma queue_flight: "queue_inv v \<Longrightarrow> flight_inv (if qv_dispatch v = None then 0 else Suc 0) v"
  by (cases "qv_dispatch v") (simp_all add: queue_inv_def)

lemma done_inv:
  assumes "queue_inv v" and "qv_answers v = [t]"
  shows "queue_inv (v_done bad t ty (v\<lparr>qv_answers := []\<rparr>))"
proof -
  let ?n = "if qv_dispatch v = None then 0 else Suc 0"
  have rw: "mq_rw_wait (qv_mq v)" "mq_complete_req (qv_mq v) = None" "mq_recovery_req (qv_mq v) = None"
      "\<not> mq_use_cqe (qv_mq v)" "\<not> qv_recovery_work v" "\<not> mq_recovery_needed (qv_mq v)"
    using queue_flight [OF assms(1)] assms(2) unfolding flight_inv_def by auto
  consider (later) "\<not> qv_done_complete v" | (bad) "qv_done_complete v" "bad" | (good) "qv_done_complete v" "\<not> bad"
    by blast
  then show ?thesis
  proof cases
    case later
    then have "flight_inv ?n (v_done bad t ty (v\<lparr>qv_answers := []\<rparr>))"
      using queue_flight [OF assms(1)] assms(2) rw
      by (simp add: v_done_def flight_inv_def pending_def balanced_def)
    with later assms(1) rw show ?thesis by (auto simp: queue_inv_def v_done_def)
  next
    case bad
    then have "flight_inv ?n (v_done bad t ty (v\<lparr>qv_answers := []\<rparr>))"
      using queue_flight [OF assms(1)] assms(2) rw
      by (simp add: v_done_def flight_inv_def pending_def balanced_def)
    with bad assms(1) rw show ?thesis by (auto simp: queue_inv_def v_done_def)
  next
    case good
    let ?w = "v\<lparr>qv_answers := [], qv_mq := (qv_mq v)\<lparr>mq_rw_wait := False\<rparr>\<rparr>"
    have "flight_inv (Suc ?n) ?w"
      using queue_flight [OF assms(1)] assms(2) rw
      by (simp add: flight_inv_def pending_def balanced_def)
    with post_inv [of ?n ?w t ty] rw good have "flight_inv ?n (v_done bad t ty (v\<lparr>qv_answers := []\<rparr>))"
      by (simp add: v_done_def)
    with good assms(1) rw show ?thesis by (auto simp: queue_inv_def v_done_def)
  qed
qed

lemma v_done_simps:
  "qv_dispatch (v_done bad t ty v) = qv_dispatch v" "qv_answers (v_done bad t ty v) = qv_answers v"
  "qv_cqe (v_done bad t ty v) = qv_cqe v"
  "mmc_tot_in_flight (qv_mq (v_done bad t ty v)) \<le> mmc_tot_in_flight (qv_mq v)"
  by (simp_all add: v_done_def)

lemma answer_inv:
  assumes "(t, m) \<in> set (bw_answers s)" and "run_state (controller_answers t m) s = ((), u)"
    and inv: "queue_inv (view s)"
  shows "bw_answers s = [(t, m)] \<and> queue_inv (view u) \<and>
    (\<exists>bad ty. view u = v_done bad t ty ((view s)\<lparr>qv_answers := []\<rparr>))"
proof -
  have "length (bw_answers s) = 1"
    using inv assms(1) by (cases "bw_answers s") (auto simp: queue_inv_def flight_inv_def view_def)
  with assms(1) have one: "bw_answers s = [(t, m)]" by (cases "bw_answers s") auto
  let ?a = "upd_brq t (brq_of_mrq m) (s\<lparr>bw_answers := remove1 (t, m) (bw_answers s)\<rparr>)"
  have va: "view ?a = (view s)\<lparr>qv_answers := []\<rparr>" by (simp add: one)
  have "run_state (mmc_blk_mq_req_done t) ?a = ((), u)"
    using assms(2) by (simp add: controller_answers_def)
  with done_view [of t ?a] va obtain bad ty where vu: "view u = v_done bad t ty ((view s)\<lparr>qv_answers := []\<rparr>)" by auto
  have "qv_answers (view s) = [t]" by (simp add: view_def one)
  from done_inv [OF inv this] vu one show ?thesis by auto
qed

lemma complete_work_inv:
  assumes "run_state mmc_blk_mq_complete_work s = ((), u)" and inv: "queue_inv (view s)"
  shows "queue_inv (view u) \<and> qv_dispatch (view u) = qv_dispatch (view s) \<and>
    qv_answers (view u) = qv_answers (view s) \<and> qv_cqe (view u) = qv_cqe (view s) \<and>
    mmc_tot_in_flight (qv_mq (view u)) = mmc_tot_in_flight (qv_mq (view s)) -
      (if mq_complete_req (qv_mq (view s)) \<noteq> None then 1 else 0)"
proof -
  let ?s = "s\<lparr>bw_complete_work := False\<rparr>"
  let ?n = "if qv_dispatch (view s) = None then 0 else Suc 0"
  obtain r a where a: "run_state (mmc_blk_mq_complete_prev_req False) ?s = (r, a)" by fastforce
  then have ua: "u = a" using assms(1) by (simp add: mmc_blk_mq_complete_work_def)
  show ?thesis
  proof (cases "mq_use_cqe (qv_mq (view s))")
    case True
    with queue_flight [OF inv] have none: "mq_complete_req (qv_mq (view s)) = None" by (auto simp: flight_inv_def)
    with prev_view [OF a] ua have "view u = (view s)\<lparr>qv_complete_work := False\<rparr>" by simp
    with inv none show ?thesis by (simp add: queue_inv_def)
  next
    case False
    have "flight_inv ?n (view ?s)" using queue_flight [OF inv] by simp
    from prev_inv [OF a this] False ua inv show ?thesis by (auto simp: queue_inv_def)
  qed
qed

text \<open>The invariant with a command queue, where most of the state is unused.\<close>

definition cqe_inv :: "queue_view \<Rightarrow> bool" where
  "cqe_inv v \<longleftrightarrow> flags_of (qv_mq v) = flags_of \<lparr>mq_in_flight = (\<lambda>_. 0), mq_cqe_dcmd_busy = False,
      mq_cqe_queue_full = False, mq_busy = False, mq_use_cqe = True, mq_recovery_needed = qv_recovery_work v,
      mq_in_recovery = False, mq_rw_wait = False, mq_waiting = False, mq_recovery_req = None, mq_complete_req = None\<rparr> \<and>
    balanced 0 v \<and> qv_dispatch v = None \<and> qv_answers v = [] \<and>
    mmc_tot_in_flight (qv_mq v) = int (length (qv_cqe v) + length (qv_completing v))"

lemma cqe_queue_inv: "queue_inv v \<and> mq_use_cqe (qv_mq v) \<longleftrightarrow> cqe_inv v"
  by (auto simp: queue_inv_def flight_inv_def cqe_inv_def flags_iff pending_def)

lemma remove1_length: "t \<in> set xs \<Longrightarrow> int (length (remove1 t xs)) = int (length xs) - 1"
  using length_pos_if_in_set [of t xs]
  by (simp add: length_remove1 of_nat_diff Suc_leI del: length_greater_0_conv)

lemma complete_inv:
  assumes "t \<in> set (bw_completing s)" and "run_state (mmc_blk_mq_complete t) s = ((), u)"
    and inv: "queue_inv (view s)"
  shows "queue_inv (view u) \<and>
    (mq_use_cqe (qv_mq (view s)) \<longrightarrow> cqe_inv (view u) \<and> qv_cqe (view u) = qv_cqe (view s) \<and>
      mmc_tot_in_flight (qv_mq (view u)) = mmc_tot_in_flight (qv_mq (view s)) - 1)"
proof -
  let ?s = "s\<lparr>bw_completing := remove1 t (bw_completing s)\<rparr>"
  have t: "t \<in> set (qv_completing (view s))" using assms(1) by (simp add: view_def)
  then have len: "0 < length (qv_completing (view s))" by (rule length_pos_if_in_set)
  show ?thesis
  proof (cases "mq_use_cqe (qv_mq (view s))")
    case True
    obtain ty where v: "view u = v_cqe_complete ty (view ?s)"
      using assms(2) cqe_complete_view [of t ?s] True by (auto simp: mmc_blk_mq_complete_def read_view)
    have c: "cqe_inv (view s)" using inv True cqe_queue_inv by blast
    then have "balanced 0 (view ?s)" "0 < mmc_tot_in_flight (qv_mq (view ?s))"
      using len by (cases "qv_completing (view s)"; simp add: cqe_inv_def balanced_def)+
    then have "balanced 0 (view u)" unfolding v by (rule balanced_cqe)
    with c t have "cqe_inv (view u)" by (simp add: cqe_inv_def v remove1_length)
    then show ?thesis using cqe_queue_inv [of "view u"] by (auto simp: v)
  next
    case False
    then have "view u = view ?s"
      using assms(2) kept_view [OF complete_kept, of t ?s] by (simp add: mmc_blk_mq_complete_def read_view)
    with inv False show ?thesis by (simp add: queue_inv_def completing_inv)
  qed
qed

lemma cqe_done_inv:
  assumes "t \<in> set (bw_cqe s)" and "run_state (mmc_cqe_request_done t a) s = ((), u)"
    and inv: "queue_inv (view s)"
  shows "queue_inv (view u) \<and> mmc_tot_in_flight (qv_mq (view u)) = mmc_tot_in_flight (qv_mq (view s)) \<and>
    length (qv_cqe (view u)) < length (qv_cqe (view s)) \<and> qv_dispatch (view u) = None \<and> qv_answers (view u) = []"
proof -
  have t: "t \<in> set (qv_cqe (view s))" using assms(1) by (simp add: view_def)
  then have "mq_use_cqe (qv_mq (view s))" using inv by (auto simp: queue_inv_def flight_inv_def)
  with inv have c: "cqe_inv (view s)" using cqe_queue_inv by blast
  then have "\<not> mq_in_recovery (qv_mq (view s))" by (simp add: cqe_inv_def flags_iff)
  with request_done_view [of t a s] assms(2)
  have v: "view u = (view s)\<lparr>qv_cqe := remove1 t (qv_cqe (view s)), qv_completing := qv_completing (view s) @ [t]\<rparr>"
    by auto
  have "0 < length (qv_cqe (view s))" using t by (rule length_pos_if_in_set)
  moreover have "cqe_inv (view u)" using c t by (simp add: cqe_inv_def v remove1_length balanced_def)
  ultimately show ?thesis using cqe_queue_inv [of "view u"] t
    by (auto simp: v length_remove1 cqe_inv_def)
qed

lemma notifier_view:
  "view (snd (run_state mmc_cqe_recovery_notifier s)) =
    (if mq_recovery_needed (qv_mq (view s)) then view s
     else (view s)\<lparr>qv_mq := (qv_mq (view s))\<lparr>mq_recovery_needed := True\<rparr>, qv_recovery_work := True\<rparr>)"
  by (simp add: mmc_cqe_recovery_notifier_def split_beta read_view)

lemma notifier_inv:
  assumes "mq_use_cqe (qv_mq (view s))" and "queue_inv (view s)"
  shows "queue_inv (view (snd (run_state mmc_cqe_recovery_notifier s)))"
proof -
  have "cqe_inv (view s)" using assms cqe_queue_inv by blast
  then have "cqe_inv (view (snd (run_state mmc_cqe_recovery_notifier s)))"
    by (simp add: notifier_view cqe_inv_def flags_iff balanced_def)
  then show ?thesis using cqe_queue_inv by blast
qed

lemma timeout_inv:
  assumes "fst (op_cqe_timeout (w_ops (bw_world s)) (w_trace (bw_world s)))"
    and "run_state (mmc_mq_timed_out t) s = (r, u)" and "queue_inv (view s)"
  shows "queue_inv (view u)"
proof (cases "mq_recovery_needed (bw_mq s) \<or> \<not> mq_use_cqe (bw_mq s) \<or> type_of t s = MMC_ISSUE_SYNC")
  case True
  with assms(2) have "u = s" by (auto simp: mmc_mq_timed_out_def mmc_cqe_timed_out_def split: if_splits)
  with assms(3) show ?thesis by simp
next
  case False
  let ?a = "snd (run_state (core (emit EvCqeTimeout 0)) s)"
  have a: "view ?a = view s" by (rule kept_view [OF core_ev_kept [OF emit_evolves]])
  from False assms(1,2) have "u = ?a \<or> u = snd (run_state mmc_cqe_recovery_notifier ?a)"
    by (auto simp: mmc_mq_timed_out_def mmc_cqe_timed_out_def split_beta)
  with notifier_inv [of ?a] a assms(3) False show ?thesis by (auto simp: read_view)
qed

text \<open>The recovery, between taking the card and putting it back.\<close>

definition recovers :: "queue_view \<Rightarrow> queue_view" where
  "recovers v = v\<lparr>qv_recovery_work := False, qv_held := qv_held v + 1, qv_mq := (qv_mq v)\<lparr>mq_in_recovery := True\<rparr>\<rparr>"

definition recovered :: "queue_view \<Rightarrow> queue_view" where
  "recovered v = v\<lparr>qv_held := qv_held v - 1,
     qv_mq := (qv_mq v)\<lparr>mq_in_recovery := False, mq_recovery_needed := False\<rparr>\<rparr>"

lemma recover_cqe:
  assumes "cqe_inv v" and "v_same (recovers v) w" and "balanced 1 w" and "qv_cqe w = []"
    and "mmc_tot_in_flight (qv_mq w) = mmc_tot_in_flight (qv_mq v) - int (length (qv_cqe v))"
  shows "cqe_inv (recovered w)"
  using assms by (auto simp: cqe_inv_def v_same_def recovers_def recovered_def flags_iff balanced_def)

lemma recover_plain:
  assumes "queue_inv v" and "mq_recovery_req (qv_mq v) = Some t"
  shows "queue_inv (recovered (v_post t ty ((recovers v)\<lparr>qv_mq := (qv_mq (recovers v))
    \<lparr>mq_recovery_req := None, mq_rw_wait := False\<rparr>\<rparr>)))"
proof -
  let ?n = "if qv_dispatch v = None then 0 else Suc 0"
  define w where "w = v\<lparr>qv_recovery_work := False, qv_mq := (qv_mq v)\<lparr>mq_recovery_req := None, mq_rw_wait := False,
    mq_recovery_needed := False\<rparr>\<rparr>"
  have cqe: "\<not> mq_use_cqe (qv_mq v)" "mq_complete_req (qv_mq v) = None" "qv_answers v = []"
    using assms queue_flight [OF assms(1)] by (auto simp: flight_inv_def)
  have "flight_inv (Suc ?n) w"
    using queue_flight [OF assms(1)] assms(2) cqe by (simp add: w_def flight_inv_def pending_def balanced_def)
  then have "flight_inv ?n (v_dec ty w)" by (rule leave_inv)
  with assms(1) cqe have "queue_inv (v_dec ty w)"
    by (cases "qv_dispatch v") (simp_all add: queue_inv_def w_def)
  moreover have "recovered (v_post t ty ((recovers v)\<lparr>qv_mq := (qv_mq (recovers v))
    \<lparr>mq_recovery_req := None, mq_rw_wait := False\<rparr>\<rparr>)) = v_dec ty w"
    using queue_flight [OF assms(1)]
    by (simp add: recovered_def recovers_def v_post_def v_dec_def Let_def w_def add_in_flight_def
        mmc_tot_in_flight_def flight_inv_def)
  ultimately show ?thesis by simp
qed

lemma handler_start:
  "view (upd_mq (\<lambda>q. q\<lparr>mq_in_recovery := True\<rparr>) (snd (run_state queue_get_card (s\<lparr>bw_recovery_work := False\<rparr>)))) =
    recovers (view s)"
  by (simp add: recovers_def)

text \<open>The handler's second half, and the first with what it recovers.\<close>

lemma handler_end:
  assumes "run_state (if mq_use_cqe (qv_mq (view s)) then do { mmc_blk_cqe_recovery ans; ret (Some ()) }
      else mmc_blk_mq_recovery)
    (upd_mq (\<lambda>q. q\<lparr>mq_in_recovery := True\<rparr>) (snd (run_state queue_get_card (s\<lparr>bw_recovery_work := False\<rparr>)))) =
    (Some (), w)"
  shows "\<exists>u. run_state (mmc_mq_recovery_handler ans) s = (Some (), u) \<and> view u = recovered (view w)"
proof -
  obtain a where a: "run_state queue_get_card (s\<lparr>bw_recovery_work := False\<rparr>) = ((), a)" by (rule unit_run)
  define m where "m = (do {
        modify (upd_mq (\<lambda>q. q\<lparr>mq_in_recovery := False, mq_recovery_needed := False\<rparr>));
        queue_put_card;
        note_blk BlkRunQueues
      })"
  obtain u where u: "run_state m w = ((), u)" by (rule unit_run)
  have "view (snd (run_state m w)) = recovered (view w)" by (simp add: m_def split_beta recovered_def)
  with u have vu: "view u = recovered (view w)" by simp
  have "view a = (view (s\<lparr>bw_recovery_work := False\<rparr>))\<lparr>qv_held := qv_held (view (s\<lparr>bw_recovery_work := False\<rparr>)) + 1\<rparr>"
    using card_view(1) [of "s\<lparr>bw_recovery_work := False\<rparr>"] a by (simp only: snd_conv)
  then have "mq_use_cqe (bw_mq (upd_mq (\<lambda>q. q\<lparr>mq_in_recovery := True\<rparr>) a)) = mq_use_cqe (qv_mq (view s))"
    by (simp add: read_view)
  then have "run_state (mmc_mq_recovery_handler ans) s = (Some (), u)"
    using a u assms by (simp add: mmc_mq_recovery_handler_def m_def split: prod.splits)
  with vu show ?thesis by blast
qed

lemma recovery_work_inv:
  assumes "bw_recovery_work s" and inv: "queue_inv (view s)"
  shows "\<exists>u. run_state (mmc_mq_recovery_handler ans) s = (Some (), u) \<and> queue_inv (view u) \<and>
    qv_dispatch (view u) = qv_dispatch (view s) \<and> qv_answers (view u) = qv_answers (view s) \<and>
    length (qv_cqe (view u)) \<le> length (qv_cqe (view s)) \<and>
    mmc_tot_in_flight (qv_mq (view u)) = mmc_tot_in_flight (qv_mq (view s)) -
      (if mq_use_cqe (qv_mq (view s)) then int (length (qv_cqe (view s))) else 1)"
proof -
  let ?b = "upd_mq (\<lambda>q. q\<lparr>mq_in_recovery := True\<rparr>) (snd (run_state queue_get_card (s\<lparr>bw_recovery_work := False\<rparr>)))"
  have vb: "view ?b = recovers (view s)" by (rule handler_start)
  have work: "qv_recovery_work (view s)" using assms(1) by (simp add: view_def)
  show ?thesis
  proof (cases "mq_use_cqe (qv_mq (view s))")
    case True
    then have c: "cqe_inv (view s)" using inv cqe_queue_inv by blast
    obtain w where w: "run_state (mmc_blk_cqe_recovery ans) ?b = ((), w)" by (rule unit_run)
    have b: "mq_in_recovery (qv_mq (view ?b))" "balanced 1 (view ?b)"
      "int (length (qv_cqe (view ?b))) \<le> mmc_tot_in_flight (qv_mq (view ?b))"
      using c unfolding vb by (auto simp: recovers_def cqe_inv_def balanced_def)
    from cqe_recovery_view [OF b w] have r: "v_same (recovers (view s)) (view w)" "balanced 1 (view w)"
      "qv_cqe (view w) = []"
      "mmc_tot_in_flight (qv_mq (view w)) = mmc_tot_in_flight (qv_mq (view s)) - int (length (qv_cqe (view s)))"
      unfolding vb by (simp_all add: recovers_def)
    from recover_cqe [OF c r] have "queue_inv (recovered (view w))" using cqe_queue_inv by blast
    moreover obtain u where "run_state (mmc_mq_recovery_handler ans) s = (Some (), u)" "view u = recovered (view w)"
      using handler_end [of s ans w] True w by auto
    ultimately show ?thesis using True r by (auto simp: recovered_def v_same_def recovers_def)
  next
    case False
    then obtain t where t: "mq_recovery_req (qv_mq (view s)) = Some t"
      using queue_flight [OF inv] work by (auto simp: flight_inv_def)
    then have tb: "mq_recovery_req (qv_mq (view ?b)) = Some t" unfolding vb by (simp add: recovers_def)
    obtain w where w: "run_state mmc_blk_mq_recovery ?b = (Some (), w)"
      using recovery_view(1) [OF tb] by (metis prod.collapse)
    from recovery_view(2) [OF tb] w obtain ty where vw: "view w = v_post t ty ((recovers (view s))\<lparr>qv_mq :=
        (qv_mq (recovers (view s)))\<lparr>mq_recovery_req := None, mq_rw_wait := False\<rparr>\<rparr>)"
      unfolding vb by (metis snd_conv)
    have "queue_inv (recovered (view w))" unfolding vw by (rule recover_plain [OF inv t])
    moreover obtain u where "run_state (mmc_mq_recovery_handler ans) s = (Some (), u)" "view u = recovered (view w)"
      using handler_end [of s ans w] False w by auto
    ultimately show ?thesis using False
      by (auto simp: recovered_def vw v_post_def recovers_def)
  qed
qed

section \<open>Runs\<close>

lemma outside_view: "h_caps (w_host w) = h_caps (w_host (bw_world s)) \<Longrightarrow> view (s\<lparr>bw_world := w\<rparr>) = view s"
  by (simp add: view_def)

lemma cqe_used: "t \<in> set (bw_cqe s) \<Longrightarrow> queue_inv (view s) \<Longrightarrow> mq_use_cqe (qv_mq (view s))"
  by (auto simp: queue_inv_def flight_inv_def view_def)

lemma step_inv:
  assumes "queue_step e s u" and inv: "queue_inv (view s)"
  shows "queue_inv (view u)"
  using assms(1)
proof (cases rule: queue_step.cases)
  case (q_dispatch t r)
  then show ?thesis using inv by (blast intro: queue_rq_inv)
next
  case (q_resume t ty r)
  then show ?thesis using inv resume_inv by (fastforce simp: read_view)
next
  case (q_answer t m)
  then show ?thesis using inv answer_inv by blast
next
  case q_complete_work
  then show ?thesis using inv complete_work_inv by blast
next
  case (q_recovery_work ans)
  then show ?thesis using recovery_work_inv [of s ans] inv by auto
next
  case (q_complete t)
  then show ?thesis using inv complete_inv by blast
next
  case (q_cqe_done t a)
  then show ?thesis using inv cqe_done_inv by blast
next
  case (q_cqe_error t)
  then show ?thesis using notifier_inv [OF cqe_used inv] inv by auto
next
  case (q_timeout t r)
  then show ?thesis using inv timeout_inv by blast
next
  case (q_outside w)
  then show ?thesis using inv by (simp add: outside_view)
qed

lemma run_inv: "queue_run es s u \<Longrightarrow> queue_inv (view s) \<Longrightarrow> queue_inv (view u)"
  by (induction rule: queue_run.induct) (blast intro: step_inv)+

lemma run_append: "queue_run es s u \<Longrightarrow> queue_run fs u v \<Longrightarrow> queue_run (es @ fs) s v"
  by (induction rule: queue_run.induct) (auto intro: run_next)

text \<open>A queue as \<open>mmc_init_queue\<close> leaves it, with nothing under way.\<close>

definition fresh :: "blk_world \<Rightarrow> bool" where
  "fresh s \<longleftrightarrow> bw_mq s = fst (mmc_init_queue (w_host (bw_world s)) (w_card (bw_world s))) \<and>
    bw_dispatch s = None \<and> bw_answers s = [] \<and> bw_cqe s = [] \<and> bw_completing s = [] \<and>
    \<not> bw_recovery_work s \<and> \<not> bw_complete_work s \<and> bw_log s = []"

lemma fresh_inv: "fresh s \<Longrightarrow> queue_inv (view s)"
  by (simp add: fresh_def mmc_init_queue_def queue_inv_def flight_inv_def pending_def balanced_def view_def
      mmc_tot_in_flight_def cards_held_def)

lemma fresh_run: "fresh s \<Longrightarrow> queue_run es s u \<Longrightarrow> queue_inv (view u)"
  by (blast intro: run_inv fresh_inv)

section \<open>Emptying the queue\<close>

text \<open>What is left to be done: twice for each request in flight, and before that.\<close>

definition left_to_do :: "queue_view \<Rightarrow> nat" where
  "left_to_do v = 2 * nat (mmc_tot_in_flight (qv_mq v)) + length (qv_answers v) + length (qv_cqe v) +
    (if qv_dispatch v = None then 0 else 2)"

lemma resume_tot:
  assumes "run_state (queue_resume t ty) s = (r, u)" and "queue_inv (view s)"
    and "qv_dispatch (view s) \<noteq> None" and "mq_recovery_needed (qv_mq (view s)) \<or> \<not> mq_rw_wait (qv_mq (view s))"
  shows "left_to_do (view u) < left_to_do (view s)"
proof -
  have s: "flight_inv (Suc 0) (view s)" "\<not> mq_use_cqe (qv_mq (view s))"
    using assms(2,3) by (auto simp: queue_inv_def)
  obtain i a where a: "run_state (issue_go t ty) s = (i, a)" by fastforce
  with sleeps [of t ty s a] assms(4) obtain j where j: "i = Some j" by fastforce
  have run: "run_state (queue_issue t ty (Some j)) a = (r, u)" using assms(1) a j by (simp add: queue_resume_def)
  have g: "\<not> mq_use_cqe (qv_mq (view a))" "mmc_tot_in_flight (qv_mq (view a)) \<le> mmc_tot_in_flight (qv_mq (view s))"
    using go_inv [OF a [unfolded j] s] by auto
  have u: "qv_dispatch (view u) = None" "\<not> mq_use_cqe (qv_mq (view u))"
    "mmc_tot_in_flight (qv_mq (view u)) \<le> mmc_tot_in_flight (qv_mq (view s))"
    using issued_view [OF run] g by (auto simp: Let_def)
  have "queue_inv (view u)" by (rule resume_inv [OF assms(1-3)])
  then have "length (qv_answers (view u)) \<le> 1" "qv_cqe (view u) = []"
    using u(2) by (auto simp: queue_inv_def flight_inv_def)
  moreover have "nat (mmc_tot_in_flight (qv_mq (view u))) \<le> nat (mmc_tot_in_flight (qv_mq (view s)))"
    using u(3) by (rule nat_mono)
  ultimately show ?thesis using u(1) assms(3) by (auto simp: left_to_do_def)
qed

lemma drain_step:
  assumes inv: "queue_inv (view s)" and "0 < mmc_tot_in_flight (qv_mq (view s))"
  shows "\<exists>e u. queue_step e s u \<and> (\<forall>t. e \<noteq> Dispatch t) \<and> left_to_do (view u) < left_to_do (view s)"
proof -
  consider (answer) t m where "(t, m) \<in> set (bw_answers s)"
    | (cqe) t where "t \<in> set (bw_cqe s)"
    | (completing) t where "mq_use_cqe (qv_mq (view s))" "t \<in> set (bw_completing s)"
    | (recovery) "\<not> mq_use_cqe (qv_mq (view s))" "mq_recovery_req (qv_mq (view s)) \<noteq> None"
    | (complete) "mq_complete_req (qv_mq (view s)) \<noteq> None" "bw_complete_work s" "bw_answers s = []"
    | (sleeping) "bw_answers s = []" "mq_recovery_req (qv_mq (view s)) = None" "qv_dispatch (view s) \<noteq> None"
  proof -
    note answer = that(1) and cqe = that(2) and completing = that(3) and recovery = that(4)
      and complete = that(5) and sleeping = that(6)
    have "qv_answers (view s) = List.map fst (bw_answers s)" "qv_cqe (view s) = bw_cqe s"
      "qv_completing (view s) = bw_completing s" "qv_complete_work (view s) = bw_complete_work s"
      by (simp_all add: view_def)
    note parts = this
    have "0 < pending (view s) + (if qv_dispatch (view s) = None then 0 else Suc 0)"
      using queue_flight [OF inv] assms(2) by (cases "qv_dispatch (view s)") (auto simp: flight_inv_def)
    moreover have "mq_complete_req (qv_mq (view s)) \<noteq> None \<Longrightarrow> qv_dispatch (view s) = None \<Longrightarrow> bw_complete_work s"
      using inv parts by (auto simp: queue_inv_def)
    moreover have "mq_use_cqe (qv_mq (view s)) \<Longrightarrow> cqe_inv (view s)" using inv cqe_queue_inv by blast
    ultimately have facts: "0 < pending (view s) + (if qv_dispatch (view s) = None then 0 else Suc 0)"
      "mq_complete_req (qv_mq (view s)) \<noteq> None \<Longrightarrow> qv_dispatch (view s) = None \<Longrightarrow> bw_complete_work s"
      "mq_use_cqe (qv_mq (view s)) \<Longrightarrow> cqe_inv (view s)" by blast+
    show thesis
    proof (cases "bw_answers s = [] \<and> bw_cqe s = []")
      case False
      then show thesis using answer cqe by (cases "bw_answers s"; cases "bw_cqe s") auto
    next
      case none: True
      show thesis
      proof (cases "mq_use_cqe (qv_mq (view s))")
        case True
        with facts none parts have "bw_completing s \<noteq> []" by (auto simp: pending_def cqe_inv_def flags_iff)
        then show thesis using completing [OF True] by (cases "bw_completing s") auto
      next
        case False
        show thesis
        proof (cases "mq_recovery_req (qv_mq (view s)) = None \<and> qv_dispatch (view s) = None")
          case True
          with facts(1) none parts False have "mq_complete_req (qv_mq (view s)) \<noteq> None"
            by (auto simp: pending_def split: if_splits)
          with facts(2) True none show thesis by (intro complete) simp_all
        qed (use recovery [OF False] sleeping none in blast)
      qed
    qed
  qed
  then show ?thesis
  proof cases
    case (answer t m)
    obtain u where u: "run_state (controller_answers t m) s = ((), u)" by (rule unit_run)
    from answer_inv [OF answer u inv] obtain bad ty where one: "bw_answers s = [(t, m)]"
      and v: "view u = v_done bad t ty ((view s)\<lparr>qv_answers := []\<rparr>)" by auto
    have len: "length (qv_answers (view s)) = 1" using one by (simp add: view_def)
    have "nat (mmc_tot_in_flight (qv_mq (view u))) \<le> nat (mmc_tot_in_flight (qv_mq (view s)))"
      using v_done_simps(4) [of bad t ty "(view s)\<lparr>qv_answers := []\<rparr>"] v by (intro nat_mono) simp
    then have "left_to_do (view u) < left_to_do (view s)"
      using len by (simp add: left_to_do_def v v_done_simps(1,2,3))
    with q_answer [OF answer u] show ?thesis by blast
  next
    case (cqe t)
    obtain u where u: "run_state (mmc_cqe_request_done t (0, 0, 0)) s = ((), u)" by (rule unit_run)
    from cqe_done_inv [OF cqe u inv] have "left_to_do (view u) < left_to_do (view s)"
      by (simp add: left_to_do_def)
    with q_cqe_done [OF cqe u] show ?thesis by blast
  next
    case (completing t)
    obtain u where u: "run_state (mmc_blk_mq_complete t) s = ((), u)" by (rule unit_run)
    from complete_inv [OF completing(2) u inv] completing(1)
    have "qv_dispatch (view u) = None" "qv_answers (view u) = []" "qv_cqe (view u) = qv_cqe (view s)"
      "mmc_tot_in_flight (qv_mq (view u)) = mmc_tot_in_flight (qv_mq (view s)) - 1"
      unfolding cqe_inv_def by blast+
    then have "left_to_do (view u) < left_to_do (view s)"
      using assms(2) by (simp add: left_to_do_def nat_diff_distrib)
    with q_complete [OF completing(2) u] show ?thesis by blast
  next
    case recovery
    then have "bw_recovery_work s" using queue_flight [OF inv] by (auto simp: flight_inv_def view_def)
    with recovery_work_inv [OF this inv, of "\<lambda>_. (0, 0, 0)"] obtain u where
      u: "run_state (mmc_mq_recovery_handler (\<lambda>_. (0, 0, 0))) s = (Some (), u)"
      and "left_to_do (view u) < left_to_do (view s)" using recovery assms(2) by (auto simp: left_to_do_def)
    with q_recovery_work [OF \<open>bw_recovery_work s\<close> u] show ?thesis by blast
  next
    case complete
    obtain u where u: "run_state mmc_blk_mq_complete_work s = ((), u)" by (rule unit_run)
    from complete_work_inv [OF u inv] complete(1) assms(2) have "left_to_do (view u) < left_to_do (view s)"
      by (simp add: left_to_do_def)
    with q_complete_work [OF complete(2) u] show ?thesis by blast
  next
    case sleeping
    then obtain t ty where d: "bw_dispatch s = Some (t, ty)" by (cases "bw_dispatch s") (auto simp: view_def)
    obtain r u where u: "run_state (queue_resume t ty) s = (r, u)" by fastforce
    have "\<not> mq_rw_wait (qv_mq (view s))"
      using queue_flight [OF inv] sleeping by (auto simp: flight_inv_def view_def)
    with resume_tot [OF u inv sleeping(3)] q_resume [OF d u] show ?thesis by blast
  qed
qed

text \<open>A queue without new requests finishes all of them.\<close>

lemma drains:
  "queue_inv (view s) \<Longrightarrow>
    \<exists>es u. queue_run es s u \<and> (\<forall>t. Dispatch t \<notin> set es) \<and> queue_inv (view u) \<and> mmc_tot_in_flight (qv_mq (view u)) = 0"
proof (induction "left_to_do (view s)" arbitrary: s rule: less_induct)
  case less
  show ?case
  proof (cases "0 < mmc_tot_in_flight (qv_mq (view s))")
    case False
    moreover have "0 \<le> mmc_tot_in_flight (qv_mq (view s))"
      using queue_flight [OF less.prems] by (simp add: flight_inv_def balanced_def)
    ultimately have "mmc_tot_in_flight (qv_mq (view s)) = 0" by simp
    with less.prems run_none [of s] show ?thesis by fastforce
  next
    case True
    from drain_step [OF less.prems True] obtain e a where e: "queue_step e s a" "\<forall>t. e \<noteq> Dispatch t"
      "left_to_do (view a) < left_to_do (view s)" by blast
    from less.hyps [OF e(3) step_inv [OF e(1) less.prems]] obtain es u where
      "queue_run es a u" "\<forall>t. Dispatch t \<notin> set es" "queue_inv (view u)" "mmc_tot_in_flight (qv_mq (view u)) = 0"
      by blast
    with e run_next [OF e(1)] show ?thesis by (intro exI [of _ "e # es"] exI [of _ u]) auto
  qed
qed

end
