(* ===== verification/Block_Partitions.thy ===== *)
theory Block_Partitions
  imports Block_Ops Rescan_Ends
begin

text \<open>
  The partition that the driver believes to be selected and the register of the card that selects
  it: what switches of partition and ioctls do to both.
\<close>

section \<open>What commands leave alone\<close>

definition part_kept :: "mmc_world \<Rightarrow> mmc_world \<Rightarrow> bool" where
  "part_kept w v \<longleftrightarrow> ec_part_config (cd_ext_csd (w_card v)) = ec_part_config (cd_ext_csd (w_card w)) \<and>
    cd_type (w_card v) = cd_type (w_card w)"

interpretation pk: io_preorder part_kept
  by unfold_locales (simp_all add: part_kept_def)

lemma settled_part: "state_io_rel settled m \<Longrightarrow> state_io_rel part_kept m"
  unfolding state_io_rel_def
proof
  fix w assume "\<forall>w. settled w (snd (run_state m w))"
  then have "w_card (snd (run_state m w)) = w_card w" using settled_fields(1) by blast
  then show "part_kept w (snd (run_state m w))" by (simp add: part_kept_def)
qed

lemma host_part: "state_io_rel part_kept (modify (upd_host f))"
  by (rule pk.rel_modify) (simp add: part_kept_def upd_host_def)

lemma cmdq_part: "state_io_rel part_kept (mmc_cmdq_enable hooks)" "state_io_rel part_kept (mmc_cmdq_disable hooks)"
proof -
  have set: "state_io_rel part_kept (modify (upd_card (upd_ec (\<lambda>x. x\<lparr>ec_cmdq_en := b\<rparr>))))" for b
    by (rule pk.rel_modify) (simp add: part_kept_def upd_card_def upd_ec_def)
  show "state_io_rel part_kept (mmc_cmdq_enable hooks)" "state_io_rel part_kept (mmc_cmdq_disable hooks)"
    unfolding mmc_cmdq_enable_def mmc_cmdq_disable_def mmc_cmdq_switch_def
    by (intro pk.rel_intros set settled_part io_settled)+
qed

lemma pre_post_part:
  "state_io_rel part_kept (mmc_blk_part_switch_pre p)" "state_io_rel part_kept (mmc_blk_part_switch_post p)"
proof -
  have pause: "state_io_rel part_kept mmc_retune_pause" "state_io_rel part_kept mmc_retune_unpause"
    unfolding mmc_retune_pause_def mmc_retune_unpause_def
    by (intro pk.rel_intros host_part settled_part io_settled)+
  show "state_io_rel part_kept (mmc_blk_part_switch_pre p)" "state_io_rel part_kept (mmc_blk_part_switch_post p)"
    unfolding mmc_blk_part_switch_pre_def mmc_blk_part_switch_post_def
    by (intro pk.rel_intros cmdq_part pause)+
qed

section \<open>Tracking\<close>

text \<open>The bits of the register that select a partition.\<close>

definition selects :: "u8 \<Rightarrow> u32 \<Rightarrow> bool" where
  "selects config p \<longleftrightarrow> config AND EXT_CSD_PART_CONFIG_ACC_MASK = ucast p"

definition tracked :: "blk_world \<Rightarrow> bool" where
  "tracked s \<longleftrightarrow> (mmc_card_mmc (w_card (bw_world s)) \<longrightarrow>
    selects (ec_part_config (cd_ext_csd (w_card (bw_world s)))) (bw_part_curr s))"

definition a_partition :: "u32 \<Rightarrow> bool" where
  "a_partition p \<longleftrightarrow> p AND NOT 7 = 0"

lemma select_partition:
  assumes "a_partition p"
  shows "selects (c AND NOT EXT_CSD_PART_CONFIG_ACC_MASK OR ucast p) p"
proof -
  have m: "(7 :: u8) = mask 3" "(7 :: u32) = mask 3" by (simp_all add: mask_eq_exp_minus_1)
  have "n < 3" if "bit p n" for n
  proof -
    from that have "n < 32" by (rule bit_imp_le_length [of p n, simplified])
    moreover have "\<not> bit (p AND NOT 7) n" using assms by (simp add: a_partition_def)
    ultimately show ?thesis using that by (auto simp: m(2) bit_simps)
  qed
  then show ?thesis unfolding selects_def m(1)
    by (intro bit_eqI) (auto simp: bit_simps)
qed

lemma part_run:
  assumes "state_io_rel part_kept m" and "run_state m w = (x, v)"
  shows "ec_part_config (cd_ext_csd (w_card v)) = ec_part_config (cd_ext_csd (w_card w)) \<and>
    cd_type (w_card v) = cd_type (w_card w)"
  using pk.rel_run [OF assms] by (simp add: part_kept_def)

lemma config_switch_tracks:
  assumes "run_state (part_config_switch cur p) w = ((err, switched), v)" and "a_partition p"
  shows "cd_type (w_card v) = cd_type (w_card w) \<and> (err = 0 \<longrightarrow> switched) \<and>
    (if switched then selects (ec_part_config (cd_ext_csd (w_card v))) p
     else ec_part_config (cd_ext_csd (w_card v)) = ec_part_config (cd_ext_csd (w_card w)))"
proof -
  obtain e a where a: "run_state (mmc_blk_part_switch_pre p) w = (e, a)" by fastforce
  note pa = part_run [OF pre_post_part(1) a]
  let ?config = "ec_part_config (cd_ext_csd (w_card w)) AND NOT EXT_CSD_PART_CONFIG_ACC_MASK OR ucast p"
  obtain f b where b: "run_state (mmc_switch hooks EXT_CSD_CMD_SET_NORMAL EXT_CSD_PART_CONFIG ?config
      (ec_part_time (cd_ext_csd (w_card a)))) a = (f, b)" by fastforce
  have "state_io_rel part_kept (mmc_switch hooks EXT_CSD_CMD_SET_NORMAL EXT_CSD_PART_CONFIG ?config
      (ec_part_time (cd_ext_csd (w_card a))))" by (intro settled_part io_settled)
  note pb = part_run [OF this b]
  obtain g c where c: "run_state (mmc_blk_part_switch_post p) b = (g, c)" by fastforce
  note pc = part_run [OF pre_post_part(2) c]
  let ?d = "upd_card (upd_ec (\<lambda>x. x\<lparr>ec_part_config := ?config\<rparr>)) b"
  obtain h d where d: "run_state (mmc_blk_part_switch_post cur) ?d = (h, d)" by fastforce
  note pd = part_run [OF pre_post_part(2) d]
  have sel: "selects ?config p" by (rule select_partition [OF assms(2)])
  consider "e \<noteq> 0" "err = e" "\<not> switched" "v = a" | "e = 0" "f \<noteq> 0" "err = f" "\<not> switched" "v = c"
    | "e = 0" "f = 0" "switched" "v = d"
    using assms(1) a b c d by (auto simp: part_config_switch_def Let_def split: if_splits)
  then show ?thesis
    by cases (use pa pb pc pd sel in \<open>simp_all add: upd_card_def upd_ec_def\<close>)
qed

text \<open>A switch of partition.\<close>

lemma part_switch_tracks:
  assumes "run_state (mmc_blk_part_switch p) s = (err, u)" and "a_partition p" and "tracked s"
  shows "tracked u \<and> (err = 0 \<longrightarrow> bw_part_curr u = p)"
proof (cases "bw_part_curr s = p \<or> \<not> mmc_card_mmc (w_card (bw_world s))")
  case True
  with assms show ?thesis by (auto simp: mmc_blk_part_switch_def tracked_def split: if_splits)
next
  case False
  obtain e b v where v: "run_state (part_config_switch (bw_part_curr s) p) (bw_world s) = ((e, b), v)"
    by (metis prod.exhaust)
  have "err = e" "u = (if b then s\<lparr>bw_world := v, bw_part_curr := p\<rparr> else s\<lparr>bw_world := v\<rparr>)"
    using assms(1) v False by (auto simp: mmc_blk_part_switch_def split: if_splits)
  with config_switch_tracks [OF v assms(2)] assms(3) show ?thesis
    by (auto simp: tracked_def split: if_splits)
qed

section \<open>Ioctls\<close>

lemma tracked_kept:
  assumes "state_io_rel part_kept m" and "run_state (core m) s = (x, u)" and "tracked s"
  shows "tracked u"
proof -
  have "run_state m (bw_world s) = (x, bw_world u)" "bw_part_curr u = bw_part_curr s"
    using assms(2) by auto
  with part_run [OF assms(1)] assms(3) show ?thesis by (auto simp: tracked_def)
qed

text \<open>The partition that an ioctl is sent to.\<close>

definition ioc_target :: "mmc_blk_data \<Rightarrow> mmc_ioc \<Rightarrow> u32" where
  "ioc_target md i = (case ioc_rpmb i of Some index \<Rightarrow> index OR EXT_CSD_PART_CONFIG_ACC_RPMB | None \<Rightarrow> md_part_type md)"

text \<open>Operations that keep the driver's data and the tracking; \<open>md\<close> is the data before.\<close>

definition tracks :: "mmc_blk_data \<Rightarrow> blk_world \<Rightarrow> blk_world \<Rightarrow> bool" where
  "tracks md s u \<longleftrightarrow> (bw_md s = md \<longrightarrow> bw_md u = md \<and> (tracked s \<longrightarrow> tracked u))"

interpretation tr: io_preorder "tracks md" for md
  by unfold_locales (simp_all add: tracks_def)

lemma gets_tracks:
  "(\<And>x. bw_md x = md \<Longrightarrow> state_io_rel (tracks md) (f x)) \<Longrightarrow> state_io_rel (tracks md) (gets id \<bind> f)"
  by (auto simp: state_io_rel_def tracks_def split_beta)

lemma core_tracks:
  assumes "state_io_rel part_kept m"
  shows "state_io_rel (tracks md) (core m)"
  unfolding state_io_rel_def
proof
  fix s
  obtain x u where u: "run_state (core m) s = (x, u)" by fastforce
  then have "bw_md u = bw_md s" by auto
  with tracked_kept [OF assms u] u show "tracks md s (snd (run_state (core m) s))" by (simp add: tracks_def)
qed

lemma switch_tracks:
  assumes "a_partition p"
  shows "state_io_rel (tracks md) (mmc_blk_part_switch p)"
  unfolding state_io_rel_def
proof
  fix s
  obtain x u where u: "run_state (mmc_blk_part_switch p) s = (x, u)" by fastforce
  with part_switch_md [of p s] part_switch_tracks [OF u assms]
  show "tracks md s (snd (run_state (mmc_blk_part_switch p) s))" by (simp add: tracks_def)
qed

text \<open>An ioctl that writes the register itself.\<close>

lemma ioctl_value_tracks:
  "state_io_rel (tracks md) (do {
     core (modify (upd_card (upd_ec (\<lambda>x. x\<lparr>ec_part_config := ucast value\<rparr>))));
     modify (\<lambda>s. s\<lparr>bw_part_curr := value AND ucast EXT_CSD_PART_CONFIG_ACC_MASK\<rparr>)
   })"
proof -
  have "selects (ucast value) (value AND ucast EXT_CSD_PART_CONFIG_ACC_MASK)"
    unfolding selects_def by (rule bit_eqI) (auto simp: bit_simps)
  then show ?thesis
    by (simp add: state_io_rel_def tracks_def tracked_def upd_card_def upd_ec_def)
qed

lemma ioctl_tracks:
  assumes "a_partition (ioc_target md i)"
  shows "state_io_rel (tracks md) (blk_ioctl_cmd i)"
proof -
  have status: "state_io_rel settled (send_status_retries hooks k)" "state_io_rel settled (mmc_app_cmd b)" for k b
    unfolding send_status_retries_def mmc_app_cmd_def by (intro io_settled st.rel_intros)+
  have poll: "state_io_rel settled (rpmb_card_status_poll k)" for k
    by (induction k) (auto intro!: st.rel_intros status io_settled)
  have san: "state_io_rel settled ioctl_do_sanitize"
    unfolding ioctl_do_sanitize_def by (intro io_settled st.rel_intros)
  show ?thesis
    unfolding blk_ioctl_cmd_def ioc_target_def [symmetric]
    by (rule gets_tracks)
      (intro ioctl_value_tracks tr.rel_intros switch_tracks core_tracks settled_part status poll san io_settled; simp add: assms)
qed

lemma ioctls_track:
  "\<forall>i \<in> set is. a_partition (ioc_target md i) \<Longrightarrow> state_io_rel (tracks md) (blk_ioctl_cmds is)"
  by (induction "is") (auto intro!: tr.rel_intros ioctl_tracks)

end
