(* ===== verification/Block_Rw_Facts.thy ===== *)
theory Block_Rw_Facts
  imports Block_Disk Block_Queue_Facts
begin

text \<open>
  Facts about the preparation of reads and writes: how many blocks a request is cut to, and that
  the list of segments is cut to as many bytes.
\<close>

section \<open>Segments\<close>

definition sg_total :: "u32 list \<Rightarrow> nat" where
  "sg_total ls = sum_list (List.map unat ls)"

lemma sum_list_unat: "sum_list (ls :: u32 list) = of_nat (sg_total ls)"
  by (induction ls) (simp_all add: sg_total_def)

lemma adjust_total:
  assumes "0 \<le> left" and "left \<le> int (sg_total ls)"
  shows "int (sg_total (adjust_sg left ls)) = left"
  using assms
proof (induction ls arbitrary: left)
  case Nil
  then show ?case by (simp add: sg_total_def)
next
  case (Cons l ls)
  show ?case
  proof (cases "left - uint l \<le> 0")
    case True
    have "l + word_of_int (left - uint l) = word_of_int left" by simp
    moreover have "left < 2 ^ 32" using True uint_lt2p [of l] by simp
    ultimately have "uint (l + word_of_int (left - uint l)) = left"
      using Cons.prems(1) by (simp add: uint_word_of_int)
    with True show ?thesis by (simp add: sg_total_def)
  next
    case False
    with Cons.IH [of "left - uint l"] Cons.prems show ?thesis by (simp add: sg_total_def)
  qed
qed

lemma adjust_total_nat: "n \<le> sg_total ls \<Longrightarrow> sg_total (adjust_sg (int n) ls) = n"
  using adjust_total [of "int n" ls] by simp

section \<open>Blocks\<close>

text \<open>
  The quirk of a controller that cannot transfer many blocks at once gives the number of blocks
  that it can, at least one and none that was not asked for.
\<close>

definition quirk_ok :: "mmc_world \<Rightarrow> bool" where
  "quirk_ok w \<longleftrightarrow> (\<forall>quirk c dir n. op_multi_io_quirk (w_ops w) = Some quirk \<longrightarrow> 0 < n \<longrightarrow>
    0 < quirk c dir n \<and> quirk c dir n \<le> n)"

lemma multi_blocks_le: "1 < n \<Longrightarrow> 0 < multi_blocks w md r b n \<and> multi_blocks w md r b n \<le> n"
proof -
  assume "1 < n"
  moreover then have "0 < n - 1 \<and> n - 1 \<le> n" by unat_arith
  ultimately show ?thesis by (auto simp: multi_blocks_def Let_def)
qed

lemma data_blocks_le:
  assumes "quirk_ok w" and "0 < rq_sectors r" and "rq_sectors r \<le> h_max_blk_count (w_host w)"
  shows "0 < data_blocks w md r b \<and> data_blocks w md r b \<le> rq_sectors r"
proof (cases "rq_sectors r > 1")
  case False
  with assms show ?thesis by (simp add: data_blocks_def min_def)
next
  case True
  from multi_blocks_le [OF this] have n: "0 < multi_blocks w md r b (rq_sectors r)"
    "multi_blocks w md r b (rq_sectors r) \<le> rq_sectors r" by blast+
  let ?n = "multi_blocks w md r b (rq_sectors r)"
  have "0 < quirk c d ?n \<and> quirk c d ?n \<le> rq_sectors r" if "op_multi_io_quirk (w_ops w) = Some quirk" for quirk c d
    using assms(1) that n by (auto simp: quirk_ok_def intro: order.trans)
  with True assms(3) n show ?thesis by (auto simp: data_blocks_def Let_def min_def split: option.split)
qed

lemma apply_rel_le: "0 < n \<Longrightarrow> mmc_apply_rel_rw c pos n \<le> n"
proof -
  assume "0 < n"
  then have "1 \<le> n" by (simp add: word_le_nat_alt word_less_nat_alt)
  then show ?thesis by (auto simp: mmc_apply_rel_rw_def Let_def intro: less_imp_le)
qed

lemma timeout_keeps:
  "dat_blksz (mmc_set_data_timeout h c d) = dat_blksz d" "dat_blocks (mmc_set_data_timeout h c d) = dat_blocks d"
  by (simp_all add: mmc_set_data_timeout_def Let_def)

text \<open>The data of a prepared request.\<close>

lemma prep_data:
  assumes "quirk_ok w" and "0 < rq_sectors r" and "rq_sectors r \<le> h_max_blk_count (w_host w)"
  shows "let d = brq_data (mmc_blk_rw_rq_prep w bl md r b) in
    brq_has_data (mmc_blk_rw_rq_prep w bl md r b) \<and> dat_blksz d = 512 \<and> dat_blocks d \<le> rq_sectors r \<and>
    dat_sg d = (if dat_blocks d \<noteq> rq_sectors r then adjust_sg (sint (push_bit 9 (dat_blocks d))) (bl_map_sg bl r)
      else bl_map_sg bl r)"
proof -
  define n where "n = (if rq_fua r \<and> rq_write r \<and> md_rel_wr md then mmc_apply_rel_rw (w_card w) (rq_pos r) (data_blocks w md r b)
    else data_blocks w md r b)"
  have "n \<le> rq_sectors r"
    using data_blocks_le [OF assms, of md b] apply_rel_le [of "data_blocks w md r b"]
    by (auto simp: n_def intro: order.trans)
  then show ?thesis
    by (simp add: mmc_blk_rw_rq_prep_def mmc_blk_data_prep_def Let_def n_def timeout_keeps split_beta)
qed

text \<open>What holds of every prepared request.\<close>

lemma prep_shape:
  "brq_has_data (mmc_blk_rw_rq_prep w bl md r b)" "dat_blksz (brq_data (mmc_blk_rw_rq_prep w bl md r b)) = 512"
  "cmd_retries (brq_cmd (mmc_blk_rw_rq_prep w bl md r b)) = 0"
  by (simp_all add: mmc_blk_rw_rq_prep_def mmc_blk_data_prep_def Let_def timeout_keeps split_beta cmd0_def)

section \<open>The check of the core\<close>

lemma unat_times_512:
  "unat (n :: u32) * 512 < 2 ^ 31 \<Longrightarrow> unat (n * 512) = unat n * 512 \<and> sint (push_bit 9 n) = int (unat n * 512)"
proof -
  assume a: "unat n * 512 < 2 ^ 31"
  then have m: "unat (n * 512) = unat n * 512" by (simp add: unat_mult_lem [THEN iffD1])
  have "push_bit 9 n = n * 512" by (simp add: push_bit_eq_mult)
  moreover have u: "uint (n * 512) = int (unat n * 512)" unfolding uint_nat m by (rule refl)
  moreover have "sint (n * 512) = uint (n * 512)"
    unfolding sint_uint by (rule signed_take_bit_int_eq_self) (use a in \<open>simp_all add: u del: of_nat_mult\<close>)
  ultimately show ?thesis using m by simp
qed

lemma whole_sectors: "rq_bytes r mod 512 = 0 \<Longrightarrow> unat (rq_bytes r) = unat (rq_sectors r) * 512"
proof -
  assume "rq_bytes r mod 512 = 0"
  then have "unat (rq_bytes r) mod 512 = 0" by (simp add: unat_mod_distrib [symmetric] word_unat_eq_iff unat_mod)
  moreover have "unat (rq_sectors r) = unat (rq_bytes r) div 512"
    by (simp add: rq_sectors_def drop_bit_eq_div unat_div)
  ultimately show ?thesis using div_mult_mod_eq [of "unat (rq_bytes r)" 512] by simp
qed

lemma within_bytes:
  assumes "within_limits (mmc_setup_queue q h c) r" and "h_max_req_size h < 2 ^ 31"
  shows "0 < rq_sectors r \<and> rq_sectors r \<le> h_max_blk_count h \<and> unat (rq_bytes r) = unat (rq_sectors r) * 512 \<and>
    unat (rq_sectors r) * 512 \<le> unat (h_max_req_size h) \<and> unat (rq_sectors r) * 512 < 2 ^ 31"
proof -
  have b: "unat (rq_bytes r) = unat (rq_sectors r) * 512" using assms(1) by (simp add: within_limits_def whole_sectors)
  have "0 < unat (rq_bytes r)" using assms(1) by (simp add: within_limits_def word_less_nat_alt)
  with b have pos: "0 < rq_sectors r" by (simp add: word_less_nat_alt)
  have "rq_sectors r \<le> h_max_req_size h div 512" "rq_sectors r \<le> h_max_blk_count h"
    using assms(1) by (simp_all add: within_limits_def mmc_setup_queue_def)
  moreover then have "unat (rq_sectors r) \<le> unat (h_max_req_size h) div 512"
    by (simp add: word_le_nat_alt unat_div)
  moreover have "unat (h_max_req_size h) < 2 ^ 31" using assms(2) by (simp add: word_less_nat_alt)
  ultimately show ?thesis using b pos by auto
qed

section \<open>Single sectors\<close>

text \<open>A block layer whose requests get shorter; with it the loop's condition is that of the code.\<close>

definition updates_shorten :: "blk_layer \<Rightarrow> bool" where
  "updates_shorten bl \<longleftrightarrow> (\<forall>r st n. 0 < n \<longrightarrow> fst (bl_update bl r st n) \<longrightarrow> rq_bytes (snd (bl_update bl r st n)) < rq_bytes r)"

lemma sector_keeps:
  assumes "run_state (read_sector t) s = (r, v)"
  shows "bytes_left t v = bytes_left t s \<and> bw_layer v = bw_layer s \<and> bw_log v = bw_log s"
  using assms
  by (auto simp: read_sector_def rw_prep_def split_beta Let_def bytes_left_def upd_brq_def upd_mqr_def split: if_splits)

lemma read_single_round:
  assumes "updates_shorten (bw_layer s)"
  shows "read_single t retries error s =
    (case run_state (read_sector t) s of
       (None, v) \<Rightarrow> run_state (read_single_fail t) v
     | (Some (b, status), v) \<Rightarrow>
         (case sector_result (bw_world v) retries error b status of
            (retries, error) \<Rightarrow>
              (case run_state (blk_update_request t error 512) v of
                 (pending, u) \<Rightarrow> if pending then read_single t retries error u else ((), u))))"
proof -
  have "bytes_left t u < bytes_left t s"
    if "run_state (read_sector t) s = (r, v)" "run_state (blk_update_request t e 512) v = (True, u)" for r v e u
  proof -
    have "rq_bytes (mqr_req (bw_reqs u t)) < rq_bytes (mqr_req (bw_reqs v t))"
      using that(2) sector_keeps [OF that(1)] assms
      by (auto simp: blk_update_request_def note_blk_def split_beta Let_def upd_mqr_def updates_shorten_def)
    with sector_keeps [OF that(1)] show ?thesis by (simp add: bytes_left_def word_less_nat_alt)
  qed
  then show ?thesis
    by (subst read_single.simps) (auto split: prod.split option.split)
qed

text \<open>The block layer's events only get more.\<close>

definition log_grows :: "blk_world \<Rightarrow> blk_world \<Rightarrow> bool" where
  "log_grows s u \<longleftrightarrow> prefix (bw_log s) (bw_log u)"

interpretation lg: io_preorder log_grows
  by unfold_locales (auto simp: log_grows_def intro: prefix_order.trans)

lemma same_log: "(\<And>s. bw_log (snd (run_state m s)) = bw_log s) \<Longrightarrow> state_io_rel log_grows m"
  by (simp add: state_io_rel_def log_grows_def)

lemma update_logs:
  "bw_log (snd (run_state (blk_update_request t st n) s)) = bw_log s @ [BlkUpdate t st n]"
  by (simp add: blk_update_request_def note_blk_def split_beta Let_def upd_mqr_def)

lemma read_single_grows: "log_grows s (snd (read_single t n e s))"
proof (rule read_single_rel [OF lg.io_preorder_axioms])
  show "state_io_rel log_grows (read_sector t)"
    by (rule same_log) (metis sector_keeps prod.collapse)
  show upd: "state_io_rel log_grows (blk_update_request t st n)" for st n
    by (simp add: state_io_rel_def log_grows_def update_logs)
  show "state_io_rel log_grows (read_single_fail t)"
    unfolding read_single_fail_def set_bytes_xfered_def
    by (intro lg.rel_intros upd; rule lg.rel_modify; simp add: log_grows_def upd_brq_def upd_mqr_def)
qed

section \<open>Resets\<close>

lemma or_mask_again: "(x OR y) AND y \<noteq> 0 \<longleftrightarrow> y \<noteq> (0 :: u32)"
  by (simp add: or_and_mask)

lemma and_not_mask: "(x AND NOT y) AND y = (0 :: u32)"
  by (rule bit_eqI) (auto simp: bit_simps)

lemma reset_done_after:
  assumes "run_state (mmc_blk_reset type) s = (r, u)"
  shows "md_reset_done (bw_md u) = (if md_reset_done (bw_md s) AND type \<noteq> 0 then md_reset_done (bw_md s)
      else md_reset_done (bw_md s) OR type)"
proof (cases "md_reset_done (bw_md s) AND type \<noteq> 0")
  case True
  with assms show ?thesis by (auto simp: mmc_blk_reset_def)
next
  case False
  let ?a = "upd_md (\<lambda>m. m\<lparr>md_reset_done := md_reset_done m OR type\<rparr>) s"
  obtain e b where e: "run_state (core block_hw_reset) ?a = (e, b)" by fastforce
  have b: "bw_md b = bw_md ?a" using core_md_eq [OF e [symmetric]] .
  obtain p d where d: "run_state (mmc_blk_part_switch (md_part_type (bw_md s))) (b\<lparr>bw_part_curr := bw_main_type b\<rparr>) = (p, d)"
    by fastforce
  have "bw_md d = bw_md b" using part_switch_md [of "md_part_type (bw_md s)" "b\<lparr>bw_part_curr := bw_main_type b\<rparr>"] d by simp
  moreover have "u = (if e = - 95 then b else d)"
    using assms False e d by (auto simp: mmc_blk_reset_def simp del: run_core split: if_splits)
  ultimately show ?thesis using False b by (simp add: upd_md_def)
qed

text \<open>The reset of SD cards ends, so that \<open>block_hw_reset\<close> is the code's.\<close>

lemma block_hw_reset_returns:
  assumes "s18_on_request (w_ops w)"
  shows "\<exists>err v. run_state (mmc_hw_reset 11) w = (Some err, v) \<and> run_state block_hw_reset w = (err, v)"
proof -
  obtain r v where r: "run_state (mmc_hw_reset 11) w = (r, v)" by fastforce
  with hw_reset_ends [of 11] assms obtain err where "r = Some err" by (cases r) (auto simp: ends_def)
  with r show ?thesis by (simp add: block_hw_reset_def)
qed

section \<open>Disks\<close>

text \<open>The disks of the partitions: those with a size that are not for the RPMB.\<close>

lemma alloc_parts_filter:
  "alloc_parts h c ps (ds, rs) =
    (rev (List.map (mmc_blk_alloc_part h c)
        (filter (\<lambda>p. part_area_type p \<noteq> MMC_BLK_DATA_AREA_RPMB \<and> part_size p \<noteq> 0) ps)) @ ds,
     rev (filter (\<lambda>p. part_area_type p = MMC_BLK_DATA_AREA_RPMB) ps) @ rs)"
  by (induction ps arbitrary: ds rs) auto

lemma alloc_flags:
  "md_cmd23 (dk_md (mmc_blk_alloc_req h c n ro name a)) = blk_cmd23 h c"
  "md_rel_wr (dk_md (mmc_blk_alloc_req h c n ro name a)) = blk_rel_wr h c"
  by (simp_all add: mmc_blk_alloc_req_def split_beta)

lemma probe_cmd23:
  assumes "mmc_blk_probe h c0 = Inr (c, main, parts, rpmbs)" and "d \<in> insert main (set parts)" and "md_rel_wr (dk_md d)"
  shows "md_cmd23 (dk_md d)"
proof -
  have "main = mmc_blk_alloc h c" "(parts, rpmbs) = mmc_blk_alloc_parts h c"
    using assms(1) by (auto simp: mmc_blk_probe_def Let_def split: if_splits)
  then have "d = mmc_blk_alloc h c \<or> (\<exists>p. d = mmc_blk_alloc_part h c p)"
    using assms(2) by (auto simp: mmc_blk_alloc_parts_def alloc_parts_filter split: if_splits)
  with assms(3) show ?thesis
    by (auto simp: mmc_blk_alloc_def mmc_blk_alloc_part_def alloc_flags blk_rel_wr_def Let_def)
qed

text \<open>Reliable writes.\<close>

lemma rel_prep:
  fixes w bl disable_multi
  assumes "md_cmd23 md" and "md_rel_wr md" and "rq_write r" and "rq_fua r"
  defines "b \<equiv> mmc_blk_rw_rq_prep w bl md r disable_multi"
  shows "cmd_opcode (brq_cmd b) = MMC_WRITE_MULTIPLE_BLOCK" "brq_has_sbc b"
    "cmd_opcode (brq_sbc b) = MMC_SET_BLOCK_COUNT" "cmd_arg (brq_sbc b) AND 0x80000000 \<noteq> 0"
proof -
  have bit: "(x OR 0x80000000 OR y) AND 0x80000000 \<noteq> (0 :: u32)" for x y
  proof
    assume "(x OR 0x80000000 OR y) AND 0x80000000 = 0"
    then have "bit ((x OR 0x80000000 OR y) AND 0x80000000) 31 = bit (0 :: u32) 31" by simp
    then show False by (simp add: bit_simps)
  qed
  show "cmd_opcode (brq_cmd b) = MMC_WRITE_MULTIPLE_BLOCK" "brq_has_sbc b"
    "cmd_opcode (brq_sbc b) = MMC_SET_BLOCK_COUNT" "cmd_arg (brq_sbc b) AND 0x80000000 \<noteq> 0"
    using assms(1-4) bit unfolding b_def
    by (simp_all add: mmc_blk_rw_rq_prep_def mmc_blk_data_prep_def Let_def split_beta mmc_op_multi_def)
qed

lemma rel_prep_blocks:
  assumes "ec_rel_param (cd_ext_csd (w_card w)) AND EXT_CSD_WR_REL_PARAM_EN = 0"
    and "md_rel_wr md" and "rq_write r" and "rq_fua r"
  shows "dat_blocks (brq_data (mmc_blk_rw_rq_prep w bl md r b)) = 1 \<or>
    dat_blocks (brq_data (mmc_blk_rw_rq_prep w bl md r b)) = ucast (ec_rel_sectors (cd_ext_csd (w_card w)))"
proof -
  have "mmc_apply_rel_rw (w_card w) p n = 1 \<or> mmc_apply_rel_rw (w_card w) p n = ucast (ec_rel_sectors (cd_ext_csd (w_card w)))"
    for p n using assms(1) by (auto simp: mmc_apply_rel_rw_def Let_def not_less)
  with assms(2-4) show ?thesis
    by (simp add: mmc_blk_rw_rq_prep_def mmc_blk_data_prep_def Let_def split_beta timeout_keeps)
qed

end
