(* ===== verification/Example_Disk.thy ===== *)
theory Example_Disk
  imports Block_Rw_Facts Quiet_World
begin

text \<open>
  A disk on the example card: a block layer that counts down, and requests that read 4 KiB each;
  and requests that fail before they reach the controller.
\<close>

definition layer_ok :: blk_layer where
  "layer_ok = \<lparr>bl_update = (\<lambda>r st n. (n < rq_bytes r,
       r\<lparr>rq_bytes := rq_bytes r - n, rq_pos := rq_pos r + ucast (drop_bit 9 n)\<rparr>)), bl_map_sg = (\<lambda>r. [rq_bytes r])\<rparr>"

definition md_ok :: mmc_blk_data where
  "md_ok = \<lparr>md_cmd23 = False, md_rel_wr = False, md_usage = 1, md_read_only = False, md_part_type = 0,
     md_reset_done = 0, md_area_type = MMC_BLK_DATA_AREA_MAIN, md_capacity = 1048576\<rparr>"

definition read_ok :: "nat \<Rightarrow> mmc_queue_req" where
  "read_ok t = \<lparr>mqr_req = \<lparr>rq_op = REQ_OP_READ, rq_pos = of_nat t * 8, rq_bytes = 4096, rq_fua = False,
       rq_meta = False, rq_quiet = False, rq_dontprep = False\<rparr>, mqr_brq = brq0, mqr_drv_op = MMC_DRV_OP_IOCTL,
     mqr_drv_result = 0, mqr_ioc = [], mqr_ext_csd = [], mqr_retries = 0\<rparr>"

definition blk_ok :: blk_world where
  "blk_ok = \<lparr>bw_world = world_ok, bw_layer = layer_ok, bw_md = md_ok, bw_part_curr = 0, bw_main_type = 0,
     bw_reqs = read_ok, bw_mq = fst (mmc_init_queue host_ok card0), bw_dispatch = None, bw_answers = [],
     bw_cqe = [], bw_completing = [], bw_recovery_work = False, bw_complete_work = False, bw_log = []\<rparr>"

section \<open>Requests that fail at once\<close>

text \<open>The world after a hold that was given back.\<close>

definition touched :: "mmc_world \<Rightarrow> mmc_world" where
  "touched w = upd_host (\<lambda>h. h\<lparr>h_retune_now := h_hold_retune h = 0 \<or> h_retune_now h\<rparr>) w"

lemma failed_request:
  assumes "run_state (mmc_start_request hooks m) w = ((err, q), held w)" and "err \<noteq> 0" "err \<noteq> - 110"
    and "cmd_retries (mrq_cmd q) = 0 \<or> mmc_card_removed w"
  shows "run_state (mmc_wait_for_req hooks m) w = (set_cmd_error err q, touched w)"
proof -
  have "wait_req_loop hooks (set_cmd_error err q) (held w) = (set_cmd_error err q, held w)"
    using assms(2-4) by (subst wait_req_loop.simps) (auto simp: set_cmd_error_def held_def upd_host_def mmc_card_removed_def)
  moreover have "run_state mmc_retune_release (held w) = ((), touched w)"
    by (simp add: mmc_retune_release_def held_def touched_def upd_host_def)
  ultimately show ?thesis using assms(1,2)
    by (simp add: mmc_wait_for_req_def mmc_start_req_def mmc_wait_for_req_done_def)
qed

lemma removed_request:
  "mmc_card_removed w \<Longrightarrow> run_state (mmc_wait_for_req hooks m) w = (set_cmd_error (- 123) m, touched w)"
  by (rule failed_request) (simp_all add: mmc_start_request_def run_hold held_def upd_host_def mmc_card_removed_def)

lemma refused_request:
  assumes "\<not> mmc_card_removed w" and "mmc_mrq_prep (w_host w) m = (err, q)" "err \<noteq> 0" "err \<noteq> - 110"
    and "cmd_retries (mrq_cmd q) = 0"
  shows "run_state (mmc_wait_for_req hooks m) w = (set_cmd_error err q, touched w)"
proof (rule failed_request)
  have "mmc_mrq_prep (w_host (held w)) m = (err, q)"
    using assms(2) by (cases "mrq_data m") (simp_all add: mmc_mrq_prep_def held_def upd_host_def)
  moreover have "\<not> mmc_card_removed (held w)" using assms(1) by (simp add: held_def upd_host_def mmc_card_removed_def)
  ultimately show "run_state (mmc_start_request hooks m) w = ((err, q), held w)"
    using assms(3) by (simp add: mmc_start_request_def run_hold)
qed (use assms in simp_all)

lemma removed_switch:
  assumes "mmc_card_removed w"
  shows "fst (run_state (mmc_switch hooks cset index val tm) w) = - 123"
proof -
  have "mmc_card_removed (held w)" using assms by (simp add: held_def upd_host_def mmc_card_removed_def)
  then show ?thesis
    by (simp add: mmc_switch_def mmc_switch_full_def run_hold mmc_wait_for_cmd_def removed_request split_beta
        set_cmd_error_def mrq_of_def Let_def)
qed

lemma status_quiet:
  assumes "quiet w"
  shows "\<exists>v. run_state (mmc_send_status hooks) w =
    ((0, resp4 (cpl_cmd_resp (op_request (w_ops w) (w_trace w) (sent (cmd0\<lparr>cmd_opcode := MMC_SEND_STATUS,
       cmd_arg := (if mmc_host_is_spi w then 0 else rca_arg w),
       cmd_flags := {MMC_RSP_SPI_R2, MMC_RSP_R1, MMC_CMD_AC}\<rparr>) MMC_CMD_RETRIES))) ! 0), v)"
  using assms by (simp add: mmc_send_status_def send_status_retries_def cmd_quiet cmd0_def)

end
