(* ===== verification/Block_Properties.thy ===== *)
theory Block_Properties
  imports Block_Queue_Runs Block_Partitions Example_Disk
begin

text \<open>
  The properties of the block device: its queue, what it reads, writes and erases, and its disks.
\<close>

section \<open>The queue\<close>

text \<open>The requests that were dispatched and did not come back yet, with the dispatch that sleeps.\<close>

definition in_system :: "blk_world \<Rightarrow> nat" where
  "in_system s = length (bw_answers s) + length (bw_cqe s) + (if mq_complete_req (bw_mq s) = None then 0 else 1) +
    (if mq_recovery_req (bw_mq s) = None then 0 else 1) +
    (if mq_use_cqe (bw_mq s) then length (bw_completing s) else 0) + (if bw_dispatch s = None then 0 else 1)"

lemma in_system_view: "in_system s = pending (view s) + (if qv_dispatch (view s) = None then 0 else Suc 0)"
  by (simp add: in_system_def pending_def view_def)

lemma inv_accounts:
  assumes "queue_inv (view s)"
  shows "mmc_tot_in_flight (bw_mq s) = int (in_system s) \<and> cards_held (bw_log s) = (if in_system s = 0 then 0 else 1)"
proof -
  have "mmc_tot_in_flight (qv_mq (view s)) = int (in_system s)" "balanced 0 (view s)"
    using queue_flight [OF assms] by (auto simp: flight_inv_def in_system_view)
  then show ?thesis by (auto simp: balanced_def view_def)
qed

text \<open>
  C4: whatever happens to a queue, its count of requests in flight is the number of requests that
  are on their way, and it holds the card once exactly while there are any.
\<close>

theorem queue_accounts:
  assumes "fresh s" and "queue_run es s u"
  shows "mmc_tot_in_flight (bw_mq u) = int (in_system u) \<and>
    cards_held (bw_log u) = (if in_system u = 0 then 0 else 1)"
  using inv_accounts [OF fresh_run [OF assms]] .

lemma fresh_ok: "fresh blk_ok"
  by (simp add: fresh_def blk_ok_def world_ok_def)

text \<open>A run of the example: a read is dispatched.\<close>

lemma dispatch_ok: "\<exists>u. queue_run [Dispatch 0] blk_ok u"
proof -
  obtain r u where "run_state (mmc_mq_queue_rq 0) blk_ok = (r, u)" by fastforce
  then show ?thesis by (blast intro: queue_step.intros queue_run.intros)
qed

lemma queue_accounts_witness:
  "\<exists>u. queue_run [Dispatch 0] blk_ok u \<and> mmc_tot_in_flight (bw_mq u) = int (in_system u) \<and>
    cards_held (bw_log u) = (if in_system u = 0 then 0 else 1)"
  using dispatch_ok queue_accounts [OF fresh_ok] by blast

text \<open>
  C5: without a command queue the controller works on one request at a time; when it answers, no
  other request waits to be completed or recovered, so none is overwritten; and the recovery that is
  scheduled finds its request and comes to an end.
\<close>

theorem one_request_at_a_time:
  assumes "fresh s" and "queue_run es s u"
  shows "length (bw_answers u) \<le> 1 \<and>
    (bw_answers u \<noteq> [] \<longrightarrow> mq_complete_req (bw_mq u) = None \<and> mq_recovery_req (bw_mq u) = None) \<and>
    (bw_recovery_work u \<longrightarrow> (\<exists>v. run_state (mmc_mq_recovery_handler ans) u = (Some (), v)))"
proof (intro conjI)
  have inv: "queue_inv (view u)" by (rule fresh_run [OF assms])
  from queue_flight [OF this] have "flight_inv (if qv_dispatch (view u) = None then 0 else Suc 0) (view u)" .
  then show "length (bw_answers u) \<le> 1"
    and "bw_answers u \<noteq> [] \<longrightarrow> mq_complete_req (bw_mq u) = None \<and> mq_recovery_req (bw_mq u) = None"
    by (cases "bw_answers u"; simp add: flight_inv_def view_def)+
  show "bw_recovery_work u \<longrightarrow> (\<exists>v. run_state (mmc_mq_recovery_handler ans) u = (Some (), v))"
    using recovery_work_inv [OF _ inv] by blast
qed

lemma one_request_at_a_time_witness:
  "\<exists>u. queue_run [Dispatch 0] blk_ok u \<and> length (bw_answers u) \<le> 1"
  using dispatch_ok one_request_at_a_time [OF fresh_ok] by blast



section \<open>Reads and writes\<close>

text \<open>
  C7: a request within the limits that \<open>mmc_setup_queue\<close> gives the block layer is prepared so that
  the core accepts it: \<open>mmc_mrq_prep\<close> finds block size, count and total in range and as many bytes
  in the segments, also when the request is cut.
\<close>

theorem prepared_request_accepted:
  assumes "within_limits (mmc_setup_queue use_cqe (w_host w) (w_card w)) r" and "quirk_ok w"
    and "512 \<le> h_max_blk_size (w_host w)" and "h_max_req_size (w_host w) < 2 ^ 31"
    and "sg_total (bl_map_sg bl r) = unat (rq_bytes r)"
  shows "fst (mmc_mrq_prep (w_host w) (mrq_of_brq (mmc_blk_rw_rq_prep w bl md r disable_multi))) = 0"
proof -
  let ?b = "mmc_blk_rw_rq_prep w bl md r disable_multi"
  let ?d = "brq_data ?b"
  note r = within_bytes [OF assms(1,4)]
  have d: "brq_has_data ?b" "dat_blksz ?d = 512" "dat_blocks ?d \<le> rq_sectors r"
    "dat_sg ?d = (if dat_blocks ?d \<noteq> rq_sectors r then adjust_sg (sint (push_bit 9 (dat_blocks ?d))) (bl_map_sg bl r)
      else bl_map_sg bl r)"
    using prep_data [OF assms(2), where r = r and md = md and b = disable_multi and bl = bl] r by (auto simp: Let_def)
  have le: "unat (dat_blocks ?d) * 512 \<le> unat (rq_sectors r) * 512" using d(3) by (simp add: word_le_nat_alt)
  with r have n: "unat (dat_blocks ?d * 512) = unat (dat_blocks ?d) * 512"
    "sint (push_bit 9 (dat_blocks ?d)) = int (unat (dat_blocks ?d) * 512)"
    using unat_times_512 [of "dat_blocks ?d"] by linarith+
  have "sg_total (dat_sg ?d) = unat (dat_blocks ?d) * 512"
    using d(4) [unfolded n(2)] adjust_total_nat [of "unat (dat_blocks ?d) * 512" "bl_map_sg bl r"] le r assms(5)
    by (cases "dat_blocks ?d = rq_sectors r") (simp_all del: of_nat_mult)
  with n(1) have "sum_list (dat_sg ?d) = dat_blocks ?d * 512"
    unfolding sum_list_unat by (metis of_nat_unat ucast_id)
  moreover have "dat_blocks ?d \<le> h_max_blk_count (w_host w)" using d(3) r by auto
  moreover have "dat_blocks ?d * 512 \<le> h_max_req_size (w_host w)"
    using le r n(1) by (simp add: word_le_nat_alt)
  ultimately show ?thesis
    using d(1,2) assms(3) by (simp add: mmc_mrq_prep_def mrq_of_brq_def Let_def not_less)
qed

lemma prepared_request_accepted_witness:
  "fst (mmc_mrq_prep host_ok (mrq_of_brq (mmc_blk_rw_rq_prep world_ok layer_ok md_ok (mqr_req (read_ok 0)) True))) = 0"
proof -
  let ?r = "mqr_req (read_ok 0)"
  have "rq_sectors ?r = 8" by (simp add: rq_sectors_def read_ok_def)
  then have "within_limits (mmc_setup_queue False (w_host world_ok) (w_card world_ok)) ?r"
    by (simp add: within_limits_def mmc_setup_queue_def read_ok_def world_ok_def host_ok_def)
  moreover have "quirk_ok world_ok" by (simp add: quirk_ok_def world_ok_def host_ok_def ops_ok_def)
  moreover have "512 \<le> h_max_blk_size (w_host world_ok)" "h_max_req_size (w_host world_ok) < 2 ^ 31"
    "sg_total (bl_map_sg layer_ok ?r) = unat (rq_bytes ?r)"
    by (simp_all add: world_ok_def host_ok_def sg_total_def layer_ok_def)
  ultimately show ?thesis
    using prepared_request_accepted [of False world_ok ?r layer_ok md_ok True] by (simp add: world_ok_def)
qed

text \<open>
  C20: when a read of many blocks is repeated sector by sector and the command of the first sector
  fails, the block layer is told that the sector was read: the retry jumps to the condition of
  the loop, which completes the sector with the status of the sector before.
\<close>

theorem read_single_reports_unread:
  assumes "run_state (read_sector t) s = (Some (b, status), v)" and "cmd_error (brq_cmd b) \<noteq> 0"
  shows "\<exists>es. bw_log (snd (run_state (mmc_blk_read_single t) s)) = bw_log s @ BlkUpdate t BLK_STS_OK 512 # es"
proof -
  obtain pending u where u: "run_state (blk_update_request t BLK_STS_OK 512) v = (pending, u)" by fastforce
  have log: "bw_log u = bw_log s @ [BlkUpdate t BLK_STS_OK 512]"
    using update_logs [of t BLK_STS_OK 512 v] u sector_keeps [OF assms(1)] by simp
  have "log_grows u (snd (read_single t 0 BLK_STS_OK s))"
    using assms u read_single_grows lg.rfl
    by (subst read_single.simps) (simp add: sector_result_def)
  with log show ?thesis by (auto simp: mmc_blk_read_single_def log_grows_def prefix_def)
qed

text \<open>A host that cannot transfer blocks, so that every read is refused.\<close>

definition blk_refusing :: blk_world where
  "blk_refusing = blk_ok\<lparr>bw_world := upd_host (\<lambda>h. h\<lparr>h_max_blk_size := 0\<rparr>) world_ok\<rparr>"

lemma refused_prep:
  "h_max_blk_size (w_host w) = 0 \<Longrightarrow> \<exists>q. mmc_mrq_prep (w_host w) (mrq_of_brq (mmc_blk_rw_rq_prep w bl md r b)) = (- 22, q) \<and>
    cmd_retries (mrq_cmd q) = 0"
  using prep_shape [of w bl md r b] by (simp add: mmc_mrq_prep_def mrq_of_brq_def clear_error_def)

lemma refused_sector:
  "\<exists>b status v. run_state (read_sector 0) blk_refusing = (Some (b, status), v) \<and> cmd_error (brq_cmd b) \<noteq> 0"
proof -
  let ?w = "upd_host (\<lambda>h. h\<lparr>h_max_blk_size := 0\<rparr>) world_ok"
  let ?b = "mmc_blk_rw_rq_prep ?w layer_ok md_ok (mqr_req (read_ok 0)) True"
  have "h_max_blk_size (w_host ?w) = 0" by (simp add: upd_host_def)
  from refused_prep [OF this] obtain q where q: "mmc_mrq_prep (w_host ?w) (mrq_of_brq ?b) = (- 22, q)"
    "cmd_retries (mrq_cmd q) = 0" by blast
  have quiet: "quiet ?w" "quiet (touched ?w)"
    by (simp_all add: quiet_def touched_def upd_host_def world_defs mmc_card_removed_def card_state_def)
  then have read: "run_state (mmc_wait_for_req hooks (mrq_of_brq ?b)) ?w = (set_cmd_error (- 22) q, touched ?w)"
    by (intro refused_request q) (simp_all add: quiet_def)
  obtain v where v: "run_state (mmc_send_status hooks) (touched ?w) = ((0, 0x900), v)"
    using status_quiet [OF quiet(2)] by (auto simp: touched_def upd_host_def world_defs resp4_def)
  have "mmc_blk_in_tran_state 0x900" by (simp add: mmc_blk_in_tran_state_def R1_CURRENT_STATE_def)
  then show ?thesis
    using read v
    by (simp add: read_sector_def rw_prep_def blk_refusing_def blk_ok_def upd_brq_def upd_mqr_def split_beta Let_def
        brq_of_mrq_def set_cmd_error_def)
qed

lemma read_single_reports_unread_witness:
  "\<exists>es. bw_log (snd (run_state (mmc_blk_read_single 0) blk_refusing)) = BlkUpdate 0 BLK_STS_OK 512 # es"
proof -
  have "bw_log blk_refusing = []" by (simp add: blk_refusing_def blk_ok_def)
  with refused_sector read_single_reports_unread show ?thesis by (metis append_Nil)
qed

section \<open>Resets and discards\<close>

text \<open>
  C21: a secure discard that fails with an input/output error, or whose vendor command fails, and
  after which the card cannot be reset is reported to the block layer as done.
\<close>

theorem secdiscard_failure_ok:
  assumes "mmc_can_secure_erase_trim (w_card (bw_world s))"
    and "arg = (if mmc_can_trim (w_card (bw_world s)) \<and> \<not> mmc_erase_group_aligned (w_card (bw_world s)) (ucast (rq_pos r)) (rq_sectors r)
      then MMC_SECURE_TRIM1_ARG else MMC_SECURE_ERASE_ARG)"
    and "r = mqr_req (bw_reqs s t)"
    and "run_state (secdiscard_round (ucast (rq_pos r)) (rq_sectors r) arg) (bw_world s) = (Inr err, w)"
    and "run_state (mmc_blk_reset MMC_BLK_SECDISCARD) (s\<lparr>bw_world := w\<rparr>) = (failed, u)" and "failed \<noteq> 0"
  shows "bw_log (snd (run_state (mmc_blk_issue_secdiscard_rq t) s)) = bw_log u @ [BlkEnd t BLK_STS_OK]"
proof -
  have "reset_loop MMC_BLK_SECDISCARD (secdiscard_round (ucast (rq_pos r)) (rq_sectors r) arg) s = (Inr err, u)"
    using assms(4-6) by (subst reset_loop.simps) simp
  then show ?thesis using assms(1-3)
    by (simp add: mmc_blk_issue_secdiscard_rq_def Let_def blk_mq_end_request_def note_blk_def)
qed

text \<open>A card that was removed, and that was reset after an earlier secure discard.\<close>

definition blk_removed :: blk_world where
  "blk_removed = blk_ok\<lparr>bw_world := world_ok\<lparr>w_card := card0\<lparr>cd_state := 16, cd_quirks := {MMC_QUIRK_INAND_CMD38},
      cd_ext_csd := ext_csd0\<lparr>ec_sec_feature_support := 1\<rparr>\<rparr>\<rparr>, bw_md := md_ok\<lparr>md_reset_done := 8\<rparr>\<rparr>"

lemma secdiscard_failure_ok_witness:
  "bw_log (snd (run_state (mmc_blk_issue_secdiscard_rq 0) blk_removed)) = [BlkEnd 0 BLK_STS_OK]"
proof -
  let ?s = blk_removed
  let ?c = "w_card (bw_world ?s)" and ?r = "mqr_req (bw_reqs ?s 0)"
  define arg :: u32 where "arg = (if mmc_can_trim ?c \<and> \<not> mmc_erase_group_aligned ?c (ucast (rq_pos ?r)) (rq_sectors ?r)
    then MMC_SECURE_TRIM1_ARG else MMC_SECURE_ERASE_ARG)"
  have can: "mmc_can_secure_erase_trim ?c"
    by (simp add: mmc_can_secure_erase_trim_def blk_removed_def)
  have "mmc_card_removed (bw_world ?s)" "MMC_QUIRK_INAND_CMD38 \<in> cd_quirks ?c"
    by (simp_all add: mmc_card_removed_def card_state_def blk_removed_def world_ok_def host_ok_def)
  then obtain w where w: "run_state (secdiscard_round (ucast (rq_pos ?r)) (rq_sectors ?r) arg) (bw_world ?s) = (Inr (- 123), w)"
    by (simp add: secdiscard_round_def inand_cmd38_def split_beta removed_switch)
  have "run_state (mmc_blk_reset MMC_BLK_SECDISCARD) (?s\<lparr>bw_world := w\<rparr>) = (- 17, ?s\<lparr>bw_world := w\<rparr>)"
    by (simp add: mmc_blk_reset_def blk_removed_def md_ok_def)
  from secdiscard_failure_ok [OF can arg_def refl w this] show ?thesis
    by (simp add: blk_removed_def blk_ok_def)
qed

section \<open>Disks and partitions\<close>

text \<open>
  C19: a disk that offers reliable writes predefines the number of blocks: every forced write to a
  disk that a probe made is sent as a multiple-block write behind a SET_BLOCK_COUNT with the
  reliable bit, and a card without the enhanced kind gets one block or as many as its register says.
\<close>

theorem reliable_write_predefined:
  fixes bl disable_multi
  assumes "mmc_blk_probe h c0 = Inr (w_card w, main, parts, rpmbs)" and "d \<in> insert main (set parts)"
    and "md_rel_wr (dk_md d)" and "rq_write r" and "rq_fua r"
  defines "b \<equiv> mmc_blk_rw_rq_prep w bl (dk_md d) r disable_multi"
  shows "cmd_opcode (brq_cmd b) = MMC_WRITE_MULTIPLE_BLOCK \<and> brq_has_sbc b \<and>
    cmd_opcode (brq_sbc b) = MMC_SET_BLOCK_COUNT \<and> cmd_arg (brq_sbc b) AND 0x80000000 \<noteq> 0 \<and>
    (ec_rel_param (cd_ext_csd (w_card w)) AND EXT_CSD_WR_REL_PARAM_EN = 0 \<longrightarrow>
      dat_blocks (brq_data b) = 1 \<or> dat_blocks (brq_data b) = ucast (ec_rel_sectors (cd_ext_csd (w_card w))))"
proof -
  have "md_cmd23 (dk_md d)" using probe_cmd23 [OF assms(1-3)] .
  with assms(3-5) show ?thesis
    unfolding b_def by (intro conjI impI rel_prep(1-4) rel_prep_blocks)
qed

text \<open>A card of version 4 with reliable writes of 8 sectors, on a host with SET_BLOCK_COUNT.\<close>

definition card_rel :: mmc_card where
  "card_rel = card0\<lparr>cd_csd := csd0\<lparr>csd_cmdclass := 20, csd_mmca_vsn := 4\<rparr>,
     cd_ext_csd := ext_csd0\<lparr>ec_rel_sectors := 8\<rparr>\<rparr>"

lemma reliable_write_predefined_witness:
  "\<exists>c (d :: blk_disk). (let b = mmc_blk_rw_rq_prep (world_ok\<lparr>w_card := c\<rparr>) layer_ok (dk_md d)
      (mqr_req (read_ok 0)\<lparr>rq_op := REQ_OP_WRITE, rq_fua := True\<rparr>) False in
    brq_has_sbc b \<and> cmd_arg (brq_sbc b) AND 0x80000000 \<noteq> 0 \<and> (dat_blocks (brq_data b) = 1 \<or> dat_blocks (brq_data b) = 8))"
proof -
  define h where "h = host_ok\<lparr>h_caps := {MMC_CAP_CMD23}\<rparr>"
  define c where "c = mmc_fixup_device mmc_blk_fixups card_rel"
  let ?w = "world_ok\<lparr>w_card := c\<rparr>"
  let ?d = "mmc_blk_alloc h c"
  have x: "cd_ext_csd c = ext_csd0\<lparr>ec_rel_sectors := 8\<rparr>" "cd_csd c = csd0\<lparr>csd_cmdclass := 20, csd_mmca_vsn := 4\<rparr>"
    "cd_type c = MMC_TYPE_MMC" by (simp_all add: c_def card_rel_def card0_def)
  have p: "mmc_blk_probe h card_rel = Inr (w_card ?w, ?d, fst (mmc_blk_alloc_parts h c), snd (mmc_blk_alloc_parts h c))"
    by (simp add: mmc_blk_probe_def c_def Let_def) (simp add: card_rel_def)
  have "md_rel_wr (dk_md ?d)"
    using x by (simp add: mmc_blk_alloc_def alloc_flags blk_rel_wr_def blk_cmd23_def h_def)
  from reliable_write_predefined [OF p _ this, of "mqr_req (read_ok 0)\<lparr>rq_op := REQ_OP_WRITE, rq_fua := True\<rparr>"
      layer_ok False] x(1)
  have "let b = mmc_blk_rw_rq_prep ?w layer_ok (dk_md ?d) (mqr_req (read_ok 0)\<lparr>rq_op := REQ_OP_WRITE, rq_fua := True\<rparr>) False in
    brq_has_sbc b \<and> cmd_arg (brq_sbc b) AND 0x80000000 \<noteq> 0 \<and> (dat_blocks (brq_data b) = 1 \<or> dat_blocks (brq_data b) = 8)"
    by (simp add: Let_def ext_csd0_def)
  then show ?thesis by blast
qed

text \<open>
  C18: the driver knows which partition the card has selected: a switch of partition, successful or
  not, and ioctls, also those that write the register themselves, keep \<open>part_curr\<close> equal to the
  register's access bits; a successful switch selects its partition.
\<close>

theorem partition_tracked:
  assumes "tracked s"
  shows "(a_partition p \<longrightarrow> run_state (mmc_blk_part_switch p) s = (err, u) \<longrightarrow>
      tracked u \<and> (err = 0 \<longrightarrow> bw_part_curr u = p)) \<and>
    ((\<forall>i \<in> set is. a_partition (ioc_target (bw_md s) i)) \<longrightarrow> run_state (blk_ioctl_cmds is) s = (x, v) \<longrightarrow>
      tracked v)"
proof (intro conjI impI)
  assume "a_partition p" and "run_state (mmc_blk_part_switch p) s = (err, u)"
  with part_switch_tracks assms show "tracked u" and "err = 0 \<Longrightarrow> bw_part_curr u = p" by blast+
next
  assume "\<forall>i \<in> set is. a_partition (ioc_target (bw_md s) i)" and run: "run_state (blk_ioctl_cmds is) s = (x, v)"
  from tr.rel_run [OF ioctls_track [OF this(1)] run] assms show "tracked v" by (simp add: tracks_def)
qed

lemma partition_tracked_witness:
  "\<exists>err u. run_state (mmc_blk_part_switch 1) blk_ok = (err, u) \<and> tracked u \<and> (err = 0 \<longrightarrow> bw_part_curr u = 1)"
proof -
  have t: "tracked blk_ok" by (simp add: tracked_def selects_def blk_ok_def world_ok_def card0_def ext_csd0_def)
  have p: "a_partition 1" by (simp add: a_partition_def)
  obtain err u where u: "run_state (mmc_blk_part_switch 1) blk_ok = (err, u)" by fastforce
  from partition_tracked [OF t, THEN conjunct1] p u show ?thesis by blast
qed

end
